(* ===== verification/Prelude.thy ===== *)
theory Prelude
  imports Complex_Main "HOL-Library.Word"
begin

text \<open>
  Shared vocabulary of the development: the machine integers of the Rust source, the
  saturating and wrapping operations it calls, the casts between \<open>u64\<close> identifiers and the
  \<open>i64\<close> columns of SQLite, and generic lemmas on lists.

  Conventions. An identifier or a code that is only compared or packed into bits is a word
  (\<open>u64\<close>, \<open>u32\<close>). An \<open>i64\<close> clock value or column is an \<open>int\<close>, a \<open>usize\<close> or \<open>u64\<close>
  quantity on which the code does arithmetic is a \<open>nat\<close>; wherever that arithmetic can
  leave the type, the saturation or the wrap-around of the source is written out with the
  operations below. A Rust \<open>String\<close> is its sequence of UTF-8 bytes.
\<close>

named_theorems rust_ops \<open>definitions of the arithmetic primitives of the source language\<close>
named_theorems inv_intros \<open>introduction rules of the components' invariants\<close>

type_synonym u8 = "8 word"
type_synonym u32 = "32 word"
type_synonym u64 = "64 word"

subsection \<open>Signed 64-bit values\<close>

definition i64_min :: int where "i64_min = - (2 ^ 63)"
definition i64_max :: int where "i64_max = 2 ^ 63 - 1"

definition in_i64 :: "int \<Rightarrow> bool" where
  "in_i64 x \<longleftrightarrow> i64_min \<le> x \<and> x \<le> i64_max"

text \<open>\<open>i64::saturating_add\<close>, \<open>saturating_sub\<close>, \<open>saturating_mul\<close> and the plain operators, which wrap.\<close>

definition sat_i64 :: "int \<Rightarrow> int" where
  "sat_i64 x = max i64_min (min i64_max x)"

definition wrap_i64 :: "int \<Rightarrow> int" where
  "wrap_i64 x = (x + 2 ^ 63) mod 2 ^ 64 - 2 ^ 63"

definition clamp_int :: "int \<Rightarrow> int \<Rightarrow> int \<Rightarrow> int" where
  "clamp_int x lo hi = (if x < lo then lo else if hi < x then hi else x)"

declare i64_min_def [rust_ops] i64_max_def [rust_ops] in_i64_def [rust_ops]
  sat_i64_def [rust_ops] wrap_i64_def [rust_ops] clamp_int_def [rust_ops]

lemma sat_i64_id [simp]: "in_i64 x \<Longrightarrow> sat_i64 x = x"
  by (simp add: rust_ops)

lemma wrap_i64_id [simp]: "in_i64 x \<Longrightarrow> wrap_i64 x = x"
  by (simp add: rust_ops)

lemma sat_i64_in [simp]: "in_i64 (sat_i64 x)"
  by (auto simp: rust_ops)

lemma sat_i64_mono: "x \<le> y \<Longrightarrow> sat_i64 x \<le> sat_i64 y"
  by (auto simp: rust_ops)

lemma clamp_int_bounds: "lo \<le> hi \<Longrightarrow> lo \<le> clamp_int x lo hi \<and> clamp_int x lo hi \<le> hi"
  by (simp add: clamp_int_def)

text \<open>\<open>rem_euclid\<close> of a positive modulus is Isabelle's \<open>mod\<close>; the signed \<open>/\<close> of Rust truncates
  towards zero.\<close>

definition trunc_div :: "int \<Rightarrow> int \<Rightarrow> int" where
  "trunc_div a b = (let q = abs a div abs b in if (a < 0) = (b < 0) then q else - q)"

lemma trunc_div_nonneg: "0 \<le> a \<Longrightarrow> 0 < b \<Longrightarrow> trunc_div a b = a div b"
  by (cases "a = 0") (auto simp: trunc_div_def sgn_if)

subsection \<open>Unsigned quantities\<close>

definition u32_max :: nat where "u32_max = 2 ^ 32 - 1"
definition u64_max :: nat where "u64_max = 2 ^ 64 - 1"

definition sat_u32 :: "nat \<Rightarrow> nat" where "sat_u32 x = min u32_max x"
definition sat_u64 :: "nat \<Rightarrow> nat" where "sat_u64 x = min u64_max x"
definition wrap_u32 :: "nat \<Rightarrow> nat" where "wrap_u32 x = x mod 2 ^ 32"
definition wrap_u64 :: "nat \<Rightarrow> nat" where "wrap_u64 x = x mod 2 ^ 64"

text \<open>The plain \<open>-\<close> on \<open>u64\<close>, which wraps below zero.\<close>

definition wsub_u64 :: "nat \<Rightarrow> nat \<Rightarrow> nat" where
  "wsub_u64 a b = (a + (2 ^ 64 - b mod 2 ^ 64)) mod 2 ^ 64"

declare u32_max_def [rust_ops] u64_max_def [rust_ops] sat_u32_def [rust_ops]
  sat_u64_def [rust_ops] wrap_u32_def [rust_ops] wrap_u64_def [rust_ops]

lemma wrap_u64_id [simp]: "x < 2 ^ 64 \<Longrightarrow> wrap_u64 x = x"
  by (simp add: wrap_u64_def)

lemma wrap_u32_id [simp]: "x < 2 ^ 32 \<Longrightarrow> wrap_u32 x = x"
  by (simp add: wrap_u32_def)

lemma wsub_u64_id [simp]: "b \<le> a \<Longrightarrow> a < 2 ^ 64 \<Longrightarrow> wsub_u64 a b = a - b"
proof -
  assume ba: "b \<le> a" and a: "a < 2 ^ 64"
  then have "a + (2 ^ 64 - b mod 2 ^ 64) = (a - b) + 2 ^ 64" by simp
  with a show ?thesis by (simp add: wsub_u64_def)
qed

subsection \<open>Casts between \<open>u64\<close> identifiers and \<open>i64\<close> columns\<close>

definition as_i64 :: "u64 \<Rightarrow> int" where "as_i64 w = sint w"
definition as_u64 :: "int \<Rightarrow> u64" where "as_u64 x = word_of_int x"

lemma as_u64_as_i64 [simp]: "as_u64 (as_i64 w) = w"
  by (simp add: as_u64_def as_i64_def)

lemma as_i64_inj [simp]: "as_i64 v = as_i64 w \<longleftrightarrow> v = w"
  by (metis as_u64_as_i64)

lemma as_i64_zero [simp]: "as_i64 0 = 0"
  by (simp add: as_i64_def)

lemma as_i64_eq_0 [simp]: "as_i64 w = 0 \<longleftrightarrow> w = 0"
  by (metis as_i64_inj as_i64_zero)

lemma as_i64_small: "unat w < 2 ^ 63 \<Longrightarrow> as_i64 w = int (unat w)"
proof -
  assume "unat w < 2 ^ 63"
  then have "int (unat w) < int (2 ^ 63)" by (simp only: of_nat_less_iff)
  then have "uint w < 2 ^ 63" by (simp only: of_nat_power of_nat_numeral uint_nat [symmetric])
  moreover have "- (2 ^ 63) \<le> uint w" by (rule order_trans [OF _ uint_ge_0]) simp
  ultimately have "sint w = uint w"
    by (simp add: sint_uint signed_take_bit_int_eq_self)
  then show ?thesis by (simp add: as_i64_def)
qed

subsection \<open>Floating point\<close>

text \<open>An \<open>f64\<close> expression is computed over the rationals with an explicit rounding
  \<open>rnd\<close> after each operation. The theorems hold for every rounding that is monotone, exact
  on the integers up to \<open>2 ^ 53\<close> and within the unit roundoff of IEEE 754; \<open>as\<close> casts to an
  integer truncate.\<close>

definition f64_round :: "(rat \<Rightarrow> rat) \<Rightarrow> bool" where
  "f64_round rnd \<longleftrightarrow> mono rnd \<and> (\<forall>n :: int. \<bar>n\<bar> \<le> 2 ^ 53 \<longrightarrow> rnd (of_int n) = of_int n) \<and>
     (\<forall>x. \<bar>rnd x - x\<bar> \<le> \<bar>x\<bar> / 2 ^ 53)"

lemma f64_round_id [simp]: "f64_round (\<lambda>x. x)"
  by (simp add: f64_round_def monoI)

lemma f64_round_mono: "f64_round rnd \<Longrightarrow> x \<le> y \<Longrightarrow> rnd x \<le> rnd y"
  by (simp add: f64_round_def monoD)

lemma f64_round_int: "f64_round rnd \<Longrightarrow> \<bar>n\<bar> \<le> 2 ^ 53 \<Longrightarrow> rnd (of_int n) = of_int n"
  by (simp add: f64_round_def)

lemma f64_round_err: "f64_round rnd \<Longrightarrow> 0 \<le> x \<Longrightarrow> x - x / 2 ^ 53 \<le> rnd x \<and> rnd x \<le> x + x / 2 ^ 53"
proof -
  assume "f64_round rnd" and x: "0 \<le> x"
  then have "\<bar>rnd x - x\<bar> \<le> \<bar>x\<bar> / 2 ^ 53" unfolding f64_round_def by blast
  with x show ?thesis by (simp only: abs_le_iff abs_of_nonneg) linarith
qed

lemma f64_round_le_int: "f64_round rnd \<Longrightarrow> x \<le> of_int n \<Longrightarrow> \<bar>n\<bar> \<le> 2 ^ 53 \<Longrightarrow> rnd x \<le> of_int n"
  using f64_round_mono f64_round_int by metis

lemma f64_round_ge_int: "f64_round rnd \<Longrightarrow> of_int n \<le> x \<Longrightarrow> \<bar>n\<bar> \<le> 2 ^ 53 \<Longrightarrow> of_int n \<le> rnd x"
  using f64_round_mono f64_round_int by metis

subsection \<open>Lists\<close>

text \<open>The first element of a list that satisfies a predicate, \<open>LIMIT 1\<close> of a scan in row order.\<close>

lemma find_Some_mem: "find P xs = Some x \<Longrightarrow> x \<in> set xs \<and> P x"
  by (auto simp: find_Some_iff)

lemma find_None_not: "find P xs = None \<Longrightarrow> x \<in> set xs \<Longrightarrow> \<not> P x"
  by (auto simp: find_None_iff)

lemma map_if_id: "(\<And>x. x \<in> set xs \<Longrightarrow> \<not> P x) \<Longrightarrow> map (\<lambda>x. if P x then f x else x) xs = xs"
  by (induction xs) auto

lemma filter_map_if_same:
  "(\<And>x. P x \<Longrightarrow> Q (f x) = Q x) \<Longrightarrow>
    filter Q (map (\<lambda>x. if P x then f x else x) xs) = map (\<lambda>x. if P x then f x else x) (filter Q xs)"
  by (induction xs) auto

lemma sum_list_take_le: "sum_list (take n xs) \<le> (sum_list xs :: nat)"
  by (metis append_take_drop_id le_add1 sum_list_append)

lemma distinct_map_filterI: "distinct (map f xs) \<Longrightarrow> distinct (map f (filter P xs))"
  by (induction xs) auto

end
