(* ===== verification/Rust_Text.thy ===== *)
theory Rust_Text
  imports Prelude "HOL-Library.Char_ord"
begin

text \<open>
  The string operations of the Rust standard library that the components call: decimal
  formatting and \<open>str::parse\<close> of integers, \<open>trim\<close>, \<open>to_ascii_lowercase\<close>, \<open>contains\<close>,
  \<open>split\<close>, \<open>strip_prefix\<close>, \<open>split_once\<close> and \<open>rsplit_once\<close>. A string is its list of UTF-8
  bytes; every separator the code splits on is ASCII, so splitting bytes and splitting
  characters agree.
\<close>

subsection \<open>Decimal numbers\<close>

definition digit_char :: "nat \<Rightarrow> char" where
  "digit_char d = char_of (48 + d)"

definition is_ascii_digit :: "char \<Rightarrow> bool" where
  "is_ascii_digit c \<longleftrightarrow> 48 \<le> (of_char c :: nat) \<and> (of_char c :: nat) \<le> 57"

definition digit_val :: "char \<Rightarrow> nat" where
  "digit_val c = of_char c - 48"

fun show_nat :: "nat \<Rightarrow> string" where
  "show_nat n = (if n < 10 then [digit_char n] else show_nat (n div 10) @ [digit_char (n mod 10)])"

declare show_nat.simps [simp del]

definition show_int :: "int \<Rightarrow> string" where
  "show_int i = (if i < 0 then CHR ''-'' # show_nat (nat (- i)) else show_nat (nat i))"

definition show_u64 :: "u64 \<Rightarrow> string" where "show_u64 w = show_nat (unat w)"

definition digits_val :: "string \<Rightarrow> nat" where
  "digits_val ds = foldl (\<lambda>acc c. acc * 10 + digit_val c) 0 ds"

text \<open>An unsigned parse: an optional plus sign, at least one digit, no overflow of the type.\<close>

definition parse_unsigned :: "nat \<Rightarrow> string \<Rightarrow> nat option" where
  "parse_unsigned bound s =
     (let ds = (case s of CHR ''+'' # r \<Rightarrow> r | _ \<Rightarrow> s)
      in if ds \<noteq> [] \<and> list_all is_ascii_digit ds \<and> digits_val ds < bound
         then Some (digits_val ds) else None)"

definition parse_u16 :: "string \<Rightarrow> nat option" where "parse_u16 = parse_unsigned (2 ^ 16)"
definition parse_u32 :: "string \<Rightarrow> nat option" where "parse_u32 = parse_unsigned (2 ^ 32)"
definition parse_u64 :: "string \<Rightarrow> nat option" where "parse_u64 = parse_unsigned (2 ^ 64)"

text \<open>A signed parse: an optional sign, at least one digit, the value within the type.\<close>

definition parse_signed :: "nat \<Rightarrow> string \<Rightarrow> int option" where
  "parse_signed half s =
     (let neg = (case s of CHR ''-'' # _ \<Rightarrow> True | _ \<Rightarrow> False);
          ds = (case s of CHR ''-'' # r \<Rightarrow> r | CHR ''+'' # r \<Rightarrow> r | _ \<Rightarrow> s)
      in if ds \<noteq> [] \<and> list_all is_ascii_digit ds \<and>
            (if neg then digits_val ds \<le> half else digits_val ds < half)
         then Some (if neg then - int (digits_val ds) else int (digits_val ds)) else None)"

definition parse_i64 :: "string \<Rightarrow> int option" where "parse_i64 = parse_signed (2 ^ 63)"
definition parse_i32 :: "string \<Rightarrow> int option" where "parse_i32 = parse_signed (2 ^ 31)"

subsection \<open>White space, case, search\<close>

definition ascii_lower :: "char \<Rightarrow> char" where
  "ascii_lower c = (let n = (of_char c :: nat) in if 65 \<le> n \<and> n \<le> 90 then char_of (n + 32) else c)"

definition to_ascii_lowercase :: "string \<Rightarrow> string" where
  "to_ascii_lowercase s = map ascii_lower s"

definition is_ascii_alphanumeric :: "char \<Rightarrow> bool" where
  "is_ascii_alphanumeric c \<longleftrightarrow> (let n = (of_char c :: nat)
     in (48 \<le> n \<and> n \<le> 57) \<or> (65 \<le> n \<and> n \<le> 90) \<or> (97 \<le> n \<and> n \<le> 122))"

definition bytes :: "nat list \<Rightarrow> string" where
  "bytes ns = map char_of ns"

text \<open>The UTF-8 encodings of the characters with Unicode property White\_Space, which
  \<open>str::trim\<close> removes.\<close>

definition white_space :: "string list" where
  "white_space = map bytes
     ([[9], [10], [11], [12], [13], [32], [194, 133], [194, 160], [225, 154, 128]] @
      map (\<lambda>b. [226, 128, b]) [128 ..< 139] @
      [[226, 128, 168], [226, 128, 169], [226, 128, 175], [226, 129, 159], [227, 128, 128]])"

definition starts_with :: "string \<Rightarrow> string \<Rightarrow> bool" where
  "starts_with p s \<longleftrightarrow> take (length p) s = p"

function strip_leading :: "string list \<Rightarrow> string \<Rightarrow> string" where
  "strip_leading ws s =
     (case find (\<lambda>w. w \<noteq> [] \<and> starts_with w s) ws of
        None \<Rightarrow> s
      | Some w \<Rightarrow> strip_leading ws (drop (length w) s))"
  by pat_completeness auto
termination
proof (relation "measure (\<lambda>(ws, s). length s)", goal_cases)
  case 1
  show ?case by simp
next
  case (2 ws s w)
  then have "w \<noteq> []" and "take (length w) s = w"
    by (auto dest: find_Some_mem simp: starts_with_def)
  then have "s \<noteq> []" by auto
  with \<open>w \<noteq> []\<close> show ?case by simp
qed

declare strip_leading.simps [simp del]

definition trim_start :: "string \<Rightarrow> string" where "trim_start s = strip_leading white_space s"
definition trim_end :: "string \<Rightarrow> string" where
  "trim_end s = rev (strip_leading (map rev white_space) (rev s))"
definition trim :: "string \<Rightarrow> string" where "trim s = trim_end (trim_start s)"

fun contains :: "string \<Rightarrow> string \<Rightarrow> bool" where
  "contains p [] = (p = [])"
| "contains p (c # cs) = (starts_with p (c # cs) \<or> contains p cs)"

fun split_on :: "(char \<Rightarrow> bool) \<Rightarrow> string \<Rightarrow> string list" where
  "split_on sep [] = [[]]"
| "split_on sep (c # cs) =
     (if sep c then [] # split_on sep cs
      else (case split_on sep cs of [] \<Rightarrow> [[c]] | t # ts \<Rightarrow> (c # t) # ts))"

text \<open>The part before and the part after the first separator; and after the last one.\<close>

fun split_once :: "char \<Rightarrow> string \<Rightarrow> (string \<times> string) option" where
  "split_once c [] = None"
| "split_once c (x # xs) =
     (if x = c then Some ([], xs)
      else map_option (\<lambda>(a, b). (x # a, b)) (split_once c xs))"

definition rsplit_once :: "char \<Rightarrow> string \<Rightarrow> (string \<times> string) option" where
  "rsplit_once c s = map_option (\<lambda>(a, b). (rev b, rev a)) (split_once c (rev s))"

definition strip_prefix :: "string \<Rightarrow> string \<Rightarrow> string option" where
  "strip_prefix p s = (if starts_with p s then Some (drop (length p) s) else None)"

definition eq_ignore_ascii_case :: "string \<Rightarrow> string \<Rightarrow> bool" where
  "eq_ignore_ascii_case a b \<longleftrightarrow> to_ascii_lowercase a = to_ascii_lowercase b"

subsection \<open>Round trips and basic facts\<close>

lemma of_char_digit_char [simp]: "d < 10 \<Longrightarrow> (of_char (digit_char d) :: nat) = 48 + d"
  by (simp add: digit_char_def of_char_of)

lemma is_ascii_digit_digit_char [simp]: "d < 10 \<Longrightarrow> is_ascii_digit (digit_char d)"
  by (simp add: is_ascii_digit_def)

lemma digit_val_digit_char [simp]: "d < 10 \<Longrightarrow> digit_val (digit_char d) = d"
  by (simp add: digit_val_def)

lemma digits_val_snoc [simp]: "digits_val (ds @ [c]) = digits_val ds * 10 + digit_val c"
  by (simp add: digits_val_def)

lemma digits_val_Nil [simp]: "digits_val [] = 0"
  by (simp add: digits_val_def)

lemma show_nat_not_Nil [simp]: "show_nat n \<noteq> []"
  by (subst show_nat.simps) simp

lemma show_nat_digits: "list_all is_ascii_digit (show_nat n)"
proof (induction n rule: show_nat.induct)
  case (1 n)
  then show ?case by (cases "n < 10") (simp_all add: show_nat.simps [of n])
qed

lemma digits_val_show_nat [simp]: "digits_val (show_nat n) = n"
proof (induction n rule: show_nat.induct)
  case (1 n)
  show ?case
  proof (cases "n < 10")
    case True
    then show ?thesis using digits_val_snoc [of "[]"] by (simp add: show_nat.simps [of n])
  next
    case False
    with 1 show ?thesis by (simp add: show_nat.simps [of n])
  qed
qed

lemma show_nat_hd: "show_nat n = c # r \<Longrightarrow> is_ascii_digit c"
  using show_nat_digits [of n] by simp

lemma is_ascii_digit_not_sign: "is_ascii_digit c \<Longrightarrow> c \<noteq> CHR ''+'' \<and> c \<noteq> CHR ''-''"
  by (auto simp: is_ascii_digit_def)

lemma show_nat_no_sign:
  "(case show_nat n of CHR ''+'' # r \<Rightarrow> r | _ \<Rightarrow> show_nat n) = show_nat n"
proof (cases "show_nat n")
  case (Cons c r)
  with show_nat_hd have "c \<noteq> CHR ''+''" using is_ascii_digit_not_sign by blast
  with Cons show ?thesis by (auto split: char.splits bool.splits)
qed simp

lemma parse_unsigned_show [simp]: "n < b \<Longrightarrow> parse_unsigned b (show_nat n) = Some n"
  by (simp only: parse_unsigned_def Let_def show_nat_no_sign)
     (simp add: show_nat_digits)

lemma parse_u64_show_u64 [simp]: "parse_u64 (show_u64 w) = Some (unat w)"
proof -
  have "unat w < 2 ^ LENGTH(64)" by (rule unsigned_less)
  then show ?thesis by (simp add: parse_u64_def show_u64_def)
qed

lemma parse_unsigned_bound: "parse_unsigned b s = Some n \<Longrightarrow> n < b"
  by (auto simp: parse_unsigned_def Let_def split: if_splits)

lemma split_on_not_Nil [simp]: "split_on sep s \<noteq> []"
  by (induction s) (auto split: list.splits)

lemma split_on_none: "(\<And>c. c \<in> set s \<Longrightarrow> \<not> sep c) \<Longrightarrow> split_on sep s = [s]"
  by (induction s) auto

lemma split_on_append:
  "(\<And>c. c \<in> set a \<Longrightarrow> \<not> sep c) \<Longrightarrow> sep x \<Longrightarrow> split_on sep (a @ x # b) = a # split_on sep b"
  by (induction a) auto

lemma split_once_append:
  "c \<notin> set a \<Longrightarrow> split_once c (a @ c # b) = Some (a, b)"
  by (induction a) auto

lemma split_once_None: "split_once c s = None \<longleftrightarrow> c \<notin> set s"
  by (induction s) auto

lemma split_once_Some: "split_once c s = Some (a, b) \<Longrightarrow> s = a @ c # b \<and> c \<notin> set a"
  by (induction s arbitrary: a) (auto split: if_splits)

lemma digits_set: "c \<in> set (show_nat n) \<Longrightarrow> is_ascii_digit c"
  using show_nat_digits [of n] by (simp add: list_all_iff)

text \<open>A decimal number has no surrounding white space, so \<open>trim\<close> keeps it.\<close>

definition no_ws_byte :: "char \<Rightarrow> bool" where
  "no_ws_byte c \<longleftrightarrow> 33 \<le> (of_char c :: nat) \<and> (of_char c :: nat) \<le> 126"

lemma white_space_bytes: "w \<in> set white_space \<Longrightarrow> w \<noteq> [] \<and> (\<forall>c \<in> set w. \<not> no_ws_byte c)"
  by (auto simp: white_space_def bytes_def no_ws_byte_def of_char_of upt_rec)

lemma strip_leading_none:
  assumes ws: "\<And>w. w \<in> set ws \<Longrightarrow> w \<noteq> [] \<and> (\<forall>c \<in> set w. \<not> no_ws_byte c)"
    and s: "\<forall>c \<in> set s. no_ws_byte c"
  shows "strip_leading ws s = s"
proof -
  have "\<not> starts_with w s" if "w \<in> set ws" for w
  proof
    assume "starts_with w s"
    then have "set w \<subseteq> set s"
      by (metis starts_with_def set_take_subset)
    with ws [OF that] s show False
      by (metis list.set_intros(1) neq_Nil_conv subsetD)
  qed
  then have "find (\<lambda>w. w \<noteq> [] \<and> starts_with w s) ws = None"
    by (auto simp: find_None_iff)
  then show ?thesis by (simp add: strip_leading.simps [of ws s])
qed

lemma trim_no_ws: "\<forall>c \<in> set s. no_ws_byte c \<Longrightarrow> trim s = s"
  unfolding trim_def trim_end_def trim_start_def
  by (subst strip_leading_none, use white_space_bytes in blast, simp)
     (subst strip_leading_none, use white_space_bytes in \<open>force\<close>, simp_all)

lemma trim_show_nat [simp]: "trim (show_nat n) = show_nat n"
  by (rule trim_no_ws) (auto dest: digits_set simp: is_ascii_digit_def no_ws_byte_def)

lemma starts_with_append [simp]: "starts_with p (p @ s)"
  by (simp add: starts_with_def)

lemma contains_iff: "contains p s \<longleftrightarrow> (\<exists>a b. s = a @ p @ b)"
proof (induction s)
  case (Cons c cs)
  have "starts_with p (c # cs) \<longleftrightarrow> (\<exists>b. c # cs = p @ b)"
    unfolding starts_with_def by (metis append_eq_conv_conj append_take_drop_id)
  then show ?case unfolding contains.simps Cons.IH
    by (metis (no_types, opaque_lifting) append_Cons append_Nil list.exhaust_sel list.inject list.sel(3))
qed simp

lemma contains_mid [simp]: "contains p (a @ p @ b)"
  by (auto simp: contains_iff)

lemma contains_appendI: "contains p b \<Longrightarrow> contains p (a @ b)"
  by (auto simp: contains_iff) (metis append.assoc)

lemma contains_appendI1: "contains p a \<Longrightarrow> contains p (a @ b)"
  by (auto simp: contains_iff) (metis append.assoc)

lemma to_ascii_lowercase_append [simp]:
  "to_ascii_lowercase (a @ b) = to_ascii_lowercase a @ to_ascii_lowercase b"
  by (simp add: to_ascii_lowercase_def)

lemma to_ascii_lowercase_idem [simp]:
  "to_ascii_lowercase (to_ascii_lowercase s) = to_ascii_lowercase s"
proof -
  have "ascii_lower (ascii_lower c) = ascii_lower c" for c
    by (auto simp: ascii_lower_def Let_def of_char_of)
  then show ?thesis by (simp add: to_ascii_lowercase_def)
qed

end
