(* ===== verification/Error_Model.thy ===== *)
theory Error_Model
  imports Rust_Text
begin

text \<open>
  Error values of the SDK and every decision taken on them: \<open>error_codes.rs\<close>, and from
  \<open>lib.rs\<close> the \<open>Error\<close> enum with its display text, \<open>classify_auth_error_code\<close>,
  \<open>parse_auth_error_code\<close>, \<open>Error::is_retryable\<close>, \<open>sdk_code\<close>, \<open>protocol_code\<close>, and the
  classification of resume failures.

  The numeric protocol codes (\<open>privchat_protocol::ErrorCode\<close>) belong to a crate outside the
  repository. They are the record \<open>protocol_codes\<close>, an argument of the definitions that use
  them; \<open>pc_from_code\<close> is \<open>ErrorCode::from_code\<close>, with a variant named by its discriminant.
\<close>

unbundle bit_operations_syntax

subsection \<open>SDK codes (\<open>error_codes.rs\<close>)\<close>

definition code :: "u32 \<Rightarrow> u32 \<Rightarrow> u32" where
  "code domain detail = push_bit 24 domain OR (detail AND 0x00FFFFFF)"

definition TRANSPORT :: u32 where "TRANSPORT = 0x01"
definition STORAGE :: u32 where "STORAGE = 0x02"
definition AUTH :: u32 where "AUTH = 0x03"
definition SYNC :: u32 where "SYNC = 0x04"
definition STATE :: u32 where "STATE = 0x05"
definition ACTOR :: u32 where "ACTOR = 0x06"
definition SERIALIZATION :: u32 where "SERIALIZATION = 0x07"
definition SHUTDOWN_DOMAIN :: u32 where "SHUTDOWN_DOMAIN = 0x08"
definition INTERNAL :: u32 where "INTERNAL = 0x0F"

lemmas domain_defs = TRANSPORT_def STORAGE_def AUTH_def SYNC_def STATE_def ACTOR_def
  SERIALIZATION_def SHUTDOWN_DOMAIN_def INTERNAL_def

definition TRANSPORT_FAILURE :: u32 where "TRANSPORT_FAILURE = code TRANSPORT 1"
definition NETWORK_DISCONNECTED :: u32 where "NETWORK_DISCONNECTED = code TRANSPORT 2"
definition AUTH_FAILURE :: u32 where "AUTH_FAILURE = code AUTH 1"
definition STORAGE_FAILURE :: u32 where "STORAGE_FAILURE = code STORAGE 1"
definition SERIALIZATION_FAILURE :: u32 where "SERIALIZATION_FAILURE = code SERIALIZATION 1"
definition INVALID_STATE :: u32 where "INVALID_STATE = code STATE 1"
definition ATTACHMENT_SOURCE_MISSING :: u32 where "ATTACHMENT_SOURCE_MISSING = code STATE 2"
definition SESSION_NOT_READY :: u32 where "SESSION_NOT_READY = code STATE 3"
definition ACTOR_CLOSED :: u32 where "ACTOR_CLOSED = code ACTOR 1"
definition SHUTDOWN :: u32 where "SHUTDOWN = code SHUTDOWN_DOMAIN 1"
definition INTERNAL_UNKNOWN :: u32 where "INTERNAL_UNKNOWN = code INTERNAL 1"
definition RESUME_RETRYABLE_TEMPORARY :: u32 where "RESUME_RETRYABLE_TEMPORARY = code SYNC 1"
definition RESUME_CHANNEL_RESYNC_REQUIRED :: u32 where "RESUME_CHANNEL_RESYNC_REQUIRED = code SYNC 2"
definition RESUME_ENTITY_RESYNC_REQUIRED :: u32 where "RESUME_ENTITY_RESYNC_REQUIRED = code SYNC 3"
definition RESUME_FULL_REBUILD_REQUIRED :: u32 where "RESUME_FULL_REBUILD_REQUIRED = code SYNC 4"
definition RESUME_FATAL_PROTOCOL_ERROR :: u32 where "RESUME_FATAL_PROTOCOL_ERROR = code SYNC 5"

lemmas sdk_code_defs = TRANSPORT_FAILURE_def NETWORK_DISCONNECTED_def AUTH_FAILURE_def
  STORAGE_FAILURE_def SERIALIZATION_FAILURE_def INVALID_STATE_def ATTACHMENT_SOURCE_MISSING_def
  SESSION_NOT_READY_def ACTOR_CLOSED_def SHUTDOWN_def INTERNAL_UNKNOWN_def
  RESUME_RETRYABLE_TEMPORARY_def RESUME_CHANNEL_RESYNC_REQUIRED_def
  RESUME_ENTITY_RESYNC_REQUIRED_def RESUME_FULL_REBUILD_REQUIRED_def
  RESUME_FATAL_PROTOCOL_ERROR_def

subsection \<open>Protocol codes (external crate)\<close>

record protocol_codes =
  pc_NetworkError :: u32
  pc_InvalidToken :: u32
  pc_DecodingError :: u32
  pc_EncodingError :: u32
  pc_ProtocolError :: u32
  pc_DatabaseError :: u32
  pc_SessionNotFound :: u32
  pc_SystemBusy :: u32
  pc_ServiceUnavailable :: u32
  pc_OperationNotAllowed :: u32
  pc_AttachmentSourceMissing :: u32
  pc_SessionNotReady :: u32
  pc_Timeout :: u32
  pc_Maintenance :: u32
  pc_CacheError :: u32
  pc_RateLimitExceeded :: u32
  pc_ConcurrentLimitExceeded :: u32
  pc_SyncChannelResyncRequired :: u32
  pc_SyncEntityResyncRequired :: u32
  pc_SyncFullRebuildRequired :: u32
  pc_from_code :: "u32 \<Rightarrow> u32 option"

subsection \<open>The error enum\<close>

datatype sdk_error =
    Transport string
  | UploadSessionGone
  | AuthExpired
  | Serialization string
  | Storage string
  | MissingLocalMessageId u64
  | NotConnected
  | Auth string
  | RequestUnanswered string
  | ActorClosed
  | Shutdown
  | InvalidState string
  | Server u32 string
  | AttachmentSourceMissing u64
  | SessionNotReady string

type_synonym 'a result = "sdk_error + 'a"

fun error_text :: "sdk_error \<Rightarrow> string" where
  "error_text (Transport m) = ''transport error: '' @ m"
| "error_text UploadSessionGone = ''upload session is gone; a new upload token is required''"
| "error_text AuthExpired = ''authentication expired''"
| "error_text (Serialization m) = ''serialization error: '' @ m"
| "error_text (Storage m) = ''storage error: '' @ m"
| "error_text (MissingLocalMessageId i) =
     ''message '' @ show_u64 i @ '' has no local_message_id; cannot mint an idempotency key''"
| "error_text NotConnected = ''sdk not connected''"
| "error_text (Auth m) = ''auth failed: '' @ m"
| "error_text (RequestUnanswered c) = ''no response for '' @ c"
| "error_text ActorClosed = ''actor closed''"
| "error_text Shutdown = ''sdk shutdown''"
| "error_text (InvalidState m) = ''invalid state: '' @ m"
| "error_text (Server c m) = ''server error: reason_code='' @ show_nat (unat c) @ '' message='' @ m"
| "error_text (AttachmentSourceMissing i) = ''attachment source missing for message '' @ show_u64 i"
| "error_text (SessionNotReady s) = ''session not ready (current: '' @ s @ '')''"

subsection \<open>Authentication errors\<close>

datatype auth_error_kind = Transient | Recoverable | Terminal

definition classify_auth_error_code :: "u32 \<Rightarrow> auth_error_kind" where
  "classify_auth_error_code c =
     (if c = 10000 \<or> c = 10002 then Recoverable
      else if c \<in> {10001, 10003, 10004, 10005, 10006, 10007, 10008, 10009, 10010} then Terminal
      else Transient)"

definition parse_auth_error_code :: "string \<Rightarrow> u32 option" where
  "parse_auth_error_code message =
     (case strip_prefix ''['' message of
        None \<Rightarrow> None
      | Some rest \<Rightarrow>
          (case split_once (CHR '']'') rest of
             None \<Rightarrow> None
           | Some (ds, _) \<Rightarrow> map_option of_nat (parse_u32 ds)))"

fun auth_kind :: "sdk_error \<Rightarrow> auth_error_kind option" where
  "auth_kind (Auth m) =
     Some (case parse_auth_error_code m of
             None \<Rightarrow> Transient
           | Some c \<Rightarrow> classify_auth_error_code c)"
| "auth_kind _ = None"

definition is_auth_terminal :: "sdk_error \<Rightarrow> bool" where
  "is_auth_terminal e \<longleftrightarrow> auth_kind e = Some Terminal"

fun auth_error_code :: "sdk_error \<Rightarrow> u32 option" where
  "auth_error_code (Auth m) = parse_auth_error_code m"
| "auth_error_code _ = None"

subsection \<open>Retry decisions and code projections\<close>

definition is_retryable_server_code :: "protocol_codes \<Rightarrow> u32 \<Rightarrow> bool" where
  "is_retryable_server_code pc c \<longleftrightarrow>
     c \<in> {pc_SystemBusy pc, pc_ServiceUnavailable pc, pc_Timeout pc, pc_Maintenance pc,
          pc_DatabaseError pc, pc_CacheError pc, pc_NetworkError pc, pc_RateLimitExceeded pc,
          pc_ConcurrentLimitExceeded pc}"

fun is_retryable :: "protocol_codes \<Rightarrow> sdk_error \<Rightarrow> bool" where
  "is_retryable pc NotConnected = True"
| "is_retryable pc (Transport _) = True"
| "is_retryable pc (RequestUnanswered _) = True"
| "is_retryable pc UploadSessionGone = True"
| "is_retryable pc AuthExpired = False"
| "is_retryable pc (Server c _) = is_retryable_server_code pc c"
| "is_retryable pc _ = False"

fun sdk_code :: "sdk_error \<Rightarrow> u32" where
  "sdk_code (Transport _) = TRANSPORT_FAILURE"
| "sdk_code UploadSessionGone = TRANSPORT_FAILURE"
| "sdk_code AuthExpired = AUTH_FAILURE"
| "sdk_code (RequestUnanswered _) = TRANSPORT_FAILURE"
| "sdk_code (Serialization _) = SERIALIZATION_FAILURE"
| "sdk_code (Storage _) = STORAGE_FAILURE"
| "sdk_code (MissingLocalMessageId _) = STORAGE_FAILURE"
| "sdk_code NotConnected = NETWORK_DISCONNECTED"
| "sdk_code (Auth _) = AUTH_FAILURE"
| "sdk_code ActorClosed = ACTOR_CLOSED"
| "sdk_code Shutdown = SHUTDOWN"
| "sdk_code (InvalidState _) = INVALID_STATE"
| "sdk_code (AttachmentSourceMissing _) = ATTACHMENT_SOURCE_MISSING"
| "sdk_code (SessionNotReady _) = SESSION_NOT_READY"
| "sdk_code (Server c _) = c"

fun protocol_code :: "protocol_codes \<Rightarrow> sdk_error \<Rightarrow> u32" where
  "protocol_code pc (Transport _) = pc_NetworkError pc"
| "protocol_code pc UploadSessionGone = pc_NetworkError pc"
| "protocol_code pc AuthExpired = pc_InvalidToken pc"
| "protocol_code pc (RequestUnanswered _) = pc_NetworkError pc"
| "protocol_code pc (Serialization _) = pc_DecodingError pc"
| "protocol_code pc (Storage _) = pc_DatabaseError pc"
| "protocol_code pc (MissingLocalMessageId _) = pc_DatabaseError pc"
| "protocol_code pc NotConnected = pc_SessionNotFound pc"
| "protocol_code pc (Auth _) = pc_InvalidToken pc"
| "protocol_code pc ActorClosed = pc_SystemBusy pc"
| "protocol_code pc Shutdown = pc_ServiceUnavailable pc"
| "protocol_code pc (InvalidState _) = pc_OperationNotAllowed pc"
| "protocol_code pc (AttachmentSourceMissing _) = pc_AttachmentSourceMissing pc"
| "protocol_code pc (SessionNotReady _) = pc_SessionNotReady pc"
| "protocol_code pc (Server c _) = c"

definition NETWORK_DISCONNECTED_MESSAGE :: string where
  "NETWORK_DISCONNECTED_MESSAGE = bytes
     [231, 189, 145, 231, 187, 156, 229, 183, 178, 230, 150, 173, 229, 188, 128, 239, 188, 140,
      232, 175, 183, 230, 163, 128, 230, 159, 165, 231, 189, 145, 231, 187, 156, 232, 191, 158,
      230, 142, 165, 229, 144, 142, 229, 134, 141, 232, 175, 149, 227, 128, 130]"

definition network_disconnected_error :: sdk_error where
  "network_disconnected_error = Transport NETWORK_DISCONNECTED_MESSAGE"

fun is_unsupported_entity_error :: "sdk_error \<Rightarrow> bool" where
  "is_unsupported_entity_error (Auth m) \<longleftrightarrow> contains
     (bytes [228, 184, 141, 230, 148, 175, 230, 140, 129, 231, 154, 132] @ '' entity_type'') m"
| "is_unsupported_entity_error _ \<longleftrightarrow> False"

subsection \<open>Classification of resume failures\<close>

datatype resume_failure_class =
    RetryableTemporaryError
  | ChannelResyncRequired
  | EntityResyncRequired
  | FullRebuildRequired
  | FatalProtocolError

fun class_sdk_code :: "resume_failure_class \<Rightarrow> u32" where
  "class_sdk_code RetryableTemporaryError = RESUME_RETRYABLE_TEMPORARY"
| "class_sdk_code ChannelResyncRequired = RESUME_CHANNEL_RESYNC_REQUIRED"
| "class_sdk_code EntityResyncRequired = RESUME_ENTITY_RESYNC_REQUIRED"
| "class_sdk_code FullRebuildRequired = RESUME_FULL_REBUILD_REQUIRED"
| "class_sdk_code FatalProtocolError = RESUME_FATAL_PROTOCOL_ERROR"

definition contains_any :: "string list \<Rightarrow> string \<Rightarrow> bool" where
  "contains_any ps s \<longleftrightarrow> list_ex (\<lambda>p. contains p s) ps"

definition classify_resume_message :: "string \<Rightarrow> resume_failure_class \<Rightarrow> resume_failure_class" where
  "classify_resume_message message dflt =
     (let lowered = to_ascii_lowercase message in
      if contains_any [''code=20900'', ''syncchannelresyncrequired'', ''channel scoped resync required''] lowered
      then ChannelResyncRequired
      else if contains_any [''code=20901'', ''syncentityresyncrequired'', ''entity scoped resync required''] lowered
      then EntityResyncRequired
      else if contains_any [''code=20902'', ''syncfullrebuildrequired'', ''full rebuild required''] lowered
      then FullRebuildRequired
      else if contains_any [''pts too old'', ''gap'', ''channel resync'', ''message history window'', ''last_pts''] lowered
      then ChannelResyncRequired
      else if contains_any [''entity resync'', ''since_version'', ''version too old''] lowered
      then EntityResyncRequired
      else if contains_any [''resume token invalid'', ''session not found'', ''invalid token'',
                            ''full rebuild'', ''bootstrap'', ''session_ready rejected''] lowered
      then FullRebuildRequired
      else if contains_any [''decode'', ''schema''] lowered
      then FatalProtocolError
      else dflt)"

fun classify_resume_error :: "protocol_codes \<Rightarrow> sdk_error \<Rightarrow> resume_failure_class" where
  "classify_resume_error pc (Transport _) = RetryableTemporaryError"
| "classify_resume_error pc UploadSessionGone = RetryableTemporaryError"
| "classify_resume_error pc (RequestUnanswered _) = RetryableTemporaryError"
| "classify_resume_error pc NotConnected = RetryableTemporaryError"
| "classify_resume_error pc ActorClosed = RetryableTemporaryError"
| "classify_resume_error pc AuthExpired = FullRebuildRequired"
| "classify_resume_error pc (Serialization _) = FatalProtocolError"
| "classify_resume_error pc (Storage _) = FullRebuildRequired"
| "classify_resume_error pc (MissingLocalMessageId _) = FullRebuildRequired"
| "classify_resume_error pc (Auth m) = classify_resume_message m FullRebuildRequired"
| "classify_resume_error pc Shutdown = RetryableTemporaryError"
| "classify_resume_error pc (AttachmentSourceMissing _) = FatalProtocolError"
| "classify_resume_error pc (SessionNotReady _) = RetryableTemporaryError"
| "classify_resume_error pc (InvalidState m) =
     (let lowered = to_ascii_lowercase m in
      if contains_any [''session_ready rejected'', ''requires authenticated''] lowered
      then FullRebuildRequired
      else if contains_any [''paging stalled'', ''since_version'', ''entity resync''] lowered
      then EntityResyncRequired
      else if contains_any [''max paging iterations'', ''last_pts'', ''gap'', ''channel resync''] lowered
      then ChannelResyncRequired
      else FatalProtocolError)"
| "classify_resume_error pc (Server c _) =
     (if is_retryable_server_code pc c then RetryableTemporaryError else FatalProtocolError)"

text \<open>The \<open>i32\<close> code of a rejected sync call, turned into an error. A negative code converts to
  no \<open>u32\<close>.\<close>

definition sync_rpc_rejection :: "protocol_codes \<Rightarrow> string \<Rightarrow> int \<Rightarrow> string \<Rightarrow> sdk_error" where
  "sync_rpc_rejection pc op_name c message =
     (let protocol_code = (if 0 \<le> c then pc_from_code pc (word_of_int c) else None);
          tail = ''code='' @ show_int c @ '' message='' @ message
      in if protocol_code = Some (pc_SyncChannelResyncRequired pc)
         then InvalidState (op_name @ '' channel resync required: '' @ tail)
         else if protocol_code = Some (pc_SyncEntityResyncRequired pc)
         then InvalidState (op_name @ '' entity resync required: '' @ tail)
         else if protocol_code = Some (pc_SyncFullRebuildRequired pc)
         then Auth (op_name @ '' full rebuild required: '' @ tail)
         else if protocol_code \<in> {Some (pc_ProtocolError pc), Some (pc_DecodingError pc), Some (pc_EncodingError pc)}
         then InvalidState (op_name @ '' protocol error: '' @ tail)
         else Auth (op_name @ '' rejected: '' @ tail))"

datatype resume_failure_target =
    Global
  | EntityType string
  | Channel u64 int

datatype escalation_scope = Retry | ChannelScopedResync | EntityScopedResync | FullRebuild

fun resume_escalation_scope :: "resume_failure_class \<Rightarrow> resume_failure_target \<Rightarrow> escalation_scope" where
  "resume_escalation_scope RetryableTemporaryError _ = Retry"
| "resume_escalation_scope ChannelResyncRequired _ = ChannelScopedResync"
| "resume_escalation_scope EntityResyncRequired _ = EntityScopedResync"
| "resume_escalation_scope FullRebuildRequired _ = FullRebuild"
| "resume_escalation_scope FatalProtocolError (Channel _ _) = ChannelScopedResync"
| "resume_escalation_scope FatalProtocolError (EntityType _) = EntityScopedResync"
| "resume_escalation_scope FatalProtocolError Global = FullRebuild"

subsection \<open>Lemmas\<close>

lemma contains_any_Cons [simp]: "contains_any (p # ps) s \<longleftrightarrow> contains p s \<or> contains_any ps s"
  by (simp add: contains_any_def)

lemma contains_any_Nil [simp]: "\<not> contains_any [] s"
  by (simp add: contains_any_def)

lemma code_domain: "domain < 256 \<Longrightarrow> drop_bit 24 (code domain detail) = domain"
  for domain detail :: u32
proof -
  assume "domain < 256"
  then have "domain < 2 ^ 8" by simp
  then have "domain AND mask 8 = domain" by (rule less_mask_eq)
  then have "take_bit 8 domain = domain" by (simp add: take_bit_eq_mask)
  moreover have "drop_bit 24 (code domain detail) = take_bit 8 domain"
    by (rule bit_word_eqI) (auto simp: code_def bit_simps)
  ultimately show ?thesis by simp
qed

lemma code_detail: "code domain detail AND 0x00FFFFFF = detail AND 0x00FFFFFF"
  for domain detail :: u32
proof -
  have mask: "(0x00FFFFFF :: u32) = mask 24" by (simp add: mask_eq_exp_minus_1)
  show ?thesis unfolding code_def mask
    by (rule bit_word_eqI) (auto simp: bit_simps)
qed

lemma message_class_not_retryable:
  "dflt \<noteq> RetryableTemporaryError \<Longrightarrow> classify_resume_message m dflt \<noteq> RetryableTemporaryError"
  by (simp add: classify_resume_message_def Let_def)

lemma auth_kind_is_auth: "auth_kind e = Some k \<Longrightarrow> \<exists>m. e = Auth m"
  by (cases e) auto

lemma show_nat_not_bracket: "CHR '']'' \<notin> set (show_nat n)"
  using digits_set [of "CHR '']''" n] by (auto simp: is_ascii_digit_def)

lemma auth_code_of_tagged:
  "parse_auth_error_code (''['' @ show_nat (unat c) @ ''] '' @ m) = Some c"
proof -
  have "unat c < 2 ^ LENGTH(32)" by (rule unsigned_less)
  then show ?thesis
    using split_once_append [OF show_nat_not_bracket, of "unat c" "'' '' @ m"]
    by (simp add: parse_auth_error_code_def strip_prefix_def starts_with_def parse_u32_def)
qed

text \<open>Some numbers, to evaluate the definitions on.\<close>

definition example_codes :: protocol_codes where
  "example_codes = \<lparr>pc_NetworkError = 1, pc_InvalidToken = 2, pc_DecodingError = 3, pc_EncodingError = 4,
     pc_ProtocolError = 5, pc_DatabaseError = 6, pc_SessionNotFound = 7, pc_SystemBusy = 8,
     pc_ServiceUnavailable = 9, pc_OperationNotAllowed = 10, pc_AttachmentSourceMissing = 11,
     pc_SessionNotReady = 12, pc_Timeout = 13, pc_Maintenance = 14, pc_CacheError = 15,
     pc_RateLimitExceeded = 16, pc_ConcurrentLimitExceeded = 17, pc_SyncChannelResyncRequired = 18,
     pc_SyncEntityResyncRequired = 19, pc_SyncFullRebuildRequired = 20, pc_from_code = \<lambda>_. None\<rparr>"

end
