(* ===== verification/Session_State.thy ===== *)
theory Session_State
  imports Error_Model
begin

text \<open>
  The session state machine of \<open>lib.rs\<close>: \<open>SessionState::can\<close>, the plans of \<open>connect\<close> and
  \<open>authenticate\<close>, the gates built on the state, the bounded authentication retry
  \<open>execute_authenticate_with_retry\<close> over an abstract driver, and the reconnect back-off
  delay. Instants are milliseconds of a monotonic clock.
\<close>

subsection \<open>States, actions, transitions\<close>

datatype session_state = New | Connected | LoggedIn | Authenticated | Terminated | ShutdownState

datatype action = Connect | Login | Authenticate | ShutdownAction

datatype connection_state =
  ConnNew | ConnConnected | ConnLoggedIn | ConnAuthenticated | ConnTerminated | ConnShutdown

datatype network_hint = Unknown | Offline | Wifi | Cellular | Ethernet

fun can :: "session_state \<Rightarrow> action \<Rightarrow> session_state result" where
  "can ShutdownState _ = Inl Shutdown"
| "can New Connect = Inr Connected"
| "can Connected Connect = Inr Connected"
| "can LoggedIn Connect = Inr Connected"
| "can Authenticated Connect = Inr Connected"
| "can Terminated Connect = Inr Connected"
| "can Connected Login = Inr LoggedIn"
| "can LoggedIn Login = Inr LoggedIn"
| "can Authenticated Login = Inr LoggedIn"
| "can New Login = Inl (InvalidState ''login requires connect first'')"
| "can Terminated Login = Inl (InvalidState ''login requires connect after forced logout'')"
| "can Connected Authenticate = Inr Authenticated"
| "can LoggedIn Authenticate = Inr Authenticated"
| "can Authenticated Authenticate = Inr Authenticated"
| "can New Authenticate = Inl (InvalidState ''authenticate requires connect and login first'')"
| "can Terminated Authenticate = Inr Authenticated"
| "can _ ShutdownAction = Inr ShutdownState"

fun as_connection_state :: "session_state \<Rightarrow> connection_state" where
  "as_connection_state New = ConnNew"
| "as_connection_state Connected = ConnConnected"
| "as_connection_state LoggedIn = ConnLoggedIn"
| "as_connection_state Authenticated = ConnAuthenticated"
| "as_connection_state Terminated = ConnTerminated"
| "as_connection_state ShutdownState = ConnShutdown"

definition is_online :: "network_hint \<Rightarrow> bool" where
  "is_online h \<longleftrightarrow> h \<noteq> Offline"

text \<open>The name that \<open>Debug\<close> prints for a state.\<close>

fun state_name :: "session_state \<Rightarrow> string" where
  "state_name New = ''New''"
| "state_name Connected = ''Connected''"
| "state_name LoggedIn = ''LoggedIn''"
| "state_name Authenticated = ''Authenticated''"
| "state_name Terminated = ''Terminated''"
| "state_name ShutdownState = ''Shutdown''"

subsection \<open>Plans and gates\<close>

datatype connect_plan = AlreadyReady | RestorePersistedSession | ConnectTransportOnly

definition plan_connect :: "session_state \<Rightarrow> bool \<Rightarrow> bool \<Rightarrow> connect_plan result" where
  "plan_connect st has_local_session transport_connected =
     (if st = ShutdownState then Inl Shutdown
      else if st = Authenticated \<and> transport_connected then Inr AlreadyReady
      else if has_local_session then Inr RestorePersistedSession
      else Inr ConnectTransportOnly)"

datatype authenticate_transport_plan = UseCurrent | ReconnectTransport

definition plan_authenticate_transport ::
  "session_state \<Rightarrow> bool \<Rightarrow> authenticate_transport_plan result" where
  "plan_authenticate_transport st transport_connected =
     (if st = ShutdownState then Inl Shutdown
      else if \<not> transport_connected then Inr ReconnectTransport
      else (case can st Authenticate of Inl e \<Rightarrow> Inl e | Inr _ \<Rightarrow> Inr UseCurrent))"

definition outbound_queue_ready :: "session_state \<Rightarrow> bool \<Rightarrow> bool \<Rightarrow> bool" where
  "outbound_queue_ready st has_current_uid has_transport \<longleftrightarrow>
     st = Authenticated \<and> has_current_uid \<and> has_transport"

definition require_authenticated :: "session_state \<Rightarrow> unit result" where
  "require_authenticated st =
     (if st = Authenticated then Inr ()
      else if st = ShutdownState then Inl Shutdown
      else Inl (SessionNotReady (state_name st)))"

definition current_uid_required :: "string option \<Rightarrow> bool \<Rightarrow> string result" where
  "current_uid_required current_uid bootstrap_completed =
     (case current_uid of
        None \<Rightarrow> Inl (InvalidState ''current user is not set; login/authenticate required'')
      | Some uid \<Rightarrow>
          if \<not> bootstrap_completed
          then Inl (InvalidState ''run_bootstrap_sync required before local-first operations'')
          else Inr uid)"

definition MAX_AUTH_REQUEST_TIMEOUT :: nat where "MAX_AUTH_REQUEST_TIMEOUT = 5"

definition auth_request_timeout :: "nat \<Rightarrow> nat" where
  "auth_request_timeout configured = min configured MAX_AUTH_REQUEST_TIMEOUT"

definition timeout_secs :: "nat \<Rightarrow> nat" where
  "timeout_secs connection_timeout_secs = max connection_timeout_secs 1"

definition connect_timeout_total :: "nat \<Rightarrow> nat \<Rightarrow> nat" where
  "connect_timeout_total connection_timeout_secs n_endpoints =
     sat_u64 (sat_u64 (timeout_secs connection_timeout_secs * max n_endpoints 1) + 2)"

subsection \<open>Authentication with one retry\<close>

text \<open>The driver runs one operation and changes its own state. \<open>auth_rounds\<close> is the loop
  \<open>for round in 0..2\<close> over the rounds still to run; \<open>None\<close> is the \<open>unreachable!\<close> after it.\<close>

datatype retry_operation = Reconnect | AuthenticateOp

fun is_unanswered :: "sdk_error \<Rightarrow> bool" where
  "is_unanswered (RequestUnanswered _) \<longleftrightarrow> True"
| "is_unanswered _ \<longleftrightarrow> False"

fun auth_rounds ::
  "('s \<Rightarrow> retry_operation \<Rightarrow> 's \<times> unit result) \<Rightarrow> nat list \<Rightarrow> bool \<Rightarrow> 's \<Rightarrow> 's \<times> unit result option" where
  "auth_rounds run [] need s = (s, None)"
| "auth_rounds run (rn # rns) need s =
     (let (s1, r1) = (if need then run s Reconnect else (s, Inr ()))
      in case r1 of
           Inl e \<Rightarrow> (s1, Some (Inl e))
         | Inr _ \<Rightarrow>
             (let (s2, r2) = run s1 AuthenticateOp
              in case r2 of
                   Inr _ \<Rightarrow> (s2, Some (Inr ()))
                 | Inl e \<Rightarrow>
                     if is_unanswered e \<and> rn = 0
                     then auth_rounds run rns True s2
                     else (s2, Some (Inl e))))"

definition execute_authenticate_with_retry ::
  "('s \<Rightarrow> retry_operation \<Rightarrow> 's \<times> unit result) \<Rightarrow> bool \<Rightarrow> 's \<Rightarrow> 's \<times> unit result option" where
  "execute_authenticate_with_retry run need_reconnect s = auth_rounds run [0, 1] need_reconnect s"

text \<open>The driver instrumented with the list of the operations it ran.\<close>

definition logged ::
  "('s \<Rightarrow> retry_operation \<Rightarrow> 's \<times> unit result) \<Rightarrow>
     's \<times> retry_operation list \<Rightarrow> retry_operation \<Rightarrow> ('s \<times> retry_operation list) \<times> unit result" where
  "logged run sl op = (case run (fst sl) op of (s', r) \<Rightarrow> ((s', snd sl @ [op]), r))"

text \<open>What a driver keeps of its state through every operation, the whole retry keeps.\<close>

locale retry_driver =
  fixes run :: "'s \<Rightarrow> retry_operation \<Rightarrow> 's \<times> unit result"
    and inv :: "'s \<Rightarrow> bool"
    and authed :: "'s \<Rightarrow> bool"
  assumes run_inv: "inv s \<Longrightarrow> inv (fst (run s op))"
    and run_authed: "run s AuthenticateOp = (s', Inr ()) \<Longrightarrow> authed s'"
begin

lemma rounds_inv: "inv s \<Longrightarrow> inv (fst (auth_rounds run rs need s))"
proof (induction rs arbitrary: need s)
  case (Cons r rs)
  have run': "inv s \<Longrightarrow> run s op = (s', x) \<Longrightarrow> inv s'" for s op s' x
    using run_inv by (metis fst_conv)
  show ?case
    using Cons run' by (auto simp: Let_def split: prod.splits sum.splits if_splits; metis)
qed simp

lemma rounds_authed:
  "auth_rounds run rs need s = (s', Some (Inr ())) \<Longrightarrow> authed s'"
proof (induction rs arbitrary: need s)
  case (Cons r rs)
  then show ?case
    by (auto simp: Let_def split: prod.splits sum.splits if_splits intro: run_authed)
qed simp

lemma execute_inv: "inv s \<Longrightarrow> inv (fst (execute_authenticate_with_retry run need s))"
  by (simp add: execute_authenticate_with_retry_def rounds_inv del: auth_rounds.simps)

lemma execute_authed:
  "execute_authenticate_with_retry run need s = (s', Some (Inr ())) \<Longrightarrow> authed s'"
  unfolding execute_authenticate_with_retry_def by (rule rounds_authed)

end

subsection \<open>Reconnect back-off\<close>

definition reconnect_base_secs :: "nat \<Rightarrow> nat" where
  "reconnect_base_secs attempt =
     (if attempt = 0 then 1 else if attempt = 1 then 2 else if attempt = 2 then 4
      else if attempt = 3 then 8 else if attempt = 4 then 16 else 30)"

text \<open>\<open>draw\<close> is the value of \<open>rand::random::<f64>()\<close>, in the half-open unit interval.\<close>

definition reconnect_delay_ms :: "(rat \<Rightarrow> rat) \<Rightarrow> nat \<Rightarrow> rat \<Rightarrow> bool \<Rightarrow> nat" where
  "reconnect_delay_ms rnd attempt draw online =
     (let factor = rnd (rnd (7 / 10) + rnd (draw * rnd (6 / 10)));
          delay = nat \<lfloor>rnd (of_nat (reconnect_base_secs attempt) * 1000 * factor)\<rfloor>
      in if online then delay else max delay 60000)"

subsection \<open>Lemmas\<close>

lemma can_cases: "can st a = Inr st' \<Longrightarrow> st \<noteq> ShutdownState"
  by auto

lemma reconnect_base_bounds: "1 \<le> reconnect_base_secs a \<and> reconnect_base_secs a \<le> 30"
  by (simp add: reconnect_base_secs_def)

lemma reconnect_base_mono: "a \<le> b \<Longrightarrow> reconnect_base_secs a \<le> reconnect_base_secs b"
  by (simp add: reconnect_base_secs_def)

lemma reconnect_factor_bounds:
  assumes rnd: "f64_round rnd" and d0: "0 \<le> draw" and d1: "draw \<le> 1"
  defines "factor \<equiv> rnd (rnd (7 / 10) + rnd (draw * rnd (6 / 10)))"
  shows "7/10 - 1 / 2^52 \<le> factor \<and> factor \<le> 13/10 + 6 / 2^53"
proof -
  let ?e = "1 / 2 ^ 53 :: rat"
  note err = f64_round_err [OF rnd]
  have a: "7/10 - 7/10 * ?e \<le> rnd (7/10)" "rnd (7/10) \<le> 7/10 + 7/10 * ?e"
    using err [of "7/10"] by simp_all
  have b: "0 \<le> rnd (6/10)" "rnd (6/10) \<le> 6/10 + 6/10 * ?e"
    using err [of "6/10"] by simp_all
  have c0: "0 \<le> draw * rnd (6/10)" using d0 b by simp
  have c1: "draw * rnd (6/10) \<le> 6/10 + 6/10 * ?e"
    using mult_mono [OF d1 b(2)] b d0 by simp
  define m where "m = draw * rnd (6/10)"
  have m: "0 \<le> m" "m \<le> 6/10 + 6/10 * ?e" using c0 c1 by (simp_all add: m_def)
  have d: "0 \<le> rnd m" "rnd m \<le> 6/10 + 2 * ?e"
    using err [of m] m by auto
  define t where "t = rnd (7/10) + rnd m"
  have t: "7/10 - ?e \<le> t" "t \<le> 13/10 + 3 * ?e" using a d by (simp_all add: t_def)
  have "0 \<le> t" using t by simp
  then have "t - t / 2^53 \<le> rnd t" "rnd t \<le> t + t / 2 ^ 53" using err [of t] by simp_all
  then have "7/10 - 1 / 2^52 \<le> rnd t \<and> rnd t \<le> 13/10 + 6 * ?e" using t by auto
  then show ?thesis by (simp add: factor_def t_def m_def)
qed

lemma reconnect_delay_core:
  assumes rnd: "f64_round rnd" and b: "(1::nat) \<le> base" "base \<le> 30"
   and f: "7/10 - 1 / 2^52 \<le> factor \<and> factor \<le> 13/10 + 6 / 2^53"
  shows "700 * base \<le> nat \<lfloor>rnd (of_nat base * 1000 * factor)\<rfloor> + 1 \<and> nat \<lfloor>rnd (of_nat base * 1000 * factor)\<rfloor> \<le> 1300 * base"
proof -
  define B :: rat where "B = of_nat base"
  define y where "y = B * 1000 * factor"
  have B: "1 \<le> B" "B \<le> 30"
    using b of_nat_le_iff [where 'a=rat, of 1 base] of_nat_le_iff [where 'a=rat, of base 30]
    by (simp_all add: B_def)
  have "B * 1000 * (7/10 - 1/2^52) \<le> y" "y \<le> B * 1000 * (13/10 + 6/2^53)"
    unfolding y_def using B f by (auto intro!: mult_left_mono)
  moreover have "B * 1000 * (7/10 - 1/2^52) = B * 700 - B * (1000/2^52)"
    "B * 1000 * (13/10 + 6/2^53) = B * 1300 + B * (6000/2^53)"
    by (simp_all only: algebra_simps)
  ultimately have y1: "B * 700 - 1/4 \<le> y" and y2: "y \<le> B * 1300 + 1/4"
    using B by simp_all
  have y0: "0 \<le> y" using y1 B by simp
  have "rnd y \<le> y + y / 2 ^ 53" "y - y / 2 ^ 53 \<le> rnd y"
    using f64_round_err [OF rnd y0] by blast+
  then have r: "B * 700 - 1 \<le> rnd y" "rnd y < B * 1300 + 1" using y1 y2 B by simp_all
  have "\<lfloor>rnd y\<rfloor> \<le> int (base * 1300)" using r(2) by (simp add: floor_le_iff B_def)
  moreover have "int (base * 700) - 1 \<le> \<lfloor>rnd y\<rfloor>" using r(1) by (simp add: le_floor_iff B_def)
  ultimately show ?thesis unfolding y_def B_def by (auto simp: algebra_simps) 
qed
subsection \<open>Properties\<close>

text \<open>Shutdown is absorbing: no action leaves it, and it is entered only by the shutdown
  action; every other session accepts \<open>connect\<close> and lands in \<open>Connected\<close>, and only
  a state with an established or terminated session may authenticate.\<close>

theorem can_transitions:
  "(\<exists>st'. can st a = Inr st') \<longleftrightarrow>
     st \<noteq> ShutdownState \<and> \<not> (st = New \<and> a \<in> {Login, Authenticate}) \<and> \<not> (st = Terminated \<and> a = Login)"
  by (cases st; cases a) auto

text \<open>One authentication runs a bounded sequence of operations whatever the driver answers:
  at most one reconnect before the first attempt, and, only when that attempt got no answer,
  exactly one reconnect and one more attempt. The loop never falls through to its
  \<open>unreachable!\<close>.\<close>

theorem authenticate_retry_bounded:
  "\<exists>s' r ops. execute_authenticate_with_retry (logged run) need (s, []) = ((s', ops), Some r) \<and>
     ops \<in> {pre @ tl | pre tl. pre = (if need then [Reconnect] else []) \<and>
             tl \<in> {[], [AuthenticateOp], [AuthenticateOp, Reconnect],
                    [AuthenticateOp, Reconnect, AuthenticateOp]}}"
  by (simp add: execute_authenticate_with_retry_def logged_def Let_def split: prod.splits sum.splits)

text \<open>The reconnect delay stays within thirty per cent of its base, up to the rounding of one
  millisecond, for every draw and every IEEE rounding; the base runs 1, 2, 4, 8, 16, 30 seconds,
  and with the reachability hint offline no delay is below one minute.\<close>

theorem reconnect_delay_bounds:
  assumes "f64_round rnd" and "0 \<le> draw" and "draw \<le> 1"
  shows "700 * reconnect_base_secs attempt \<le> reconnect_delay_ms rnd attempt draw True + 1 \<and>
    reconnect_delay_ms rnd attempt draw True \<le> 1300 * reconnect_base_secs attempt \<and>
    60000 \<le> reconnect_delay_ms rnd attempt draw False"
  using reconnect_delay_core [OF assms(1) _ _ reconnect_factor_bounds [OF assms]] reconnect_base_bounds
  by (simp add: reconnect_delay_ms_def Let_def)

theorem reconnect_delay_bounds_witness:
  "1399 \<le> reconnect_delay_ms (\<lambda>x. x) 1 (1 / 2) True"
  using reconnect_delay_bounds [of "\<lambda>x. x" "1 / 2" 1] by (simp add: reconnect_base_secs_def)

end
