(* ===== verification/Sync_Coordinator.thy ===== *)
theory Sync_Coordinator
  imports Session_State
begin

text \<open>
  \<open>sync_coordinator.rs\<close>, whole: readiness, the typed failure, the background convergence
  dimension, the single retry deadline and the generation; and its client
  \<open>State::ensure_synced_inner\<close> of \<open>lib.rs\<close>, with the run itself as an argument. Times are
  epoch milliseconds (\<open>i64\<close>).
\<close>

subsection \<open>State\<close>

datatype readiness = Disconnected | AuthenticatedReady | SyncingCritical | Ready | CriticalFailed

datatype critical_failure_code =
  NetworkFailure | ServerUnavailableFailure | ProtocolFailure | StorageFailure | UnknownFailure

datatype convergence = ConvIdle | Scanning | Repairing | BackingOff | Converged

datatype sync_phase = PhaseIdle | Syncing | Synced | Retrying | FailedTerminal

datatype sync_run_kind = Bootstrap | Resume

fun as_legacy_phase :: "readiness \<Rightarrow> sync_phase" where
  "as_legacy_phase Disconnected = PhaseIdle"
| "as_legacy_phase AuthenticatedReady = PhaseIdle"
| "as_legacy_phase SyncingCritical = Syncing"
| "as_legacy_phase Ready = Synced"
| "as_legacy_phase CriticalFailed = FailedTerminal"

record sync_state_snapshot =
  readiness :: readiness
  failure :: "critical_failure_code option"
  retryable :: bool
  conv :: convergence
  run_kind :: "sync_run_kind option"
  attempt :: nat
  message :: "string option"
  updated_at_ms :: int

definition default_snapshot :: sync_state_snapshot where
  "default_snapshot = \<lparr>readiness = Disconnected, failure = None, retryable = True,
     conv = ConvIdle, run_kind = None, attempt = 0, message = None, updated_at_ms = 0\<rparr>"

definition new_public ::
  "readiness \<Rightarrow> critical_failure_code option \<Rightarrow> bool \<Rightarrow> sync_run_kind option \<Rightarrow> nat \<Rightarrow>
   string option \<Rightarrow> int \<Rightarrow> sync_state_snapshot" where
  "new_public rd fl rt kind n msg now =
     \<lparr>readiness = rd, failure = fl, retryable = rt, conv = ConvIdle, run_kind = kind,
      attempt = n, message = msg, updated_at_ms = now\<rparr>"

definition phase :: "sync_state_snapshot \<Rightarrow> sync_phase" where
  "phase s = as_legacy_phase (readiness s)"

fun failure_number :: "critical_failure_code \<Rightarrow> nat" where
  "failure_number NetworkFailure = 1"
| "failure_number ServerUnavailableFailure = 2"
| "failure_number ProtocolFailure = 3"
| "failure_number StorageFailure = 4"
| "failure_number UnknownFailure = 0"

definition error_code :: "sync_state_snapshot \<Rightarrow> nat option" where
  "error_code s = map_option failure_number (failure s)"

record sync_coordinator =
  snapshot :: sync_state_snapshot
  next_retry_at_ms :: "int option"
  convergence_attempt :: nat
  convergence_next_retry_at_ms :: "int option"
  generation :: nat

datatype sync_begin_rejection = AlreadyRunning | Backoff int | TerminalRejection

definition SYNC_RETRY_BASE_MS :: int where "SYNC_RETRY_BASE_MS = 1000"
definition SYNC_RETRY_MAX_MS :: int where "SYNC_RETRY_MAX_MS = 60000"

subsection \<open>Operations\<close>

definition new_coordinator :: sync_coordinator where
  "new_coordinator = \<lparr>snapshot = default_snapshot, next_retry_at_ms = None,
     convergence_attempt = 0, convergence_next_retry_at_ms = None, generation = 0\<rparr>"

definition convergence_retry_ready :: "sync_coordinator \<Rightarrow> int \<Rightarrow> bool" where
  "convergence_retry_ready c now =
     (case convergence_next_retry_at_ms c of None \<Rightarrow> True | Some deadline \<Rightarrow> now \<ge> deadline)"

definition retry_base_ms :: "nat \<Rightarrow> int" where
  "retry_base_ms n =
     (let shift = min (n - 1) 6 in min (sat_i64 (SYNC_RETRY_BASE_MS * 2 ^ shift)) SYNC_RETRY_MAX_MS)"

definition retry_delay_ms :: "nat \<Rightarrow> int \<Rightarrow> int" where
  "retry_delay_ms n now =
     (let base = retry_base_ms n;
          span = max (trunc_div base 4) 1;
          jitter = now mod (span * 2) - span
      in clamp_int (base + jitter) SYNC_RETRY_BASE_MS SYNC_RETRY_MAX_MS)"

definition begin_run ::
  "sync_coordinator \<Rightarrow> sync_run_kind \<Rightarrow> int \<Rightarrow> sync_begin_rejection + sync_coordinator" where
  "begin_run c kind now =
     (if readiness (snapshot c) = SyncingCritical then Inl AlreadyRunning
      else if readiness (snapshot c) = CriticalFailed \<and> \<not> retryable (snapshot c)
      then Inl TerminalRejection
      else case next_retry_at_ms c of
             Some deadline \<Rightarrow>
               if now < deadline then Inl (Backoff (wrap_i64 (deadline - now)))
               else Inr (c\<lparr>next_retry_at_ms := None,
                 snapshot := \<lparr>readiness = SyncingCritical, failure = None, retryable = True,
                   conv = conv (snapshot c), run_kind = Some kind, attempt = attempt (snapshot c),
                   message = None, updated_at_ms = now\<rparr>\<rparr>)
           | None \<Rightarrow> Inr (c\<lparr>next_retry_at_ms := None,
                 snapshot := \<lparr>readiness = SyncingCritical, failure = None, retryable = True,
                   conv = conv (snapshot c), run_kind = Some kind, attempt = attempt (snapshot c),
                   message = None, updated_at_ms = now\<rparr>\<rparr>))"

definition complete_run :: "sync_coordinator \<Rightarrow> sync_run_kind \<Rightarrow> int \<Rightarrow> sync_coordinator" where
  "complete_run c kind now =
     c\<lparr>next_retry_at_ms := None,
       snapshot := \<lparr>readiness = Ready, failure = None, retryable = True, conv = conv (snapshot c),
         run_kind = Some kind, attempt = 0, message = None, updated_at_ms = now\<rparr>\<rparr>"

definition set_convergence :: "sync_coordinator \<Rightarrow> convergence \<Rightarrow> int \<Rightarrow> sync_coordinator" where
  "set_convergence c nxt now =
     (let c1 = (if nxt \<noteq> BackingOff
                then c\<lparr>convergence_attempt := 0, convergence_next_retry_at_ms := None\<rparr> else c)
      in c1\<lparr>snapshot := (snapshot c1)\<lparr>conv := nxt, updated_at_ms := now\<rparr>\<rparr>)"

definition schedule_convergence :: "sync_coordinator \<Rightarrow> int \<Rightarrow> int \<Rightarrow> sync_coordinator" where
  "schedule_convergence c now grace =
     c\<lparr>convergence_attempt := 0,
       convergence_next_retry_at_ms := Some (sat_i64 (now + max grace 0)),
       snapshot := (snapshot c)\<lparr>conv := Scanning, updated_at_ms := now\<rparr>\<rparr>"

definition backoff_convergence :: "sync_coordinator \<Rightarrow> int \<Rightarrow> sync_coordinator \<times> nat \<times> int" where
  "backoff_convergence c now =
     (let n = sat_u32 (convergence_attempt c + 1);
          deadline = sat_i64 (now + retry_delay_ms n now)
      in (c\<lparr>convergence_attempt := n, convergence_next_retry_at_ms := Some deadline,
            snapshot := (snapshot c)\<lparr>conv := BackingOff, updated_at_ms := now\<rparr>\<rparr>, n, deadline))"

definition classify_failure :: "u32 \<Rightarrow> critical_failure_code" where
  "classify_failure c =
     (if c = 0 then UnknownFailure
      else if 500 \<le> c \<and> c < 600 then ServerUnavailableFailure
      else if 400 \<le> c \<and> c < 500 then ProtocolFailure
      else NetworkFailure)"

definition fail_run ::
  "sync_coordinator \<Rightarrow> sync_run_kind \<Rightarrow> bool \<Rightarrow> u32 option \<Rightarrow> string \<Rightarrow> int \<Rightarrow> sync_coordinator" where
  "fail_run c kind terminal code_opt msg now =
     (let n = (if terminal then attempt (snapshot c) else sat_u32 (attempt (snapshot c) + 1))
      in c\<lparr>next_retry_at_ms :=
             (if terminal then None else Some (sat_i64 (now + retry_delay_ms n now))),
           snapshot := \<lparr>readiness = (if terminal then CriticalFailed else AuthenticatedReady),
             failure = map_option classify_failure code_opt, retryable = (\<not> terminal),
             conv = conv (snapshot c), run_kind = Some kind, attempt = n,
             message = Some msg, updated_at_ms = now\<rparr>\<rparr>)"

definition note_network_available :: "sync_coordinator \<Rightarrow> sync_coordinator" where
  "note_network_available c =
     (let c1 = (if readiness (snapshot c) = AuthenticatedReady \<or> next_retry_at_ms c \<noteq> None
                then c\<lparr>next_retry_at_ms := None\<rparr> else c);
          c2 = c1\<lparr>convergence_attempt := 0, convergence_next_retry_at_ms := None\<rparr>
      in if conv (snapshot c2) = BackingOff
         then c2\<lparr>snapshot := (snapshot c2)\<lparr>conv := Scanning\<rparr>\<rparr> else c2)"

definition abandon :: "sync_coordinator \<Rightarrow> int \<Rightarrow> sync_coordinator" where
  "abandon c now =
     c\<lparr>next_retry_at_ms := None, convergence_attempt := 0, convergence_next_retry_at_ms := None,
       snapshot := default_snapshot\<lparr>updated_at_ms := now\<rparr>\<rparr>"

definition note_explicit_request :: "sync_coordinator \<Rightarrow> sync_coordinator" where
  "note_explicit_request c =
     (if readiness (snapshot c) \<noteq> CriticalFailed \<or> retryable (snapshot c)
      then c\<lparr>next_retry_at_ms := None\<rparr> else c)"

definition reset_coordinator :: "sync_coordinator \<Rightarrow> int \<Rightarrow> sync_coordinator" where
  "reset_coordinator c now =
     c\<lparr>generation := wrap_u64 (generation c + 1), next_retry_at_ms := None,
       convergence_attempt := 0, convergence_next_retry_at_ms := None,
       snapshot := default_snapshot\<lparr>updated_at_ms := now\<rparr>\<rparr>"

subsection \<open>The client: one gated run\<close>

text \<open>\<open>ensure_synced_inner\<close>. The run is an argument: it maps the coordinator at its start to the
  coordinator at its end (an account switch in between bumps the generation there) and to its
  result, with \<open>None\<close> when it yielded to a pending switch. The outcome lists the emitted
  snapshots and says whether the background convergence was stopped.\<close>

record sync_outcome =
  out_coordinator :: sync_coordinator
  out_events :: "sync_state_snapshot list"
  out_stop_convergence :: bool
  out_result :: "bool result"

definition ensure_synced_inner ::
  "protocol_codes \<Rightarrow> session_state \<Rightarrow> bool \<Rightarrow> bool \<Rightarrow> bool \<Rightarrow> bool \<Rightarrow> int \<Rightarrow> int \<Rightarrow>
   (sync_run_kind \<Rightarrow> sync_coordinator \<Rightarrow> sync_coordinator \<times> unit result option) \<Rightarrow>
   sync_coordinator \<Rightarrow> sync_outcome" where
  "ensure_synced_inner pc st switch_pending bootstrap_completed full_rebuild explicit now1 now2 run c =
     (let stay = (\<lambda>c r. \<lparr>out_coordinator = c, out_events = [], out_stop_convergence = False, out_result = r\<rparr>)
      in if st \<noteq> Authenticated then stay c (Inl (InvalidState ''ensure_synced requires authenticated state''))
      else if switch_pending then stay c (Inr False)
      else
        let kind = (if bootstrap_completed \<and> \<not> full_rebuild then Resume else Bootstrap);
            c1 = (if explicit then note_explicit_request c else c)
        in case begin_run c1 kind now1 of
             Inl _ \<Rightarrow> stay c1 (Inr False)
           | Inr c2 \<Rightarrow>
               (case run kind c2 of
                  (c3, None) \<Rightarrow>
                    \<lparr>out_coordinator = abandon c3 now2, out_events = [snapshot c2],
                     out_stop_convergence = True, out_result = Inr False\<rparr>
                | (c3, Some r) \<Rightarrow>
                    if generation c3 \<noteq> generation c2
                    then \<lparr>out_coordinator = c3, out_events = [snapshot c2],
                          out_stop_convergence = False, out_result = Inr False\<rparr>
                    else
                      let c4 = (case r of
                                  Inr _ \<Rightarrow> complete_run c3 kind now2
                                | Inl e \<Rightarrow> fail_run c3 kind (is_auth_terminal e) (Some (protocol_code pc e))
                                             (error_text e) now2)
                      in \<lparr>out_coordinator = c4, out_events = [snapshot c2, snapshot c4],
                          out_stop_convergence = False,
                          out_result = (case r of Inr _ \<Rightarrow> Inr True | Inl e \<Rightarrow> Inl e)\<rparr>))"

subsection \<open>Triggers that keep failing\<close>

text \<open>Successive triggers, each a pair of the instant it fires and the instant its run, if the
  gate lets it start, has failed. The result lists the instants at which a run started.\<close>

fun hot_runs :: "('c \<Rightarrow> int \<Rightarrow> 'c option) \<Rightarrow> ('c \<Rightarrow> int \<Rightarrow> 'c) \<Rightarrow> 'c \<Rightarrow> (int \<times> int) list \<Rightarrow> int list" where
  "hot_runs tb failed c [] = []"
| "hot_runs tb failed c ((b, e) # ts) =
     (case tb c b of
        None \<Rightarrow> hot_runs tb failed c ts
      | Some c' \<Rightarrow> b # hot_runs tb failed (failed c' e) ts)"

fun in_order :: "int \<Rightarrow> int \<Rightarrow> (int \<times> int) list \<Rightarrow> bool" where
  "in_order t0 horizon [] = True"
| "in_order t0 horizon ((b, e) # ts) \<longleftrightarrow> t0 \<le> b \<and> b \<le> e \<and> e \<le> horizon \<and> in_order e horizon ts"

fun spaced :: "(nat \<Rightarrow> int) \<Rightarrow> nat \<Rightarrow> int list \<Rightarrow> bool" where
  "spaced sp n (x # y # zs) \<longleftrightarrow> x + sp n \<le> y \<and> spaced sp (Suc n) (y # zs)"
| "spaced sp n _ \<longleftrightarrow> True"

text \<open>The contract of a gate with a back-off level: a run starts only when the gate is open, a
  failure raises the level up to a cap and closes the gate for at least the spacing of the new
  level.\<close>

locale backoff_gate =
  fixes try_begin :: "'c \<Rightarrow> int \<Rightarrow> 'c option"
    and failed :: "'c \<Rightarrow> int \<Rightarrow> 'c"
    and level :: "'c \<Rightarrow> nat"
    and spacing :: "nat \<Rightarrow> int"
    and cap :: nat
    and horizon :: int
  assumes begin_level: "try_begin c t = Some c' \<Longrightarrow> level c' = level c"
    and failed_level: "min cap (level (failed c t)) = min cap (Suc (level c))"
    and failed_closed: "t \<le> horizon \<Longrightarrow> try_begin (failed c t) t' \<noteq> None \<Longrightarrow>
      t + spacing (min cap (Suc (level c))) \<le> t'"
begin

lemma hot_runs_spaced:
  assumes "in_order t0 horizon ts" and "min cap n = min cap (Suc (level c))"
  shows "spaced (\<lambda>k. spacing (min cap k)) n (hot_runs try_begin failed c ts) \<and>
    (\<forall>x \<in> set (hot_runs try_begin failed c ts). t0 \<le> x) \<and>
    (\<forall>x xs. hot_runs try_begin failed c ts = x # xs \<longrightarrow> try_begin c x \<noteq> None)"
  using assms
proof (induction ts arbitrary: t0 n c)
  case (Cons be ts)
  obtain b e where be: "be = (b, e)" by (cases be)
  show ?case
  proof (cases "try_begin c b")
    case None
    have "in_order e horizon ts" using Cons.prems be by simp
    note ih = Cons.IH [OF this Cons.prems(2)]
    have "t0 \<le> e" using Cons.prems be by simp
    with ih None be show ?thesis by fastforce
  next
    case (Some c')
    let ?r = "hot_runs try_begin failed (failed c' e) ts"
    have ord: "in_order e horizon ts" "t0 \<le> b" "b \<le> e" "e \<le> horizon"
      using Cons.prems be by simp_all
    have lev: "level c' = level c" using begin_level [OF Some] .
    have "min cap (Suc n) = min cap (Suc (level (failed c' e)))"
      using failed_level [of c' e] lev Cons.prems(2) by (auto simp: min_def split: if_splits)
    note ih = Cons.IH [OF ord(1) this]
    have "b + spacing (min cap n) \<le> y" if "?r = y # ys" for y ys
      using failed_closed [OF ord(4), of c' y] ih that lev Cons.prems(2) ord by fastforce
    then have "spaced (\<lambda>k. spacing (min cap k)) n (b # ?r)"
      using ih by (cases ?r) auto
    then show ?thesis using Some be ih ord by auto
  qed
qed simp

end

subsection \<open>Lemmas on the delay and the gate\<close>

lemma retry_base_values:
  "retry_base_ms n = (if n \<le> 1 then 1000 else if n = 2 then 2000 else if n = 3 then 4000
     else if n = 4 then 8000 else if n = 5 then 16000 else if n = 6 then 32000 else 60000)"
proof -
  consider "n \<le> 1" | "n = 2" | "n = 3" | "n = 4" | "n = 5" | "n = 6" | "7 \<le> n" by linarith
  moreover have "7 \<le> n \<Longrightarrow> min (n - 1) 6 = 6" by simp
  ultimately show ?thesis
    by cases (simp_all add: retry_base_ms_def SYNC_RETRY_BASE_MS_def SYNC_RETRY_MAX_MS_def
      sat_i64_def i64_min_def i64_max_def Let_def min_def)
qed

definition min_spacing :: "nat \<Rightarrow> int" where
  "min_spacing n = max 1000 (retry_base_ms n - retry_base_ms n div 4)"

lemma retry_delay_range:
  "min_spacing n \<le> retry_delay_ms n now \<and> retry_delay_ms n now \<le> 60000 \<and>
   (n \<le> 6 \<longrightarrow> retry_delay_ms n now < retry_base_ms n + retry_base_ms n div 4)"
proof -
  have j: "0 \<le> now mod (b * 2) \<and> now mod (b * 2) < b * 2" if "0 < b" for b :: int
    using that by simp
  have td: "trunc_div (retry_base_ms n) 4 = retry_base_ms n div 4"
    by (rule trunc_div_nonneg) (simp_all add: retry_base_values)
  have pos: "0 < max (retry_base_ms n div 4) 1" by simp
  show ?thesis
    using j [OF pos]
    unfolding retry_delay_ms_def Let_def td
    by (auto simp: retry_base_values min_spacing_def clamp_int_def
        SYNC_RETRY_BASE_MS_def SYNC_RETRY_MAX_MS_def split: if_splits)
qed

lemma min_spacing_values:
  "min_spacing 1 = 1000" "min_spacing 2 = 1500" "min_spacing 3 = 3000" "min_spacing 4 = 6000"
  "min_spacing 5 = 12000" "min_spacing 6 = 24000" "min_spacing 7 = 45000"
  by (simp_all add: min_spacing_def retry_base_values)

definition try_run :: "sync_run_kind \<Rightarrow> sync_coordinator \<Rightarrow> int \<Rightarrow> sync_coordinator option" where
  "try_run kind c now = (case begin_run c kind now of Inl _ \<Rightarrow> None | Inr c' \<Rightarrow> Some c')"

lemma begin_run_attempt: "begin_run c kind now = Inr c' \<Longrightarrow> attempt (snapshot c') = attempt (snapshot c)"
  by (auto simp: begin_run_def split: if_splits option.splits)

lemma fail_run_closed:
  assumes "now \<le> i64_max - 60000" and "try_run kind (fail_run c kind' False e m now) t' \<noteq> None"
  shows "now + retry_delay_ms (sat_u32 (attempt (snapshot c) + 1)) now \<le> t'"
proof -
  let ?d = "retry_delay_ms (sat_u32 (attempt (snapshot c) + 1)) now"
  have "now + ?d \<le> i64_max" using assms(1) retry_delay_range by (smt (verit))
  then have "now + ?d \<le> sat_i64 (now + ?d)" by (simp add: sat_i64_def)
  with assms(2) show ?thesis
    by (auto simp: try_run_def begin_run_def fail_run_def Let_def split: if_splits)
qed

lemma min_spacing_cap: "min_spacing (min 7 n) = min_spacing n"
  by (auto simp: min_spacing_def retry_base_values)

lemma sat_u32_cap: "min 7 (sat_u32 n) = min 7 n"
  by (simp add: sat_u32_def u32_max_def)

interpretation gate: backoff_gate
  "try_run kind" "\<lambda>c. fail_run c kind False e m" "\<lambda>c. attempt (snapshot c)"
  min_spacing 7 "i64_max - 60000"
  for kind e m
proof unfold_locales
  show "attempt (snapshot c') = attempt (snapshot c)" if "try_run kind c t = Some c'" for c t c'
    using that by (auto simp: try_run_def begin_run_attempt split: sum.splits)
next
  show "min 7 (attempt (snapshot (fail_run c kind False e m t))) = min 7 (Suc (attempt (snapshot c)))"
    for c t by (simp add: fail_run_def Let_def sat_u32_cap)
next
  fix t c t'
  assume t: "t \<le> i64_max - 60000" and o: "try_run kind (fail_run c kind False e m t) t' \<noteq> None"
  let ?n = "sat_u32 (attempt (snapshot c) + 1)"
  have "min_spacing ?n = min_spacing (min 7 (Suc (attempt (snapshot c))))"
    by (metis Suc_eq_plus1 min_spacing_cap sat_u32_cap)
  with fail_run_closed [OF t o] retry_delay_range [of ?n t]
  show "t + min_spacing (min 7 (Suc (attempt (snapshot c)))) \<le> t'" by linarith
qed

lemma spaced_six:
  assumes "spaced (\<lambda>k. min_spacing (min 7 k)) 1 r" and "\<forall>x \<in> set r. lo \<le> x \<and> x < lo + 47500"
  shows "length r \<le> 6"
proof (rule ccontr)
  assume "\<not> length r \<le> 6"
  then have "Suc (Suc (Suc (Suc (Suc (Suc (Suc 0)))))) \<le> length r" by simp
  then obtain a b c d e f g zs where "r = a # b # c # d # e # f # g # zs"
    by (auto simp: Suc_le_length_iff)
  with assms show False by (auto simp add: min_spacing_def retry_base_values)
qed

lemma min_spacing_mono: "mono min_spacing"
  by (rule monoI) (auto simp: min_spacing_def retry_base_values)

lemma spaced_mono: "mono sp \<Longrightarrow> n \<le> m \<Longrightarrow> spaced sp m r \<Longrightarrow> spaced sp n r"
proof (induction sp m r arbitrary: n rule: spaced.induct)
  case (1 sp m x y zs)
  have "sp n \<le> sp m" using 1 by (simp add: monoD)
  moreover have "spaced sp (Suc n) (y # zs)" by (rule "1.IH") (use 1 in auto)
  ultimately show ?case using "1.prems" by simp
qed simp_all

lemma in_order_weaken: "in_order t0 h ts \<Longrightarrow> h \<le> h' \<Longrightarrow> in_order t0 h' ts"
  by (induction ts arbitrary: t0) auto

lemma hot_runs_le: "in_order t0 h ts \<Longrightarrow> x \<in> set (hot_runs tb failed c ts) \<Longrightarrow> x \<le> h"
  by (induction tb failed c ts arbitrary: t0 rule: hot_runs.induct) (auto split: option.splits)

text \<open>What a host or a network event may do to the coordinator without a run, a logout or an
  account switch.\<close>

datatype automatic_event =
    EvTrigger sync_run_kind int
  | EvNetworkAvailable
  | EvExplicitRequest
  | EvSetConvergence convergence int
  | EvScheduleConvergence int int
  | EvBackoffConvergence int

fun automatic_step :: "sync_coordinator \<Rightarrow> automatic_event \<Rightarrow> sync_coordinator" where
  "automatic_step c (EvTrigger kind now) =
     (case begin_run c kind now of Inl _ \<Rightarrow> c | Inr c' \<Rightarrow> c')"
| "automatic_step c EvNetworkAvailable = note_network_available c"
| "automatic_step c EvExplicitRequest = note_explicit_request c"
| "automatic_step c (EvSetConvergence v now) = set_convergence c v now"
| "automatic_step c (EvScheduleConvergence now grace) = schedule_convergence c now grace"
| "automatic_step c (EvBackoffConvergence now) = fst (backoff_convergence c now)"

definition terminal_failed :: "sync_coordinator \<Rightarrow> bool" where
  "terminal_failed c \<longleftrightarrow> readiness (snapshot c) = CriticalFailed \<and> \<not> retryable (snapshot c)"

lemma terminal_rejects: "terminal_failed c \<Longrightarrow> begin_run c kind now = Inl TerminalRejection"
  by (simp add: terminal_failed_def begin_run_def)

lemma automatic_step_terminal [inv_intros]:
  "terminal_failed c \<Longrightarrow> terminal_failed (automatic_step c ev)"
  by (cases ev) (auto simp: terminal_rejects terminal_failed_def note_network_available_def
    note_explicit_request_def set_convergence_def schedule_convergence_def
    backoff_convergence_def Let_def)

lemma automatic_steps_terminal:
  "terminal_failed c \<Longrightarrow> terminal_failed (foldl automatic_step c evs)"
  by (induction evs arbitrary: c) (auto intro: inv_intros)

subsection \<open>Properties\<close>

text \<open>The retry delay is always between one second and one minute, and up to the seventh
  failure a later attempt waits strictly longer than an earlier one whatever the instants the
  jitter is derived from.\<close>

theorem retry_delay_bounds_monotone:
  "1000 \<le> retry_delay_ms n now \<and> retry_delay_ms n now \<le> 60000 \<and>
   (1 \<le> n \<and> n < m \<and> n \<le> 6 \<longrightarrow> retry_delay_ms n now < retry_delay_ms m now')"
proof -
  have "retry_delay_ms n now < retry_delay_ms m now'" if "1 \<le> n" "n < m" "n \<le> 6"
  proof -
    have "retry_base_ms n + retry_base_ms n div 4 \<le> min_spacing m"
      using that by (auto simp: min_spacing_def retry_base_values)
    with retry_delay_range [of n now] retry_delay_range [of m now'] that(3) show ?thesis by linarith
  qed
  moreover have "1000 \<le> min_spacing n" by (simp add: min_spacing_def)
  ultimately show ?thesis using retry_delay_range [of n now] by auto
qed

theorem retry_delay_bounds_monotone_witness:
  "retry_delay_ms 1 999 < retry_delay_ms 2 0"
  using retry_delay_bounds_monotone [of 1 999 2 0] by simp



text \<open>After a terminal failure no trigger, network recovery, explicit request or convergence
  event opens the gate again: every later trigger is rejected as terminal. Only a logout or an
  account switch, which reset the coordinator, opens it and moves the generation.\<close>

theorem terminal_closed_until_reset:
  "begin_run (foldl automatic_step (fail_run c kind True code_opt msg now) evs) kind' now' =
     Inl TerminalRejection \<and>
   (\<exists>c'. begin_run (reset_coordinator c0 now) kind' now' = Inr c') \<and>
   generation (reset_coordinator c0 now) = (generation c0 + 1) mod 2 ^ 64"
proof -
  have "terminal_failed (fail_run c kind True code_opt msg now)"
    by (simp add: terminal_failed_def fail_run_def)
  from automatic_steps_terminal [OF this]
  have "begin_run (foldl automatic_step (fail_run c kind True code_opt msg now) evs) kind' now' =
    Inl TerminalRejection" by (rule terminal_rejects)
  then show ?thesis
    by (simp add: reset_coordinator_def begin_run_def default_snapshot_def wrap_u64_def)
qed

text \<open>C11. The gated sync never leaves the gate shut behind it. Whatever the run does, as long as it
  leaves the readiness alone or resets the coordinator under a new generation, the coordinator
  afterwards is not running; it reports success exactly when the run was started, succeeded and
  still belongs to the generation it started in, and only then is readiness \<open>Ready\<close>.\<close>

theorem ensure_synced_releases_gate:
  assumes "readiness (snapshot c) \<noteq> SyncingCritical"
    and "\<And>k d d' r. run k d = (d', r) \<Longrightarrow>
      (generation d' = generation d \<longrightarrow> readiness (snapshot d') = readiness (snapshot d)) \<and>
      (generation d' \<noteq> generation d \<longrightarrow> readiness (snapshot d') = Disconnected)"
    and "out = ensure_synced_inner pc st pending boot rebuild explicit now1 now2 run c"
  shows "readiness (snapshot (out_coordinator out)) \<noteq> SyncingCritical \<and>
    (out_result out = Inr True \<longleftrightarrow> st = Authenticated \<and> \<not> pending \<and>
       (\<exists>k d d'. begin_run (if explicit then note_explicit_request c else c) k now1 = Inr d \<and>
          k = (if boot \<and> \<not> rebuild then Resume else Bootstrap) \<and>
          run k d = (d', Some (Inr ())) \<and> generation d' = generation d)) \<and>
    (out_result out = Inr True \<longrightarrow> readiness (snapshot (out_coordinator out)) = Ready)"
proof -
  let ?k = "if boot \<and> \<not> rebuild then Resume else Bootstrap"
  let ?c = "if explicit then note_explicit_request c else c"
  have idle: "readiness (snapshot ?c) \<noteq> SyncingCritical"
    using assms(1) by (simp add: note_explicit_request_def)
  show ?thesis
  proof (cases "st = Authenticated \<and> \<not> pending")
    case False
    then show ?thesis using assms(1,3) by (auto simp: ensure_synced_inner_def Let_def)
  next
    case run: True
    show ?thesis
    proof (cases "begin_run ?c ?k now1")
      case (Inl e)
      then show ?thesis using run idle assms(3) by (simp add: ensure_synced_inner_def Let_def)
    next
      case (Inr d)
      obtain d' r where r: "run ?k d = (d', r)" by fastforce
      show ?thesis
        using run Inr r assms(2) [OF r] unfolding assms(3) ensure_synced_inner_def Let_def
        by (cases r; cases "generation d' = generation d")
           (auto simp: abandon_def complete_run_def fail_run_def default_snapshot_def Let_def
             split: sum.splits)
    qed
  qed
qed

theorem ensure_synced_releases_gate_witness:
  "\<forall>pc. readiness (snapshot (out_coordinator (ensure_synced_inner pc Authenticated False True False
     False 0 1 (\<lambda>k d. (d, Some (Inr ()))) new_coordinator))) \<noteq> SyncingCritical"
proof
  fix pc
  show "readiness (snapshot (out_coordinator (ensure_synced_inner pc Authenticated False True False
     False 0 1 (\<lambda>k d. (d, Some (Inr ()))) new_coordinator))) \<noteq> SyncingCritical"
    using ensure_synced_releases_gate [OF _ _ refl, of new_coordinator "\<lambda>k d. (d, Some (Inr ()))"
        pc Authenticated False True False False 0 1]
    by (auto simp: new_coordinator_def default_snapshot_def)
qed

end
