(* ===== verification/Receive_Pipeline.thy ===== *)
theory Receive_Pipeline
  imports Rust_Text
begin

text \<open>
  \<open>receive_pipeline.rs\<close> and \<open>sync_commit_applier.rs\<close>, whole, with their client
  \<open>State::enqueue_and_apply_sync_items\<close> and the room broadcast window
  \<open>room_message_is_duplicate\<close> of \<open>lib.rs\<close>. A sync item carries an opaque payload
  \<open>'p\<close>; \<open>usize\<close> counters count list elements and cannot overflow.
\<close>

subsection \<open>State\<close>

record 'p sync_entity_item =
  entity_id :: string
  item_version :: u64
  deleted :: bool
  payload :: "'p option"

record 'p sync_batch =
  entity_type :: string
  scope :: "string option"
  items :: "'p sync_entity_item list"

record pipeline_stats =
  queued_items :: nat
  dropped_duplicates :: nat

record 'p receive_pipeline =
  queue :: "'p sync_batch list"
  recent_keys :: "string set"
  recent_key_order :: "string list"
  recent_key_limit :: nat

subsection \<open>Operations\<close>

definition new_pipeline :: "nat \<Rightarrow> 'p receive_pipeline" where
  "new_pipeline limit =
     \<lparr>queue = [], recent_keys = {}, recent_key_order = [], recent_key_limit = max limit 512\<rparr>"

definition default_pipeline :: "'p receive_pipeline" where
  "default_pipeline = new_pipeline 8192"

definition dedupe_key :: "string \<Rightarrow> string option \<Rightarrow> 'p sync_entity_item \<Rightarrow> string" where
  "dedupe_key et sc item =
     et @ ''|'' @ (case sc of None \<Rightarrow> '''' | Some s \<Rightarrow> s) @ ''|'' @ entity_id item @ ''|'' @
     show_u64 (item_version item) @ ''|'' @ (if deleted item then ''true'' else ''false'')"

text \<open>The eviction loop of \<open>remember_key\<close>: it pops from the front while the order is too long.\<close>

fun evict_keys :: "nat \<Rightarrow> string set \<Rightarrow> string list \<Rightarrow> string set \<times> string list" where
  "evict_keys limit ks [] = (ks, [])"
| "evict_keys limit ks (old # rest) =
     (if limit < length (old # rest) then evict_keys limit (ks - {old}) rest else (ks, old # rest))"

definition remember_key :: "'p receive_pipeline \<Rightarrow> string \<Rightarrow> 'p receive_pipeline" where
  "remember_key p key =
     (case evict_keys (recent_key_limit p) (insert key (recent_keys p)) (recent_key_order p @ [key]) of
        (ks, order) \<Rightarrow> p\<lparr>recent_keys := ks, recent_key_order := order\<rparr>)"

text \<open>The loop of \<open>enqueue\<close>: the accepted items and the number of duplicates.\<close>

fun accept_items :: "string \<Rightarrow> string option \<Rightarrow> 'p sync_entity_item list \<Rightarrow> 'p receive_pipeline \<Rightarrow>
    'p receive_pipeline \<times> 'p sync_entity_item list \<times> nat" where
  "accept_items et sc [] p = (p, [], 0)"
| "accept_items et sc (item # rest) p =
     (let key = dedupe_key et sc item
      in if key \<in> recent_keys p
         then (case accept_items et sc rest p of (p', acc, d) \<Rightarrow> (p', acc, Suc d))
         else (case accept_items et sc rest (remember_key p key) of (p', acc, d) \<Rightarrow> (p', item # acc, d)))"

definition enqueue :: "'p receive_pipeline \<Rightarrow> string \<Rightarrow> string option \<Rightarrow> 'p sync_entity_item list \<Rightarrow>
    'p receive_pipeline \<times> pipeline_stats" where
  "enqueue p et sc its =
     (case accept_items et sc its p of (p1, accepted, dropped) \<Rightarrow>
        (if accepted \<noteq> []
         then p1\<lparr>queue := queue p1 @ [\<lparr>entity_type = et, scope = sc, items = accepted\<rparr>]\<rparr> else p1,
         \<lparr>queued_items = length accepted, dropped_duplicates = dropped\<rparr>))"

definition pop_batch :: "'p receive_pipeline \<Rightarrow> ('p sync_batch \<times> 'p receive_pipeline) option" where
  "pop_batch p = (case queue p of [] \<Rightarrow> None | b # bs \<Rightarrow> Some (b, p\<lparr>queue := bs\<rparr>))"

definition requeue_front :: "'p receive_pipeline \<Rightarrow> 'p sync_batch \<Rightarrow> 'p receive_pipeline" where
  "requeue_front p b = p\<lparr>queue := b # queue p\<rparr>"

text \<open>\<open>SyncCommitApplier::drain_batches\<close>, the \<open>while let\<close> loop over any popping queue.\<close>

partial_function (option) drain_loop ::
  "('q \<Rightarrow> ('b \<times> 'q) option) \<Rightarrow> 'q \<Rightarrow> 'b list \<Rightarrow> ('b list \<times> 'q) option" where
  "drain_loop pop q acc =
     (case pop q of None \<Rightarrow> Some (acc, q) | Some (b, q') \<Rightarrow> drain_loop pop q' (acc @ [b]))"

declare drain_loop.simps [code]

definition drain_batches :: "'p receive_pipeline \<Rightarrow> ('p sync_batch list \<times> 'p receive_pipeline) option" where
  "drain_batches p = drain_loop pop_batch p []"

text \<open>The client. \<open>apply\<close> stands for \<open>apply_sync_entities\<close> on the rest of the actor state \<open>'s\<close>,
  \<open>invalidate\<close> for \<open>invalidate_cache_for_events\<close>; the third component is \<open>applied\<close>.\<close>

record ('s, 'p, 'ev) sync_apply_state =
  world :: 's
  pipeline :: "'p receive_pipeline"
  last_sync_queued :: nat
  last_sync_dropped_duplicates :: nat
  last_sync_entity_events :: "'ev list"

fun apply_batches ::
  "('s \<Rightarrow> 'p sync_batch \<Rightarrow> 's \<times> ('e + 'ev list)) \<Rightarrow> 'p sync_batch list \<Rightarrow> 's \<Rightarrow> 'p receive_pipeline \<Rightarrow>
   'ev list \<Rightarrow> nat \<Rightarrow> 's \<times> 'p receive_pipeline \<times> ('e + nat \<times> 'ev list)" where
  "apply_batches appl [] s p evs applied = (s, p, Inr (applied, evs))"
| "apply_batches appl (b # bs) s p evs applied =
     (case appl s b of
        (s', Inr es) \<Rightarrow> apply_batches appl bs s' p (evs @ es) (applied + length (items b))
      | (s', Inl err) \<Rightarrow> (s', requeue_front p b, Inl err))"

definition enqueue_and_apply_sync_items ::
  "('s \<Rightarrow> 'p sync_batch \<Rightarrow> 's \<times> ('e + 'ev list)) \<Rightarrow> ('s \<Rightarrow> 'ev list \<Rightarrow> 's) \<Rightarrow>
   ('s, 'p, 'ev) sync_apply_state \<Rightarrow> string \<Rightarrow> string option \<Rightarrow> 'p sync_entity_item list \<Rightarrow>
   (('s, 'p, 'ev) sync_apply_state \<times> ('e + nat)) option" where
  "enqueue_and_apply_sync_items appl invalidate st et sc its =
     (case enqueue (pipeline st) et sc its of (p1, stats) \<Rightarrow>
        (let st1 = st\<lparr>last_sync_entity_events := [], last_sync_queued := queued_items stats,
                     last_sync_dropped_duplicates := dropped_duplicates stats\<rparr>
         in case drain_batches p1 of
              None \<Rightarrow> None
            | Some (bs, p2) \<Rightarrow>
                (case apply_batches appl bs (world st1) p2 [] 0 of
                   (s', p3, Inl err) \<Rightarrow> Some (st1\<lparr>world := s', pipeline := p3\<rparr>, Inl err)
                 | (s', p3, Inr (applied, evs)) \<Rightarrow>
                     Some (st1\<lparr>world := invalidate s' evs, pipeline := p3,
                               last_sync_entity_events := evs\<rparr>, Inr applied))))"

definition ROOM_DEDUP_WINDOW :: nat where "ROOM_DEDUP_WINDOW = 256"

definition room_message_is_duplicate ::
  "(u64 \<Rightarrow> u64 list option) \<Rightarrow> u64 \<Rightarrow> u64 option \<Rightarrow> (u64 \<Rightarrow> u64 list option) \<times> bool" where
  "room_message_is_duplicate seen_ids channel_id server_message_id =
     (case server_message_id of
        None \<Rightarrow> (seen_ids, False)
      | Some mid \<Rightarrow>
          (let seen = (case seen_ids channel_id of None \<Rightarrow> [] | Some l \<Rightarrow> l)
           in if mid \<in> set seen then (seen_ids(channel_id \<mapsto> seen), True)
              else let seen' = seen @ [mid]
                   in (seen_ids(channel_id \<mapsto>
                         (if ROOM_DEDUP_WINDOW < length seen' then tl seen' else seen')), False)))"

subsection \<open>The queue contract\<close>

locale popping_queue =
  fixes pop :: "'q \<Rightarrow> ('b \<times> 'q) option"
    and contents :: "'q \<Rightarrow> 'b list"
    and meta :: "'q \<Rightarrow> 'm"
  assumes pop_None: "pop q = None \<longleftrightarrow> contents q = []"
    and pop_Some: "pop q = Some (b, q') \<Longrightarrow> contents q = b # contents q' \<and> meta q' = meta q"
begin

lemma drain_all:
  "\<exists>q'. drain_loop pop q acc = Some (acc @ contents q, q') \<and> contents q' = [] \<and> meta q' = meta q"
proof (induction "contents q" arbitrary: q acc)
  case Nil
  then show ?case using pop_None [of q] by (simp add: drain_loop.simps)
next
  case (Cons b bs)
  then obtain q1 where q1: "pop q = Some (b, q1)"
    using pop_None [of q] pop_Some [of q] by (metis list.inject option.exhaust prod.exhaust neq_Nil_conv)
  from pop_Some [OF this] Cons.hyps(2) have "bs = contents q1" "meta q1 = meta q" by auto
  with Cons.hyps(1) [of q1 "acc @ [b]"] q1 Cons.hyps(2) show ?case
    by (auto simp: drain_loop.simps [of pop q])
qed

end

interpretation batches: popping_queue pop_batch queue
  "\<lambda>p. (recent_keys p, recent_key_order p, recent_key_limit p)"
  by unfold_locales (auto simp: pop_batch_def split: list.splits)

lemma drain_batches_eq: "drain_batches p = Some (queue p, p\<lparr>queue := []\<rparr>)"
proof -
  obtain q' where "drain_batches p = Some (queue p, q')" "queue q' = []"
    "(recent_keys q', recent_key_order q', recent_key_limit q') =
     (recent_keys p, recent_key_order p, recent_key_limit p)"
    using batches.drain_all [of p "[]"] by (auto simp: drain_batches_def)
  then show ?thesis by (cases p; cases q') simp
qed

subsection \<open>Invariant\<close>

definition pipeline_inv :: "'p receive_pipeline \<Rightarrow> bool" where
  "pipeline_inv p \<longleftrightarrow> recent_keys p = set (recent_key_order p) \<and> distinct (recent_key_order p) \<and>
     length (recent_key_order p) \<le> recent_key_limit p \<and> 512 \<le> recent_key_limit p \<and>
     (\<forall>b \<in> set (queue p). items b \<noteq> [])"

lemma evict_keys_eq:
  "distinct order \<Longrightarrow> evict_keys limit (set order) order =
    (set (drop (length order - limit) order), drop (length order - limit) order)"
proof (induction limit "set order" order rule: evict_keys.induct)
  case (2 limit old rest)
  show ?case
  proof (cases "limit < length (old # rest)")
    case True
    have "insert old (set rest) - {old} = set rest" using 2(2) by auto
    with True 2 show ?thesis by (simp add: Suc_diff_le)
  qed simp
qed simp

lemma remember_key_simps [simp]:
  "queue (remember_key p k) = queue p" "recent_key_limit (remember_key p k) = recent_key_limit p"
  by (simp_all add: remember_key_def split: prod.split)

lemma remember_key_eq:
  assumes "pipeline_inv p" and "k \<notin> recent_keys p"
  defines "order \<equiv> recent_key_order p @ [k]"
  shows "recent_key_order (remember_key p k) = drop (length order - recent_key_limit p) order \<and>
    recent_keys (remember_key p k) = set (drop (length order - recent_key_limit p) order)"
proof -
  have "distinct order" and "insert k (recent_keys p) = set order"
    using assms by (auto simp: pipeline_inv_def)
  then show ?thesis
    using evict_keys_eq [of order "recent_key_limit p"] by (simp add: remember_key_def order_def)
qed

lemma remember_key_inv [inv_intros]:
  "pipeline_inv p \<Longrightarrow> k \<notin> recent_keys p \<Longrightarrow> pipeline_inv (remember_key p k)"
  using remember_key_eq [of p k] by (auto simp: pipeline_inv_def dest: in_set_dropD intro: distinct_drop)

lemma remember_key_keeps:
  "pipeline_inv p \<Longrightarrow> k \<notin> recent_keys p \<Longrightarrow> length (recent_key_order p) < recent_key_limit p \<Longrightarrow>
    recent_key_order (remember_key p k) = recent_key_order p @ [k] \<and>
    recent_keys (remember_key p k) = insert k (recent_keys p)"
  using remember_key_eq [of p k] by (auto simp: pipeline_inv_def)

lemma accept_items_inv:
  "pipeline_inv p \<Longrightarrow> accept_items et sc its p = (p', acc, d) \<Longrightarrow>
    pipeline_inv p' \<and> queue p' = queue p \<and> recent_key_limit p' = recent_key_limit p \<and>
    length acc + d = length its"
proof (induction its arbitrary: p p' acc d)
  case (Cons it its)
  let ?k = "dedupe_key et sc it"
  show ?case
  proof (cases "?k \<in> recent_keys p")
    case True
    then obtain d' where "accept_items et sc its p = (p', acc, d')" "d = Suc d'"
      using Cons.prems(2) by (auto simp: Let_def split: prod.splits)
    with Cons.IH [of p p' acc d'] Cons.prems show ?thesis by simp
  next
    case False
    then obtain acc' where "accept_items et sc its (remember_key p ?k) = (p', acc', d)" "acc = it # acc'"
      using Cons.prems(2) by (auto simp: Let_def split: prod.splits)
    with Cons.IH [of "remember_key p ?k" p' acc' d] remember_key_inv [OF Cons.prems(1) False]
    show ?thesis by simp
  qed
qed simp

lemma enqueue_inv [inv_intros]: "pipeline_inv p \<Longrightarrow> pipeline_inv (fst (enqueue p et sc its))"
proof -
  assume p: "pipeline_inv p"
  obtain p1 acc d where a: "accept_items et sc its p = (p1, acc, d)" by (metis prod_cases3)
  from accept_items_inv [OF p a] show ?thesis
    by (auto simp: enqueue_def a pipeline_inv_def)
qed

lemma new_pipeline_inv [inv_intros]: "pipeline_inv (new_pipeline n)"
  by (simp add: pipeline_inv_def new_pipeline_def)

text \<open>While the window has room, a key is accepted exactly when it has not been seen.\<close>

lemma accept_items_keys:
  assumes "pipeline_inv p" and "length (recent_key_order p) + length its \<le> recent_key_limit p"
    and "accept_items et sc its p = (p', acc, d)"
  shows "distinct (map (dedupe_key et sc) acc) \<and>
    set (map (dedupe_key et sc) acc) = dedupe_key et sc ` set its - recent_keys p \<and>
    recent_keys p' = recent_keys p \<union> dedupe_key et sc ` set its \<and>
    length (recent_key_order p') \<le> length (recent_key_order p) + length its"
  using assms
proof (induction its arbitrary: p p' acc d)
  case (Cons it its)
  let ?k = "dedupe_key et sc it"
  show ?case
  proof (cases "?k \<in> recent_keys p")
    case True
    then obtain d' where "accept_items et sc its p = (p', acc, d')"
      using Cons.prems(3) by (auto simp: Let_def split: prod.splits)
    with Cons.IH [of p p' acc d'] Cons.prems True show ?thesis by auto
  next
    case False
    let ?q = "remember_key p ?k"
    obtain acc' where acc': "accept_items et sc its ?q = (p', acc', d)" "acc = it # acc'"
      using Cons.prems(3) False by (auto simp: Let_def split: prod.splits)
    have q: "recent_key_order ?q = recent_key_order p @ [?k]" "recent_keys ?q = insert ?k (recent_keys p)"
      "pipeline_inv ?q"
      using remember_key_keeps [OF Cons.prems(1) False] Cons.prems remember_key_inv [OF Cons.prems(1) False]
      by auto
    from Cons.IH [of ?q p' acc' d] q acc' Cons.prems False show ?thesis by auto
  qed
qed simp

fun enqueue_all :: "'p receive_pipeline \<Rightarrow> (string \<times> string option \<times> 'p sync_entity_item list) list \<Rightarrow>
    'p receive_pipeline" where
  "enqueue_all p [] = p"
| "enqueue_all p ((et, sc, its) # rest) = enqueue_all (fst (enqueue p et sc its)) rest"

definition batch_keys :: "'p sync_batch \<Rightarrow> string list" where
  "batch_keys b = map (dedupe_key (entity_type b) (scope b)) (items b)"

definition queued_keys :: "'p receive_pipeline \<Rightarrow> string list" where
  "queued_keys p = concat (map batch_keys (queue p))"

lemma enqueue_keys:
  assumes "pipeline_inv p" and "length (recent_key_order p) + length its \<le> recent_key_limit p"
    and "distinct (queued_keys p)" "set (queued_keys p) \<subseteq> recent_keys p"
    and q_def: "q = fst (enqueue p et sc its)"
  shows "distinct (queued_keys q) \<and>
    set (queued_keys q) = set (queued_keys p) \<union> (dedupe_key et sc ` set its - recent_keys p) \<and>
    recent_keys q = recent_keys p \<union> dedupe_key et sc ` set its \<and>
    length (recent_key_order q) \<le> length (recent_key_order p) + length its \<and>
    recent_key_limit q = recent_key_limit p"
proof -
  obtain p1 acc d where a: "accept_items et sc its p = (p1, acc, d)" by (metis prod_cases3)
  note k = accept_items_keys [OF assms(1,2) a]
  note i = accept_items_inv [OF assms(1) a]
  have q: "q = (if acc \<noteq> [] then p1\<lparr>queue := queue p @ [\<lparr>entity_type = et, scope = sc, items = acc\<rparr>]\<rparr> else p1)"
    using i a by (simp add: q_def enqueue_def)
  have "queued_keys q = queued_keys p @ map (dedupe_key et sc) acc"
    using i by (simp add: q queued_keys_def batch_keys_def)
  then show ?thesis using k i assms(3,4) by (auto simp: q)
qed

lemma enqueue_all_keys:
  assumes "pipeline_inv p" and "distinct (queued_keys p)" and "set (queued_keys p) = recent_keys p"
    and "length (recent_key_order p) + sum_list (map (\<lambda>(_, _, its). length its) es) \<le> recent_key_limit p"
  shows "pipeline_inv (enqueue_all p es) \<and> distinct (queued_keys (enqueue_all p es)) \<and>
    set (queued_keys (enqueue_all p es)) =
      recent_keys p \<union> (\<Union>(et, sc, its) \<in> set es. dedupe_key et sc ` set its)"
  using assms
proof (induction es arbitrary: p)
  case (Cons e es)
  obtain et sc its where e: "e = (et, sc, its)" by (metis prod_cases3)
  let ?q = "fst (enqueue p et sc its)"
  have k: "distinct (queued_keys ?q) \<and>
    set (queued_keys ?q) = set (queued_keys p) \<union> (dedupe_key et sc ` set its - recent_keys p) \<and>
    recent_keys ?q = recent_keys p \<union> dedupe_key et sc ` set its \<and>
    length (recent_key_order ?q) \<le> length (recent_key_order p) + length its \<and>
    recent_key_limit ?q = recent_key_limit p"
    by (rule enqueue_keys [OF _ _ _ _ refl]) (use Cons.prems e in auto)
  have "pipeline_inv (enqueue_all ?q es) \<and> distinct (queued_keys (enqueue_all ?q es)) \<and>
    set (queued_keys (enqueue_all ?q es)) =
      recent_keys ?q \<union> (\<Union>(et, sc, its) \<in> set es. dedupe_key et sc ` set its)"
    by (rule Cons.IH) (use k Cons.prems e enqueue_inv in \<open>auto\<close>)
  with k show ?case by (auto simp: e)
qed simp

subsection \<open>Properties\<close>



text \<open>The recent-key window stays a duplicate-free list that mirrors the key set and never
  outgrows its limit, and the queue never holds an empty batch, through any sequence of
  deliveries, pops and re-queues of popped batches.\<close>

theorem pipeline_window_bounded:
  assumes "pipeline_inv p"
  shows "pipeline_inv (fst (enqueue p et sc its)) \<and>
    queued_items (snd (enqueue p et sc its)) + dropped_duplicates (snd (enqueue p et sc its)) = length its \<and>
    (\<forall>b q. pop_batch p = Some (b, q) \<longrightarrow> pipeline_inv q \<and> pipeline_inv (requeue_front q b) \<and>
       requeue_front q b = p)"
proof -
  have "queued_items (snd (enqueue p et sc its)) + dropped_duplicates (snd (enqueue p et sc its)) = length its"
  proof -
    obtain p1 acc d where a: "accept_items et sc its p = (p1, acc, d)" by (metis prod_cases3)
    from accept_items_inv [OF assms a] show ?thesis by (simp add: enqueue_def a)
  qed
  then show ?thesis
    using enqueue_inv [OF assms] assms
    by (auto simp: pop_batch_def requeue_front_def pipeline_inv_def split: list.splits)
qed

theorem pipeline_window_bounded_witness:
  "pipeline_inv (fst (enqueue (new_pipeline 0) ''channel'' None
     [\<lparr>entity_id = ''7'', item_version = 1, deleted = True, payload = Some ()\<rparr>]))"
  using pipeline_window_bounded [OF new_pipeline_inv] by blast

text \<open>A failed apply keeps its own batch and loses every other one that was drained with it:
  the pipeline afterwards holds only the failed batch, while the keys of the lost batches stay
  remembered, so that delivering the lost items again queues nothing.\<close>

theorem failed_apply_drops_later_batches:
  assumes "pipeline_inv p" and "queue p = b # rest" and "appl s b = (s', Inl err)"
    and "lost \<in> set rest" and "set (batch_keys lost) \<subseteq> recent_keys p"
  shows "\<exists>p'. drain_batches p = Some (b # rest, p\<lparr>queue := []\<rparr>) \<and>
    apply_batches appl (b # rest) s (p\<lparr>queue := []\<rparr>) evs n = (s', p', Inl err) \<and>
    queue p' = [b] \<and>
    queued_items (snd (enqueue p' (entity_type lost) (scope lost) (items lost))) = 0"
proof -
  have none: "accept_items et sc its q = (q, [], length its)"
    if "dedupe_key et sc ` set its \<subseteq> recent_keys q" for et sc its and q :: "'a receive_pipeline"
    using that by (induction its) (auto simp: Let_def)
  let ?p' = "requeue_front (p\<lparr>queue := []\<rparr>) b"
  have "accept_items (entity_type lost) (scope lost) (items lost) ?p' = (?p', [], length (items lost))"
    by (rule none) (use assms(5) in \<open>simp add: batch_keys_def requeue_front_def\<close>)
  then have "queued_items (snd (enqueue ?p' (entity_type lost) (scope lost) (items lost))) = 0"
    by (simp add: enqueue_def)
  then show ?thesis
    using assms by (simp add: drain_batches_eq requeue_front_def)
qed

subsection \<open>The apply loop\<close>

lemma apply_batches_ok:
  assumes "\<And>s b. \<exists>s' es. appl s b = (s', Inr es)"
  shows "apply_batches appl bs s p evs n =
    (foldl (\<lambda>s b. fst (appl s b)) s bs, p,
     Inr (n + sum_list (map (\<lambda>b. length (items b)) bs),
          evs @ snd (foldl (\<lambda>(s, es) b. (fst (appl s b), es @ projr (snd (appl s b)))) (s, []) bs)))"
proof (induction bs arbitrary: s evs n)
  case (Cons b bs)
  obtain s' es where a: "appl s b = (s', Inr es)" using assms by blast
  have acc: "foldl (\<lambda>(s, es) b. (fst (appl s b), es @ projr (snd (appl s b)))) (s, es) bs =
    (fst (foldl (\<lambda>(s, es) b. (fst (appl s b), es @ projr (snd (appl s b)))) (s, []) bs),
     es @ snd (foldl (\<lambda>(s, es) b. (fst (appl s b), es @ projr (snd (appl s b)))) (s, []) bs))"
    for s es bs
  proof (induction bs rule: rev_induct)
    case (snoc b bs) then show ?case by (simp add: case_prod_beta)
  qed simp
  show ?case using Cons.IH acc [of s' es bs] by (simp add: a)
qed simp

theorem failed_apply_drops_later_batches_witness:
  "\<exists>p'. queue p' = [\<lparr>entity_type = ''user'', scope = None, items =
       [\<lparr>entity_id = ''1'', item_version = 1, deleted = False, payload = Some ()\<rparr>]\<rparr>] \<and>
     queued_items (snd (enqueue p' ''group'' None
       [\<lparr>entity_id = ''2'', item_version = 1, deleted = False, payload = Some ()\<rparr>])) = 0"
proof -
  let ?i = "\<lparr>entity_id = ''1'', item_version = 1, deleted = False, payload = Some ()\<rparr>"
  let ?j = "\<lparr>entity_id = ''2'', item_version = 1, deleted = False, payload = Some ()\<rparr>"
  let ?ks = "[dedupe_key ''user'' None ?i, dedupe_key ''group'' None ?j]"
  let ?b = "\<lparr>entity_type = ''user'', scope = None, items = [?i]\<rparr>"
  let ?c = "\<lparr>entity_type = ''group'', scope = None, items = [?j]\<rparr>"
  let ?p = "\<lparr>queue = [?b, ?c], recent_keys = set ?ks, recent_key_order = ?ks, recent_key_limit = 512\<rparr>"
  have "pipeline_inv ?p" by (simp add: pipeline_inv_def dedupe_key_def)
  from failed_apply_drops_later_batches [OF this, of ?b "[?c]" "\<lambda>s b. (s, Inl ())" "()" "()" "()" ?c "[]" 0]
  show ?thesis by (auto simp: batch_keys_def)
qed

end
