(* ===== verification/Chunk_Upload.thy ===== *)
theory Chunk_Upload
  imports Error_Model
begin

text \<open>
  The decision part of \<open>resumable_upload.rs\<close> (plan, progress, adaptive chunk size, gaps,
  response classification, the upload state machine) and the loop of \<open>upload_in_chunks\<close> of
  \<open>lib.rs\<close> that drives it, over the list of the server's answers. Byte quantities are
  naturals; the two additions of \<open>u64\<close> values that the server controls carry the wrap-around
  of the release build. Floating-point rates are rationals with a rounding \<open>rnd\<close>.
\<close>

subsection \<open>Plan and progress\<close>

record upload_plan =
  base_unit :: nat
  initial_request_size :: nat
  max_request_size :: nat
  session_threshold :: nat
  max_parallel_parts :: nat

definition for_base_unit :: "nat \<Rightarrow> upload_plan" where
  "for_base_unit b0 =
     (let b = max b0 1
      in \<lparr>base_unit = b, initial_request_size = b, max_request_size = max (2 * 1024 * 1024) b,
          session_threshold = b, max_parallel_parts = 1\<rparr>)"

record upload_progress =
  uploaded :: nat
  progress_total :: nat

definition percent :: "upload_progress \<Rightarrow> nat" where
  "percent p =
     (if progress_total p = 0 then 100
      else (min (uploaded p) (progress_total p) * 100 div progress_total p) mod 256)"

subsection \<open>Adaptive chunk size\<close>

record chunk_sizer =
  plan :: upload_plan
  rate :: "rat option"
  next_sz :: nat

definition new_sizer :: "upload_plan \<Rightarrow> chunk_sizer" where
  "new_sizer p = \<lparr>plan = p, rate = None, next_sz = max (initial_request_size p) (base_unit p)\<rparr>"

definition clamp_chunk :: "upload_plan \<Rightarrow> nat \<Rightarrow> nat" where
  "clamp_chunk p want =
     (let base = max (base_unit p) 1;
          mx = max (max_request_size p) (base_unit p);
          w = (if want < base then base else if mx < want then mx else want);
          aligned = (w div base) * base
      in wrap_u32 (max aligned base))"

definition f64_as_u64 :: "rat \<Rightarrow> nat" where
  "f64_as_u64 x = sat_u64 (nat \<lfloor>x\<rfloor>)"

text \<open>\<open>elapsed\<close> is the value of \<open>elapsed.as_secs_f64()\<close>.\<close>

definition on_success :: "(rat \<Rightarrow> rat) \<Rightarrow> chunk_sizer \<Rightarrow> nat \<Rightarrow> rat \<Rightarrow> chunk_sizer" where
  "on_success rnd s nbytes elapsed =
     (let secs = max elapsed (rnd (1 / 1000));
          sample = rnd (of_nat nbytes / secs);
          r = (case rate s of
                 Some prev \<Rightarrow> rnd (rnd (prev * rnd (7 / 10)) + rnd (sample * rnd (3 / 10)))
               | None \<Rightarrow> sample);
          capped = min (f64_as_u64 r) (nbytes * 4)
      in s\<lparr>rate := Some r, next_sz := clamp_chunk (plan s) capped\<rparr>)"

definition on_failure :: "chunk_sizer \<Rightarrow> chunk_sizer" where
  "on_failure s =
     (let halved = max (next_sz s div 2) (base_unit (plan s))
      in s\<lparr>next_sz := clamp_chunk (plan s) halved, rate := None\<rparr>)"

subsection \<open>Gaps\<close>

record gap =
  offset :: nat
  len :: nat

fun gap_scan :: "(nat \<times> nat) list \<Rightarrow> nat \<Rightarrow> gap list \<times> nat" where
  "gap_scan [] cursor = ([], cursor)"
| "gap_scan ((off, l) # ranges) cursor =
     (let here = (if off > cursor then [\<lparr>offset = cursor, len = off - cursor\<rparr>] else []);
          (rest, c) = gap_scan ranges (max cursor (wrap_u64 (off + l)))
      in (here @ rest, c))"

definition gaps_from_confirmed :: "(nat \<times> nat) list \<Rightarrow> nat \<Rightarrow> gap list" where
  "gaps_from_confirmed confirmed tot =
     (let (gs, cursor) = gap_scan (sort_key fst confirmed) 0
      in gs @ (if cursor < tot then [\<lparr>offset = cursor, len = tot - cursor\<rparr>] else []))"

text \<open>The length of the piece cut at \<open>offset\<close>. Inside the loop \<open>offset + l\<close> never passes the
  end of the gap, so it stays a \<open>u64\<close>.\<close>

definition piece_len :: "nat \<Rightarrow> nat \<Rightarrow> nat \<Rightarrow> nat \<Rightarrow> nat" where
  "piece_len sz tot gend off =
     (let l = min sz (gend - off)
      in if off + l < tot
         then (let base = max sz 1; aligned = (l div base) * base
               in if aligned > 0 then aligned else l)
         else l)"

text \<open>With \<open>sz = 0\<close> the loop of the code never ends, which is the value \<open>None\<close>.\<close>

partial_function (option) split_loop :: "nat \<Rightarrow> nat \<Rightarrow> nat \<Rightarrow> nat \<Rightarrow> gap list option" where
  "split_loop sz tot gend off =
     (if off < gend
      then Option.bind (split_loop sz tot gend (off + piece_len sz tot gend off))
             (\<lambda>rest. Some (\<lparr>offset = off, len = piece_len sz tot gend off\<rparr> # rest))
      else Some [])"

definition split_gap :: "gap \<Rightarrow> nat \<Rightarrow> nat \<Rightarrow> gap list option" where
  "split_gap g sz tot = split_loop sz tot (wrap_u64 (offset g + len g)) (offset g)"

subsection \<open>Classification of the server's answers\<close>

datatype chunk_verdict = ChunkOk | RetryChunk | Resync | StartOver | Fatal

definition chunk_verdict_of :: "nat option \<Rightarrow> bool \<Rightarrow> chunk_verdict" where
  "chunk_verdict_of c is_server_error =
     (if c = Some 0 \<or> c = Some 20614 then ChunkOk
      else if c = Some 20611 \<or> c = Some 20612 then RetryChunk
      else if c = Some 20610 \<or> c = Some 20615 then Resync
      else if c = Some 20613 then StartOver
      else if is_server_error then RetryChunk else Fatal)"

definition verdict_for_code :: "nat \<Rightarrow> chunk_verdict" where
  "verdict_for_code c = chunk_verdict_of (Some c) False"

definition CHUNK_RETRIES :: nat where "CHUNK_RETRIES = 2"

definition chunk_retry_delay_ms :: "nat \<Rightarrow> nat" where
  "chunk_retry_delay_ms n = 300 * 2 ^ min n 4"

text \<open>\<open>put_chunk\<close> after the request: no response, or its status class and the business code of a
  body that parsed; the code is cut to 32 bits.\<close>

definition put_chunk_verdict :: "(bool \<times> nat option) option \<Rightarrow> chunk_verdict" where
  "put_chunk_verdict resp =
     (case resp of
        None \<Rightarrow> RetryChunk
      | Some (is_server_error, c) \<Rightarrow> chunk_verdict_of (map_option wrap_u32 c) is_server_error)"

subsection \<open>The upload state machine\<close>

record resumable_upload =
  total :: nat
  sizer :: chunk_sizer
  gaps :: "gap list"
  confirmed :: nat

definition new_upload :: "nat \<Rightarrow> upload_plan \<Rightarrow> (nat \<times> nat) list \<Rightarrow> resumable_upload" where
  "new_upload tot p conf =
     \<lparr>total = tot, sizer = new_sizer p, gaps = gaps_from_confirmed conf tot,
      confirmed = wrap_u64 (sum_list (map snd conf))\<rparr>"

definition from_missing :: "nat \<Rightarrow> upload_plan \<Rightarrow> (nat \<times> nat) list \<Rightarrow> resumable_upload" where
  "from_missing tot p missing =
     (let gs = sort_key offset (map (\<lambda>(off, l). \<lparr>offset = off, len = l\<rparr>) missing);
          missing_total = wrap_u64 (sum_list (map len gs))
      in \<lparr>total = tot, sizer = new_sizer p, gaps = gs, confirmed = tot - missing_total\<rparr>)"

definition resync_missing :: "resumable_upload \<Rightarrow> (nat \<times> nat) list \<Rightarrow> resumable_upload" where
  "resync_missing up missing =
     (let fresh = from_missing (total up) (plan (sizer up)) missing
      in up\<lparr>gaps := gaps fresh, confirmed := confirmed fresh\<rparr>)"

definition progress :: "resumable_upload \<Rightarrow> upload_progress" where
  "progress up = \<lparr>uploaded = confirmed up, progress_total = total up\<rparr>"

definition is_done :: "resumable_upload \<Rightarrow> bool" where
  "is_done up \<longleftrightarrow> gaps up = []"

definition next_chunk :: "resumable_upload \<Rightarrow> gap option option" where
  "next_chunk up =
     (case gaps up of
        [] \<Rightarrow> Some None
      | g # _ \<Rightarrow> map_option (\<lambda>ps. case ps of [] \<Rightarrow> None | p # _ \<Rightarrow> Some p)
                   (split_gap g (next_sz (sizer up)) (total up)))"

definition consume :: "resumable_upload \<Rightarrow> gap \<Rightarrow> resumable_upload" where
  "consume up chunk =
     (case gaps up of
        [] \<Rightarrow> up
      | g # gs \<Rightarrow>
          if offset chunk \<noteq> offset g then up
          else if len chunk \<ge> len g then up\<lparr>gaps := gs\<rparr>
          else up\<lparr>gaps := \<lparr>offset = offset g + len chunk, len = len g - len chunk\<rparr> # gs\<rparr>)"

definition on_chunk_ok :: "(rat \<Rightarrow> rat) \<Rightarrow> resumable_upload \<Rightarrow> gap \<Rightarrow> rat \<Rightarrow> resumable_upload" where
  "on_chunk_ok rnd up chunk elapsed =
     (let up1 = up\<lparr>sizer := on_success rnd (sizer up) (wrap_u32 (len chunk)) elapsed\<rparr>;
          up2 = consume up1 chunk
      in up2\<lparr>confirmed := min (wrap_u64 (confirmed up2 + len chunk)) (total up2)\<rparr>)"

definition on_chunk_failed :: "resumable_upload \<Rightarrow> resumable_upload" where
  "on_chunk_failed up = up\<lparr>sizer := on_failure (sizer up)\<rparr>"

definition resync :: "resumable_upload \<Rightarrow> (nat \<times> nat) list \<Rightarrow> resumable_upload" where
  "resync up conf =
     up\<lparr>gaps := gaps_from_confirmed conf (total up), confirmed := wrap_u64 (sum_list (map snd conf))\<rparr>"

subsection \<open>The upload loop\<close>

text \<open>The texts of the three transport errors of the loop.\<close>

definition no_progress_text :: "nat \<Rightarrow> nat \<Rightarrow> string" where
  "no_progress_text n off =
     bytes [229, 136, 134, 231, 137, 135, 228, 184, 138, 228, 188, 160, 232, 191, 158, 231, 187,
       173, 32] @ show_nat n @
     bytes [32, 230, 172, 161, 230, 178, 161, 230, 156, 137, 232, 191, 155, 229, 177, 149, 239,
       188, 136, 111, 102, 102, 115, 101, 116, 61] @ show_nat off @
     bytes [239, 188, 137]"

definition no_resync_text :: string where
  "no_resync_text =
     bytes [229, 143, 141, 229, 164, 141, 228, 184, 142, 230, 156, 141, 229, 138, 161, 231, 171,
       175, 229, 140, 186, 233, 151, 180, 229, 175, 185, 228, 184, 141, 233, 189, 144, 239, 188,
       140, 228, 186, 164, 229, 155, 158, 233, 135, 141, 232, 175, 149]"

definition fatal_text :: "nat \<Rightarrow> string" where
  "fatal_text off =
     bytes [229, 136, 134, 231, 137, 135, 228, 184, 138, 228, 188, 160, 232, 162, 171, 230, 156,
       141, 229, 138, 161, 231, 171, 175, 231, 187, 136, 229, 177, 128, 230, 139, 146, 231, 187,
       157, 239, 188, 136, 111, 102, 102, 115, 101, 116, 61] @
     show_nat off @ bytes [239, 188, 137]"

text \<open>One answer per chunk request, with the status reply that follows a resync verdict. The loop
  returns the chunks that were accepted, the progress values emitted, and either an error or
  the signal to complete the upload; \<open>None\<close> means that the given answers ran out or that a
  chunk could not be cut. Reading the sealed bytes and hashing them is not modelled.\<close>

datatype status_outcome = Status "(nat \<times> nat) list" bool | SessionGone

record chunk_answer =
  verdict :: chunk_verdict
  elapsed_secs :: rat
  resync_status :: "status_outcome result"

record upload_trace =
  accepted :: "gap list"
  emitted :: "upload_progress list"
  final :: "unit result"

fun upload_loop :: "(rat \<Rightarrow> rat) \<Rightarrow> resumable_upload \<Rightarrow> nat \<Rightarrow> chunk_answer list \<Rightarrow>
    (upload_trace \<times> resumable_upload) option" where
  "upload_loop rnd up fails answers =
     (case next_chunk up of
        None \<Rightarrow> None
      | Some None \<Rightarrow> Some (\<lparr>accepted = [], emitted = [], final = Inr ()\<rparr>, up)
      | Some (Some chunk) \<Rightarrow>
          (case answers of
             [] \<Rightarrow> None
           | a # as \<Rightarrow>
               (case verdict a of
                  ChunkOk \<Rightarrow>
                    (let up' = on_chunk_ok rnd up chunk (elapsed_secs a)
                     in map_option (\<lambda>(tr, u). (tr\<lparr>accepted := chunk # accepted tr,
                                                 emitted := progress up' # emitted tr\<rparr>, u))
                          (upload_loop rnd up' 0 as))
                | RetryChunk \<Rightarrow>
                    if fails + 1 > CHUNK_RETRIES
                    then Some (\<lparr>accepted = [], emitted = [], final = Inl (Transport (no_progress_text (fails + 1) (offset chunk)))\<rparr>, up)
                    else upload_loop rnd (on_chunk_failed up) (fails + 1) as
                | Resync \<Rightarrow>
                    if fails + 1 > CHUNK_RETRIES
                    then Some (\<lparr>accepted = [], emitted = [], final = Inl (Transport no_resync_text)\<rparr>, up)
                    else
                      (case resync_status a of
                         Inl e \<Rightarrow> Some (\<lparr>accepted = [], emitted = [], final = Inl e\<rparr>, up)
                       | Inr SessionGone \<Rightarrow>
                           Some (\<lparr>accepted = [], emitted = [], final = Inl UploadSessionGone\<rparr>, up)
                       | Inr (Status missing completed) \<Rightarrow>
                           if completed \<and> missing = []
                           then Some (\<lparr>accepted = [], emitted = [], final = Inr ()\<rparr>, up)
                           else
                             (let up' = resync_missing up missing
                              in map_option (\<lambda>(tr, u). (tr\<lparr>emitted := progress up' # emitted tr\<rparr>, u))
                                   (upload_loop rnd up' (fails + 1) as)))
                | StartOver \<Rightarrow>
                    Some (\<lparr>accepted = [], emitted = [], final = Inl UploadSessionGone\<rparr>, up)
                | Fatal \<Rightarrow>
                    Some (\<lparr>accepted = [], emitted = [], final = Inl (Transport (fatal_text (offset chunk)))\<rparr>, up))))"

declare upload_loop.simps [simp del]

subsection \<open>Lemmas on sizes\<close>

definition plan_ok :: "upload_plan \<Rightarrow> bool" where
  "plan_ok p \<longleftrightarrow> 1 \<le> base_unit p \<and> base_unit p < 2 ^ 32 \<and> max_request_size p < 2 ^ 32"

definition sizer_ok :: "chunk_sizer \<Rightarrow> bool" where
  "sizer_ok s \<longleftrightarrow> plan_ok (plan s) \<and> base_unit (plan s) \<le> next_sz s \<and>
     next_sz s \<le> max (max_request_size (plan s)) (base_unit (plan s)) \<and>
     base_unit (plan s) dvd next_sz s"

lemma clamp_chunk_ok:
  assumes "plan_ok p"
  shows "base_unit p \<le> clamp_chunk p w \<and> clamp_chunk p w \<le> max (max_request_size p) (base_unit p) \<and>
    base_unit p dvd clamp_chunk p w \<and> clamp_chunk p w \<le> max w (base_unit p)"
proof -
  let ?b = "base_unit p"
  let ?m = "max (max_request_size p) ?b"
  let ?w = "if w < ?b then ?b else if ?m < w then ?m else w"
  define v where "v = ?w"
  have b: "1 \<le> ?b" "?m < 2 ^ 32" using assms by (auto simp: plan_ok_def)
  have v: "?b \<le> v" "v \<le> ?m" "v \<le> max w ?b" by (auto simp: v_def)
  define a where "a = v div ?b * ?b"
  have a: "a \<le> v" by (simp add: a_def)
  have "0 < v div ?b" using v(1) b(1) by (simp add: div_greater_zero_iff)
  then have a1: "?b \<le> a" by (simp add: a_def)
  have "max ?b 1 = ?b" using b(1) by simp
  then have "clamp_chunk p w = wrap_u32 (max a ?b)"
    by (simp only: clamp_chunk_def Let_def a_def v_def)
  also have "\<dots> = a"
  proof -
    have "a < 2 ^ 32" by (rule le_less_trans [OF order_trans [OF a v(2)] b(2)])
    with a1 show ?thesis by (simp add: max_absorb1)
  qed
  finally have eq: "clamp_chunk p w = a" .
  have "?b dvd a" by (simp add: a_def)
  moreover have "a \<le> ?m" "a \<le> max w ?b" using a v by linarith+
  ultimately show ?thesis using eq a1 by simp
qed

lemma on_success_ok: "sizer_ok s \<Longrightarrow> sizer_ok (on_success rnd s n e)"
  using clamp_chunk_ok [of "plan s"] by (auto simp: sizer_ok_def on_success_def Let_def)

lemma on_failure_ok: "sizer_ok s \<Longrightarrow> sizer_ok (on_failure s)"
  using clamp_chunk_ok [of "plan s"] by (auto simp: sizer_ok_def on_failure_def Let_def)

lemma for_base_unit_ok: "b < 2 ^ 32 \<Longrightarrow> sizer_ok (new_sizer (for_base_unit b))"
  by (auto simp: sizer_ok_def new_sizer_def for_base_unit_def plan_ok_def Let_def)

subsection \<open>Lemmas on gaps\<close>

definition range_bytes :: "nat \<times> nat \<Rightarrow> nat set" where
  "range_bytes r = {fst r ..< fst r + snd r}"

definition gap_bytes :: "gap list \<Rightarrow> nat set" where
  "gap_bytes gs = (\<Union>g \<in> set gs. {offset g ..< offset g + len g})"

lemma range_bytes_pair [simp]: "range_bytes (a, b) = {a ..< a + b}"
  by (simp add: range_bytes_def)

lemma gap_bytes_simps [simp]:
  "gap_bytes [] = {}" "gap_bytes (g # gs) = {offset g ..< offset g + len g} \<union> gap_bytes gs"
  "gap_bytes (gs @ hs) = gap_bytes gs \<union> gap_bytes hs"
  by (auto simp: gap_bytes_def)

text \<open>Gaps in increasing order, none empty, none touching the next: nothing is listed twice.\<close>

fun gaps_from :: "nat \<Rightarrow> gap list \<Rightarrow> bool" where
  "gaps_from lo [] \<longleftrightarrow> True"
| "gaps_from lo (g # gs) \<longleftrightarrow> lo \<le> offset g \<and> 0 < len g \<and> gaps_from (offset g + len g) gs"

lemma gaps_from_mono: "gaps_from lo gs \<Longrightarrow> lo' \<le> lo \<Longrightarrow> gaps_from lo' gs"
  by (cases gs) auto

lemma gaps_from_snoc:
  "gaps_from lo gs \<Longrightarrow> (\<forall>g \<in> set gs. offset g + len g \<le> offset h) \<Longrightarrow> lo \<le> offset h \<Longrightarrow> 0 < len h \<Longrightarrow>
    gaps_from lo (gs @ [h])"
  by (induction gs arbitrary: lo) auto

lemma gap_scan_spec:
  assumes "sorted (map fst rs)" and "\<forall>(o1, l) \<in> set rs. o1 + l < 2 ^ 64 \<and> cursor \<le> M \<and> o1 + l \<le> M"
    and "gap_scan rs cursor = (gs, c)"
  shows "cursor \<le> c \<and> gaps_from cursor gs \<and> (\<forall>g \<in> set gs. offset g + len g \<le> c) \<and>
    gap_bytes gs = {cursor ..< c} - (\<Union>r \<in> set rs. range_bytes r) \<and>
    (\<Union>r \<in> set rs. range_bytes r) \<subseteq> {0 ..< c} \<and> (\<forall>r \<in> set rs. fst r \<le> c)"
  using assms
proof (induction rs arbitrary: cursor gs c)
  case (Cons r rs)
  obtain o1 l where r: "r = (o1, l)" by (cases r)
  let ?cur = "max cursor (o1 + l)"
  obtain rest where rest: "gap_scan rs ?cur = (rest, c)"
    and gs: "gs = (if cursor < o1 then [\<lparr>offset = cursor, len = o1 - cursor\<rparr>] else []) @ rest"
    using Cons.prems(2,3) r by (auto simp: Let_def split: prod.splits)
  have ih: "?cur \<le> c \<and> gaps_from ?cur rest \<and> (\<forall>g \<in> set rest. offset g + len g \<le> c) \<and>
    gap_bytes rest = {?cur ..< c} - (\<Union>r \<in> set rs. range_bytes r) \<and>
    (\<Union>r \<in> set rs. range_bytes r) \<subseteq> {0 ..< c} \<and> (\<forall>r \<in> set rs. fst r \<le> c)"
    by (rule Cons.IH) (use Cons.prems rest r in auto)
  have later: "x \<notin> (\<Union>r \<in> set rs. range_bytes r)" if "x < o1" for x
    using Cons.prems(1) that r by (force simp: range_bytes_def)
  have bytes: "gap_bytes gs = {cursor ..< c} - (\<Union>r \<in> set (r # rs). range_bytes r)"
  proof (rule set_eqI)
    fix x
    consider "x < cursor" | "cursor \<le> x" "x < o1" | "cursor \<le> x" "o1 \<le> x" "x < ?cur" | "?cur \<le> x" by linarith
    then show "x \<in> gap_bytes gs \<longleftrightarrow> x \<in> {cursor ..< c} - (\<Union>r \<in> set (r # rs). range_bytes r)"
      using ih later [of x] by cases (auto simp: gs r)
  qed
  have "gaps_from cursor gs"
    using ih gaps_from_mono [of ?cur rest] by (auto simp: gs)
  then show ?case using ih bytes r by (auto simp: gs range_bytes_def)
qed simp

lemma gaps_from_confirmed_spec:
  assumes "\<forall>(o1, l) \<in> set conf. o1 + l < 2 ^ 64 \<and> o1 + l \<le> tot"
  shows "gaps_from 0 (gaps_from_confirmed conf tot) \<and>
    gap_bytes (gaps_from_confirmed conf tot) = {0 ..< tot} - (\<Union>r \<in> set conf. range_bytes r)"
proof -
  obtain gs c where sc: "gap_scan (sort_key fst conf) 0 = (gs, c)" by fastforce
  have sp: "0 \<le> c \<and> gaps_from 0 gs \<and> (\<forall>g \<in> set gs. offset g + len g \<le> c) \<and>
    gap_bytes gs = {0 ..< c} - (\<Union>r \<in> set (sort_key fst conf). range_bytes r) \<and>
    (\<Union>r \<in> set (sort_key fst conf). range_bytes r) \<subseteq> {0 ..< c} \<and> (\<forall>r \<in> set (sort_key fst conf). fst r \<le> c)"
    by (rule gap_scan_spec [OF _ _ sc, of tot]) (use assms in auto)
  have c: "c \<le> tot"
  proof -
    have "gap_scan rs cur = (gs', c') \<Longrightarrow> cur \<le> tot \<Longrightarrow>
      \<forall>(o1, l) \<in> set rs. o1 + l < 2 ^ 64 \<and> o1 + l \<le> tot \<Longrightarrow> c' \<le> tot" for rs cur gs' c'
      by (induction rs arbitrary: cur gs') (auto simp: Let_def split: prod.splits)
    from this [OF sc] assms show ?thesis by auto
  qed
  show ?thesis
    using sp c gaps_from_snoc [of 0 gs "\<lparr>offset = c, len = tot - c\<rparr>"]
    by (auto simp: gaps_from_confirmed_def sc)
qed

subsection \<open>Lemmas on splitting\<close>

lemma piece_len_eq: "0 < sz \<Longrightarrow> piece_len sz tot gend off = min sz (gend - off)"
  by (cases "sz \<le> gend - off") (auto simp: piece_len_def Let_def min_def)

lemma split_loop_spec:
  assumes "0 < sz" and "off \<le> gend"
  shows "\<exists>ps. split_loop sz tot gend off = Some ps \<and> gaps_from off ps \<and>
    gap_bytes ps = {off ..< gend} \<and> sum_list (map len ps) = gend - off \<and>
    (\<forall>p \<in> set ps. 0 < len p \<and> len p \<le> sz \<and> offset p + len p \<le> gend \<and>
       (len p = sz \<or> offset p + len p = gend)) \<and>
    (\<forall>b. b dvd sz \<longrightarrow> b dvd off \<longrightarrow> (\<forall>p \<in> set ps. b dvd offset p))"
  using assms(2)
proof (induction "gend - off" arbitrary: off rule: less_induct)
  case less
  show ?case
  proof (cases "off < gend")
    case False
    then show ?thesis using less.prems by (simp add: split_loop.simps)
  next
    case True
    let ?l = "min sz (gend - off)"
    have l: "0 < ?l" "off + ?l \<le> gend" using True assms(1) by auto
    obtain ps where ps: "split_loop sz tot gend (off + ?l) = Some ps" "gaps_from (off + ?l) ps"
      "gap_bytes ps = {off + ?l ..< gend}" "sum_list (map len ps) = gend - (off + ?l)"
      "\<forall>p \<in> set ps. 0 < len p \<and> len p \<le> sz \<and> offset p + len p \<le> gend \<and>
         (len p = sz \<or> offset p + len p = gend)"
      "\<forall>b. b dvd sz \<longrightarrow> b dvd off + ?l \<longrightarrow> (\<forall>p \<in> set ps. b dvd offset p)"
    proof -
      have "gend - (off + ?l) < gend - off" using l True by linarith
      from less.hyps [OF this l(2)] that show ?thesis by blast
    qed
    have eq: "split_loop sz tot gend off = Some (\<lparr>offset = off, len = ?l\<rparr> # ps)"
      using True ps(1) by (subst split_loop.simps) (simp add: piece_len_eq [OF assms(1)])
    have grid: "\<forall>b. b dvd sz \<longrightarrow> b dvd off \<longrightarrow> (\<forall>p \<in> set (\<lparr>offset = off, len = ?l\<rparr> # ps). b dvd offset p)"
    proof (cases "sz \<le> gend - off")
      case True
      then show ?thesis using ps(6) by (auto simp: min_absorb1)
    next
      case False
      then have "off + ?l = gend" using True by auto
      then have "ps = []" using ps(5) by (cases ps) (use ps(2) in auto)
      then show ?thesis by simp
    qed
    have "gap_bytes (\<lparr>offset = off, len = ?l\<rparr> # ps) = {off ..< gend}"
      using ps(3) l by (auto simp del: min_less_iff_conj)
    moreover have "?l = sz \<or> off + ?l = gend" using True by auto
    ultimately show ?thesis using eq ps l grid by (auto simp del: min_less_iff_conj)
  qed
qed

lemma next_chunk_eq:
  assumes "sizer_ok (sizer up)" and "gaps up = g # gs" and "0 < len g" and "offset g + len g < 2 ^ 64"
  shows "next_chunk up = Some (Some \<lparr>offset = offset g, len = min (next_sz (sizer up)) (len g)\<rparr>)"
proof -
  have sz: "0 < next_sz (sizer up)" using assms(1) by (auto simp: sizer_ok_def plan_ok_def)
  obtain ps where "split_loop (next_sz (sizer up)) (total up) (offset g + len g)
      (offset g + piece_len (next_sz (sizer up)) (total up) (offset g + len g) (offset g)) = Some ps"
    using split_loop_spec [OF sz, of _ "offset g + len g" "total up"] piece_len_eq [OF sz]
    by (metis add_left_mono min.cobounded2 diff_add_inverse)
  then have "split_gap g (next_sz (sizer up)) (total up) =
    Some (\<lparr>offset = offset g, len = min (next_sz (sizer up)) (len g)\<rparr> # ps)"
    using assms(3,4) by (simp add: split_gap_def split_loop.simps [of _ _ _ "offset g"] piece_len_eq [OF sz])
  then show ?thesis using assms(2) by (simp add: next_chunk_def)
qed

subsection \<open>The upload loop\<close>

definition upload_inv :: "resumable_upload \<Rightarrow> bool" where
  "upload_inv up \<longleftrightarrow> sizer_ok (sizer up) \<and> gaps_from 0 (gaps up) \<and>
     (\<forall>g \<in> set (gaps up). offset g + len g < 2 ^ 64)"

definition missing_total :: "resumable_upload \<Rightarrow> nat" where
  "missing_total up = sum_list (map len (gaps up))"

lemma upload_inv_next:
  assumes "upload_inv up" and "gaps up = g # gs"
  shows "next_chunk up = Some (Some \<lparr>offset = offset g, len = min (next_sz (sizer up)) (len g)\<rparr>) \<and>
    0 < min (next_sz (sizer up)) (len g)"
  using assms next_chunk_eq [of up g gs]
  by (auto simp: upload_inv_def sizer_ok_def plan_ok_def)

lemma on_chunk_ok_step:
  assumes "upload_inv up" and "gaps up = g # gs"
    and "c = \<lparr>offset = offset g, len = min (next_sz (sizer up)) (len g)\<rparr>"
  shows "upload_inv (on_chunk_ok rnd up c e) \<and>
    missing_total (on_chunk_ok rnd up c e) + len c = missing_total up \<and>
    {offset c ..< offset c + len c} \<union> gap_bytes (gaps (on_chunk_ok rnd up c e)) = gap_bytes (gaps up) \<and>
    (\<forall>g' \<in> set (gaps (on_chunk_ok rnd up c e)). offset c + len c \<le> offset g')"
proof -
  have later: "\<forall>g' \<in> set gs. offset g + len g \<le> offset g'"
  proof -
    have "gaps_from lo hs \<Longrightarrow> \<forall>g' \<in> set hs. lo \<le> offset g'" for lo hs
      by (induction hs arbitrary: lo) force+
    then show ?thesis using assms(1,2) by (auto simp: upload_inv_def)
  qed
  have sz: "0 < next_sz (sizer up)" using assms(1) by (auto simp: upload_inv_def sizer_ok_def plan_ok_def)
  show ?thesis
  proof (cases "next_sz (sizer up) \<ge> len g")
    case True
    then have "gaps (on_chunk_ok rnd up c e) = gs" "sizer (on_chunk_ok rnd up c e) = on_success rnd (sizer up) (wrap_u32 (len c)) e"
      using assms(2,3) by (simp_all add: on_chunk_ok_def consume_def Let_def)
    then show ?thesis using assms later True gaps_from_mono [of "offset g + len g" gs 0]
      by (auto simp: upload_inv_def missing_total_def on_success_ok min_absorb2)
  next
    case False
    then have "gaps (on_chunk_ok rnd up c e) =
        \<lparr>offset = offset g + len c, len = len g - len c\<rparr> # gs" "len c = next_sz (sizer up)"
      "sizer (on_chunk_ok rnd up c e) = on_success rnd (sizer up) (wrap_u32 (len c)) e"
      using assms(2,3) by (simp_all add: on_chunk_ok_def consume_def Let_def)
    then show ?thesis using assms(1,2,3) later False sz
      by (auto simp: upload_inv_def missing_total_def on_success_ok)
  qed
qed

lemma gaps_from_raise: "gaps_from lo gs \<Longrightarrow> \<forall>g \<in> set gs. x \<le> offset g \<Longrightarrow> gaps_from x gs"
  by (cases gs) auto

lemma upload_inv_failed [inv_intros]: "upload_inv up \<Longrightarrow> upload_inv (on_chunk_failed up)"
  by (simp add: upload_inv_def on_chunk_failed_def on_failure_ok)

lemma on_chunk_failed_gaps [simp]: "gaps (on_chunk_failed up) = gaps up"
  by (simp add: on_chunk_failed_def)

lemma upload_loop_done: "gaps up = [] \<Longrightarrow>
    upload_loop rnd up fails answers = Some (\<lparr>accepted = [], emitted = [], final = Inr ()\<rparr>, up)"
  by (subst upload_loop.simps) (simp add: next_chunk_def)

lemma upload_loop_returns:
  assumes "upload_inv up" and "\<forall>a \<in> set answers. verdict a \<noteq> Resync" and "fails \<le> 2"
    and "3 * missing_total up + 2 \<le> length answers + fails"
  shows "upload_loop rnd up fails answers \<noteq> None"
  using assms
proof (induction answers arbitrary: up fails)
  case Nil
  then have "missing_total up = 0" by simp
  then have "gaps up = []"
    using Nil.prems(1) by (cases "gaps up") (auto simp: missing_total_def upload_inv_def)
  then show ?case by (simp add: upload_loop_done)
next
  case (Cons a as)
  show ?case
  proof (cases "gaps up")
    case Nil
    then show ?thesis by (simp add: upload_loop_done)
  next
    case (Cons g gs)
    let ?c = "\<lparr>offset = offset g, len = min (next_sz (sizer up)) (len g)\<rparr>"
    note nc = upload_inv_next [OF Cons.prems(1) Cons]
    note st = on_chunk_ok_step [OF Cons.prems(1) Cons refl, of rnd "elapsed_secs a"]
    have ok: "upload_loop rnd (on_chunk_ok rnd up ?c (elapsed_secs a)) 0 as \<noteq> None"
      by (rule Cons.IH) (use st nc Cons.prems in auto)
    have retry: "upload_loop rnd (on_chunk_failed up) (fails + 1) as \<noteq> None" if "fails < 2"
      by (rule Cons.IH) (use that Cons.prems in \<open>auto simp: missing_total_def intro: inv_intros\<close>)
    have "verdict a \<noteq> Resync" using Cons.prems(2) by simp
    then show ?thesis
      using nc ok retry Cons.prems(3)
      by (subst upload_loop.simps) (auto simp: CHUNK_RETRIES_def split: chunk_verdict.splits)
  qed
qed

lemma upload_loop_sends:
  assumes "upload_inv up" and "\<forall>a \<in> set answers. verdict a \<noteq> Resync" and "gaps_from lo (gaps up)"
    and "upload_loop rnd up fails answers = Some (tr, u)" and "final tr = Inr ()"
  shows "gaps u = [] \<and> gap_bytes (accepted tr) = gap_bytes (gaps up) \<and> gaps_from lo (accepted tr) \<and>
    sum_list (map len (accepted tr)) = missing_total up"
  using assms
proof (induction answers arbitrary: up fails lo tr)
  case Nil
  show ?case
  proof (cases "gaps up")
    case gs: Nil
    with Nil.prems show ?thesis by (auto simp: upload_loop_done missing_total_def)
  next
    case (Cons g gs)
    have "upload_loop rnd up fails [] = None"
      using upload_inv_next [OF Nil.prems(1) Cons] by (subst upload_loop.simps) simp
    with Nil.prems(4) show ?thesis by simp
  qed
next
  case (Cons a as)
  show ?case
  proof (cases "gaps up")
    case Nil
    then show ?thesis using Cons.prems by (auto simp: upload_loop_done missing_total_def)
  next
    case (Cons g gs)
    let ?c = "\<lparr>offset = offset g, len = min (next_sz (sizer up)) (len g)\<rparr>"
    let ?up = "on_chunk_ok rnd up ?c (elapsed_secs a)"
    note nc = upload_inv_next [OF Cons.prems(1) Cons]
    note st = on_chunk_ok_step [OF Cons.prems(1) Cons refl, of rnd "elapsed_secs a"]
    have "verdict a \<noteq> Resync" using Cons.prems(2) by simp
    then consider (ok) "verdict a = ChunkOk" | (retry) "verdict a = RetryChunk" | "verdict a = StartOver \<or> verdict a = Fatal"
      by (cases "verdict a") auto
    then show ?thesis
    proof cases
      case ok
      then obtain tr' where tr': "upload_loop rnd ?up 0 as = Some (tr', u)"
        "tr = tr'\<lparr>accepted := ?c # accepted tr', emitted := progress ?up # emitted tr'\<rparr>"
        using Cons.prems(4) nc by (subst (asm) upload_loop.simps) (auto simp: Let_def)
      have "gaps_from (offset ?c + len ?c) (gaps ?up)"
        by (rule gaps_from_raise [of 0]) (use st in \<open>auto simp: upload_inv_def\<close>)
      from Cons.IH [OF _ _ this tr'(1)] st tr'(2) Cons.prems
      have "gaps u = [] \<and> gap_bytes (accepted tr') = gap_bytes (gaps ?up) \<and>
        gaps_from (offset ?c + len ?c) (accepted tr') \<and>
        sum_list (map len (accepted tr')) = missing_total ?up" by simp
      then show ?thesis using tr'(2) st nc Cons.prems(3) Cons by auto
    next
      case retry
      then have "upload_loop rnd (on_chunk_failed up) (fails + 1) as = Some (tr, u)"
        using Cons.prems(4,5) nc by (subst (asm) upload_loop.simps) (auto split: if_splits)
      from Cons.IH [OF _ _ _ this] Cons.prems show ?thesis
        by (auto simp: missing_total_def intro: inv_intros)
    next
      case 3
      then have False
        using Cons.prems(4,5) nc by (subst (asm) upload_loop.simps) (auto split: chunk_verdict.splits)
      then show ?thesis ..
    qed
  qed
qed

text \<open>Any history of a sizer: a chunk that succeeded with its length and duration, or failed.\<close>

fun sizer_history :: "(rat \<Rightarrow> rat) \<Rightarrow> chunk_sizer \<Rightarrow> (nat \<times> rat) option list \<Rightarrow> chunk_sizer" where
  "sizer_history rnd s [] = s"
| "sizer_history rnd s (None # es) = sizer_history rnd (on_failure s) es"
| "sizer_history rnd s (Some (n, e) # es) = sizer_history rnd (on_success rnd s n e) es"

lemma sizer_history_ok: "sizer_ok s \<Longrightarrow> sizer_ok (sizer_history rnd s es) \<and> plan (sizer_history rnd s es) = plan s"
proof (induction rnd s es rule: sizer_history.induct)
  case (2 rnd s es)
  then show ?case using on_failure_ok [of s] by (simp add: on_failure_def Let_def)
next
  case (3 rnd s n e es)
  then show ?case using on_success_ok [of s rnd n e] by (simp add: on_success_def Let_def)
qed simp

subsection \<open>Properties\<close>

text \<open>Whatever the network does, and for every rounding of the rate, the request size of a plan
  built from a base unit stays on the grid, between one unit and the larger of 2 MiB and one
  unit. One success never raises it above four times the chunk that succeeded, one failure
  brings it to at most half, down to one unit.\<close>

theorem request_size_on_grid:
  assumes "b < 2 ^ 32" and "s = sizer_history rnd (new_sizer (for_base_unit b)) es"
  shows "max b 1 dvd next_sz s \<and> max b 1 \<le> next_sz s \<and> next_sz s \<le> max (2 * 1024 * 1024) b \<and>
    next_sz (on_success rnd' s n e) \<le> max (4 * n) (max b 1) \<and>
    next_sz (on_failure s) \<le> max (next_sz s div 2) (max b 1)"
proof -
  have s: "sizer_ok s" "plan s = for_base_unit b"
    using sizer_history_ok [OF for_base_unit_ok [OF assms(1)]] assms(2)
    by (auto simp: new_sizer_def)
  have bu: "base_unit (plan s) = max b 1" "max_request_size (plan s) = max (2 * 1024 * 1024) (max b 1)"
    using s(2) by (simp_all add: for_base_unit_def Let_def)
  have cl: "clamp_chunk (plan s) w \<le> max w (max b 1)" for w
    using clamp_chunk_ok [of "plan s" w] s(1) bu by (simp add: sizer_ok_def)
  obtain w where "next_sz (on_success rnd' s n e) = clamp_chunk (plan s) w" "w \<le> 4 * n"
    by (simp add: on_success_def Let_def)
  then have "next_sz (on_success rnd' s n e) \<le> max (4 * n) (max b 1)"
    using cl [of w] by linarith
  moreover have "next_sz (on_failure s) \<le> max (next_sz s div 2) (max b 1)"
    using cl [of "max (next_sz s div 2) (max b 1)"] bu by (simp add: on_failure_def Let_def)
  moreover have "next_sz s \<le> max (2 * 1024 * 1024) b"
    using s(1) bu unfolding sizer_ok_def by (simp add: max_def split: if_splits)
  ultimately show ?thesis using s(1) bu by (simp add: sizer_ok_def)
qed

theorem request_size_on_grid_witness:
  "next_sz (sizer_history (\<lambda>x. x) (new_sizer (for_base_unit 65536)) [Some (65536, 1 / 100), None]) \<le> 2097152"
  using request_size_on_grid [OF _ refl, of 65536 "\<lambda>x. x" "[Some (65536, 1 / 100), None]" "\<lambda>x. x" 0 0]
  by simp

text \<open>The gaps computed from the confirmed ranges, in any order and overlapping or not, are
  exactly the bytes of the file that no range confirms, listed in increasing order, none empty
  and none twice.\<close>

theorem gaps_are_complement:
  assumes "\<forall>(o1, l) \<in> set conf. o1 + l < 2 ^ 64 \<and> o1 + l \<le> tot"
  shows "gaps_from 0 (gaps_from_confirmed conf tot) \<and>
    gap_bytes (gaps_from_confirmed conf tot) = {0 ..< tot} - (\<Union>r \<in> set conf. range_bytes r)"
  by (rule gaps_from_confirmed_spec [OF assms])

theorem gaps_are_complement_witness:
  "gap_bytes (gaps_from_confirmed [(300, 100), (0, 50), (25, 100)] 500) =
     {0 ..< 500} - ({300 ..< 400} \<union> {0 ..< 50} \<union> {25 ..< 125})"
  using gaps_are_complement [of "[(300, 100), (0, 50), (25, 100)]" 500] by (simp add: Un_ac)

text \<open>Cutting a gap into requests loses and repeats nothing: the pieces follow each other, cover
  the gap exactly, none is empty or larger than the request size, all but the one that reaches
  the end of the gap are full, and pieces of a gap that starts on the grid start on the grid.\<close>

theorem split_gap_partitions:
  assumes "0 < sz" and "offset g + len g < 2 ^ 64"
  shows "\<exists>ps. split_gap g sz tot = Some ps \<and> gaps_from (offset g) ps \<and>
    gap_bytes ps = {offset g ..< offset g + len g} \<and>
    (\<forall>p \<in> set ps. len p \<le> sz \<and> (len p = sz \<or> offset p + len p = offset g + len g)) \<and>
    (\<forall>b. b dvd sz \<longrightarrow> b dvd offset g \<longrightarrow> (\<forall>p \<in> set ps. b dvd offset p))"
proof -
  have "offset g \<le> offset g + len g" by simp
  from split_loop_spec [OF assms(1) this, of tot] show ?thesis
    using assms(2) by (auto simp: split_gap_def)
qed

theorem split_gap_partitions_witness:
  "\<exists>ps. split_gap \<lparr>offset = 65536, len = 200000\<rparr> 65536 300000 = Some ps \<and>
     gap_bytes ps = {65536 ..< 265536}"
  using split_gap_partitions [of 65536 "\<lparr>offset = 65536, len = 200000\<rparr>" 300000] by auto



end
