(* ===== verification/Json_Value.thy ===== *)
theory Json_Value
  imports Rust_Text
begin

text \<open>
  JSON values and the lenient getters of \<open>lib.rs\<close> that read identifiers, flags and strings
  out of sync payloads, with the parsers of composite entity ids. \<open>serde_json\<close> itself is not
  part of the repository: its value type is given as a datatype, its parser and printer are
  arguments wherever they are called. A number is an \<open>int\<close> when it fits \<open>u64\<close> or \<open>i64\<close>, and a
  float otherwise.
\<close>

datatype json =
    JNull
  | JBool bool
  | JInt int
  | JFloat rat
  | JStr string
  | JArr "json list"
  | JObj "(string \<times> json) list"

fun json_get :: "json \<Rightarrow> string \<Rightarrow> json option" where
  "json_get (JObj kvs) k = map_of kvs k"
| "json_get _ k = None"

fun as_u64_json :: "json \<Rightarrow> int option" where
  "as_u64_json (JInt n) = (if 0 \<le> n \<and> n < 2 ^ 64 then Some n else None)"
| "as_u64_json _ = None"

fun as_i64_json :: "json \<Rightarrow> int option" where
  "as_i64_json (JInt n) = (if in_i64 n then Some n else None)"
| "as_i64_json _ = None"

fun as_str_json :: "json \<Rightarrow> string option" where
  "as_str_json (JStr s) = Some s"
| "as_str_json _ = None"

fun as_bool_json :: "json \<Rightarrow> bool option" where
  "as_bool_json (JBool b) = Some b"
| "as_bool_json _ = None"

subsection \<open>Getters\<close>

text \<open>The value of the first branch that yields one.\<close>

fun first_some :: "'a option list \<Rightarrow> 'a option" where
  "first_some [] = None"
| "first_some (Some x # _) = Some x"
| "first_some (None # xs) = first_some xs"

fun json_get_u64 :: "json \<Rightarrow> string list \<Rightarrow> int option" where
  "json_get_u64 v [] = None"
| "json_get_u64 v (key # keys) =
     (case Option.bind (json_get v key) (\<lambda>x. first_some
         [as_u64_json x,
          Option.bind (as_i64_json x) (\<lambda>n. if n \<ge> 0 then Some n else None),
          Option.bind (as_str_json x) (\<lambda>s. map_option int (parse_u64 s))]) of
        Some n \<Rightarrow> Some n
      | None \<Rightarrow> json_get_u64 v keys)"

fun json_get_i64 :: "json \<Rightarrow> string list \<Rightarrow> int option" where
  "json_get_i64 v [] = None"
| "json_get_i64 v (key # keys) =
     (case Option.bind (json_get v key) (\<lambda>x. first_some
         [as_i64_json x,
          map_option wrap_i64 (as_u64_json x),
          Option.bind (as_str_json x) parse_i64]) of
        Some n \<Rightarrow> Some n
      | None \<Rightarrow> json_get_i64 v keys)"

definition wrap_i32 :: "int \<Rightarrow> int" where
  "wrap_i32 x = (x + 2 ^ 31) mod 2 ^ 32 - 2 ^ 31"

definition json_get_i32 :: "json \<Rightarrow> string list \<Rightarrow> int option" where
  "json_get_i32 v keys = map_option wrap_i32 (json_get_i64 v keys)"

definition parse_protocol_channel_type :: "json \<Rightarrow> string list \<Rightarrow> int option" where
  "parse_protocol_channel_type v keys =
     (case json_get_i32 v keys of
        Some n \<Rightarrow> (if n = 0 \<or> n = 1 then Some 1 else if n = 2 then Some 2
                   else if n = 3 then Some 3 else None)
      | None \<Rightarrow> None)"

fun json_get_bool :: "json \<Rightarrow> string list \<Rightarrow> bool option" where
  "json_get_bool v [] = None"
| "json_get_bool v (key # keys) =
     (case Option.bind (json_get v key) (\<lambda>x. first_some
         [as_bool_json x,
          map_option (\<lambda>n. n \<noteq> 0) (as_i64_json x),
          Option.bind (as_str_json x) (\<lambda>s.
            if s \<in> {''1'', ''true'', ''TRUE''} then Some True
            else if s \<in> {''0'', ''false'', ''FALSE''} then Some False else None)]) of
        Some b \<Rightarrow> Some b
      | None \<Rightarrow> json_get_bool v keys)"

definition trim_quotes :: "string \<Rightarrow> string" where
  "trim_quotes s = rev (dropWhile (\<lambda>c. c = CHR 0x22) (rev (dropWhile (\<lambda>c. c = CHR 0x22) s)))"

text \<open>\<open>print\<close> is \<open>serde_json::Value::to_string\<close>.\<close>

fun json_get_string :: "(json \<Rightarrow> string) \<Rightarrow> json \<Rightarrow> string list \<Rightarrow> string option" where
  "json_get_string print v [] = None"
| "json_get_string print v (key # keys) =
     (case Option.bind (json_get v key) (\<lambda>x. first_some
         [as_str_json x, if x = JNull then None else Some (trim_quotes (print x))]) of
        Some s \<Rightarrow> Some s
      | None \<Rightarrow> json_get_string print v keys)"

subsection \<open>Composite identifiers\<close>

definition is_id_sep :: "char \<Rightarrow> bool" where
  "is_id_sep c \<longleftrightarrow> c \<in> {CHR '':'', CHR ''/'', CHR ''|'', CHR '',''}"

text \<open>The tokens that parse, trimmed.\<close>

definition id_tokens :: "string \<Rightarrow> nat list" where
  "id_tokens s = List.map_filter (\<lambda>t. parse_u64 (trim t)) (split_on is_id_sep s)"

definition parse_entity_id_u64 :: "string \<Rightarrow> nat option" where
  "parse_entity_id_u64 entity_id =
     (case parse_u64 entity_id of
        Some v \<Rightarrow> Some v
      | None \<Rightarrow> (case id_tokens entity_id of [] \<Rightarrow> None | v # _ \<Rightarrow> Some v))"

definition parse_two_ids :: "string \<Rightarrow> (nat \<times> nat) option" where
  "parse_two_ids entity_id =
     (case id_tokens entity_id of a # b # _ \<Rightarrow> Some (a, b) | _ \<Rightarrow> None)"

definition parse_channel_scope :: "string option \<Rightarrow> (int \<times> nat) option" where
  "parse_channel_scope scope =
     (case scope of
        None \<Rightarrow> None
      | Some s \<Rightarrow>
          (case id_tokens s of
             a # b # _ \<Rightarrow>
               if a < 2 ^ 31 then Some (if a = 0 then 1 else int a, b) else None
           | _ \<Rightarrow> None))"

definition resolve_group_id_from_scope :: "string option \<Rightarrow> nat option" where
  "resolve_group_id_from_scope scope =
     (case scope of
        None \<Rightarrow> None
      | Some s \<Rightarrow>
          (case parse_u64 s of
             Some v \<Rightarrow> Some v
           | None \<Rightarrow> (case id_tokens s of [] \<Rightarrow> None | v # _ \<Rightarrow> Some v)))"

subsection \<open>Lemmas\<close>

lemma show_nat_no_sep: "c \<in> set (show_nat n) \<Longrightarrow> \<not> is_id_sep c"
  by (auto dest: digits_set simp: is_id_sep_def is_ascii_digit_def)

lemma id_tokens_pair:
  assumes "a < 2 ^ 64" and "b < 2 ^ 64" and "is_id_sep x"
  shows "id_tokens (show_nat a @ x # show_nat b) = [a, b]"
proof -
  have "split_on is_id_sep (show_nat a @ x # show_nat b) = [show_nat a, show_nat b]"
    using assms(3) by (simp add: split_on_append show_nat_no_sep split_on_none)
  then show ?thesis
    using assms(1,2) by (simp add: id_tokens_def parse_u64_def List.map_filter_simps)
qed

lemma wrap_i32_id: "- (2 ^ 31) \<le> x \<Longrightarrow> x < 2 ^ 31 \<Longrightarrow> wrap_i32 x = x"
  by (simp add: wrap_i32_def)

subsection \<open>Properties\<close>

text \<open>A channel scope printed as type and id, with any of the four separators, parses back to
  the same pair, with the legacy type 0 read as 1; a type that does not fit \<open>i32\<close> is refused.\<close>

theorem channel_scope_roundtrip:
  assumes "ty < 2 ^ 64" and "cid < 2 ^ 64" and "is_id_sep x"
  shows "parse_channel_scope (Some (show_nat ty @ x # show_nat cid)) =
    (if ty < 2 ^ 31 then Some (if ty = 0 then 1 else int ty, cid) else None)"
  using id_tokens_pair [OF assms] by (simp add: parse_channel_scope_def)

theorem channel_scope_roundtrip_witness:
  "parse_channel_scope (Some (show_nat 2 @ CHR '':'' # show_nat 4711)) = Some (2, 4711)"
  using channel_scope_roundtrip [of 2 4711 "CHR '':''"] by (simp add: is_id_sep_def)

end
