(* ===== verification/Canonical_Inbound.thy ===== *)
theory Canonical_Inbound
  imports Json_Value
begin

text \<open>
  \<open>canonical_inbound.rs\<close>: the one shape every inbound message takes, its adapters from the
  history, sync and push sources, the comparison across sources, and the projection to the
  input of the store. \<open>serde_json::from_str\<close> is the argument \<open>parse\<close> and
  \<open>to_string\<close> the argument \<open>print\<close>.
\<close>

datatype time_precision = Seconds | Milliseconds

record canonical_message =
  c_server_message_id :: u64
  c_local_message_id :: u64
  c_channel_id :: u64
  c_channel_type :: int
  c_from_uid :: u64
  c_message_type :: int
  c_content :: string
  c_extra :: string
  c_pts :: int
  c_sent_at_ms :: int
  c_sent_at_precision :: time_precision
  c_revoked :: bool

record semantic_projection =
  s_server_message_id :: u64
  s_channel_id :: u64
  s_channel_type :: int
  s_from_uid :: u64
  s_message_type :: int
  s_content :: string
  s_metadata :: "json option"
  s_pts :: int
  s_sent_at_ms :: int
  s_revoked :: bool

record upsert_input =
  u_server_message_id :: u64
  u_local_message_id :: u64
  u_channel_id :: u64
  u_channel_type :: int
  u_timestamp :: int
  u_precision :: time_precision
  u_from_uid :: u64
  u_message_type :: int
  u_content :: string
  u_status :: int
  u_pts :: int
  u_setting :: int
  u_order_seq :: int
  u_searchable_word :: string
  u_extra :: string
  u_mime_type :: "string option"
  u_revoked :: bool

definition agrees_with :: "semantic_projection \<Rightarrow> semantic_projection \<Rightarrow> bool" where
  "agrees_with a b \<longleftrightarrow>
     s_server_message_id a = s_server_message_id b \<and> s_channel_id a = s_channel_id b \<and>
     s_channel_type a = s_channel_type b \<and> s_from_uid a = s_from_uid b \<and>
     s_message_type a = s_message_type b \<and> s_content a = s_content b \<and>
     s_metadata a = s_metadata b \<and> s_pts a = s_pts b \<and> s_revoked a = s_revoked b \<and>
     trunc_div (s_sent_at_ms a) 1000 = trunc_div (s_sent_at_ms b) 1000"

definition prefer_precise_sent_at :: "int \<Rightarrow> int \<Rightarrow> int" where
  "prefer_precise_sent_at existing incoming =
     (if existing > 0 \<and> trunc_div existing 1000 = trunc_div incoming 1000
      then max existing incoming else incoming)"

definition MIN_PLAUSIBLE_MS :: int where "MIN_PLAUSIBLE_MS = 100000000000"

definition normalize_sent_at_ms :: "int \<Rightarrow> int" where
  "normalize_sent_at_ms v =
     (if v \<ge> MIN_PLAUSIBLE_MS then v else if v > 0 then sat_i64 (v * 1000) else 0)"

definition build_extra_envelope :: "(json \<Rightarrow> string) \<Rightarrow> string \<Rightarrow> json option \<Rightarrow> string" where
  "build_extra_envelope print content metadata =
     (case metadata of
        Some m \<Rightarrow> (if m \<noteq> JNull then print (JObj [(''content'', JStr content), (''metadata'', m)]) else '''')
      | None \<Rightarrow> '''')"

definition metadata_of :: "(string \<Rightarrow> json option) \<Rightarrow> canonical_message \<Rightarrow> json option" where
  "metadata_of parse m =
     (case Option.bind (parse (c_extra m)) (\<lambda>v. json_get v ''metadata'') of
        Some d \<Rightarrow> (if d \<noteq> JNull then Some d else None)
      | None \<Rightarrow> None)"

definition has_metadata :: "(string \<Rightarrow> json option) \<Rightarrow> canonical_message \<Rightarrow> bool" where
  "has_metadata parse m \<longleftrightarrow>
     (if c_extra m = '''' then False
      else (case Option.bind (parse (c_extra m)) (\<lambda>v. json_get v ''metadata'') of
              Some d \<Rightarrow> d \<noteq> JNull
            | None \<Rightarrow> False))"

definition server_says_no_thumbnail :: "(string \<Rightarrow> json option) \<Rightarrow> canonical_message \<Rightarrow> bool" where
  "server_says_no_thumbnail parse m \<longleftrightarrow>
     (case metadata_of parse m of
        None \<Rightarrow> False
      | Some d \<Rightarrow>
          (let has_file_id = (case Option.bind (json_get d ''thumbnail_file_id'') (\<lambda>v. first_some
                 [as_u64_json v, Option.bind (as_str_json v) (\<lambda>s. map_option int (parse_u64 s))]) of
                 Some n \<Rightarrow> n > 0 | None \<Rightarrow> False);
               has_url = (case Option.bind (json_get d ''thumbnail_url'') as_str_json of
                 Some u \<Rightarrow> trim u \<noteq> '''' | None \<Rightarrow> False)
           in \<not> has_file_id \<and> \<not> has_url))"

definition semantic :: "(string \<Rightarrow> json option) \<Rightarrow> canonical_message \<Rightarrow> semantic_projection" where
  "semantic parse m =
     \<lparr>s_server_message_id = c_server_message_id m, s_channel_id = c_channel_id m,
      s_channel_type = c_channel_type m, s_from_uid = c_from_uid m,
      s_message_type = c_message_type m, s_content = c_content m,
      s_metadata = metadata_of parse m, s_pts = c_pts m, s_sent_at_ms = c_sent_at_ms m,
      s_revoked = c_revoked m\<rparr>"

definition to_upsert_input :: "canonical_message \<Rightarrow> int \<Rightarrow> string option \<Rightarrow> upsert_input" where
  "to_upsert_input m status mime =
     \<lparr>u_server_message_id = c_server_message_id m, u_local_message_id = c_local_message_id m,
      u_channel_id = c_channel_id m,
      u_channel_type = (if c_channel_type m = 0 then 1 else c_channel_type m),
      u_timestamp = c_sent_at_ms m, u_precision = c_sent_at_precision m,
      u_from_uid = c_from_uid m, u_message_type = c_message_type m, u_content = c_content m,
      u_status = status, u_pts = c_pts m, u_setting = 0, u_order_seq = c_pts m,
      u_searchable_word = '''', u_extra = c_extra m, u_mime_type = mime,
      u_revoked = c_revoked m\<rparr>"

subsection \<open>Sources\<close>

text \<open>A history item of the protocol crate, with the fields the adapter reads.\<close>

record history_item =
  h_message_id :: u64
  h_channel_id :: u64
  h_sender_id :: u64
  h_message_type :: string
  h_content :: string
  h_metadata :: "(string \<times> json) list option"
  h_message_seq :: "int option"
  h_timestamp :: nat
  h_revoked :: bool

definition from_history_item ::
  "(json \<Rightarrow> string) \<Rightarrow> history_item \<Rightarrow> int \<Rightarrow> (string \<Rightarrow> int) \<Rightarrow> canonical_message" where
  "from_history_item print item channel_type wire_type =
     \<lparr>c_server_message_id = h_message_id item, c_local_message_id = 0,
      c_channel_id = h_channel_id item, c_channel_type = channel_type,
      c_from_uid = h_sender_id item, c_message_type = wire_type (h_message_type item),
      c_content = h_content item,
      c_extra = build_extra_envelope print (h_content item) (map_option JObj (h_metadata item)),
      c_pts = (case h_message_seq item of Some p \<Rightarrow> p | None \<Rightarrow> 0),
      c_sent_at_ms = normalize_sent_at_ms
        (if int (h_timestamp item) \<le> i64_max then int (h_timestamp item) else i64_max),
      c_sent_at_precision = Milliseconds, c_revoked = h_revoked item\<rparr>"

definition from_sync_entity ::
  "u64 \<Rightarrow> u64 \<Rightarrow> u64 \<Rightarrow> int \<Rightarrow> u64 \<Rightarrow> int \<Rightarrow> string \<Rightarrow> string \<Rightarrow> int \<Rightarrow> int \<Rightarrow> canonical_message" where
  "from_sync_entity sid lid cid ct from ty content extra pts timestamp =
     \<lparr>c_server_message_id = sid, c_local_message_id = lid, c_channel_id = cid,
      c_channel_type = ct, c_from_uid = from, c_message_type = ty, c_content = content,
      c_extra = extra, c_pts = pts, c_sent_at_ms = normalize_sent_at_ms timestamp,
      c_sent_at_precision = Milliseconds, c_revoked = False\<rparr>"

definition from_push ::
  "u64 \<Rightarrow> u64 \<Rightarrow> u64 \<Rightarrow> int \<Rightarrow> u64 \<Rightarrow> int \<Rightarrow> string \<Rightarrow> string \<Rightarrow> int \<Rightarrow> int \<Rightarrow> canonical_message" where
  "from_push sid lid cid ct from ty content extra seq secs =
     \<lparr>c_server_message_id = sid, c_local_message_id = lid, c_channel_id = cid,
      c_channel_type = ct, c_from_uid = from, c_message_type = ty, c_content = content,
      c_extra = extra, c_pts = seq, c_sent_at_ms = normalize_sent_at_ms secs,
      c_sent_at_precision = Seconds, c_revoked = False\<rparr>"

subsection \<open>Properties\<close>

text \<open>Normalising a send time is idempotent on every value but the implausible seconds before
  1973, keeps millisecond values and never yields a negative time.\<close>

theorem normalize_sent_at_idempotent:
  "(normalize_sent_at_ms (normalize_sent_at_ms v) = normalize_sent_at_ms v \<longleftrightarrow> v \<le> 0 \<or> 10 ^ 8 \<le> v) \<and>
   0 \<le> normalize_sent_at_ms v"
proof -
  consider "v \<le> 0" | "0 < v" "v < 10 ^ 8" | "10 ^ 8 \<le> v" "v < MIN_PLAUSIBLE_MS" | "MIN_PLAUSIBLE_MS \<le> v"
    by (simp add: MIN_PLAUSIBLE_MS_def) linarith
  then show ?thesis
    by cases (simp_all add: normalize_sent_at_ms_def MIN_PLAUSIBLE_MS_def sat_i64_def i64_max_def
      i64_min_def)
qed



text \<open>The terminal verdict that the server has no thumbnail is given only on evidence: the
  metadata parsed, and it holds neither a thumbnail file id nor a thumbnail url. A message
  without readable metadata is never judged.\<close>

theorem no_thumbnail_needs_evidence:
  "server_says_no_thumbnail parse m \<Longrightarrow>
    (\<exists>d. metadata_of parse m = Some d \<and>
       (\<forall>n. json_get d ''thumbnail_file_id'' = Some (JInt n) \<longrightarrow> n \<le> 0 \<or> 2 ^ 64 \<le> n) \<and>
       (\<forall>u. json_get d ''thumbnail_url'' = Some (JStr u) \<longrightarrow> trim u = ''''))"
  by (auto simp: server_says_no_thumbnail_def Let_def split: option.splits if_splits)

theorem no_thumbnail_needs_evidence_witness:
  "metadata_of (\<lambda>_. Some (JObj [(''metadata'', JObj [(''width'', JInt 3)])]))
     (from_push 9 0 7 1 3 2 ''[img]'' ''x'' 5 1785148271) \<noteq> None"
  using no_thumbnail_needs_evidence [of "\<lambda>_. Some (JObj [(''metadata'', JObj [(''width'', JInt 3)])])"
      "from_push 9 0 7 1 3 2 ''[img]'' ''x'' 5 1785148271"]
  by (auto simp: server_says_no_thumbnail_def metadata_of_def)

end
