(* ===== verification/Side_Tables.thy ===== *)
theory Side_Tables
  imports Rust_Text
begin

text \<open>
  The SQL statements the store is written with, and the tables beside the messages and the
  conversations (\<open>migrations/\<close>): profiles, friends, blocked users, groups and their members,
  members of a conversation, reactions, mentions and reminders. A table is the list of its rows;
  identifiers are kept in signed columns. Only the columns some statement of the program reads or
  writes are kept. The operations on these tables are in \<open>Directory_Store\<close>.
\<close>

subsection \<open>Statements\<close>

definition update_where :: "('r \<Rightarrow> bool) \<Rightarrow> ('r \<Rightarrow> 'r) \<Rightarrow> 'r list \<Rightarrow> 'r list" where
  "update_where P f rs = map (\<lambda>r. if P r then f r else r) rs"

definition delete_where :: "('r \<Rightarrow> bool) \<Rightarrow> 'r list \<Rightarrow> 'r list" where
  "delete_where P rs = filter (\<lambda>r. \<not> P r) rs"

text \<open>\<open>INSERT ... ON CONFLICT(key) DO UPDATE\<close>.\<close>

definition upsert_on :: "('r \<Rightarrow> 'k) \<Rightarrow> ('r \<Rightarrow> 'r) \<Rightarrow> 'r \<Rightarrow> 'r list \<Rightarrow> 'r list" where
  "upsert_on key upd new rs =
     (if \<exists>r \<in> set rs. key r = key new then update_where (\<lambda>r. key r = key new) upd rs else rs @ [new])"

subsection \<open>People and groups\<close>

record profile_row =
  pr_user_id :: int
  pr_username :: "string option"
  pr_nickname :: "string option"
  pr_alias :: "string option"
  pr_avatar :: string
  pr_user_type :: int
  pr_is_deleted :: int
  pr_channel_id :: string
  pr_version :: int
  pr_updated_at :: int
  pr_avatar_local_path :: string
  pr_avatar_cached_url :: string

record friend_row =
  fr_user_id :: int
  fr_tags :: "string option"
  fr_is_pinned :: int
  fr_created_at :: int
  fr_version :: int
  fr_updated_at :: int
  fr_status :: int
  fr_is_outgoing :: "int option"
  fr_request_message :: "string option"
  fr_request_source :: "string option"
  fr_request_source_id :: "string option"

record block_row =
  bl_user_id :: int
  bl_created_at :: int
  bl_updated_at :: int

record group_entry =
  ge_group_id :: int
  ge_name :: "string option"
  ge_avatar :: string
  ge_owner_id :: "int option"
  ge_is_dismissed :: int
  ge_created_at :: int
  ge_version :: int
  ge_updated_at :: int
  ge_member_count :: int

record member_entry =
  me_group_id :: int
  me_user_id :: int
  me_role :: int
  me_status :: int
  me_alias :: "string option"
  me_is_muted :: int
  me_joined_at :: int
  me_version :: int
  me_updated_at :: int

record channel_member_row =
  cb_channel_id :: int
  cb_channel_type :: int
  cb_member_uid :: int
  cb_member_name :: string
  cb_member_remark :: string
  cb_member_avatar :: string
  cb_member_invite_uid :: int
  cb_role :: int
  cb_status :: int
  cb_is_deleted :: int
  cb_robot :: int
  cb_version :: int
  cb_created_at :: int
  cb_updated_at :: int
  cb_extra :: string
  cb_forbidden_expiration_time :: int
  cb_member_avatar_cache_key :: string

subsection \<open>Rows attached to a message\<close>

record reaction_row =
  rx_id :: int
  rx_channel_id :: int
  rx_channel_type :: int
  rx_uid :: int
  rx_name :: string
  rx_emoji :: string
  rx_message_id :: int
  rx_seq :: int
  rx_is_deleted :: int
  rx_created_at :: int

record mention_row =
  mn_message_id :: int
  mn_channel_id :: int
  mn_channel_type :: int
  mn_mentioned_user_id :: int
  mn_sender_id :: int
  mn_is_mention_all :: int
  mn_created_at :: int
  mn_is_read :: int

record reminder_row =
  rm_id :: int
  rm_reminder_id :: int
  rm_message_id :: int
  rm_pts :: int
  rm_channel_id :: int
  rm_channel_type :: int
  rm_uid :: int
  rm_type :: int
  rm_text :: string
  rm_data :: string
  rm_is_locate :: int
  rm_version :: int
  rm_done :: int
  rm_need_upload :: int
  rm_publisher :: "int option"

record side_tables =
  sd_users :: "profile_row list"
  sd_friends :: "friend_row list"
  sd_blocked :: "block_row list"
  sd_groups :: "group_entry list"
  sd_members :: "member_entry list"
  sd_channel_members :: "channel_member_row list"
  sd_reactions :: "reaction_row list"
  sd_next_reaction :: int
  sd_mentions :: "mention_row list"
  sd_reminders :: "reminder_row list"
  sd_next_reminder :: int

definition empty_side :: side_tables where
  "empty_side = \<lparr>sd_users = [], sd_friends = [], sd_blocked = [], sd_groups = [], sd_members = [],
     sd_channel_members = [], sd_reactions = [], sd_next_reaction = 1, sd_mentions = [], sd_reminders = [],
     sd_next_reminder = 1\<rparr>"

text \<open>The rows that go with a deleted message, and with a conversation that is removed.\<close>

definition forget_message :: "int \<Rightarrow> side_tables \<Rightarrow> side_tables" where
  "forget_message i s =
     s\<lparr>sd_reactions := delete_where (\<lambda>r. rx_message_id r = i) (sd_reactions s),
       sd_mentions := delete_where (\<lambda>r. mn_message_id r = i) (sd_mentions s),
       sd_reminders := delete_where (\<lambda>r. rm_message_id r = i) (sd_reminders s)\<rparr>"

definition forget_channel :: "int \<Rightarrow> side_tables \<Rightarrow> side_tables" where
  "forget_channel c s =
     s\<lparr>sd_reactions := delete_where (\<lambda>r. rx_channel_id r = c) (sd_reactions s),
       sd_mentions := delete_where (\<lambda>r. mn_channel_id r = c) (sd_mentions s),
       sd_reminders := delete_where (\<lambda>r. rm_channel_id r = c) (sd_reminders s)\<rparr>"

subsection \<open>Lemmas on statements\<close>

lemma map_update_where: "(\<And>r. k (f r) = k r) \<Longrightarrow> map k (update_where P f rs) = map k rs"
  by (induction rs) (auto simp: update_where_def)

lemma map_update_where_on:
  "(\<And>r. P r \<Longrightarrow> k (f r) = k r) \<Longrightarrow> map k (update_where P f rs) = map k rs"
  by (induction rs) (auto simp: update_where_def)

lemma set_update_where: "set (update_where P f rs) = f ` {r \<in> set rs. P r} \<union> {r \<in> set rs. \<not> P r}"
  by (auto simp: update_where_def)

lemma set_delete_where [simp]: "set (delete_where P rs) = {r \<in> set rs. \<not> P r}"
  by (auto simp: delete_where_def)

lemma distinct_delete_where: "distinct (map k rs) \<Longrightarrow> distinct (map k (delete_where P rs))"
  by (simp add: delete_where_def distinct_map_filterI)

lemma distinct_upsert_keyed:
  "distinct (map key rs) \<Longrightarrow> (\<And>r. key r = key new \<Longrightarrow> key (upd r) = key new) \<Longrightarrow>
    distinct (map key (upsert_on key upd new rs))"
  using map_update_where_on [of "\<lambda>r. key r = key new" key upd rs] by (auto simp: upsert_on_def)

lemma distinct_upsert_on:
  "distinct (map key rs) \<Longrightarrow> (\<And>r. key (upd r) = key r) \<Longrightarrow> distinct (map key (upsert_on key upd new rs))"
  by (simp add: distinct_upsert_keyed)

lemma find_append_one: "find Q (rs @ [x]) = (case find Q rs of Some r \<Rightarrow> Some r | None \<Rightarrow> if Q x then Some x else None)"
  by (induction rs) auto

lemma find_none_key: "\<not> (\<exists>r \<in> set rs. key r = k) \<Longrightarrow> find (\<lambda>r. key r = k) rs = None"
  by (auto simp: find_None_iff)

lemma find_upsert_keyed:
  assumes "\<And>r. key r = key new \<Longrightarrow> key (upd r) = key new"
  shows "find (\<lambda>r. key r = k) (upsert_on key upd new rs) =
    (if k = key new then Some (case find (\<lambda>r. key r = k) rs of None \<Rightarrow> new | Some old \<Rightarrow> upd old)
     else find (\<lambda>r. key r = k) rs)"
proof (cases "\<exists>r \<in> set rs. key r = key new")
  case True
  show ?thesis
  proof (cases "k = key new")
    case same: True
    from True obtain old where old: "find (\<lambda>r. key r = k) rs = Some old"
      using same by (metis (mono_tags, lifting) find_None_iff not_None_eq)
    have "find (\<lambda>r. key r = key new) (update_where (\<lambda>r. key r = key new) upd rs) =
        map_option upd (find (\<lambda>r. key r = key new) rs)"
      by (induction rs) (auto simp: update_where_def assms)
    then show ?thesis using True same old by (simp add: upsert_on_def)
  next
    case False
    have "find (\<lambda>r. key r = k) (update_where (\<lambda>r. key r = key new) upd rs) = find (\<lambda>r. key r = k) rs"
      using False assms by (induction rs) (auto simp: update_where_def)
    then show ?thesis using True False by (simp add: upsert_on_def)
  qed
next
  case False
  then show ?thesis
    by (auto simp: upsert_on_def find_append_one find_none_key split: option.splits)
qed

end
