(* ===== verification/Message_Store.thy ===== *)
theory Message_Store
  imports Error_Model Canonical_Inbound Side_Tables "HOL-Library.Product_Lexorder" "HOL-Library.Option_ord" "HOL-Library.Multiset"
begin

text \<open>
  The message tables of one account database (\<open>local_store.rs\<close> and the schema under
  \<open>migrations/\<close>): rows, the insert and upsert paths, revocation, the display queries. A table
  is the list of its rows in row-id order. Identifiers are stored in signed columns, written and
  read with the casts \<open>as_i64\<close> and \<open>as_u64\<close>; \<open>now\<close> is the clock read by the operation.

  The statements themselves are assumed to run (a broken disk is not modelled), except where
  the unique index on \<open>server_message_id\<close> refuses a write and where an explicit transaction
  fails to commit. Columns that no modelled operation writes are left out of the rows.
  \<open>LIMIT 1\<close> without an order takes the first row in row-id order.
\<close>

subsection \<open>Tables\<close>

record message_row =
  m_id :: int
  m_server_message_id :: "int option"
  m_pts :: int
  m_channel_id :: int
  m_channel_type :: int
  m_timestamp :: "int option"
  m_from_uid :: int
  m_type :: int
  m_content :: string
  m_status :: int
  m_created_at :: int
  m_created_at_precision :: int
  m_updated_at :: int
  m_searchable_word :: string
  m_local_message_id :: int
  m_setting :: int
  m_order_seq :: int
  m_extra :: string
  m_mime_type :: "string option"
  m_media_downloaded :: int
  m_thumb_status :: int

record extra_row =
  x_message_id :: int
  x_channel_id :: int
  x_channel_type :: int
  x_readed :: int
  x_readed_count :: int
  x_unread_count :: int
  x_revoke :: int
  x_revoker :: "int option"
  x_extra_version :: int
  x_is_mutual_deleted :: int
  x_content_edit :: "string option"
  x_edited_at :: int
  x_need_upload :: int
  x_is_pinned :: int
  x_delivered :: int
  x_delivered_at :: int

record outbox_row =
  o_id :: int
  o_command_id :: string
  o_command_type :: string
  o_message_id :: "int option"
  o_channel_id :: int
  o_payload :: string
  o_route_key :: "string option"
  o_status :: string
  o_retry_count :: int
  o_next_attempt_at :: int
  o_last_error :: "string option"
  o_created_at :: int
  o_updated_at :: int

record channel_row =
  ch_channel_id :: int
  ch_channel_type :: int
  ch_last_local_message_id :: int
  ch_last_msg_timestamp :: "int option"
  ch_last_msg_content :: string
  ch_unread_count :: int
  ch_channel_name :: string
  ch_channel_remark :: string
  ch_avatar :: string
  ch_top :: int
  ch_mute :: int
  ch_is_deleted :: int
  ch_version :: int
  ch_created_at :: int
  ch_updated_at :: int
  ch_peer_user_id :: "int option"

record channel_extra_row =
  ce_channel_id :: int
  ce_channel_type :: int
  ce_browse_to :: int
  ce_keep_pts :: int
  ce_keep_offset_y :: int
  ce_draft :: string
  ce_draft_updated_at :: int
  ce_version :: int
  ce_peer_read_pts :: int

text \<open>\<open>side\<close> holds the remaining tables.\<close>

record message_db =
  messages :: "message_row list"
  next_message_id :: int
  extras :: "extra_row list"
  outbox :: "outbox_row list"
  next_outbox_id :: int
  channels :: "channel_row list"
  channel_extras :: "channel_extra_row list"
  side :: side_tables

definition empty_db :: message_db where
  "empty_db = \<lparr>messages = [], next_message_id = 1, extras = [], outbox = [], next_outbox_id = 1,
     channels = [], channel_extras = [], side = empty_side\<rparr>"

subsection \<open>Rows and lookups\<close>

definition new_extra :: "int \<Rightarrow> int \<Rightarrow> int \<Rightarrow> extra_row" where
  "new_extra mid cid ct =
     \<lparr>x_message_id = mid, x_channel_id = cid, x_channel_type = ct, x_readed = 0,
      x_readed_count = 0, x_unread_count = 0, x_revoke = 0, x_revoker = None,
      x_extra_version = 0, x_is_mutual_deleted = 0, x_content_edit = None, x_edited_at = 0,
      x_need_upload = 0, x_is_pinned = 0, x_delivered = 0, x_delivered_at = 0\<rparr>"

definition by_server_id :: "u64 \<Rightarrow> message_row \<Rightarrow> bool" where
  "by_server_id sid r \<longleftrightarrow> m_server_message_id r = Some (as_i64 sid)"

definition by_id :: "u64 \<Rightarrow> message_row \<Rightarrow> bool" where
  "by_id mid r \<longleftrightarrow> m_id r = as_i64 mid"

text \<open>The unique index on \<open>server_message_id\<close>, which covers positive values.\<close>

definition unique_server_ids :: "message_row list \<Rightarrow> bool" where
  "unique_server_ids rs \<longleftrightarrow>
     (\<forall>r \<in> set rs. \<forall>q \<in> set rs. m_server_message_id r = m_server_message_id q \<longrightarrow>
        (case m_server_message_id r of Some v \<Rightarrow> 0 < v \<longrightarrow> m_id r = m_id q | None \<Rightarrow> True))"

definition UNIQUE_TEXT :: string where
  "UNIQUE_TEXT = ''UNIQUE constraint failed: message.server_message_id''"

subsection \<open>Creating a local message\<close>

record new_message =
  n_channel_id :: u64
  n_channel_type :: int
  n_from_uid :: u64
  n_message_type :: int
  n_content :: string
  n_searchable_word :: string
  n_setting :: int
  n_extra :: string
  n_mime_type :: "string option"
  n_media_downloaded :: bool
  n_thumb_status :: int

definition local_row :: "int \<Rightarrow> int \<Rightarrow> new_message \<Rightarrow> u64 \<Rightarrow> int \<Rightarrow> message_row" where
  "local_row rowid status input lid now =
     \<lparr>m_id = rowid, m_server_message_id = None, m_pts = 0,
      m_channel_id = as_i64 (n_channel_id input), m_channel_type = n_channel_type input,
      m_timestamp = None, m_from_uid = as_i64 (n_from_uid input), m_type = n_message_type input,
      m_content = n_content input, m_status = status, m_created_at = now,
      m_created_at_precision = 1, m_updated_at = now, m_searchable_word = n_searchable_word input,
      m_local_message_id = as_i64 lid, m_setting = n_setting input, m_order_seq = 0,
      m_extra = n_extra input, m_mime_type = n_mime_type input,
      m_media_downloaded = (if n_media_downloaded input then 1 else 0),
      m_thumb_status = n_thumb_status input\<rparr>"

definition insert_message :: "message_row \<Rightarrow> message_db \<Rightarrow> message_db" where
  "insert_message row db = db\<lparr>messages := messages db @ [row], next_message_id := next_message_id db + 1\<rparr>"

definition create_local_message :: "int \<Rightarrow> new_message \<Rightarrow> u64 \<Rightarrow> message_db \<Rightarrow> message_db \<times> u64" where
  "create_local_message now input lid db =
     (let rowid = next_message_id db
      in (insert_message (local_row rowid 0 input lid now) db, as_u64 rowid))"

subsection \<open>Upserting a remote message\<close>

definition sent_at_ms :: "int \<Rightarrow> int \<Rightarrow> int" where
  "sent_at_ms timestamp fallback =
     (if timestamp \<ge> 100000000000 then timestamp
      else if timestamp > 0 then sat_i64 (timestamp * 1000) else fallback)"

fun precision_flag :: "time_precision \<Rightarrow> int" where
  "precision_flag Milliseconds = 1"
| "precision_flag Seconds = 0"

text \<open>The merge of the send time: the two \<open>CASE\<close> expressions of the update.\<close>

definition merge_created_at :: "int \<Rightarrow> int \<Rightarrow> int \<Rightarrow> int \<Rightarrow> int \<times> int" where
  "merge_created_at old old_prec new new_prec =
     (if old \<le> 0 then (new, new_prec)
      else if new_prec = 1 \<and> old_prec = 0 then (new, 1)
      else (old, old_prec))"

definition updated_row :: "int \<Rightarrow> upsert_input \<Rightarrow> message_row \<Rightarrow> message_row" where
  "updated_row now u r =
     (let (ca, cp) = merge_created_at (m_created_at r) (m_created_at_precision r)
                       (sent_at_ms (u_timestamp u) now) (precision_flag (u_precision u))
      in r\<lparr>m_channel_id := as_i64 (u_channel_id u), m_channel_type := u_channel_type u,
           m_timestamp := Some (u_timestamp u), m_from_uid := as_i64 (u_from_uid u),
           m_type := u_message_type u, m_content := u_content u, m_status := u_status u,
           m_updated_at := now, m_searchable_word := u_searchable_word u,
           m_local_message_id := as_i64 (u_local_message_id u), m_setting := u_setting u,
           m_extra := u_extra u, m_pts := u_pts u, m_order_seq := u_order_seq u,
           m_server_message_id := Some (as_i64 (u_server_message_id u)),
           m_created_at := ca, m_created_at_precision := cp,
           m_mime_type := (case u_mime_type u of Some t \<Rightarrow> Some t | None \<Rightarrow> m_mime_type r)\<rparr>)"

definition remote_row :: "int \<Rightarrow> int \<Rightarrow> upsert_input \<Rightarrow> message_row" where
  "remote_row rowid now u =
     \<lparr>m_id = rowid, m_server_message_id = Some (as_i64 (u_server_message_id u)), m_pts = u_pts u,
      m_channel_id = as_i64 (u_channel_id u), m_channel_type = u_channel_type u,
      m_timestamp = Some (u_timestamp u), m_from_uid = as_i64 (u_from_uid u),
      m_type = u_message_type u, m_content = u_content u, m_status = u_status u,
      m_created_at = sent_at_ms (u_timestamp u) now,
      m_created_at_precision = precision_flag (u_precision u), m_updated_at = now,
      m_searchable_word = u_searchable_word u, m_local_message_id = as_i64 (u_local_message_id u),
      m_setting = u_setting u, m_order_seq = u_order_seq u, m_extra = u_extra u,
      m_mime_type = u_mime_type u, m_media_downloaded = 0, m_thumb_status = 0\<rparr>"

definition apply_remote_revoke_flag :: "int \<Rightarrow> int \<Rightarrow> upsert_input \<Rightarrow> message_db \<Rightarrow> message_db" where
  "apply_remote_revoke_flag now mid u db =
     (if \<not> u_revoked u then db
      else db\<lparr>extras := upsert_on x_message_id
             (\<lambda>x. x\<lparr>x_revoke := 1, x_extra_version := max (x_extra_version x) now\<rparr>)
             ((new_extra mid (as_i64 (u_channel_id u)) (u_channel_type u))
                \<lparr>x_revoke := 1, x_extra_version := now\<rparr>)
             (extras db)\<rparr>)"

definition update_row :: "int \<Rightarrow> upsert_input \<Rightarrow> int \<Rightarrow> message_db \<Rightarrow> message_db" where
  "update_row now u rowid db =
     apply_remote_revoke_flag now rowid u
       (db\<lparr>messages := update_where (\<lambda>r. m_id r = rowid) (updated_row now u) (messages db)\<rparr>)"

record upsert_result =
  r_message_id :: u64
  r_inserted_new :: bool

definition stale :: "upsert_input \<Rightarrow> message_row \<Rightarrow> bool" where
  "stale u r \<longleftrightarrow> u_order_seq u < m_order_seq r \<or> (u_order_seq u = m_order_seq r \<and> u_pts u < m_pts r)"

text \<open>\<open>upsert_remote_message_with_result\<close> and \<open>upsert_one_in_tx\<close>, which run the same statements;
  \<open>current_uid\<close> is \<open>uid.parse::<u64>().ok()\<close>.\<close>

definition upsert_one ::
  "int \<Rightarrow> nat option \<Rightarrow> upsert_input \<Rightarrow> message_db \<Rightarrow> message_db \<times> upsert_result result" where
  "upsert_one now current_uid u db =
     (if u_server_message_id u = 0
      then (db, Inl (InvalidState ''server_message_id is required''))
      else
        let from_self = (current_uid = Some (unat (u_from_uid u)));
            existed = find (by_server_id (u_server_message_id u)) (messages db);
            existed_by_local =
              (if from_self \<and> u_local_message_id u > 0
               then find (\<lambda>r. m_from_uid r = as_i64 (u_from_uid u) \<and>
                              m_local_message_id r = as_i64 (u_local_message_id u)) (messages db)
               else None);
            done = (\<lambda>rowid. Inr \<lparr>r_message_id = as_u64 rowid, r_inserted_new = False\<rparr>)
        in case existed of
             Some r \<Rightarrow>
               if stale u r then (db, done (m_id r))
               else (case existed_by_local of
                       Some l \<Rightarrow>
                         if m_id l \<noteq> m_id r
                         then (update_row now u (m_id l)
                                 (db\<lparr>messages := delete_where (\<lambda>x. m_id x = m_id r) (messages db)\<rparr>),
                               done (m_id l))
                         else (update_row now u (m_id r) db, done (m_id r))
                     | None \<Rightarrow> (update_row now u (m_id r) db, done (m_id r)))
           | None \<Rightarrow>
               (case existed_by_local of
                  Some l \<Rightarrow>
                    if stale u l then (db, done (m_id l))
                    else (update_row now u (m_id l) db, done (m_id l))
                | None \<Rightarrow>
                    (let rowid = next_message_id db
                     in (apply_remote_revoke_flag now rowid u (insert_message (remote_row rowid now u) db),
                         Inr \<lparr>r_message_id = as_u64 rowid, r_inserted_new = True\<rparr>))))"

text \<open>The single upsert: the same statements outside a transaction.\<close>

definition upsert_remote_message_with_result ::
  "int \<Rightarrow> string \<Rightarrow> upsert_input \<Rightarrow> message_db \<Rightarrow> message_db \<times> upsert_result result" where
  "upsert_remote_message_with_result now uid u db = upsert_one now (parse_u64 uid) u db"

fun upsert_all ::
  "int \<Rightarrow> nat option \<Rightarrow> upsert_input list \<Rightarrow> message_db \<Rightarrow> message_db \<times> upsert_result result list" where
  "upsert_all now cu [] db = (db, [])"
| "upsert_all now cu (u # us) db =
     (let (db1, r) = upsert_one now cu u db; (db2, rs) = upsert_all now cu us db1 in (db2, r # rs))"

text \<open>The batch runs in one transaction; when its commit fails nothing of it stays and every item
  is upserted on its own (reading the clock \<open>now2\<close>).\<close>

definition batch_upsert_remote_messages ::
  "int \<Rightarrow> int \<Rightarrow> bool \<Rightarrow> string \<Rightarrow> upsert_input list \<Rightarrow> message_db \<Rightarrow>
   message_db \<times> upsert_result result list" where
  "batch_upsert_remote_messages now now2 commit_ok uid inputs db =
     (if inputs = [] then (db, [])
      else if commit_ok then upsert_all now (parse_u64 uid) inputs db
      else upsert_all now2 (parse_u64 uid) inputs db)"

subsection \<open>Revocation\<close>

definition REVOKED_TEXT :: string where
  "REVOKED_TEXT = bytes [230, 182, 136, 230, 129, 175, 229, 183, 178, 230, 146, 164, 229, 155, 158]"

definition revoke_row :: "int \<Rightarrow> message_row \<Rightarrow> message_row" where
  "revoke_row now r =
     r\<lparr>m_type := 0, m_content := REVOKED_TEXT, m_searchable_word := REVOKED_TEXT, m_updated_at := now\<rparr>"

subsection \<open>Reading messages\<close>

record stored_message =
  sm_message_id :: u64
  sm_server_message_id :: "u64 option"
  sm_local_message_id :: "u64 option"
  sm_channel_id :: u64
  sm_channel_type :: int
  sm_from_uid :: u64
  sm_message_type :: int
  sm_content :: string
  sm_status :: int
  sm_created_at :: int
  sm_updated_at :: int
  sm_extra :: string
  sm_revoked :: bool
  sm_revoked_by :: "u64 option"
  sm_mime_type :: "string option"
  sm_media_downloaded :: bool
  sm_thumb_status :: int
  sm_delivered :: bool
  sm_pts :: "u64 option"

definition extra_of :: "message_db \<Rightarrow> int \<Rightarrow> extra_row option" where
  "extra_of db mid = find (\<lambda>x. x_message_id x = mid) (extras db)"

definition stored_message_from_row :: "message_db \<Rightarrow> message_row \<Rightarrow> stored_message" where
  "stored_message_from_row db r =
     (let me = extra_of db (m_id r)
      in \<lparr>sm_message_id = as_u64 (m_id r),
          sm_server_message_id = map_option as_u64 (m_server_message_id r),
          sm_local_message_id =
            (if m_local_message_id r > 0 then Some (as_u64 (m_local_message_id r)) else None),
          sm_channel_id = as_u64 (m_channel_id r), sm_channel_type = m_channel_type r,
          sm_from_uid = as_u64 (m_from_uid r), sm_message_type = m_type r, sm_content = m_content r,
          sm_status = m_status r, sm_created_at = m_created_at r, sm_updated_at = m_updated_at r,
          sm_extra = m_extra r,
          sm_revoked = (case me of Some x \<Rightarrow> x_revoke x \<noteq> 0 | None \<Rightarrow> False),
          sm_revoked_by = (case me of Some x \<Rightarrow> map_option as_u64 (x_revoker x) | None \<Rightarrow> None),
          sm_mime_type = m_mime_type r, sm_media_downloaded = (m_media_downloaded r \<noteq> 0),
          sm_thumb_status = m_thumb_status r,
          sm_delivered = (case me of Some x \<Rightarrow> x_delivered x \<noteq> 0 | None \<Rightarrow> False),
          sm_pts = (if m_pts r > 0 then Some (as_u64 (m_pts r)) else None)\<rparr>)"

definition get_message_by_id :: "u64 \<Rightarrow> message_db \<Rightarrow> stored_message option" where
  "get_message_by_id mid db = map_option (stored_message_from_row db) (find (by_id mid) (messages db))"

definition get_message_id_by_server_message_id ::
  "u64 \<Rightarrow> int \<Rightarrow> u64 \<Rightarrow> message_db \<Rightarrow> u64 option" where
  "get_message_id_by_server_message_id cid ct sid db =
     map_option (\<lambda>r. as_u64 (m_id r))
       (find (\<lambda>r. by_server_id sid r \<and> m_channel_id r = as_i64 cid \<and> m_channel_type r = ct) (messages db))"

definition set_message_revoke_by_server_message_id ::
  "int \<Rightarrow> u64 \<Rightarrow> bool \<Rightarrow> u64 option \<Rightarrow> message_db \<Rightarrow> message_db \<times> stored_message option" where
  "set_message_revoke_by_server_message_id now sid revoked revoker db =
     (if \<not> revoked \<or> \<not> list_ex (by_server_id sid) (messages db) then (db, None)
      else
        let db1 = db\<lparr>messages := update_where (by_server_id sid) (revoke_row now) (messages db)\<rparr>
        in case find (by_server_id sid) (messages db1) of
             None \<Rightarrow> (db1, None)
           | Some r \<Rightarrow>
               (let db2 = db1\<lparr>extras := upsert_on x_message_id
                      (\<lambda>x. x\<lparr>x_revoke := 1, x_revoker := map_option as_i64 revoker,
                            x_extra_version := max (x_extra_version x) now\<rparr>)
                      ((new_extra (m_id r) (m_channel_id r) (m_channel_type r))
                         \<lparr>x_revoke := 1, x_revoker := map_option as_i64 revoker, x_extra_version := now\<rparr>)
                      (extras db1)\<rparr>
                in (db2, get_message_by_id (as_u64 (m_id r)) db2)))"

definition set_message_revoke ::
  "int \<Rightarrow> u64 \<Rightarrow> bool \<Rightarrow> u64 option \<Rightarrow> message_db \<Rightarrow> message_db" where
  "set_message_revoke now mid revoked revoker db =
     (case find (by_id mid) (messages db) of
        None \<Rightarrow> db
      | Some r \<Rightarrow>
          (let flag = (if revoked then 1 else 0);
               db1 = db\<lparr>extras := upsert_on x_message_id
                 (\<lambda>x. x\<lparr>x_revoke := flag, x_revoker := map_option as_i64 revoker, x_extra_version := now\<rparr>)
                 ((new_extra (as_i64 mid) (m_channel_id r) (m_channel_type r))
                    \<lparr>x_revoke := flag, x_revoker := map_option as_i64 revoker, x_extra_version := now\<rparr>)
                 (extras db)\<rparr>
           in if revoked
              then db1\<lparr>messages := update_where (by_id mid) (revoke_row now) (messages db1)\<rparr>
              else db1))"

subsection \<open>The display order\<close>

text \<open>Pending messages form the newest group, then \<open>pts\<close>, then the server id, then the row id.\<close>

datatype display_key = DisplayKey (key_pending: int) (key_pts: int) (key_sid: "int option") (key_id: int)

instantiation display_key :: linorder
begin

definition less_eq_display_key :: "display_key \<Rightarrow> display_key \<Rightarrow> bool" where
  "less_eq_display_key a b \<longleftrightarrow>
     (key_pending a, key_pts a, key_sid a, key_id a) \<le> (key_pending b, key_pts b, key_sid b, key_id b)"

definition less_display_key :: "display_key \<Rightarrow> display_key \<Rightarrow> bool" where
  "less_display_key a b \<longleftrightarrow>
     (key_pending a, key_pts a, key_sid a, key_id a) < (key_pending b, key_pts b, key_sid b, key_id b)"

instance
  by standard (auto simp: less_eq_display_key_def less_display_key_def less_le_not_le
    intro: order_trans display_key.expand)

end

definition pending_flag :: "message_row \<Rightarrow> int" where
  "pending_flag r = (case m_server_message_id r of None \<Rightarrow> 1 | Some v \<Rightarrow> if v \<le> 0 then 1 else 0)"

definition display_key_of :: "message_row \<Rightarrow> display_key" where
  "display_key_of r = DisplayKey (pending_flag r) (m_pts r) (m_server_message_id r) (m_id r)"

definition coalesced_key_of :: "message_row \<Rightarrow> display_key" where
  "coalesced_key_of r =
     DisplayKey (pending_flag r) (m_pts r)
       (Some (case m_server_message_id r of None \<Rightarrow> 0 | Some v \<Rightarrow> v)) (m_id r)"

definition in_channel :: "u64 \<Rightarrow> int \<Rightarrow> message_row \<Rightarrow> bool" where
  "in_channel cid ct r \<longleftrightarrow> m_channel_id r = as_i64 cid \<and> m_channel_type r = ct"

definition list_messages :: "u64 \<Rightarrow> int \<Rightarrow> nat \<Rightarrow> nat \<Rightarrow> message_db \<Rightarrow> stored_message list" where
  "list_messages cid ct limit offset db =
     map (stored_message_from_row db)
       (take limit (drop offset
          (rev (sort_key display_key_of (filter (in_channel cid ct) (messages db))))))"

definition list_messages_around ::
  "u64 \<Rightarrow> int \<Rightarrow> u64 \<Rightarrow> nat \<Rightarrow> nat \<Rightarrow> message_db \<Rightarrow> stored_message list" where
  "list_messages_around cid ct anchor before_limit after_limit db =
     (let rows = filter (in_channel cid ct) (messages db)
      in case find (by_server_id anchor) rows of
           None \<Rightarrow> []
         | Some a \<Rightarrow>
             (let k = coalesced_key_of a;
                  older = rev (take before_limit
                    (rev (sort_key coalesced_key_of (filter (\<lambda>r. coalesced_key_of r < k) rows))));
                  here = take 1 (filter (\<lambda>r. m_server_message_id r = key_sid k) rows);
                  newer = take after_limit
                    (sort_key coalesced_key_of (filter (\<lambda>r. k < coalesced_key_of r) rows))
              in map (stored_message_from_row db) (older @ here @ newer)))"

definition max_message_pts :: "u64 \<Rightarrow> int \<Rightarrow> message_db \<Rightarrow> u64" where
  "max_message_pts cid ct db =
     (case filter (in_channel cid ct) (messages db) of
        [] \<Rightarrow> 0
      | r # rs \<Rightarrow> as_u64 (fold max (map m_pts rs) (m_pts r)))"

subsection \<open>Invariant\<close>

definition store_inv :: "message_db \<Rightarrow> bool" where
  "store_inv db \<longleftrightarrow> distinct (map m_id (messages db)) \<and>
     (\<forall>r \<in> set (messages db). 0 < m_id r \<and> m_id r < next_message_id db) \<and>
     0 < next_message_id db \<and>
     unique_server_ids (messages db) \<and> distinct (map x_message_id (extras db))"

lemma find_upsert_on:
  assumes "\<And>r. key (upd r) = key r"
  shows "find (\<lambda>r. key r = k) (upsert_on key upd new rs) =
    (if k = key new then Some (case find (\<lambda>r. key r = k) rs of Some r \<Rightarrow> upd r | None \<Rightarrow> new)
     else find (\<lambda>r. key r = k) rs)"
  by (simp add: find_upsert_keyed assms split: option.split)

lemma updated_row_simps [simp]:
  "m_id (updated_row now u r) = m_id r"
  "m_server_message_id (updated_row now u r) = Some (as_i64 (u_server_message_id u))"
  "m_order_seq (updated_row now u r) = u_order_seq u" "m_pts (updated_row now u r) = u_pts u"
  "m_content (updated_row now u r) = u_content u"
  "m_from_uid (updated_row now u r) = as_i64 (u_from_uid u)"
  "m_local_message_id (updated_row now u r) = as_i64 (u_local_message_id u)"
  by (simp_all add: updated_row_def Let_def split: prod.split)

lemma remote_row_simps [simp]:
  "m_id (remote_row i now u) = i"
  "m_server_message_id (remote_row i now u) = Some (as_i64 (u_server_message_id u))"
  "m_order_seq (remote_row i now u) = u_order_seq u" "m_pts (remote_row i now u) = u_pts u"
  by (simp_all add: remote_row_def)

lemma apply_remote_revoke_flag_simps [simp]:
  "messages (apply_remote_revoke_flag now i u db) = messages db"
  "next_message_id (apply_remote_revoke_flag now i u db) = next_message_id db"
  "outbox (apply_remote_revoke_flag now i u db) = outbox db"
  by (simp_all add: apply_remote_revoke_flag_def)

lemma revoke_flag_extras_distinct:
  "distinct (map x_message_id (extras db)) \<Longrightarrow>
    distinct (map x_message_id (extras (apply_remote_revoke_flag now i u db)))"
  by (auto simp: apply_remote_revoke_flag_def intro: distinct_upsert_on)

lemma unique_server_idsD:
  assumes "unique_server_ids rs" and "a \<in> set rs" and "b \<in> set rs"
    and "m_server_message_id a = Some v" and "m_server_message_id b = Some v" and "0 < v"
  shows "m_id a = m_id b"
  using bspec [OF bspec [OF assms(1) [unfolded unique_server_ids_def] assms(2)] assms(3)] assms(4-6)
  by simp

lemma unique_server_idsI:
  assumes "\<And>a b v. a \<in> set rs \<Longrightarrow> b \<in> set rs \<Longrightarrow> m_server_message_id a = Some v \<Longrightarrow>
      m_server_message_id b = Some v \<Longrightarrow> 0 < v \<Longrightarrow> m_id a = m_id b"
  shows "unique_server_ids rs"
  unfolding unique_server_ids_def
proof (intro ballI impI)
  fix a b assume ab: "a \<in> set rs" "b \<in> set rs" "m_server_message_id a = m_server_message_id b"
  show "case m_server_message_id a of None \<Rightarrow> True | Some v \<Rightarrow> 0 < v \<longrightarrow> m_id a = m_id b"
  proof (cases "m_server_message_id a")
    case (Some v)
    have "m_server_message_id b = Some v" using ab(3) Some by argo
    with assms ab(1,2) Some have "0 < v \<longrightarrow> m_id a = m_id b" by blast
    then show ?thesis by (simp only: Some option.case)
  qed simp
qed

lemma unique_update:
  assumes un: "unique_server_ids rs"
    and v: "\<And>q. q \<in> set rs \<Longrightarrow> m_server_message_id q = Some v \<Longrightarrow> 0 < v \<Longrightarrow> m_id q = i"
    and f: "\<And>r. m_id (f r) = m_id r" "\<And>r. m_server_message_id (f r) = Some v"
  shows "unique_server_ids (update_where (\<lambda>r. m_id r = i) f rs)"
proof (rule unique_server_idsI)
  fix a b w
  assume a: "a \<in> set (update_where (\<lambda>r. m_id r = i) f rs)"
    and b: "b \<in> set (update_where (\<lambda>r. m_id r = i) f rs)"
    and w: "m_server_message_id a = Some w" "m_server_message_id b = Some w" "0 < w"
  have one: "m_id x = i \<or> (x \<in> set rs \<and> m_id x \<noteq> i)" "m_id x = i \<longrightarrow> m_server_message_id x = Some v"
    if "x \<in> set (update_where (\<lambda>r. m_id r = i) f rs)" for x
    using that f by (auto simp: set_update_where)
  consider "m_id a = i" "m_id b = i" | "m_id a = i" "m_id b \<noteq> i" | "m_id a \<noteq> i" "m_id b = i"
    | "m_id a \<noteq> i" "m_id b \<noteq> i" by blast
  then show "m_id a = m_id b"
  proof cases
    case 4
    with one a b have "a \<in> set rs" "b \<in> set rs" by blast+
    from unique_server_idsD [OF un this] w show ?thesis by blast
  qed (use one [OF a] one [OF b] w v in \<open>auto\<close>)
qed

lemma update_row_inv:
  assumes "store_inv db"
    and "\<And>q. q \<in> set (messages db) \<Longrightarrow> by_server_id (u_server_message_id u) q \<Longrightarrow>
      0 < as_i64 (u_server_message_id u) \<Longrightarrow> m_id q = i"
  shows "store_inv (update_row now u i db)"
proof -
  have "unique_server_ids (update_where (\<lambda>r. m_id r = i) (updated_row now u) (messages db))"
    by (rule unique_update [where v = "as_i64 (u_server_message_id u)"])
      (use assms in \<open>auto simp: store_inv_def by_server_id_def\<close>)
  then show ?thesis
    using assms(1) unfolding store_inv_def update_row_def
    by (auto simp: map_update_where set_update_where intro!: revoke_flag_extras_distinct)
qed

lemma delete_inv:
  "store_inv db \<Longrightarrow> store_inv (db\<lparr>messages := delete_where P (messages db)\<rparr>)"
  by (auto simp: store_inv_def distinct_delete_where intro!: unique_server_idsI
      dest: unique_server_idsD)

lemma insert_inv:
  assumes "store_inv db" and "m_id row = next_message_id db"
    and "\<And>q v. q \<in> set (messages db) \<Longrightarrow> m_server_message_id q = Some v \<Longrightarrow>
      m_server_message_id row = Some v \<Longrightarrow> 0 < v \<Longrightarrow> False"
  shows "store_inv (insert_message row db)"
proof -
  have "unique_server_ids (messages db @ [row])"
  proof (rule unique_server_idsI)
    fix a b v
    assume a: "a \<in> set (messages db @ [row])" and b: "b \<in> set (messages db @ [row])"
      and v: "m_server_message_id a = Some v" "m_server_message_id b = Some v" "0 < v"
    have un: "unique_server_ids (messages db)" using assms(1) by (simp add: store_inv_def)
    show "m_id a = m_id b"
    proof (cases "a = row \<or> b = row")
      case True
      then show ?thesis using a b v assms(3) [of a v] assms(3) [of b v] by auto
    next
      case False
      with a b have "a \<in> set (messages db)" "b \<in> set (messages db)" by simp_all
      from unique_server_idsD [OF un this v] show ?thesis .
    qed
  qed
  then show ?thesis using assms(1,2) by (auto simp: store_inv_def insert_message_def)
qed

lemma revoke_flag_inv: "store_inv db \<Longrightarrow> store_inv (apply_remote_revoke_flag now i u db)"
  by (auto simp: store_inv_def revoke_flag_extras_distinct)

lemma find_server_unique:
  assumes "store_inv db" and "find (by_server_id sid) (messages db) = Some r"
    and "q \<in> set (messages db)" and "by_server_id sid q" and "0 < as_i64 sid"
  shows "q = r"
proof -
  have "r \<in> set (messages db)" "by_server_id sid r" using find_Some_mem [OF assms(2)] by auto
  moreover then have "m_id q = m_id r"
    using assms unique_server_idsD [of "messages db" q r] by (simp add: store_inv_def by_server_id_def)
  ultimately show ?thesis
    using assms(1,3) by (auto simp: store_inv_def distinct_map inj_on_def)
qed

lemma upsert_one_inv:
  assumes "store_inv db"
  shows "store_inv (fst (upsert_one now cu u db))"
proof -
  let ?sid = "u_server_message_id u"
  let ?find = "find (by_server_id ?sid) (messages db)"
  have none: "\<not> by_server_id ?sid q" if "?find = None" "q \<in> set (messages db)" for q
    using that by (auto simp: find_None_iff)
  have upd_none: "store_inv (update_row now u i db)" if "?find = None" for i
    by (rule update_row_inv [OF assms]) (use none [OF that] in auto)
  have upd: "store_inv (update_row now u (m_id r) db)" if "?find = Some r" for r
    by (rule update_row_inv [OF assms]) (use find_server_unique [OF assms that] in auto)
  have merge: "store_inv (update_row now u i (db\<lparr>messages := delete_where (\<lambda>x. m_id x = m_id r) (messages db)\<rparr>))"
    if "?find = Some r" for r i
    by (rule update_row_inv [OF delete_inv [OF assms]]) (use find_server_unique [OF assms that] in auto)
  have ins: "store_inv (apply_remote_revoke_flag now (next_message_id db) u
      (insert_message (remote_row (next_message_id db) now u) db))" if "?find = None"
    by (rule revoke_flag_inv, rule insert_inv [OF assms])
      (use none [OF that] in \<open>auto simp: by_server_id_def\<close>)
  show ?thesis
  proof (cases ?find)
    case None
    show ?thesis using assms upd_none [OF None] ins [OF None]
      by (simp add: upsert_one_def Let_def None split: option.split)
  next
    case (Some r)
    show ?thesis using assms upd [OF Some] merge [OF Some]
      by (simp add: upsert_one_def Let_def Some split: option.split)
  qed
qed

subsection \<open>Order and repetition of upserts\<close>


lemma upsert_all_inv: "store_inv db \<Longrightarrow> store_inv (fst (upsert_all now cu us db))"
proof (induction us arbitrary: db)
  case (Cons u us)
  have "store_inv (fst (upsert_one now cu u db))" by (rule upsert_one_inv [OF Cons.prems])
  from Cons.IH [OF this] show ?case by (simp add: case_prod_beta)
qed simp

definition row_order :: "message_row \<Rightarrow> int \<times> int" where
  "row_order r = (m_order_seq r, m_pts r)"

lemma not_stale: "\<not> stale u r \<Longrightarrow> row_order r \<le> (u_order_seq u, u_pts u)"
  by (auto simp: stale_def row_order_def)

lemma upsert_one_order:
  assumes "find (by_server_id (u_server_message_id u)) (messages db) = Some r"
    and "m_id r \<in> m_id ` set (messages db)"
  shows "\<exists>r' \<in> set (messages (fst (upsert_one now cu u db))).
    by_server_id (u_server_message_id u) r' \<and> row_order r \<le> row_order r'"
proof -
  let ?sid = "u_server_message_id u"
  have r: "r \<in> set (messages db)" "by_server_id ?sid r" using find_Some_mem [OF assms(1)] by auto
  have hit: "\<exists>r' \<in> set (update_where (\<lambda>q. m_id q = i) (updated_row now u) ms).
      by_server_id ?sid r' \<and> row_order r \<le> row_order r'"
    if ex: "\<exists>q \<in> set ms. m_id q = i" and ns: "\<not> stale u r" for i ms
  proof -
    obtain q where q: "q \<in> set ms" "m_id q = i" using ex by blast
    have "updated_row now u q \<in> set (update_where (\<lambda>q. m_id q = i) (updated_row now u) ms)"
      using q by (auto simp: set_update_where)
    moreover have "by_server_id ?sid (updated_row now u q)" by (simp add: by_server_id_def)
    moreover have "row_order r \<le> row_order (updated_row now u q)"
      using not_stale [OF ns] by (simp only: row_order_def updated_row_simps)
    ultimately show ?thesis by blast
  qed
  show ?thesis
  proof (cases "stale u r \<or> ?sid = 0")
    case True
    then have "fst (upsert_one now cu u db) = db" by (auto simp: upsert_one_def Let_def assms(1))
    with r show ?thesis by auto
  next
    case False
    let ?l = "if cu = Some (unat (u_from_uid u)) \<and> u_local_message_id u > 0
       then find (\<lambda>r. m_from_uid r = as_i64 (u_from_uid u) \<and>
                      m_local_message_id r = as_i64 (u_local_message_id u)) (messages db) else None"
    show ?thesis
    proof (cases ?l)
      case None
      then have "messages (fst (upsert_one now cu u db)) =
          update_where (\<lambda>q. m_id q = m_id r) (updated_row now u) (messages db)"
        using False by (simp add: upsert_one_def Let_def assms(1) update_row_def)
      then show ?thesis using hit [of "messages db" "m_id r"] r False by auto
    next
      case (Some l)
      then have l: "l \<in> set (messages db)" by (auto split: if_splits dest: find_Some_mem)
      show ?thesis
      proof (cases "m_id l = m_id r")
        case True
        then have "messages (fst (upsert_one now cu u db)) =
            update_where (\<lambda>q. m_id q = m_id r) (updated_row now u) (messages db)"
          using False Some by (simp add: upsert_one_def Let_def assms(1) update_row_def)
        then show ?thesis using hit [of "messages db" "m_id r"] r False by auto
      next
        case ne: False
        then have "messages (fst (upsert_one now cu u db)) =
            update_where (\<lambda>q. m_id q = m_id l) (updated_row now u)
              (delete_where (\<lambda>x. m_id x = m_id r) (messages db))"
          using False Some by (simp add: upsert_one_def Let_def assms(1) update_row_def)
        then show ?thesis
          using hit [of "delete_where (\<lambda>x. m_id x = m_id r) (messages db)" "m_id l"] l ne False by auto
      qed
    qed
  qed
qed



lemma extra_of_revoke_flag:
  "extra_of (apply_remote_revoke_flag now i u db) j =
    (if u_revoked u \<and> j = i
     then Some (case extra_of db j of
            Some x \<Rightarrow> x\<lparr>x_revoke := 1, x_extra_version := max (x_extra_version x) now\<rparr>
          | None \<Rightarrow> (new_extra i (as_i64 (u_channel_id u)) (u_channel_type u))\<lparr>x_revoke := 1, x_extra_version := now\<rparr>)
     else extra_of db j)"
  by (simp add: apply_remote_revoke_flag_def extra_of_def find_upsert_on new_extra_def split: option.split)

lemma find_update_where_on:
  assumes "\<And>r. r \<in> set rs \<Longrightarrow> P r \<Longrightarrow> Q (f r) = Q r"
  shows "find Q (update_where P f rs) = map_option (\<lambda>r. if P r then f r else r) (find Q rs)"
  using assms by (induction rs) (auto simp: update_where_def)

lemma find_delete_where:
  "find Q rs = Some l \<Longrightarrow> \<not> P l \<Longrightarrow> find Q (delete_where P rs) = Some l"
  by (induction rs) (auto simp: delete_where_def split: if_splits)

lemma upsert_on_idem:
  assumes "\<And>r. key (upd r) = key r" and "\<And>r. key r = key new \<Longrightarrow> upd (upd r) = upd r" and "upd new = new"
  shows "upsert_on key upd new (upsert_on key upd new rs) = upsert_on key upd new rs"
proof (cases "\<exists>r \<in> set rs. key r = key new")
  case True
  then obtain r where r: "r \<in> set rs" "key r = key new" by blast
  let ?w = "update_where (\<lambda>r. key r = key new) upd"
  have "upd r \<in> set (?w rs)" using r by (auto simp: set_update_where)
  then have "\<exists>r \<in> set (?w rs). key r = key new" using assms(1) r by (intro bexI [of _ "upd r"]) simp_all
  moreover have "?w (?w rs) = ?w rs"
    using assms(1,2) by (induction rs) (simp_all add: update_where_def)
  ultimately show ?thesis using True by (simp only: upsert_on_def if_True)
next
  case False
  then have "update_where (\<lambda>r. key r = key new) upd (rs @ [new]) = rs @ [new]"
    using assms(3) by (auto simp: update_where_def intro: map_if_id)
  with False show ?thesis by (auto simp: upsert_on_def)
qed

lemma revoke_flag_idem:
  "apply_remote_revoke_flag now i u (apply_remote_revoke_flag now i u db) = apply_remote_revoke_flag now i u db"
  by (simp add: apply_remote_revoke_flag_def upsert_on_idem new_extra_def max_def)

lemma updated_row_idem: "updated_row now u (updated_row now u r) = updated_row now u r"
  by (cases r) (simp add: updated_row_def merge_created_at_def Let_def split: prod.splits option.splits)

lemma updated_remote_row: "updated_row now u (remote_row i now u) = remote_row i now u"
  by (simp add: updated_row_def remote_row_def merge_created_at_def Let_def split: option.splits)

lemma update_row_idem: "update_row now u i (update_row now u i db) = update_row now u i db"
proof -
  have ms: "update_where (\<lambda>r. m_id r = i) (updated_row now u)
      (update_where (\<lambda>r. m_id r = i) (updated_row now u) ms) =
    update_where (\<lambda>r. m_id r = i) (updated_row now u) ms" for ms
    by (induction ms) (auto simp: update_where_def updated_row_idem)
  have sw: "(apply_remote_revoke_flag now i u d)\<lparr>messages := m\<rparr> = apply_remote_revoke_flag now i u (d\<lparr>messages := m\<rparr>)" for d m
    by (simp add: apply_remote_revoke_flag_def)
  show ?thesis by (simp add: update_row_def ms sw revoke_flag_idem)
qed

definition from_and_local :: "upsert_input \<Rightarrow> message_row \<Rightarrow> bool" where
  "from_and_local u r \<longleftrightarrow> m_from_uid r = as_i64 (u_from_uid u) \<and> m_local_message_id r = as_i64 (u_local_message_id u)"

lemma upsert_again:
  assumes "find (by_server_id (u_server_message_id u)) (messages db) = Some r" and "\<not> stale u r"
    and "u_server_message_id u \<noteq> 0"
    and "\<And>l. cu = Some (unat (u_from_uid u)) \<Longrightarrow> u_local_message_id u > 0 \<Longrightarrow>
      find (from_and_local u) (messages db) = Some l \<Longrightarrow> m_id l = m_id r"
  shows "fst (upsert_one now cu u db) = update_row now u (m_id r) db"
proof (cases "cu = Some (unat (u_from_uid u)) \<and> u_local_message_id u > 0")
  case True
  note loc = assms(4) [OF conjunct1 [OF True] conjunct2 [OF True], unfolded from_and_local_def]
  show ?thesis
  proof (cases "find (\<lambda>r. m_from_uid r = as_i64 (u_from_uid u) \<and>
                    m_local_message_id r = as_i64 (u_local_message_id u)) (messages db)")
    case None
    with True assms(2,3) show ?thesis by (simp add: upsert_one_def Let_def assms(1))
  next
    case (Some l)
    with loc have "m_id l = m_id r" by simp
    with Some True assms(2,3) show ?thesis by (simp add: upsert_one_def Let_def assms(1))
  qed
next
  case False
  with assms(2,3) show ?thesis by (auto simp: upsert_one_def Let_def assms(1))
qed

text \<open>How one upsert changed the messages: the row \<open>i\<close> now holds the input.\<close>

lemma find_server_after:
  assumes inv: "store_inv db'" and pos: "0 < as_i64 (u_server_message_id u)"
    and r: "r \<in> set (messages db')" "by_server_id (u_server_message_id u) r"
  shows "find (by_server_id (u_server_message_id u)) (messages db') = Some r"
proof -
  obtain q where q: "find (by_server_id (u_server_message_id u)) (messages db') = Some q"
    using r by (cases "find (by_server_id (u_server_message_id u)) (messages db')") (auto simp: find_None_iff)
  from find_server_unique [OF inv q r pos] q show ?thesis by simp
qed

lemma first_local_after_update:
  assumes "store_inv db" and "l \<in> set ms" and "set ms \<subseteq> set (messages db)"
    and "find (from_and_local u) ms = None \<or> find (from_and_local u) ms = Some l"
    and "find (from_and_local u) (update_where (\<lambda>r. m_id r = m_id l) (updated_row now u) ms) = Some k"
  shows "m_id k = m_id l"
proof -
  have same: "x = l" if "x \<in> set ms" "m_id x = m_id l" for x
  proof -
    have "inj_on m_id (set (messages db))" using assms(1) by (simp add: store_inv_def distinct_map)
    from inj_onD [OF this that(2)] assms(2,3) that(1) show ?thesis by blast
  qed
  show ?thesis using assms(4)
  proof
    assume "find (from_and_local u) ms = None"
    then have "\<forall>x \<in> set ms. \<not> from_and_local u x" by (auto simp: find_None_iff)
    then show ?thesis using find_Some_mem [OF assms(5)] by (auto simp: set_update_where)
  next
    assume l: "find (from_and_local u) ms = Some l"
    then have "from_and_local u l" by (auto dest: find_Some_mem)
    then have "find (from_and_local u) (update_where (\<lambda>r. m_id r = m_id l) (updated_row now u) ms) =
      map_option (\<lambda>r. if m_id r = m_id l then updated_row now u r else r) (find (from_and_local u) ms)"
      by (intro find_update_where_on) (auto dest: same simp: from_and_local_def)
    with l assms(5) show ?thesis by auto
  qed
qed

lemma upsert_twice_update:
  assumes inv: "store_inv db" and pos: "0 < as_i64 (u_server_message_id u)"
    and l: "l \<in> set ms" and ms: "set ms \<subseteq> set (messages db)"
    and first: "fst (upsert_one now cu u db) = update_row now u (m_id l) (db\<lparr>messages := ms\<rparr>)"
    and loc: "cu = Some (unat (u_from_uid u)) \<Longrightarrow> u_local_message_id u > 0 \<Longrightarrow>
      find (from_and_local u) ms = None \<or> find (from_and_local u) ms = Some l"
  shows "fst (upsert_one now cu u (fst (upsert_one now cu u db))) = fst (upsert_one now cu u db)"
proof -
  let ?db = "update_row now u (m_id l) (db\<lparr>messages := ms\<rparr>)"
  let ?r = "updated_row now u l"
  have m: "messages ?db = update_where (\<lambda>r. m_id r = m_id l) (updated_row now u) ms"
    by (simp add: update_row_def)
  have "store_inv ?db" using upsert_one_inv [OF inv, of now cu u] first by simp
  moreover have "?r \<in> set (messages ?db)" using l by (auto simp: m set_update_where)
  ultimately have f: "find (by_server_id (u_server_message_id u)) (messages ?db) = Some ?r"
    by (intro find_server_after [OF _ pos]) (simp_all add: by_server_id_def)
  have "fst (upsert_one now cu u ?db) = update_row now u (m_id ?r) ?db"
  proof (rule upsert_again [OF f])
    show "\<not> stale u ?r" by (simp add: stale_def)
    show "u_server_message_id u \<noteq> 0" using pos by auto
    show "m_id k = m_id ?r" if "cu = Some (unat (u_from_uid u))" "u_local_message_id u > 0"
      "find (from_and_local u) (messages ?db) = Some k" for k
      using first_local_after_update [OF inv l ms loc [OF that(1,2)] that(3) [unfolded m]] by simp
  qed
  then show ?thesis by (simp add: first update_row_idem)
qed


lemma upsert_first_cases:
  assumes inv: "store_inv db" and pos: "0 < as_i64 (u_server_message_id u)"
  shows "fst (upsert_one now cu u (fst (upsert_one now cu u db))) = fst (upsert_one now cu u db)"
proof -
  let ?sid = "u_server_message_id u"
  let ?self = "cu = Some (unat (u_from_uid u)) \<and> u_local_message_id u > 0"
  let ?loc = "if ?self then find (from_and_local u) (messages db) else None"
  have nz: "?sid \<noteq> 0" using pos by auto
  have eq: "(\<lambda>r. m_from_uid r = as_i64 (u_from_uid u) \<and> m_local_message_id r = as_i64 (u_local_message_id u)) =
    from_and_local u" by (simp add: fun_eq_iff from_and_local_def)
  have all: "db\<lparr>messages := messages db\<rparr> = db" by simp
  show ?thesis
  proof (cases "find (by_server_id ?sid) (messages db)")
    case (Some r)
    have r: "r \<in> set (messages db)" using find_Some_mem [OF Some] by simp
    show ?thesis
    proof (cases "stale u r")
      case True
      then have "fst (upsert_one now cu u db) = db" by (auto simp: upsert_one_def Let_def Some)
      then show ?thesis by simp
    next
      case fresh: False
      show ?thesis
      proof (cases ?loc)
        case None
        then have "fst (upsert_one now cu u db) = update_row now u (m_id r) db"
          using nz fresh None by (auto simp: upsert_one_def Let_def Some eq split: if_splits)
        then show ?thesis
          using None by (intro upsert_twice_update [OF inv pos r]) (auto simp: all split: if_splits)
      next
        case l: (Some l)
        then have lm: "l \<in> set (messages db)" "find (from_and_local u) (messages db) = Some l"
          by (auto split: if_splits dest: find_Some_mem)
        show ?thesis
        proof (cases "m_id l = m_id r")
          case True
          then have "fst (upsert_one now cu u db) = update_row now u (m_id l) db"
            using nz fresh l True by (auto simp: upsert_one_def Let_def Some eq split: if_splits)
          then show ?thesis
            using lm by (intro upsert_twice_update [OF inv pos lm(1)]) (auto simp: all)
        next
          case ne: False
          let ?ms = "delete_where (\<lambda>x. m_id x = m_id r) (messages db)"
          have "fst (upsert_one now cu u db) = update_row now u (m_id l) (db\<lparr>messages := ?ms\<rparr>)"
            using nz fresh l ne by (auto simp: upsert_one_def Let_def Some eq split: if_splits)
          moreover have "find (from_and_local u) ?ms = Some l"
            using lm(2) ne by (intro find_delete_where) auto
          ultimately show ?thesis
            using lm(1) ne by (intro upsert_twice_update [OF inv pos]) auto
        qed
      qed
    qed
  next
    case None
    show ?thesis
    proof (cases ?loc)
      case (Some l)
      then have lm: "l \<in> set (messages db)" "find (from_and_local u) (messages db) = Some l"
        by (auto split: if_splits dest: find_Some_mem)
      show ?thesis
      proof (cases "stale u l")
        case True
        then have "fst (upsert_one now cu u db) = db"
          using nz Some by (auto simp: upsert_one_def Let_def None eq split: if_splits)
        then show ?thesis by simp
      next
        case False
        then have "fst (upsert_one now cu u db) = update_row now u (m_id l) db"
          using nz Some by (auto simp: upsert_one_def Let_def None eq split: if_splits)
        then show ?thesis
          using lm by (intro upsert_twice_update [OF inv pos lm(1)]) (auto simp: all)
      qed
    next
      case no: None
      let ?i = "next_message_id db"
      let ?row = "remote_row ?i now u"
      let ?db = "apply_remote_revoke_flag now ?i u (insert_message ?row db)"
      have first: "fst (upsert_one now cu u db) = ?db"
        using nz no by (auto simp: upsert_one_def Let_def None eq split: if_splits)
      have m: "messages ?db = messages db @ [?row]" by (simp add: insert_message_def)
      have inv': "store_inv ?db" using upsert_one_inv [OF inv, of now cu u] first by simp
      have f: "find (by_server_id ?sid) (messages ?db) = Some ?row"
        by (rule find_server_after [OF inv' pos]) (simp_all add: insert_message_def by_server_id_def)
      have "fst (upsert_one now cu u ?db) = update_row now u (m_id ?row) ?db"
      proof (rule upsert_again [OF f _ nz])
        show "\<not> stale u ?row" by (simp add: stale_def)
        fix k assume self: "cu = Some (unat (u_from_uid u))" "u_local_message_id u > 0"
          and k: "find (from_and_local u) (messages ?db) = Some k"
        have "find (from_and_local u) (messages db) = None" using no self by simp
        then have "k = ?row" using find_Some_mem [OF k] by (auto simp: insert_message_def find_None_iff)
        then show "m_id k = m_id ?row" by simp
      qed
      moreover have "update_row now u (m_id ?row) ?db = ?db"
      proof -
        have "\<forall>r \<in> set (messages db). m_id r \<noteq> ?i" using inv by (auto simp: store_inv_def)
        then have "update_where (\<lambda>r. m_id r = ?i) (updated_row now u) (messages db @ [?row]) = messages db @ [?row]"
          by (auto simp: update_where_def updated_remote_row intro!: map_if_id)
        then have "?db\<lparr>messages := update_where (\<lambda>r. m_id r = ?i) (updated_row now u) (messages ?db)\<rparr> = ?db"
          by (simp only: m) (simp add: apply_remote_revoke_flag_def insert_message_def)
        then show ?thesis by (simp add: update_row_def revoke_flag_idem)
      qed
      ultimately show ?thesis by (simp add: first)
    qed
  qed
qed


subsection \<open>The display window\<close>


lemma sort_key_slice:
  fixes k :: "'a \<Rightarrow> 'b :: linorder"
  assumes "distinct (map k xs)" and "a \<in> set xs"
  defines "L \<equiv> sort_key k xs"
  defines "i \<equiv> length (filter (\<lambda>x. k x < k a) xs)"
  shows "sort_key k (filter (\<lambda>x. k x < k a) xs) = take i L \<and>
    L ! i = a \<and> i < length L \<and> sort_key k (filter (\<lambda>x. k a < k x) xs) = drop (Suc i) L"
proof -
  have srt: "sorted (map k L)" by (simp add: L_def)
  have dist: "distinct (map k L)"
    using assms(1) by (simp add: L_def distinct_map) 
  have "a \<in> set L" using assms(2) by (simp add: L_def)
  then obtain ls rs where L: "L = ls @ a # rs" by (auto simp: in_set_conv_decomp)
  have lt: "\<forall>x \<in> set ls. k x < k a" and gt: "\<forall>x \<in> set rs. k a < k x"
    using srt dist by (auto simp: L sorted_append less_le image_iff)
  have f1: "filter (\<lambda>x. k x < k a) L = ls"
    using lt gt by (auto simp: L filter_id_conv less_asym' filter_empty_conv dest: less_asym)
  have f2: "filter (\<lambda>x. k a < k x) L = rs"
    using lt gt by (auto simp: L filter_id_conv filter_empty_conv dest: less_asym)
  have s: "sort_key k (filter P xs) = filter P L" for P
    by (simp add: L_def filter_sort)
  have "i = length ls"
    using f1 s [of "\<lambda>x. k x < k a"] by (metis i_def length_sort)
  then show ?thesis using f1 f2 s by (simp add: L)
qed

lemma filter_single:
  "distinct xs \<Longrightarrow> a \<in> set xs \<Longrightarrow> (\<And>x. x \<in> set xs \<Longrightarrow> P x \<longleftrightarrow> x = a) \<Longrightarrow> filter P xs = [a]"
  by (induction xs) (auto simp: filter_empty_conv)

lemma window_slice:
  assumes "i < length L" and "L ! i = a"
  shows "rev (take b (rev (take i L))) @ [a] @ take c (drop (Suc i) L) =
    take (min b i + 1 + c) (drop (i - b) L)"
proof -
  have 1: "rev (take b (rev (take i L))) = take (min b i) (drop (i - b) L)"
    using assms(1) by (simp add: take_rev drop_take min_def)
  have "drop i L = a # drop (Suc i) L" using assms Cons_nth_drop_Suc by metis
  then have 2: "[a] @ take c (drop (Suc i) L) = take (1 + c) (drop i L)" by simp
  have 3: "drop i L = drop (min b i) (drop (i - b) L)" by (simp add: min_def)
  show ?thesis unfolding 1 2 3 add.assoc take_add ..
qed

definition server_ids_valid :: "message_row list \<Rightarrow> bool" where
  "server_ids_valid rs \<longleftrightarrow> (\<forall>r \<in> set rs. case m_server_message_id r of None \<Rightarrow> True | Some v \<Rightarrow> 0 < v)"

lemma key_orders_agree:
  assumes "server_ids_valid rs" and "a \<in> set rs" and "b \<in> set rs"
  shows "coalesced_key_of a < coalesced_key_of b \<longleftrightarrow> display_key_of a < display_key_of b"
  using assms
  by (auto simp: server_ids_valid_def less_display_key_def coalesced_key_of_def display_key_of_def
      pending_flag_def split: option.splits)

lemma coalesced_sort_same:
  assumes "server_ids_valid rs" and "distinct (map m_id rs)"
  shows "sort_key coalesced_key_of rs = sort_key display_key_of rs"
proof (rule sort_key_inj_key_eq)
  show "mset rs = mset (sort_key display_key_of rs)" by simp
  show "inj_on coalesced_key_of (set rs)"
    using assms(2) by (auto simp: inj_on_def coalesced_key_of_def distinct_map)
  have "sorted (map display_key_of (sort_key display_key_of rs))" by simp
  then show "sorted (map coalesced_key_of (sort_key display_key_of rs))"
    unfolding sorted_map
  proof (rule sorted_wrt_mono_rel [rotated])
    fix x y assume xy: "x \<in> set (sort_key display_key_of rs)" "y \<in> set (sort_key display_key_of rs)"
      "display_key_of x \<le> display_key_of y"
    then have "\<not> display_key_of y < display_key_of x" by simp
    with key_orders_agree [OF assms(1), of y x] xy show "coalesced_key_of x \<le> coalesced_key_of y" by simp
  qed
qed


definition merge_arrivals :: "int \<times> int \<Rightarrow> (int \<times> int) list \<Rightarrow> int \<times> int" where
  "merge_arrivals start arrivals = foldl (\<lambda>(v, p) (n, q). merge_created_at v p n q) start arrivals"


subsection \<open>Examples\<close>

text \<open>Inputs and databases of the examples.\<close>

definition example_input :: "u64 \<Rightarrow> int \<Rightarrow> string \<Rightarrow> upsert_input" where
  "example_input sid seq text = to_upsert_input (from_push sid 0 7 1 3 0 text '''' seq 1785148271) 2 None"

definition example_db :: message_db where
  "example_db = fst (upsert_one 1785148272000 None (example_input 9 5 ''hello'') empty_db)"

lemma empty_db_inv [simp]: "store_inv empty_db"
  by (simp add: store_inv_def empty_db_def unique_server_ids_def)

lemma example_db_inv [simp]: "store_inv example_db"
  by (simp add: example_db_def upsert_one_inv)

lemma as_i64_9 [simp]: "as_i64 9 = 9"
  by (simp add: as_i64_def)

lemma example_db_find:
  "find (by_server_id 9) (messages example_db) = Some (remote_row 1 1785148272000 (example_input 9 5 ''hello''))"
  by (simp add: example_db_def upsert_one_def empty_db_def insert_message_def example_input_def
      to_upsert_input_def from_push_def by_server_id_def apply_remote_revoke_flag_def)


subsection \<open>Properties\<close>

text \<open>C5. Through any sequence of remote upserts, in any order and with any replays, row ids stay
  distinct and fresh, every positive server id is stored in at most one row, and every
  message has at most one row of extra state.\<close>

theorem upserts_keep_store_consistent:
  assumes "store_inv db"
  shows "store_inv (fst (upsert_all now cu us db)) \<and>
    (\<forall>sid. 0 < as_i64 sid \<longrightarrow>
       length (filter (by_server_id sid) (messages (fst (upsert_all now cu us db)))) \<le> 1)"
proof -
  let ?db = "fst (upsert_all now cu us db)"
  have inv: "store_inv ?db" by (rule upsert_all_inv [OF assms])
  have "length (filter (by_server_id sid) (messages ?db)) \<le> 1" if "0 < as_i64 sid" for sid
  proof (rule ccontr)
    assume "\<not> length (filter (by_server_id sid) (messages ?db)) \<le> 1"
    then obtain a b xs where ab: "filter (by_server_id sid) (messages ?db) = a # b # xs"
      by (cases "filter (by_server_id sid) (messages ?db)" rule: remdups_adj.cases) auto
    then have mem: "a \<in> set (messages ?db)" "b \<in> set (messages ?db)" "by_server_id sid a" "by_server_id sid b"
    proof -
      have "a \<in> set (filter (by_server_id sid) (messages ?db))"
        "b \<in> set (filter (by_server_id sid) (messages ?db))" by (simp_all only: ab) simp_all
      then show "a \<in> set (messages ?db)" "b \<in> set (messages ?db)" "by_server_id sid a" "by_server_id sid b"
        by simp_all
    qed
    have "distinct (map m_id (filter (by_server_id sid) (messages ?db)))"
      using inv by (simp add: store_inv_def distinct_map_filterI)
    then have "m_id a \<noteq> m_id b" by (simp add: ab)
    moreover have "m_id a = m_id b"
      by (rule unique_server_idsD [OF _ mem(1,2)]) (use inv mem that in \<open>auto simp: store_inv_def by_server_id_def\<close>)
    ultimately show False by contradiction
  qed
  with inv show ?thesis by blast
qed

theorem upserts_keep_store_consistent_witness:
  "store_inv (fst (upsert_all 1 None [example_input 9 6 ''b'', example_input 9 5 ''a''] example_db))"
  using upserts_keep_store_consistent [OF example_db_inv] by blast

text \<open>C6. An out-of-order replay never regresses a message: the order key of the row that holds a
  server id never decreases, and an input with a smaller key changes nothing.\<close>

theorem upsert_never_regresses:
  assumes "find (by_server_id (u_server_message_id u)) (messages db) = Some r"
  shows "(\<exists>r' \<in> set (messages (fst (upsert_one now cu u db))).
      by_server_id (u_server_message_id u) r' \<and> row_order r \<le> row_order r') \<and>
    ((u_order_seq u, u_pts u) < row_order r \<longrightarrow> fst (upsert_one now cu u db) = db)"
proof -
  have "m_id r \<in> m_id ` set (messages db)" using find_Some_mem [OF assms] by blast
  moreover have "(u_order_seq u, u_pts u) < row_order r \<Longrightarrow> fst (upsert_one now cu u db) = db"
    by (auto simp: upsert_one_def Let_def assms stale_def row_order_def)
  ultimately show ?thesis using upsert_one_order [OF assms] by blast
qed

theorem upsert_never_regresses_witness:
  "fst (upsert_one 7 None (example_input 9 4 ''old'') example_db) = example_db"
proof -
  have "find (by_server_id (u_server_message_id (example_input 9 4 ''old''))) (messages example_db) =
      Some (remote_row 1 1785148272000 (example_input 9 5 ''hello''))"
    using example_db_find by (simp add: example_input_def to_upsert_input_def from_push_def)
  from upsert_never_regresses [OF this, of 7 None] show ?thesis
    by (auto simp: row_order_def example_input_def to_upsert_input_def from_push_def)
qed

text \<open>Where a message's send time ends up does not depend on how pushes and history interleave:
  the first millisecond value wins over every second value, before or after it, and only
  without one does the first second value stay.\<close>

theorem first_precise_send_time_wins:
  assumes "0 < v" and "p \<in> {0, 1}" and "\<forall>(n, q) \<in> set arrivals. 0 < n \<and> q \<in> {0, 1}"
  shows "merge_arrivals (v, p) arrivals =
    (case find (\<lambda>(n, q). q = 1) ((v, p) # arrivals) of Some a \<Rightarrow> a | None \<Rightarrow> (v, p))"
  using assms
proof (induction arrivals arbitrary: v p)
  case (Cons a arrivals)
  obtain n q where a: "a = (n, q)" by (cases a)
  have "merge_arrivals (v, p) (a # arrivals) = merge_arrivals (merge_created_at v p n q) arrivals"
    by (simp add: merge_arrivals_def a)
  moreover have "merge_created_at v p n q = (if q = 1 \<and> p = 0 then (n, 1) else (v, p))"
    using Cons.prems(1) by (simp add: merge_created_at_def)
  ultimately show ?case
    using Cons.IH [of n 1] Cons.IH [of v p] Cons.prems by (auto simp: a)
qed (auto simp: merge_arrivals_def)

theorem first_precise_send_time_wins_witness:
  "merge_arrivals (1785148271000, 0) [(1785148271317, 1), (1785148271000, 0)] = (1785148271317, 1)"
  by (subst first_precise_send_time_wins) simp_all

text \<open>Delivering the same remote message twice leaves the database as after the first delivery,
  whichever of the insert, update, local-echo and duplicate-merge paths the first one took.\<close>

theorem upsert_idempotent:
  assumes "store_inv db" and "0 < as_i64 (u_server_message_id u)"
  shows "fst (upsert_one now cu u (fst (upsert_one now cu u db))) = fst (upsert_one now cu u db)"
  by (rule upsert_first_cases [OF assms])

theorem upsert_idempotent_witness:
  "fst (upsert_one 1 None (example_input 9 6 ''b'') (fst (upsert_one 1 None (example_input 9 6 ''b'') example_db))) =
     fst (upsert_one 1 None (example_input 9 6 ''b'') example_db)"
  by (rule upsert_idempotent) (simp_all add: example_input_def to_upsert_input_def from_push_def)

text \<open>C39. A revoked message keeps its revoked flag through a replay of its original, but not its
  redaction: the replay puts the original text back into the row that the revocation had
  overwritten.\<close>

theorem replay_restores_revoked_content:
  assumes "store_inv db" and "0 < as_i64 (u_server_message_id u)"
    and "find (by_server_id (u_server_message_id u)) (messages db) = Some r"
    and "\<not> stale u r" and "u_local_message_id u = 0" and "\<not> u_revoked u"
    and "db1 = fst (set_message_revoke_by_server_message_id t1 (u_server_message_id u) True who db)"
    and "db2 = fst (upsert_one t2 cu u db1)"
  shows "find (by_server_id (u_server_message_id u)) (messages db1) = Some (revoke_row t1 r) \<and>
    (\<exists>q. find (by_server_id (u_server_message_id u)) (messages db2) = Some q \<and>
       sm_revoked (stored_message_from_row db2 q) \<and>
       sm_content (stored_message_from_row db2 q) = u_content u)"
proof -
  let ?sid = "u_server_message_id u"
  have r: "r \<in> set (messages db)" "by_server_id ?sid r" using find_Some_mem [OF assms(3)] by auto
  have f1: "find (by_server_id ?sid) (update_where (by_server_id ?sid) (revoke_row t1) (messages db)) =
      Some (revoke_row t1 r)"
    using find_update_where_on [of "messages db" "by_server_id ?sid" "by_server_id ?sid" "revoke_row t1"] r assms(3)
    by (simp add: by_server_id_def revoke_row_def)
  have ex: "list_ex (by_server_id ?sid) (messages db)" using r by (auto simp: list_ex_iff)
  have m1: "messages db1 = update_where (by_server_id ?sid) (revoke_row t1) (messages db)"
    using f1 ex by (simp add: assms(7) set_message_revoke_by_server_message_id_def Let_def)
  have x1: "\<exists>x. extra_of db1 (m_id r) = Some x \<and> x_revoke x = 1"
    using f1 ex by (auto simp: assms(7) set_message_revoke_by_server_message_id_def Let_def
        extra_of_def find_upsert_on new_extra_def revoke_row_def split: option.split)
  have ns: "\<not> stale u (revoke_row t1 r)" using assms(4) by (simp add: stale_def revoke_row_def)
  have "db2 = update_row t2 u (m_id r) db1"
    unfolding assms(8)
    by (rule upsert_again [of u db1 "revoke_row t1 r", simplified revoke_row_def, simplified])
      (use f1 m1 ns assms(2,5) in \<open>auto simp: revoke_row_def\<close>)
  then have m2: "messages db2 = update_where (\<lambda>q. m_id q = m_id r) (updated_row t2 u) (messages db1)"
    and x2: "extra_of db2 (m_id r) = extra_of db1 (m_id r)"
    using assms(6) by (simp_all add: update_row_def apply_remote_revoke_flag_def extra_of_def)
  have "find (by_server_id ?sid) (messages db2) = Some (updated_row t2 u (revoke_row t1 r))"
  proof -
    have "find (by_server_id ?sid) (messages db2) =
        map_option (\<lambda>q. if m_id q = m_id r then updated_row t2 u q else q)
          (find (by_server_id ?sid) (messages db1))"
      unfolding m2
    proof (rule find_update_where_on)
      fix q assume q: "q \<in> set (messages db1)" "m_id q = m_id r"
      then obtain p where p: "p \<in> set (messages db)" "m_id p = m_id r" "m_server_message_id q = m_server_message_id p"
        by (auto simp: m1 set_update_where revoke_row_def)
      have "inj_on m_id (set (messages db))" using assms(1) by (simp add: store_inv_def distinct_map)
      then have "p = r" using p r by (blast dest: inj_onD)
      then show "by_server_id ?sid (updated_row t2 u q) = by_server_id ?sid q"
        using p(3) r(2) by (simp add: by_server_id_def)
    qed
    then show ?thesis using f1 m1 by (simp add: revoke_row_def)
  qed
  moreover have "m_id (updated_row t2 u (revoke_row t1 r)) = m_id r" by (simp add: revoke_row_def)
  ultimately show ?thesis
    using f1 m1 x1 x2 by (auto simp: stored_message_from_row_def Let_def)
qed

theorem replay_restores_revoked_content_witness:
  "let db1 = fst (set_message_revoke_by_server_message_id 1 9 True (Some 3) example_db);
       db2 = fst (upsert_one 2 None (example_input 9 5 ''hello'') db1)
   in \<exists>q. find (by_server_id 9) (messages db2) = Some q \<and>
        sm_revoked (stored_message_from_row db2 q) \<and>
        sm_content (stored_message_from_row db2 q) = ''hello''"
proof -
  let ?u = "example_input 9 5 ''hello''"
  let ?r = "remote_row 1 1785148272000 ?u"
  have sid: "u_server_message_id ?u = 9" "u_content ?u = ''hello''"
    by (simp_all add: example_input_def to_upsert_input_def from_push_def)
  have "0 < as_i64 (u_server_message_id ?u)" "find (by_server_id (u_server_message_id ?u)) (messages example_db) = Some ?r"
    "\<not> stale ?u ?r" "u_local_message_id ?u = 0" "\<not> u_revoked ?u"
    by (simp_all add: sid example_db_find stale_def)
       (simp_all add: example_input_def to_upsert_input_def from_push_def)
  from replay_restores_revoked_content [OF example_db_inv this refl refl, of 1 "Some 3" 2 None]
  show ?thesis by (simp add: sid Let_def)
qed

text \<open>The context window around a message is a contiguous slice of the display order: reversed,
  it is the part of the full channel listing that starts the given number of newer rows before
  the anchor and ends the given number of older rows after it.\<close>

theorem around_is_slice_of_listing:
  assumes "store_inv db" and "server_ids_valid (messages db)"
    and "find (by_server_id sid) (filter (in_channel cid ct) (messages db)) = Some a"
    and "length (messages db) \<le> n"
  shows "\<exists>i. rev (list_messages cid ct n 0 db) ! i = stored_message_from_row db a \<and>
    i < length (list_messages cid ct n 0 db) \<and>
    list_messages_around cid ct sid before after db =
      take (min before i + 1 + after) (drop (i - before) (rev (list_messages cid ct n 0 db)))"
proof -
  let ?rows = "filter (in_channel cid ct) (messages db)"
  let ?k = coalesced_key_of
  let ?L = "sort_key display_key_of ?rows"
  let ?i = "length (filter (\<lambda>x. ?k x < ?k a) ?rows)"
  have ids: "distinct (map m_id ?rows)"
    using assms(1) by (simp add: store_inv_def distinct_map_filterI)
  have valid: "server_ids_valid ?rows" using assms(2) by (simp add: server_ids_valid_def)
  have a: "a \<in> set ?rows" "by_server_id sid a" using find_Some_mem [OF assms(3)] by auto
  have keys: "distinct (map ?k ?rows)"
    using ids by (auto simp: distinct_map inj_on_def coalesced_key_of_def)
  have sl: "sort_key ?k (filter (\<lambda>x. ?k x < ?k a) ?rows) = take ?i ?L \<and> ?L ! ?i = a \<and>
    ?i < length ?L \<and> sort_key ?k (filter (\<lambda>x. ?k a < ?k x) ?rows) = drop (Suc ?i) ?L"
    using sort_key_slice [OF keys a(1)] coalesced_sort_same [OF valid ids] by simp
  have asid: "0 < as_i64 sid" using a valid by (auto simp: server_ids_valid_def by_server_id_def split: option.splits)
  have only: "filter (\<lambda>r. m_server_message_id r = key_sid (?k a)) ?rows = [a]"
  proof -
    have sid: "m_server_message_id a = Some (as_i64 sid)" using a(2) by (simp add: by_server_id_def)
    then have key: "key_sid (?k a) = Some (as_i64 sid)" by (simp add: coalesced_key_of_def)
    have same: "x = a" if "x \<in> set ?rows" "m_server_message_id x = Some (as_i64 sid)" for x
    proof -
      have un: "unique_server_ids (messages db)" using assms(1) by (simp add: store_inv_def)
      have "x \<in> set (messages db)" "a \<in> set (messages db)" using that(1) a(1) by simp_all
      from unique_server_idsD [OF un this that(2) sid asid] have "m_id x = m_id a" .
      with ids that(1) a(1) show ?thesis by (simp only: distinct_map inj_on_def)
    qed
    have "distinct ?rows" using ids by (simp only: distinct_map)
    then have "filter (\<lambda>r. m_server_message_id r = Some (as_i64 sid)) ?rows = [a]"
      by (rule filter_single [OF _ a(1)]) (use same sid in blast)
    then show ?thesis by (simp only: key)
  qed
  have all: "list_messages cid ct n 0 db = map (stored_message_from_row db) (rev ?L)"
  proof -
    have "length ?rows \<le> n" using assms(4) by (meson le_trans length_filter_le)
    then show ?thesis by (simp add: list_messages_def)
  qed
  have around: "list_messages_around cid ct sid before after db =
    map (stored_message_from_row db)
      (rev (take before (rev (take ?i ?L))) @ [a] @ take after (drop (Suc ?i) ?L))"
    using sl only by (simp add: list_messages_around_def Let_def assms(3))
  have slice: "rev (take before (rev (take ?i ?L))) @ [a] @ take after (drop (Suc ?i) ?L) =
      take (min before ?i + 1 + after) (drop (?i - before) ?L)"
    by (rule window_slice) (use sl in simp_all)
  have rl: "rev (list_messages cid ct n 0 db) = map (stored_message_from_row db) ?L"
    by (simp only: all rev_map [symmetric] rev_rev_ident)
  have "rev (list_messages cid ct n 0 db) ! ?i = stored_message_from_row db a"
    using sl by (simp only: rl nth_map)
  moreover have "?i < length (list_messages cid ct n 0 db)"
    using sl by (simp only: all length_map length_rev)
  moreover have "list_messages_around cid ct sid before after db =
      take (min before ?i + 1 + after) (drop (?i - before) (rev (list_messages cid ct n 0 db)))"
    by (simp only: around slice rl take_map drop_map)
  ultimately show ?thesis by blast
qed

theorem around_is_slice_of_listing_witness:
  "\<exists>i. list_messages_around 7 1 9 2 2 example_db =
     take (min 2 i + 1 + 2) (drop (i - 2) (rev (list_messages 7 1 5 0 example_db)))"
proof -
  let ?r = "remote_row 1 1785148272000 (example_input 9 5 ''hello'')"
  have m: "messages example_db = [?r]"
    by (simp add: example_db_def upsert_one_def empty_db_def insert_message_def example_input_def
        to_upsert_input_def from_push_def apply_remote_revoke_flag_def)
  have "server_ids_valid (messages example_db)" "length (messages example_db) \<le> 5"
    "find (by_server_id 9) (filter (in_channel 7 1) (messages example_db)) = Some ?r"
    by (simp_all add: m server_ids_valid_def in_channel_def by_server_id_def remote_row_def
        example_input_def to_upsert_input_def from_push_def)
  from around_is_slice_of_listing [OF example_db_inv this(1,3,2), of 2 2] show ?thesis by blast
qed

end
