(* ===== verification/Outbox_Store.thy ===== *)
theory Outbox_Store
  imports Message_Store
begin

text \<open>
  The outgoing command table and the message updates around it (\<open>local_store.rs\<close>): enqueue,
  peek, acknowledge, retry, reject, reconcile, the local edits, and the one-time move of the old
  queue files.

  \<open>commit\<close> is the outcome of the commit of an explicit transaction: \<open>None\<close> when it commits,
  \<open>Some e\<close> when the engine refuses with the text \<open>e\<close>, and then nothing of the transaction stays.
\<close>

subsection \<open>Transactions\<close>

type_synonym commit = "string option"

definition in_tx ::
  "string \<Rightarrow> commit \<Rightarrow> message_db \<Rightarrow> message_db \<times> 'a result \<Rightarrow> message_db \<times> 'a result" where
  "in_tx ctx commit db body =
     (case body of
        (_, Inl e) \<Rightarrow> (db, Inl e)
      | (db', Inr x) \<Rightarrow>
          (case commit of
             None \<Rightarrow> (db', Inr x)
           | Some e \<Rightarrow> (db, Inl (Storage (ctx @ '' commit: '' @ e)))))"

definition sql_error :: "string \<Rightarrow> string \<Rightarrow> sdk_error" where
  "sql_error ctx text = Storage (ctx @ '': '' @ text)"

definition not_found :: "string \<Rightarrow> u64 \<Rightarrow> sdk_error" where
  "not_found ctx mid = Storage (ctx @ '' failed: message.id='' @ show_u64 mid @ '' not found'')"

definition NO_ROWS_TEXT :: string where "NO_ROWS_TEXT = ''Query returned no rows''"

definition UNIQUE_COMMAND_TEXT :: string where
  "UNIQUE_COMMAND_TEXT = ''UNIQUE constraint failed: outbox.command_id''"

definition UNIQUE_OUTBOX_MESSAGE_TEXT :: string where
  "UNIQUE_OUTBOX_MESSAGE_TEXT = ''UNIQUE constraint failed: outbox.message_id''"

subsection \<open>The outbox table\<close>

definition for_message :: "u64 \<Rightarrow> outbox_row \<Rightarrow> bool" where
  "for_message mid c \<longleftrightarrow> o_message_id c = Some (as_i64 mid)"

definition command_id_of :: "int \<Rightarrow> string" where
  "command_id_of snowflake = ''msg:'' @ show_int snowflake"

definition command_row ::
  "int \<Rightarrow> int \<Rightarrow> string \<Rightarrow> string \<Rightarrow> u64 \<Rightarrow> u64 \<Rightarrow> string \<Rightarrow> string option \<Rightarrow> outbox_row" where
  "command_row rowid now cmd_id cmd_type mid cid payload route =
     \<lparr>o_id = rowid, o_command_id = cmd_id, o_command_type = cmd_type,
      o_message_id = Some (as_i64 mid), o_channel_id = as_i64 cid, o_payload = payload,
      o_route_key = route, o_status = ''pending'', o_retry_count = 0, o_next_attempt_at = 0,
      o_last_error = None, o_created_at = now, o_updated_at = now\<rparr>"

definition insert_command :: "outbox_row \<Rightarrow> message_db \<Rightarrow> message_db" where
  "insert_command row db = db\<lparr>outbox := outbox db @ [row], next_outbox_id := next_outbox_id db + 1\<rparr>"

text \<open>\<open>INSERT INTO outbox\<close> and its form with \<open>ON CONFLICT(command_id) DO UPDATE\<close>; \<open>message_id\<close>
  carries a unique index of its own.\<close>

definition insert_outbox :: "string \<Rightarrow> outbox_row \<Rightarrow> message_db \<Rightarrow> message_db \<times> unit result" where
  "insert_outbox ctx row db =
     (if \<exists>c \<in> set (outbox db). o_command_id c = o_command_id row
      then (db, Inl (sql_error ctx UNIQUE_COMMAND_TEXT))
      else if \<exists>c \<in> set (outbox db). o_message_id c = o_message_id row
      then (db, Inl (sql_error ctx UNIQUE_OUTBOX_MESSAGE_TEXT))
      else (insert_command row db, Inr ()))"

definition requeue_row :: "outbox_row \<Rightarrow> outbox_row \<Rightarrow> outbox_row" where
  "requeue_row new c =
     c\<lparr>o_payload := o_payload new, o_route_key := o_route_key new, o_status := ''pending'',
       o_next_attempt_at := 0, o_updated_at := o_updated_at new\<rparr>"

definition upsert_outbox :: "string \<Rightarrow> outbox_row \<Rightarrow> message_db \<Rightarrow> message_db \<times> unit result" where
  "upsert_outbox ctx row db =
     (if \<exists>c \<in> set (outbox db). o_command_id c = o_command_id row
      then (db\<lparr>outbox := update_where (\<lambda>c. o_command_id c = o_command_id row) (requeue_row row) (outbox db)\<rparr>,
            Inr ())
      else if \<exists>c \<in> set (outbox db). o_message_id c = o_message_id row
      then (db, Inl (sql_error ctx UNIQUE_OUTBOX_MESSAGE_TEXT))
      else (insert_command row db, Inr ()))"

definition delete_commands :: "u64 \<Rightarrow> message_db \<Rightarrow> message_db" where
  "delete_commands mid db = db\<lparr>outbox := delete_where (for_message mid) (outbox db)\<rparr>"

definition update_message :: "u64 \<Rightarrow> (message_row \<Rightarrow> message_row) \<Rightarrow> message_db \<Rightarrow> message_db" where
  "update_message mid f db = db\<lparr>messages := update_where (by_id mid) f (messages db)\<rparr>"

definition has_message :: "u64 \<Rightarrow> message_db \<Rightarrow> bool" where
  "has_message mid db \<longleftrightarrow> list_ex (by_id mid) (messages db)"

subsection \<open>Enqueueing\<close>

definition create_local_message_queued ::
  "commit \<Rightarrow> int \<Rightarrow> new_message \<Rightarrow> u64 \<Rightarrow> string \<Rightarrow> string \<Rightarrow> string option \<Rightarrow> message_db \<Rightarrow>
   message_db \<times> u64 result" where
  "create_local_message_queued commit now input lid cmd_type payload route db =
     (if lid = 0 then (db, Inl (MissingLocalMessageId 0))
      else in_tx ''create+enqueue'' commit db
        (let rowid = next_message_id db;
             db1 = insert_message (local_row rowid 1 input lid now) db;
             mid = as_u64 rowid
         in case insert_outbox ''create+enqueue insert command''
                   (command_row (next_outbox_id db) now (''msg:'' @ show_u64 lid) cmd_type mid
                      (n_channel_id input) payload route) db1 of
              (db2, Inl e) \<Rightarrow> (db2, Inl e)
            | (db2, Inr _) \<Rightarrow> (db2, Inr mid)))"

definition snowflake_of :: "u64 \<Rightarrow> message_db \<Rightarrow> int" where
  "snowflake_of mid db =
     (case find (by_id mid) (messages db) of None \<Rightarrow> 0 | Some r \<Rightarrow> m_local_message_id r)"

definition outbox_enqueue ::
  "commit \<Rightarrow> int \<Rightarrow> u64 \<Rightarrow> string \<Rightarrow> u64 \<Rightarrow> string \<Rightarrow> string option \<Rightarrow> message_db \<Rightarrow>
   message_db \<times> unit result" where
  "outbox_enqueue commit now mid cmd_type cid payload route db =
     in_tx ''outbox enqueue'' commit db
       (let snowflake = snowflake_of mid db in
        if snowflake \<le> 0 then (db, Inl (MissingLocalMessageId mid))
        else upsert_outbox ''outbox enqueue insert''
               (command_row (next_outbox_id db) now (command_id_of snowflake) cmd_type mid cid payload route)
               (update_message mid (\<lambda>r. r\<lparr>m_status := 1, m_updated_at := now\<rparr>) db))"

definition finalized_row :: "int \<Rightarrow> string \<Rightarrow> int \<Rightarrow> message_row \<Rightarrow> message_row" where
  "finalized_row now content thumb r =
     r\<lparr>m_content := content, m_thumb_status := thumb, m_media_downloaded := 1, m_updated_at := now\<rparr>"

definition finalize_local_attachment ::
  "int \<Rightarrow> u64 \<Rightarrow> string \<Rightarrow> int \<Rightarrow> message_db \<Rightarrow> message_db \<times> (u64 \<times> int) result" where
  "finalize_local_attachment now mid content thumb db =
     (let db1 = update_message mid (finalized_row now content thumb) db
      in case find (by_id mid) (messages db1) of
           None \<Rightarrow> (db1, Inl (sql_error ''lookup finalized message channel'' NO_ROWS_TEXT))
         | Some r \<Rightarrow> (db1, Inr (as_u64 (m_channel_id r), m_channel_type r)))"

definition finalize_attachment_and_enqueue ::
  "commit \<Rightarrow> int \<Rightarrow> u64 \<Rightarrow> string \<Rightarrow> int \<Rightarrow> string \<Rightarrow> string \<Rightarrow> message_db \<Rightarrow>
   message_db \<times> (u64 \<times> int) result" where
  "finalize_attachment_and_enqueue commit now mid content thumb route payload db =
     in_tx ''finalize+enqueue'' commit db
       (case find (by_id mid) (messages db) of
          None \<Rightarrow> (db, Inl (sql_error ''finalize+enqueue lookup message'' NO_ROWS_TEXT))
        | Some r \<Rightarrow>
            if m_local_message_id r \<le> 0 then (db, Inl (MissingLocalMessageId mid))
            else
              (let cid = as_u64 (m_channel_id r);
                   db1 = update_message mid (\<lambda>q. (finalized_row now content thumb q)\<lparr>m_status := 1\<rparr>) db
               in case upsert_outbox ''finalize+enqueue insert command''
                         (command_row (next_outbox_id db) now (command_id_of (m_local_message_id r))
                            ''attachment'' mid cid payload (Some route)) db1 of
                    (db2, Inl e) \<Rightarrow> (db2, Inl e)
                  | (db2, Inr _) \<Rightarrow> (db2, Inr (cid, m_channel_type r))))"

subsection \<open>Taking commands out\<close>

definition due :: "string \<Rightarrow> int \<Rightarrow> outbox_row \<Rightarrow> bool" where
  "due cmd_type now c \<longleftrightarrow> o_command_type c = cmd_type \<and> o_status c = ''pending'' \<and>
     o_next_attempt_at c \<le> now \<and> o_message_id c \<noteq> None"

record peeked =
  pk_message_id :: u64
  pk_command_type :: string
  pk_channel_id :: u64
  pk_payload :: string
  pk_route_key :: "string option"
  pk_retry_count :: int

definition peeked_of :: "outbox_row \<Rightarrow> peeked" where
  "peeked_of c =
     \<lparr>pk_message_id = as_u64 (the (o_message_id c)), pk_command_type = o_command_type c,
      pk_channel_id = as_u64 (o_channel_id c), pk_payload = o_payload c,
      pk_route_key = o_route_key c, pk_retry_count = o_retry_count c\<rparr>"

definition outbox_peek :: "string \<Rightarrow> nat \<Rightarrow> int \<Rightarrow> message_db \<Rightarrow> peeked list" where
  "outbox_peek cmd_type limit now db =
     map peeked_of (take limit (sort_key (\<lambda>c. (o_created_at c, o_id c)) (filter (due cmd_type now) (outbox db))))"

text \<open>Setting the server id is refused by the unique index when another row holds it.\<close>

definition sent_row :: "int \<Rightarrow> u64 \<Rightarrow> message_row \<Rightarrow> message_row" where
  "sent_row now sid r = r\<lparr>m_server_message_id := Some (as_i64 sid), m_status := 2, m_updated_at := now\<rparr>"

definition acked_row :: "int \<Rightarrow> u64 \<Rightarrow> u32 \<Rightarrow> message_row \<Rightarrow> message_row" where
  "acked_row now sid sq r = (sent_row now sid r)\<lparr>m_pts := uint sq, m_order_seq := uint sq\<rparr>"

definition delete_other_copies :: "u64 \<Rightarrow> u64 \<Rightarrow> message_db \<Rightarrow> message_db" where
  "delete_other_copies sid mid db =
     db\<lparr>messages := delete_where (\<lambda>r. by_server_id sid r \<and> \<not> by_id mid r) (messages db)\<rparr>"

definition mark_message_sent ::
  "commit \<Rightarrow> int \<Rightarrow> u64 \<Rightarrow> u64 \<Rightarrow> u32 \<Rightarrow> message_db \<Rightarrow> message_db \<times> unit result" where
  "mark_message_sent commit now mid sid sq db =
     in_tx ''mark message sent'' commit db
       (if \<not> has_message mid db then (db, Inl (not_found ''mark message sent'' mid))
        else (update_message mid (acked_row now sid sq) (delete_other_copies sid mid db), Inr ()))"

definition outbox_ack_sent ::
  "commit \<Rightarrow> int \<Rightarrow> u64 \<Rightarrow> u64 \<Rightarrow> u32 \<Rightarrow> message_db \<Rightarrow> message_db \<times> unit result" where
  "outbox_ack_sent commit now mid sid sq db =
     in_tx ''outbox ack'' commit db
       (let db1 = delete_other_copies sid mid db in
        if \<not> has_message mid db1 then (db1, Inl (not_found ''outbox ack'' mid))
        else (delete_commands mid (update_message mid (acked_row now sid sq) db1), Inr ()))"

definition bumped_row :: "int \<Rightarrow> int \<Rightarrow> string \<Rightarrow> outbox_row \<Rightarrow> outbox_row" where
  "bumped_row now next_at err c =
     c\<lparr>o_retry_count := o_retry_count c + 1, o_next_attempt_at := next_at,
       o_last_error := Some err, o_updated_at := now\<rparr>"

definition outbox_bump_retry :: "int \<Rightarrow> u64 \<Rightarrow> int \<Rightarrow> string \<Rightarrow> message_db \<Rightarrow> message_db" where
  "outbox_bump_retry now mid next_at err db =
     db\<lparr>outbox := update_where (for_message mid) (bumped_row now next_at err) (outbox db)\<rparr>"

definition outbox_reject :: "commit \<Rightarrow> int \<Rightarrow> u64 \<Rightarrow> int \<Rightarrow> message_db \<Rightarrow> message_db \<times> unit result" where
  "outbox_reject commit now mid status db =
     in_tx ''outbox reject'' commit db
       (delete_commands mid (update_message mid (\<lambda>r. r\<lparr>m_status := status, m_updated_at := now\<rparr>) db), Inr ())"

definition outbox_reconcile_sent ::
  "commit \<Rightarrow> int \<Rightarrow> u64 \<Rightarrow> u64 \<Rightarrow> message_db \<Rightarrow> message_db \<times> unit result" where
  "outbox_reconcile_sent commit now mid sid db =
     in_tx ''outbox reconcile'' commit db
       (if has_message mid db \<and> as_i64 sid > 0 \<and>
           (\<exists>r \<in> set (messages db). by_server_id sid r \<and> \<not> by_id mid r)
        then (db, Inl (sql_error ''outbox reconcile mark sent'' UNIQUE_TEXT))
        else (delete_commands mid (update_message mid (sent_row now sid) db), Inr ()))"

definition outbox_drop :: "u64 \<Rightarrow> message_db \<Rightarrow> message_db" where
  "outbox_drop mid db = delete_commands mid db"

subsection \<open>Local edits of a message\<close>

definition update_thumb_status :: "int \<Rightarrow> u64 \<Rightarrow> int \<Rightarrow> message_db \<Rightarrow> message_db \<times> bool" where
  "update_thumb_status now mid thumb db =
     (update_message mid (\<lambda>r. r\<lparr>m_thumb_status := thumb, m_updated_at := now\<rparr>) db,
      length (filter (by_id mid) (messages db)) = 1)"

definition update_media_downloaded :: "int \<Rightarrow> u64 \<Rightarrow> bool \<Rightarrow> message_db \<Rightarrow> message_db" where
  "update_media_downloaded now mid downloaded db =
     update_message mid
       (\<lambda>r. r\<lparr>m_media_downloaded := (if downloaded then 1 else 0), m_updated_at := now\<rparr>) db"

definition update_existing ::
  "string \<Rightarrow> u64 \<Rightarrow> (message_row \<Rightarrow> message_row) \<Rightarrow> message_db \<Rightarrow> message_db \<times> unit result" where
  "update_existing ctx mid f db =
     (if has_message mid db then (update_message mid f db, Inr ()) else (db, Inl (not_found ctx mid)))"

definition update_message_content_local ::
  "int \<Rightarrow> u64 \<Rightarrow> string \<Rightarrow> message_db \<Rightarrow> message_db \<times> unit result" where
  "update_message_content_local now mid content =
     update_existing ''update message content'' mid (\<lambda>r. r\<lparr>m_content := content, m_updated_at := now\<rparr>)"

definition update_local_message_id ::
  "int \<Rightarrow> u64 \<Rightarrow> u64 \<Rightarrow> message_db \<Rightarrow> message_db \<times> unit result" where
  "update_local_message_id now mid lid =
     update_existing ''update local_message_id'' mid
       (\<lambda>r. r\<lparr>m_local_message_id := as_i64 lid, m_updated_at := now\<rparr>)"

definition get_local_message_id :: "u64 \<Rightarrow> message_db \<Rightarrow> u64 option" where
  "get_local_message_id mid db =
     map_option (\<lambda>r. as_u64 (m_local_message_id r)) (find (by_id mid) (messages db))"

definition update_message_status ::
  "int \<Rightarrow> u64 \<Rightarrow> int \<Rightarrow> message_db \<Rightarrow> message_db \<times> unit result" where
  "update_message_status now mid status =
     update_existing ''update message status'' mid (\<lambda>r. r\<lparr>m_status := status, m_updated_at := now\<rparr>)"

definition delete_message_local ::
  "commit \<Rightarrow> u64 \<Rightarrow> message_db \<Rightarrow> message_db \<times> stored_message option result" where
  "delete_message_local commit mid db =
     (case get_message_by_id mid db of
        None \<Rightarrow> (db, Inr None)
      | Some stored \<Rightarrow>
          in_tx ''delete_message_local'' commit db
            (db\<lparr>messages := delete_where (by_id mid) (messages db),
                extras := delete_where (\<lambda>x. x_message_id x = as_i64 mid) (extras db),
                side := forget_message (as_i64 mid) (side db)\<rparr>,
             Inr (Some stored)))"

definition edit_message ::
  "int \<Rightarrow> u64 \<Rightarrow> string \<Rightarrow> int \<Rightarrow> message_db \<Rightarrow> message_db \<times> unit result" where
  "edit_message now mid content edited_at db =
     (case find (by_id mid) (messages db) of
        None \<Rightarrow> (db, Inl (not_found ''edit message'' mid))
      | Some r \<Rightarrow>
          (let db1 = update_message mid (\<lambda>q. q\<lparr>m_content := content, m_updated_at := now\<rparr>) db
           in (db1\<lparr>extras := upsert_on x_message_id
                  (\<lambda>x. x\<lparr>x_content_edit := Some content, x_edited_at := edited_at, x_extra_version := now\<rparr>)
                  ((new_extra (as_i64 mid) (m_channel_id r) (m_channel_type r))
                     \<lparr>x_content_edit := Some content, x_edited_at := edited_at, x_extra_version := now\<rparr>)
                  (extras db1)\<rparr>, Inr ())))"

definition set_message_pinned ::
  "int \<Rightarrow> u64 \<Rightarrow> bool \<Rightarrow> message_db \<Rightarrow> message_db \<times> unit result" where
  "set_message_pinned now mid is_pinned db =
     (case find (by_id mid) (messages db) of
        None \<Rightarrow> (db, Inl (sql_error ''query message for pin'' NO_ROWS_TEXT))
      | Some r \<Rightarrow>
          (let flag = (if is_pinned then 1 else 0)
           in (db\<lparr>extras := upsert_on x_message_id
                  (\<lambda>x. x\<lparr>x_is_pinned := flag, x_extra_version := now\<rparr>)
                  ((new_extra (as_i64 mid) (m_channel_id r) (m_channel_type r))
                     \<lparr>x_is_pinned := flag, x_extra_version := now\<rparr>)
                  (extras db)\<rparr>, Inr ())))"

text \<open>The delivered mark is written once: the update carries \<open>WHERE delivered = 0\<close>.\<close>

definition mark_message_delivered ::
  "int \<Rightarrow> u64 \<Rightarrow> u64 \<Rightarrow> message_db \<Rightarrow> message_db \<times> u64 option" where
  "mark_message_delivered now sid at_ms db =
     (case find (by_server_id sid) (messages db) of
        None \<Rightarrow> (db, None)
      | Some r \<Rightarrow>
          if (case extra_of db (m_id r) of Some x \<Rightarrow> x_delivered x \<noteq> 0 | None \<Rightarrow> False) then (db, None)
          else (db\<lparr>extras := upsert_on x_message_id
                  (\<lambda>x. x\<lparr>x_delivered := 1, x_delivered_at := as_i64 at_ms, x_extra_version := now\<rparr>)
                  ((new_extra (m_id r) (m_channel_id r) (m_channel_type r))
                     \<lparr>x_delivered := 1, x_delivered_at := as_i64 at_ms, x_extra_version := now\<rparr>)
                  (extras db)\<rparr>, Some (as_u64 (m_id r))))"

subsection \<open>Moving the old queue files\<close>

text \<open>An old queue is a list of entries: key and payload. \<open>faults\<close> tells, per key, how the
  commit of its enqueue and the status write go and whether its removal fails; a queue that
  cannot be read or flushed is not modelled.\<close>

record queue_migration =
  moved :: nat
  remaining :: nat
  quarantined :: nat

record migration_faults =
  enqueue_commit :: "string \<Rightarrow> commit"
  status_write :: "string \<Rightarrow> commit"
  removal_fails :: "string \<Rightarrow> bool"

definition from_be_bytes :: "string \<Rightarrow> u64" where
  "from_be_bytes key = word_of_nat (foldl (\<lambda>acc c. acc * 256 + of_char c) 0 key)"

text \<open>One entry: the new database, the counters, and whether the entry is done with.\<close>

definition migrate_entry ::
  "migration_faults \<Rightarrow> int \<Rightarrow> string \<Rightarrow> string \<times> string \<Rightarrow> message_db \<times> queue_migration \<Rightarrow>
   (message_db \<times> queue_migration) \<times> bool" where
  "migrate_entry f now cmd_type e st =
     (case (e, st) of ((key, v), (db, m)) \<Rightarrow>
        if length key \<noteq> 8 then ((db, m\<lparr>quarantined := quarantined m + 1\<rparr>), True)
        else
          let mid = from_be_bytes key in
          case get_message_by_id mid db of
            None \<Rightarrow> ((db, m), True)
          | Some _ \<Rightarrow>
              (case outbox_enqueue (enqueue_commit f key) now mid cmd_type 0 v None db of
                 (db1, Inr _) \<Rightarrow> ((db1, m\<lparr>moved := moved m + 1\<rparr>), True)
               | (db1, Inl (MissingLocalMessageId _)) \<Rightarrow>
                   (case status_write f key of
                      Some _ \<Rightarrow> ((db1, m\<lparr>remaining := remaining m + 1\<rparr>), False)
                    | None \<Rightarrow>
                        (case update_message_status now mid 3 db1 of
                           (db2, Inr _) \<Rightarrow> ((db2, m\<lparr>quarantined := quarantined m + 1\<rparr>), True)
                         | (db2, Inl _) \<Rightarrow> ((db2, m\<lparr>remaining := remaining m + 1\<rparr>), False)))
               | (db1, Inl _) \<Rightarrow> ((db1, m\<lparr>remaining := remaining m + 1\<rparr>), False)))"

fun migrate_entries ::
  "migration_faults \<Rightarrow> int \<Rightarrow> string \<Rightarrow> (string \<times> string) list \<Rightarrow> message_db \<times> queue_migration \<Rightarrow>
   (message_db \<times> queue_migration) \<times> string list" where
  "migrate_entries f now cmd_type [] st = (st, [])"
| "migrate_entries f now cmd_type (e # es) st =
     (let (st1, is_done) = migrate_entry f now cmd_type e st;
          (st2, ks) = migrate_entries f now cmd_type es st1
      in (st2, if is_done then fst e # ks else ks))"

text \<open>One queue file: its remaining entries come back with the state.\<close>

definition migrate_queue ::
  "migration_faults \<Rightarrow> int \<Rightarrow> string \<Rightarrow> (string \<times> string) list \<Rightarrow> message_db \<times> queue_migration \<Rightarrow>
   (message_db \<times> queue_migration) \<times> (string \<times> string) list" where
  "migrate_queue f now cmd_type q st =
     (case migrate_entries f now cmd_type q st of
        ((db, m), ks) \<Rightarrow>
          ((db, m\<lparr>remaining := remaining m + length (filter (removal_fails f) ks)\<rparr>),
           filter (\<lambda>e. fst e \<notin> set ks \<or> removal_fails f (fst e)) q))"

fun migrate_files ::
  "migration_faults \<Rightarrow> int \<Rightarrow> (string \<times> string) list list \<Rightarrow> message_db \<times> queue_migration \<Rightarrow>
   (message_db \<times> queue_migration) \<times> (string \<times> string) list list" where
  "migrate_files f now [] st = (st, [])"
| "migrate_files f now (q # qs) st =
     (let (st1, q') = migrate_queue f now ''attachment'' q st; (st2, qs') = migrate_files f now qs st1
      in (st2, q' # qs'))"

definition migrate_sled_queues_into_outbox ::
  "migration_faults \<Rightarrow> int \<Rightarrow> (string \<times> string) list \<Rightarrow> (string \<times> string) list list \<Rightarrow> message_db \<Rightarrow>
   message_db \<times> queue_migration \<times> (string \<times> string) list \<times> (string \<times> string) list list" where
  "migrate_sled_queues_into_outbox f now normal files db =
     (let (st1, normal') = migrate_queue f now ''message'' normal
                             (db, \<lparr>moved = 0, remaining = 0, quarantined = 0\<rparr>);
          ((db2, m), files') = migrate_files f now files st1
      in (db2, m, normal', files'))"

subsection \<open>Invariants\<close>

definition outbox_inv :: "message_db \<Rightarrow> bool" where
  "outbox_inv db \<longleftrightarrow> distinct (map o_command_id (outbox db)) \<and>
     distinct (map o_message_id (filter (\<lambda>c. o_message_id c \<noteq> None) (outbox db)))"

definition has_command :: "int \<Rightarrow> message_db \<Rightarrow> bool" where
  "has_command i db \<longleftrightarrow> (\<exists>c \<in> set (outbox db). o_message_id c = Some i)"

text \<open>No ghost: a message shown as being sent has a command that will send it.\<close>

definition no_ghost :: "message_db \<Rightarrow> bool" where
  "no_ghost db \<longleftrightarrow> (\<forall>r \<in> set (messages db). m_status r = 1 \<longrightarrow> has_command (m_id r) db)"

definition tables_inv :: "message_db \<Rightarrow> bool" where
  "tables_inv db \<longleftrightarrow> store_inv db \<and> outbox_inv db"

lemma store_inv_outbox [simp]:
  "store_inv (db\<lparr>outbox := os\<rparr>) = store_inv db" "store_inv (db\<lparr>next_outbox_id := n\<rparr>) = store_inv db"
  "store_inv (db\<lparr>side := a\<rparr>) = store_inv db"
  by (simp_all add: store_inv_def)

lemma outbox_inv_cong: "outbox db' = outbox db \<Longrightarrow> outbox_inv db' = outbox_inv db"
  by (simp add: outbox_inv_def)

lemma outbox_frame [simp]:
  "outbox (update_message mid f db) = outbox db" "outbox (delete_other_copies sid mid db) = outbox db"
  "outbox (insert_message row db) = outbox db" "extras (update_message mid f db) = extras db"
  "messages (delete_commands mid db) = messages db" "messages (insert_command c db) = messages db"
  by (simp_all add: update_message_def delete_other_copies_def insert_message_def delete_commands_def
      insert_command_def)

lemma messages_update_message:
  "messages (update_message mid f db) = update_where (by_id mid) f (messages db)"
  by (simp add: update_message_def)

lemma distinct_filter_mapI:
  "distinct (map f (filter P xs)) \<Longrightarrow> distinct (map f (filter (\<lambda>x. Q x \<and> P x) xs))"
  by (induction xs) (auto split: if_splits)

lemma outbox_inv_delete: "outbox_inv db \<Longrightarrow> outbox_inv (db\<lparr>outbox := delete_where P (outbox db)\<rparr>)"
  by (auto simp: outbox_inv_def delete_where_def distinct_map_filterI intro: distinct_filter_mapI)

lemma outbox_inv_update:
  assumes "outbox_inv db" and "\<And>c. o_command_id (f c) = o_command_id c" and "\<And>c. o_message_id (f c) = o_message_id c"
  shows "outbox_inv (db\<lparr>outbox := update_where P f (outbox db)\<rparr>)"
proof -
  have "map o_message_id (filter (\<lambda>c. o_message_id c \<noteq> None) (update_where P f cs)) =
      map o_message_id (filter (\<lambda>c. o_message_id c \<noteq> None) cs)" for cs
    by (induction cs) (auto simp: update_where_def assms(3))
  then show ?thesis using assms(1) by (simp add: outbox_inv_def map_update_where assms(2))
qed

lemma outbox_inv_insert:
  assumes "outbox_inv db" and "\<not> (\<exists>c \<in> set (outbox db). o_command_id c = o_command_id row)"
    and "\<not> (\<exists>c \<in> set (outbox db). o_message_id c = o_message_id row)"
  shows "outbox_inv (insert_command row db)"
  using assms by (auto simp: outbox_inv_def insert_command_def)

lemma requeue_row_simps [simp]:
  "o_command_id (requeue_row n c) = o_command_id c" "o_message_id (requeue_row n c) = o_message_id c"
  by (simp_all add: requeue_row_def)

lemma upsert_outbox_tables:
  "tables_inv db \<Longrightarrow> upsert_outbox ctx row db = (db', r) \<Longrightarrow> tables_inv db'"
  by (auto simp: upsert_outbox_def tables_inv_def outbox_inv_insert outbox_inv_update insert_command_def [THEN arg_cong [where f = store_inv]]
      split: if_splits)

lemma insert_outbox_tables:
  "tables_inv db \<Longrightarrow> insert_outbox ctx row db = (db', r) \<Longrightarrow> tables_inv db'"
  by (auto simp: insert_outbox_def tables_inv_def outbox_inv_insert insert_command_def [THEN arg_cong [where f = store_inv]]
      split: if_splits)

lemma has_command_image: "has_command i db \<longleftrightarrow> Some i \<in> o_message_id ` set (outbox db)"
  by (force simp: has_command_def image_iff)

lemma image_update_where: "(\<And>r. k (f r) = k r) \<Longrightarrow> k ` set (update_where P f rs) = k ` set rs"
  by (metis list.set_map map_update_where)

lemma upsert_outbox_command:
  assumes "upsert_outbox ctx row db = (db', Inr ())" and "o_message_id row = Some i"
    and "\<And>c. c \<in> set (outbox db) \<Longrightarrow> o_command_id c = o_command_id row \<Longrightarrow> o_message_id c = Some i"
  shows "messages db' = messages db" and "has_command j db' \<longleftrightarrow> j = i \<or> has_command j db"
proof -
  have hit: "has_command i db" if "\<exists>c \<in> set (outbox db). o_command_id c = o_command_id row"
    using that assms(3) by (auto simp: has_command_def)
  show "messages db' = messages db"
    using assms(1) by (auto simp: upsert_outbox_def insert_command_def split: if_splits)
  show "has_command j db' \<longleftrightarrow> j = i \<or> has_command j db"
  proof (cases "\<exists>c \<in> set (outbox db). o_command_id c = o_command_id row")
    case True
    then have db': "db' = db\<lparr>outbox := update_where (\<lambda>c. o_command_id c = o_command_id row) (requeue_row row) (outbox db)\<rparr>"
      using assms(1) by (simp add: upsert_outbox_def)
    have "has_command j db' = has_command j db"
      by (simp add: db' has_command_image image_update_where [where k = o_message_id])
    with hit True show ?thesis by auto
  next
    case False
    then show ?thesis
      using assms(1,2) by (auto simp: upsert_outbox_def insert_command_def has_command_def split: if_splits)
  qed
qed

lemma command_row_simps [simp]:
  "o_message_id (command_row i now k t mid cid p rt) = Some (as_i64 mid)"
  "o_command_id (command_row i now k t mid cid p rt) = k"
  by (simp_all add: command_row_def)

subsection \<open>Preservation\<close>

lemma in_tx_keeps:
  assumes "P db" and "\<And>db' x. body = (db', Inr x) \<Longrightarrow> P db'"
  shows "P (fst (in_tx ctx commit db body))"
  using assms by (auto simp: in_tx_def split: prod.splits sum.splits option.splits)

lemma update_message_tables:
  assumes "tables_inv db" and "\<And>r. m_id (f r) = m_id r"
    and "\<And>r. m_server_message_id (f r) = m_server_message_id r"
  shows "tables_inv (update_message mid f db)"
proof -
  have "unique_server_ids (update_where P f (messages db))" for P
  proof (rule unique_server_idsI)
    fix a b v
    assume a: "a \<in> set (update_where P f (messages db))" and b: "b \<in> set (update_where P f (messages db))"
      and v: "m_server_message_id a = Some v" "m_server_message_id b = Some v" "0 < v"
    have ex: "\<exists>q \<in> set (messages db). m_id q = m_id x \<and> m_server_message_id q = m_server_message_id x"
      if "x \<in> set (update_where P f (messages db))" for x
      using that assms(2,3) by (auto simp: set_update_where)
    from ex [OF a] ex [OF b] show "m_id a = m_id b"
      using unique_server_idsD [of "messages db"] assms(1) v by (metis tables_inv_def store_inv_def)
  qed
  then show ?thesis
    using assms by (auto simp: tables_inv_def store_inv_def update_message_def outbox_inv_def map_update_where
        set_update_where)
qed

lemma delete_messages_tables:
  "tables_inv db \<Longrightarrow> tables_inv (db\<lparr>messages := delete_where P (messages db)\<rparr>)"
  by (auto simp: tables_inv_def delete_inv outbox_inv_def)

lemma delete_other_copies_tables: "tables_inv db \<Longrightarrow> tables_inv (delete_other_copies sid mid db)"
  by (simp add: delete_other_copies_def delete_messages_tables)

lemma delete_commands_tables: "tables_inv db \<Longrightarrow> tables_inv (delete_commands mid db)"
  by (simp add: delete_commands_def tables_inv_def outbox_inv_delete)

lemma extras_tables:
  assumes "tables_inv db" and "\<And>x. x_message_id (upd x) = x_message_id x"
  shows "tables_inv (db\<lparr>extras := upsert_on x_message_id upd new (extras db)\<rparr>)"
  using assms by (auto simp: tables_inv_def store_inv_def outbox_inv_def intro: distinct_upsert_on)

text \<open>Giving a message a server id that no other row holds.\<close>

lemma set_server_id_tables:
  assumes "tables_inv db" and "\<And>r. r \<in> set (messages db) \<Longrightarrow> by_server_id sid r \<Longrightarrow> 0 < as_i64 sid \<Longrightarrow> by_id mid r"
    and "\<And>r. m_id (f r) = m_id r" and "\<And>r. m_server_message_id (f r) = Some (as_i64 sid)"
  shows "tables_inv (update_message mid f db)"
proof -
  have "unique_server_ids (update_where (\<lambda>r. m_id r = as_i64 mid) f (messages db))"
    by (rule unique_update [where v = "as_i64 sid"])
      (use assms in \<open>auto simp: tables_inv_def store_inv_def by_server_id_def by_id_def\<close>)
  then have "unique_server_ids (update_where (by_id mid) f (messages db))"
    by (simp add: by_id_def [abs_def])
  then show ?thesis
    using assms by (auto simp: tables_inv_def store_inv_def update_message_def outbox_inv_def map_update_where
        set_update_where)
qed

lemma no_ghostI:
  assumes "no_ghost db"
    and "\<And>r. r \<in> set (messages db') \<Longrightarrow> m_status r = 1 \<Longrightarrow> \<not> has_command (m_id r) db' \<Longrightarrow>
      (\<exists>q \<in> set (messages db). m_id q = m_id r \<and> m_status q = 1) \<and> \<not> has_command (m_id r) db"
  shows "no_ghost db'"
  using assms unfolding no_ghost_def by metis

lemma no_ghost_frame:
  "messages db' = messages db \<Longrightarrow> outbox db' = outbox db \<Longrightarrow> no_ghost db' = no_ghost db"
  by (simp add: no_ghost_def has_command_def)

lemma no_ghost_update:
  assumes "no_ghost db" and "\<And>r. m_id (f r) = m_id r"
    and "\<And>r. m_status (f r) = 1 \<Longrightarrow> m_status r = 1"
  shows "no_ghost (db\<lparr>messages := update_where P f (messages db)\<rparr>)"
  using assms by (fastforce simp: no_ghost_def has_command_def set_update_where)

lemma no_ghost_delete:
  "no_ghost db \<Longrightarrow> no_ghost (db\<lparr>messages := delete_where P (messages db)\<rparr>)"
  by (auto simp: no_ghost_def has_command_def)

lemma no_ghost_insert: "no_ghost db \<Longrightarrow> m_status row \<noteq> 1 \<Longrightarrow> no_ghost (insert_message row db)"
  by (auto simp: no_ghost_def has_command_def insert_message_def)

lemma no_ghost_delete_commands:
  assumes "no_ghost db" and "\<And>r. r \<in> set (messages db) \<Longrightarrow> by_id mid r \<Longrightarrow> m_status r \<noteq> 1"
  shows "no_ghost (delete_commands mid db)"
  using assms by (fastforce simp: no_ghost_def has_command_def delete_commands_def for_message_def by_id_def)

subsection \<open>Steps\<close>

text \<open>\<open>own_command\<close>: a command carrying the message's idempotency id belongs to the message, which
  holds when the generator of these ids never repeats one.\<close>

definition own_command :: "u64 \<Rightarrow> message_db \<Rightarrow> bool" where
  "own_command mid db \<longleftrightarrow> (\<forall>c \<in> set (outbox db).
     o_command_id c = command_id_of (snowflake_of mid db) \<longrightarrow> o_message_id c = Some (as_i64 mid))"

text \<open>The operations of the store, as the actor uses them: a status written directly is never
  "sending", a command is dropped only when its message is gone.\<close>

inductive outbox_step :: "message_db \<Rightarrow> message_db \<Rightarrow> bool" where
  step_create: "outbox_step db (fst (create_local_message now input lid db))"
| step_create_queued: "next_message_id db < 2 ^ 63 \<Longrightarrow>
    outbox_step db (fst (create_local_message_queued commit now input lid ct payload route db))"
| step_enqueue: "own_command mid db \<Longrightarrow>
    outbox_step db (fst (outbox_enqueue commit now mid ct cid payload route db))"
| step_finalize: "outbox_step db (fst (finalize_local_attachment now mid content thumb db))"
| step_finalize_enqueue: "own_command mid db \<Longrightarrow>
    outbox_step db (fst (finalize_attachment_and_enqueue commit now mid content thumb route2 payload db))"
| step_mark_sent: "outbox_step db (fst (mark_message_sent commit now mid sid sq db))"
| step_ack: "outbox_step db (fst (outbox_ack_sent commit now mid sid sq db))"
| step_bump: "outbox_step db (outbox_bump_retry now mid next_at err db)"
| step_reject: "status \<noteq> 1 \<Longrightarrow> outbox_step db (fst (outbox_reject commit now mid status db))"
| step_reconcile: "outbox_step db (fst (outbox_reconcile_sent commit now mid sid db))"
| step_drop: "\<not> has_message mid db \<Longrightarrow> outbox_step db (outbox_drop mid db)"
| step_status: "status \<noteq> 1 \<Longrightarrow> outbox_step db (fst (update_message_status now mid status db))"
| step_thumb: "outbox_step db (fst (update_thumb_status now mid thumb db))"
| step_media: "outbox_step db (update_media_downloaded now mid downloaded db)"
| step_content: "outbox_step db (fst (update_message_content_local now mid content db))"
| step_local_id: "outbox_step db (fst (update_local_message_id now mid lid db))"
| step_delete: "outbox_step db (fst (delete_message_local commit mid db))"
| step_edit: "outbox_step db (fst (edit_message now mid content edited db))"
| step_pin: "outbox_step db (fst (set_message_pinned now mid pinned db))"
| step_delivered: "outbox_step db (fst (mark_message_delivered now sid at_ms db))"
| step_upsert: "u_status u \<noteq> 1 \<Longrightarrow> outbox_step db (fst (upsert_one now cu u db))"
| step_revoke: "outbox_step db (set_message_revoke now mid revoked revoker db)"

inductive outbox_reachable :: "message_db \<Rightarrow> bool" where
  reach_empty: "outbox_reachable empty_db"
| reach_step: "outbox_reachable db \<Longrightarrow> outbox_step db db' \<Longrightarrow> outbox_reachable db'"

definition steady :: "message_db \<Rightarrow> bool" where
  "steady db \<longleftrightarrow> tables_inv db \<and> no_ghost db"

lemma by_id_unique:
  "store_inv db \<Longrightarrow> r \<in> set (messages db) \<Longrightarrow> q \<in> set (messages db) \<Longrightarrow> by_id mid r \<Longrightarrow> by_id mid q \<Longrightarrow> r = q"
  by (auto simp: store_inv_def by_id_def distinct_map inj_on_def)

lemma steady_update_message:
  assumes "steady db" and "\<And>r. m_id (f r) = m_id r" and "\<And>r. m_server_message_id (f r) = m_server_message_id r"
    and "\<And>r. m_status (f r) = 1 \<Longrightarrow> m_status r = 1"
  shows "steady (update_message mid f db)"
  unfolding steady_def
proof
  show "tables_inv (update_message mid f db)"
    by (rule update_message_tables) (use assms in \<open>simp_all add: steady_def\<close>)
  show "no_ghost (update_message mid f db)"
    unfolding update_message_def by (rule no_ghost_update) (use assms in \<open>auto simp: steady_def\<close>)
qed

lemma steady_extras:
  "steady db \<Longrightarrow> (\<And>x. x_message_id (upd x) = x_message_id x) \<Longrightarrow>
    steady (db\<lparr>extras := upsert_on x_message_id upd new (extras db)\<rparr>)"
  by (auto simp: steady_def extras_tables no_ghost_def has_command_def)

lemma steady_delete_commands:
  assumes "steady db" and "\<And>r. r \<in> set (messages db) \<Longrightarrow> by_id mid r \<Longrightarrow> m_status r \<noteq> 1"
  shows "steady (delete_commands mid db)"
  using assms by (simp add: steady_def delete_commands_tables no_ghost_delete_commands)

lemma steady_delete_messages: "steady db \<Longrightarrow> steady (db\<lparr>messages := delete_where P (messages db)\<rparr>)"
  by (simp add: steady_def delete_messages_tables no_ghost_delete)

lemma steady_delete_copies: "steady db \<Longrightarrow> steady (delete_other_copies sid mid db)"
  by (simp add: delete_other_copies_def steady_delete_messages)

lemma steady_insert:
  assumes "steady db" and "m_id row = next_message_id db" and "m_server_message_id row = None" and "m_status row \<noteq> 1"
  shows "steady (insert_message row db)"
proof -
  have "store_inv (insert_message row db)"
    by (rule insert_inv) (use assms in \<open>simp_all add: steady_def tables_inv_def\<close>)
  then show ?thesis
    using assms by (simp add: steady_def tables_inv_def outbox_inv_cong [of "insert_message row db" db] no_ghost_insert)
qed

lemma sent_row_simps [simp]:
  "m_id (sent_row now sid r) = m_id r" "m_server_message_id (sent_row now sid r) = Some (as_i64 sid)"
  "m_status (sent_row now sid r) = 2" "m_id (acked_row now sid sq r) = m_id r"
  "m_server_message_id (acked_row now sid sq r) = Some (as_i64 sid)" "m_status (acked_row now sid sq r) = 2"
  by (simp_all add: sent_row_def acked_row_def)

lemma steady_set_server_id:
  assumes "steady db" and "\<And>r. r \<in> set (messages db) \<Longrightarrow> by_server_id sid r \<Longrightarrow> 0 < as_i64 sid \<Longrightarrow> by_id mid r"
    and "\<And>r. m_id (f r) = m_id r" and "\<And>r. m_server_message_id (f r) = Some (as_i64 sid)"
    and "\<And>r. m_status (f r) \<noteq> 1"
  shows "steady (update_message mid f db)"
  unfolding steady_def
proof
  show "tables_inv (update_message mid f db)"
    by (rule set_server_id_tables [of db sid]) (use assms in \<open>auto simp: steady_def\<close>)
  show "no_ghost (update_message mid f db)"
    unfolding update_message_def by (rule no_ghost_update) (use assms in \<open>auto simp: steady_def\<close>)
qed

lemma messages_updated_status:
  "r \<in> set (messages (update_message mid f db)) \<Longrightarrow> by_id mid r \<Longrightarrow> (\<And>q. m_id (f q) = m_id q) \<Longrightarrow>
    \<exists>q \<in> set (messages db). r = f q"
  by (auto simp: messages_update_message set_update_where by_id_def)

text \<open>Marking a message as being sent together with its command.\<close>

lemma steady_sending:
  assumes "steady db" and "own_command mid db" and "o_command_id row = command_id_of (snowflake_of mid db)"
    and "o_message_id row = Some (as_i64 mid)"
    and "\<And>r. m_id (f r) = m_id r" and "\<And>r. m_server_message_id (f r) = m_server_message_id r"
    and "upsert_outbox ctx row (update_message mid f db) = (db', Inr ())"
  shows "steady db'"
proof -
  have t: "tables_inv (update_message mid f db)"
    by (rule update_message_tables) (use assms in \<open>auto simp: steady_def\<close>)
  have own: "o_message_id c = Some (as_i64 mid)"
    if "c \<in> set (outbox (update_message mid f db))" "o_command_id c = o_command_id row" for c
    using that assms(2,3) by (auto simp: own_command_def)
  have msgs: "messages db' = messages (update_message mid f db)"
    by (rule upsert_outbox_command(1) [OF assms(7,4)]) (rule own)
  have cmd: "has_command j db' \<longleftrightarrow> j = as_i64 mid \<or> has_command j db" for j
  proof -
    have "has_command j db' \<longleftrightarrow> j = as_i64 mid \<or> has_command j (update_message mid f db)"
      by (rule upsert_outbox_command(2) [OF assms(7,4)]) (rule own)
    then show ?thesis by (simp add: has_command_def)
  qed
  have "no_ghost db'"
  proof (rule no_ghostI [of db])
    show "no_ghost db" using assms(1) by (simp add: steady_def)
    fix r assume r: "r \<in> set (messages db')" "m_status r = 1" "\<not> has_command (m_id r) db'"
    then have ne: "m_id r \<noteq> as_i64 mid" and no: "\<not> has_command (m_id r) db"
      by (simp_all add: cmd)
    have "r \<in> set (messages db)"
      using r(1) ne assms(5) unfolding msgs messages_update_message set_update_where
      by (auto simp: by_id_def)
    with r(2) no show "(\<exists>q \<in> set (messages db). m_id q = m_id r \<and> m_status q = 1) \<and> \<not> has_command (m_id r) db"
      by blast
  qed
  with upsert_outbox_tables [OF t assms(7)] show ?thesis unfolding steady_def ..
qed

lemma finalized_row_simps [simp]:
  "m_id (finalized_row now c t r) = m_id r"
  "m_server_message_id (finalized_row now c t r) = m_server_message_id r"
  "m_status (finalized_row now c t r) = m_status r"
  by (simp_all add: finalized_row_def)

lemma local_row_simps [simp]:
  "m_id (local_row i st input lid now) = i" "m_server_message_id (local_row i st input lid now) = None"
  "m_status (local_row i st input lid now) = st"
  by (simp_all add: local_row_def)

lemma snowflake_find: "find (by_id mid) (messages db) = Some r \<Longrightarrow> snowflake_of mid db = m_local_message_id r"
  by (simp add: snowflake_of_def)

lemma as_i64_as_u64: "- (2 ^ 63) \<le> x \<Longrightarrow> x < 2 ^ 63 \<Longrightarrow> as_i64 (as_u64 x) = x"
  by (simp add: as_i64_def as_u64_def sint_sbintrunc' signed_take_bit_int_eq_self)

lemma create_queued_steady:
  assumes "steady db" and "next_message_id db < 2 ^ 63"
  shows "steady (fst (create_local_message_queued commit now input lid ct payload route db))"
proof (cases "lid = 0")
  case False
  let ?id = "next_message_id db"
  have id: "as_i64 (as_u64 ?id) = ?id"
    using assms by (simp add: steady_def tables_inv_def store_inv_def as_i64_as_u64)
  have t: "tables_inv (insert_message (local_row ?id 1 input lid now) db)"
    using assms(1) insert_inv [of db "local_row ?id 1 input lid now"]
    by (simp add: steady_def tables_inv_def outbox_inv_cong [of "insert_message row db" db for row])
  show ?thesis
    unfolding create_local_message_queued_def using False
  proof (simp only: if_False Let_def, intro in_tx_keeps [where P = steady])
    show "steady db" by fact
    fix db' x
    assume b: "(case insert_outbox ''create+enqueue insert command''
        (command_row (next_outbox_id db) now (''msg:'' @ show_u64 lid) ct (as_u64 ?id) (n_channel_id input) payload route)
        (insert_message (local_row ?id 1 input lid now) db) of
          (db2, Inl e) \<Rightarrow> (db2, Inl e) | (db2, Inr _) \<Rightarrow> (db2, Inr (as_u64 ?id))) = (db', Inr x)"
    then obtain row where ins: "insert_outbox ''create+enqueue insert command'' row
        (insert_message (local_row ?id 1 input lid now) db) = (db', Inr ())"
      and row: "o_message_id row = Some ?id"
      by (auto simp: id split: prod.splits sum.splits)
    have "tables_inv db'" by (rule insert_outbox_tables [OF t ins])
    moreover have "no_ghost db'"
      using assms(1) ins row
      by (auto simp: steady_def no_ghost_def has_command_def insert_outbox_def insert_command_def
          insert_message_def split: if_splits)
    ultimately show "steady db'" by (simp add: steady_def)
  qed
qed (use assms in \<open>simp add: create_local_message_queued_def\<close>)

lemma enqueue_steady:
  assumes "steady db" and "own_command mid db"
  shows "steady (fst (outbox_enqueue commit now mid ct cid payload route db))"
  unfolding outbox_enqueue_def
proof (rule in_tx_keeps [where P = steady])
  show "steady db" by fact
  fix db' x
  assume b: "(let snowflake = snowflake_of mid db in
      if snowflake \<le> 0 then (db, Inl (MissingLocalMessageId mid))
      else upsert_outbox ''outbox enqueue insert''
        (command_row (next_outbox_id db) now (command_id_of snowflake) ct mid cid payload route)
        (update_message mid (\<lambda>r. r\<lparr>m_status := 1, m_updated_at := now\<rparr>) db)) = (db', Inr x)"
  show "steady db'"
    by (rule steady_sending [OF assms, of "command_row (next_outbox_id db) now (command_id_of (snowflake_of mid db)) ct mid cid payload route"
        "\<lambda>r. r\<lparr>m_status := 1, m_updated_at := now\<rparr>" "''outbox enqueue insert''"])
      (use b in \<open>auto simp: Let_def split: if_splits\<close>)
qed

lemma finalize_enqueue_steady:
  assumes "steady db" and "own_command mid db"
  shows "steady (fst (finalize_attachment_and_enqueue commit now mid content thumb route payload db))"
  unfolding finalize_attachment_and_enqueue_def
proof (rule in_tx_keeps [where P = steady], rule assms(1), goal_cases)
  case (1 db' x)
  let ?f = "\<lambda>q. (finalized_row now content thumb q)\<lparr>m_status := 1\<rparr>"
  let ?row = "\<lambda>r. command_row (next_outbox_id db) now (command_id_of (m_local_message_id r)) ''attachment'' mid
      (as_u64 (m_channel_id r)) payload (Some route)"
  obtain r where r: "find (by_id mid) (messages db) = Some r"
    and up: "upsert_outbox ''finalize+enqueue insert command'' (?row r) (update_message mid ?f db) = (db', Inr ())"
    using 1 by (auto simp: Let_def split: option.splits if_splits prod.splits sum.splits)
  show "steady db'"
    by (rule steady_sending [OF assms _ _ _ _ up]) (simp_all add: snowflake_find [OF r])
qed

lemma ack_steady:
  assumes "steady db"
  shows "steady (fst (outbox_ack_sent commit now mid sid sq db))"
    and "steady (fst (mark_message_sent commit now mid sid sq db))"
proof -
  let ?db = "delete_other_copies sid mid db"
  have set_id: "steady (update_message mid (acked_row now sid sq) ?db)"
    by (rule steady_set_server_id [of _ sid]) (use steady_delete_copies [OF assms] in \<open>auto simp: delete_other_copies_def\<close>)
  have del: "steady (delete_commands mid (update_message mid (acked_row now sid sq) ?db))"
    by (rule steady_delete_commands [OF set_id]) (auto dest!: messages_updated_status)
  show "steady (fst (outbox_ack_sent commit now mid sid sq db))"
    unfolding outbox_ack_sent_def
    by (rule in_tx_keeps [where P = steady]) (use assms del in \<open>auto simp: Let_def split: if_splits\<close>)
  show "steady (fst (mark_message_sent commit now mid sid sq db))"
    unfolding mark_message_sent_def
    by (rule in_tx_keeps [where P = steady]) (use assms set_id in \<open>auto split: if_splits\<close>)
qed

lemma reject_steady:
  assumes "steady db" and "status \<noteq> 1"
  shows "steady (fst (outbox_reject commit now mid status db))"
proof -
  let ?f = "\<lambda>r. r\<lparr>m_status := status, m_updated_at := now\<rparr>"
  have "steady (update_message mid ?f db)"
    by (rule steady_update_message) (use assms in auto)
  then have "steady (delete_commands mid (update_message mid ?f db))"
    by (rule steady_delete_commands) (use assms(2) in \<open>auto dest!: messages_updated_status\<close>)
  then show ?thesis
    unfolding outbox_reject_def by (intro in_tx_keeps [where P = steady]) (use assms in auto)
qed

lemma reconcile_steady:
  assumes "steady db"
  shows "steady (fst (outbox_reconcile_sent commit now mid sid db))"
proof (cases "has_message mid db \<and> as_i64 sid > 0 \<and> (\<exists>r \<in> set (messages db). by_server_id sid r \<and> \<not> by_id mid r)")
  case False
  have "steady (update_message mid (sent_row now sid) db)"
  proof (cases "has_message mid db")
    case True
    show ?thesis
      by (rule steady_set_server_id [of _ sid]) (use assms False True in auto)
  next
    case no: False
    then have "update_message mid (sent_row now sid) db = db"
      by (simp add: update_message_def update_where_def has_message_def list_ex_iff map_if_id)
    then show ?thesis using assms by simp
  qed
  then have "steady (delete_commands mid (update_message mid (sent_row now sid) db))"
    by (rule steady_delete_commands) (auto dest!: messages_updated_status)
  then show ?thesis
    using assms False unfolding outbox_reconcile_sent_def if_not_P [OF False]
    by (intro in_tx_keeps [where P = steady]) auto
qed (use assms in \<open>auto simp: outbox_reconcile_sent_def in_tx_def\<close>)

lemma update_existing_steady:
  assumes "steady db" and "\<And>r. m_id (f r) = m_id r" and "\<And>r. m_server_message_id (f r) = m_server_message_id r"
    and "\<And>r. m_status (f r) = 1 \<Longrightarrow> m_status r = 1"
  shows "steady (fst (update_existing ctx mid f db))"
  using steady_update_message [OF assms] assms(1) by (simp add: update_existing_def)

lemma bump_steady: "steady db \<Longrightarrow> steady (outbox_bump_retry now mid next_at err db)"
proof -
  assume s: "steady db"
  have "outbox_inv (outbox_bump_retry now mid next_at err db)"
    unfolding outbox_bump_retry_def
    by (rule outbox_inv_update) (use s in \<open>auto simp: steady_def tables_inv_def bumped_row_def\<close>)
  moreover have "has_command i (outbox_bump_retry now mid next_at err db) = has_command i db" for i
    by (simp add: outbox_bump_retry_def has_command_image image_update_where [where k = o_message_id] bumped_row_def)
  ultimately show ?thesis
    using s by (simp add: steady_def tables_inv_def no_ghost_def) (simp add: outbox_bump_retry_def)
qed

lemma row_status_simps [simp]:
  "m_status (updated_row now u r) = u_status u" "m_status (remote_row i now u) = u_status u"
  by (simp_all add: updated_row_def remote_row_def Let_def split: prod.split)

lemma update_row_status:
  "r \<in> set (messages (update_row now u i db)) \<Longrightarrow> m_status r = 1 \<Longrightarrow> u_status u \<noteq> 1 \<Longrightarrow>
    r \<in> set (messages db)"
  by (auto simp: update_row_def set_update_where)

lemma upsert_one_outbox [simp]: "outbox (fst (upsert_one now cu u db)) = outbox db"
  by (auto simp: upsert_one_def Let_def update_row_def split: option.splits)

lemma upsert_one_status:
  assumes "r \<in> set (messages (fst (upsert_one now cu u db)))" and "m_status r = 1" and "u_status u \<noteq> 1"
  shows "r \<in> set (messages db)"
  using assms
  by (auto simp: upsert_one_def Let_def insert_message_def dest!: update_row_status
      split: option.splits if_splits)

lemma upsert_steady: "steady db \<Longrightarrow> u_status u \<noteq> 1 \<Longrightarrow> steady (fst (upsert_one now cu u db))"
  using upsert_one_status [of _ now cu u db]
  by (fastforce simp: steady_def tables_inv_def upsert_one_inv no_ghost_def has_command_def
      outbox_inv_cong [of "fst (upsert_one now cu u db)" db])

lemma delete_local_steady: "steady db \<Longrightarrow> steady (fst (delete_message_local commit mid db))"
proof -
  assume s: "steady db"
  let ?m = "db\<lparr>messages := delete_where (by_id mid) (messages db)\<rparr>"
  let ?db = "?m\<lparr>extras := delete_where (\<lambda>x. x_message_id x = as_i64 mid) (extras db),
      side := forget_message (as_i64 mid) (side db)\<rparr>"
  have "steady ?m" by (rule steady_delete_messages [OF s])
  then have "steady ?db"
    by (auto simp: steady_def tables_inv_def store_inv_def outbox_inv_def no_ghost_def has_command_def
        intro: distinct_delete_where)
  then show ?thesis
    using s by (auto simp: delete_message_local_def intro!: in_tx_keeps [where P = steady] split: option.split)
qed

lemma revoke_row_simps [simp]:
  "m_id (revoke_row now r) = m_id r" "m_server_message_id (revoke_row now r) = m_server_message_id r"
  "m_status (revoke_row now r) = m_status r"
  by (simp_all add: revoke_row_def)

lemma revoke_steady: "steady db \<Longrightarrow> steady (set_message_revoke now mid revoked revoker db)"
  using steady_update_message [OF steady_extras, of db _ "revoke_row now" mid]
  by (auto simp: set_message_revoke_def Let_def update_message_def steady_extras split: option.split)

lemma empty_steady: "steady empty_db"
  by (simp add: steady_def tables_inv_def outbox_inv_def no_ghost_def) (simp_all add: empty_db_def)

lemma outbox_step_steady: "outbox_step db db' \<Longrightarrow> steady db \<Longrightarrow> steady db'"
proof (induction rule: outbox_step.induct)
  case (step_create db now input lid)
  then show ?case by (simp add: create_local_message_def Let_def steady_insert)
next
  case (step_finalize db now mid content thumb)
  have "steady (update_message mid (finalized_row now content thumb) db)"
    by (rule steady_update_message) (use step_finalize in auto)
  then show ?case by (simp add: finalize_local_attachment_def Let_def split: option.split)
next
  case (step_drop mid db)
  then show ?case
    unfolding outbox_drop_def
    by (intro steady_delete_commands) (auto simp: has_message_def list_ex_iff)
next
  case (step_thumb db now mid thumb)
  then show ?case by (auto simp: update_thumb_status_def intro: steady_update_message)
next
  case (step_media db now mid downloaded)
  then show ?case by (auto simp: update_media_downloaded_def intro: steady_update_message)
next
  case (step_edit db now mid content edited)
  have "steady (update_message mid (\<lambda>q. q\<lparr>m_content := content, m_updated_at := now\<rparr>) db)"
    by (rule steady_update_message) (use step_edit in auto)
  from steady_extras [OF this] step_edit show ?case
    by (simp add: edit_message_def Let_def split: option.split)
next
  case (step_pin db now mid pinned)
  then show ?case by (auto simp: set_message_pinned_def Let_def intro: steady_extras split: option.split)
next
  case (step_delivered db now sid at_ms)
  then show ?case by (auto simp: mark_message_delivered_def intro: steady_extras split: option.split)
qed (auto simp: update_message_status_def update_message_content_local_def update_local_message_id_def
  intro: create_queued_steady enqueue_steady finalize_enqueue_steady ack_steady bump_steady reject_steady
    reconcile_steady update_existing_steady delete_local_steady upsert_steady revoke_steady)

lemma reachable_steady: "outbox_reachable db \<Longrightarrow> steady db"
  by (induction rule: outbox_reachable.induct) (auto intro: empty_steady outbox_step_steady)

subsection \<open>The queue contract\<close>

text \<open>What the drain relies on: acknowledging, rejecting or dropping a message takes its command
  out of every later peek and leaves the commands of the other messages alone.\<close>

locale command_queue =
  fixes peek :: "'q \<Rightarrow> 'c list" and owner :: "'c \<Rightarrow> 'm" and settle :: "'m \<Rightarrow> 'q \<Rightarrow> 'q" and ok :: "'q \<Rightarrow> bool"
  assumes settle_ok: "ok q \<Longrightarrow> ok (settle m q)"
    and peek_settle: "ok q \<Longrightarrow> filter (\<lambda>c. owner c \<noteq> m) (peek q) = peek (settle m q)"
begin

lemma settled_not_peeked: "ok q \<Longrightarrow> c \<in> set (peek (settle m q)) \<Longrightarrow> owner c \<noteq> m"
  using peek_settle [of q m, symmetric] by auto

lemma settle_all:
  "ok q \<Longrightarrow> peek (fold settle ms q) = filter (\<lambda>c. owner c \<notin> set ms) (peek q)"
proof (induction ms arbitrary: q)
  case (Cons m ms)
  have "peek (fold settle (m # ms) q) = filter (\<lambda>c. owner c \<notin> set ms) (peek (settle m q))"
    using Cons.IH [OF settle_ok [OF Cons.prems]] by simp
  also have "\<dots> = filter (\<lambda>c. owner c \<notin> set (m # ms)) (peek q)"
    using peek_settle [OF Cons.prems, of m, symmetric] by (simp add: conj_commute)
  finally show ?case .
qed simp

lemma settle_every: "ok q \<Longrightarrow> owner ` set (peek q) \<subseteq> set ms \<Longrightarrow> peek (fold settle ms q) = []"
  by (auto simp: settle_all filter_empty_conv)

end

text \<open>The whole due queue of one command type at one time.\<close>

definition all_due :: "string \<Rightarrow> int \<Rightarrow> message_db \<Rightarrow> outbox_row list" where
  "all_due cmd_type now db =
     sort_key (\<lambda>c. (o_created_at c, o_id c)) (filter (due cmd_type now) (outbox db))"

lemma outbox_peek_all_due: "outbox_peek t limit now db = map peeked_of (take limit (all_due t now db))"
  by (simp add: outbox_peek_def all_due_def)

lemma filter_sort_key: "filter P (sort_key f xs) = sort_key f (filter P xs)"
  by (rule filter_sort)

interpretation outbox_queue: command_queue "all_due t now" o_message_id
  "\<lambda>m db. db\<lparr>outbox := delete_where (\<lambda>c. o_message_id c = m) (outbox db)\<rparr>" outbox_inv
proof
  fix q m assume "outbox_inv q"
  then show "outbox_inv (q\<lparr>outbox := delete_where (\<lambda>c. o_message_id c = m) (outbox q)\<rparr>)"
    by (rule outbox_inv_delete)
  show "filter (\<lambda>c. o_message_id c \<noteq> m) (all_due t now q) =
    all_due t now (q\<lparr>outbox := delete_where (\<lambda>c. o_message_id c = m) (outbox q)\<rparr>)"
    by (simp add: all_due_def filter_sort delete_where_def conj_commute)
qed

lemma all_due_cong: "outbox db' = outbox db \<Longrightarrow> all_due t now db' = all_due t now db"
  by (simp add: all_due_def)

lemma all_due_settled:
  assumes "outbox_inv db" and "outbox db' = delete_where (for_message mid) (outbox db)"
  shows "all_due t now db' = filter (\<lambda>c. \<not> for_message mid c) (all_due t now db)"
proof -
  have "all_due t now db' = all_due t now (db\<lparr>outbox := delete_where (\<lambda>c. o_message_id c = Some (as_i64 mid)) (outbox db)\<rparr>)"
    by (rule all_due_cong) (simp add: assms(2) for_message_def [abs_def])
  with outbox_queue.peek_settle [OF assms(1), of "Some (as_i64 mid)" t now] show ?thesis
    by (simp add: for_message_def)
qed

subsection \<open>The migration settles what it takes away\<close>

text \<open>What may have happened to an entry that left the old queue.\<close>

definition settled_entry :: "message_db \<Rightarrow> string \<Rightarrow> bool" where
  "settled_entry db key \<longleftrightarrow> length key \<noteq> 8 \<or>
     (let mid = from_be_bytes key in
      if \<not> has_message mid db then True
      else if 0 < snowflake_of mid db
      then \<exists>c \<in> set (outbox db). o_command_id c = command_id_of (snowflake_of mid db) \<and> o_status c = ''pending''
      else \<forall>r \<in> set (messages db). by_id mid r \<longrightarrow> m_status r = 3)"

lemma find_update_message:
  "(\<And>r. m_id (f r) = m_id r) \<Longrightarrow> find (by_id mid) (messages (update_message mid2 f db)) =
    map_option (\<lambda>r. if by_id mid2 r then f r else r) (find (by_id mid) (messages db))"
proof -
  assume f: "\<And>r. m_id (f r) = m_id r"
  have "find (by_id mid) (update_where (by_id mid2) f rs) =
      map_option (\<lambda>r. if by_id mid2 r then f r else r) (find (by_id mid) rs)" for rs
    by (induction rs) (auto simp: update_where_def by_id_def f)
  then show ?thesis by (simp add: messages_update_message)
qed

lemma snowflake_update:
  assumes "\<And>r. m_id (f r) = m_id r" and "\<And>r. m_local_message_id (f r) = m_local_message_id r"
  shows "snowflake_of mid (update_message mid2 f db) = snowflake_of mid db"
  using assms by (auto simp: snowflake_of_def find_update_message split: option.split)

lemma has_message_find: "has_message mid db \<longleftrightarrow> find (by_id mid) (messages db) \<noteq> None"
  by (auto simp: has_message_def list_ex_iff find_None_iff)

lemma has_message_update:
  "(\<And>r. m_id (f r) = m_id r) \<Longrightarrow> has_message mid (update_message mid2 f db) = has_message mid db"
  by (simp add: has_message_find find_update_message)

lemma has_message_get: "get_message_by_id mid db = None \<longleftrightarrow> \<not> has_message mid db"
  by (auto simp: get_message_by_id_def has_message_def list_ex_iff find_None_iff)

definition pending_id :: "string \<Rightarrow> message_db \<Rightarrow> bool" where
  "pending_id k db \<longleftrightarrow> (\<exists>c \<in> set (outbox db). o_command_id c = k \<and> o_status c = ''pending'')"

lemma upsert_outbox_pending:
  assumes "upsert_outbox ctx row db = (db', Inr ())" and "o_status row = ''pending''"
  shows "messages db' = messages db" and "pending_id (o_command_id row) db'"
    and "pending_id k db \<Longrightarrow> pending_id k db'"
proof -
  show "messages db' = messages db"
    using assms(1) by (auto simp: upsert_outbox_def insert_command_def split: if_splits)
  have req: "o_status (requeue_row row c) = ''pending''" for c by (simp add: requeue_row_def)
  have upd: "\<exists>d \<in> set (update_where P (requeue_row row) cs). o_command_id d = o_command_id c \<and> o_status d = ''pending''"
    if "c \<in> set cs" "P c \<or> o_status c = ''pending''" for P c cs
    by (rule bexI [of _ "if P c then requeue_row row c else c"]) (use that req in \<open>auto simp: update_where_def\<close>)
  show "pending_id (o_command_id row) db'"
    using assms upd [where cs = "outbox db" and P = "\<lambda>c. o_command_id c = o_command_id row"]
    by (auto simp: upsert_outbox_def insert_command_def pending_id_def split: if_splits; metis)
  show "pending_id k db'" if "pending_id k db"
    using that assms upd [where cs = "outbox db" and P = "\<lambda>c. o_command_id c = o_command_id row"]
    by (auto simp: upsert_outbox_def insert_command_def pending_id_def split: if_splits; metis)
qed

text \<open>One enqueue of the migration: refused with nothing changed, or a pending command.\<close>

lemma enqueue_cases:
  assumes "outbox_enqueue commit now mid ct cid payload route db = (db', r)"
  shows "(\<exists>e. r = Inl e \<and> db' = db \<and> ((\<exists>i. e = MissingLocalMessageId i) \<longrightarrow> snowflake_of mid db \<le> 0)) \<or>
    (r = Inr () \<and> 0 < snowflake_of mid db \<and> pending_id (command_id_of (snowflake_of mid db)) db' \<and>
     (\<forall>k. pending_id k db \<longrightarrow> pending_id k db') \<and>
     messages db' = messages (update_message mid (\<lambda>r. r\<lparr>m_status := 1, m_updated_at := now\<rparr>) db))"
proof (cases "snowflake_of mid db \<le> 0")
  case True
  with assms show ?thesis by (auto simp: outbox_enqueue_def in_tx_def)
next
  case False
  let ?row = "command_row (next_outbox_id db) now (command_id_of (snowflake_of mid db)) ct mid cid payload route"
  let ?db = "update_message mid (\<lambda>r. r\<lparr>m_status := 1, m_updated_at := now\<rparr>) db"
  obtain db2 r2 where up: "upsert_outbox ''outbox enqueue insert'' ?row ?db = (db2, r2)" by fastforce
  show ?thesis
  proof (cases r2)
    case (Inl e)
    then have "\<exists>t. e = Storage t" using up by (auto simp: upsert_outbox_def sql_error_def split: if_splits)
    with Inl up assms False show ?thesis by (auto simp: outbox_enqueue_def in_tx_def)
  next
    case (Inr u)
    have st: "o_status ?row = ''pending''" by (simp add: command_row_def)
    have up': "upsert_outbox ''outbox enqueue insert'' ?row ?db = (db2, Inr ())" using up Inr by simp
    note p = upsert_outbox_pending [OF up' st]
    have k: "pending_id k ?db = pending_id k db" for k by (simp add: pending_id_def)
    show ?thesis using assms False up Inr p
      by (auto simp: outbox_enqueue_def in_tx_def k split: option.splits)
  qed
qed

lemma settled_entry_alt:
  "settled_entry db key \<longleftrightarrow> length key \<noteq> 8 \<or> \<not> has_message (from_be_bytes key) db \<or>
     (0 < snowflake_of (from_be_bytes key) db \<and>
        pending_id (command_id_of (snowflake_of (from_be_bytes key) db)) db) \<or>
     (snowflake_of (from_be_bytes key) db \<le> 0 \<and>
        (\<forall>r \<in> set (messages db). by_id (from_be_bytes key) r \<longrightarrow> m_status r = 3))"
  by (auto simp: settled_entry_def Let_def pending_id_def)

lemma settled_mono:
  assumes "settled_entry db key" and "\<And>mid. has_message mid db' = has_message mid db"
    and "\<And>mid. snowflake_of mid db' = snowflake_of mid db"
    and "\<And>k. pending_id k db \<Longrightarrow> pending_id k db'"
    and "\<And>r mid. r \<in> set (messages db') \<Longrightarrow> by_id mid r \<Longrightarrow> snowflake_of mid db \<le> 0 \<Longrightarrow>
      r \<in> set (messages db) \<or> m_status r = 3"
  shows "settled_entry db' key"
  using assms unfolding settled_entry_alt by metis

lemma snowflake_by_id: "by_id mid r \<Longrightarrow> by_id mid2 r \<Longrightarrow> mid = mid2"
  by (simp add: by_id_def)

text \<open>What every step of the migration keeps.\<close>

definition keeps_settled :: "message_db \<Rightarrow> message_db \<Rightarrow> bool" where
  "keeps_settled db db' \<longleftrightarrow> (\<forall>mid. has_message mid db' = has_message mid db) \<and>
     (\<forall>mid. snowflake_of mid db' = snowflake_of mid db) \<and> (\<forall>key. settled_entry db key \<longrightarrow> settled_entry db' key)"

lemma keeps_settled_refl [simp]: "keeps_settled db db"
  by (simp add: keeps_settled_def)

lemma keeps_settled_trans: "keeps_settled a b \<Longrightarrow> keeps_settled b c \<Longrightarrow> keeps_settled a c"
  by (simp add: keeps_settled_def)

lemma keeps_settled_enqueue:
  assumes "outbox_enqueue commit now mid ct cid payload route db = (db', r)"
  shows "keeps_settled db db'"
  using enqueue_cases [OF assms]
proof (elim disjE exE conjE, goal_cases)
  case 2
  let ?f = "\<lambda>r. r\<lparr>m_status := 1, m_updated_at := now\<rparr>"
  have m: "find P (messages db') = find P (messages (update_message mid ?f db))" for P
    using 2(5) by simp
  have hm: "has_message i db' = has_message i db" for i
    by (simp add: has_message_find m find_update_message)
  have sf: "snowflake_of i db' = snowflake_of i db" for i
    unfolding snowflake_of_def m by (auto simp: find_update_message split: option.split)
  show ?case
    unfolding keeps_settled_def
  proof (intro conjI allI impI hm sf)
    fix key assume "settled_entry db key"
    then show "settled_entry db' key"
      by (rule settled_mono [OF _ hm sf])
        (use 2 in \<open>auto simp: messages_update_message set_update_where by_id_def\<close>)
  qed
qed simp

lemma keeps_settled_failed:
  assumes "snowflake_of mid db \<le> 0"
  shows "keeps_settled db (fst (update_message_status now mid 3 db))"
proof -
  let ?f = "\<lambda>r. r\<lparr>m_status := 3, m_updated_at := now\<rparr>"
  let ?db = "update_message mid ?f db"
  have "settled_entry ?db key" if "settled_entry db key" for key
    by (rule settled_mono [OF that])
      (auto simp: has_message_update snowflake_update pending_id_def messages_update_message set_update_where)
  then have "keeps_settled db ?db"
    by (simp add: keeps_settled_def has_message_update snowflake_update)
  then show ?thesis by (simp add: update_message_status_def update_existing_def)
qed

lemma migrate_entry_result:
  assumes "migrate_entry f now ct (key, v) (db, m) = ((db1, m1), d)"
  shows "keeps_settled db db1" and "d \<Longrightarrow> settled_entry db1 key"
    and "remaining m1 = remaining m + (if d then 0 else 1)"
proof -
  let ?mid = "from_be_bytes key"
  obtain db2 r where en: "outbox_enqueue (enqueue_commit f key) now ?mid ct 0 v None db = (db2, r)" by fastforce
  note c = enqueue_cases [OF en]
  note k = keeps_settled_enqueue [OF en]
  have all: "keeps_settled db db1 \<and> (d \<longrightarrow> settled_entry db1 key) \<and>
      remaining m1 = remaining m + (if d then 0 else 1)"
  proof (cases "length key \<noteq> 8 \<or> \<not> has_message ?mid db")
    case True
    then have "db1 = db \<and> d \<and> remaining m1 = remaining m"
      using assms has_message_get [of ?mid db]
      by (cases "length key = 8") (auto simp: migrate_entry_def Let_def)
    with True show ?thesis by (auto simp: settled_entry_alt)
  next
    case False
    then obtain sm where g: "get_message_by_id ?mid db = Some sm" and l: "length key = 8"
      using has_message_get by fastforce
    show ?thesis
    proof (cases r)
      case (Inr u)
      with c have p: "0 < snowflake_of ?mid db" "pending_id (command_id_of (snowflake_of ?mid db)) db2" by auto
      have "snowflake_of ?mid db2 = snowflake_of ?mid db" using k by (simp add: keeps_settled_def)
      with p have "settled_entry db2 key" by (simp add: settled_entry_alt)
      then show ?thesis using assms k Inr en by (auto simp: migrate_entry_def Let_def g l)
    next
      case (Inl e)
      with c have same: "db2 = db" by auto
      show ?thesis
      proof (cases "\<exists>i. e = MissingLocalMessageId i")
        case True
        then obtain i where e: "e = MissingLocalMessageId i" ..
        with c Inl have sf: "snowflake_of ?mid db \<le> 0" by auto
        have st: "update_message_status now ?mid 3 db =
            (update_message ?mid (\<lambda>r. r\<lparr>m_status := 3, m_updated_at := now\<rparr>) db, Inr ())"
          using False by (simp add: update_message_status_def update_existing_def)
        have "settled_entry (update_message ?mid (\<lambda>r. r\<lparr>m_status := 3, m_updated_at := now\<rparr>) db) key"
          using sf by (auto simp: settled_entry_alt snowflake_update dest: messages_updated_status)
        with keeps_settled_failed [OF sf, of now] show ?thesis
          using assms Inl e en by (auto simp: migrate_entry_def Let_def g l same st split: option.splits)
      next
        case no: False
        then show ?thesis
          using assms Inl en by (cases e) (auto simp: migrate_entry_def Let_def g l same)
      qed
    qed
  qed
  then show "keeps_settled db db1" "d \<Longrightarrow> settled_entry db1 key"
    "remaining m1 = remaining m + (if d then 0 else 1)" by blast+
qed

lemma migrate_entries_result:
  assumes "migrate_entries f now ct q (db, m) = ((db1, m1), ks)"
  shows "keeps_settled db db1 \<and> (\<forall>key \<in> set ks. settled_entry db1 key) \<and>
    remaining m1 + length ks = remaining m + length q \<and> set ks \<subseteq> fst ` set q \<and>
    (distinct (map fst q) \<longrightarrow> distinct ks)"
  using assms
proof (induction q arbitrary: db m db1 m1 ks)
  case (Cons e q)
  obtain key v where e: "e = (key, v)" by fastforce
  obtain db2 m2 d where one: "migrate_entry f now ct (key, v) (db, m) = ((db2, m2), d)"
    by (metis surj_pair)
  obtain db3 m3 ks' where rest: "migrate_entries f now ct q (db2, m2) = ((db3, m3), ks')"
    by (metis surj_pair)
  have out: "db1 = db3" "m1 = m3" "ks = (if d then key # ks' else ks')"
    using Cons.prems by (auto simp: e one rest)
  note r1 = migrate_entry_result [OF one]
  note r2 = Cons.IH [OF rest]
  have "settled_entry db3 key" if d
    using r1(2) [OF that] r2 by (simp add: keeps_settled_def)
  moreover have "keeps_settled db db3" using r1(1) r2 keeps_settled_trans by blast
  ultimately show ?case using r1(3) r2 by (auto simp: out e)
qed simp

lemma migrate_queue_result:
  assumes "migrate_queue f now ct q (db, m) = ((db1, m1), q1)" and "distinct (map fst q)"
  shows "keeps_settled db db1" and "e \<in> set q \<Longrightarrow> e \<notin> set q1 \<Longrightarrow> settled_entry db1 (fst e)"
    and "remaining m1 = remaining m + length q1"
proof -
  obtain m2 ks where en: "migrate_entries f now ct q (db, m) = ((db1, m2), ks)"
    and out: "m1 = m2\<lparr>remaining := remaining m2 + length (filter (removal_fails f) ks)\<rparr>"
      "q1 = filter (\<lambda>e. fst e \<notin> set ks \<or> removal_fails f (fst e)) q"
    using assms(1) by (auto simp: migrate_queue_def split: prod.splits)
  note r = migrate_entries_result [OF en]
  show "keeps_settled db db1" using r by blast
  show "settled_entry db1 (fst e)" if "e \<in> set q" "e \<notin> set q1"
    using r that by (auto simp: out)
  have gone: "length q1 + length (filter (\<lambda>k. \<not> removal_fails f k) ks) = length q"
  proof -
    let ?P = "\<lambda>e. fst e \<in> set ks \<and> \<not> removal_fails f (fst e)"
    have sets: "set (map fst (filter ?P q)) = set (filter (\<lambda>k. \<not> removal_fails f k) ks)"
      using r by auto
    have d: "distinct (map fst (filter ?P q))" using assms(2) by (rule distinct_map_filterI)
    have d': "distinct (filter (\<lambda>k. \<not> removal_fails f k) ks)" using r assms(2) by simp
    have "length (map fst (filter ?P q)) = length (filter (\<lambda>k. \<not> removal_fails f k) ks)"
      using distinct_card [OF d] distinct_card [OF d'] by (simp only: sets)
    then have "length (filter ?P q) = length (filter (\<lambda>k. \<not> removal_fails f k) ks)" by simp
    moreover have "length q1 + length (filter ?P q) = length q"
      using sum_length_filter_compl [of ?P q] by (simp add: out(2))
    ultimately show ?thesis by simp
  qed
  moreover have "length (filter (removal_fails f) ks) + length (filter (\<lambda>k. \<not> removal_fails f k) ks) = length ks"
    by (rule sum_length_filter_compl)
  ultimately show "remaining m1 = remaining m + length q1" using r by (simp add: out(1))
qed

subsection \<open>Examples\<close>

definition example_new :: new_message where
  "example_new = \<lparr>n_channel_id = 7, n_channel_type = 1, n_from_uid = 3, n_message_type = 0,
     n_content = ''hi'', n_searchable_word = ''hi'', n_setting = 0, n_extra = ''{}'',
     n_mime_type = None, n_media_downloaded = True, n_thumb_status = 0\<rparr>"

definition example_queued :: message_db where
  "example_queued = fst (create_local_message_queued None 100 example_new 77 ''message'' ''hi'' None empty_db)"

lemma as_i64_numerals [simp]: "as_i64 1 = 1" "as_i64 3 = 3" "as_i64 5 = 5" "as_i64 7 = 7" "as_i64 77 = 77"
  by (simp_all add: as_i64_def)

lemma as_u64_one [simp]: "as_u64 1 = 1"
  by (simp add: as_u64_def)

lemma example_queued_eq:
  "example_queued = \<lparr>messages = [local_row 1 1 example_new 77 100], next_message_id = 2, extras = [],
     outbox = [command_row 1 100 (''msg:'' @ show_u64 77) ''message'' 1 7 ''hi'' None], next_outbox_id = 2,
     channels = [], channel_extras = [], side = empty_side\<rparr>"
  by (simp add: example_queued_def create_local_message_queued_def in_tx_def empty_db_def insert_outbox_def
      insert_message_def insert_command_def example_new_def)

lemma example_queued_reachable: "outbox_reachable example_queued"
  unfolding example_queued_def
  by (rule reach_step [OF reach_empty], rule step_create_queued) (simp add: empty_db_def)

subsection \<open>Properties\<close>



text \<open>Creating a message and queueing its command is one act: either an error comes back and
  the database is untouched, or there is exactly one new message, shown as being sent, with one
  new pending command that is due at once and carries its idempotency id. It succeeds exactly
  when the id is not zero, neither the id nor the row has a command yet, and the commit goes
  through.\<close>

theorem create_queued_atomic:
  "let row = local_row (next_message_id db) 1 input lid now;
       cmd = command_row (next_outbox_id db) now (''msg:'' @ show_u64 lid) ct
               (as_u64 (next_message_id db)) (n_channel_id input) payload route
   in case create_local_message_queued commit now input lid ct payload route db of
      (db', Inl e) \<Rightarrow> db' = db \<and>
        (lid = 0 \<or> (\<exists>e. commit = Some e) \<or> list_ex (\<lambda>c. o_command_id c = o_command_id cmd \<or>
           o_message_id c = o_message_id cmd) (outbox db))
    | (db', Inr mid) \<Rightarrow> mid = as_u64 (m_id row) \<and> messages db' = messages db @ [row] \<and>
        m_status row = 1 \<and> outbox db' = outbox db @ [cmd] \<and> due ct 0 cmd \<and>
        lid \<noteq> 0 \<and> commit = None"
  by (auto simp: create_local_message_queued_def in_tx_def Let_def insert_outbox_def
      insert_message_def insert_command_def due_def command_row_def list_ex_iff
      split: option.splits prod.splits sum.splits if_splits)

text \<open>C16. Acknowledging a send is all or nothing. An error leaves the database untouched. Success
  leaves exactly one row with the server's id, the local row, marked sent; its command is gone,
  the commands of every other message keep their place in the queue, and without a fault of the
  commit an existing message is always acknowledged.\<close>

theorem ack_all_or_nothing:
  assumes "outbox_reachable db"
  shows "case outbox_ack_sent commit now mid sid sq db of
      (db', Inl e) \<Rightarrow> db' = db \<and> (commit \<noteq> None \<or> \<not> has_message mid db)
    | (db', Inr _) \<Rightarrow> commit = None \<and>
        map m_id (filter (by_server_id sid) (messages db')) = [as_i64 mid] \<and>
        list_all (\<lambda>r. \<not> by_server_id sid r \<or> m_status r = 2) (messages db') \<and>
        all_due t at_ms db' = filter (\<lambda>c. \<not> for_message mid c) (all_due t at_ms db)"
proof -
  let ?db = "delete_other_copies sid mid db"
  let ?new = "delete_commands mid (update_message mid (acked_row now sid sq) ?db)"
  have st: "store_inv db" "outbox_inv db"
    using reachable_steady [OF assms] by (simp_all add: steady_def tables_inv_def)
  have hm: "has_message mid ?db = has_message mid db"
    by (auto simp: has_message_def list_ex_iff delete_other_copies_def)
  have due: "all_due t at_ms ?new = filter (\<lambda>c. \<not> for_message mid c) (all_due t at_ms db)"
    by (rule all_due_settled [OF st(2)]) (simp add: delete_commands_def)
  have rows: "map m_id (filter (by_server_id sid) (update_where (by_id mid) (acked_row now sid sq)
      (delete_where (\<lambda>r. by_server_id sid r \<and> \<not> by_id mid r) rs))) =
    map m_id (filter (by_id mid) rs)" for rs
    by (induction rs) (auto simp: update_where_def delete_where_def by_server_id_def by_id_def)
  have one: "map m_id (filter (by_id mid) rs) = [as_i64 mid]"
    if "distinct (map m_id rs)" "\<exists>r \<in> set rs. by_id mid r" for rs
    using that
  proof (induction rs)
    case (Cons r rs)
    show ?case
    proof (cases "by_id mid r")
      case True
      then have "\<not> by_id mid q" if "q \<in> set rs" for q
        using Cons.prems(1) that by (force simp: by_id_def)
      then have "filter (by_id mid) rs = []" by (simp add: filter_empty_conv)
      moreover have "m_id r = as_i64 mid" using True by (simp add: by_id_def)
      ultimately show ?thesis using True by simp
    next
      case False
      with Cons show ?thesis by auto
    qed
  qed simp
  have new: "map m_id (filter (by_server_id sid) (messages ?new)) = [as_i64 mid]" if "has_message mid db"
    using that one [of "messages db"] st(1)
    by (simp add: messages_update_message delete_other_copies_def rows has_message_def list_ex_iff store_inv_def)
  have sent: "list_all (\<lambda>r. \<not> by_server_id sid r \<or> m_status r = 2) (messages ?new)"
    by (auto simp: messages_update_message delete_other_copies_def list_all_iff set_update_where)
  show ?thesis
    using hm due new sent by (auto simp: outbox_ack_sent_def in_tx_def Let_def split: option.split)
qed

theorem ack_all_or_nothing_witness:
  "outbox_ack_sent None 200 1 9 5 example_queued =
     (example_queued\<lparr>messages := [acked_row 200 9 5 (local_row 1 1 example_new 77 100)], outbox := []\<rparr>, Inr ()) \<and>
   all_due ''message'' 0 (fst (outbox_ack_sent None 200 1 9 5 example_queued)) =
     filter (\<lambda>c. \<not> for_message 1 c) (all_due ''message'' 0 example_queued)"
proof -
  have eq: "outbox_ack_sent None 200 1 9 5 example_queued =
     (example_queued\<lparr>messages := [acked_row 200 9 5 (local_row 1 1 example_new 77 100)], outbox := []\<rparr>, Inr ())"
    by (simp add: example_queued_eq outbox_ack_sent_def in_tx_def delete_other_copies_def delete_where_def
        by_server_id_def by_id_def has_message_def delete_commands_def update_message_def update_where_def
        for_message_def)
  show ?thesis
    using ack_all_or_nothing [OF example_queued_reachable, where commit = None and now = 200 and mid = 1 and
        sid = 9 and sq = 5 and t = "''message''" and at_ms = 0]
    by (simp add: eq)
qed

text \<open>After a failed attempt a command waits: no peek before its next attempt time returns its
  message, whatever the limit; from that time on a large enough peek returns it again, with the
  attempt counted and its payload unchanged.\<close>

theorem bump_retry_holds_back:
  assumes "outbox_reachable db" and "c \<in> set (outbox db)" and "o_message_id c = Some (as_i64 mid)"
    and "due t later (bumped_row now next_at err c)" and "before < next_at" and "length (outbox db) \<le> limit"
    and "\<forall>d \<in> set (outbox db). \<forall>i. o_message_id d = Some i \<longrightarrow> as_i64 (as_u64 i) = i"
  shows "mid \<notin> pk_message_id ` set (outbox_peek t n before (outbox_bump_retry now mid next_at err db)) \<and>
    peeked_of (bumped_row now next_at err c)
      \<in> set (outbox_peek t limit later (outbox_bump_retry now mid next_at err db))"
proof
  let ?db = "outbox_bump_retry now mid next_at err db"
  have simps [simp]: "o_message_id (bumped_row now next_at err d) = o_message_id d"
    "o_next_attempt_at (bumped_row now next_at err d) = next_at" for d
    by (simp_all add: bumped_row_def)
  have "as_u64 (the (o_message_id d)) \<noteq> mid" if d: "d \<in> set (outbox ?db)" "due t before d" for d
  proof -
    obtain i where i: "o_message_id d = Some i" using d by (auto simp: due_def)
    have "\<exists>e \<in> set (outbox db). o_message_id e = Some i \<and> \<not> for_message mid e"
      using d i assms(5) by (auto simp: outbox_bump_retry_def set_update_where due_def for_message_def)
    then have "i \<noteq> as_i64 mid" and "as_i64 (as_u64 i) = i"
      using assms(7) by (auto simp: for_message_def)
    then show ?thesis using i by auto
  qed
  then show "mid \<notin> pk_message_id ` set (outbox_peek t n before ?db)"
    by (fastforce simp: outbox_peek_def peeked_of_def dest: in_set_takeD)
  have "bumped_row now next_at err c \<in> set (outbox ?db)"
    using assms(2,3) by (auto simp: outbox_bump_retry_def set_update_where for_message_def)
  then have "bumped_row now next_at err c \<in> set (all_due t later ?db)"
    using assms(4) by (simp add: all_due_def)
  moreover have "length (all_due t later ?db) \<le> length (outbox ?db)"
    by (simp add: all_due_def)
  moreover have "length (outbox ?db) = length (outbox db)"
    by (simp add: outbox_bump_retry_def update_where_def)
  ultimately show "peeked_of (bumped_row now next_at err c) \<in> set (outbox_peek t limit later ?db)"
    using assms(6) by (simp add: outbox_peek_all_due)
qed

theorem bump_retry_holds_back_witness:
  "1 \<notin> pk_message_id ` set (outbox_peek ''message'' 20 1999 (outbox_bump_retry 1000 1 2000 ''x'' example_queued)) \<and>
   peeked_of (bumped_row 1000 2000 ''x'' (command_row 1 100 (''msg:'' @ show_u64 77) ''message'' 1 7 ''hi'' None))
     \<in> set (outbox_peek ''message'' 1 2000 (outbox_bump_retry 1000 1 2000 ''x'' example_queued))"
  by (rule bump_retry_holds_back [OF example_queued_reachable])
    (simp_all add: example_queued_eq due_def bumped_row_def, simp_all add: command_row_def)

text \<open>C29. Moving an old queue file into the outbox loses nothing: every entry that left the file
  had a broken key, or its message is gone, or a pending command carries its idempotency id, or the
  message has no such id and is marked failed. What could not be moved is still in the file, and
  the counter reported to the caller counts exactly these entries, under any faults.\<close>

theorem migration_loses_nothing:
  assumes "distinct (map fst q)"
  shows "case migrate_queue f now ct q (db, m) of
    ((db', m'), q') \<Rightarrow>
      list_all (\<lambda>e. e \<in> set q' \<or> settled_entry db' (fst e)) q \<and> set q' \<subseteq> set q \<and>
      remaining m' = remaining m + length q'"
proof -
  obtain db' m' q' where fields: "migrate_queue f now ct q (db, m) = ((db', m'), q')"
    by (metis surj_pair)
  have "set q' \<subseteq> set q"
    using fields by (auto simp: migrate_queue_def split: prod.splits)
  with migrate_queue_result [OF fields assms] show ?thesis
    by (auto simp: fields list_all_iff)
qed

text \<open>A queue with a broken key, a message without an idempotency id and one that is gone.\<close>

definition example_old_queue :: "(string \<times> string) list" where
  "example_old_queue = [(''bad'', ''x''), (bytes [0,0,0,0,0,0,0,1], ''y''), (bytes [0,0,0,0,0,0,0,2], ''z'')]"

theorem migration_loses_nothing_witness:
  "case migrate_queue \<lparr>enqueue_commit = (\<lambda>_. Some ''disk full''), status_write = (\<lambda>_. None), removal_fails = (\<lambda>_. False)\<rparr>
       0 ''message'' example_old_queue (example_queued, \<lparr>moved = 0, remaining = 0, quarantined = 0\<rparr>) of
    ((db', m'), q') \<Rightarrow> list_all (\<lambda>e. e \<in> set q' \<or> settled_entry db' (fst e)) example_old_queue \<and>
      set q' \<subseteq> set example_old_queue \<and> remaining m' = length q'"
  using migration_loses_nothing [where q = example_old_queue and f =
      "\<lparr>enqueue_commit = (\<lambda>_. Some ''disk full''), status_write = (\<lambda>_. None), removal_fails = (\<lambda>_. False)\<rparr>"
      and now = 0 and ct = "''message''" and db = example_queued and m = "\<lparr>moved = 0, remaining = 0, quarantined = 0\<rparr>"]
  by (simp add: example_old_queue_def bytes_def case_prod_beta)

end
