(* ===== verification/Channel_Store.thy ===== *)
theory Channel_Store
  imports Outbox_Store
begin

text \<open>
  The conversation table (\<open>local_store.rs\<close>): the row and its upsert, the resolved view with its
  title, preview and unread count, the conversation list, the keyset page used by anti-entropy,
  local removal, the read cursor and the unread counters; and
  \<open>update_channel_last_message\<close> of \<open>lib.rs\<close>, which moves the preview.

  The user, group and group-member tables are read-only here: a \<open>directory\<close>. The columns of the
  view that only join further columns of these tables (member count, the peer's type, user name
  and avatar) are left out.
\<close>

subsection \<open>Titles\<close>

record user_row =
  us_user_id :: int
  us_username :: "string option"
  us_nickname :: "string option"
  us_alias :: "string option"

record group_row =
  g_group_id :: int
  g_name :: "string option"

record group_member_row =
  gm_group_id :: int
  gm_user_id :: int
  gm_alias :: "string option"
  gm_role :: int
  gm_status :: int
  gm_joined_at :: int

record directory =
  dir_users :: "user_row list"
  dir_groups :: "group_row list"
  dir_members :: "group_member_row list"

fun nullif_empty :: "string option \<Rightarrow> string option" where
  "nullif_empty (Some []) = None"
| "nullif_empty v = v"

text \<open>\<open>GLOB '[0-9]*'\<close>: the text starts with a digit; and the \<open>CAST\<close> of such a text to an integer.\<close>

fun starts_with_digit :: "string \<Rightarrow> bool" where
  "starts_with_digit [] = False"
| "starts_with_digit (c # _) = is_ascii_digit c"

definition cast_integer :: "string \<Rightarrow> int" where
  "cast_integer s = sat_i64 (int (digits_val (takeWhile is_ascii_digit s)))"

definition peer_of :: "channel_row \<Rightarrow> int option" where
  "peer_of c =
     (case ch_peer_user_id c of
        Some p \<Rightarrow> Some p
      | None \<Rightarrow> if starts_with_digit (ch_channel_name c) then Some (cast_integer (ch_channel_name c)) else None)"

definition find_user :: "directory \<Rightarrow> int \<Rightarrow> user_row option" where
  "find_user dir i = find (\<lambda>u. us_user_id u = i) (dir_users dir)"

definition user_display_name :: "user_row option \<Rightarrow> string option" where
  "user_display_name u =
     (case u of
        None \<Rightarrow> None
      | Some v \<Rightarrow> first_some [nullif_empty (us_alias v), nullif_empty (us_nickname v), nullif_empty (us_username v)])"

definition direct_title :: "directory \<Rightarrow> channel_row \<Rightarrow> string" where
  "direct_title dir c =
     the (first_some
       [Option.bind (peer_of c) (\<lambda>p. user_display_name (find_user dir p)),
        (if ch_channel_name c \<in> {''1'', ''__system_1__''} then None
         else if starts_with_digit (ch_channel_name c) then None
         else nullif_empty (Some (ch_channel_name c))),
        Some ''''])"

definition NAME_SEPARATOR :: string where "NAME_SEPARATOR = bytes [227, 128, 129]"

definition member_name :: "directory \<Rightarrow> group_member_row \<Rightarrow> string" where
  "member_name dir m =
     the (first_some
       [nullif_empty (gm_alias m), user_display_name (find_user dir (gm_user_id m)),
        Some (show_int (gm_user_id m))])"

fun group_concat :: "string \<Rightarrow> string list \<Rightarrow> string option" where
  "group_concat sep [] = None"
| "group_concat sep (x # xs) = Some (x @ concat (map (\<lambda>y. sep @ y) xs))"

definition member_names :: "directory \<Rightarrow> int \<Rightarrow> string option" where
  "member_names dir gid =
     nullif_empty (group_concat NAME_SEPARATOR (map (member_name dir)
       (take 3 (sort_key (\<lambda>m. (gm_role m, gm_joined_at m, gm_user_id m))
          (filter (\<lambda>m. gm_group_id m = gid \<and> gm_status m = 0) (dir_members dir))))))"

definition group_title :: "directory \<Rightarrow> channel_row \<Rightarrow> string" where
  "group_title dir c =
     the (first_some
       [Option.bind (find (\<lambda>g. g_group_id g = ch_channel_id c) (dir_groups dir)) (\<lambda>g. nullif_empty (g_name g)),
        nullif_empty (Some (ch_channel_name c)), member_names dir (ch_channel_id c),
        Some (show_int (ch_channel_id c))])"

definition resolved_channel_name :: "directory \<Rightarrow> channel_row \<Rightarrow> string" where
  "resolved_channel_name dir c =
     (if ch_channel_type c = 1 then direct_title dir c
      else if ch_channel_type c = 2 then group_title dir c else ch_channel_name c)"

subsection \<open>The resolved view\<close>

record stored_channel =
  sc_channel_id :: u64
  sc_channel_type :: int
  sc_channel_name :: string
  sc_channel_remark :: string
  sc_avatar :: string
  sc_unread_count :: int
  sc_top :: int
  sc_mute :: int
  sc_last_msg_timestamp :: int
  sc_last_local_message_id :: u64
  sc_last_msg_content :: string
  sc_version :: int
  sc_updated_at :: int
  sc_peer_user_id :: "u64 option"
  sc_last_message_is_revoked :: bool

text \<open>The preview row: first in the order of \<open>list_messages\<close>.\<close>

definition last_message_row :: "message_db \<Rightarrow> channel_row \<Rightarrow> message_row option" where
  "last_message_row db c =
     (case rev (sort_key display_key_of
        (filter (\<lambda>m. m_channel_id m = ch_channel_id c \<and> m_channel_type m = ch_channel_type c) (messages db))) of
        [] \<Rightarrow> None | m # _ \<Rightarrow> Some m)"

definition resolved_timestamp :: "message_db \<Rightarrow> channel_row \<Rightarrow> int" where
  "resolved_timestamp db c =
     (case last_message_row db c of
        Some m \<Rightarrow> m_created_at m
      | None \<Rightarrow> (case ch_last_msg_timestamp c of Some t \<Rightarrow> t | None \<Rightarrow> 0))"

definition stored_channel_of :: "directory \<Rightarrow> message_db \<Rightarrow> channel_row \<Rightarrow> stored_channel" where
  "stored_channel_of dir db c =
     (let lm = last_message_row db c
      in \<lparr>sc_channel_id = as_u64 (ch_channel_id c), sc_channel_type = ch_channel_type c,
          sc_channel_name = resolved_channel_name dir c, sc_channel_remark = ch_channel_remark c,
          sc_avatar = ch_avatar c, sc_unread_count = ch_unread_count c, sc_top = ch_top c,
          sc_mute = ch_mute c, sc_last_msg_timestamp = resolved_timestamp db c,
          sc_last_local_message_id =
            as_u64 (case lm of Some m \<Rightarrow> m_id m | None \<Rightarrow> ch_last_local_message_id c),
          sc_last_msg_content = (case lm of Some m \<Rightarrow> m_content m | None \<Rightarrow> ch_last_msg_content c),
          sc_version = ch_version c, sc_updated_at = ch_updated_at c,
          sc_peer_user_id = (if ch_channel_type c = 1 then map_option as_u64 (peer_of c) else None),
          sc_last_message_is_revoked =
            (case lm of
               None \<Rightarrow> False
             | Some m \<Rightarrow> (case extra_of db (m_id m) of Some x \<Rightarrow> x_revoke x \<noteq> 0 | None \<Rightarrow> False))\<rparr>)"

subsection \<open>The unread count of a conversation\<close>

text \<open>\<open>uid.parse::<i64>().unwrap_or_default()\<close> and \<open>uid.parse::<u64>().unwrap_or(0) as i64\<close>.\<close>

definition uid_i64 :: "string \<Rightarrow> int" where
  "uid_i64 uid = (case parse_i64 uid of Some i \<Rightarrow> i | None \<Rightarrow> 0)"

definition uid_num :: "string \<Rightarrow> int" where
  "uid_num uid = (case parse_u64 uid of Some n \<Rightarrow> wrap_i64 (int n) | None \<Rightarrow> 0)"

definition of_channel :: "int \<Rightarrow> int \<Rightarrow> message_row \<Rightarrow> bool" where
  "of_channel cid ct m \<longleftrightarrow> m_channel_id m = cid \<and> m_channel_type m = ct"

definition find_channel_extra :: "int \<Rightarrow> int \<Rightarrow> message_db \<Rightarrow> channel_extra_row option" where
  "find_channel_extra cid ct db =
     find (\<lambda>e. ce_channel_id e = cid \<and> ce_channel_type e = ct) (channel_extras db)"

definition unread_after :: "int \<Rightarrow> int \<Rightarrow> int \<Rightarrow> int \<Rightarrow> message_db \<Rightarrow> int" where
  "unread_after me cid ct pts db =
     int (length (filter (\<lambda>m. of_channel cid ct m \<and> m_from_uid m \<noteq> me \<and> pts < m_pts m) (messages db)))"

definition max_pts :: "int \<Rightarrow> int \<Rightarrow> message_db \<Rightarrow> int" where
  "max_pts cid ct db =
     (case map m_pts (filter (of_channel cid ct) (messages db)) of [] \<Rightarrow> 0 | p # ps \<Rightarrow> fold max ps p)"

definition set_unread :: "int \<Rightarrow> int \<Rightarrow> int \<Rightarrow> message_db \<Rightarrow> message_db" where
  "set_unread now cid n db =
     db\<lparr>channels := update_where (\<lambda>c. ch_channel_id c = cid)
          (\<lambda>c. c\<lparr>ch_unread_count := n, ch_updated_at := now\<rparr>) (channels db)\<rparr>"

definition resolve_channel_unread_on_read ::
  "int \<Rightarrow> int \<Rightarrow> stored_channel \<Rightarrow> message_db \<Rightarrow> message_db \<times> int" where
  "resolve_channel_unread_on_read now me c db =
     (let cid = as_i64 (sc_channel_id c); ct = sc_channel_type c; stored = max (sc_unread_count c) 0
      in case find_channel_extra cid ct db of
           None \<Rightarrow> (db, stored)
         | Some e \<Rightarrow>
             if max_pts cid ct db = 0 \<or> ce_keep_pts e < max_pts cid ct db then (db, stored)
             else
               (let exact = max (unread_after me cid ct (ce_keep_pts e) db) 0
                in ((if exact \<noteq> stored then set_unread now cid exact db else db), exact)))"

definition get_channel_by_id ::
  "int \<Rightarrow> string \<Rightarrow> directory \<Rightarrow> u64 \<Rightarrow> message_db \<Rightarrow> message_db \<times> stored_channel option" where
  "get_channel_by_id now uid dir cid db =
     (case find (\<lambda>c. ch_channel_id c = as_i64 cid \<and> ch_is_deleted c = 0) (channels db) of
        None \<Rightarrow> (db, None)
      | Some c \<Rightarrow>
          (let v = stored_channel_of dir db c;
               (db1, n) = resolve_channel_unread_on_read now (uid_i64 uid) v db
           in (db1, Some (v\<lparr>sc_unread_count := n\<rparr>))))"

subsection \<open>Lists and pages\<close>

definition listed :: "message_db \<Rightarrow> channel_row \<Rightarrow> bool" where
  "listed db c \<longleftrightarrow> ch_is_deleted c = 0 \<and> (ch_channel_type c \<noteq> 1 \<or> resolved_timestamp db c > 0)"

definition list_rank :: "message_db \<Rightarrow> channel_row \<Rightarrow> int \<times> int \<times> int" where
  "list_rank db c = (ch_top c, resolved_timestamp db c, ch_channel_id c)"

fun resolve_all :: "int \<Rightarrow> int \<Rightarrow> stored_channel list \<Rightarrow> message_db \<Rightarrow> message_db \<times> stored_channel list" where
  "resolve_all now me [] db = (db, [])"
| "resolve_all now me (v # vs) db =
     (let (db1, n) = resolve_channel_unread_on_read now me v db; (db2, rest) = resolve_all now me vs db1
      in (db2, v\<lparr>sc_unread_count := n\<rparr> # rest))"

definition list_channels ::
  "int \<Rightarrow> string \<Rightarrow> directory \<Rightarrow> nat \<Rightarrow> nat \<Rightarrow> message_db \<Rightarrow> message_db \<times> stored_channel list" where
  "list_channels now uid dir limit offset db =
     resolve_all now (uid_i64 uid)
       (map (stored_channel_of dir db)
          (take limit (drop offset (rev (sort_key (list_rank db) (filter (listed db) (channels db)))))))
       db"

definition channel_key :: "channel_row \<Rightarrow> int \<times> int" where
  "channel_key c = (ch_channel_id c, ch_channel_type c)"

definition list_channel_identifiers_after :: "u64 \<Rightarrow> int \<Rightarrow> nat \<Rightarrow> message_db \<Rightarrow> (u64 \<times> int) list" where
  "list_channel_identifiers_after cid ct limit db =
     map (\<lambda>c. (as_u64 (ch_channel_id c), ch_channel_type c))
       (take (min (max limit 1) 500) (sort_key channel_key
          (filter (\<lambda>c. ch_is_deleted c = 0 \<and> (as_i64 cid, ct) < channel_key c) (channels db))))"

subsection \<open>Writing conversations\<close>

record upsert_channel_input =
  uc_channel_id :: u64
  uc_channel_type :: int
  uc_channel_name :: string
  uc_channel_remark :: string
  uc_avatar :: string
  uc_unread_count :: int
  uc_top :: int
  uc_mute :: int
  uc_last_msg_timestamp :: int
  uc_last_local_message_id :: u64
  uc_last_msg_content :: string
  uc_version :: int
  uc_peer_user_id :: "u64 option"

definition inserted_channel :: "int \<Rightarrow> upsert_channel_input \<Rightarrow> channel_row" where
  "inserted_channel now u =
     \<lparr>ch_channel_id = as_i64 (uc_channel_id u), ch_channel_type = uc_channel_type u,
      ch_last_local_message_id = as_i64 (uc_last_local_message_id u),
      ch_last_msg_timestamp = Some (uc_last_msg_timestamp u),
      ch_last_msg_content = uc_last_msg_content u, ch_unread_count = uc_unread_count u,
      ch_channel_name = uc_channel_name u, ch_channel_remark = uc_channel_remark u,
      ch_avatar = uc_avatar u, ch_top = uc_top u, ch_mute = uc_mute u, ch_is_deleted = 0,
      ch_version = uc_version u, ch_created_at = now, ch_updated_at = now,
      ch_peer_user_id = map_option as_i64 (uc_peer_user_id u)\<rparr>"

text \<open>The update carries \<open>WHERE excluded.version >= channel.version\<close>; an older version is dropped.\<close>

definition merged_channel :: "int \<Rightarrow> upsert_channel_input \<Rightarrow> channel_row \<Rightarrow> channel_row" where
  "merged_channel now u c =
     (if uc_version u < ch_version c then c
      else (inserted_channel now u)
             \<lparr>ch_created_at := ch_created_at c,
              ch_peer_user_id := (case uc_peer_user_id u of Some p \<Rightarrow> Some (as_i64 p) | None \<Rightarrow> ch_peer_user_id c),
              ch_is_deleted :=
                (if uc_last_msg_timestamp u > (case ch_last_msg_timestamp c of Some t \<Rightarrow> t | None \<Rightarrow> 0)
                 then 0 else ch_is_deleted c)\<rparr>)"

definition upsert_channel :: "int \<Rightarrow> upsert_channel_input \<Rightarrow> message_db \<Rightarrow> message_db" where
  "upsert_channel now u db =
     db\<lparr>channels := upsert_on ch_channel_id (merged_channel now u) (inserted_channel now u) (channels db)\<rparr>"

definition set_channel_hidden :: "int \<Rightarrow> u64 \<Rightarrow> bool \<Rightarrow> message_db \<Rightarrow> message_db \<times> bool" where
  "set_channel_hidden now cid hidden db =
     (db\<lparr>channels := update_where (\<lambda>c. ch_channel_id c = as_i64 cid)
          (\<lambda>c. c\<lparr>ch_is_deleted := (if hidden then 1 else 0), ch_updated_at := now\<rparr>) (channels db)\<rparr>,
      \<exists>c \<in> set (channels db). ch_channel_id c = as_i64 cid)"

text \<open>The result lists the id and creation time of the removed messages.\<close>

definition delete_channel_local ::
  "commit \<Rightarrow> int \<Rightarrow> u64 \<Rightarrow> message_db \<Rightarrow> message_db \<times> (u64 \<times> int) list result" where
  "delete_channel_local commit now cid db =
     (let gone = map (\<lambda>m. (as_u64 (m_id m), m_created_at m))
            (filter (\<lambda>m. m_channel_id m = as_i64 cid) (messages db))
      in in_tx ''delete_channel_local'' commit db
           ((fst (set_channel_hidden now cid True db))
              \<lparr>extras := delete_where (\<lambda>x. x_channel_id x = as_i64 cid) (extras db),
               side := forget_channel (as_i64 cid) (side db),
               messages := delete_where (\<lambda>m. m_channel_id m = as_i64 cid) (messages db)\<rparr>,
            Inr gone))"

subsection \<open>Moving the preview\<close>

definition known_server_id :: "stored_message \<Rightarrow> bool" where
  "known_server_id m \<longleftrightarrow> (case sm_server_message_id m of None \<Rightarrow> False | Some v \<Rightarrow> v \<noteq> 0)"

definition pts_or_zero :: "stored_message \<Rightarrow> u64" where
  "pts_or_zero m = (case sm_pts m of Some p \<Rightarrow> p | None \<Rightarrow> 0)"

definition preview_should_update :: "u64 \<Rightarrow> u64 \<Rightarrow> message_db \<Rightarrow> bool" where
  "preview_should_update prev mid db =
     (if prev = 0 \<or> prev = mid then True
      else case get_message_by_id mid db of
             None \<Rightarrow> True
           | Some nr \<Rightarrow>
               if \<not> known_server_id nr then True
               else (case get_message_by_id prev db of
                       None \<Rightarrow> True
                     | Some old \<Rightarrow>
                         if \<not> known_server_id old then True else pts_or_zero old \<le> pts_or_zero nr))"

definition sat_i32 :: "int \<Rightarrow> int" where
  "sat_i32 x = (if x < - (2 ^ 31) then - (2 ^ 31) else if x > 2 ^ 31 - 1 then 2 ^ 31 - 1 else x)"

text \<open>\<open>current_uid\<close> is the actor's current user. The fields of a conversation that already exists
  are taken from its resolved view.\<close>

definition update_channel_last_message ::
  "int \<Rightarrow> string \<Rightarrow> string option \<Rightarrow> directory \<Rightarrow> u64 \<Rightarrow> int \<Rightarrow> string \<Rightarrow> int \<Rightarrow> u64 \<Rightarrow> u64 option \<Rightarrow> bool \<Rightarrow>
   message_db \<Rightarrow> message_db" where
  "update_channel_last_message now uid current_uid dir cid ct content ts mid from_uid bump db =
     (let (db1, existing) = get_channel_by_id now uid dir cid db;
          prev_id = (case existing of Some c \<Rightarrow> sc_last_local_message_id c | None \<Rightarrow> 0);
          prev_content = (case existing of Some c \<Rightarrow> sc_last_msg_content c | None \<Rightarrow> '''');
          prev_ts = (case existing of Some c \<Rightarrow> sc_last_msg_timestamp c | None \<Rightarrow> 0);
          me = (case current_uid of
                  None \<Rightarrow> 0
                | Some s \<Rightarrow> (case parse_u64 s of Some n \<Rightarrow> word_of_nat n | None \<Rightarrow> 0));
          inferred = (case existing of
              Some _ \<Rightarrow> None
            | None \<Rightarrow>
                if ct = 1 then (case from_uid of Some v \<Rightarrow> if v > 0 \<and> v \<noteq> me then Some v else None | None \<Rightarrow> None)
                else None);
          unread = (case existing of
              Some c \<Rightarrow> if bump then sat_i32 (sc_unread_count c + 1) else sc_unread_count c
            | None \<Rightarrow> if bump then 1 else 0);
          move = preview_should_update prev_id mid db1;
          (db2, again) = get_channel_by_id now uid dir cid db1;
          version = (case again of Some c \<Rightarrow> sc_version c | None \<Rightarrow> 0)
      in upsert_channel now
           \<lparr>uc_channel_id = cid, uc_channel_type = ct,
            uc_channel_name = (case existing of Some c \<Rightarrow> sc_channel_name c | None \<Rightarrow> ''''),
            uc_channel_remark = (case existing of Some c \<Rightarrow> sc_channel_remark c | None \<Rightarrow> ''''),
            uc_avatar = (case existing of Some c \<Rightarrow> sc_avatar c | None \<Rightarrow> ''''),
            uc_unread_count = unread,
            uc_top = (case existing of Some c \<Rightarrow> sc_top c | None \<Rightarrow> 0),
            uc_mute = (case existing of Some c \<Rightarrow> sc_mute c | None \<Rightarrow> 0),
            uc_last_msg_timestamp = (if move then ts else prev_ts),
            uc_last_local_message_id = (if move then mid else prev_id),
            uc_last_msg_content = (if move then content else prev_content),
            uc_version = version, uc_peer_user_id = inferred\<rparr>
           db2)"

subsection \<open>Read positions\<close>

record upsert_channel_extra_input =
  ue_channel_id :: u64
  ue_channel_type :: int
  ue_browse_to :: u64
  ue_keep_pts :: u64
  ue_keep_offset_y :: int
  ue_draft :: string
  ue_draft_updated_at :: u64

definition extra_key :: "channel_extra_row \<Rightarrow> int \<times> int" where
  "extra_key e = (ce_channel_id e, ce_channel_type e)"

definition blank_channel_extra :: "int \<Rightarrow> int \<Rightarrow> channel_extra_row" where
  "blank_channel_extra cid ct =
     \<lparr>ce_channel_id = cid, ce_channel_type = ct, ce_browse_to = 0, ce_keep_pts = 0,
      ce_keep_offset_y = 0, ce_draft = '''', ce_draft_updated_at = 0, ce_version = 0,
      ce_peer_read_pts = 0\<rparr>"

definition upsert_channel_extra :: "int \<Rightarrow> upsert_channel_extra_input \<Rightarrow> message_db \<Rightarrow> message_db" where
  "upsert_channel_extra now u db =
     (let f = (\<lambda>e. e\<lparr>ce_browse_to := as_i64 (ue_browse_to u), ce_keep_pts := as_i64 (ue_keep_pts u),
                  ce_keep_offset_y := ue_keep_offset_y u, ce_draft := ue_draft u,
                  ce_version := now, ce_draft_updated_at := as_i64 (ue_draft_updated_at u)\<rparr>)
      in db\<lparr>channel_extras := upsert_on extra_key f
              (f (blank_channel_extra (as_i64 (ue_channel_id u)) (ue_channel_type u))) (channel_extras db)\<rparr>)"

definition save_peer_read_pts :: "u64 \<Rightarrow> int \<Rightarrow> u64 \<Rightarrow> message_db \<Rightarrow> message_db" where
  "save_peer_read_pts cid ct pts db =
     db\<lparr>channel_extras := upsert_on extra_key
          (\<lambda>e. e\<lparr>ce_peer_read_pts := max (ce_peer_read_pts e) (as_i64 pts)\<rparr>)
          ((blank_channel_extra (as_i64 cid) ct)\<lparr>ce_peer_read_pts := as_i64 pts\<rparr>) (channel_extras db)\<rparr>"

definition get_peer_read_pts :: "u64 \<Rightarrow> int \<Rightarrow> message_db \<Rightarrow> u64 option" where
  "get_peer_read_pts cid ct db =
     (case find_channel_extra (as_i64 cid) ct db of
        None \<Rightarrow> None
      | Some e \<Rightarrow> if ce_peer_read_pts e > 0 then Some (as_u64 (ce_peer_read_pts e)) else None)"

text \<open>The read cursor: the messages between the old and the new position become read.\<close>

definition read_extra :: "int \<Rightarrow> extra_row \<Rightarrow> extra_row" where
  "read_extra now x =
     x\<lparr>x_readed := 1, x_readed_count := (if x_readed_count x < 1 then 1 else x_readed_count x),
       x_unread_count := 0, x_extra_version := now\<rparr>"

definition mark_read :: "int \<Rightarrow> message_row list \<Rightarrow> extra_row list \<Rightarrow> extra_row list" where
  "mark_read now ms xs =
     fold (\<lambda>m. upsert_on x_message_id (read_extra now)
             ((new_extra (m_id m) (m_channel_id m) (m_channel_type m))
                \<lparr>x_readed := 1, x_readed_count := 1, x_extra_version := now\<rparr>)) ms xs"

definition project_channel_read_cursor ::
  "commit \<Rightarrow> int \<Rightarrow> string \<Rightarrow> u64 \<Rightarrow> int \<Rightarrow> u64 \<Rightarrow> message_db \<Rightarrow> message_db \<times> unit result" where
  "project_channel_read_cursor commit now uid cid ct last_read db =
     in_tx ''project channel cursor'' commit db
       (let me = uid_num uid;
            keep = (case find_channel_extra (as_i64 cid) ct db of Some e \<Rightarrow> as_u64 (ce_keep_pts e) | None \<Rightarrow> 0);
            eff = max keep last_read;
            newly = (\<lambda>m. of_channel (as_i64 cid) ct m \<and> as_i64 keep < m_pts m \<and> m_pts m \<le> as_i64 eff)
        in if eff = keep then (db, Inr ())
           else
             (let db1 = db\<lparr>channel_extras := upsert_on extra_key
                    (\<lambda>e. e\<lparr>ce_browse_to := max (ce_browse_to e) (as_i64 eff),
                         ce_keep_pts := max (ce_keep_pts e) (as_i64 eff), ce_version := now\<rparr>)
                    ((blank_channel_extra (as_i64 cid) ct)
                       \<lparr>ce_browse_to := as_i64 eff, ce_keep_pts := as_i64 eff, ce_version := now\<rparr>)
                    (channel_extras db),
                  extras := mark_read now (filter newly (messages db)) (extras db)\<rparr>;
                  n = int (length (filter (\<lambda>m. newly m \<and> m_from_uid m \<noteq> me) (messages db)))
              in case find (\<lambda>c. ch_channel_id c = as_i64 cid) (channels db1) of
                   None \<Rightarrow> (db1, Inr ())
                 | Some c \<Rightarrow>
                     (set_unread now (as_i64 cid) (wrap_i32 (max 0 (sat_i64 (ch_unread_count c - n)))) db1, Inr ())))"

definition get_channel_unread_count :: "u64 \<Rightarrow> int \<Rightarrow> message_db \<Rightarrow> int" where
  "get_channel_unread_count cid ct db =
     (case find (\<lambda>c. ch_channel_id c = as_i64 cid) (channels db) of
        Some c \<Rightarrow> ch_unread_count c
      | None \<Rightarrow> wrap_i32 (sum_list (map x_unread_count
                  (filter (\<lambda>x. x_channel_id x = as_i64 cid \<and> x_channel_type x = ct) (extras db)))))"

definition count_materialized_unread :: "string \<Rightarrow> u64 \<Rightarrow> int \<Rightarrow> message_db \<Rightarrow> int" where
  "count_materialized_unread uid cid ct db =
     (let keep = (case find_channel_extra (as_i64 cid) ct db of Some e \<Rightarrow> ce_keep_pts e | None \<Rightarrow> 0)
      in wrap_i32 (unread_after (uid_num uid) (as_i64 cid) ct keep db))"

definition get_total_unread_count :: "bool \<Rightarrow> message_db \<Rightarrow> int" where
  "get_total_unread_count exclude_muted db =
     wrap_i32 (sum_list (map ch_unread_count
       (filter (\<lambda>c. exclude_muted \<longrightarrow> ch_mute c = 0) (channels db))))"

subsection \<open>The view and the timeline\<close>

lemma in_channel_of: "in_channel cid ct = of_channel (as_i64 cid) ct"
  by (auto simp: in_channel_def of_channel_def)

lemma get_channel_Some:
  assumes "get_channel_by_id now uid dir cid db = (db', Some v)"
  obtains c where "find (\<lambda>c. ch_channel_id c = as_i64 cid \<and> ch_is_deleted c = 0) (channels db) = Some c"
    and "v = (stored_channel_of dir db c)\<lparr>sc_unread_count := sc_unread_count v\<rparr>"
    and "ch_channel_id c = as_i64 cid"
proof -
  obtain c where c: "find (\<lambda>c. ch_channel_id c = as_i64 cid \<and> ch_is_deleted c = 0) (channels db) = Some c"
    and "v = (stored_channel_of dir db c)\<lparr>sc_unread_count := sc_unread_count v\<rparr>"
    using assms by (auto simp: get_channel_by_id_def Let_def split: option.splits prod.splits)
  with find_Some_mem [OF c] that show thesis by blast
qed

text \<open>The conversation list and the timeline agree on the last message: the preview text, its
  time, its id and whether it is revoked are those of the first message that \<open>list_messages\<close>
  returns for the conversation, in whatever order the messages arrived; without a message the
  stored values stand.\<close>

theorem preview_is_top_of_timeline:
  "case get_channel_by_id now uid dir cid db of
     (db', None) \<Rightarrow> db' = db
   | (db', Some v) \<Rightarrow>
       (case list_messages cid (sc_channel_type v) 1 0 db of
          m # _ \<Rightarrow> sc_last_msg_content v = sm_content m \<and> sc_last_local_message_id v = sm_message_id m \<and>
            sc_last_msg_timestamp v = sm_created_at m \<and> sc_last_message_is_revoked v = sm_revoked m
        | [] \<Rightarrow> \<not> sc_last_message_is_revoked v)"
proof (cases "get_channel_by_id now uid dir cid db")
  case (Pair db' v)
  show ?thesis
  proof (cases v)
    case None
    then show ?thesis using Pair by (auto simp: get_channel_by_id_def Let_def split: option.splits prod.splits)
  next
    case (Some w)
    with Pair have "get_channel_by_id now uid dir cid db = (db', Some w)" by simp
    from get_channel_Some [OF this] obtain c where
      w: "w = (stored_channel_of dir db c)\<lparr>sc_unread_count := sc_unread_count w\<rparr>"
      and c: "ch_channel_id c = as_i64 cid" by blast
    have ct: "sc_channel_type w = ch_channel_type c"
      by (subst w) (simp add: stored_channel_of_def Let_def)
    let ?rows = "rev (sort_key display_key_of (filter (in_channel cid (ch_channel_type c)) (messages db)))"
    have lm: "last_message_row db c = (case ?rows of [] \<Rightarrow> None | m # _ \<Rightarrow> Some m)"
      by (simp add: last_message_row_def c in_channel_def [abs_def])
    have lst: "list_messages cid (sc_channel_type w) 1 0 db = map (stored_message_from_row db) (take 1 ?rows)"
      by (simp add: list_messages_def ct)
    show ?thesis
    proof (cases ?rows)
      case Nil
      then show ?thesis unfolding Pair Some prod.case option.case lst
        by (subst w) (simp add: stored_channel_of_def lm Let_def)
    next
      case (Cons m ms)
      have "sc_last_msg_content w = m_content m \<and> sc_last_local_message_id w = as_u64 (m_id m) \<and>
        sc_last_msg_timestamp w = m_created_at m \<and> sc_last_message_is_revoked w =
          (case extra_of db (m_id m) of Some x \<Rightarrow> x_revoke x \<noteq> 0 | None \<Rightarrow> False)"
        by (subst (1 2 3 4) w) (simp add: stored_channel_of_def resolved_timestamp_def lm Cons Let_def)
      then show ?thesis unfolding Pair Some prod.case option.case lst Cons
        by (simp add: stored_message_from_row_def Let_def)
    qed
  qed
qed

subsection \<open>A hidden conversation and a title made of digits\<close>

lemma update_where_id: "(\<And>r. r \<in> set rs \<Longrightarrow> P r \<Longrightarrow> f r = r) \<Longrightarrow> update_where P f rs = rs"
  by (auto simp: update_where_def intro: map_idI)

text \<open>A hidden conversation that has been synchronised stays hidden when a message arrives: the
  preview update looks for a visible row, finds none and writes with version 0, which the version
  guard of the upsert drops, so neither the hidden mark nor the preview nor the unread count moves.\<close>

theorem hidden_channel_ignores_new_messages:
  assumes "c \<in> set (channels db)" and "ch_channel_id c = as_i64 cid"
    and "\<forall>d \<in> set (channels db). ch_channel_id d = as_i64 cid \<longrightarrow> ch_is_deleted d = 1 \<and> 0 < ch_version d"
  shows "update_channel_last_message now uid me dir cid ct content ts mid from_uid bump db = db"
proof -
  have none: "find (\<lambda>c. ch_channel_id c = as_i64 cid \<and> ch_is_deleted c = 0) (channels db) = None"
    using assms(3) by (auto simp: find_None_iff)
  have get: "get_channel_by_id now uid dir cid db = (db, None)"
    by (simp add: get_channel_by_id_def none)
  have same: "upsert_channel now u db = db"
    if "uc_channel_id u = cid" "uc_version u = 0" for u
  proof -
    have "update_where (\<lambda>r. ch_channel_id r = as_i64 cid) (merged_channel now u) (channels db) = channels db"
      by (rule update_where_id) (use assms(3) that in \<open>auto simp: merged_channel_def\<close>)
    then show ?thesis
      using assms(1,2) that by (auto simp: upsert_channel_def upsert_on_def inserted_channel_def)
  qed
  show ?thesis
    unfolding update_channel_last_message_def get Let_def prod.case option.case
    by (rule same) simp_all
qed

definition hidden_example :: message_db where
  "hidden_example = empty_db\<lparr>channels :=
     [(inserted_channel 0 \<lparr>uc_channel_id = 7, uc_channel_type = 1, uc_channel_name = ''Ann'',
        uc_channel_remark = '''', uc_avatar = '''', uc_unread_count = 0, uc_top = 0, uc_mute = 0,
        uc_last_msg_timestamp = 5, uc_last_local_message_id = 1, uc_last_msg_content = ''old'',
        uc_version = 3, uc_peer_user_id = None\<rparr>)\<lparr>ch_is_deleted := 1\<rparr>]\<rparr>"

theorem hidden_channel_ignores_new_messages_witness:
  "update_channel_last_message 900 ''4'' (Some ''4'') \<lparr>dir_users = [], dir_groups = [], dir_members = []\<rparr>
     7 1 ''new'' 800 2 (Some 3) True hidden_example = hidden_example \<and>
   channels hidden_example \<noteq> []"
  using hidden_channel_ignores_new_messages [where db = hidden_example and cid = 7 and
      c = "hd (channels hidden_example)" and now = 900 and uid = "''4''" and me = "Some ''4''" and
      dir = "\<lparr>dir_users = [], dir_groups = [], dir_members = []\<rparr>" and ct = 1 and content = "''new''"
      and ts = 800 and mid = 2 and from_uid = "Some 3" and bump = True]
  by (simp add: hidden_example_def inserted_channel_def)

definition only_unread_changed :: "(channel_row \<Rightarrow> channel_row) \<Rightarrow> bool" where
  "only_unread_changed g \<longleftrightarrow> (\<forall>c. \<exists>n t. g c = c\<lparr>ch_unread_count := n, ch_updated_at := t\<rparr>)"

lemma only_unread_id [simp]: "only_unread_changed (\<lambda>c. c)"
proof -
  have "c = c\<lparr>ch_unread_count := ch_unread_count c, ch_updated_at := ch_updated_at c\<rparr>" for c :: channel_row
    by simp
  then show ?thesis unfolding only_unread_changed_def by blast
qed

lemma only_unread_simps:
  assumes "only_unread_changed g"
  shows "ch_channel_id (g c) = ch_channel_id c" "ch_version (g c) = ch_version c"
    "ch_is_deleted (g c) = ch_is_deleted c" "ch_channel_name (g c) = ch_channel_name c"
    "ch_channel_type (g c) = ch_channel_type c"
proof -
  obtain n t where "g c = c\<lparr>ch_unread_count := n, ch_updated_at := t\<rparr>"
    using assms unfolding only_unread_changed_def by blast
  then show "ch_channel_id (g c) = ch_channel_id c" "ch_version (g c) = ch_version c"
    "ch_is_deleted (g c) = ch_is_deleted c" "ch_channel_name (g c) = ch_channel_name c"
    "ch_channel_type (g c) = ch_channel_type c" by simp_all
qed

lemma set_unread_map:
  "\<exists>g. only_unread_changed g \<and> channels (set_unread now cid n db) = map g (channels db)"
proof (intro exI conjI)
  let ?g = "\<lambda>c. if ch_channel_id c = cid then c\<lparr>ch_unread_count := n, ch_updated_at := now\<rparr> else c"
  show "channels (set_unread now cid n db) = map ?g (channels db)"
    by (simp add: set_unread_def update_where_def)
  show "only_unread_changed ?g"
    unfolding only_unread_changed_def
  proof
    fix c :: channel_row
    have "c = c\<lparr>ch_unread_count := ch_unread_count c, ch_updated_at := ch_updated_at c\<rparr>" by simp
    then show "\<exists>m t. (if ch_channel_id c = cid then c\<lparr>ch_unread_count := n, ch_updated_at := now\<rparr> else c) =
        c\<lparr>ch_unread_count := m, ch_updated_at := t\<rparr>" by (metis (full_types))
  qed
qed

lemma resolve_frame:
  assumes "resolve_channel_unread_on_read now me v db = (db', n)"
  shows "\<exists>g. only_unread_changed g \<and> channels db' = map g (channels db)"
    and "messages db' = messages db" and "extras db' = extras db" and "channel_extras db' = channel_extras db"
proof -
  have "db' = db \<or> (\<exists>m. db' = set_unread now (as_i64 (sc_channel_id v)) m db)"
    using assms by (auto simp: resolve_channel_unread_on_read_def Let_def split: option.splits if_splits)
  moreover have "\<exists>g. only_unread_changed g \<and> channels db = map g (channels db)"
    by (rule exI [of _ "\<lambda>c. c"]) simp
  ultimately show "\<exists>g. only_unread_changed g \<and> channels db' = map g (channels db)"
    and "messages db' = messages db" and "extras db' = extras db" and "channel_extras db' = channel_extras db"
    using set_unread_map by (auto simp: set_unread_def)
qed

lemma get_frame:
  assumes "get_channel_by_id now uid dir cid db = (db', v)"
  shows "\<exists>g. only_unread_changed g \<and> channels db' = map g (channels db)"
proof (cases "find (\<lambda>c. ch_channel_id c = as_i64 cid \<and> ch_is_deleted c = 0) (channels db)")
  case None
  with assms have "db' = db" by (simp add: get_channel_by_id_def)
  then show ?thesis by (intro exI [of _ "\<lambda>c. c"]) simp
next
  case (Some c)
  with assms obtain n where "resolve_channel_unread_on_read now (uid_i64 uid) (stored_channel_of dir db c) db = (db', n)"
    by (auto simp: get_channel_by_id_def Let_def split: prod.splits)
  from resolve_frame(1) [OF this] show ?thesis .
qed

lemma find_map_frame:
  "only_unread_changed g \<Longrightarrow>
    find (\<lambda>c. ch_channel_id c = i \<and> ch_is_deleted c = 0) (map g cs) =
      map_option g (find (\<lambda>c. ch_channel_id c = i \<and> ch_is_deleted c = 0) cs)"
  by (induction cs) (auto simp: only_unread_simps)

lemma show_nat_nonempty_int [simp]: "show_int i \<noteq> []"
  by (simp add: show_int_def)

lemma get_channel_found:
  assumes "find (\<lambda>c. ch_channel_id c = as_i64 cid \<and> ch_is_deleted c = 0) (channels db) = Some c"
  shows "\<exists>n. snd (get_channel_by_id now uid dir cid db) =
    Some ((stored_channel_of dir db c)\<lparr>sc_unread_count := n\<rparr>)"
  by (cases "resolve_channel_unread_on_read now (uid_i64 uid) (stored_channel_of dir db c) db")
    (auto simp: get_channel_by_id_def assms Let_def)

text \<open>A group whose name and members have not arrived yet gets its number as its title for
  good: the first preview update reads the resolved title, which falls back to the number, and
  writes it into the name column, where it then hides the member names that arrive later.\<close>

theorem group_title_sticks_to_its_number:
  assumes "find (\<lambda>c. ch_channel_id c = as_i64 cid \<and> ch_is_deleted c = 0) (channels db) = Some c"
    and "ch_channel_type c = 2" and "ch_channel_name c = []" and "distinct (map ch_channel_id (channels db))"
    and "\<forall>d \<in> {early, later}. find (\<lambda>g. g_group_id g = as_i64 cid) (dir_groups d) = None"
    and "member_names early (as_i64 cid) = None"
  shows "list_all (\<lambda>r. ch_channel_id r \<noteq> as_i64 cid \<or> resolved_channel_name later r = show_int (as_i64 cid))
    (channels (update_channel_last_message now uid me early cid 2 content ts mid from_uid bump db))"
proof -
  let ?vis = "\<lambda>c. ch_channel_id c = as_i64 cid \<and> ch_is_deleted c = 0"
  have cid: "ch_channel_id c = as_i64 cid" using find_Some_mem [OF assms(1)] by simp
  obtain db1 v1 where g1: "get_channel_by_id now uid early cid db = (db1, v1)" by fastforce
  obtain db2 v2 where g2: "get_channel_by_id now uid early cid db1 = (db2, v2)" by fastforce
  obtain f1 f2 where f: "only_unread_changed f1" "channels db1 = map f1 (channels db)"
    "only_unread_changed f2" "channels db2 = map f2 (channels db1)"
    using get_frame [OF g1] get_frame [OF g2] by blast
  have find1: "find ?vis (channels db1) = Some (f1 c)" using assms(1) f(1,2) by (simp add: find_map_frame)
  have v1: "\<exists>n. v1 = Some ((stored_channel_of early db c)\<lparr>sc_unread_count := n\<rparr>)"
    using get_channel_found [OF assms(1), of now uid early] by (simp add: g1)
  have v2: "\<exists>n. v2 = Some ((stored_channel_of early db1 (f1 c))\<lparr>sc_unread_count := n\<rparr>)"
    using get_channel_found [OF find1, of now uid early] by (simp add: g2)
  have title: "resolved_channel_name early c = show_int (as_i64 cid)"
    using assms(2,3,5,6) cid by (simp add: resolved_channel_name_def group_title_def)
  have row: "resolved_channel_name later r = show_int (as_i64 cid)"
    if r: "r \<in> set (channels (upsert_channel now u db2))" "ch_channel_id r = as_i64 cid"
      and u: "uc_channel_id u = cid" "uc_version u = ch_version c" "uc_channel_type u = 2"
        "uc_channel_name u = show_int (as_i64 cid)" for r u
  proof -
    let ?m = "merged_channel now u"
    have ids: "map ch_channel_id (channels db2) = map ch_channel_id (channels db)"
      using f by (simp add: only_unread_simps)
    have ex: "f2 (f1 c) \<in> set (channels db2)" "ch_channel_id (f2 (f1 c)) = as_i64 cid"
      using find_Some_mem [OF assms(1)] f by (auto simp: only_unread_simps)
    have uniq: "q = f2 (f1 c)" if "q \<in> set (channels db2)" "ch_channel_id q = as_i64 cid" for q
      using that ex ids assms(4) by (metis distinct_map inj_onD)
    have "channels (upsert_channel now u db2) = update_where (\<lambda>c. ch_channel_id c = as_i64 cid) ?m (channels db2)"
      using ex by (auto simp: upsert_channel_def upsert_on_def inserted_channel_def u(1))
    moreover have mid: "ch_channel_id (?m q) = as_i64 cid" if "ch_channel_id q = as_i64 cid" for q
      using that by (simp add: merged_channel_def inserted_channel_def u)
    ultimately have "r = ?m (f2 (f1 c))"
      using r uniq by (auto simp: set_update_where)
    then have "ch_channel_name r = show_int (as_i64 cid)" "ch_channel_type r = 2"
      using f u by (simp_all add: merged_channel_def inserted_channel_def only_unread_simps)
    with r(2) assms(5) show ?thesis
      by (cases "show_int (as_i64 cid)") (simp_all add: resolved_channel_name_def group_title_def)
  qed
  obtain n1 n2 where e: "v1 = Some ((stored_channel_of early db c)\<lparr>sc_unread_count := n1\<rparr>)"
    "v2 = Some ((stored_channel_of early db1 (f1 c))\<lparr>sc_unread_count := n2\<rparr>)" using v1 v2 by blast
  have name: "sc_channel_name (stored_channel_of early db c) = show_int (as_i64 cid)"
    by (simp add: stored_channel_of_def Let_def title)
  have ver: "sc_version (stored_channel_of early db1 (f1 c)) = ch_version c"
    using f(1) by (simp add: stored_channel_of_def Let_def only_unread_simps)
  show ?thesis
    unfolding update_channel_last_message_def g1 g2 Let_def prod.case list_all_iff e option.case
    by (intro ballI disj_imp [THEN iffD2] impI) (rule row, assumption, simp, simp_all add: name ver)
qed

definition group_example :: message_db where
  "group_example = hidden_example\<lparr>channels :=
     [(hd (channels hidden_example))\<lparr>ch_channel_type := 2, ch_is_deleted := 0, ch_channel_name := ''''\<rparr>]\<rparr>"

theorem group_title_sticks_to_its_number_witness:
  "list_all (\<lambda>r. ch_channel_id r \<noteq> as_i64 7 \<or>
      resolved_channel_name \<lparr>dir_users = [], dir_groups = [], dir_members =
        [\<lparr>gm_group_id = 7, gm_user_id = 3, gm_alias = Some ''Ann'', gm_role = 0, gm_status = 0, gm_joined_at = 0\<rparr>]\<rparr> r
      = show_int (as_i64 7))
    (channels (update_channel_last_message 900 ''4'' (Some ''4'') \<lparr>dir_users = [], dir_groups = [], dir_members = []\<rparr>
      7 2 ''new'' 800 2 (Some 3) True group_example))"
  by (rule group_title_sticks_to_its_number [where c = "hd (channels group_example)"])
    (simp_all add: group_example_def hidden_example_def inserted_channel_def member_names_def)

subsection \<open>The read cursor keeps the counter exact\<close>

definition read_position :: "u64 \<Rightarrow> int \<Rightarrow> message_db \<Rightarrow> u64" where
  "read_position cid ct db =
     (case find_channel_extra (as_i64 cid) ct db of Some e \<Rightarrow> as_u64 (ce_keep_pts e) | None \<Rightarrow> 0)"

definition positions_ok :: "message_db \<Rightarrow> bool" where
  "positions_ok db \<longleftrightarrow> (\<forall>e \<in> set (channel_extras db). 0 \<le> ce_keep_pts e \<and> ce_keep_pts e < 2 ^ 63)"

lemma find_channel_extra_key:
  "find_channel_extra cid ct db = find (\<lambda>e. extra_key e = (cid, ct)) (channel_extras db)"
  by (simp add: find_channel_extra_def extra_key_def)

lemma wrap_i32_nonneg_id: "0 \<le> x \<Longrightarrow> x < 2 ^ 31 \<Longrightarrow> wrap_i32 x = x"
  by (simp add: wrap_i32_def)

lemma as_u64_small: "0 \<le> x \<Longrightarrow> x < 2 ^ 63 \<Longrightarrow> unat (as_u64 x) = nat x"
proof -
  assume x: "0 \<le> x" "x < 2 ^ 63"
  then have "as_u64 x = word_of_nat (nat x)" by (simp add: as_u64_def)
  moreover have "nat x < 2 ^ 64" using x by simp
  ultimately show ?thesis by (simp add: unat_of_nat take_bit_nat_eq_self)
qed

lemma unread_split:
  assumes "k \<le> e"
  shows "unread_after me cid ct k db = unread_after me cid ct e db +
    int (length (filter (\<lambda>m. (of_channel cid ct m \<and> k < m_pts m \<and> m_pts m \<le> e) \<and> m_from_uid m \<noteq> me) (messages db)))"
proof -
  have "length (filter (\<lambda>m. of_channel cid ct m \<and> m_from_uid m \<noteq> me \<and> k < m_pts m) ms) =
      length (filter (\<lambda>m. of_channel cid ct m \<and> m_from_uid m \<noteq> me \<and> e < m_pts m) ms) +
      length (filter (\<lambda>m. (of_channel cid ct m \<and> k < m_pts m \<and> m_pts m \<le> e) \<and> m_from_uid m \<noteq> me) ms)" for ms
    using assms by (induction ms) auto
  then show ?thesis by (simp add: unread_after_def)
qed

lemma unread_after_bound: "0 \<le> unread_after me cid ct k db \<and> unread_after me cid ct k db \<le> int (length (messages db))"
  by (simp add: unread_after_def)

text \<open>The state after a committed projection that moves the position from \<open>k\<close> to \<open>e\<close>.\<close>

lemma project_moves:
  assumes "positions_ok db" and "read_position cid ct db < pos" and "unat pos < 2 ^ 63"
    and "find (\<lambda>c. ch_channel_id c = as_i64 cid) (channels db) = Some c"
    and "project_channel_read_cursor None now uid cid ct pos db = (db', r)"
  shows "messages db' = messages db" and "r = Inr ()" and "read_position cid ct db' = pos"
    and "find (\<lambda>c. ch_channel_id c = as_i64 cid) (channels db') = Some (c\<lparr>ch_updated_at := now, ch_unread_count :=
      wrap_i32 (max 0 (sat_i64 (ch_unread_count c - int (length (filter (\<lambda>m.
        (of_channel (as_i64 cid) ct m \<and> as_i64 (read_position cid ct db) < m_pts m \<and> m_pts m \<le> as_i64 pos) \<and>
        m_from_uid m \<noteq> uid_num uid) (messages db))))))\<rparr>)"
proof -
  let ?k = "read_position cid ct db"
  have eff: "max ?k pos = pos" "pos \<noteq> ?k" using assms(2) by (auto simp: max_def)
  have k: "(case find_channel_extra (as_i64 cid) ct db of Some e \<Rightarrow> as_u64 (ce_keep_pts e) | None \<Rightarrow> 0) = ?k"
    by (simp add: read_position_def)
  have upd: "find P (update_where P f cs) = map_option f (find P cs)"
    if "\<And>c. P (f c) = P c" for P and f :: "channel_row \<Rightarrow> channel_row" and cs
    by (induction cs) (auto simp: update_where_def that)
  let ?f = "\<lambda>e. e\<lparr>ce_browse_to := max (ce_browse_to e) (as_i64 pos),
      ce_keep_pts := max (ce_keep_pts e) (as_i64 pos), ce_version := now\<rparr>"
  let ?new = "(blank_channel_extra (as_i64 cid) ct)
      \<lparr>ce_browse_to := as_i64 pos, ce_keep_pts := as_i64 pos, ce_version := now\<rparr>"
  have out: "messages db' = messages db \<and> r = Inr () \<and>
      channel_extras db' = upsert_on extra_key ?f ?new (channel_extras db) \<and>
      channels db' = update_where (\<lambda>c. ch_channel_id c = as_i64 cid)
        (\<lambda>d. d\<lparr>ch_unread_count := wrap_i32 (max 0 (sat_i64 (ch_unread_count c - int (length (filter (\<lambda>m.
        (of_channel (as_i64 cid) ct m \<and> as_i64 ?k < m_pts m \<and> m_pts m \<le> as_i64 pos) \<and>
        m_from_uid m \<noteq> uid_num uid) (messages db)))))), ch_updated_at := now\<rparr>) (channels db)"
    using assms(4,5) eff
    by (auto simp: project_channel_read_cursor_def in_tx_def Let_def k set_unread_def)
  then show "messages db' = messages db" and "r = Inr ()" by blast+
  show "read_position cid ct db' = pos"
  proof -
    have fnd: "find_channel_extra (as_i64 cid) ct db' =
        Some (case find_channel_extra (as_i64 cid) ct db of Some e \<Rightarrow> ?f e | None \<Rightarrow> ?new)"
    proof -
      have key: "extra_key ?new = (as_i64 cid, ct)" by (simp add: extra_key_def blank_channel_extra_def)
      have keep: "extra_key (?f e) = extra_key e" for e by (simp add: extra_key_def)
      have "channel_extras db' = upsert_on extra_key ?f ?new (channel_extras db)" using out by blast
      then show ?thesis
        unfolding find_channel_extra_key
        using find_upsert_on [where key = extra_key and upd = ?f and new = ?new and k = "(as_i64 cid, ct)"
          and rs = "channel_extras db", OF keep] by (simp only: key refl if_True)
    qed
    have pos64: "as_i64 pos = int (unat pos)" by (rule as_i64_small [OF assms(3)])
    show ?thesis
    proof (cases "find_channel_extra (as_i64 cid) ct db")
      case None
      then show ?thesis by (simp add: read_position_def fnd)
    next
      case (Some e)
      have ok: "0 \<le> ce_keep_pts e" "ce_keep_pts e < 2 ^ 63"
        using assms(1) find_Some_mem [of _ "channel_extras db" e] Some
        by (auto simp: positions_ok_def find_channel_extra_def)
      have "unat (as_u64 (ce_keep_pts e)) < unat pos"
        using assms(2) Some by (simp add: read_position_def word_less_nat_alt)
      then have "nat (ce_keep_pts e) < unat pos" by (simp only: as_u64_small [OF ok])
      then have "ce_keep_pts e < int (unat pos)" using ok(1) by linarith
      then have "ce_keep_pts e < as_i64 pos" by (simp only: pos64)
      then show ?thesis by (simp add: read_position_def fnd Some max_def)
    qed
  qed
  show "find (\<lambda>c. ch_channel_id c = as_i64 cid) (channels db') = Some (c\<lparr>ch_updated_at := now, ch_unread_count :=
      wrap_i32 (max 0 (sat_i64 (ch_unread_count c - int (length (filter (\<lambda>m.
        (of_channel (as_i64 cid) ct m \<and> as_i64 ?k < m_pts m \<and> m_pts m \<le> as_i64 pos) \<and>
        m_from_uid m \<noteq> uid_num uid) (messages db))))))\<rparr>)"
    using out assms(4) by (simp add: upd)
qed

text \<open>C17. Moving the read cursor keeps the stored unread counter exact: when it equals the number of
  messages of others behind the position, it does so after the move to the maximum of the old and
  the requested position, and repeating the move, or asking for an older position, changes nothing.\<close>

theorem read_cursor_keeps_count_exact:
  assumes "positions_ok db" and "unat pos < 2 ^ 63" and "length (messages db) < 2 ^ 31"
    and "list_ex (\<lambda>c. ch_channel_id c = as_i64 cid) (channels db)"
    and "get_channel_unread_count cid ct db =
      unread_after (uid_num uid) (as_i64 cid) ct (as_i64 (read_position cid ct db)) db"
  shows "case project_channel_read_cursor None now uid cid ct pos db of
    (db', r) \<Rightarrow> r = Inr () \<and> messages db' = messages db \<and>
      read_position cid ct db' = max (read_position cid ct db) pos \<and>
      get_channel_unread_count cid ct db' =
        unread_after (uid_num uid) (as_i64 cid) ct (as_i64 (read_position cid ct db')) db' \<and>
      project_channel_read_cursor None later uid cid ct pos db' = (db', Inr ())"
proof (cases "project_channel_read_cursor None now uid cid ct pos db")
  case (Pair db' r)
  let ?k = "read_position cid ct db"
  have stay: "project_channel_read_cursor None t uid cid ct pos d = (d, Inr ())"
    if "pos \<le> read_position cid ct d" for d t
  proof -
    have "max (read_position cid ct d) pos = read_position cid ct d" using that by (simp add: max_def)
    then show ?thesis
      by (simp add: project_channel_read_cursor_def in_tx_def Let_def read_position_def)
  qed
  show ?thesis
  proof (cases "pos \<le> ?k")
    case True
    with stay [OF True, of now] Pair assms(5) stay [OF True, of later] show ?thesis by (simp add: max_def)
  next
    case False
    then have less: "?k < pos" by simp
    obtain c where c: "find (\<lambda>c. ch_channel_id c = as_i64 cid) (channels db) = Some c"
      using assms(4)
      by (cases "find (\<lambda>c. ch_channel_id c = as_i64 cid) (channels db)") (auto simp: list_ex_iff find_None_iff)
    note m = project_moves [OF assms(1) less assms(2) c Pair]
    let ?n = "int (length (filter (\<lambda>m. (of_channel (as_i64 cid) ct m \<and> as_i64 ?k < m_pts m \<and>
        m_pts m \<le> as_i64 pos) \<and> m_from_uid m \<noteq> uid_num uid) (messages db)))"
    have small: "unat ?k < 2 ^ 63" "unat ?k \<le> unat pos" using less assms(2) by (simp_all add: word_less_nat_alt)
    have le: "as_i64 ?k \<le> as_i64 pos"
      unfolding as_i64_small [OF small(1)] as_i64_small [OF assms(2)] using small(2) by (simp only: of_nat_le_iff)
    have before: "ch_unread_count c = unread_after (uid_num uid) (as_i64 cid) ct (as_i64 ?k) db"
      using assms(5) c by (simp add: get_channel_unread_count_def)
    have diff: "ch_unread_count c - ?n = unread_after (uid_num uid) (as_i64 cid) ct (as_i64 pos) db"
      unfolding before unread_split [OF le, of "uid_num uid" "as_i64 cid" ct db] by simp
    have len: "int (length (messages db)) < 2 ^ 31" using assms(3) by simp
    have b: "0 \<le> unread_after (uid_num uid) (as_i64 cid) ct (as_i64 pos) db"
      "unread_after (uid_num uid) (as_i64 cid) ct (as_i64 pos) db < 2 ^ 31"
      using unread_after_bound [of "uid_num uid" "as_i64 cid" ct "as_i64 pos" db] len by simp_all
    have "get_channel_unread_count cid ct db' = wrap_i32 (max 0 (sat_i64 (ch_unread_count c - ?n)))"
      by (simp add: get_channel_unread_count_def m(4))
    also have "\<dots> = unread_after (uid_num uid) (as_i64 cid) ct (as_i64 pos) db"
      unfolding diff using b by (simp add: wrap_i32_nonneg_id in_i64_def i64_min_def i64_max_def)
    also have "\<dots> = unread_after (uid_num uid) (as_i64 cid) ct (as_i64 pos) db'"
      by (simp add: unread_after_def m(1))
    finally have count: "get_channel_unread_count cid ct db' = \<dots>" .
    have "project_channel_read_cursor None later uid cid ct pos db' = (db', Inr ())"
      by (rule stay) (simp add: m(3))
    moreover have "max ?k pos = pos" by (rule max_absorb2) (rule less_imp_le [OF less])
    ultimately show ?thesis unfolding Pair prod.case using m(1-3) count by (simp only: simp_thms)
  qed
qed

definition read_example :: message_db where
  "read_example = example_db\<lparr>channels := [(hd (channels hidden_example))
     \<lparr>ch_is_deleted := 0, ch_unread_count := 1\<rparr>]\<rparr>"

theorem read_cursor_keeps_count_exact_witness:
  "get_channel_unread_count 7 1 (fst (project_channel_read_cursor None 999 ''4'' 7 1 5 read_example)) =
     unread_after (uid_num ''4'') (as_i64 7) 1
       (as_i64 (read_position 7 1 (fst (project_channel_read_cursor None 999 ''4'' 7 1 5 read_example))))
       (fst (project_channel_read_cursor None 999 ''4'' 7 1 5 read_example))"
proof -
  have one: "unread_after (uid_num ''4'') (as_i64 7) 1 (as_i64 0) example_db = 1"
    by (simp add: example_db_def upsert_one_def empty_db_def insert_message_def example_input_def
        to_upsert_input_def from_push_def by_server_id_def apply_remote_revoke_flag_def unread_after_def
        of_channel_def remote_row_def uid_num_def in_i64_def i64_min_def i64_max_def parse_u64_def parse_unsigned_def digits_val_def
        is_ascii_digit_def digit_val_def)
  have "messages example_db = messages read_example" "channel_extras example_db = channel_extras read_example"
    by (simp_all add: read_example_def)
  moreover have "channel_extras example_db = []" "length (messages example_db) = 1"
    by (simp_all add: example_db_def upsert_one_def empty_db_def insert_message_def example_input_def
        to_upsert_input_def from_push_def by_server_id_def apply_remote_revoke_flag_def)
  ultimately show ?thesis
    using read_cursor_keeps_count_exact [where db = read_example and pos = 5 and cid = 7 and ct = 1 and
        uid = "''4''" and now = 999] one
    by (simp add: case_prod_beta positions_ok_def read_position_def find_channel_extra_def
        get_channel_unread_count_def read_example_def hidden_example_def inserted_channel_def unread_after_def)
qed

end
