(* ===== verification/Outbox_Drain.thy ===== *)
theory Outbox_Drain
  imports Channel_Store Session_State
begin

text \<open>
  Draining the outbox (\<open>drain_normal_queue_once\<close>, \<open>drain_attachment_outbox_once\<close> and
  \<open>drain_outbound_queues\<close> of \<open>lib.rs\<close>): peek the due commands, send each message, and commit what
  came of it before publishing it.

  The network, the encoder of the external protocol crate, the id generator and the clock are
  arguments: an \<open>item_env\<close> per message. The upload of an attachment is its result. Writes of other
  clients of the store while a lost answer is polled for are the functions \<open>others\<close>.
\<close>

subsection \<open>Events and environment\<close>

datatype drain_event =
    OutboundQueueUpdated string string "u64 option"
  | MessageSendStatusChanged u64 int "u64 option"

datatype queue_kind = Normal | File

fun kind_name :: "queue_kind \<Rightarrow> string" where
  "kind_name Normal = ''normal''"
| "kind_name File = ''file''"

fun kind_command :: "queue_kind \<Rightarrow> string" where
  "kind_command Normal = ''message''"
| "kind_command File = ''attachment''"

record send_response =
  reason_code :: u32
  resp_server_message_id :: u64
  resp_message_seq :: u32

record item_env =
  ie_encode :: "stored_message \<Rightarrow> u64 \<Rightarrow> unit result"
  ie_reply :: "send_response result"
  ie_upload :: "send_response result"
  ie_fresh_id :: "u64 result"
  ie_commit :: "commit"
  ie_bump_written :: bool
  ie_others :: "nat \<Rightarrow> message_db \<Rightarrow> message_db"
  ie_clock :: int

record drain_ctx =
  dc_codes :: protocol_codes
  dc_uid :: string
  dc_current_uid :: "string option"
  dc_bootstrapped :: bool
  dc_directory :: directory

record drain_state =
  d_db :: message_db
  d_events :: "drain_event list"
  d_processed :: nat

subsection \<open>Steps of one item\<close>

definition outbox_next_attempt_at :: "int \<Rightarrow> int \<Rightarrow> int" where
  "outbox_next_attempt_at now retry_count = now + 1000 * 2 ^ nat (clamp_int retry_count 0 4)"

fun await_loop :: "(nat \<Rightarrow> message_db \<Rightarrow> message_db) \<Rightarrow> u64 \<Rightarrow> nat list \<Rightarrow> message_db \<Rightarrow> message_db \<times> u64 option" where
  "await_loop writes mid [] db = (db, None)"
| "await_loop writes mid (i # is) db =
     (let db1 = writes i db in
      case Option.bind (get_message_by_id mid db1) sm_server_message_id of
        Some sid \<Rightarrow> (db1, Some sid)
      | None \<Rightarrow> await_loop writes mid is db1)"

definition await_server_message_id ::
  "(nat \<Rightarrow> message_db \<Rightarrow> message_db) \<Rightarrow> u64 \<Rightarrow> nat \<Rightarrow> message_db \<Rightarrow> message_db \<times> u64 option" where
  "await_server_message_id writes mid attempts db = await_loop writes mid [0..<max attempts 1] db"

definition ensure_local_message_id ::
  "drain_ctx \<Rightarrow> item_env \<Rightarrow> u64 \<Rightarrow> message_db \<Rightarrow> message_db \<times> u64 result" where
  "ensure_local_message_id ctx env mid db =
     (case current_uid_required (dc_current_uid ctx) (dc_bootstrapped ctx) of
        Inl e \<Rightarrow> (db, Inl e)
      | Inr _ \<Rightarrow>
          (case get_local_message_id mid db of
             Some lid \<Rightarrow> if lid > 0 then (db, Inr lid) else
               (case ie_fresh_id env of
                  Inl e \<Rightarrow> (db, Inl e)
                | Inr lid \<Rightarrow>
                    (case update_local_message_id (ie_clock env) mid lid db of
                       (db1, Inl e) \<Rightarrow> (db1, Inl e)
                     | (db1, Inr _) \<Rightarrow> (db1, Inr lid)))
           | None \<Rightarrow>
               (case ie_fresh_id env of
                  Inl e \<Rightarrow> (db, Inl e)
                | Inr lid \<Rightarrow>
                    (case update_local_message_id (ie_clock env) mid lid db of
                       (db1, Inl e) \<Rightarrow> (db1, Inl e)
                     | (db1, Inr _) \<Rightarrow> (db1, Inr lid)))))"

definition build_send_message_request :: "item_env \<Rightarrow> stored_message \<Rightarrow> u64 \<Rightarrow> unit result" where
  "build_send_message_request env m lid =
     (if sm_message_type m < 0
      then Inl (InvalidState (''invalid message_type: '' @ show_int (sm_message_type m)))
      else ie_encode env m lid)"

text \<open>What \<open>direct_send_message\<close> makes of the transport's answer.\<close>

definition direct_send_message :: "u64 \<Rightarrow> send_response result \<Rightarrow> send_response result" where
  "direct_send_message lid reply =
     (if lid = 0 then Inl (InvalidState ''local_message_id must be non-zero'')
      else case reply of
             Inl e \<Rightarrow> Inl e
           | Inr resp \<Rightarrow>
               if reason_code resp \<noteq> 0
               then Inl (Server (reason_code resp)
                      (''send message failed: reason_code='' @ show_nat (unat (reason_code resp))))
               else if resp_server_message_id resp = 0
               then Inl (Serialization ''send message response missing server_message_id'')
               else Inr resp)"

definition bump_retry :: "item_env \<Rightarrow> u64 \<Rightarrow> int \<Rightarrow> string \<Rightarrow> message_db \<Rightarrow> message_db" where
  "bump_retry env mid retry err db =
     (if ie_bump_written env
      then outbox_bump_retry (ie_clock env) mid (outbox_next_attempt_at (ie_clock env) retry) err db
      else db)"

definition queue_event :: "queue_kind \<Rightarrow> string \<Rightarrow> u64 \<Rightarrow> drain_event" where
  "queue_event k act mid = OutboundQueueUpdated (kind_name k) act (Some mid)"

definition push_events :: "drain_event list \<Rightarrow> drain_state \<Rightarrow> drain_state" where
  "push_events evs st = st\<lparr>d_events := d_events st @ evs\<rparr>"

definition with_db :: "message_db \<Rightarrow> drain_state \<Rightarrow> drain_state" where
  "with_db db st = st\<lparr>d_db := db\<rparr>"

text \<open>How an item ends: go on with the next one, stop the loop, or leave the function.\<close>

datatype item_end = Continue | Break | Return sdk_error

definition send_accepted ::
  "drain_ctx \<Rightarrow> queue_kind \<Rightarrow> item_env \<Rightarrow> stored_message \<Rightarrow> u64 \<Rightarrow> int \<Rightarrow> send_response \<Rightarrow> drain_state \<Rightarrow>
   drain_state \<times> item_end" where
  "send_accepted ctx k env msg mid retry resp st =
     (let sid = resp_server_message_id resp in
        (case outbox_ack_sent (ie_commit env) (ie_clock env) mid sid (resp_message_seq resp) (d_db st) of
           (db1, Inl err) \<Rightarrow>
             (push_events [queue_event k ''commit_retry'' mid]
                (with_db (bump_retry env mid retry (error_text err) db1) st),
              Return err)
         | (db1, Inr _) \<Rightarrow>
             (let db2 = (case k of
                    File \<Rightarrow> db1
                  | Normal \<Rightarrow>
                      update_channel_last_message (ie_clock env) (dc_uid ctx) (dc_current_uid ctx) (dc_directory ctx)
                        (sm_channel_id msg) (sm_channel_type msg) (sm_content msg)
                        (if sm_created_at msg > 0 then sm_created_at msg else ie_clock env) mid
                        (Some (sm_from_uid msg)) False db1);
                  st1 = push_events [queue_event k ''dequeue'' mid, MessageSendStatusChanged mid 2 (Some sid)]
                          (with_db db2 st)
              in (st1\<lparr>d_processed := d_processed st1 + 1\<rparr>, Continue))))"

definition send_failed ::
  "drain_ctx \<Rightarrow> queue_kind \<Rightarrow> item_env \<Rightarrow> u64 \<Rightarrow> int \<Rightarrow> sdk_error \<Rightarrow> drain_state \<Rightarrow> drain_state \<times> item_end" where
  "send_failed ctx k env mid retry e st =
     (case await_server_message_id (ie_others env) mid 12 (d_db st) of
        (db1, Some sid) \<Rightarrow>
          (case outbox_reconcile_sent (ie_commit env) (ie_clock env) mid sid db1 of
             (db2, Inl _) \<Rightarrow> (with_db db2 st, Break)
           | (db2, Inr _) \<Rightarrow>
               (let st1 = push_events [queue_event k ''dequeue_reconciled'' mid,
                                       MessageSendStatusChanged mid 2 (Some sid)] (with_db db2 st)
                in (st1\<lparr>d_processed := d_processed st1 + 1\<rparr>, Continue)))
      | (db1, None) \<Rightarrow>
          if is_retryable (dc_codes ctx) e
          then (push_events [queue_event k (''deferred:'' @ error_text e) mid]
                  (with_db (bump_retry env mid retry (error_text e) db1) st),
                Break)
          else
            (case outbox_reject (ie_commit env) (ie_clock env) mid 3 db1 of
               (db2, Inl _) \<Rightarrow> (with_db db2 st, Break)
             | (db2, Inr _) \<Rightarrow>
                 (let st1 = push_events
                        [queue_event k (case k of Normal \<Rightarrow> ''failed'' | File \<Rightarrow> ''failed:'' @ error_text e) mid,
                         MessageSendStatusChanged mid 3 None, queue_event k ''failed_drop'' mid]
                        (with_db db2 st)
                  in (st1\<lparr>d_processed := d_processed st1 + 1\<rparr>, Continue))))"

definition drain_item ::
  "drain_ctx \<Rightarrow> queue_kind \<Rightarrow> item_env \<Rightarrow> peeked \<Rightarrow> drain_state \<Rightarrow> drain_state \<times> item_end" where
  "drain_item ctx k env item st =
     (let mid = pk_message_id item; retry = pk_retry_count item in
      case get_message_by_id mid (d_db st) of
        None \<Rightarrow>
          (let st1 = push_events [queue_event k ''drop_missing'' mid] (with_db (outbox_drop mid (d_db st)) st)
           in (st1\<lparr>d_processed := d_processed st1 + 1\<rparr>, Continue))
      | Some msg \<Rightarrow>
          (case ensure_local_message_id ctx env mid (d_db st) of
             (db1, Inl e) \<Rightarrow> (with_db db1 st, Return e)
           | (db1, Inr lid) \<Rightarrow>
               (let st1 = with_db db1 st;
                    answer = (case k of
                        File \<Rightarrow> Inr (ie_upload env)
                      | Normal \<Rightarrow>
                          (case build_send_message_request env msg lid of
                             Inl e \<Rightarrow> Inl e
                           | Inr _ \<Rightarrow> Inr (direct_send_message lid (ie_reply env))))
                in case answer of
                     Inl e \<Rightarrow> (st1, Return e)
                   | Inr (Inr resp) \<Rightarrow> send_accepted ctx k env msg mid retry resp st1
                   | Inr (Inl e) \<Rightarrow> send_failed ctx k env mid retry e st1)))"

fun drain_items ::
  "drain_ctx \<Rightarrow> queue_kind \<Rightarrow> (u64 \<Rightarrow> item_env) \<Rightarrow> peeked list \<Rightarrow> drain_state \<Rightarrow> drain_state \<times> nat result" where
  "drain_items ctx k env [] st = (st, Inr (d_processed st))"
| "drain_items ctx k env (item # items) st =
     (case drain_item ctx k (env (pk_message_id item)) item st of
        (st1, Continue) \<Rightarrow> drain_items ctx k env items st1
      | (st1, Break) \<Rightarrow> (st1, Inr (d_processed st1))
      | (st1, Return e) \<Rightarrow> (st1, Inl e))"

definition drain_queue_once ::
  "drain_ctx \<Rightarrow> queue_kind \<Rightarrow> (u64 \<Rightarrow> item_env) \<Rightarrow> int \<Rightarrow> nat \<Rightarrow> message_db \<Rightarrow> drain_event list \<Rightarrow>
   drain_state \<times> nat result" where
  "drain_queue_once ctx k env now limit db evs =
     drain_items ctx k env (outbox_peek (kind_command k) limit now db)
       \<lparr>d_db = db, d_events = evs, d_processed = 0\<rparr>"

definition drain_normal_queue_once where
  "drain_normal_queue_once ctx = drain_queue_once ctx Normal"

definition drain_attachment_outbox_once where
  "drain_attachment_outbox_once ctx = drain_queue_once ctx File"

definition OUTBOUND_DRAIN_BATCH_SIZE :: nat where "OUTBOUND_DRAIN_BATCH_SIZE = 20"

text \<open>Both queues; \<open>now\<close> and \<open>now2\<close> are the clock at the two peeks.\<close>

definition drain_outbound_queues ::
  "drain_ctx \<Rightarrow> session_state \<Rightarrow> bool \<Rightarrow> (u64 \<Rightarrow> item_env) \<Rightarrow> int \<Rightarrow> int \<Rightarrow> message_db \<Rightarrow> drain_event list \<Rightarrow>
   message_db \<times> drain_event list \<times> nat result" where
  "drain_outbound_queues ctx ss has_transport env now now2 db evs =
     (if \<not> outbound_queue_ready ss (dc_current_uid ctx \<noteq> None) has_transport then (db, evs, Inr 0)
      else case drain_normal_queue_once ctx env now OUTBOUND_DRAIN_BATCH_SIZE db evs of
             (st, Inl e) \<Rightarrow> (d_db st, d_events st, Inl e)
           | (st, Inr n) \<Rightarrow>
               (case drain_attachment_outbox_once ctx env now2 OUTBOUND_DRAIN_BATCH_SIZE (d_db st) (d_events st) of
                  (st2, Inl e) \<Rightarrow> (d_db st2, d_events st2, Inl e)
                | (st2, Inr m) \<Rightarrow> (d_db st2, d_events st2, Inr (n + m))))"

subsection \<open>What an item does to the outbox\<close>

lemma has_command_outbox: "outbox db' = outbox db \<Longrightarrow> has_command i db' = has_command i db"
  by (simp add: has_command_def)

lemma has_command_settled:
  "outbox db' = delete_where (for_message mid) (outbox db) \<Longrightarrow>
    has_command i db' \<longleftrightarrow> has_command i db \<and> i \<noteq> as_i64 mid"
  by (auto simp: has_command_def for_message_def delete_where_def)

lemma ack_outbox:
  assumes "outbox_ack_sent commit now mid sid sq db = (db', r)"
  shows "outbox db' = (case r of Inl _ \<Rightarrow> outbox db | Inr _ \<Rightarrow> delete_where (for_message mid) (outbox db))"
  using assms by (auto simp: outbox_ack_sent_def in_tx_def Let_def delete_commands_def split: if_splits option.splits)

lemma reject_outbox:
  assumes "outbox_reject commit now mid status db = (db', r)"
  shows "outbox db' = (case r of Inl _ \<Rightarrow> outbox db | Inr _ \<Rightarrow> delete_where (for_message mid) (outbox db))"
  using assms by (auto simp: outbox_reject_def in_tx_def delete_commands_def split: option.splits)

lemma reconcile_outbox:
  assumes "outbox_reconcile_sent commit now mid sid db = (db', r)"
  shows "outbox db' = (case r of Inl _ \<Rightarrow> outbox db | Inr _ \<Rightarrow> delete_where (for_message mid) (outbox db))"
  using assms by (auto simp: outbox_reconcile_sent_def in_tx_def delete_commands_def split: if_splits option.splits)

lemma bump_retry_command: "has_command i (bump_retry env mid retry err db) = has_command i db"
  by (simp add: bump_retry_def outbox_bump_retry_def has_command_image image_update_where [where k = o_message_id]
      bumped_row_def)

lemma ensure_local_message_id_outbox:
  "ensure_local_message_id ctx env mid db = (db', r) \<Longrightarrow> outbox db' = outbox db"
  by (auto simp: ensure_local_message_id_def update_local_message_id_def update_existing_def
      split: sum.splits option.splits if_splits prod.splits)

lemma await_loop_outbox:
  assumes "\<And>n db. outbox (writes n db) = outbox db"
  shows "outbox (fst (await_loop writes mid js db)) = outbox db"
  using assms by (induction js arbitrary: db) (auto simp: Let_def split: option.split)

lemma await_outbox:
  assumes writes: "\<And>n db. outbox (writes n db) = outbox db" and "await_server_message_id writes mid n db = (db', r)"
  shows "outbox db' = outbox db"
proof -
  have "outbox (fst (await_loop writes mid [0..<max n 1] db)) = outbox db"
    by (rule await_loop_outbox) (rule writes)
  then show ?thesis using assms(2) by (simp add: await_server_message_id_def)
qed

text \<open>The conversation row of a sent message changes nothing else of the store.\<close>

lemma resolve_channels_only:
  assumes "resolve_channel_unread_on_read now me v db = (db', n)"
  shows "\<exists>cs. db' = db\<lparr>channels := cs\<rparr>"
proof -
  have "\<exists>cs. db = db\<lparr>channels := cs\<rparr>" by (rule exI [of _ "channels db"]) simp
  then show ?thesis
    using assms by (auto simp: resolve_channel_unread_on_read_def Let_def set_unread_def
        split: option.splits if_splits)
qed

lemma get_channel_channels_only:
  assumes "get_channel_by_id now uid dir cid db = (db', r)"
  shows "\<exists>cs. db' = db\<lparr>channels := cs\<rparr>"
proof (cases "find (\<lambda>c. ch_channel_id c = as_i64 cid \<and> ch_is_deleted c = 0) (channels db)")
  case None
  then have "db' = db\<lparr>channels := channels db\<rparr>" using assms by (simp add: get_channel_by_id_def)
  then show ?thesis ..
next
  case (Some c)
  with assms obtain n where
    "resolve_channel_unread_on_read now (uid_i64 uid) (stored_channel_of dir db c) db = (db', n)"
    by (auto simp: get_channel_by_id_def Let_def split: prod.splits)
  then show ?thesis by (rule resolve_channels_only)
qed

lemma update_last_channels_only:
  "\<exists>cs. update_channel_last_message now uid cu dir cid ct content ts mid from_uid bump db = db\<lparr>channels := cs\<rparr>"
proof -
  obtain db1 r1 where 1: "get_channel_by_id now uid dir cid db = (db1, r1)" by fastforce
  obtain db2 r2 where 2: "get_channel_by_id now uid dir cid db1 = (db2, r2)" by fastforce
  from get_channel_channels_only [OF 1] get_channel_channels_only [OF 2] obtain c2 where c2: "db2 = db\<lparr>channels := c2\<rparr>"
    by auto
  show ?thesis unfolding update_channel_last_message_def Let_def 1 2 case_prod_conv upsert_channel_def
    by (rule exI) (simp add: c2)
qed

lemma steady_channels [simp]: "steady (db\<lparr>channels := cs\<rparr>) = steady db"
  by (simp add: steady_def tables_inv_def store_inv_def outbox_inv_def no_ghost_def has_command_def)

lemma update_last_outbox [simp]:
  "outbox (update_channel_last_message now uid cu dir cid ct content ts mid from_uid bump db) = outbox db"
  using update_last_channels_only [of now uid cu dir cid ct content ts mid from_uid bump db] by auto

lemma update_last_steady:
  "steady db \<Longrightarrow> steady (update_channel_last_message now uid cu dir cid ct content ts mid from_uid bump db)"
  using update_last_channels_only [of now uid cu dir cid ct content ts mid from_uid bump db] by auto

subsection \<open>No send is lost, none is announced early\<close>

definition published :: "drain_event list \<Rightarrow> u64 \<Rightarrow> bool" where
  "published evs mid \<longleftrightarrow> (\<exists>st sid. MessageSendStatusChanged mid st sid \<in> set evs)"

definition reported_missing :: "drain_event list \<Rightarrow> u64 \<Rightarrow> bool" where
  "reported_missing evs mid \<longleftrightarrow> (\<exists>k. queue_event k ''drop_missing'' mid \<in> set evs)"

definition accounted :: "message_db \<Rightarrow> message_db \<Rightarrow> drain_event list \<Rightarrow> bool" where
  "accounted db0 db evs \<longleftrightarrow>
     (\<forall>i. has_command i db0 \<longrightarrow> has_command i db \<or>
        (\<exists>mid. as_i64 mid = i \<and> (published evs mid \<or> reported_missing evs mid))) \<and>
     (\<forall>mid. published evs mid \<longrightarrow> \<not> has_command (as_i64 mid) db) \<and>
     (\<forall>i. has_command i db \<longrightarrow> has_command i db0)"

lemma event_simps [simp]:
  "published (a @ b) mid \<longleftrightarrow> published a mid \<or> published b mid"
  "reported_missing (a @ b) mid \<longleftrightarrow> reported_missing a mid \<or> reported_missing b mid"
  "published [] mid \<longleftrightarrow> False"
  "published (MessageSendStatusChanged m s x # es) mid \<longleftrightarrow> m = mid \<or> published es mid"
  "published (queue_event k act m # es) mid \<longleftrightarrow> published es mid"
  by (auto simp: published_def reported_missing_def queue_event_def)

text \<open>One item either keeps every command, or takes its own out and says so.\<close>

definition item_effect :: "u64 \<Rightarrow> drain_state \<Rightarrow> drain_state \<Rightarrow> bool" where
  "item_effect mid st st' \<longleftrightarrow> (\<exists>evs. d_events st' = d_events st @ evs \<and>
     ((\<forall>i. has_command i (d_db st') = has_command i (d_db st)) \<and> (\<forall>m. \<not> published evs m) \<or>
      (\<forall>i. has_command i (d_db st') \<longleftrightarrow> has_command i (d_db st) \<and> i \<noteq> as_i64 mid) \<and>
      (\<forall>m. published evs m \<longrightarrow> m = mid) \<and> (published evs mid \<or> reported_missing evs mid)))"

lemma item_effect_keeps:
  "d_events st' = d_events st @ evs \<Longrightarrow> (\<And>i. has_command i (d_db st') = has_command i (d_db st)) \<Longrightarrow>
    (\<And>m. \<not> published evs m) \<Longrightarrow> item_effect mid st st'"
  unfolding item_effect_def by blast

lemma item_effect_settles:
  "d_events st' = d_events st @ evs \<Longrightarrow>
    (\<And>i. has_command i (d_db st') \<longleftrightarrow> has_command i (d_db st) \<and> i \<noteq> as_i64 mid) \<Longrightarrow>
    (\<And>m. published evs m \<Longrightarrow> m = mid) \<Longrightarrow> published evs mid \<or> reported_missing evs mid \<Longrightarrow>
    item_effect mid st st'"
  unfolding item_effect_def by blast

lemma item_effect_accounted:
  assumes "item_effect mid st st'" and acc: "accounted db0 (d_db st) (d_events st)"
  shows "accounted db0 (d_db st') (d_events st')"
proof -
  obtain evs where ev: "d_events st' = d_events st @ evs"
    and cases: "(\<forall>i. has_command i (d_db st') = has_command i (d_db st)) \<and> (\<forall>m. \<not> published evs m) \<or>
      (\<forall>i. has_command i (d_db st') \<longleftrightarrow> has_command i (d_db st) \<and> i \<noteq> as_i64 mid) \<and>
      (\<forall>m. published evs m \<longrightarrow> m = mid) \<and> (published evs mid \<or> reported_missing evs mid)"
    using assms(1) unfolding item_effect_def by blast
  from cases show ?thesis
  proof
    assume "(\<forall>i. has_command i (d_db st') = has_command i (d_db st)) \<and> (\<forall>m. \<not> published evs m)"
    then show ?thesis using acc unfolding accounted_def ev event_simps by metis
  next
    assume "(\<forall>i. has_command i (d_db st') \<longleftrightarrow> has_command i (d_db st) \<and> i \<noteq> as_i64 mid) \<and>
      (\<forall>m. published evs m \<longrightarrow> m = mid) \<and> (published evs mid \<or> reported_missing evs mid)"
    then show ?thesis using acc unfolding accounted_def ev event_simps by metis
  qed
qed

lemma push_events_simps [simp]:
  "d_db (push_events evs st) = d_db st" "d_events (push_events evs st) = d_events st @ evs"
  "d_db (with_db db st) = db" "d_events (with_db db st) = d_events st"
  by (simp_all add: push_events_def with_db_def)

text \<open>The two shapes of an item's end: the command stays, or it is settled and announced.\<close>

lemma effect_kept:
  assumes "outbox db1 = outbox (d_db st) \<or> (\<forall>i. has_command i db1 = has_command i (d_db st))"
    and "d_db st' = db1" and "d_events st' = d_events st @ evs" and "\<And>m. \<not> published evs m"
  shows "item_effect mid st st'"
  using assms by (intro item_effect_keeps [of st' st evs]) (auto dest: has_command_outbox)

lemma effect_settled:
  assumes "outbox db2 = delete_where (for_message mid) (outbox (d_db st))" and "outbox (d_db st') = outbox db2"
    and "d_events st' = d_events st @ evs" and "\<And>m. published evs m \<Longrightarrow> m = mid"
    and "published evs mid \<or> reported_missing evs mid"
  shows "item_effect mid st st'"
  using assms has_command_settled [of "d_db st'" mid "d_db st"]
  by (intro item_effect_settles [of st' st evs]) auto

lemma send_accepted_effect:
  assumes "send_accepted ctx k env msg mid retry resp st = (st', e)"
  shows "item_effect mid st st'"
proof -
  obtain db1 r where ack: "outbox_ack_sent (ie_commit env) (ie_clock env) mid (resp_server_message_id resp)
      (resp_message_seq resp) (d_db st) = (db1, r)" by fastforce
  note out = ack_outbox [OF ack]
  show ?thesis
  proof (cases r)
    case (Inl err)
    have "d_db st' = bump_retry env mid retry (error_text err) db1"
      and "d_events st' = d_events st @ [queue_event k ''commit_retry'' mid]"
      using assms unfolding send_accepted_def Let_def ack Inl by auto
    then show ?thesis
      by (rule effect_kept [rotated])
        (use out Inl has_command_outbox [of db1 "d_db st"] in \<open>simp_all add: bump_retry_command\<close>)
  next
    case (Inr u)
    have "outbox (d_db st') = outbox db1"
      and "d_events st' = d_events st @ [queue_event k ''dequeue'' mid,
        MessageSendStatusChanged mid 2 (Some (resp_server_message_id resp))]"
      using assms unfolding send_accepted_def Let_def ack Inr by (auto split: queue_kind.split)
    then show ?thesis
      by (rule effect_settled [rotated]) (use out Inr in simp_all)
  qed
qed

lemma send_failed_effect:
  assumes writes: "\<And>n db. outbox (ie_others env n db) = outbox db"
    and failed: "send_failed ctx k env mid retry e st = (st', r)"
  shows "item_effect mid st st'"
proof -
  obtain db1 found where aw: "await_server_message_id (ie_others env) mid 12 (d_db st) = (db1, found)" by fastforce
  have same: "outbox db1 = outbox (d_db st)"
    by (rule await_outbox [OF writes aw])
  show ?thesis
  proof (cases found)
    case (Some sid)
    obtain db2 q where rec: "outbox_reconcile_sent (ie_commit env) (ie_clock env) mid sid db1 = (db2, q)" by fastforce
    note out = reconcile_outbox [OF rec]
    show ?thesis
    proof (cases q)
      case (Inl x)
      have "d_db st' = db2" "d_events st' = d_events st @ []"
        using failed unfolding send_failed_def aw Some by (auto simp: rec Inl)
      then show ?thesis
        by (rule effect_kept [rotated]) (use out Inl same in simp_all)
    next
      case (Inr u)
      have "outbox (d_db st') = outbox db2" and "d_events st' = d_events st @ [queue_event k ''dequeue_reconciled'' mid,
          MessageSendStatusChanged mid 2 (Some sid)]"
        using failed unfolding send_failed_def aw Some by (auto simp: rec Inr Let_def)
      then show ?thesis
        by (rule effect_settled [rotated]) (use out Inr same in simp_all)
    qed
  next
    case None
    show ?thesis
    proof (cases "is_retryable (dc_codes ctx) e")
      case True
      have "d_db st' = bump_retry env mid retry (error_text e) db1"
        and "d_events st' = d_events st @ [queue_event k (''deferred:'' @ error_text e) mid]"
        using failed unfolding send_failed_def aw None by (auto simp: True)
      then show ?thesis
        by (rule effect_kept [rotated])
          (use has_command_outbox [OF same] in \<open>simp_all add: bump_retry_command\<close>)
    next
      case False
      obtain db2 q where rej: "outbox_reject (ie_commit env) (ie_clock env) mid 3 db1 = (db2, q)" by fastforce
      note out = reject_outbox [OF rej]
      show ?thesis
      proof (cases q)
        case (Inl x)
        have "d_db st' = db2" "d_events st' = d_events st @ []"
          using failed unfolding send_failed_def aw None by (auto simp: False rej Inl)
        then show ?thesis
          by (rule effect_kept [rotated]) (use out Inl same in simp_all)
      next
        case (Inr u)
        have "outbox (d_db st') = outbox db2" and "d_events st' = d_events st @
          [queue_event k (case k of Normal \<Rightarrow> ''failed'' | File \<Rightarrow> ''failed:'' @ error_text e) mid,
           MessageSendStatusChanged mid 3 None, queue_event k ''failed_drop'' mid]"
          using failed unfolding send_failed_def aw None by (auto simp: False rej Inr Let_def)
        then show ?thesis
          by (rule effect_settled [rotated]) (use out Inr same in simp_all)
      qed
    qed
  qed
qed

lemma item_effect_from:
  "item_effect mid (with_db db1 st) st' \<Longrightarrow> outbox db1 = outbox (d_db st) \<Longrightarrow> item_effect mid st st'"
  by (simp add: item_effect_def has_command_outbox [of db1 "d_db st"])

lemma drain_item_effect:
  assumes writes: "\<And>n db. outbox (ie_others env n db) = outbox db"
    and item: "drain_item ctx k env item st = (st', r)"
  shows "item_effect (pk_message_id item) st st'"
proof (cases "get_message_by_id (pk_message_id item) (d_db st)")
  case None
  let ?db = "outbox_drop (pk_message_id item) (d_db st)"
  have "outbox (d_db st') = outbox ?db" and "d_events st' = d_events st @ [queue_event k ''drop_missing'' (pk_message_id item)]"
    using item unfolding drain_item_def Let_def None by auto
  then show ?thesis
    by (rule effect_settled [rotated]) (auto simp: outbox_drop_def delete_commands_def reported_missing_def)
next
  case (Some msg)
  obtain db1 q where lid: "ensure_local_message_id ctx env (pk_message_id item) (d_db st) = (db1, q)" by fastforce
  have same: "outbox db1 = outbox (d_db st)" by (rule ensure_local_message_id_outbox [OF lid])
  have keep: "item_effect (pk_message_id item) st (with_db db1 st)"
    by (rule effect_kept [where evs = "[]"]) (simp_all add: same)
  have "st' = with_db db1 st \<or>
    (\<exists>retry resp. send_accepted ctx k env msg (pk_message_id item) retry resp (with_db db1 st) = (st', r)) \<or>
    (\<exists>retry e. send_failed ctx k env (pk_message_id item) retry e (with_db db1 st) = (st', r))"
    using item unfolding drain_item_def Let_def Some lid
    by (auto split: sum.splits queue_kind.splits)
  then show ?thesis
    using keep item_effect_from [OF send_accepted_effect same] item_effect_from [OF send_failed_effect [OF writes] same]
    by blast
qed

lemma drain_items_accounted:
  assumes writes: "\<And>i n db. outbox (ie_others (env i) n db) = outbox db"
  shows "accounted db0 (d_db st) (d_events st) \<Longrightarrow> drain_items ctx k env items st = (st', r) \<Longrightarrow>
    accounted db0 (d_db st') (d_events st')"
proof (induction items arbitrary: st)
  case (Cons item items)
  obtain st1 e where one: "drain_item ctx k (env (pk_message_id item)) item st = (st1, e)" by fastforce
  have acc: "accounted db0 (d_db st1) (d_events st1)"
    by (rule item_effect_accounted [OF drain_item_effect [OF writes one] Cons.prems(1)])
  show ?case
    using Cons.prems(2) Cons.IH [OF acc] acc by (simp add: one split: item_end.splits)
qed simp

subsection \<open>The drain keeps the store steady\<close>

lemma steady_bump_retry: "steady db \<Longrightarrow> steady (bump_retry env mid retry err db)"
  by (simp add: bump_retry_def bump_steady)

lemma await_loop_steady:
  assumes "\<And>n db. steady db \<Longrightarrow> steady (writes n db)"
  shows "steady db \<Longrightarrow> steady (fst (await_loop writes mid js db))"
  using assms by (induction js arbitrary: db) (auto simp: Let_def split: option.split)

lemma await_steady:
  assumes writes: "\<And>n db. steady db \<Longrightarrow> steady (writes n db)" and "steady db"
    and "await_server_message_id writes mid n db = (db', r)"
  shows "steady db'"
proof -
  have "steady (fst (await_loop writes mid [0..<max n 1] db))"
    by (rule await_loop_steady [OF writes]) (use assms in auto)
  then show ?thesis using assms(3) by (simp add: await_server_message_id_def)
qed

lemma update_local_id_steady: "steady db \<Longrightarrow> steady (fst (update_local_message_id now mid lid db))"
  by (auto simp: update_local_message_id_def intro: update_existing_steady)

lemma ensure_local_message_id_steady:
  assumes "steady db" and "ensure_local_message_id ctx env mid db = (db', r)"
  shows "steady db'"
proof -
  have upd: "steady x" if "update_local_message_id now mid lid db = (x, y)" for now lid x y
    using update_local_id_steady [OF assms(1), of now mid lid] that by simp
  show ?thesis
    using assms by (auto simp: ensure_local_message_id_def split: sum.splits option.splits if_splits prod.splits
        dest: upd)
qed

lemma send_accepted_steady:
  assumes "steady (d_db st)" and "send_accepted ctx k env msg mid retry resp st = (st', e)"
  shows "steady (d_db st')"
proof -
  obtain db1 r where ack: "outbox_ack_sent (ie_commit env) (ie_clock env) mid (resp_server_message_id resp)
      (resp_message_seq resp) (d_db st) = (db1, r)" by fastforce
  have "steady db1" using ack_steady(1) [OF assms(1)] ack by (metis fst_conv)
  then show ?thesis
    using assms(2) unfolding send_accepted_def Let_def ack
    by (auto simp: steady_bump_retry update_last_steady split: sum.splits queue_kind.splits)
qed

lemma send_failed_steady:
  assumes writes: "\<And>n db. steady db \<Longrightarrow> steady (ie_others env n db)"
    and st: "steady (d_db st)" and failed: "send_failed ctx k env mid retry e st = (st', r)"
  shows "steady (d_db st')"
proof -
  obtain db1 found where aw: "await_server_message_id (ie_others env) mid 12 (d_db st) = (db1, found)" by fastforce
  have s1: "steady db1" by (rule await_steady [OF writes st aw])
  have rec: "steady x" if "outbox_reconcile_sent c now mid sid db1 = (x, y)" for c now sid x y
    using reconcile_steady [OF s1, of c now mid sid] that by simp
  have rej: "steady x" if "outbox_reject c now mid 3 db1 = (x, y)" for c now x y
    using reject_steady [OF s1, of 3 c now mid] that by simp
  show ?thesis
    using failed s1 unfolding send_failed_def aw
    by (cases found) (auto simp: steady_bump_retry Let_def dest: rec rej split: if_splits prod.splits sum.splits)
qed

lemma drain_item_steady:
  assumes writes: "\<And>n db. steady db \<Longrightarrow> steady (ie_others env n db)"
    and st: "steady (d_db st)" and item: "drain_item ctx k env item st = (st', r)"
  shows "steady (d_db st')"
proof (cases "get_message_by_id (pk_message_id item) (d_db st)")
  case None
  then have "\<not> has_message (pk_message_id item) (d_db st)" by (simp add: has_message_get [symmetric])
  then have "steady (outbox_drop (pk_message_id item) (d_db st))"
    by (rule outbox_step_steady [OF step_drop st])
  then show ?thesis using item None by (auto simp: drain_item_def Let_def)
next
  case (Some msg)
  obtain db1 q where lid: "ensure_local_message_id ctx env (pk_message_id item) (d_db st) = (db1, q)" by fastforce
  have s1: "steady (d_db (with_db db1 st))" using ensure_local_message_id_steady [OF st lid] by simp
  have "st' = with_db db1 st \<or>
    (\<exists>retry resp. send_accepted ctx k env msg (pk_message_id item) retry resp (with_db db1 st) = (st', r)) \<or>
    (\<exists>retry e. send_failed ctx k env (pk_message_id item) retry e (with_db db1 st) = (st', r))"
    using item unfolding drain_item_def Let_def Some lid
    by (auto split: sum.splits queue_kind.splits)
  then show ?thesis
    using s1 send_accepted_steady [OF s1] send_failed_steady [OF writes s1] by blast
qed

lemma drain_items_steady:
  assumes writes: "\<And>i n db. steady db \<Longrightarrow> steady (ie_others (env i) n db)"
  shows "steady (d_db st) \<Longrightarrow> drain_items ctx k env items st = (st', r) \<Longrightarrow> steady (d_db st')"
proof (induction items arbitrary: st)
  case (Cons item items)
  obtain st1 e where one: "drain_item ctx k (env (pk_message_id item)) item st = (st1, e)" by fastforce
  have "steady (d_db st1)" by (rule drain_item_steady [OF writes Cons.prems(1) one])
  then show ?case
    using Cons.prems(2) Cons.IH by (simp add: one split: item_end.splits)
qed simp

text \<open>Both queues.\<close>

lemma drain_outbound_inv:
  assumes inv: "\<And>k items st st' r. I (d_db st) (d_events st) \<Longrightarrow> drain_items ctx k env items st = (st', r) \<Longrightarrow>
      I (d_db st') (d_events st')"
    and "I db evs" and out: "drain_outbound_queues ctx ss tr env now now2 db evs = (db', evs', r)"
  shows "I db' evs'"
proof (cases "outbound_queue_ready ss (dc_current_uid ctx \<noteq> None) tr")
  case True
  obtain st1 r1 where 1: "drain_normal_queue_once ctx env now OUTBOUND_DRAIN_BATCH_SIZE db evs = (st1, r1)" by fastforce
  obtain st2 r2 where 2: "drain_attachment_outbox_once ctx env now2 OUTBOUND_DRAIN_BATCH_SIZE (d_db st1) (d_events st1) =
      (st2, r2)" by fastforce
  have i1: "I (d_db st1) (d_events st1)"
    by (rule inv [OF _ 1 [unfolded drain_normal_queue_once_def drain_queue_once_def]]) (simp add: assms(2))
  have i2: "I (d_db st2) (d_events st2)"
    by (rule inv [OF _ 2 [unfolded drain_attachment_outbox_once_def drain_queue_once_def]]) (simp add: i1)
  from i1 i2 show ?thesis
    using out True by (auto simp: drain_outbound_queues_def 1 2 split: sum.splits)
next
  case False
  then show ?thesis using out assms(2) by (simp add: drain_outbound_queues_def)
qed

text \<open>C2. Whatever the transport, the upload, the clock and the commits answer, a drain loses no send
  and announces none too early: every command that left the outbox was announced as sent or failed,
  or reported as belonging to no message; a message announced as sent or failed has no command left,
  so it is never sent again; no command appears; and no message shown as being sent is left without
  a command. This holds when other writers of the store, between two polls for a lost answer, leave
  the outbox alone.\<close>

theorem drain_accounts_for_every_send:
  assumes "\<And>i n db. outbox (ie_others (env i) n db) = outbox db"
    and "\<And>i n db. steady db \<Longrightarrow> steady (ie_others (env i) n db)" and "outbox_reachable db"
    and "drain_outbound_queues ctx ss tr env now now2 db [] = (db', evs, r)"
  shows "(\<forall>i. has_command i db \<longrightarrow> has_command i db' \<or>
        (\<exists>mid. as_i64 mid = i \<and> (published evs mid \<or> reported_missing evs mid))) \<and>
     (\<forall>mid. published evs mid \<longrightarrow> \<not> has_command (as_i64 mid) db') \<and>
     (\<forall>i. has_command i db' \<longrightarrow> has_command i db) \<and> no_ghost db'"
proof -
  have "accounted db db' evs"
    by (rule drain_outbound_inv [of "accounted db", OF _ _ assms(4)])
      (rule drain_items_accounted [OF assms(1)], assumption+, simp add: accounted_def published_def)
  moreover have "steady db'"
    by (rule drain_outbound_inv [of "\<lambda>d e. steady d", OF _ _ assms(4)])
      (rule drain_items_steady [OF assms(2)], assumption+, simp add: reachable_steady assms(3))
  ultimately show ?thesis by (simp add: accounted_def steady_def)
qed

definition example_env :: item_env where
  "example_env = \<lparr>ie_encode = \<lambda>m lid. Inr (),
     ie_reply = Inr \<lparr>reason_code = 99, resp_server_message_id = 0, resp_message_seq = 0\<rparr>,
     ie_upload = Inl NotConnected, ie_fresh_id = Inr 78, ie_commit = None, ie_bump_written = True,
     ie_others = \<lambda>n db. db, ie_clock = 2000\<rparr>"

definition example_ctx :: drain_ctx where
  "example_ctx = \<lparr>dc_codes = example_codes, dc_uid = ''4'', dc_current_uid = Some ''4'', dc_bootstrapped = True,
     dc_directory = \<lparr>dir_users = [], dir_groups = [], dir_members = []\<rparr>\<rparr>"


lemma example_peek:
  "outbox_peek ''message'' 20 1000 example_queued =
     [\<lparr>pk_message_id = 1, pk_command_type = ''message'', pk_channel_id = 7, pk_payload = ''hi'',
       pk_route_key = None, pk_retry_count = 0\<rparr>]"
  by (simp add: example_queued_eq outbox_peek_def due_def command_row_def peeked_of_def as_u64_def)

text \<open>C40. A message that cannot be turned into a request blocks everything behind it. When the first
  due message has a negative type, which the store accepts, the drain returns the error of the
  conversion: the database and the events are as before, its command keeps its place with no attempt
  counted, and neither a later message nor any attachment is sent. The next drain, at any time, ends
  the same way.\<close>

theorem unsendable_message_blocks_queue:
  assumes "outbox_peek ''message'' OUTBOUND_DRAIN_BATCH_SIZE now db = item # rest"
    and "get_message_by_id (pk_message_id item) db = Some msg" and "sm_message_type msg < 0"
    and "get_local_message_id (pk_message_id item) db = Some lid" and "lid > 0"
    and "dc_bootstrapped ctx" and "dc_current_uid ctx = Some uid"
  shows "drain_outbound_queues ctx Authenticated True env now now2 db evs =
    (db, evs, Inl (InvalidState (''invalid message_type: '' @ show_int (sm_message_type msg))))"
proof -
  let ?st = "\<lparr>d_db = db, d_events = evs, d_processed = 0\<rparr>"
  have lid: "ensure_local_message_id ctx (env (pk_message_id item)) (pk_message_id item) db = (db, Inr lid)"
    using assms by (simp add: ensure_local_message_id_def current_uid_required_def)
  have "drain_item ctx Normal (env (pk_message_id item)) item ?st =
      (?st, Return (InvalidState (''invalid message_type: '' @ show_int (sm_message_type msg))))"
    using assms by (simp add: drain_item_def Let_def lid build_send_message_request_def with_db_def)
  then show ?thesis
    using assms by (simp add: drain_outbound_queues_def outbound_queue_ready_def drain_normal_queue_once_def
        drain_queue_once_def)
qed

text \<open>A message of type -1 queued ahead of a good one.\<close>

definition poison_db :: message_db where
  "poison_db = \<lparr>messages = [local_row 1 1 (example_new\<lparr>n_message_type := - 1\<rparr>) 77 100, local_row 2 1 example_new 78 200],
     next_message_id = 3, extras = [],
     outbox = [command_row 1 100 ''msg:77'' ''message'' 1 7 ''hi'' None,
       command_row 2 200 ''msg:78'' ''message'' 2 7 ''ok'' None], next_outbox_id = 3,
     channels = [], channel_extras = [], side = empty_side\<rparr>"

theorem unsendable_message_blocks_queue_witness:
  "drain_outbound_queues example_ctx Authenticated True (\<lambda>_. example_env) 1000 1000 poison_db [] =
    (poison_db, [], Inl (InvalidState (''invalid message_type: '' @ show_int (- 1)))) \<and>
   length (outbox poison_db) = 2"
proof -
  let ?row = "local_row 1 1 (example_new\<lparr>n_message_type := - 1\<rparr>) 77 100"
  have i2: "as_i64 2 = 2" "as_u64 77 = 77" "as_u64 2 = 2" by (simp_all add: as_i64_def as_u64_def)
  have peek: "outbox_peek ''message'' OUTBOUND_DRAIN_BATCH_SIZE 1000 poison_db =
      [peeked_of (command_row 1 100 ''msg:77'' ''message'' 1 7 ''hi'' None),
       peeked_of (command_row 2 200 ''msg:78'' ''message'' 2 7 ''ok'' None)]"
    by (simp add: poison_db_def outbox_peek_def due_def command_row_def OUTBOUND_DRAIN_BATCH_SIZE_def)
  have mid: "pk_message_id (peeked_of (command_row 1 100 ''msg:77'' ''message'' 1 7 ''hi'' None)) = 1"
    by (simp add: peeked_of_def command_row_def as_u64_def)
  have row: "find (by_id 1) (messages poison_db) = Some ?row"
    by (simp add: poison_db_def by_id_def)
  have msg: "get_message_by_id 1 poison_db = Some (stored_message_from_row poison_db ?row)"
    using row by (simp add: get_message_by_id_def)
  have type: "sm_message_type (stored_message_from_row poison_db ?row) = - 1"
    by (simp add: stored_message_from_row_def Let_def local_row_def)
  have lid: "get_local_message_id 1 poison_db = Some 77"
    using row by (simp add: get_local_message_id_def local_row_def i2)
  have "length (outbox poison_db) = 2" by (simp add: poison_db_def)
  then show ?thesis
    using unsendable_message_blocks_queue [OF peek, of "stored_message_from_row poison_db ?row" 77 example_ctx "''4''"
        "\<lambda>_. example_env" 1000 "[]", unfolded mid, OF msg _ lid] type
    by (simp add: example_ctx_def)
qed

theorem drain_accounts_for_every_send_witness:
  "\<exists>db' evs r. drain_outbound_queues example_ctx Authenticated True (\<lambda>_. example_env) 1000 1000 example_queued [] =
      (db', evs, r) \<and> no_ghost db' \<and>
      (has_command 1 db' \<or> (\<exists>mid. as_i64 mid = 1 \<and> (published evs mid \<or> reported_missing evs mid)))"
proof -
  obtain db' evs r where run: "drain_outbound_queues example_ctx Authenticated True (\<lambda>_. example_env) 1000 1000
      example_queued [] = (db', evs, r)" by (metis surj_pair)
  have "has_command 1 example_queued" by (simp add: example_queued_eq has_command_def)
  then show ?thesis
    using drain_accounts_for_every_send [OF _ _ example_queued_reachable run] run
    by (auto simp: example_env_def)
qed

end
