(* ===== verification/Account_Store.thy ===== *)
theory Account_Store
  imports Error_Model "HOL-Library.List_Lexorder"
begin

text \<open>
  The account files (\<open>local_store.rs\<close>): credentials, bootstrap mark and registry of the local
  accounts, and the file naming the current one.

  An account directory is a record of the keys of its trees; a registry key \<open>acct/<uid>/..\<close> is a map
  indexed by the account. The cipher and the clock are arguments. \<open>fault k\<close> is the text with which
  the storage engine refuses the \<open>k\<close>-th write of an operation, if it does; what was written before
  stays. Reads of the engine succeed.
\<close>

subsection \<open>Data\<close>

record session_snapshot =
  ss_user_id :: u64
  ss_token :: string
  ss_device_id :: string
  ss_bootstrap_completed :: bool

record login_result =
  lr_user_id :: u64
  lr_token :: string
  lr_device_id :: string
  lr_expires_at :: u64

record account =
  a_wrapped_key :: "string option"
  a_wrap_nonce :: "string option"
  a_token_enc :: "string option"
  a_token_nonce :: "string option"
  a_device_id :: "string option"
  a_expire_at :: "int option"
  a_profile_uid :: "string option"
  a_bootstrap :: "int option"
  a_legacy :: "session_snapshot option"

record accounts_disk =
  k_accounts :: "string \<Rightarrow> account"
  k_active_uid :: "string option"
  k_created_at :: "string \<Rightarrow> int option"
  k_last_login :: "(string \<times> int) list"
  k_text :: "string \<Rightarrow> string \<Rightarrow> string option"
  k_current_uid :: "string option"

text \<open>AES-GCM with associated data, and the key wrapping built on it.\<close>

record cipher =
  seal :: "string \<Rightarrow> string \<Rightarrow> string \<Rightarrow> string \<Rightarrow> string"
  unseal :: "string \<Rightarrow> string \<Rightarrow> string \<Rightarrow> string \<Rightarrow> string option"
  wrap_key :: "string \<Rightarrow> string \<Rightarrow> string \<Rightarrow> string"
  unwrap_key :: "string \<Rightarrow> string \<Rightarrow> string \<Rightarrow> string option"

definition empty_account :: account where
  "empty_account = \<lparr>a_wrapped_key = None, a_wrap_nonce = None, a_token_enc = None, a_token_nonce = None,
     a_device_id = None, a_expire_at = None, a_profile_uid = None, a_bootstrap = None, a_legacy = None\<rparr>"

definition empty_disk :: accounts_disk where
  "empty_disk = \<lparr>k_accounts = \<lambda>_. empty_account, k_active_uid = None, k_created_at = \<lambda>_. None, k_last_login = [],
     k_text = \<lambda>_ _. None, k_current_uid = None\<rparr>"

subsection \<open>Sequences of writes\<close>

type_synonym fault = "nat \<Rightarrow> string option"
type_synonym disk_write = "string \<times> (accounts_disk \<Rightarrow> accounts_disk)"

fun run_writes :: "fault \<Rightarrow> nat \<Rightarrow> disk_write list \<Rightarrow> accounts_disk \<Rightarrow> accounts_disk \<times> unit result" where
  "run_writes fault k [] d = (d, Inr ())"
| "run_writes fault k ((ctx, w) # ws) d =
     (case fault k of
        Some e \<Rightarrow> (d, Inl (Storage (ctx @ '': '' @ e)))
      | None \<Rightarrow> run_writes fault (Suc k) ws (w d))"

definition on_account :: "string \<Rightarrow> (account \<Rightarrow> account) \<Rightarrow> accounts_disk \<Rightarrow> accounts_disk" where
  "on_account uid f d = d\<lparr>k_accounts := (k_accounts d)(uid := f (k_accounts d uid))\<rparr>"

subsection \<open>Keys and tokens\<close>

definition load_master_key :: "cipher \<Rightarrow> string \<Rightarrow> accounts_disk \<Rightarrow> string result" where
  "load_master_key c uid d =
     (case (a_wrapped_key (k_accounts d uid), a_wrap_nonce (k_accounts d uid)) of
        (None, _) \<Rightarrow> Inl (Storage ''master key not initialized'')
      | (_, None) \<Rightarrow> Inl (Storage ''master key nonce not initialized'')
      | (Some w, Some n) \<Rightarrow>
          if length n \<noteq> 12 then Inl (Storage ''invalid wrapped master key nonce length, expect 12 bytes'')
          else (case unwrap_key c uid n w of
                  Some k \<Rightarrow> Inr k | None \<Rightarrow> Inl (Storage ''unwrap master key: aead::Error'')))"

definition decrypt_user_blob ::
  "cipher \<Rightarrow> string \<Rightarrow> string \<Rightarrow> string \<Rightarrow> string \<Rightarrow> string result" where
  "decrypt_user_blob c uid key enc nonce =
     (if length nonce \<noteq> 12 then Inl (Storage ''invalid nonce length for access_token, expect 12 bytes'')
      else (case unseal c key uid nonce enc of
              Some t \<Rightarrow> Inr t | None \<Rightarrow> Inl (Storage ''decrypt access_token: aead::Error'')))"

text \<open>The writes that make a fresh master key, none when the account has one already.\<close>

definition master_key_writes ::
  "cipher \<Rightarrow> string \<Rightarrow> string \<Rightarrow> string \<Rightarrow> accounts_disk \<Rightarrow> string result \<times> disk_write list" where
  "master_key_writes c uid fresh nonce d =
     (if a_wrapped_key (k_accounts d uid) \<noteq> None \<and> a_wrap_nonce (k_accounts d uid) \<noteq> None
      then (load_master_key c uid d, [])
      else (Inr fresh,
        [(''save wrapped master key'', on_account uid (\<lambda>a. a\<lparr>a_wrapped_key := Some (wrap_key c uid nonce fresh)\<rparr>)),
         (''save wrapped master key nonce'', on_account uid (\<lambda>a. a\<lparr>a_wrap_nonce := Some nonce\<rparr>))]))"

subsection \<open>The bootstrap mark\<close>

definition load_bootstrap_completed :: "string \<Rightarrow> accounts_disk \<Rightarrow> bool" where
  "load_bootstrap_completed uid d =
     (case a_bootstrap (k_accounts d uid) of
        Some v \<Rightarrow> v \<noteq> 0
      | None \<Rightarrow> (case a_legacy (k_accounts d uid) of Some s \<Rightarrow> ss_bootstrap_completed s | None \<Rightarrow> False))"

definition set_bootstrap_completed :: "fault \<Rightarrow> string \<Rightarrow> bool \<Rightarrow> accounts_disk \<Rightarrow> accounts_disk \<times> unit result" where
  "set_bootstrap_completed fault uid completed d =
     run_writes fault 0
       [(''set bootstrap completed'', on_account uid (\<lambda>a. a\<lparr>a_bootstrap := Some (if completed then 1 else 0)\<rparr>)),
        (''flush bootstrap completed'', \<lambda>d. d)] d"

subsection \<open>Logging in and out\<close>

definition try_from_u64 :: "u64 \<Rightarrow> int" where
  "try_from_u64 w = (if uint w \<le> i64_max then uint w else i64_max)"

record login_entropy =
  le_key :: string
  le_wrap_nonce :: string
  le_token_nonce :: string

definition put_last_login :: "string \<Rightarrow> int \<Rightarrow> (string \<times> int) list \<Rightarrow> (string \<times> int) list" where
  "put_last_login uid now ls = (uid, now) # filter (\<lambda>e. fst e \<noteq> uid) ls"

definition login_writes ::
  "cipher \<Rightarrow> login_entropy \<Rightarrow> int \<Rightarrow> string \<Rightarrow> login_result \<Rightarrow> string \<Rightarrow> bool \<Rightarrow> bool \<Rightarrow> disk_write list" where
  "login_writes c ent now uid login key boot first =
     [(''save schema version'', \<lambda>d. d), (''save wrap version'', \<lambda>d. d), (''save wrap alg'', \<lambda>d. d),
      (''save last_login_at'', \<lambda>d. d),
      (''save bootstrap completed'', on_account uid (\<lambda>a. a\<lparr>a_bootstrap := Some (if boot then 1 else 0)\<rparr>)),
      (''save user_wrap_enabled'', \<lambda>d. d), (''save user_wrap_version'', \<lambda>d. d),
      (''save profile uid'', on_account uid (\<lambda>a. a\<lparr>a_profile_uid := Some uid\<rparr>)),
      (''save profile_updated_at'', \<lambda>d. d), (''save access token alg'', \<lambda>d. d),
      (''save access token enc'',
         on_account uid (\<lambda>a. a\<lparr>a_token_enc := Some (seal c key uid (le_token_nonce ent) (lr_token login))\<rparr>)),
      (''save access token nonce'', on_account uid (\<lambda>a. a\<lparr>a_token_nonce := Some (le_token_nonce ent)\<rparr>)),
      (''save device_id'', on_account uid (\<lambda>a. a\<lparr>a_device_id := Some (lr_device_id login)\<rparr>)),
      (''save token expire_at'', on_account uid (\<lambda>a. a\<lparr>a_expire_at := Some (try_from_u64 (lr_expires_at login))\<rparr>)),
      (''save accounts schema'', \<lambda>d. d),
      (''save active uid'', \<lambda>d. d\<lparr>k_active_uid := Some uid\<rparr>)]
     @ (if first then [(''save account created_at'', \<lambda>d. d\<lparr>k_created_at := (k_created_at d)(uid := Some now)\<rparr>)] else [])
     @ [(''save account last_login_at'', \<lambda>d. d\<lparr>k_last_login := put_last_login uid now (k_last_login d)\<rparr>),
        (''clear legacy session'', on_account uid (\<lambda>a. a\<lparr>a_legacy := None\<rparr>)),
        (''write current uid'', \<lambda>d. d\<lparr>k_current_uid := Some uid\<rparr>)]"

definition save_login ::
  "cipher \<Rightarrow> login_entropy \<Rightarrow> fault \<Rightarrow> int \<Rightarrow> string \<Rightarrow> login_result \<Rightarrow> accounts_disk \<Rightarrow>
   accounts_disk \<times> unit result" where
  "save_login c ent fault now uid login d =
     (let boot = load_bootstrap_completed uid d
      in case master_key_writes c uid (le_key ent) (le_wrap_nonce ent) d of
           (Inl e, _) \<Rightarrow> (d, Inl e)
         | (Inr key, ws) \<Rightarrow>
             run_writes fault 0
               (ws @ login_writes c ent now uid login key boot (k_created_at d uid = None)) d)"

definition clear_session :: "fault \<Rightarrow> string \<Rightarrow> accounts_disk \<Rightarrow> accounts_disk \<times> unit result" where
  "clear_session fault uid d =
     run_writes fault 0
       ([(''clear access token'', on_account uid (\<lambda>a. a\<lparr>a_token_enc := None\<rparr>)),
         (''clear access token nonce'', on_account uid (\<lambda>a. a\<lparr>a_token_nonce := None\<rparr>)),
         (''clear device_id'', on_account uid (\<lambda>a. a\<lparr>a_device_id := None\<rparr>)),
         (''clear token expire_at'', on_account uid (\<lambda>a. a\<lparr>a_expire_at := None\<rparr>))]
        @ (if k_active_uid d = Some uid
           then [(''clear active uid'', \<lambda>d. d\<lparr>k_active_uid := None\<rparr>), (''flush global db'', \<lambda>d. d)] else [])
        @ [(''clear legacy session'', on_account uid (\<lambda>a. a\<lparr>a_legacy := None\<rparr>))]) d"

text \<open>The new token goes in by one batch of the engine, which is atomic.\<close>

definition update_access_token ::
  "cipher \<Rightarrow> string \<Rightarrow> fault \<Rightarrow> string \<Rightarrow> string \<Rightarrow> u64 option \<Rightarrow> accounts_disk \<Rightarrow> accounts_disk \<times> unit result" where
  "update_access_token c nonce fault uid token expires d =
     (case load_master_key c uid d of
        Inl e \<Rightarrow> (d, Inl e)
      | Inr key \<Rightarrow>
          run_writes fault 0
            [(''apply access token batch'', on_account uid (\<lambda>a.
                a\<lparr>a_token_enc := Some (seal c key uid nonce token), a_token_nonce := Some nonce,
                  a_expire_at := (case expires of Some x \<Rightarrow> Some (try_from_u64 x) | None \<Rightarrow> a_expire_at a)\<rparr>))] d)"

subsection \<open>Reading a session\<close>

definition load_session_from_account ::
  "cipher \<Rightarrow> string \<Rightarrow> accounts_disk \<Rightarrow> session_snapshot option result" where
  "load_session_from_account c uid d =
     (let a = k_accounts d uid in
      case (a_token_enc a, a_token_nonce a, a_device_id a, a_profile_uid a) of
        (Some enc, Some nonce, Some dev, Some puid) \<Rightarrow>
          (case load_master_key c uid d of
             Inl e \<Rightarrow> Inl e
           | Inr key \<Rightarrow>
               (case decrypt_user_blob c uid key enc nonce of
                  Inl e \<Rightarrow> Inl e
                | Inr token \<Rightarrow>
                    (case parse_u64 puid of
                       None \<Rightarrow> Inl (Storage ''parse profile uid'')
                     | Some n \<Rightarrow> Inr (Some \<lparr>ss_user_id = of_nat n, ss_token = token, ss_device_id = dev,
                         ss_bootstrap_completed = (case a_bootstrap a of Some v \<Rightarrow> v \<noteq> 0 | None \<Rightarrow> False)\<rparr>))))
      | _ \<Rightarrow> Inr None)"

definition load_session ::
  "cipher \<Rightarrow> login_entropy \<Rightarrow> fault \<Rightarrow> fault \<Rightarrow> int \<Rightarrow> string \<Rightarrow> accounts_disk \<Rightarrow>
   accounts_disk \<times> session_snapshot option result" where
  "load_session c ent fault fault2 now uid d =
     (case load_session_from_account c uid d of
        Inl e \<Rightarrow> (d, Inl e)
      | Inr (Some s) \<Rightarrow> (d, Inr (Some s))
      | Inr None \<Rightarrow>
          (case a_legacy (k_accounts d uid) of
             None \<Rightarrow> (d, Inr None)
           | Some l \<Rightarrow>
               (case save_login c ent fault now uid
                       \<lparr>lr_user_id = ss_user_id l, lr_token = ss_token l, lr_device_id = ss_device_id l,
                        lr_expires_at = 0\<rparr> d of
                  (d1, Inl e) \<Rightarrow> (d1, Inl e)
                | (d1, Inr _) \<Rightarrow>
                    (case set_bootstrap_completed fault2 uid (ss_bootstrap_completed l) d1 of
                       (d2, Inl e) \<Rightarrow> (d2, Inl e)
                     | (d2, Inr _) \<Rightarrow> (d2, Inr (Some l))))))"

definition load_access_token :: "cipher \<Rightarrow> string \<Rightarrow> accounts_disk \<Rightarrow> string option result" where
  "load_access_token c uid d =
     (case (a_token_enc (k_accounts d uid), a_token_nonce (k_accounts d uid)) of
        (Some enc, Some nonce) \<Rightarrow>
          (case load_master_key c uid d of
             Inl e \<Rightarrow> Inl e
           | Inr key \<Rightarrow> (case decrypt_user_blob c uid key enc nonce of Inl e \<Rightarrow> Inl e | Inr t \<Rightarrow> Inr (Some t)))
      | _ \<Rightarrow> Inr None)"

subsection \<open>The registry and the current account\<close>

record local_account_entry =
  la_uid :: string
  la_created_at :: int
  la_last_login_at :: int
  la_display_name :: "string option"
  la_username :: "string option"
  la_login_mode :: "string option"
  la_login_identifier :: "string option"

definition read_text :: "string \<Rightarrow> string \<Rightarrow> accounts_disk \<Rightarrow> string option" where
  "read_text uid field d =
     (case k_text d uid field of
        None \<Rightarrow> None
      | Some raw \<Rightarrow> if trim raw = [] then None else Some (trim raw))"

definition text_fields :: "string list" where
  "text_fields = [''display_name'', ''username'', ''login_mode'', ''login_identifier'']"

definition put_text :: "string \<Rightarrow> string \<times> string option \<Rightarrow> disk_write list" where
  "put_text uid fv =
     (case snd fv of
        None \<Rightarrow> []
      | Some v \<Rightarrow> if trim v = [] then []
          else [(''write account display name'',
                 \<lambda>d. d\<lparr>k_text := (k_text d)(uid := (k_text d uid)(fst fv := Some (trim v)))\<rparr>)])"

definition save_account_display_name ::
  "fault \<Rightarrow> string \<Rightarrow> string option list \<Rightarrow> accounts_disk \<Rightarrow> accounts_disk \<times> unit result" where
  "save_account_display_name fault uid values d =
     run_writes fault 0 (concat (map (put_text uid) (zip text_fields values))) d"

definition account_entry :: "accounts_disk \<Rightarrow> string \<times> int \<Rightarrow> local_account_entry" where
  "account_entry d e =
     \<lparr>la_uid = fst e, la_created_at = (case k_created_at d (fst e) of Some t \<Rightarrow> t | None \<Rightarrow> snd e),
      la_last_login_at = snd e, la_display_name = read_text (fst e) ''display_name'' d,
      la_username = read_text (fst e) ''username'' d, la_login_mode = read_text (fst e) ''login_mode'' d,
      la_login_identifier = read_text (fst e) ''login_identifier'' d\<rparr>"

definition load_current_uid :: "accounts_disk \<Rightarrow> string option" where
  "load_current_uid d =
     (case k_current_uid d of
        None \<Rightarrow> None
      | Some raw \<Rightarrow> if trim raw = [] then None else Some (trim raw))"

definition list_local_accounts :: "accounts_disk \<Rightarrow> string option \<times> local_account_entry list" where
  "list_local_accounts d =
     (load_current_uid d,
      sort_key (\<lambda>e. - la_last_login_at e) (sort_key la_uid (map (account_entry d) (k_last_login d))))"

definition save_current_uid :: "fault \<Rightarrow> string \<Rightarrow> accounts_disk \<Rightarrow> accounts_disk \<times> unit result" where
  "save_current_uid fault uid d = run_writes fault 0 [(''write current uid'', \<lambda>d. d\<lparr>k_current_uid := Some uid\<rparr>)] d"

definition clear_current_uid :: "fault \<Rightarrow> accounts_disk \<Rightarrow> accounts_disk \<times> unit result" where
  "clear_current_uid fault d =
     (if k_current_uid d = None then (d, Inr ())
      else run_writes fault 0 [(''clear current uid'', \<lambda>d. d\<lparr>k_current_uid := None\<rparr>)] d)"

definition flush_user :: "fault \<Rightarrow> accounts_disk \<Rightarrow> accounts_disk \<times> unit result" where
  "flush_user fault d = run_writes fault 0 [(''flush account db'', \<lambda>d. d), (''flush global db'', \<lambda>d. d)] d"

definition wipe_user_full :: "fault \<Rightarrow> string \<Rightarrow> accounts_disk \<Rightarrow> accounts_disk \<times> unit result" where
  "wipe_user_full fault uid d =
     run_writes fault 0
       ([(''remove user dir'', on_account uid (\<lambda>_. empty_account)),
         (''remove account last_login_at'', \<lambda>d. d\<lparr>k_last_login := filter (\<lambda>e. fst e \<noteq> uid) (k_last_login d)\<rparr>),
         (''remove account created_at'', \<lambda>d. d\<lparr>k_created_at := (k_created_at d)(uid := None)\<rparr>)]
        @ (if k_active_uid d = Some uid then [(''remove active uid'', \<lambda>d. d\<lparr>k_active_uid := None\<rparr>)] else [])
        @ [(''flush global db'', \<lambda>d. d)]
        @ (if load_current_uid d = Some uid then [(''clear current uid'', \<lambda>d. d\<lparr>k_current_uid := None\<rparr>)] else [])) d"

subsection \<open>Lemmas\<close>

lemma run_writes_ok: "(\<And>i. fault i = None) \<Longrightarrow> run_writes fault k ws d = (fold snd ws d, Inr ())"
  by (induction ws arbitrary: k d) auto

text \<open>An operation that fails has done a proper prefix of its writes.\<close>

lemma run_writes_fails:
  assumes "fault (k + n) = Some e" and "\<And>i. i < n \<Longrightarrow> fault (k + i) = None" and "n < length ws"
  shows "run_writes fault k ws d = (fold snd (take n ws) d, Inl (Storage (fst (ws ! n) @ '': '' @ e)))"
  using assms
proof (induction ws arbitrary: k n d)
  case (Cons w ws)
  obtain ctx f where w: "w = (ctx, f)" by (cases w)
  show ?case
  proof (cases n)
    case 0
    then show ?thesis using Cons.prems w by simp
  next
    case (Suc m)
    have z: "fault k = None" using Cons.prems(2) [of 0] Suc by simp
    have "run_writes fault (Suc k) ws (f d) = (fold snd (take m ws) (f d), Inl (Storage (fst (ws ! m) @ '': '' @ e)))"
    proof (rule Cons.IH)
      show "fault (Suc k + m) = Some e" using Cons.prems(1) Suc by simp
      show "fault (Suc k + i) = None" if "i < m" for i using Cons.prems(2) [of "Suc i"] that Suc by simp
      show "m < length ws" using Cons.prems(3) Suc by simp
    qed
    then show ?thesis using w Suc z by simp
  qed
qed simp

lemma on_account_simps [simp]:
  "k_accounts (on_account uid f d) = (k_accounts d)(uid := f (k_accounts d uid))"
  "k_active_uid (on_account uid f d) = k_active_uid d" "k_current_uid (on_account uid f d) = k_current_uid d"
  "k_created_at (on_account uid f d) = k_created_at d" "k_last_login (on_account uid f d) = k_last_login d"
  "k_text (on_account uid f d) = k_text d"
  by (simp_all add: on_account_def)

text \<open>What the code relies on: the cipher opens what it sealed, with a nonce of twelve bytes.\<close>

definition cipher_ok :: "cipher \<Rightarrow> bool" where
  "cipher_ok c \<longleftrightarrow> (\<forall>k u n t. unseal c k u n (seal c k u n t) = Some t) \<and>
     (\<forall>u n k. unwrap_key c u n (wrap_key c u n k) = Some k)"

definition entropy_ok :: "login_entropy \<Rightarrow> bool" where
  "entropy_ok ent \<longleftrightarrow> length (le_wrap_nonce ent) = 12 \<and> length (le_token_nonce ent) = 12"

definition key_ok :: "cipher \<Rightarrow> string \<Rightarrow> accounts_disk \<Rightarrow> bool" where
  "key_ok c uid d \<longleftrightarrow> a_wrapped_key (k_accounts d uid) = None \<or> a_wrap_nonce (k_accounts d uid) = None \<or>
     (\<exists>k. load_master_key c uid d = Inr k)"

lemma login_writes_effect:
  fixes c ent now uid login key boot first d
  defines "d1 \<equiv> fold snd (login_writes c ent now uid login key boot first) d"
  shows "k_accounts d1 = (k_accounts d)(uid := (k_accounts d uid)
      \<lparr>a_bootstrap := Some (if boot then 1 else 0), a_profile_uid := Some uid,
       a_token_enc := Some (seal c key uid (le_token_nonce ent) (lr_token login)),
       a_token_nonce := Some (le_token_nonce ent), a_device_id := Some (lr_device_id login),
       a_expire_at := Some (try_from_u64 (lr_expires_at login)), a_legacy := None\<rparr>)"
    and "k_current_uid d1 = Some uid" and "k_active_uid d1 = Some uid"
  by (cases first; simp add: d1_def login_writes_def)+

text \<open>The account after a login without faults.\<close>

lemma save_login_account:
  assumes "cipher_ok c" and "entropy_ok ent" and "key_ok c uid d"
    and "save_login c ent (\<lambda>_. None) now uid login d = (d', r)"
  shows "r = Inr ()" and "\<exists>key w n. k_accounts d' = (k_accounts d)(uid :=
      \<lparr>a_wrapped_key = Some w, a_wrap_nonce = Some n,
       a_token_enc = Some (seal c key uid (le_token_nonce ent) (lr_token login)),
       a_token_nonce = Some (le_token_nonce ent), a_device_id = Some (lr_device_id login),
       a_expire_at = Some (try_from_u64 (lr_expires_at login)), a_profile_uid = Some uid,
       a_bootstrap = Some (if load_bootstrap_completed uid d then 1 else 0), a_legacy = None\<rparr>) \<and>
      length n = 12 \<and> unwrap_key c uid n w = Some key"
    and "k_current_uid d' = Some uid" and "k_active_uid d' = Some uid"
proof -
  let ?boot = "load_bootstrap_completed uid d"
  have run: "run_writes (\<lambda>_. None) 0 ws d = (fold snd ws d, Inr ())" for ws
    by (rule run_writes_ok) simp
  obtain key ws where m: "master_key_writes c uid (le_key ent) (le_wrap_nonce ent) d = (Inr key, ws)"
    and ws: "ws = [] \<and> load_master_key c uid d = Inr key \<or>
      key = le_key ent \<and> ws = [(''save wrapped master key'', on_account uid (\<lambda>a. a\<lparr>a_wrapped_key := Some (wrap_key c uid (le_wrap_nonce ent) key)\<rparr>)),
         (''save wrapped master key nonce'', on_account uid (\<lambda>a. a\<lparr>a_wrap_nonce := Some (le_wrap_nonce ent)\<rparr>))]"
    using assms(3) by (fastforce simp: master_key_writes_def key_ok_def split: if_splits)
  have d': "d' = fold snd (login_writes c ent now uid login key ?boot (k_created_at d uid = None)) (fold snd ws d)"
    and r: "r = Inr ()"
    using assms(4) by (auto simp: save_login_def Let_def m run)
  show "r = Inr ()" by (rule r)
  have old: "\<exists>w n. a_wrapped_key (k_accounts d uid) = Some w \<and> a_wrap_nonce (k_accounts d uid) = Some n \<and>
      length n = 12 \<and> unwrap_key c uid n w = Some key" if "load_master_key c uid d = Inr key"
    using that by (auto simp: load_master_key_def split: option.splits if_splits)
  show "\<exists>key w n. k_accounts d' = (k_accounts d)(uid :=
      \<lparr>a_wrapped_key = Some w, a_wrap_nonce = Some n,
       a_token_enc = Some (seal c key uid (le_token_nonce ent) (lr_token login)),
       a_token_nonce = Some (le_token_nonce ent), a_device_id = Some (lr_device_id login),
       a_expire_at = Some (try_from_u64 (lr_expires_at login)), a_profile_uid = Some uid,
       a_bootstrap = Some (if ?boot then 1 else 0), a_legacy = None\<rparr>) \<and>
      length n = 12 \<and> unwrap_key c uid n w = Some key"
    using ws
  proof
    assume a: "ws = [] \<and> load_master_key c uid d = Inr key"
    with old obtain w n where "a_wrapped_key (k_accounts d uid) = Some w" "a_wrap_nonce (k_accounts d uid) = Some n"
      "length n = 12" "unwrap_key c uid n w = Some key" by blast
    with a show ?thesis
      by - (rule exI [of _ key], rule exI [of _ w], rule exI [of _ n],
        cases "k_accounts d uid", simp add: d' login_writes_effect)
  next
    assume a: "key = le_key ent \<and> ws = [(''save wrapped master key'', on_account uid (\<lambda>a. a\<lparr>a_wrapped_key := Some (wrap_key c uid (le_wrap_nonce ent) key)\<rparr>)),
         (''save wrapped master key nonce'', on_account uid (\<lambda>a. a\<lparr>a_wrap_nonce := Some (le_wrap_nonce ent)\<rparr>))]"
    then show ?thesis
      using assms(1,2)
      by - (rule exI [of _ key], rule exI [of _ "wrap_key c uid (le_wrap_nonce ent) key"],
        rule exI [of _ "le_wrap_nonce ent"], cases "k_accounts d uid",
        simp add: d' login_writes_effect cipher_ok_def entropy_ok_def)
  qed
  show "k_current_uid d' = Some uid" "k_active_uid d' = Some uid"
    by (simp_all add: d' login_writes_effect)
qed

definition snapshot_of :: "login_result \<Rightarrow> bool \<Rightarrow> session_snapshot" where
  "snapshot_of login boot =
     \<lparr>ss_user_id = lr_user_id login, ss_token = lr_token login, ss_device_id = lr_device_id login,
      ss_bootstrap_completed = boot\<rparr>"

lemma load_after_login:
  assumes "cipher_ok c" and "entropy_ok ent" and "key_ok c uid d" and "uid = show_u64 (lr_user_id login)"
    and "save_login c ent (\<lambda>_. None) now uid login d = (d', r)"
  shows "load_session_from_account c uid d' = Inr (Some (snapshot_of login (load_bootstrap_completed uid d)))"
    and "load_bootstrap_completed uid d' = load_bootstrap_completed uid d" and "key_ok c uid d'"
proof -
  from save_login_account(2) [OF assms(1,2,3,5)] obtain key w n where
    acc: "k_accounts d' = (k_accounts d)(uid :=
      \<lparr>a_wrapped_key = Some w, a_wrap_nonce = Some n,
       a_token_enc = Some (seal c key uid (le_token_nonce ent) (lr_token login)),
       a_token_nonce = Some (le_token_nonce ent), a_device_id = Some (lr_device_id login),
       a_expire_at = Some (try_from_u64 (lr_expires_at login)), a_profile_uid = Some uid,
       a_bootstrap = Some (if load_bootstrap_completed uid d then 1 else 0), a_legacy = None\<rparr>)"
    and k: "length n = 12" "unwrap_key c uid n w = Some key" by blast
  have key: "load_master_key c uid d' = Inr key"
    by (simp add: load_master_key_def acc k)
  have puid: "parse_u64 uid = Some (unat (lr_user_id login))"
    by (simp add: assms(4) parse_u64_show_u64)
  show "load_session_from_account c uid d' = Inr (Some (snapshot_of login (load_bootstrap_completed uid d)))"
    using assms(1,2)
    by (simp add: load_session_from_account_def key Let_def acc decrypt_user_blob_def cipher_ok_def entropy_ok_def
        puid snapshot_of_def)
  show "load_bootstrap_completed uid d' = load_bootstrap_completed uid d"
    by (simp add: load_bootstrap_completed_def [of uid d'] acc)
  show "key_ok c uid d'" by (simp add: key_ok_def key)
qed

lemma logout_account:
  assumes "clear_session (\<lambda>_. None) uid d = (d', r)"
  shows "r = Inr ()" and "k_accounts d' = (k_accounts d)(uid := (k_accounts d uid)\<lparr>a_token_enc := None,
      a_token_nonce := None, a_device_id := None, a_expire_at := None, a_legacy := None\<rparr>)"
    and "k_active_uid d' \<noteq> Some uid"
  using assms run_writes_ok [of "\<lambda>_. None" 0] by (auto simp: clear_session_def split: if_splits)

lemma bootstrap_account:
  assumes "set_bootstrap_completed (\<lambda>_. None) uid b d = (d', r)"
  shows "r = Inr ()" and "d' = on_account uid (\<lambda>a. a\<lparr>a_bootstrap := Some (if b then 1 else 0)\<rparr>) d"
  using assms run_writes_ok [of "\<lambda>_. None" 0] by (auto simp: set_bootstrap_completed_def)

text \<open>C30. Logging in stores a session that reads back; logging out takes the credentials away and
  nothing else: the bootstrap mark of the account stays, and the next login of the same account
  finds it, so the local data is not rebuilt.\<close>

theorem logout_keeps_bootstrap_mark:
  assumes "cipher_ok c" and "entropy_ok e1" and "entropy_ok e2" and "key_ok c uid d"
    and "uid = show_u64 (lr_user_id login1)" and "lr_user_id login2 = lr_user_id login1"
  shows "let d1 = fst (save_login c e1 (\<lambda>_. None) t1 uid login1 d);
      d2 = fst (set_bootstrap_completed (\<lambda>_. None) uid True d1);
      d3 = fst (clear_session (\<lambda>_. None) uid d2);
      d4 = fst (save_login c e2 (\<lambda>_. None) t2 uid login2 d3)
    in load_session_from_account c uid d1 = Inr (Some (snapshot_of login1 (load_bootstrap_completed uid d))) \<and>
       load_session c e2 (\<lambda>_. None) (\<lambda>_. None) t2 uid d3 = (d3, Inr None) \<and>
       load_access_token c uid d3 = Inr None \<and> load_bootstrap_completed uid d3 \<and>
       load_session_from_account c uid d4 = Inr (Some (snapshot_of login2 True))"
proof -
  obtain d1 r1 where 1: "save_login c e1 (\<lambda>_. None) t1 uid login1 d = (d1, r1)" by fastforce
  obtain d2 r2 where 2: "set_bootstrap_completed (\<lambda>_. None) uid True d1 = (d2, r2)" by fastforce
  obtain d3 r3 where 3: "clear_session (\<lambda>_. None) uid d2 = (d3, r3)" by fastforce
  obtain d4 r4 where 4: "save_login c e2 (\<lambda>_. None) t2 uid login2 d3 = (d4, r4)" by fastforce
  note in1 = load_after_login [OF assms(1,2,4,5) 1]
  have d2: "d2 = on_account uid (\<lambda>a. a\<lparr>a_bootstrap := Some 1\<rparr>) d1"
    using bootstrap_account(2) [OF 2] by simp
  have acc3: "k_accounts d3 = (k_accounts d2)(uid := (k_accounts d2 uid)\<lparr>a_token_enc := None,
      a_token_nonce := None, a_device_id := None, a_expire_at := None, a_legacy := None\<rparr>)"
    by (rule logout_account(2) [OF 3])
  have out3: "load_session_from_account c uid d3 = Inr None" "load_access_token c uid d3 = Inr None"
    "a_legacy (k_accounts d3 uid) = None"
    by (simp_all add: load_session_from_account_def load_access_token_def acc3 Let_def)
  have boot3: "load_bootstrap_completed uid d3"
    by (simp add: load_bootstrap_completed_def acc3 d2)
  have key3: "key_ok c uid d3"
    using in1(3) by (auto simp: key_ok_def load_master_key_def acc3 d2)
  have "uid = show_u64 (lr_user_id login2)" using assms(5,6) by simp
  note in4 = load_after_login(1) [OF assms(1,3) key3 this 4]
  show ?thesis
    using in1(1) out3 boot3 in4 by (simp add: Let_def 1 2 3 4 load_session_def)
qed

definition example_cipher :: cipher where
  "example_cipher = \<lparr>seal = \<lambda>k u n t. n @ t,
     unseal = \<lambda>k u n x. if take (length n) x = n then Some (drop (length n) x) else None,
     wrap_key = \<lambda>u n k. n @ k,
     unwrap_key = \<lambda>u n x. if take (length n) x = n then Some (drop (length n) x) else None\<rparr>"

definition example_entropy :: "char \<Rightarrow> login_entropy" where
  "example_entropy x = \<lparr>le_key = ''key'', le_wrap_nonce = replicate 12 x, le_token_nonce = replicate 12 x\<rparr>"

definition example_login :: "string \<Rightarrow> login_result" where
  "example_login token = \<lparr>lr_user_id = 4, lr_token = token, lr_device_id = ''dev'', lr_expires_at = 0\<rparr>"

lemma example_cipher_ok: "cipher_ok example_cipher" "entropy_ok (example_entropy x)" "key_ok c uid empty_disk"
  by (simp_all add: cipher_ok_def example_cipher_def entropy_ok_def example_entropy_def key_ok_def empty_disk_def
      empty_account_def)

lemma show_u64_4: "show_u64 4 = ''4''"
  by code_simp

theorem logout_keeps_bootstrap_mark_witness:
  "load_session_from_account example_cipher ''4''
    (fst (save_login example_cipher (example_entropy CHR ''b'') (\<lambda>_. None) 20 ''4'' (example_login ''t2'')
      (fst (clear_session (\<lambda>_. None) ''4'' (fst (set_bootstrap_completed (\<lambda>_. None) ''4'' True
        (fst (save_login example_cipher (example_entropy CHR ''a'') (\<lambda>_. None) 10 ''4'' (example_login ''t1'') empty_disk))))))))
    = Inr (Some (snapshot_of (example_login ''t2'') True))"
  using logout_keeps_bootstrap_mark [OF example_cipher_ok(1) example_cipher_ok(2) [of "CHR ''a''"]
      example_cipher_ok(2) [of "CHR ''b''"] example_cipher_ok(3), of "''4''" "example_login ''t1''" "example_login ''t2''" 10 20]
  by (simp add: Let_def show_u64_4 example_login_def)

text \<open>C31. Refreshing the access token is atomic: whatever write the engine refuses, the account reads
  back with the new token and everything else as before, or exactly as before.\<close>

theorem token_refresh_atomic:
  assumes "cipher_ok c" and "length nonce = 12" and "load_session_from_account c uid d = Inr (Some s)"
    and "update_access_token c nonce fault uid token expires d = (d', r)"
  shows "(r = Inr () \<and> load_session_from_account c uid d' = Inr (Some (s\<lparr>ss_token := token\<rparr>)) \<and>
      load_access_token c uid d' = Inr (Some token)) \<or>
    ((\<exists>e. r = Inl e) \<and> d' = d)"
proof -
  obtain key where key: "load_master_key c uid d = Inr key"
    using assms(3) by (auto simp: load_session_from_account_def Let_def split: option.splits sum.splits)
  show ?thesis
  proof (cases "fault 0")
    case (Some e)
    then show ?thesis using assms(4) by (auto simp: update_access_token_def key)
  next
    case None
    let ?a = "(k_accounts d uid)\<lparr>a_token_enc := Some (seal c key uid nonce token), a_token_nonce := Some nonce,
        a_expire_at := (case expires of Some x \<Rightarrow> Some (try_from_u64 x) | None \<Rightarrow> a_expire_at (k_accounts d uid))\<rparr>"
    have d': "k_accounts d' = (k_accounts d)(uid := ?a)" and r: "r = Inr ()"
      using assms(4) None by (auto simp: update_access_token_def key)
    have key': "load_master_key c uid d' = Inr key"
      using key by (simp add: load_master_key_def d')
    have "load_session_from_account c uid d' = Inr (Some (s\<lparr>ss_token := token\<rparr>))"
      using assms(1-3) key
      by (auto simp: load_session_from_account_def Let_def key' d' decrypt_user_blob_def cipher_ok_def
          split: option.splits sum.splits)
    moreover have "load_access_token c uid d' = Inr (Some token)"
      using assms(1,2) by (simp add: load_access_token_def key' d' decrypt_user_blob_def cipher_ok_def)
    ultimately show ?thesis using r by simp
  qed
qed

text \<open>A login of an account that already has a session is not atomic: when the engine refuses the
  write of the token's nonce, the new ciphertext stands beside the old nonce, so the session that
  read back before the login can no longer be read; the refused login has destroyed the old one.\<close>

theorem torn_login_destroys_session:
  assumes "\<And>k n m t. length n = 12 \<Longrightarrow> length m = 12 \<Longrightarrow> n \<noteq> m \<Longrightarrow>
      unseal c k uid n (seal c k uid m t) = None" and "entropy_ok ent"
    and "load_session_from_account c uid d = Inr (Some s)"
    and "a_token_nonce (k_accounts d uid) \<noteq> Some (le_token_nonce ent)"
    and "fault 11 = Some e" and "\<And>i. i < 11 \<Longrightarrow> fault i = None"
    and "save_login c ent fault now uid login d = (d', r)"
  shows "r = Inl (Storage (''save access token nonce: '' @ e)) \<and>
    load_session_from_account c uid d' = Inl (Storage ''decrypt access_token: aead::Error'')"
proof -
  obtain key where key: "load_master_key c uid d = Inr key"
    using assms(3) by (auto simp: load_session_from_account_def Let_def split: option.splits sum.splits)
  obtain enc nonce dev puid where f: "a_token_enc (k_accounts d uid) = Some enc" "a_token_nonce (k_accounts d uid) = Some nonce"
    "a_device_id (k_accounts d uid) = Some dev" "a_profile_uid (k_accounts d uid) = Some puid"
    using assms(3) by (auto simp: load_session_from_account_def Let_def split: option.splits)
  have n12: "length nonce = 12"
    using assms(3) f by (auto simp: load_session_from_account_def Let_def decrypt_user_blob_def key split: if_splits)
  have m: "master_key_writes c uid (le_key ent) (le_wrap_nonce ent) d = (Inr key, [])"
    using key by (auto simp: master_key_writes_def load_master_key_def split: option.splits)
  let ?ws = "login_writes c ent now uid login key (load_bootstrap_completed uid d) (k_created_at d uid = None)"
  have "run_writes fault 0 ?ws d = (fold snd (take 11 ?ws) d, Inl (Storage (fst (?ws ! 11) @ '': '' @ e)))"
    by (rule run_writes_fails) (use assms(5,6) in \<open>simp_all add: login_writes_def\<close>)
  then have d': "d' = fold snd (take 11 ?ws) d" and r: "r = Inl (Storage (fst (?ws ! 11) @ '': '' @ e))"
    using assms(7) by (auto simp: save_login_def Let_def m)
  have acc: "k_accounts d' = (k_accounts d)(uid := (k_accounts d uid)
      \<lparr>a_bootstrap := Some (if load_bootstrap_completed uid d then 1 else 0), a_profile_uid := Some uid,
       a_token_enc := Some (seal c key uid (le_token_nonce ent) (lr_token login))\<rparr>)"
    by (simp add: d' login_writes_def take_Cons')
  have key': "load_master_key c uid d' = Inr key"
    using key by (simp add: load_master_key_def acc)
  have "nonce \<noteq> le_token_nonce ent" using assms(4) f by simp
  then have "unseal c key uid nonce (seal c key uid (le_token_nonce ent) (lr_token login)) = None"
    using assms(1) n12 assms(2) by (simp add: entropy_ok_def)
  then have "load_session_from_account c uid d' = Inl (Storage ''decrypt access_token: aead::Error'')"
    by (simp add: load_session_from_account_def Let_def key' acc f decrypt_user_blob_def n12)
  moreover have "fst (?ws ! 11) = ''save access token nonce''" by (simp add: login_writes_def)
  ultimately show ?thesis using r by simp
qed

definition logged_in_disk :: accounts_disk where
  "logged_in_disk = fst (save_login example_cipher (example_entropy CHR ''a'') (\<lambda>_. None) 10 ''4'' (example_login ''t1'') empty_disk)"

theorem torn_login_destroys_session_witness:
  "load_session_from_account example_cipher ''4'' logged_in_disk = Inr (Some (snapshot_of (example_login ''t1'') False)) \<and>
   load_session_from_account example_cipher ''4'' (fst (save_login example_cipher (example_entropy CHR ''b'')
      (\<lambda>k. if k = 11 then Some ''disk full'' else None) 20 ''4'' (example_login ''t2'') logged_in_disk)) =
     Inl (Storage ''decrypt access_token: aead::Error'')"
proof -
  let ?f = "\<lambda>k. if k = (11::nat) then Some ''disk full'' else None"
  obtain d' r where run: "save_login example_cipher (example_entropy CHR ''b'') ?f 20 ''4'' (example_login ''t2'')
      logged_in_disk = (d', r)" by fastforce
  obtain r1 where first: "save_login example_cipher (example_entropy CHR ''a'') (\<lambda>_. None) 10 ''4'' (example_login ''t1'')
      empty_disk = (logged_in_disk, r1)" by (metis logged_in_disk_def prod.collapse)
  have uid: "''4'' = show_u64 (lr_user_id (example_login ''t1''))" by (simp add: example_login_def show_u64_4)
  have old: "load_session_from_account example_cipher ''4'' logged_in_disk =
      Inr (Some (snapshot_of (example_login ''t1'') False))"
    using load_after_login(1) [OF example_cipher_ok(1) example_cipher_ok(2) example_cipher_ok(3) uid first]
    by (simp add: load_bootstrap_completed_def empty_disk_def empty_account_def)
  have nonce: "a_token_nonce (k_accounts logged_in_disk ''4'') \<noteq> Some (le_token_nonce (example_entropy CHR ''b''))"
    using save_login_account(2) [OF example_cipher_ok(1) example_cipher_ok(2) example_cipher_ok(3) first]
    by (auto simp: example_entropy_def)
  have "load_session_from_account example_cipher ''4'' d' = Inl (Storage ''decrypt access_token: aead::Error'')"
    using torn_login_destroys_session [OF _ example_cipher_ok(2) old nonce, of ?f "''disk full''" 20 "example_login ''t2''" d' r] run
    by (auto simp: example_cipher_def)
  then show ?thesis using old run by simp
qed

theorem token_refresh_atomic_witness:
  "load_access_token example_cipher ''4'' (fst (update_access_token example_cipher (replicate 12 CHR ''c'') (\<lambda>_. None)
     ''4'' ''t9'' None logged_in_disk)) = Inr (Some ''t9'')"
proof -
  obtain r1 where first: "save_login example_cipher (example_entropy CHR ''a'') (\<lambda>_. None) 10 ''4'' (example_login ''t1'')
      empty_disk = (logged_in_disk, r1)" by (metis logged_in_disk_def prod.collapse)
  have "''4'' = show_u64 (lr_user_id (example_login ''t1''))" by (simp add: example_login_def show_u64_4)
  note old = load_after_login(1) [OF example_cipher_ok this first]
  obtain key where key: "load_master_key example_cipher ''4'' logged_in_disk = Inr key"
    using old by (auto simp: load_session_from_account_def Let_def split: option.splits sum.splits)
  obtain d' r where run: "update_access_token example_cipher (replicate 12 CHR ''c'') (\<lambda>_. None) ''4'' ''t9'' None logged_in_disk = (d', r)"
    by fastforce
  have "r = Inr ()" using run by (simp add: update_access_token_def key)
  then show ?thesis using token_refresh_atomic [OF example_cipher_ok(1) _ old run] run by simp
qed

end
