(* ===== verification/Connection_Actor.thy ===== *)
theory Connection_Actor
  imports Account_Store Sync_Coordinator Receive_Pipeline
begin

text \<open>
  The connection half of the actor (\<open>lib.rs\<close>): its state, the transport operations, the reconnect
  driver, the health watchdog, and the commands that open, close or re-own a session.

  The outside answers through \<open>env k\<close>, the answers given to the \<open>k\<close>-th call since the start: what
  the transport, the server, the storage engine and the clock say. The field \<open>calls\<close> counts them.
  The message, cache and media fields that a session owns are the record \<open>session_scope\<close>.
\<close>

subsection \<open>State\<close>

datatype logout_source = ConnectAuth | RpcAuth | Manual

record terminal_reason =
  tr_code :: u32
  tr_message :: string
  tr_source :: logout_source
  tr_at_ms :: int

datatype actor_event =
    ConnectionStateChanged connection_state connection_state
  | NetworkHintChanged network_hint network_hint
  | ForcedLogout u32 string logout_source
  | AccessTokenRefreshNeeded u32 string
  | SyncStateChanged sync_state_snapshot
  | ShutdownStarted
  | ShutdownCompleted

record session_scope =
  sc_last_resume :: "(u64 \<times> int) option"
  sc_prelogin :: "(u8 \<times> string) list"
  sc_subscriptions :: "((u64 \<times> u8) \<times> string option) list"
  sc_presence :: "(u64 \<times> u64) list"
  sc_room_seen :: "(u64 \<times> u64 list) list"
  sc_message_cache :: "((u64 \<times> int) \<times> nat) list"
  sc_cache_generation :: "((u64 \<times> int) \<times> nat) list"
  sc_cache_lru :: "(u64 \<times> int) list"
  sc_cache_bytes :: nat
  sc_cache_hits :: nat
  sc_cache_misses :: nat
  sc_repair_queue :: "(int \<times> u64 \<times> u64) list"
  sc_repair_seen :: "(int \<times> u64 \<times> u64) list"
  sc_repair_backoff :: "((int \<times> u64 \<times> u64) \<times> nat \<times> int) list"
  sc_sync_queued :: nat
  sc_sync_dropped :: nat

definition empty_scope :: session_scope where
  "empty_scope = \<lparr>sc_last_resume = None, sc_prelogin = [], sc_subscriptions = [], sc_presence = [],
     sc_room_seen = [], sc_message_cache = [], sc_cache_generation = [], sc_cache_lru = [], sc_cache_bytes = 0,
     sc_cache_hits = 0, sc_cache_misses = 0, sc_repair_queue = [], sc_repair_seen = [], sc_repair_backoff = [],
     sc_sync_queued = 0, sc_sync_dropped = 0\<rparr>"

record 'p actor =
  session :: session_state
  transport :: bool
  should_auto_reconnect :: bool
  reconnect_attempt :: nat
  next_reconnect_at :: "int option"
  hint :: network_hint
  auth_terminal_fired :: bool
  last_terminal_reason :: "terminal_reason option"
  current_uid :: "string option"
  bootstrap_done :: bool
  inbound_epoch :: u64
  inbound_task :: "u64 option"
  session_epoch :: u64
  coordinator :: sync_coordinator
  convergence_running :: bool
  pipe :: "'p receive_pipeline"
  scoped :: session_scope
  pending_events :: "actor_event list"
  emitted :: "actor_event list"
  disk :: accounts_disk
  calls :: nat

subsection \<open>The outside\<close>

record auth_response =
  ar_success :: bool
  ar_error_code :: "u32 option"
  ar_error_message :: "string option"

text \<open>What a request comes back with: an answer, one that cannot be decoded, a broken connection, a
  timeout, or any other transport error.\<close>

datatype 'a request_answer = Answered 'a | Undecodable string | Disconnected_Error | Unanswered | Failed string

datatype connect_answer = Endpoints "unit result option list" | TotalTimeout

datatype login_answer = LoginTimeout | LoginAnswer "login_result result request_answer"

record answers =
  an_now :: int
  an_wall_ms :: int
  an_alive :: bool
  an_ping :: bool
  an_connect :: connect_answer
  an_disconnect :: "unit result"
  an_auth :: "auth_response request_answer"
  an_login :: login_answer
  an_fault :: "nat \<Rightarrow> fault"
  an_entropy :: "nat \<Rightarrow> login_entropy"
  an_draw :: rat
  an_replay_lost :: bool
  an_upkeep_lost :: bool
  an_sync_lost :: bool
  an_switch_pending :: bool
  an_full_rebuild :: bool
  an_sync_run :: "sync_run_kind \<Rightarrow> sync_coordinator \<Rightarrow> sync_coordinator \<times> unit result option"

type_synonym outside = "nat \<Rightarrow> answers"

record setting =
  st_codes :: protocol_codes
  st_cipher :: cipher
  st_round :: "rat \<Rightarrow> rat"

definition next_call :: "'p actor \<Rightarrow> 'p actor" where
  "next_call a = a\<lparr>calls := calls a + 1\<rparr>"

definition now_of :: "outside \<Rightarrow> 'p actor \<Rightarrow> int" where
  "now_of env a = an_now (env (calls a))"

subsection \<open>Small operations\<close>

definition emit :: "actor_event \<Rightarrow> 'p actor \<Rightarrow> 'p actor" where
  "emit ev a = a\<lparr>emitted := emitted a @ [ev]\<rparr>"

definition emit_change :: "connection_state \<Rightarrow> 'p actor \<Rightarrow> 'p actor" where
  "emit_change from a = emit (ConnectionStateChanged from (as_connection_state (session a))) a"

definition flush_pending :: "'p actor \<Rightarrow> 'p actor" where
  "flush_pending a = a\<lparr>emitted := emitted a @ pending_events a, pending_events := []\<rparr>"

definition stop_inbound_task :: "'p actor \<Rightarrow> 'p actor" where
  "stop_inbound_task a = a\<lparr>inbound_task := None\<rparr>"

definition start_inbound_task :: "'p actor \<Rightarrow> 'p actor" where
  "start_inbound_task a =
     (let e = inbound_epoch a + 1
      in a\<lparr>inbound_epoch := e, inbound_task := (if transport a then Some e else None)\<rparr>)"

text \<open>\<open>apply_transport_health(false)\<close>: what it returns is the transition, if there is one.\<close>

definition transport_lost ::
  "outside \<Rightarrow> 'p actor \<Rightarrow> 'p actor \<times> (connection_state \<times> connection_state) option" where
  "transport_lost env a =
     (if session a \<in> {Connected, LoggedIn, Authenticated}
      then (let a1 = a\<lparr>session := New, transport := False\<rparr>;
                a2 = (if should_auto_reconnect a
                      then a1\<lparr>reconnect_attempt := 0, next_reconnect_at := Some (now_of env a)\<rparr> else a1)
            in (a2, Some (as_connection_state (session a), ConnNew)))
      else (a, None))"

definition lost_and_emit :: "outside \<Rightarrow> 'p actor \<Rightarrow> 'p actor" where
  "lost_and_emit env a =
     (case transport_lost env a of
        (a1, None) \<Rightarrow> a1
      | (a1, Some (from, dest)) \<Rightarrow> emit (ConnectionStateChanged from dest) a1)"

definition lost_and_queue :: "outside \<Rightarrow> 'p actor \<Rightarrow> 'p actor" where
  "lost_and_queue env a =
     (case transport_lost env a of
        (a1, None) \<Rightarrow> a1
      | (a1, Some (from, dest)) \<Rightarrow>
          a1\<lparr>pending_events := pending_events a1 @ [ConnectionStateChanged from dest]\<rparr>)"

text \<open>What a run of requests does to the connection: nothing, unless one of them finds it broken.\<close>

definition after_requests :: "outside \<Rightarrow> bool \<Rightarrow> 'p actor \<Rightarrow> 'p actor" where
  "after_requests env lost a = (if lost then lost_and_queue env a else a)"

definition reset_reconnect_backoff :: "'p actor \<Rightarrow> 'p actor" where
  "reset_reconnect_backoff a = a\<lparr>reconnect_attempt := 0, next_reconnect_at := None\<rparr>"

definition schedule_next_reconnect :: "setting \<Rightarrow> outside \<Rightarrow> 'p actor \<Rightarrow> 'p actor" where
  "schedule_next_reconnect cfg env a =
     (let delay = reconnect_delay_ms (st_round cfg) (reconnect_attempt a) (an_draw (env (calls a))) (is_online (hint a))
      in a\<lparr>reconnect_attempt := sat_u32 (reconnect_attempt a + 1),
           next_reconnect_at := Some (now_of env a + int delay)\<rparr>)"

definition mark_reconnect_ready_now :: "outside \<Rightarrow> 'p actor \<Rightarrow> 'p actor" where
  "mark_reconnect_ready_now env a = a\<lparr>reconnect_attempt := 0, next_reconnect_at := Some (now_of env a)\<rparr>"

definition clear_hint :: "'p actor \<Rightarrow> 'p actor" where
  "clear_hint a = (if is_online (hint a) then a else a\<lparr>hint := Unknown\<rparr>)"

definition reset_session_scoped_state :: "int \<Rightarrow> 'p actor \<Rightarrow> 'p actor" where
  "reset_session_scoped_state now a =
     (reset_reconnect_backoff a)
       \<lparr>should_auto_reconnect := False, auth_terminal_fired := False, last_terminal_reason := None,
        inbound_epoch := inbound_epoch a + 1, coordinator := reset_coordinator (coordinator a) now,
        scoped := empty_scope, pending_events := []\<rparr>"

definition reset_if_owner_changed :: "string \<Rightarrow> int \<Rightarrow> 'p actor \<Rightarrow> 'p actor" where
  "reset_if_owner_changed uid now a =
     (case current_uid a of
        None \<Rightarrow> a
      | Some cur \<Rightarrow> if cur \<noteq> uid then reset_session_scoped_state now a else a)"

definition clear_presence :: "'p actor \<Rightarrow> 'p actor" where
  "clear_presence a = a\<lparr>scoped := (scoped a)\<lparr>sc_presence := []\<rparr>\<rparr>"

definition clear_subscriptions :: "'p actor \<Rightarrow> 'p actor" where
  "clear_subscriptions a = a\<lparr>scoped := (scoped a)\<lparr>sc_subscriptions := []\<rparr>\<rparr>"

text \<open>The frames that came before the login are taken out to be handled; what a frame does to the
  message store is not part of this theory.\<close>

definition replay_prelogin :: "'p actor \<Rightarrow> 'p actor" where
  "replay_prelogin a =
     (if current_uid a = None then a else a\<lparr>scoped := (scoped a)\<lparr>sc_prelogin := []\<rparr>\<rparr>)"

definition replay_subscriptions :: "outside \<Rightarrow> 'p actor \<Rightarrow> 'p actor" where
  "replay_subscriptions env a =
     (if sc_subscriptions (scoped a) = [] then a
      else after_requests env (an_replay_lost (env (calls a))) a)"

subsection \<open>Transport\<close>

fun try_endpoints :: "sdk_error option \<Rightarrow> unit result option list \<Rightarrow> unit result" where
  "try_endpoints last_err [] =
     Inl (case last_err of Some e \<Rightarrow> e | None \<Rightarrow> Transport ''no endpoint'')"
| "try_endpoints last_err (Some (Inr _) # eps) = Inr ()"
| "try_endpoints last_err (Some (Inl e) # eps) = try_endpoints (Some e) eps"
| "try_endpoints last_err (None # eps) = try_endpoints (Some (Transport ''endpoint timeout'')) eps"

text \<open>\<open>timeout(connect_timeout_total, connect())\<close>; \<open>late\<close> is the error of the outer timeout.\<close>

definition connect :: "outside \<Rightarrow> string \<Rightarrow> 'p actor \<Rightarrow> 'p actor \<times> unit result" where
  "connect env late a =
     (let an = env (calls a); a1 = next_call a in
      if transport a \<and> an_alive an then (a1, Inr ())
      else
        let a2 = a1\<lparr>transport := False\<rparr>
        in case an_connect an of
             TotalTimeout \<Rightarrow> (a2, Inl (Transport late))
           | Endpoints eps \<Rightarrow>
               (case try_endpoints None eps of
                  Inl e \<Rightarrow> (a2, Inl e)
                | Inr _ \<Rightarrow> (a2\<lparr>transport := True\<rparr>, Inr ())))"

definition disconnect :: "outside \<Rightarrow> 'p actor \<Rightarrow> 'p actor \<times> unit result" where
  "disconnect env a =
     (let a1 = next_call a in
      if \<not> transport a then (a1, Inr ())
      else case an_disconnect (env (calls a)) of
             Inl e \<Rightarrow> (a1, Inl e)
           | Inr _ \<Rightarrow> (a1\<lparr>transport := False\<rparr>, Inr ()))"

definition is_connected :: "outside \<Rightarrow> 'p actor \<Rightarrow> 'p actor \<times> bool" where
  "is_connected env a = (next_call a, transport a \<and> an_alive (env (calls a)))"

definition probe_connection :: "outside \<Rightarrow> 'p actor \<Rightarrow> 'p actor \<times> bool" where
  "probe_connection env a =
     (next_call a, transport a \<and> an_alive (env (calls a)) \<and> an_ping (env (calls a)))"

text \<open>\<open>request_bytes\<close> with \<open>handle_transport_request_error\<close>, then the decoding of the answer.\<close>

definition request ::
  "outside \<Rightarrow> string \<Rightarrow> 'a request_answer \<Rightarrow> 'p actor \<Rightarrow> 'p actor \<times> 'a result" where
  "request env ctx reply a =
     (if \<not> transport a then (lost_and_queue env a, Inl network_disconnected_error)
      else case reply of
             Answered x \<Rightarrow> (a, Inr x)
           | Undecodable e \<Rightarrow> (a, Inl (Serialization e))
           | Disconnected_Error \<Rightarrow> (lost_and_queue env a, Inl network_disconnected_error)
           | Unanswered \<Rightarrow> (a, Inl (RequestUnanswered ctx))
           | Failed e \<Rightarrow> (a, Inl (Transport (ctx @ '': '' @ e))))"

subsection \<open>Authentication\<close>

definition auth_rejected :: "auth_response \<Rightarrow> sdk_error" where
  "auth_rejected r =
     Auth (''['' @ show_nat (unat (case ar_error_code r of Some c \<Rightarrow> c | None \<Rightarrow> 0)) @ ''] '' @
       (case ar_error_message r of Some m \<Rightarrow> m | None \<Rightarrow> ''authorization failed''))"

text \<open>Writing the accepted credentials: a known account gets the new token only.\<close>

definition store_credentials ::
  "setting \<Rightarrow> answers \<Rightarrow> string \<Rightarrow> u64 \<Rightarrow> string \<Rightarrow> string \<Rightarrow> bool \<Rightarrow> accounts_disk \<Rightarrow> accounts_disk \<times> unit result" where
  "store_credentials cfg an uid user_id token dev known d =
     (case (if known
            then (case update_access_token (st_cipher cfg) (le_token_nonce (an_entropy an 1)) (an_fault an 2) uid token None d of
                    (d1, Inl e) \<Rightarrow> (d1, Inl e)
                  | (d1, Inr _) \<Rightarrow> save_current_uid (an_fault an 3) uid d1)
            else save_login (st_cipher cfg) (an_entropy an 1) (an_fault an 2) (an_wall_ms an) uid
                   \<lparr>lr_user_id = user_id, lr_token = token, lr_device_id = dev, lr_expires_at = 0\<rparr> d) of
        (d1, Inl e) \<Rightarrow> (d1, Inl e)
      | (d1, Inr _) \<Rightarrow> flush_user (an_fault an 4) d1)"

definition authenticate ::
  "setting \<Rightarrow> outside \<Rightarrow> u64 \<Rightarrow> string \<Rightarrow> string \<Rightarrow> 'p actor \<Rightarrow> 'p actor \<times> unit result" where
  "authenticate cfg env user_id token dev a =
     (let an = env (calls a)
      in case request env ''auth request'' (an_auth an) a of
           (a1, Inl e) \<Rightarrow> (next_call a1, Inl e)
         | (a1, Inr resp) \<Rightarrow>
             if \<not> ar_success resp then (next_call a1, Inl (auth_rejected resp))
             else
               let uid = show_u64 user_id;
                   a2 = reset_if_owner_changed uid (an_wall_ms an) (next_call a1);
                   (d1, loaded) = load_session (st_cipher cfg) (an_entropy an 0) (an_fault an 0) (an_fault an 1)
                                    (an_wall_ms an) uid (disk a2);
                   existing = (case loaded of Inr (Some s) \<Rightarrow> Some s | _ \<Rightarrow> None);
                   boot = (case existing of
                             Some s \<Rightarrow> ss_bootstrap_completed s
                           | None \<Rightarrow> load_bootstrap_completed uid d1);
                   a3 = a2\<lparr>bootstrap_done := boot\<rparr>
               in case store_credentials cfg an uid user_id token dev (existing \<noteq> None) d1 of
                    (d2, Inl e) \<Rightarrow> (a3\<lparr>disk := d2\<rparr>, Inl e)
                  | (d2, Inr _) \<Rightarrow>
                      (a3\<lparr>disk := d2, current_uid := Some uid, session_epoch := session_epoch a3 + 1\<rparr>, Inr ()))"

definition dismantle_auth_transport :: "outside \<Rightarrow> 'p actor \<Rightarrow> 'p actor" where
  "dismantle_auth_transport env a = lost_and_emit env (stop_inbound_task a)"

text \<open>The driver of the retry: its two operations.\<close>

definition auth_driver ::
  "setting \<Rightarrow> outside \<Rightarrow> u64 \<Rightarrow> string \<Rightarrow> string \<Rightarrow> 'p actor \<Rightarrow> retry_operation \<Rightarrow> 'p actor \<times> unit result" where
  "auth_driver cfg env user_id token dev a op =
     (case op of
        Reconnect \<Rightarrow>
          (case connect env ''authenticate transport reconnect timeout'' (dismantle_auth_transport env a) of
             (a1, Inl e) \<Rightarrow> (a1, Inl e)
           | (a1, Inr _) \<Rightarrow>
               (let from = as_connection_state (session a1); a2 = a1\<lparr>session := Connected\<rparr>
                in (if from \<noteq> ConnConnected then emit_change from a2 else a2, Inr ())))
      | AuthenticateOp \<Rightarrow>
          (case can (session a) Authenticate of
             Inl e \<Rightarrow> (a, Inl e)
           | Inr next_state \<Rightarrow>
               (case authenticate cfg env user_id token dev a of
                  (a1, Inl e) \<Rightarrow> (a1, Inl e)
                | (a1, Inr _) \<Rightarrow> (a1\<lparr>session := next_state\<rparr>, Inr ()))))"

text \<open>The result is always there (\<open>auth_rounds\<close> never runs out of rounds); the last branch is the
  \<open>unreachable!\<close> of the source.\<close>

definition authenticate_with_retry ::
  "setting \<Rightarrow> outside \<Rightarrow> u64 \<Rightarrow> string \<Rightarrow> string \<Rightarrow> bool \<Rightarrow> 'p actor \<Rightarrow> 'p actor \<times> unit result" where
  "authenticate_with_retry cfg env user_id token dev need a =
     (case execute_authenticate_with_retry (auth_driver cfg env user_id token dev) need a of
        (a1, Some r) \<Rightarrow> (a1, r)
      | (a1, None) \<Rightarrow> (a1, Inl ActorClosed))"

definition try_auto_reconnect ::
  "setting \<Rightarrow> outside \<Rightarrow> 'p actor \<Rightarrow> 'p actor \<times> session_state result" where
  "try_auto_reconnect cfg env a =
     (case connect env ''reconnect timeout'' a of
        (a1, Inl e) \<Rightarrow> (a1, Inl e)
      | (a1, Inr _) \<Rightarrow>
          (let a2 = a1\<lparr>session := Connected\<rparr>
           in case current_uid a2 of
                None \<Rightarrow> (a2, Inr Connected)
              | Some uid \<Rightarrow>
                  (let an = env (calls a2);
                       (d, loaded) = load_session (st_cipher cfg) (an_entropy an 0) (an_fault an 0) (an_fault an 1)
                                       (an_wall_ms an) uid (disk a2);
                       a3 = next_call (a2\<lparr>disk := d\<rparr>)
                   in case loaded of
                        Inr (Some s) \<Rightarrow>
                          (case authenticate_with_retry cfg env (ss_user_id s) (ss_token s) (ss_device_id s) False a3 of
                             (a4, Inr _) \<Rightarrow> (a4\<lparr>bootstrap_done := ss_bootstrap_completed s\<rparr>, Inr Authenticated)
                           | (a4, Inl e) \<Rightarrow> (dismantle_auth_transport env a4, Inl e))
                      | _ \<Rightarrow> (a3, Inr Connected))))"

subsection \<open>Forced logout\<close>

definition forced_logout_message :: "sdk_error \<Rightarrow> string" where
  "forced_logout_message e = (case e of Auth m \<Rightarrow> m | _ \<Rightarrow> error_text e)"

definition trigger_forced_logout :: "outside \<Rightarrow> sdk_error \<Rightarrow> logout_source \<Rightarrow> 'p actor \<Rightarrow> 'p actor" where
  "trigger_forced_logout env e source a =
     (if auth_terminal_fired a then a
      else
        let code = (case auth_error_code e of Some c \<Rightarrow> c | None \<Rightarrow> 0);
            msg = forced_logout_message e;
            a1 = (stop_inbound_task (a\<lparr>auth_terminal_fired := True\<rparr>))\<lparr>inbound_epoch := inbound_epoch a + 1\<rparr>;
            (a2, r) = disconnect env a1;
            a3 = clear_subscriptions (reset_reconnect_backoff (a2\<lparr>session := Terminated, should_auto_reconnect := False\<rparr>));
            a4 = a3\<lparr>last_terminal_reason := Some \<lparr>tr_code = code, tr_message = msg, tr_source = source,
                     tr_at_ms = an_wall_ms (env (calls a3))\<rparr>\<rparr>
        in emit (ForcedLogout code msg source) a4)"

subsection \<open>The sync after a reconnect\<close>

text \<open>A run publishes a snapshot before its first request.\<close>

definition resume_sync :: "setting \<Rightarrow> outside \<Rightarrow> 'p actor \<Rightarrow> 'p actor" where
  "resume_sync cfg env a =
     (let an = env (calls a);
          out = ensure_synced_inner (st_codes cfg) (session a) (an_switch_pending an) (bootstrap_done a)
                  (an_full_rebuild an) False (an_wall_ms an) (an_wall_ms (env (calls a + 1))) (an_sync_run an)
                  (coordinator a)
      in after_requests env (an_sync_lost an \<and> out_events out \<noteq> []) ((next_call (next_call a))
           \<lparr>coordinator := out_coordinator out,
            convergence_running := convergence_running a \<and> \<not> out_stop_convergence out,
            emitted := emitted a @ map SyncStateChanged (out_events out)\<rparr>))"

definition resume_if_ready :: "setting \<Rightarrow> outside \<Rightarrow> 'p actor \<Rightarrow> 'p actor" where
  "resume_if_ready cfg env a =
     (if session a = Authenticated \<and> bootstrap_done a then resume_sync cfg env a else a)"

subsection \<open>The reconnect timer and the watchdog\<close>

definition awaiting_reauth :: "'p actor \<Rightarrow> bool" where
  "awaiting_reauth a \<longleftrightarrow> session a = Connected \<and> current_uid a \<noteq> None"

definition wants_online :: "'p actor \<Rightarrow> bool" where
  "wants_online a \<longleftrightarrow> should_auto_reconnect a \<and> (session a = New \<or> awaiting_reauth a)"

definition retry_deadline :: "'p actor \<Rightarrow> int option" where
  "retry_deadline a = (if wants_online a then next_reconnect_at a else None)"

text \<open>The anti-entropy pass and the outbound drain of a health check. Here only what they do to the
  connection counts: whether one of their requests finds it broken.\<close>

definition upkeep :: "outside \<Rightarrow> 'p actor \<Rightarrow> 'p actor" where
  "upkeep env a =
     (if session a = Authenticated then after_requests env (an_upkeep_lost (env (calls a))) a else a)"

definition health_tick :: "outside \<Rightarrow> 'p actor \<Rightarrow> 'p actor" where
  "health_tick env a =
     (if session a = ShutdownState then a
      else
        let a1 = (if wants_online a \<and> next_reconnect_at a = None then mark_reconnect_ready_now env a else a);
            a2 = (if session a1 \<in> {Connected, LoggedIn, Authenticated}
                  then (case probe_connection env a1 of
                          (b, True) \<Rightarrow> b
                        | (b, False) \<Rightarrow> lost_and_emit env (stop_inbound_task b))
                  else a1)
        in flush_pending (upkeep env a2))"

definition retry_succeeded :: "setting \<Rightarrow> outside \<Rightarrow> connection_state \<Rightarrow> session_state \<Rightarrow> 'p actor \<Rightarrow> 'p actor" where
  "retry_succeeded cfg env from next_state a =
     (let a1 = reset_reconnect_backoff (a\<lparr>session := next_state\<rparr>);
          a2 = clear_hint (a1\<lparr>coordinator := note_network_available (coordinator a1), auth_terminal_fired := False\<rparr>);
          a3 = replay_subscriptions env (replay_prelogin (start_inbound_task a2))
      in emit_change from (resume_if_ready cfg env a3))"

definition token_refresh_handoff :: "outside \<Rightarrow> sdk_error \<Rightarrow> 'p actor \<Rightarrow> 'p actor" where
  "token_refresh_handoff env e a =
     (let before = as_connection_state (session a);
          (a1, r) = connect env ''reconnect timeout'' a;
          a2 = (case r of
                  Inl _ \<Rightarrow> a1
                | Inr _ \<Rightarrow>
                    (case can (session a1) Connect of
                       Inl _ \<Rightarrow> a1
                     | Inr next_state \<Rightarrow> emit_change before (a1\<lparr>session := next_state\<rparr>)));
          a3 = a2\<lparr>reconnect_attempt := sat_u32 (reconnect_attempt a2 + 1),
                 next_reconnect_at := Some (now_of env a2 + 60000)\<rparr>
      in emit (AccessTokenRefreshNeeded (case auth_error_code e of Some c \<Rightarrow> c | None \<Rightarrow> 0) (error_text e)) a3)"

definition retry_fire :: "setting \<Rightarrow> outside \<Rightarrow> 'p actor \<Rightarrow> 'p actor" where
  "retry_fire cfg env a =
     (if \<not> wants_online a then a\<lparr>next_reconnect_at := None\<rparr>
      else
        let from = as_connection_state (session a)
        in case try_auto_reconnect cfg env a of
             (a1, Inr next_state) \<Rightarrow> retry_succeeded cfg env from next_state a1
           | (a1, Inl e) \<Rightarrow>
               if is_auth_terminal e then trigger_forced_logout env e ConnectAuth a1
               else if auth_kind e = Some Recoverable then token_refresh_handoff env e a1
               else schedule_next_reconnect cfg env a1)"

subsection \<open>Commands that open a session\<close>

definition finish_connect ::
  "setting \<Rightarrow> outside \<Rightarrow> bool \<Rightarrow> bool \<Rightarrow> connection_state \<Rightarrow> 'p actor \<Rightarrow> 'p actor" where
  "finish_connect cfg env already_ready had_local from a =
     (let a1 = reset_reconnect_backoff a;
          a2 = (if already_ready then a1 else a1\<lparr>coordinator := note_network_available (coordinator a1)\<rparr>);
          a3 = (clear_hint a2)\<lparr>auth_terminal_fired := False, last_terminal_reason := None\<rparr>;
          a4 = (if already_ready then a3 else replay_subscriptions env (replay_prelogin (start_inbound_task a3)));
          a5 = (if from \<noteq> as_connection_state (session a4) then emit_change from a4 else a4)
      in if had_local then resume_if_ready cfg env a5 else a5)"

text \<open>A stale logical session is reconciled with the transport before the plan runs.\<close>

definition reconcile_transport :: "outside \<Rightarrow> bool \<Rightarrow> 'p actor \<Rightarrow> 'p actor \<times> connection_state" where
  "reconcile_transport env up a =
     (if up then (a, as_connection_state (session a))
      else case transport_lost env a of
             (b, None) \<Rightarrow> (b, as_connection_state (session a))
           | (b, Some (f, t)) \<Rightarrow> (emit (ConnectionStateChanged f t) (stop_inbound_task b), t))"

definition run_connect_plan ::
  "setting \<Rightarrow> outside \<Rightarrow> connect_plan result \<Rightarrow> 'p actor \<Rightarrow> 'p actor \<times> unit result" where
  "run_connect_plan cfg env plan a =
     (case plan of
        Inl e \<Rightarrow> (a, Inl e)
      | Inr AlreadyReady \<Rightarrow> (a, Inr ())
      | Inr RestorePersistedSession \<Rightarrow>
          (case try_auto_reconnect cfg env a of
             (b, Inr next_state) \<Rightarrow> (b\<lparr>session := next_state\<rparr>, Inr ())
           | (b, Inl e) \<Rightarrow> (b, Inl e))
      | Inr ConnectTransportOnly \<Rightarrow>
          (case can (session a) Connect of
             Inl e \<Rightarrow> (a, Inl e)
           | Inr next_state \<Rightarrow>
               (case connect env ''connect timeout'' a of
                  (b, Inl e) \<Rightarrow> (b, Inl e)
                | (b, Inr _) \<Rightarrow> (b\<lparr>session := next_state\<rparr>, Inr ()))))"

definition cmd_connect :: "setting \<Rightarrow> outside \<Rightarrow> 'p actor \<Rightarrow> 'p actor \<times> unit result" where
  "cmd_connect cfg env a =
     (let a1 = a\<lparr>should_auto_reconnect := True\<rparr>;
          had_local = (current_uid a1 \<noteq> None);
          (a2, up) = is_connected env a1;
          plan = plan_connect (session a2) had_local up;
          (a3, from) = reconcile_transport env up a2
      in case run_connect_plan cfg env plan a3 of
           (a4, Inr _) \<Rightarrow> (finish_connect cfg env (plan = Inr AlreadyReady) had_local from a4, Inr ())
         | (a4, Inl e) \<Rightarrow> (schedule_next_reconnect cfg env a4, Inl e))"

definition login ::
  "setting \<Rightarrow> outside \<Rightarrow> string \<Rightarrow> string \<Rightarrow> 'p actor \<Rightarrow> 'p actor \<times> login_result result" where
  "login cfg env ctx late a =
     (let an = env (calls a) in
      case an_login an of
        LoginTimeout \<Rightarrow> (next_call a, Inl (Transport late))
      | LoginAnswer reply \<Rightarrow>
          (case request env ctx reply a of
             (a1, Inl e) \<Rightarrow> (next_call a1, Inl e)
           | (a1, Inr (Inl e)) \<Rightarrow> (next_call a1, Inl e)
           | (a1, Inr (Inr out)) \<Rightarrow>
               (let uid = show_u64 (lr_user_id out); a2 = next_call a1 in
                case save_login (st_cipher cfg) (an_entropy an 0) (an_fault an 0) (an_wall_ms an) uid out (disk a2) of
                  (d1, Inl e) \<Rightarrow> (a2\<lparr>disk := d1\<rparr>, Inl e)
                | (d1, Inr _) \<Rightarrow>
                    (case flush_user (an_fault an 1) d1 of
                       (d2, Inl e) \<Rightarrow> (a2\<lparr>disk := d2\<rparr>, Inl e)
                     | (d2, Inr _) \<Rightarrow>
                         (replay_prelogin (a2\<lparr>disk := d2, current_uid := Some uid, session_epoch := session_epoch a2 + 1\<rparr>),
                          Inr out)))))"

definition cmd_login_with ::
  "setting \<Rightarrow> outside \<Rightarrow> string \<Rightarrow> string \<Rightarrow> 'p actor \<Rightarrow> 'p actor \<times> login_result result" where
  "cmd_login_with cfg env ctx late a =
     (let from = as_connection_state (session a) in
      case can (session a) Login of
        Inl e \<Rightarrow> (a, Inl e)
      | Inr next_state \<Rightarrow>
          (case login cfg env ctx late a of
             (a1, Inl e) \<Rightarrow> (a1, Inl e)
           | (a1, Inr out) \<Rightarrow> (emit_change from (a1\<lparr>session := next_state\<rparr>), Inr out)))"

definition cmd_login :: "setting \<Rightarrow> outside \<Rightarrow> 'p actor \<Rightarrow> 'p actor \<times> login_result result" where
  "cmd_login cfg env = cmd_login_with cfg env ''rpc login'' ''login timeout''"

definition cmd_register :: "setting \<Rightarrow> outside \<Rightarrow> 'p actor \<Rightarrow> 'p actor \<times> login_result result" where
  "cmd_register cfg env = cmd_login_with cfg env ''rpc register'' ''register timeout''"

definition finish_authenticate :: "setting \<Rightarrow> outside \<Rightarrow> connection_state \<Rightarrow> 'p actor \<Rightarrow> 'p actor" where
  "finish_authenticate cfg env from a =
     (let a1 = a\<lparr>auth_terminal_fired := False, should_auto_reconnect := True,
                 coordinator := note_network_available (coordinator a)\<rparr>;
          a2 = replay_subscriptions env (replay_prelogin (start_inbound_task a1))
      in emit_change from (resume_if_ready cfg env a2))"

definition cmd_authenticate ::
  "setting \<Rightarrow> outside \<Rightarrow> u64 \<Rightarrow> string \<Rightarrow> string \<Rightarrow> 'p actor \<Rightarrow> 'p actor \<times> unit result" where
  "cmd_authenticate cfg env user_id token dev a =
     (let from = as_connection_state (session a);
          (a1, up) = is_connected env a
      in case plan_authenticate_transport (session a1) up of
           Inl e \<Rightarrow> (a1, Inl e)
         | Inr plan \<Rightarrow>
             (case authenticate_with_retry cfg env user_id token dev (plan = ReconnectTransport) a1 of
                (a2, Inr _) \<Rightarrow> (finish_authenticate cfg env from a2, Inr ())
              | (a2, Inl e) \<Rightarrow>
                  (if is_auth_terminal e then trigger_forced_logout env e Manual a2 else a2, Inl e)))"

subsection \<open>Signals\<close>

definition cmd_ping :: "outside \<Rightarrow> 'p actor \<Rightarrow> 'p actor \<times> unit result" where
  "cmd_ping env a =
     (case probe_connection env a of
        (a1, True) \<Rightarrow> (a1, Inr ())
      | (a1, False) \<Rightarrow> (lost_and_queue env (stop_inbound_task a1), Inl network_disconnected_error))"

definition cmd_set_network_hint :: "outside \<Rightarrow> network_hint \<Rightarrow> 'p actor \<Rightarrow> 'p actor" where
  "cmd_set_network_hint env h a =
     (let old = hint a; a1 = a\<lparr>hint := h\<rparr>;
          a2 = (if old \<noteq> h then emit (NetworkHintChanged old h) a1 else a1)
      in if h = Offline then lost_and_emit env (stop_inbound_task a2)
         else if old = Offline \<and> should_auto_reconnect a2
         then (mark_reconnect_ready_now env a2)\<lparr>coordinator := note_network_available (coordinator a2)\<rparr>
         else a2)"

definition inbound_frame_accepted :: "u64 \<Rightarrow> 'p actor \<Rightarrow> bool" where
  "inbound_frame_accepted epoch a \<longleftrightarrow> epoch = inbound_epoch a"

definition inbound_disconnected :: "outside \<Rightarrow> u64 \<Rightarrow> 'p actor \<Rightarrow> 'p actor" where
  "inbound_disconnected env epoch a =
     (if \<not> inbound_frame_accepted epoch a then a else lost_and_emit env (stop_inbound_task a))"

subsection \<open>Commands that close or re-own a session\<close>

definition cmd_disconnect :: "outside \<Rightarrow> 'p actor \<Rightarrow> 'p actor \<times> unit result" where
  "cmd_disconnect env a =
     (let a1 = stop_inbound_task (reset_reconnect_backoff (a\<lparr>should_auto_reconnect := False\<rparr>));
          from = as_connection_state (session a1)
      in case disconnect env a1 of
           (a2, Inl e) \<Rightarrow> (a2, Inl e)
         | (a2, Inr _) \<Rightarrow>
             (if session a2 = ShutdownState then a2
              else emit_change from ((clear_subscriptions (clear_presence a2))\<lparr>session := New\<rparr>), Inr ()))"

definition cmd_set_current_uid :: "setting \<Rightarrow> outside \<Rightarrow> string \<Rightarrow> 'p actor \<Rightarrow> 'p actor \<times> unit result" where
  "cmd_set_current_uid cfg env uid a =
     (if current_uid a = Some uid then (a, Inr ())
      else if session a \<in> {Connected, LoggedIn, Authenticated}
      then (a, Inl (InvalidState ''set_current_uid on an active session; use switch_local_account''))
      else if \<not> (\<exists>e \<in> set (snd (list_local_accounts (disk a))). la_uid e = uid)
      then (a, Inl (InvalidState (''local account not found: '' @ uid)))
      else
        let an = env (calls a);
            (d1, saved) = save_current_uid (an_fault an 0) uid (disk a);
            (d2, loaded) = load_session (st_cipher cfg) (an_entropy an 0) (an_fault an 1) (an_fault an 2) (an_wall_ms an) uid d1;
            a1 = (next_call a)\<lparr>disk := d2\<rparr>
        in case (saved, loaded) of
             (Inl e, _) \<Rightarrow> (a1, Inl e)
           | (_, Inl e) \<Rightarrow> (a1, Inl e)
           | (Inr _, Inr snap) \<Rightarrow>
               (a1\<lparr>current_uid := Some uid,
                   bootstrap_done := (case snap of
                       Some s \<Rightarrow> ss_bootstrap_completed s | None \<Rightarrow> load_bootstrap_completed uid d2)\<rparr>, Inr ()))"

definition cmd_switch_local_account :: "setting \<Rightarrow> outside \<Rightarrow> string \<Rightarrow> 'p actor \<Rightarrow> 'p actor \<times> unit result" where
  "cmd_switch_local_account cfg env uid a =
     (let an = env (calls a); from = as_connection_state (session a); a0 = next_call a in
      if \<not> (\<exists>e \<in> set (snd (list_local_accounts (disk a))). la_uid e = uid)
      then (a0, Inl (InvalidState (''local account not found: '' @ uid)))
      else
        case load_session (st_cipher cfg) (an_entropy an 0) (an_fault an 0) (an_fault an 1) (an_wall_ms an) uid (disk a) of
          (d1, Inl e) \<Rightarrow> (a0\<lparr>disk := d1\<rparr>, Inl e)
        | (d1, Inr snap) \<Rightarrow>
            (case save_current_uid (an_fault an 2) uid d1 of
               (d2, Inl e) \<Rightarrow> (a0\<lparr>disk := d2\<rparr>, Inl e)
             | (d2, Inr _) \<Rightarrow>
                 (let a1 = stop_inbound_task (reset_session_scoped_state (an_wall_ms an) (a0\<lparr>disk := d2\<rparr>));
                      (a2, r) = disconnect env a1;
                      a3 = a2\<lparr>transport := False, current_uid := Some uid, session_epoch := session_epoch a2 + 1,
                             bootstrap_done := (case snap of Some s \<Rightarrow> ss_bootstrap_completed s | None \<Rightarrow> False),
                             session := New\<rparr>
                  in (if from \<noteq> ConnNew then emit_change from a3 else a3, Inr ()))))"

definition cmd_clear_local_state :: "outside \<Rightarrow> 'p actor \<Rightarrow> 'p actor \<times> unit result" where
  "cmd_clear_local_state env a =
     (let an = env (calls a); from = as_connection_state (session a);
          c = reset_coordinator (coordinator a) (an_wall_ms an);
          a1 = (reset_reconnect_backoff (next_call a))
                 \<lparr>should_auto_reconnect := False, bootstrap_done := False, convergence_running := False,
                  coordinator := c, pending_events := pending_events a @ [SyncStateChanged (snapshot c)],
                  session := Connected\<rparr>;
          (a2, result) = (case current_uid a1 of
              None \<Rightarrow> (a1, Inr ())
            | Some uid \<Rightarrow>
                (let (d1, r1) = clear_session (an_fault an 0) uid (disk a1);
                     (d2, r2) = clear_current_uid (an_fault an 1) d1
                 in (a1\<lparr>disk := d2, current_uid := None, session_epoch := session_epoch a1 + 1\<rparr>,
                     case r1 of Inl e \<Rightarrow> Inl e | Inr _ \<Rightarrow> r2)))
      in (case result of Inr _ \<Rightarrow> emit_change from a2 | Inl _ \<Rightarrow> a2, result))"

definition cmd_wipe_current_user_full :: "outside \<Rightarrow> 'p actor \<Rightarrow> 'p actor \<times> unit result" where
  "cmd_wipe_current_user_full env a =
     (let an = env (calls a); from = as_connection_state (session a);
          a1 = clear_presence ((reset_reconnect_backoff (next_call a))
                 \<lparr>should_auto_reconnect := False, bootstrap_done := False, session := Connected\<rparr>);
          (a2, result) = (case current_uid a1 of
              None \<Rightarrow> (a1, Inr ())
            | Some uid \<Rightarrow>
                (let (d1, r1) = clear_current_uid (an_fault an 0) (disk a1);
                     (d2, r2) = wipe_user_full (an_fault an 1) uid d1
                 in (a1\<lparr>disk := d2, current_uid := None, session_epoch := session_epoch a1 + 1\<rparr>,
                     case r2 of Inl e \<Rightarrow> Inl e | Inr _ \<Rightarrow> r1)))
      in (case result of Inr _ \<Rightarrow> emit_change from a2 | Inl _ \<Rightarrow> a2, result))"

text \<open>After the shutdown command the actor loop ends.\<close>

definition cmd_shutdown :: "'p actor \<Rightarrow> 'p actor" where
  "cmd_shutdown a =
     (let a1 = emit ShutdownStarted (stop_inbound_task (reset_reconnect_backoff (a\<lparr>should_auto_reconnect := False\<rparr>)));
          from = as_connection_state (session a1);
          a2 = (case can (session a1) ShutdownAction of Inr s \<Rightarrow> a1\<lparr>session := s\<rparr> | Inl _ \<Rightarrow> a1)
      in emit ShutdownCompleted ((emit_change from (clear_presence a2))\<lparr>transport := False\<rparr>))"

end
