(* ===== verification/Live_Session.thy ===== *)
theory Live_Session
  imports Connection_Actor
begin

text \<open>
  The actor of \<open>Connection_Actor\<close> as a transition system: what each operation leaves of the
  connection, the loop of the actor with its start, and the invariant that an authenticated session
  has a transport, an owner and a running inbound task. The bounded retry of \<open>Session_State\<close> is
  interpreted here on the actor's own driver.
\<close>

subsection \<open>Frames of the small operations\<close>

lemmas small_ops = emit_def emit_change_def flush_pending_def stop_inbound_task_def start_inbound_task_def
  next_call_def reset_reconnect_backoff_def schedule_next_reconnect_def mark_reconnect_ready_now_def
  clear_hint_def clear_presence_def clear_subscriptions_def replay_prelogin_def

lemma small_frame [simp]:
  "session (emit ev a) = session a" "transport (emit ev a) = transport a" "current_uid (emit ev a) = current_uid a"
  "inbound_task (emit ev a) = inbound_task a" "inbound_epoch (emit ev a) = inbound_epoch a"
  "session (emit_change from a) = session a" "transport (emit_change from a) = transport a"
  "current_uid (emit_change from a) = current_uid a" "inbound_task (emit_change from a) = inbound_task a"
  "inbound_epoch (emit_change from a) = inbound_epoch a"
  "session (next_call a) = session a" "transport (next_call a) = transport a" "current_uid (next_call a) = current_uid a"
  "inbound_task (next_call a) = inbound_task a" "inbound_epoch (next_call a) = inbound_epoch a"
  "session (clear_hint a) = session a" "transport (clear_hint a) = transport a" "current_uid (clear_hint a) = current_uid a"
  "inbound_task (clear_hint a) = inbound_task a" "inbound_epoch (clear_hint a) = inbound_epoch a"
  "session (replay_prelogin a) = session a" "transport (replay_prelogin a) = transport a"
  "current_uid (replay_prelogin a) = current_uid a"
  "inbound_task (replay_prelogin a) = inbound_task a" "inbound_epoch (replay_prelogin a) = inbound_epoch a"
  by (simp_all add: small_ops)

lemma reset_frame [simp]:
  "session (reset_session_scoped_state now a) = session a" "transport (reset_session_scoped_state now a) = transport a"
  "current_uid (reset_session_scoped_state now a) = current_uid a"
  "pipe (reset_session_scoped_state now a) = pipe a"
  "session (reset_reconnect_backoff a) = session a" "transport (reset_reconnect_backoff a) = transport a"
  "current_uid (reset_reconnect_backoff a) = current_uid a" "inbound_task (reset_reconnect_backoff a) = inbound_task a"
  "inbound_epoch (reset_reconnect_backoff a) = inbound_epoch a" "pipe (reset_reconnect_backoff a) = pipe a"
  "session (schedule_next_reconnect cfg env a) = session a" "transport (schedule_next_reconnect cfg env a) = transport a"
  "current_uid (schedule_next_reconnect cfg env a) = current_uid a"
  "inbound_task (schedule_next_reconnect cfg env a) = inbound_task a"
  "inbound_epoch (schedule_next_reconnect cfg env a) = inbound_epoch a"
  "session (stop_inbound_task a) = session a" "transport (stop_inbound_task a) = transport a"
  "current_uid (stop_inbound_task a) = current_uid a" "pipe (stop_inbound_task a) = pipe a"
  by (simp_all add: reset_session_scoped_state_def small_ops Let_def)

lemma pipe_frame [simp]:
  "pipe (emit ev a) = pipe a" "pipe (emit_change from a) = pipe a" "pipe (next_call a) = pipe a"
  "pipe (clear_hint a) = pipe a" "pipe (replay_prelogin a) = pipe a" "pipe (start_inbound_task a) = pipe a"
  "pipe (schedule_next_reconnect cfg env a) = pipe a" "pipe (reset_if_owner_changed uid now a) = pipe a"
  by (simp_all add: small_ops Let_def reset_if_owner_changed_def split: option.split)

lemma owner_frame [simp]:
  "session (reset_if_owner_changed uid now a) = session a" "transport (reset_if_owner_changed uid now a) = transport a"
  "current_uid (reset_if_owner_changed uid now a) = current_uid a"
  by (simp_all add: reset_if_owner_changed_def split: option.split)

lemma owner_same: "current_uid a = Some uid \<or> current_uid a = None \<Longrightarrow> reset_if_owner_changed uid now a = a"
  by (auto simp: reset_if_owner_changed_def)

text \<open>The live states of a session: those with a transport to lose.\<close>

definition live_states :: "session_state set" where "live_states = {Connected, LoggedIn, Authenticated}"

lemma live_states_mem [simp]:
  "Connected \<in> live_states" "LoggedIn \<in> live_states" "Authenticated \<in> live_states"
  "New \<notin> live_states" "Terminated \<notin> live_states" "ShutdownState \<notin> live_states"
  by (simp_all add: live_states_def)

lemma transport_lost_simps [simp]:
  "session (fst (transport_lost env a)) \<notin> live_states" "pipe (fst (transport_lost env a)) = pipe a"
  "current_uid (fst (transport_lost env a)) = current_uid a"
  by (auto simp: transport_lost_def Let_def live_states_def)

lemma lost_simps [simp]:
  "session (lost_and_emit env a) \<notin> live_states" "pipe (lost_and_emit env a) = pipe a"
  "session (lost_and_queue env a) \<notin> live_states" "pipe (lost_and_queue env a) = pipe a"
  "current_uid (lost_and_emit env a) = current_uid a" "current_uid (lost_and_queue env a) = current_uid a"
  using transport_lost_simps [of env a]
  by (auto simp: lost_and_emit_def lost_and_queue_def simp del: transport_lost_simps split: prod.splits option.splits)

lemma not_live: "session a \<notin> live_states \<Longrightarrow> session a \<noteq> Authenticated \<and> session a \<noteq> Connected \<and> session a \<noteq> LoggedIn"
  by (auto simp: live_states_def)

lemma connect_frame:
  assumes "connect env late a = (a1, r)"
  shows "session a1 = session a" "pipe a1 = pipe a" "current_uid a1 = current_uid a"
    "inbound_task a1 = inbound_task a" "inbound_epoch a1 = inbound_epoch a" "r = Inr () \<Longrightarrow> transport a1"
  using assms by (auto simp: connect_def Let_def next_call_def split: if_splits connect_answer.splits sum.splits)

lemma request_frame:
  assumes "request env ctx reply a = (a1, r)"
  shows "r = Inr x \<Longrightarrow> a1 = a \<and> transport a" "pipe a1 = pipe a" "current_uid a1 = current_uid a"
    "a1 = a \<or> session a1 \<notin> live_states"
  using assms lost_simps [of env a] by (auto simp: request_def split: if_splits request_answer.splits)

subsection \<open>The session invariant\<close>

text \<open>An authenticated session has a transport, an owner, and an inbound task of the current epoch,
  so the server's pushes reach it.\<close>

definition live_session :: "'p actor \<Rightarrow> bool" where
  "live_session a \<longleftrightarrow> (session a = Authenticated \<longrightarrow>
     transport a \<and> current_uid a \<noteq> None \<and> inbound_task a = Some (inbound_epoch a))"

lemma live_other: "session a \<noteq> Authenticated \<Longrightarrow> live_session a"
  by (simp add: live_session_def)

lemma live_cong:
  "session b = session a \<Longrightarrow> transport b = transport a \<Longrightarrow> current_uid b = current_uid a \<Longrightarrow>
    inbound_task b = inbound_task a \<Longrightarrow> inbound_epoch b = inbound_epoch a \<Longrightarrow> live_session b = live_session a"
  by (simp add: live_session_def)

text \<open>What a failing authentication keeps.\<close>

locale failing_driver =
  fixes run :: "'s \<Rightarrow> retry_operation \<Rightarrow> 's \<times> unit result" and keep :: "'s \<Rightarrow> bool"
  assumes reconnect_keeps: "keep s \<Longrightarrow> run s Reconnect = (s', r) \<Longrightarrow> keep s'"
    and failure_keeps: "keep s \<Longrightarrow> run s AuthenticateOp = (s', Inl e) \<Longrightarrow> keep s'"
begin

lemma rounds_keep: "keep s \<Longrightarrow> auth_rounds run rs need s = (s', Some (Inl e)) \<Longrightarrow> keep s'"
proof (induction rs arbitrary: need s)
  case (Cons r rs)
  obtain s1 r1 where 1: "(if need then run s Reconnect else (s, Inr ())) = (s1, r1)" by fastforce
  have k1: "keep s1" using 1 Cons.prems(1) reconnect_keeps by (auto split: if_splits)
  show ?case
  proof (cases r1)
    case (Inl x)
    then show ?thesis using Cons.prems(2) 1 k1 by auto
  next
    case (Inr u)
    obtain s2 r2 where 2: "run s1 AuthenticateOp = (s2, r2)" by fastforce
    from Cons.prems(2) 1 2 Inr failure_keeps [OF k1, of s2] Cons.IH [of s2 True]
    show ?thesis by (cases r2) (auto split: if_splits)
  qed
qed simp

lemma execute_keep:
  "keep s \<Longrightarrow> execute_authenticate_with_retry run need s = (s', Some (Inl e)) \<Longrightarrow> keep s'"
  unfolding execute_authenticate_with_retry_def by (rule rounds_keep)

end

lemma authenticate_ok:
  assumes "authenticate cfg env user_id token dev a = (a1, Inr ())"
  shows "session a1 = session a \<and> transport a1 \<and> current_uid a1 = Some (show_u64 user_id) \<and> pipe a1 = pipe a"
proof -
  obtain b r where req: "request env ''auth request'' (an_auth (env (calls a))) a = (b, r)" by fastforce
  show ?thesis
    using assms request_frame [OF req] req
    by (auto simp: authenticate_def Let_def split: sum.splits if_splits prod.splits)
qed

lemma authenticate_pipe: "pipe (fst (authenticate cfg env user_id token dev a)) = pipe a"
proof -
  obtain b r where req: "request env ''auth request'' (an_auth (env (calls a))) a = (b, r)" by fastforce
  show ?thesis
    using request_frame(2) [OF req] req
    by (auto simp: authenticate_def Let_def split: sum.splits if_splits prod.splits)
qed

text \<open>A failed attempt leaves the session as it was, or without its transport, unless it found
  another owner.\<close>

lemma authenticate_failed:
  assumes "authenticate cfg env user_id token dev a = (a1, Inl e)"
  shows "session a1 \<notin> live_states \<or> (session a1 = session a \<and> transport a1 = transport a \<and>
      current_uid a1 = current_uid a \<and> inbound_task a1 = inbound_task a \<and>
      (current_uid a = Some (show_u64 user_id) \<or> current_uid a = None \<longrightarrow> inbound_epoch a1 = inbound_epoch a)) \<or>
    (session a1 = session a \<and> \<not> (current_uid a = Some (show_u64 user_id) \<or> current_uid a = None))"
proof -
  obtain b r where req: "request env ''auth request'' (an_auth (env (calls a))) a = (b, r)" by fastforce
  have own: "reset_if_owner_changed (show_u64 user_id) t (next_call a) = next_call a"
    if "current_uid a = Some (show_u64 user_id) \<or> current_uid a = None" for t
    using that by (simp add: owner_same)
  show ?thesis
    using assms request_frame(1,3,4) [OF req] req own
    by (cases r) (auto simp: authenticate_def Let_def split: sum.splits if_splits prod.splits)
qed

lemma dismantle_session [simp]:
  "session (dismantle_auth_transport env a) \<notin> live_states" "pipe (dismantle_auth_transport env a) = pipe a"
  "current_uid (dismantle_auth_transport env a) = current_uid a"
  by (simp_all add: dismantle_auth_transport_def)

lemma driver_reconnect:
  assumes "auth_driver cfg env user_id token dev a Reconnect = (a1, r)"
  shows "session a1 \<noteq> Authenticated" "pipe a1 = pipe a" "current_uid a1 = current_uid a"
proof -
  obtain b r1 where c: "connect env ''authenticate transport reconnect timeout'' (dismantle_auth_transport env a) = (b, r1)"
    by fastforce
  have "session b \<notin> live_states" using connect_frame(1) [OF c] by simp
  then show "session a1 \<noteq> Authenticated" "pipe a1 = pipe a" "current_uid a1 = current_uid a"
    using assms connect_frame(2,3) [OF c] by (auto simp: auth_driver_def c Let_def split: sum.splits if_splits)
qed

lemma can_authenticate: "can st Authenticate = Inr st' \<Longrightarrow> st' = Authenticated"
  by (cases st) auto

lemma driver_authenticate:
  assumes "auth_driver cfg env user_id token dev a AuthenticateOp = (a1, r)"
  shows "r = Inr () \<Longrightarrow> session a1 = Authenticated \<and> transport a1 \<and> current_uid a1 = Some (show_u64 user_id)"
    "pipe a1 = pipe a"
proof -
  obtain b q where au: "authenticate cfg env user_id token dev a = (b, q)" by fastforce
  show "r = Inr () \<Longrightarrow> session a1 = Authenticated \<and> transport a1 \<and> current_uid a1 = Some (show_u64 user_id)"
    using assms authenticate_ok [of cfg env user_id token dev a b] au
    by (auto simp: auth_driver_def dest: can_authenticate split: sum.splits)
  show "pipe a1 = pipe a"
    using assms authenticate_pipe [of cfg env user_id token dev a] au
    by (auto simp: auth_driver_def split: sum.splits)
qed

text \<open>The interface of the retry, on the actor's own driver: every operation leaves the receive
  pipeline alone, and an accepted authentication owns the session.\<close>

interpretation auth_retry: retry_driver "auth_driver cfg env user_id token dev" "\<lambda>a. pipe a = p"
  "\<lambda>a. session a = Authenticated \<and> transport a \<and> current_uid a = Some (show_u64 user_id)"
  for cfg env user_id token dev p
proof
  fix a :: "'a actor" and op
  show "pipe (fst (auth_driver cfg env user_id token dev a op)) = p" if "pipe a = p"
    using that driver_reconnect(2) [of cfg env user_id token dev a] driver_authenticate(2) [of cfg env user_id token dev a]
    by (cases op) (metis prod.collapse)+
qed (rule driver_authenticate(1), auto)

interpretation auth_failure: failing_driver "auth_driver cfg env user_id token dev"
  "\<lambda>a. live_session a \<and> (session a = Authenticated \<longrightarrow> current_uid a = Some (show_u64 user_id))"
  for cfg env user_id token dev
proof
  fix a b :: "'a actor" and r
  assume "auth_driver cfg env user_id token dev a Reconnect = (b, r)"
  from driver_reconnect(1) [OF this]
  show "live_session b \<and> (session b = Authenticated \<longrightarrow> current_uid b = Some (show_u64 user_id))"
    by (simp add: live_other)
next
  fix a b :: "'a actor" and e
  assume keep: "live_session a \<and> (session a = Authenticated \<longrightarrow> current_uid a = Some (show_u64 user_id))"
    and run: "auth_driver cfg env user_id token dev a AuthenticateOp = (b, Inl e)"
  show "live_session b \<and> (session b = Authenticated \<longrightarrow> current_uid b = Some (show_u64 user_id))"
  proof (cases "can (session a) Authenticate")
    case (Inl x)
    then show ?thesis using run keep by (simp add: auth_driver_def)
  next
    case (Inr st)
    then have au: "authenticate cfg env user_id token dev a = (b, Inl e)"
      using run by (auto simp: auth_driver_def split: sum.splits prod.splits)
    show ?thesis
    proof (cases "session b = Authenticated")
      case True
      then have live: "session b \<in> live_states" by simp
      then have sa: "session a = Authenticated" using authenticate_failed [OF au] True by fastforce
      then have own: "current_uid a = Some (show_u64 user_id)" using keep by simp
      have "transport b = transport a" "current_uid b = current_uid a" "inbound_task b = inbound_task a"
        "inbound_epoch b = inbound_epoch a"
        using authenticate_failed [OF au] live own by fastforce+
      then show ?thesis using keep sa True by (simp add: live_session_def)
    qed (simp add: live_other)
  qed
qed

lemma execute_returns: "\<exists>s' r. execute_authenticate_with_retry run need s = (s', Some r)"
  by (simp add: execute_authenticate_with_retry_def Let_def split: prod.splits sum.splits)

lemma with_retry_execute:
  assumes "authenticate_with_retry cfg env u t d need a = (a1, r)"
  shows "execute_authenticate_with_retry (auth_driver cfg env u t d) need a = (a1, Some r)"
proof -
  obtain b q where "execute_authenticate_with_retry (auth_driver cfg env u t d) need a = (b, Some q)"
    using execute_returns [of "auth_driver cfg env u t d" need a] by blast
  then show ?thesis using assms by (simp add: authenticate_with_retry_def)
qed

lemma with_retry_ok:
  "authenticate_with_retry cfg env u t d need a = (a1, Inr ()) \<Longrightarrow>
    session a1 = Authenticated \<and> transport a1 \<and> current_uid a1 = Some (show_u64 u)"
  by (rule auth_retry.execute_authed [OF with_retry_execute])

lemma with_retry_pipe: "authenticate_with_retry cfg env u t d need a = (a1, r) \<Longrightarrow> pipe a1 = pipe a"
  using auth_retry.execute_inv [of a "pipe a" cfg env u t d need] with_retry_execute by fastforce

lemma try_auto_ok:
  assumes "try_auto_reconnect cfg env a = (a1, Inr next_state)"
  shows "next_state = Authenticated \<and> transport a1 \<and> current_uid a1 \<noteq> None \<or> next_state = Connected"
  using assms with_retry_ok
  by (fastforce simp: try_auto_reconnect_def Let_def split: prod.splits sum.splits option.splits)

lemma try_auto_failed:
  assumes "try_auto_reconnect cfg env a = (a1, Inl e)"
  shows "session a1 = session a \<or> session a1 \<notin> live_states"
proof -
  obtain b r where c: "connect env ''reconnect timeout'' a = (b, r)" by fastforce
  show ?thesis
    using assms connect_frame(1) [OF c] dismantle_session(1)
    by (auto simp: try_auto_reconnect_def c Let_def split: prod.splits sum.splits option.splits)
qed

subsection \<open>Every step keeps the session invariant\<close>

lemma live_simps [simp]:
  "live_session (emit ev a) = live_session a" "live_session (emit_change from a) = live_session a"
  "live_session (next_call a) = live_session a" "live_session (replay_prelogin a) = live_session a"
  "live_session (clear_hint a) = live_session a" "live_session (reset_reconnect_backoff a) = live_session a"
  "live_session (schedule_next_reconnect cfg env a) = live_session a"
  "live_session (mark_reconnect_ready_now env a) = live_session a" "live_session (flush_pending a) = live_session a"
  "live_session (a\<lparr>should_auto_reconnect := b\<rparr>) = live_session a"
  "live_session (a\<lparr>next_reconnect_at := t\<rparr>) = live_session a"
  "live_session (a\<lparr>reconnect_attempt := n\<rparr>) = live_session a"
  "live_session (a\<lparr>coordinator := c\<rparr>) = live_session a" "live_session (a\<lparr>hint := h\<rparr>) = live_session a"
  "live_session (a\<lparr>auth_terminal_fired := b\<rparr>) = live_session a"
  "live_session (a\<lparr>last_terminal_reason := tr\<rparr>) = live_session a"
  "live_session (a\<lparr>disk := d\<rparr>) = live_session a" "live_session (a\<lparr>bootstrap_done := b\<rparr>) = live_session a"
  by (auto simp: live_session_def mark_reconnect_ready_now_def flush_pending_def)

lemma live_start:
  "session a = Authenticated \<longrightarrow> transport a \<and> current_uid a \<noteq> None \<Longrightarrow> live_session (start_inbound_task a)"
  by (auto simp: live_session_def start_inbound_task_def Let_def)

lemma live_not_live: "session a \<notin> live_states \<Longrightarrow> live_session a"
  by (auto simp: live_session_def)

lemma live_lost [simp]: "live_session (lost_and_emit env a)" "live_session (lost_and_queue env a)"
  by (simp_all add: live_not_live)

lemma live_requests [simp]:
  assumes "live_session a"
  shows "live_session (after_requests env lost a)" "live_session (replay_subscriptions env a)"
    "live_session (upkeep env a)" "live_session (resume_sync cfg env a)" "live_session (resume_if_ready cfg env a)"
proof -
  show 1: "live_session (after_requests env lost a)" for lost using assms by (simp add: after_requests_def)
  have "live_session ((next_call (next_call a))\<lparr>coordinator := c, convergence_running := v, emitted := ev\<rparr>)" for c v ev
    using assms by (simp add: live_session_def)
  then show "live_session (resume_sync cfg env a)" by (simp add: resume_sync_def Let_def after_requests_def)
  then show "live_session (resume_if_ready cfg env a)" using assms by (simp add: resume_if_ready_def)
  show "live_session (replay_subscriptions env a)" "live_session (upkeep env a)"
    using 1 assms by (simp_all add: replay_subscriptions_def upkeep_def)
qed

lemma live_forced [simp]: "live_session a \<Longrightarrow> live_session (trigger_forced_logout env e src a)"
  by (auto simp: trigger_forced_logout_def Let_def live_session_def clear_subscriptions_def
      reset_reconnect_backoff_def split: prod.split)

lemma retry_succeeded_live:
  assumes "try_auto_reconnect cfg env a = (a1, Inr next_state)"
  shows "live_session (retry_succeeded cfg env from next_state a1)"
proof -
  have "live_session (start_inbound_task (clear_hint (b\<lparr>coordinator := c, auth_terminal_fired := False\<rparr>)))"
    if "b = reset_reconnect_backoff (a1\<lparr>session := next_state\<rparr>)" for b c
    by (rule live_start) (use try_auto_ok [OF assms] that in auto)
  then show ?thesis by (simp add: retry_succeeded_def Let_def)
qed

lemma token_refresh_handoff_live:
  assumes "session a \<noteq> Authenticated"
  shows "live_session (token_refresh_handoff env e a)"
proof -
  obtain a1 r where c: "connect env ''reconnect timeout'' a = (a1, r)" by fastforce
  have s: "session a1 \<noteq> Authenticated" using connect_frame(1) [OF c] assms by simp
  have "can (session a1) Connect = Inr st \<Longrightarrow> st = Connected" for st
    by (cases "session a1") auto
  then show ?thesis using s
    by (auto simp: token_refresh_handoff_def c Let_def live_session_def split: sum.splits)
qed

lemma retry_fire_live: "live_session a \<Longrightarrow> live_session (retry_fire cfg env a)"
proof (cases "wants_online a")
  case True
  then have na: "session a \<noteq> Authenticated" by (auto simp: wants_online_def awaiting_reauth_def)
  obtain a1 r where t: "try_auto_reconnect cfg env a = (a1, r)" by fastforce
  show ?thesis
  proof (cases r)
    case (Inl e)
    have s: "session a1 \<noteq> Authenticated" using try_auto_failed [OF t [unfolded Inl]] na by auto
    show ?thesis using True t Inl s
      by (simp add: retry_fire_def Let_def live_other token_refresh_handoff_live)
  next
    case (Inr st)
    then show ?thesis using True t retry_succeeded_live [of cfg env a a1 st]
      by (simp add: retry_fire_def Let_def)
  qed
qed (simp add: retry_fire_def)

lemma health_tick_live:
  assumes "live_session a"
  shows "live_session (health_tick env a)"
proof -
  let ?a1 = "if wants_online a \<and> next_reconnect_at a = None then mark_reconnect_ready_now env a else a"
  have "live_session ?a1" using assms by simp
  then show ?thesis
    by (auto simp: health_tick_def Let_def probe_connection_def assms split: bool.split)
qed

lemma finish_connect_live:
  assumes "already_ready \<Longrightarrow> live_session a"
    and "\<not> already_ready \<Longrightarrow> session a = Authenticated \<longrightarrow> transport a \<and> current_uid a \<noteq> None"
  shows "live_session (finish_connect cfg env already_ready had_local from a)"
proof (cases already_ready)
  case True
  then show ?thesis using assms(1) by (simp add: finish_connect_def Let_def)
next
  case False
  have "live_session (start_inbound_task ((clear_hint (b\<lparr>coordinator := c\<rparr>))\<lparr>auth_terminal_fired := False, last_terminal_reason := None\<rparr>))"
    if "b = reset_reconnect_backoff a" for b c
    by (rule live_start) (use assms(2) False that in auto)
  with False show ?thesis by (simp add: finish_connect_def Let_def)
qed

lemma reconcile_live:
  assumes "live_session a" and "reconcile_transport env up a = (a3, frm)"
  shows "live_session a3" and "session a3 = Authenticated \<Longrightarrow> up \<and> a3 = a"
proof -
  obtain b tr where b: "transport_lost env a = (b, tr)" by fastforce
  have s: "session b \<notin> live_states" using transport_lost_simps(1) [of env a] b by simp
  have "up \<and> a3 = a \<or> session a3 = session b"
    using assms(2) b by (cases tr) (auto simp: reconcile_transport_def split: if_splits)
  then show "live_session a3" and "session a3 = Authenticated \<Longrightarrow> up \<and> a3 = a"
    using assms(1) s live_not_live [of a3] by auto
qed

lemma run_plan_live:
  assumes "live_session a" and "session a = Authenticated \<Longrightarrow> plan = Inr AlreadyReady"
    and "run_connect_plan cfg env plan a = (a4, r)"
  shows "r = Inl e \<Longrightarrow> live_session a4" and "plan = Inr AlreadyReady \<Longrightarrow> live_session a4"
    and "r = Inr () \<Longrightarrow> session a4 = Authenticated \<Longrightarrow> transport a4 \<and> current_uid a4 \<noteq> None"
proof -
  have con: "can st Connect = Inr st' \<Longrightarrow> st' = Connected" for st st' by (cases st) auto
  consider (err) x where "plan = Inl x" | (ready) "plan = Inr AlreadyReady"
    | (restore) "plan = Inr RestorePersistedSession" | (only) "plan = Inr ConnectTransportOnly"
    by (metis connect_plan.exhaust sum.exhaust)
  then have "(r = Inl e \<longrightarrow> live_session a4) \<and> (plan = Inr AlreadyReady \<longrightarrow> live_session a4) \<and>
      (r = Inr () \<longrightarrow> session a4 = Authenticated \<longrightarrow> transport a4 \<and> current_uid a4 \<noteq> None)"
  proof cases
    case err
    then show ?thesis using assms by (auto simp: run_connect_plan_def)
  next
    case ready
    then show ?thesis using assms by (auto simp: run_connect_plan_def live_session_def)
  next
    case restore
    then have na: "session a \<noteq> Authenticated" using assms(2) by auto
    obtain b q where t: "try_auto_reconnect cfg env a = (b, q)" by fastforce
    show ?thesis
    proof (cases q)
      case (Inl x)
      have "session b \<noteq> Authenticated" using try_auto_failed [OF t [unfolded Inl]] na by auto
      then show ?thesis using assms(3) restore t Inl by (auto simp: run_connect_plan_def live_other)
    next
      case (Inr st)
      then show ?thesis using assms(3) restore t try_auto_ok [OF t [unfolded Inr]]
        by (auto simp: run_connect_plan_def)
    qed
  next
    case only
    then have na: "session a \<noteq> Authenticated" using assms(2) by auto
    obtain b q where t: "connect env ''connect timeout'' a = (b, q)" by fastforce
    have "session a4 \<noteq> Authenticated"
      using assms(3) only t na connect_frame(1) [OF t] con [of "session a"]
      by (auto simp: run_connect_plan_def split: sum.splits)
    then show ?thesis by (auto simp: live_other)
  qed
  then show "r = Inl e \<Longrightarrow> live_session a4" and "plan = Inr AlreadyReady \<Longrightarrow> live_session a4"
    and "r = Inr () \<Longrightarrow> session a4 = Authenticated \<Longrightarrow> transport a4 \<and> current_uid a4 \<noteq> None" by auto
qed

lemma cmd_connect_live:
  assumes "live_session a"
  shows "live_session (fst (cmd_connect cfg env a))"
proof -
  let ?a2 = "next_call (a\<lparr>should_auto_reconnect := True\<rparr>)"
  let ?up = "transport a \<and> an_alive (env (calls a))"
  let ?local = "current_uid a \<noteq> None"
  let ?plan = "plan_connect (session a) ?local ?up"
  obtain a3 frm where a3: "reconcile_transport env ?up ?a2 = (a3, frm)" by fastforce
  obtain a4 r where a4: "run_connect_plan cfg env ?plan a3 = (a4, r)" by fastforce
  have l2: "live_session ?a2" using assms by simp
  note rec = reconcile_live [OF l2 a3]
  have ready: "?plan = Inr AlreadyReady" if "session a3 = Authenticated"
    using rec(2) [OF that] that by (auto simp: plan_connect_def)
  note plan = run_plan_live [OF rec(1) ready a4]
  have eq: "fst (cmd_connect cfg env a) = (case r of
      Inr _ \<Rightarrow> finish_connect cfg env (?plan = Inr AlreadyReady) ?local frm a4
    | Inl e \<Rightarrow> schedule_next_reconnect cfg env a4)"
    using a3 a4 unfolding cmd_connect_def Let_def is_connected_def by (simp split: sum.split)
  show ?thesis
  proof (cases r)
    case (Inl e)
    then show ?thesis using eq plan(1) by simp
  next
    case (Inr u)
    have "live_session (finish_connect cfg env (?plan = Inr AlreadyReady) ?local frm a4)"
      by (rule finish_connect_live) (use plan(2,3) Inr in auto)
    then show ?thesis using eq Inr by simp
  qed
qed

lemma login_live:
  assumes "live_session a"
  shows "live_session (fst (login cfg env ctx late a))"
proof (cases "an_login (env (calls a))")
  case LoginTimeout
  then show ?thesis using assms by (simp add: login_def)
next
  case (LoginAnswer reply)
  obtain b r where req: "request env ctx reply a = (b, r)" by fastforce
  have "b = a \<or> session b \<notin> live_states" by (rule request_frame(4) [OF req])
  then have lb: "live_session b" using assms live_not_live by auto
  then have own: "live_session (b\<lparr>disk := d, calls := n, current_uid := Some u, session_epoch := e\<rparr>)" for d n u e
    by (simp add: live_session_def)
  show ?thesis
    using LoginAnswer req lb own
    by (auto simp: login_def Let_def next_call_def live_session_def split: sum.splits prod.splits)
qed

lemma cmd_login_live:
  assumes "live_session a"
  shows "live_session (fst (cmd_login_with cfg env ctx late a))"
proof (cases "can (session a) Login")
  case (Inr st)
  then have "st \<noteq> Authenticated" by (cases "session a") auto
  then show ?thesis using Inr login_live [OF assms, of cfg env ctx late]
    by (auto simp: cmd_login_with_def Let_def live_other split: sum.splits prod.splits)
qed (simp add: cmd_login_with_def assms)

lemma cmd_authenticate_live:
  assumes "live_session a" and own: "session a = Authenticated \<longrightarrow> current_uid a = Some (show_u64 user_id)"
  shows "live_session (fst (cmd_authenticate cfg env user_id token dev a))"
proof -
  let ?a1 = "next_call a"
  let ?up = "transport a \<and> an_alive (env (calls a))"
  show ?thesis
  proof (cases "plan_authenticate_transport (session a) ?up")
    case (Inl e)
    then show ?thesis using assms by (simp add: cmd_authenticate_def is_connected_def)
  next
    case (Inr plan)
    obtain a2 r where run: "authenticate_with_retry cfg env user_id token dev (plan = ReconnectTransport) ?a1 = (a2, r)"
      by fastforce
    show ?thesis
    proof (cases r)
      case err: (Inl e)
      have "live_session a2 \<and> (session a2 = Authenticated \<longrightarrow> current_uid a2 = Some (show_u64 user_id))"
        by (rule auth_failure.execute_keep [OF _ with_retry_execute [OF run [unfolded err]]]) (use assms in simp)
      then show ?thesis using Inr run err by (simp add: cmd_authenticate_def is_connected_def)
    next
      case ok: (Inr u)
      have "live_session (start_inbound_task (a2\<lparr>auth_terminal_fired := False, should_auto_reconnect := True, coordinator := c\<rparr>))" for c
        by (rule live_start) (use with_retry_ok [of cfg env user_id token dev _ ?a1 a2] run ok in auto)
      then show ?thesis using Inr run ok
        by (simp add: cmd_authenticate_def is_connected_def finish_authenticate_def Let_def)
    qed
  qed
qed

subsection \<open>The loop of the actor\<close>

text \<open>One turn of the loop: a timer or a command, until the shutdown command has run. Two turns carry
  a condition: an explicit disconnect is not refused by the transport, and a live session is not
  re-authenticated for somebody else (an account is changed by the switch command).\<close>

inductive actor_step :: "setting \<Rightarrow> outside \<Rightarrow> 'p actor \<Rightarrow> 'p actor \<Rightarrow> bool" for cfg env where
  turn_tick: "session a \<noteq> ShutdownState \<Longrightarrow> actor_step cfg env a (health_tick env a)"
| turn_retry: "session a \<noteq> ShutdownState \<Longrightarrow> retry_deadline a \<noteq> None \<Longrightarrow> actor_step cfg env a (retry_fire cfg env a)"
| turn_connect: "session a \<noteq> ShutdownState \<Longrightarrow> actor_step cfg env a (fst (cmd_connect cfg env a))"
| turn_login: "session a \<noteq> ShutdownState \<Longrightarrow> actor_step cfg env a (fst (cmd_login cfg env a))"
| turn_register: "session a \<noteq> ShutdownState \<Longrightarrow> actor_step cfg env a (fst (cmd_register cfg env a))"
| turn_authenticate: "session a \<noteq> ShutdownState \<Longrightarrow>
    session a = Authenticated \<longrightarrow> current_uid a = Some (show_u64 user_id) \<Longrightarrow>
    actor_step cfg env a (fst (cmd_authenticate cfg env user_id token dev a))"
| turn_ping: "session a \<noteq> ShutdownState \<Longrightarrow> actor_step cfg env a (fst (cmd_ping env a))"
| turn_hint: "session a \<noteq> ShutdownState \<Longrightarrow> actor_step cfg env a (cmd_set_network_hint env h a)"
| turn_inbound_lost: "session a \<noteq> ShutdownState \<Longrightarrow> actor_step cfg env a (inbound_disconnected env e a)"
| turn_disconnect: "session a \<noteq> ShutdownState \<Longrightarrow> snd (cmd_disconnect env a) = Inr () \<Longrightarrow>
    actor_step cfg env a (fst (cmd_disconnect env a))"
| turn_set_uid: "session a \<noteq> ShutdownState \<Longrightarrow> actor_step cfg env a (fst (cmd_set_current_uid cfg env uid a))"
| turn_switch: "session a \<noteq> ShutdownState \<Longrightarrow> actor_step cfg env a (fst (cmd_switch_local_account cfg env uid a))"
| turn_clear: "session a \<noteq> ShutdownState \<Longrightarrow> actor_step cfg env a (fst (cmd_clear_local_state env a))"
| turn_wipe: "session a \<noteq> ShutdownState \<Longrightarrow> actor_step cfg env a (fst (cmd_wipe_current_user_full env a))"
| turn_shutdown: "session a \<noteq> ShutdownState \<Longrightarrow> actor_step cfg env a (cmd_shutdown a)"

text \<open>The state the actor starts in: what the disk says about the last account.\<close>

definition initial_actor :: "setting \<Rightarrow> outside \<Rightarrow> accounts_disk \<Rightarrow> 'p actor" where
  "initial_actor cfg env d =
     (let uid = load_current_uid d; an = env 0;
          (d1, saved) = (case uid of
             None \<Rightarrow> (d, Inr None)
           | Some u \<Rightarrow> load_session (st_cipher cfg) (an_entropy an 0) (an_fault an 0) (an_fault an 1) (an_wall_ms an) u d)
      in \<lparr>session = New, transport = False, should_auto_reconnect = False, reconnect_attempt = 0,
          next_reconnect_at = None, hint = Unknown, auth_terminal_fired = False, last_terminal_reason = None,
          current_uid = uid,
          bootstrap_done = (case saved of Inr (Some s) \<Rightarrow> ss_bootstrap_completed s | _ \<Rightarrow> False),
          inbound_epoch = 0, inbound_task = None, session_epoch = 0, coordinator = new_coordinator,
          convergence_running = False, pipe = default_pipeline, scoped = empty_scope, pending_events = [],
          emitted = [], disk = d1, calls = 1\<rparr>)"

inductive actor_reachable :: "setting \<Rightarrow> outside \<Rightarrow> accounts_disk \<Rightarrow> 'p actor \<Rightarrow> bool" for cfg env d where
  actor_start: "actor_reachable cfg env d (initial_actor cfg env d)"
| actor_turn: "actor_reachable cfg env d a \<Longrightarrow> actor_step cfg env a b \<Longrightarrow> actor_reachable cfg env d b"

inductive_cases actor_stepE: "actor_step cfg env a b"

lemma disconnect_live:
  assumes "snd (cmd_disconnect env a) = Inr ()"
  shows "live_session (fst (cmd_disconnect env a))"
  using assms
  by (auto simp: cmd_disconnect_def Let_def live_other split: prod.splits sum.splits if_splits)

lemma set_uid_live:
  assumes "live_session a"
  shows "live_session (fst (cmd_set_current_uid cfg env uid a))"
proof (cases "session a = Authenticated")
  case True
  then show ?thesis using assms by (simp add: cmd_set_current_uid_def)
next
  case False
  then have "session (fst (cmd_set_current_uid cfg env uid a)) \<noteq> Authenticated"
    by (auto simp: cmd_set_current_uid_def Let_def split: prod.splits sum.splits)
  then show ?thesis by (rule live_other)
qed

lemma switch_live:
  assumes "live_session a"
  shows "live_session (fst (cmd_switch_local_account cfg env uid a))"
  using assms
  by (auto simp: cmd_switch_local_account_def Let_def live_other split: prod.splits sum.splits if_splits)

lemma clear_live: "live_session (fst (cmd_clear_local_state env a))" "live_session (fst (cmd_wipe_current_user_full env a))"
  by (auto simp: cmd_clear_local_state_def cmd_wipe_current_user_full_def Let_def live_other clear_presence_def
      split: prod.splits sum.splits option.splits)

lemma shutdown_live: "session a \<noteq> ShutdownState \<Longrightarrow> live_session (cmd_shutdown a)"
  by (cases "session a") (auto simp: cmd_shutdown_def Let_def live_session_def clear_presence_def)

lemma hint_live: "live_session a \<Longrightarrow> live_session (cmd_set_network_hint env h a)"
  by (simp add: cmd_set_network_hint_def Let_def)

lemma ping_live: "live_session a \<Longrightarrow> live_session (fst (cmd_ping env a))"
  by (simp add: cmd_ping_def probe_connection_def split: bool.split)

lemma actor_step_live: "actor_step cfg env a b \<Longrightarrow> live_session a \<Longrightarrow> live_session b"
  by (induction rule: actor_step.induct)
    (simp_all add: health_tick_live retry_fire_live cmd_connect_live cmd_login_live cmd_authenticate_live
      cmd_login_def cmd_register_def disconnect_live set_uid_live switch_live clear_live shutdown_live hint_live
      ping_live inbound_disconnected_def)

lemma initial_live: "live_session (initial_actor cfg env d)"
  by (simp add: initial_actor_def Let_def live_session_def split: prod.split)


text \<open>An explicit disconnect that the transport refuses leaves the session deaf for good: it stays
  authenticated over a live transport, so it still sends, but its inbound task is stopped, and
  neither the health check nor another connect, which finds everything ready, starts it again.\<close>

theorem refused_disconnect_leaves_session_deaf:
  assumes "session a = Authenticated" and "transport a" and "an_disconnect (env (calls a)) = Inl e"
    and "\<And>k. an_alive (env k) \<and> an_ping (env k) \<and> \<not> an_upkeep_lost (env k) \<and> \<not> an_sync_lost (env k)"
  shows "let (a1, r) = cmd_disconnect env a; a2 = health_tick env a1; (a3, r3) = cmd_connect cfg env a2
    in r = Inl e \<and> r3 = Inr () \<and> session a3 = Authenticated \<and> transport a3 \<and> inbound_task a3 = None"
proof -
  obtain a1 where 1: "cmd_disconnect env a = (a1, Inl e)" and s1: "session a1 = Authenticated" "transport a1"
    "inbound_task a1 = None"
    using assms by (simp add: cmd_disconnect_def disconnect_def Let_def stop_inbound_task_def reset_reconnect_backoff_def)
  have s2: "session (health_tick env a1) = Authenticated" "transport (health_tick env a1)"
    "inbound_task (health_tick env a1) = None"
    using s1 assms(4) by (simp_all add: health_tick_def Let_def probe_connection_def wants_online_def awaiting_reauth_def
        flush_pending_def upkeep_def after_requests_def)
  have plan: "plan_connect Authenticated has True = Inr AlreadyReady" for has by (simp add: plan_connect_def)
  obtain a3 where 3: "cmd_connect cfg env (health_tick env a1) = (a3, Inr ())"
    and s3: "session a3 = Authenticated" "transport a3" "inbound_task a3 = None"
    using s2 assms(4)
    by (simp add: cmd_connect_def Let_def is_connected_def plan reconcile_transport_def run_connect_plan_def
        finish_connect_def resume_if_ready_def resume_sync_def after_requests_def)
  show ?thesis by (simp add: 1 3 s3)
qed

definition calm :: answers where
  "calm = \<lparr>an_now = 0, an_wall_ms = 0, an_alive = True, an_ping = True,
     an_connect = Endpoints [Some (Inr ())], an_disconnect = Inr (),
     an_auth = Answered \<lparr>ar_success = True, ar_error_code = None, ar_error_message = None\<rparr>,
     an_login = LoginAnswer (Answered (Inr (example_login ''t1''))), an_fault = \<lambda>_ _. None,
     an_entropy = \<lambda>_. example_entropy CHR ''a'', an_draw = 0, an_replay_lost = False, an_upkeep_lost = False, an_sync_lost = False, an_switch_pending = False, an_full_rebuild = False,
     an_sync_run = \<lambda>_ c. (c, Some (Inr ()))\<rparr>"

definition example_setting :: setting where
  "example_setting = \<lparr>st_codes = example_codes, st_cipher = example_cipher, st_round = \<lambda>x. x\<rparr>"

definition env_of :: "answers \<Rightarrow> outside" where
  "env_of an = (\<lambda>_. an)"

lemma calm_fields [simp]:
  "an_wall_ms calm = 0" "an_auth calm = Answered \<lparr>ar_success = True, ar_error_code = None, ar_error_message = None\<rparr>"
  "an_fault calm = (\<lambda>_ _. None)" "an_entropy calm = (\<lambda>_. example_entropy CHR ''a'')" "an_alive calm" "an_ping calm" "an_now calm = 0"
  "an_connect calm = Endpoints [Some (Inr ())]" "an_disconnect calm = Inr ()"
  "an_login calm = LoginAnswer (Answered (Inr (example_login ''t1'')))" "an_draw calm = 0" "\<not> an_replay_lost calm" "\<not> an_upkeep_lost calm" "\<not> an_sync_lost calm"
  by (simp_all add: calm_def)

lemma env_of_calm: "env_of calm k = calm"
  by (simp add: env_of_def)

lemma calm_replay [simp]: "replay_subscriptions (env_of calm) a = a"
  by (simp add: replay_subscriptions_def after_requests_def env_of_def)

definition connected_example :: "unit actor" where
  "connected_example = fst (cmd_connect example_setting (env_of calm) (initial_actor example_setting (env_of calm) empty_disk))"

lemma connected_example_state: "session connected_example = Connected" "transport connected_example" "current_uid connected_example = None"
   "disk connected_example = empty_disk"  "bootstrap_done connected_example = False" "inbound_task connected_example = Some 1" "inbound_epoch connected_example = 1"
  by (simp_all add: connected_example_def initial_actor_def cmd_connect_def Let_def load_current_uid_def empty_disk_def
    is_connected_def plan_connect_def reconcile_transport_def transport_lost_def run_connect_plan_def finish_connect_def
    connect_def env_of_calm next_call_def small_ops replay_prelogin_def clear_hint_def reset_reconnect_backoff_def is_online_def)

lemma fresh_account:
  "load_session c ent f1 f2 t uid empty_disk = (empty_disk, Inr None)" "load_bootstrap_completed uid empty_disk = False"
  by (simp_all add: load_session_def load_session_from_account_def Let_def empty_disk_def empty_account_def load_bootstrap_completed_def)

text \<open>A first authentication on a disk that knows nobody.\<close>

lemma first_authenticate:
  fixes a :: "'p actor"
  assumes "session a = Connected" and "transport a" and "disk a = empty_disk"
    and "current_uid a = None \<or> current_uid a = Some (show_u64 user_id)"
  shows "\<exists>d. authenticate_with_retry example_setting (env_of calm) user_id token dev False a =
    ((next_call a)\<lparr>session := Authenticated, bootstrap_done := False, disk := d, current_uid := Some (show_u64 user_id),
      session_epoch := session_epoch a + 1\<rparr>, Inr ()) \<and>
     load_session_from_account example_cipher (show_u64 user_id) d = Inr (Some \<lparr>ss_user_id = user_id, ss_token = token,
       ss_device_id = dev, ss_bootstrap_completed = False\<rparr>)"
proof -
  let ?login = "\<lparr>lr_user_id = user_id, lr_token = token, lr_device_id = dev, lr_expires_at = 0\<rparr>"
  let ?uid = "show_u64 user_id"
  obtain d r where run: "save_login example_cipher (example_entropy CHR ''a'') (\<lambda>_. None) 0 ?uid ?login empty_disk = (d, r)"
    by fastforce
  have r: "r = Inr ()" by (rule save_login_account(1) [OF example_cipher_ok run])
  have "load_session_from_account example_cipher ?uid d = Inr (Some (snapshot_of ?login False))"
    using load_after_login(1) [OF example_cipher_ok _ run] by (simp add: fresh_account)
  moreover have "store_credentials example_setting calm ?uid user_id token dev False empty_disk = (d, Inr ())"
    using run r by (simp add: store_credentials_def example_setting_def flush_user_def)
  moreover have "reset_if_owner_changed ?uid 0 (next_call a) = next_call a"
    using assms(4) by (auto simp: reset_if_owner_changed_def next_call_def)
  moreover have "disk (next_call a) = empty_disk" "session_epoch (next_call a) = session_epoch a"
    using assms(3) by (simp_all add: next_call_def)
  ultimately show ?thesis
    using assms(1,2)
    by (intro exI [of _ d])
      (simp add: authenticate_with_retry_def execute_authenticate_with_retry_def auth_driver_def authenticate_def env_of_def
        request_def fresh_account Let_def snapshot_of_def)
qed

lemma plan_connected: "plan_authenticate_transport Connected True = Inr UseCurrent"
  by (simp add: plan_authenticate_transport_def)

text \<open>The authenticate command on a connected client.\<close>

lemma first_cmd_authenticate:
  fixes a :: "'p actor"
  assumes "session a = Connected" and "transport a" and "disk a = empty_disk"
    and "current_uid a = None \<or> current_uid a = Some (show_u64 user_id)"
  shows "\<exists>b. cmd_authenticate example_setting (env_of calm) user_id token dev a = (b, Inr ()) \<and>
    session b = Authenticated \<and> transport b \<and> current_uid b = Some (show_u64 user_id) \<and> \<not> auth_terminal_fired b \<and>
    should_auto_reconnect b \<and>
    load_session_from_account example_cipher (show_u64 user_id) (disk b) = Inr (Some \<lparr>ss_user_id = user_id, ss_token = token,
       ss_device_id = dev, ss_bootstrap_completed = False\<rparr>)"
proof -
  obtain d where d: "authenticate_with_retry example_setting (env_of calm) user_id token dev False (next_call a) =
    ((next_call (next_call a))\<lparr>session := Authenticated, bootstrap_done := False, disk := d, current_uid := Some (show_u64 user_id),
      session_epoch := session_epoch (next_call a) + 1\<rparr>, Inr ())"
    and ld: "load_session_from_account example_cipher (show_u64 user_id) d = Inr (Some \<lparr>ss_user_id = user_id, ss_token = token,
       ss_device_id = dev, ss_bootstrap_completed = False\<rparr>)"
    using first_authenticate [of "next_call a" user_id token dev] assms by (auto simp: next_call_def)
  have al: "an_alive (env_of calm k)" for k by (simp add: env_of_def)
  show ?thesis
    using assms(1,2)
    by (simp add: cmd_authenticate_def is_connected_def plan_connected al d finish_authenticate_def Let_def
        resume_if_ready_def replay_prelogin_def start_inbound_task_def emit_change_def emit_def ld)
qed

text \<open>The stored session of the current account reads back.\<close>

definition has_session :: "setting \<Rightarrow> 'p actor \<Rightarrow> bool" where
  "has_session cfg a \<longleftrightarrow>
     (\<exists>uid s. current_uid a = Some uid \<and> load_session_from_account (st_cipher cfg) uid (disk a) = Inr (Some s))"

definition online_example :: "unit actor" where
  "online_example = fst (cmd_authenticate example_setting (env_of calm) 4 ''t1'' ''dev'' connected_example)"

lemma online_example_state:
  "session online_example = Authenticated" "transport online_example" "current_uid online_example = Some ''4''"
  "\<not> auth_terminal_fired online_example" "should_auto_reconnect online_example" "has_session example_setting online_example"
  "actor_reachable example_setting (env_of calm) empty_disk online_example"
proof -
  show "session online_example = Authenticated" "transport online_example" "current_uid online_example = Some ''4''"
    "\<not> auth_terminal_fired online_example" "should_auto_reconnect online_example" "has_session example_setting online_example"
    using first_cmd_authenticate [of connected_example 4 "''t1''" "''dev''"]
    by (auto simp: online_example_def connected_example_state show_u64_4 has_session_def example_setting_def)
  let ?start = "initial_actor example_setting (env_of calm) empty_disk :: unit actor"
  have "session ?start = New" by (simp add: initial_actor_def Let_def split: prod.split)
  then have "actor_reachable example_setting (env_of calm) empty_disk connected_example"
    unfolding connected_example_def by (intro actor_turn [OF actor_start] turn_connect) simp
  then show "actor_reachable example_setting (env_of calm) empty_disk online_example"
    unfolding online_example_def by (rule actor_turn) (rule turn_authenticate, simp_all add: connected_example_state)
qed


theorem refused_disconnect_leaves_session_deaf_witness:
  "let env = env_of (calm\<lparr>an_disconnect := Inl NotConnected\<rparr>); (a1, r) = cmd_disconnect env online_example;
       a2 = health_tick env a1; (a3, r3) = cmd_connect example_setting env a2
   in r = Inl NotConnected \<and> r3 = Inr () \<and> session a3 = Authenticated \<and> transport a3 \<and> inbound_task a3 = None"
  unfolding Let_def [of "env_of _"]
  by (rule refused_disconnect_leaves_session_deaf [OF online_example_state(1,2)]) (simp_all add: env_of_def)

end
