(* ===== verification/Session_Ownership.thy ===== *)
theory Session_Ownership
  imports Live_Session
begin

text \<open>
  What the actor of \<open>Connection_Actor\<close> does in the long run: the reconnect timer against a server
  that refuses the stored credentials, the watchdog, and what a change of the account leaves of the
  previous one.
\<close>

subsection \<open>Refused authentications\<close>

text \<open>A server that is reachable and refuses the stored credentials.\<close>

definition refusing :: "outside \<Rightarrow> auth_response \<Rightarrow> bool" where
  "refusing env resp \<longleftrightarrow> \<not> ar_success resp \<and>
     (\<forall>k. an_connect (env k) = Endpoints [Some (Inr ())] \<and> an_auth (env k) = Answered resp)"

lemma connect_refusing:
  assumes "refusing env resp"
  shows "connect env late a = ((next_call a)\<lparr>transport := True\<rparr>, Inr ())"
  using assms by (auto simp: connect_def refusing_def Let_def next_call_def intro!: actor.equality)

lemma try_auto_refused:
  assumes "refusing env resp" and "has_session cfg a"
  shows "try_auto_reconnect cfg env a =
    (dismantle_auth_transport env (a\<lparr>transport := True, session := Connected, calls := calls a + 3\<rparr>),
     Inl (auth_rejected resp))"
proof -
  obtain uid s where uid: "current_uid a = Some uid"
    and load: "load_session_from_account (st_cipher cfg) uid (disk a) = Inr (Some s)"
    using assms(2) by (auto simp: has_session_def)
  have ld: "load_session (st_cipher cfg) ent f1 f2 t uid (disk a) = (disk a, Inr (Some s))" for ent f1 f2 t
    by (simp add: load_session_def load)
  have au: "authenticate_with_retry cfg env u t d False b = (next_call b, Inl (auth_rejected resp))"
    if "session b = Connected" "transport b" for u t d and b :: "'a actor"
    using that assms(1)
    by (simp add: authenticate_with_retry_def execute_authenticate_with_retry_def auth_driver_def authenticate_def
        request_def refusing_def auth_rejected_def Let_def)
  show ?thesis
    by (simp add: try_auto_reconnect_def connect_refusing [OF assms(1)] uid Let_def ld au next_call_def numeral_3_eq_3)
qed

lemma dismantle_connected:
  assumes "session a = Connected"
  shows "dismantle_auth_transport env a =
    (let b = a\<lparr>inbound_task := None, session := New, transport := False\<rparr>;
         c = (if should_auto_reconnect a then b\<lparr>reconnect_attempt := 0, next_reconnect_at := Some (now_of env a)\<rparr> else b)
     in emit (ConnectionStateChanged ConnConnected ConnNew) c)"
  using assms
  by (simp add: dismantle_auth_transport_def lost_and_emit_def transport_lost_def stop_inbound_task_def Let_def now_of_def)

text \<open>What a round of the timer does against such a server.\<close>

lemma refused_round:
  assumes "refusing env resp" and "has_session cfg a" and "should_auto_reconnect a"
  shows "fst (try_auto_reconnect cfg env a) =
    a\<lparr>inbound_task := None, session := New, transport := False, reconnect_attempt := 0,
      next_reconnect_at := Some (an_now (env (calls a + 3))), calls := calls a + 3,
      emitted := emitted a @ [ConnectionStateChanged ConnConnected ConnNew]\<rparr>"
  using assms(3)
  by (simp add: try_auto_refused [OF assms(1,2)] dismantle_connected Let_def emit_def now_of_def)

lemma wants_online_auto: "wants_online a \<Longrightarrow> should_auto_reconnect a"
  by (simp add: wants_online_def)

lemma retry_refused_transient:
  assumes "refusing env resp" and "has_session cfg a" and "wants_online a"
    and "auth_kind (auth_rejected resp) = Some Transient"
  shows "retry_fire cfg env a = schedule_next_reconnect cfg env (fst (try_auto_reconnect cfg env a))"
  using assms(3,4) try_auto_refused [OF assms(1,2)]
  by (simp add: retry_fire_def Let_def is_auth_terminal_def)

lemma retry_refused_terminal:
  assumes "refusing env resp" and "has_session cfg a" and "wants_online a"
    and "auth_kind (auth_rejected resp) = Some Terminal" and "auth_terminal_fired a"
  shows "retry_fire cfg env a = fst (try_auto_reconnect cfg env a)"
proof -
  have "auth_terminal_fired (fst (try_auto_reconnect cfg env a))"
    using assms(5) by (simp add: refused_round [OF assms(1,2) wants_online_auto [OF assms(3)]])
  then show ?thesis
    using assms(3,4) try_auto_refused [OF assms(1,2)]
    by (simp add: retry_fire_def Let_def is_auth_terminal_def trigger_forced_logout_def)
qed

text \<open>The back-off of the reconnect timer does not grow while the server is reachable and refuses
  the authentication for a passing reason: each round tears the fresh transport down, which resets
  the attempt counter before the next delay is computed, so after any number of failed rounds the
  client is again one base delay, the shortest, away from its next attempt.\<close>

theorem backoff_forgotten_while_refused:
  assumes "refusing env resp" and "auth_kind (auth_rejected resp) = Some Transient"
    and "has_session cfg a" and "wants_online a"
  shows "reconnect_attempt ((retry_fire cfg env ^^ Suc n) a) = 1 \<and>
    (\<exists>t draw. retry_deadline ((retry_fire cfg env ^^ Suc n) a) =
       Some (t + int (reconnect_delay_ms (st_round cfg) 0 draw (is_online (hint a)))))"
proof -
  let ?f = "retry_fire cfg env"
  have step: "has_session cfg (?f b) \<and> wants_online (?f b) \<and> hint (?f b) = hint b \<and> reconnect_attempt (?f b) = 1 \<and>
      (\<exists>t draw. retry_deadline (?f b) = Some (t + int (reconnect_delay_ms (st_round cfg) 0 draw (is_online (hint b)))))"
    if "has_session cfg b" "wants_online b" for b :: "'a actor"
    using that
    by (auto simp: retry_refused_transient [OF assms(1) that assms(2)] refused_round [OF assms(1) that(1) wants_online_auto [OF that(2)]]
        schedule_next_reconnect_def Let_def has_session_def wants_online_def retry_deadline_def awaiting_reauth_def
        sat_u32_def u32_max_def)
  have inv: "has_session cfg ((?f ^^ k) a) \<and> wants_online ((?f ^^ k) a) \<and> hint ((?f ^^ k) a) = hint a" for k
    by (induction k) (use assms(3,4) step in auto)
  show ?thesis using step [of "(?f ^^ n) a"] inv [of n] by simp
qed

definition forced_logouts :: "'p actor \<Rightarrow> nat" where
  "forced_logouts a = length (filter (\<lambda>e. case e of ForcedLogout _ _ _ \<Rightarrow> True | _ \<Rightarrow> False) (emitted a))"

text \<open>After a forced logout one connect starts a loop without any delay: the stored session is
  refused again, the timer's deadline is the present moment after every round, so each round follows
  the last at once, and because the one-shot gate of the forced logout is still closed the host is
  never told again. The loop ends only when the answer of the server changes.\<close>

theorem connect_after_forced_logout_spins:
  assumes "refusing env resp" and "auth_kind (auth_rejected resp) = Some Terminal"
    and "has_session cfg a" and "session a = Terminated" and "auth_terminal_fired a" and "\<not> transport a"
  shows "let b = (retry_fire cfg env ^^ Suc n) (fst (cmd_connect cfg env a))
    in retry_deadline b = Some (now_of env b) \<and> forced_logouts b = forced_logouts a \<and>
       session b = New \<and> should_auto_reconnect b"
proof -
  let ?f = "retry_fire cfg env"
  let ?P = "\<lambda>b. has_session cfg b \<and> wants_online b \<and> auth_terminal_fired b \<and> forced_logouts b = forced_logouts a"
  have step: "?P (?f b) \<and> retry_deadline (?f b) = Some (now_of env (?f b)) \<and> session (?f b) = New" if "?P b" for b :: "'a actor"
    using that
    by (auto simp: retry_refused_terminal [OF assms(1) _ _ assms(2)] refused_round [OF assms(1)] wants_online_auto
        has_session_def wants_online_def retry_deadline_def awaiting_reauth_def now_of_def forced_logouts_def)
  let ?a2 = "next_call (a\<lparr>should_auto_reconnect := True\<rparr>)"
  have hs2: "has_session cfg ?a2" using assms(3) by (simp add: has_session_def next_call_def)
  have start: "?P (fst (cmd_connect cfg env a))"
  proof -
    obtain uid where uid: "current_uid a = Some uid" using assms(3) by (auto simp: has_session_def)
    have "fst (cmd_connect cfg env a) = schedule_next_reconnect cfg env (fst (try_auto_reconnect cfg env ?a2))"
      using assms(4-6) uid
      by (simp add: cmd_connect_def Let_def is_connected_def plan_connect_def reconcile_transport_def transport_lost_def
          run_connect_plan_def try_auto_refused [OF assms(1) hs2])
    moreover have "should_auto_reconnect ?a2" by (simp add: next_call_def)
    ultimately have "fst (cmd_connect cfg env a) = schedule_next_reconnect cfg env
      (?a2\<lparr>inbound_task := None, session := New, transport := False, reconnect_attempt := 0,
        next_reconnect_at := Some (an_now (env (calls ?a2 + 3))), calls := calls ?a2 + 3,
        emitted := emitted ?a2 @ [ConnectionStateChanged ConnConnected ConnNew]\<rparr>)"
      by (simp only: refused_round [OF assms(1) hs2])
    then show ?thesis
      using assms(3,5)
      by (simp add: schedule_next_reconnect_def Let_def has_session_def wants_online_def forced_logouts_def next_call_def)
  qed
  have inv: "?P ((?f ^^ k) (fst (cmd_connect cfg env a)))" for k
    by (induction k) (use start step in auto)
  show ?thesis using step [OF inv [of n]] by (auto simp: Let_def wants_online_def)
qed

text \<open>C22. The reconnect driver cannot die: whenever the client wants to be online, one health check
  later a deadline is armed, and no number of further checks moves it beyond the instant first
  armed, except to the present when the transport is found dead; so the retry comes due whatever the
  reachability callbacks of the system do.\<close>

theorem watchdog_arms_and_never_postpones:
  assumes "\<And>j k. j \<le> k \<Longrightarrow> an_now (env j) \<le> an_now (env k)" and "wants_online a"
  shows "\<exists>d. retry_deadline ((health_tick env ^^ Suc n) a) = Some d \<and>
    d \<le> max (case next_reconnect_at a of Some d0 \<Rightarrow> d0 | None \<Rightarrow> now_of env a)
            (now_of env ((health_tick env ^^ Suc n) a))"
proof -
  let ?f = "health_tick env"
  let ?due = "\<lambda>b. case next_reconnect_at b of Some d \<Rightarrow> d | None \<Rightarrow> now_of env b"
  have step: "wants_online (?f b) \<and> calls b \<le> calls (?f b) \<and>
      (\<exists>d. next_reconnect_at (?f b) = Some d \<and> d \<le> max (?due b) (now_of env (?f b)))"
    if "wants_online b" for b :: "'a actor"
  proof -
    define b1 where "b1 = (if wants_online b \<and> next_reconnect_at b = None then mark_reconnect_ready_now env b else b)"
    have b1: "session b1 = session b" "should_auto_reconnect b1" "current_uid b1 = current_uid b" "calls b1 = calls b"
      "transport b1 = transport b" "next_reconnect_at b1 = Some (?due b)"
      using that by (auto simp: b1_def mark_reconnect_ready_now_def wants_online_def split: option.split)
    have up: "upkeep env c = c" if "session c \<noteq> Authenticated" for c :: "'a actor"
      using that by (simp add: upkeep_def)
    have ns: "session b \<noteq> ShutdownState" using that by (auto simp: wants_online_def awaiting_reauth_def)
    have tick: "?f b = flush_pending (upkeep env (if session b1 \<in> {Connected, LoggedIn, Authenticated}
        then (case probe_connection env b1 of (c, True) \<Rightarrow> c
              | (c, False) \<Rightarrow> lost_and_emit env (stop_inbound_task c)) else b1))"
      using ns by (simp add: health_tick_def Let_def b1_def [symmetric])
    show ?thesis
    proof (cases "session b = Connected \<and> \<not> (transport b \<and> an_alive (env (calls b)) \<and> an_ping (env (calls b)))")
      case True
      then have "?f b = flush_pending (lost_and_emit env (stop_inbound_task (next_call b1)))"
        using b1 by (auto simp: tick probe_connection_def up not_live split: bool.split)
      then show ?thesis
        using True b1 that
        by (simp add: lost_and_emit_def transport_lost_def Let_def stop_inbound_task_def next_call_def flush_pending_def
            emit_def wants_online_def now_of_def)
    next
      case False
      then have "?f b = flush_pending (if session b = New then b1 else next_call b1)"
        using b1 that by (auto simp: tick probe_connection_def wants_online_def awaiting_reauth_def up)
      then show ?thesis
        using b1 that by (auto simp: flush_pending_def next_call_def wants_online_def awaiting_reauth_def)
    qed
  qed
  have "wants_online ((?f ^^ Suc k) a) \<and> calls a \<le> calls ((?f ^^ Suc k) a) \<and>
      (\<exists>d. next_reconnect_at ((?f ^^ Suc k) a) = Some d \<and> d \<le> max (?due a) (now_of env ((?f ^^ Suc k) a)))" for k
  proof (induction k)
    case 0
    then show ?case using step [OF assms(2)] by simp
  next
    case (Suc k)
    let ?b = "(?f ^^ Suc k) a"
    from Suc obtain d where d: "wants_online ?b" "calls a \<le> calls ?b" "next_reconnect_at ?b = Some d"
      "d \<le> max (?due a) (now_of env ?b)" by blast
    from step [OF d(1)] d(3) obtain d' where d': "wants_online (?f ?b)" "calls ?b \<le> calls (?f ?b)"
      "next_reconnect_at (?f ?b) = Some d'" "d' \<le> max d (now_of env (?f ?b))" by auto
    have "now_of env ?b \<le> now_of env (?f ?b)" using assms(1) d'(2) by (simp add: now_of_def)
    then have "d' \<le> max (?due a) (now_of env (?f ?b))" using d(4) d'(4) by linarith
    then show ?case using d d' by simp
  qed
  from this [of n] show ?thesis by (auto simp: retry_deadline_def)
qed

subsection \<open>Changing the owner\<close>

lemma lost_queue_scope [simp]:
  "scoped (lost_and_queue env a) = scoped a" "coordinator (lost_and_queue env a) = coordinator a"
  "coordinator (lost_and_emit env a) = coordinator a" "coordinator (stop_inbound_task a) = coordinator a"
  "coordinator (next_call a) = coordinator a" "scoped (next_call a) = scoped a"
  by (auto simp: lost_and_queue_def lost_and_emit_def transport_lost_def Let_def emit_def small_ops)

lemma request_scope:
  "request env ctx reply a = (a1, r) \<Longrightarrow> scoped a1 = scoped a \<and> coordinator a1 = coordinator a"
  by (auto simp: request_def split: if_splits request_answer.splits)

lemma authenticate_same_owner:
  assumes "authenticate cfg env user_id token dev a = (a1, r)"
    and "current_uid a = Some (show_u64 user_id)"
  shows "scoped a1 = scoped a" and "coordinator a1 = coordinator a" and "current_uid a1 = current_uid a"
    and "r = Inr () \<Longrightarrow> inbound_epoch a1 = inbound_epoch a"
proof -
  obtain b q where req: "request env ''auth request'' (an_auth (env (calls a))) a = (b, q)" by fastforce
  have own: "reset_if_owner_changed (show_u64 user_id) t (next_call a) = next_call a" for t
    using assms(2) by (simp add: owner_same)
  have q: "b = a" if "q = Inr x" for x using request_frame(1) [OF req that] by simp
  show "scoped a1 = scoped a" "coordinator a1 = coordinator a" "current_uid a1 = current_uid a"
    "r = Inr () \<Longrightarrow> inbound_epoch a1 = inbound_epoch a"
    using assms request_scope [OF req] request_frame(3) [OF req] req own q
    by (cases q; auto simp: authenticate_def Let_def split: sum.splits if_splits prod.splits)+
qed

lemma login_ok:
  assumes "login cfg env ctx late a = (a1, Inr out)"
  shows "\<exists>d. a1 = replay_prelogin ((next_call a)\<lparr>disk := d, current_uid := Some (show_u64 (lr_user_id out)),
    session_epoch := session_epoch a + 1\<rparr>)"
proof (cases "an_login (env (calls a))")
  case LoginTimeout
  then show ?thesis using assms by (simp add: login_def)
next
  case (LoginAnswer reply)
  obtain b q where req: "request env ctx reply a = (b, q)" by fastforce
  show ?thesis
    using assms LoginAnswer req request_frame(1) [OF req]
    by (cases q) (auto simp: login_def Let_def next_call_def split: sum.splits prod.splits)
qed

text \<open>Logging in as somebody else skips the clean-up of the previous account. The login command records
  the new owner at once, so the authentication that follows finds no change of owner: the sync
  coordinator still says ready, and the message cache, presence, subscriptions, room windows and
  repair queue of the previous account are the new account's.\<close>

theorem login_bypasses_owner_cleanup:
  assumes "cmd_login cfg env a = (a1, Inr out)" and "current_uid a = Some old"
    and "old \<noteq> show_u64 (lr_user_id out)" and "readiness (snapshot (coordinator a)) = Ready"
    and "authenticate cfg env (lr_user_id out) token dev a1 = (a2, Inr ())"
  shows "current_uid a2 = Some (show_u64 (lr_user_id out)) \<and>
    scoped a2 = (scoped a)\<lparr>sc_prelogin := []\<rparr> \<and> readiness (snapshot (coordinator a2)) = Ready \<and>
    inbound_epoch a2 = inbound_epoch a"
proof -
  obtain b where log: "login cfg env ''rpc login'' ''login timeout'' a = (b, Inr out)"
    and a1: "scoped a1 = scoped b" "coordinator a1 = coordinator b" "current_uid a1 = current_uid b" "inbound_epoch a1 = inbound_epoch b"
    using assms(1) by (auto simp: cmd_login_def cmd_login_with_def Let_def emit_change_def emit_def
        split: sum.splits prod.splits)
  obtain d where "b = replay_prelogin ((next_call a)\<lparr>disk := d, current_uid := Some (show_u64 (lr_user_id out)),
      session_epoch := session_epoch a + 1\<rparr>)"
    using login_ok [OF log] by blast
  then have b: "scoped b = (scoped a)\<lparr>sc_prelogin := []\<rparr>" "coordinator b = coordinator a"
    "current_uid b = Some (show_u64 (lr_user_id out))" "inbound_epoch b = inbound_epoch a"
    by (simp_all add: replay_prelogin_def)
  show ?thesis
    using authenticate_same_owner [OF assms(5)] a1 b assms(4) by simp
qed

lemma accept_known:
  "\<forall>item \<in> set its. dedupe_key et sc item \<in> recent_keys p \<Longrightarrow> accept_items et sc its p = (p, [], length its)"
  by (induction its) (auto simp: Let_def)

text \<open>Even the account switch, which resets everything else a session owns, keeps the receive
  pipeline's window of known items. The keys of the window do not name an account, so an item of the
  new account that the previous one has received (a shared group, a common contact) is dropped as a
  duplicate and never reaches the new account's database.\<close>

theorem switch_keeps_dedupe_window:
  assumes "cmd_switch_local_account cfg env uid a = (a1, Inr ())"
    and "\<forall>item \<in> set its. dedupe_key et sc item \<in> recent_keys (pipe a)"
  shows "current_uid a1 = Some uid \<and> scoped a1 = empty_scope \<and>
    enqueue (pipe a1) et sc its = (pipe a, \<lparr>queued_items = 0, dropped_duplicates = length its\<rparr>)"
proof -
  have dis: "scoped x = scoped b \<and> pipe x = pipe b" if "disconnect env b = (x, r)" for b x :: "'a actor" and r
    using that by (auto simp: disconnect_def Let_def next_call_def split: if_splits sum.splits)
  have sc: "scoped (stop_inbound_task (reset_session_scoped_state t b)) = empty_scope" for t and b :: "'a actor"
    by (simp add: stop_inbound_task_def reset_session_scoped_state_def)
  have "current_uid a1 = Some uid \<and> scoped a1 = empty_scope \<and> pipe a1 = pipe a"
    using assms(1) dis sc
    by (auto simp: cmd_switch_local_account_def Let_def emit_change_def emit_def
        split: if_splits prod.splits sum.splits)
  then show ?thesis using accept_known [OF assms(2)] by (simp add: enqueue_def)
qed

interpretation auth_same_owner: retry_driver "auth_driver cfg env user_id token dev"
  "\<lambda>a. current_uid a = Some (show_u64 user_id) \<and> coordinator a = c"
  "\<lambda>a. session a = Authenticated \<and> transport a \<and> current_uid a = Some (show_u64 user_id)"
  for cfg env user_id token dev c
proof
  fix a :: "'a actor" and op
  assume inv: "current_uid a = Some (show_u64 user_id) \<and> coordinator a = c"
  obtain b r where b: "auth_driver cfg env user_id token dev a op = (b, r)" by fastforce
  show "current_uid (fst (auth_driver cfg env user_id token dev a op)) = Some (show_u64 user_id) \<and>
      coordinator (fst (auth_driver cfg env user_id token dev a op)) = c"
  proof (cases op)
    case Reconnect
    have "coordinator x = coordinator y" if "connect env l y = (x, q)" for l q and x y :: "'a actor"
      using that by (auto simp: connect_def Let_def next_call_def split: if_splits connect_answer.splits sum.splits)
    then have "coordinator b = coordinator a"
      using b Reconnect
      by (fastforce simp: auth_driver_def dismantle_auth_transport_def emit_change_def emit_def Let_def
          split: prod.splits sum.splits if_splits)
    then show ?thesis using b Reconnect inv driver_reconnect(3) by fastforce
  next
    case AuthenticateOp
    obtain x q where x: "authenticate cfg env user_id token dev a = (x, q)" by fastforce
    show ?thesis
      using b AuthenticateOp inv x authenticate_same_owner(2,3) [OF x]
      by (auto simp: auth_driver_def split: sum.splits)
  qed
qed (rule driver_authenticate(1), auto)

text \<open>A terminal sync failure outlives a fresh login of the same account: after an authentication with a
  new token has succeeded, the coordinator still refuses every run, automatic or explicit, so the
  session is authenticated but never synchronises until the account is switched or the local state
  cleared.\<close>

theorem terminal_failure_survives_reauthentication:
  assumes "readiness (snapshot (coordinator a)) = CriticalFailed" and "\<not> retryable (snapshot (coordinator a))"
    and "current_uid a = Some (show_u64 user_id)"
    and "cmd_authenticate cfg env user_id token dev a = (a1, Inr ())" and "\<And>k. \<not> an_replay_lost (env k)"
  shows "session a1 = Authenticated \<and>
    begin_run (coordinator a1) kind now = Inl TerminalRejection \<and>
    begin_run (note_explicit_request (coordinator a1)) kind now = Inl TerminalRejection"
proof -
  let ?plan = "plan_authenticate_transport (session a) (transport a \<and> an_alive (env (calls a)))"
  obtain plan where plan: "?plan = Inr plan"
    using assms(4) by (auto simp: cmd_authenticate_def is_connected_def split: sum.splits)
  obtain b r where run: "authenticate_with_retry cfg env user_id token dev (plan = ReconnectTransport) (next_call a) = (b, r)"
    by fastforce
  have r: "r = Inr ()" and a1: "a1 = finish_authenticate cfg env (as_connection_state (session a)) b"
    using assms(4) plan run by (auto simp: cmd_authenticate_def is_connected_def split: sum.splits)
  have "coordinator b = coordinator a"
    using auth_same_owner.execute_inv [of "next_call a" user_id "coordinator a" cfg env token dev "plan = ReconnectTransport"]
      with_retry_execute [OF run] assms(3) by simp
  moreover have auth: "session b = Authenticated" using with_retry_ok run r by blast
  define c where "c = note_network_available (coordinator b)"
  have c: "readiness (snapshot c) = CriticalFailed" "\<not> retryable (snapshot c)"
    using assms(1,2) calculation by (simp_all add: c_def note_network_available_def Let_def)
  have closed: "ensure_synced_inner pc Authenticated sw boot full False t1 t2 f c = out \<Longrightarrow> out_coordinator out = c \<and> out_events out = []"
    for pc sw boot full t1 t2 f out
    using c by (auto simp: ensure_synced_inner_def begin_run_def Let_def)
  have resumed: "session (resume_if_ready cfg env y) = Authenticated \<and> coordinator (resume_if_ready cfg env y) = c"
    if "session y = Authenticated" "coordinator y = c" for y
    using that closed [OF refl] by (simp add: resume_if_ready_def resume_sync_def Let_def after_requests_def next_call_def)
  have replay: "replay_subscriptions env y = y" for y
    using assms(5) by (simp add: replay_subscriptions_def after_requests_def)
  have frames: "session (start_inbound_task y) = session y" "coordinator (start_inbound_task y) = coordinator y"
    "coordinator (replay_prelogin y) = coordinator y" "coordinator (emit_change f y) = coordinator y" for y :: "'a actor" and f
    by (simp_all add: start_inbound_task_def Let_def replay_prelogin_def emit_change_def emit_def)
  have "session a1 = Authenticated \<and> coordinator a1 = c"
    unfolding a1 finish_authenticate_def Let_def replay c_def [symmetric]
    using resumed [of "replay_prelogin (start_inbound_task (b\<lparr>auth_terminal_fired := False,
        should_auto_reconnect := True, coordinator := c\<rparr>))"] auth
    by (simp add: frames)
  then show ?thesis
    using c by (simp add: begin_run_def note_explicit_request_def)
qed

definition refusal :: "u32 \<Rightarrow> auth_response" where
  "refusal n = \<lparr>ar_success = False, ar_error_code = Some n, ar_error_message = None\<rparr>"

definition refusing_example :: "u32 \<Rightarrow> outside" where
  "refusing_example n = env_of (calm\<lparr>an_auth := Answered (refusal n)\<rparr>)"

lemma refusing_example_refuses: "refusing (refusing_example n) (refusal n)"
  by (simp add: refusing_def refusing_example_def refusal_def env_of_def)

lemma auth_kind_rejected:
  "auth_kind (auth_rejected r) =
     Some (classify_auth_error_code (case ar_error_code r of Some c \<Rightarrow> c | None \<Rightarrow> 0))"
  by (simp only: auth_rejected_def auth_kind.simps auth_code_of_tagged option.case)

lemma refusal_kinds:
  "auth_kind (auth_rejected (refusal 7)) = Some Transient" "auth_kind (auth_rejected (refusal 10001)) = Some Terminal"
  by (simp_all add: auth_kind_rejected refusal_def classify_auth_error_code_def)

definition offline_example :: "unit actor" where
  "offline_example = online_example\<lparr>session := New, transport := False\<rparr>"

theorem backoff_forgotten_while_refused_witness:
  "reconnect_attempt ((retry_fire example_setting (refusing_example 7) ^^ 9) offline_example) = 1"
  using backoff_forgotten_while_refused [OF refusing_example_refuses refusal_kinds(1), of example_setting offline_example 8] online_example_state
  by (simp add: offline_example_def has_session_def wants_online_def)

theorem connect_after_forced_logout_spins_witness:
  "let a = online_example\<lparr>session := Terminated, transport := False, auth_terminal_fired := True\<rparr>;
       b = (retry_fire example_setting (refusing_example 10001) ^^ 9) (fst (cmd_connect example_setting (refusing_example 10001) a))
   in retry_deadline b = Some (now_of (refusing_example 10001) b) \<and> forced_logouts b = forced_logouts a"
  using connect_after_forced_logout_spins [OF refusing_example_refuses refusal_kinds(2), of example_setting
      "online_example\<lparr>session := Terminated, transport := False, auth_terminal_fired := True\<rparr>" 8] online_example_state(6)
  by (simp add: has_session_def Let_def)

theorem watchdog_arms_and_never_postpones_witness:
  "\<exists>d. retry_deadline ((health_tick (env_of calm) ^^ 4) offline_example) = Some d"
  using watchdog_arms_and_never_postpones [of "env_of calm" offline_example 3] online_example_state
  by (auto simp: offline_example_def env_of_def wants_online_def eval_nat_numeral)

theorem terminal_failure_survives_reauthentication_witness:
  "let a = connected_example\<lparr>current_uid := Some ''4'', coordinator := new_coordinator
         \<lparr>snapshot := default_snapshot\<lparr>readiness := CriticalFailed, retryable := False\<rparr>\<rparr>\<rparr>;
       a1 = fst (cmd_authenticate example_setting (env_of calm) 4 ''t1'' ''dev'' a)
   in session a1 = Authenticated \<and> begin_run (coordinator a1) Resume 5 = Inl TerminalRejection"
proof -
  let ?a = "connected_example\<lparr>current_uid := Some ''4'', coordinator := new_coordinator
         \<lparr>snapshot := default_snapshot\<lparr>readiness := CriticalFailed, retryable := False\<rparr>\<rparr>\<rparr>"
  obtain b where b: "cmd_authenticate example_setting (env_of calm) 4 ''t1'' ''dev'' ?a = (b, Inr ())"
    using first_cmd_authenticate [of ?a 4 "''t1''" "''dev''"] by (auto simp: connected_example_state show_u64_4)
  then show ?thesis
    using terminal_failure_survives_reauthentication [OF _ _ _ b] by (simp add: show_u64_4 env_of_calm)
qed


theorem login_bypasses_owner_cleanup_witness:
  "\<exists>a a2 :: unit actor. current_uid a = Some ''7'' \<and> readiness (snapshot (coordinator a)) = Ready \<and>
     snd (cmd_login example_setting (env_of calm) a) = Inr (example_login ''t1'') \<and>
     authenticate example_setting (env_of calm) 4 ''t1'' ''dev'' (fst (cmd_login example_setting (env_of calm) a)) = (a2, Inr ()) \<and>
     current_uid a2 = Some ''4'' \<and> readiness (snapshot (coordinator a2)) = Ready"
proof -
  let ?a = "connected_example\<lparr>current_uid := Some ''7'', coordinator := new_coordinator
         \<lparr>snapshot := default_snapshot\<lparr>readiness := Ready\<rparr>\<rparr>\<rparr>"
  obtain d r where run: "save_login example_cipher (example_entropy CHR ''a'') (\<lambda>_. None) 0 ''4'' (example_login ''t1'') empty_disk = (d, r)"
    by fastforce
  have r: "r = Inr ()" by (rule save_login_account(1) [OF example_cipher_ok run])
  have ld: "load_session_from_account example_cipher ''4'' d = Inr (Some (snapshot_of (example_login ''t1'') False))"
    using load_after_login(1) [OF example_cipher_ok _ run] by (simp add: fresh_account example_login_def show_u64_4)
  then obtain key where key: "load_master_key example_cipher ''4'' d = Inr key"
    by (auto simp: load_session_from_account_def Let_def split: option.splits sum.splits)
  obtain a1 where log: "cmd_login example_setting (env_of calm) ?a = (a1, Inr (example_login ''t1''))"
    and a1: "session a1 = LoggedIn" "transport a1" "disk a1 = d" "current_uid a1 = Some ''4''"
    using run r
    by (simp add: cmd_login_def cmd_login_with_def login_def request_def connected_example_state env_of_def example_setting_def
        next_call_def replay_prelogin_def emit_change_def emit_def Let_def flush_user_def example_login_def show_u64_4)
  have uid: "show_u64 (lr_user_id (example_login ''t1'')) = ''4''" "lr_user_id (example_login ''t1'') = 4"
    by (simp_all add: example_login_def show_u64_4)
  have "snd (authenticate example_setting (env_of calm) 4 ''t1'' ''dev'' a1) = Inr ()"
    using a1 ld key
    by (simp add: authenticate_def env_of_def request_def example_setting_def Let_def next_call_def load_session_def
        store_credentials_def update_access_token_def flush_user_def save_current_uid_def reset_if_owner_changed_def show_u64_4)
  then obtain a2 where au: "authenticate example_setting (env_of calm) 4 ''t1'' ''dev'' a1 = (a2, Inr ())"
    by (metis prod.collapse)
  have "current_uid a2 = Some ''4'' \<and> readiness (snapshot (coordinator a2)) = Ready"
    using login_bypasses_owner_cleanup [OF log, of "''7''" "''t1''" "''dev''" a2] au by (simp add: uid show_u64_4)
  then show ?thesis using log au by (intro exI [of _ ?a] exI [of _ a2]) simp
qed

definition shared_item :: "unit sync_entity_item" where
  "shared_item = \<lparr>entity_id = ''g1'', item_version = 3, deleted = False, payload = Some ()\<rparr>"

theorem switch_keeps_dedupe_window_witness:
  "let d = empty_disk\<lparr>k_last_login := [(''4'', 10)]\<rparr>;
       a = connected_example\<lparr>disk := d, pipe := fst (enqueue default_pipeline ''group'' None [shared_item])\<rparr>;
       a1 = fst (cmd_switch_local_account example_setting (env_of calm) ''4'' a)
   in current_uid a1 = Some ''4'' \<and> scoped a1 = empty_scope \<and>
     snd (enqueue (pipe a1) ''group'' None [shared_item]) = \<lparr>queued_items = 0, dropped_duplicates = 1\<rparr>"
proof -
  let ?d = "empty_disk\<lparr>k_last_login := [(''4'', 10)]\<rparr>"
  let ?p = "fst (enqueue default_pipeline ''group'' None [shared_item])"
  let ?a = "connected_example\<lparr>disk := ?d, pipe := ?p\<rparr>"
  have known: "\<forall>item \<in> set [shared_item]. dedupe_key ''group'' None item \<in> recent_keys (pipe ?a)"
    by (simp add: enqueue_def Let_def default_pipeline_def new_pipeline_def remember_key_def)
  have "snd (cmd_switch_local_account example_setting (env_of calm) ''4'' ?a) = Inr ()"
    by (simp add: cmd_switch_local_account_def list_local_accounts_def account_entry_def load_session_def
        load_session_from_account_def empty_disk_def empty_account_def Let_def save_current_uid_def env_of_def example_setting_def
        split: prod.split)
  then obtain a1 where a1: "cmd_switch_local_account example_setting (env_of calm) ''4'' ?a = (a1, Inr ())"
    by (metis prod.collapse)
  show ?thesis using switch_keeps_dedupe_window [OF a1 known] a1 by (simp add: Let_def)
qed

end
