(* ===== verification/Directory_Store.thy ===== *)
theory Directory_Store
  imports Channel_Store
begin

text \<open>
  The operations on the tables beside the messages (\<open>local_store.rs\<close>): profiles with their cached
  avatar, friends and friend requests, blocked users, groups, group members, members of a
  conversation, reactions, mentions and reminders, and the directory the conversation titles are
  read from. A statement is assumed to run; the row id that \<open>record_mention\<close> returns is left out.
\<close>

subsection \<open>Profiles\<close>

record upsert_user_input =
  uu_user_id :: u64
  uu_username :: "string option"
  uu_nickname :: "string option"
  uu_alias :: "string option"
  uu_avatar :: string
  uu_user_type :: int
  uu_is_deleted :: bool
  uu_channel_id :: string
  uu_version :: int
  uu_updated_at :: int

definition flag_of :: "bool \<Rightarrow> int" where "flag_of b = (if b then 1 else 0)"

definition inserted_user :: "upsert_user_input \<Rightarrow> profile_row" where
  "inserted_user u =
     \<lparr>pr_user_id = as_i64 (uu_user_id u), pr_username = uu_username u, pr_nickname = uu_nickname u,
      pr_alias = uu_alias u, pr_avatar = uu_avatar u, pr_user_type = uu_user_type u,
      pr_is_deleted = flag_of (uu_is_deleted u), pr_channel_id = uu_channel_id u, pr_version = uu_version u,
      pr_updated_at = uu_updated_at u, pr_avatar_local_path = '''', pr_avatar_cached_url = ''''\<rparr>"

definition merged_user :: "upsert_user_input \<Rightarrow> profile_row \<Rightarrow> profile_row" where
  "merged_user u r =
     (if uu_version u \<ge> pr_version r then
        r\<lparr>pr_username := (if uu_username u = None \<or> uu_username u = Some '''' then pr_username r else uu_username u),
          pr_nickname := uu_nickname u, pr_alias := uu_alias u, pr_avatar := uu_avatar u,
          pr_user_type := uu_user_type u, pr_is_deleted := flag_of (uu_is_deleted u),
          pr_channel_id := uu_channel_id u, pr_version := uu_version u, pr_updated_at := uu_updated_at u\<rparr>
      else r)"

definition upsert_user :: "upsert_user_input \<Rightarrow> side_tables \<Rightarrow> side_tables" where
  "upsert_user u s = s\<lparr>sd_users := upsert_on pr_user_id (merged_user u) (inserted_user u) (sd_users s)\<rparr>"

text \<open>One transaction: a commit that fails leaves the tables as they were.\<close>

definition batch_upsert_users ::
  "commit \<Rightarrow> upsert_user_input list \<Rightarrow> message_db \<Rightarrow> message_db \<times> unit result" where
  "batch_upsert_users commit us db =
     (if us = [] then (db, Inr ())
      else in_tx ''batch upsert users'' commit db (db\<lparr>side := fold upsert_user us (side db)\<rparr>, Inr ()))"

definition find_profile :: "u64 \<Rightarrow> side_tables \<Rightarrow> profile_row option" where
  "find_profile i s = find (\<lambda>r. pr_user_id r = as_i64 i) (sd_users s)"

definition get_user_avatar_cache :: "u64 \<Rightarrow> side_tables \<Rightarrow> (string \<times> string) option" where
  "get_user_avatar_cache i s =
     map_option (\<lambda>r. (pr_avatar_cached_url r, pr_avatar_local_path r)) (find_profile i s)"

definition set_user_avatar_cache :: "u64 \<Rightarrow> string \<Rightarrow> string \<Rightarrow> side_tables \<Rightarrow> side_tables \<times> bool" where
  "set_user_avatar_cache i url path s =
     (let hit = (\<lambda>r. pr_user_id r = as_i64 i \<and> pr_avatar r = url)
      in (s\<lparr>sd_users := update_where hit (\<lambda>r. r\<lparr>pr_avatar_local_path := path, pr_avatar_cached_url := url\<rparr>) (sd_users s)\<rparr>,
          list_ex hit (sd_users s)))"

definition force_set_user_avatar_cache :: "u64 \<Rightarrow> string \<Rightarrow> string \<Rightarrow> side_tables \<Rightarrow> side_tables \<times> bool" where
  "force_set_user_avatar_cache i url path s =
     (let hit = (\<lambda>r. pr_user_id r = as_i64 i)
      in (s\<lparr>sd_users := update_where hit
              (\<lambda>r. r\<lparr>pr_avatar := url, pr_avatar_local_path := path, pr_avatar_cached_url := url\<rparr>) (sd_users s)\<rparr>,
          list_ex hit (sd_users s)))"

definition update_user_alias :: "int \<Rightarrow> u64 \<Rightarrow> string option \<Rightarrow> side_tables \<Rightarrow> side_tables" where
  "update_user_alias now i alias s =
     s\<lparr>sd_users := update_where (\<lambda>r. pr_user_id r = as_i64 i)
         (\<lambda>r. r\<lparr>pr_alias := alias, pr_updated_at := now\<rparr>) (sd_users s)\<rparr>"

record stored_user =
  su_user_id :: u64
  su_username :: "string option"
  su_nickname :: "string option"
  su_alias :: "string option"
  su_avatar :: string
  su_user_type :: int
  su_is_deleted :: bool
  su_channel_id :: string
  su_version :: int
  su_updated_at :: int
  su_avatar_local_path :: string

definition stored_user_of :: "profile_row \<Rightarrow> stored_user" where
  "stored_user_of r =
     \<lparr>su_user_id = as_u64 (pr_user_id r), su_username = pr_username r, su_nickname = pr_nickname r,
      su_alias = pr_alias r, su_avatar = pr_avatar r, su_user_type = pr_user_type r,
      su_is_deleted = (pr_is_deleted r \<noteq> 0), su_channel_id = pr_channel_id r, su_version = pr_version r,
      su_updated_at = pr_updated_at r, su_avatar_local_path = pr_avatar_local_path r\<rparr>"

definition get_user_by_id :: "u64 \<Rightarrow> side_tables \<Rightarrow> stored_user option" where
  "get_user_by_id i s = map_option stored_user_of (find_profile i s)"

definition list_users_by_ids :: "u64 list \<Rightarrow> side_tables \<Rightarrow> stored_user list" where
  "list_users_by_ids ids s =
     map stored_user_of (sort_key (\<lambda>r. (- pr_version r, - pr_user_id r))
       (filter (\<lambda>r. pr_user_id r \<in> as_i64 ` set ids) (sd_users s)))"

subsection \<open>Friends\<close>

record upsert_friend_input =
  uf_user_id :: u64
  uf_tags :: "string option"
  uf_is_pinned :: bool
  uf_created_at :: int
  uf_version :: int
  uf_updated_at :: int
  uf_status :: int
  uf_is_outgoing :: "bool option"
  uf_request_message :: "string option"
  uf_request_source :: "string option"
  uf_request_source_id :: "string option"

definition friend_of :: "upsert_friend_input \<Rightarrow> friend_row" where
  "friend_of u =
     \<lparr>fr_user_id = as_i64 (uf_user_id u), fr_tags = uf_tags u, fr_is_pinned = flag_of (uf_is_pinned u),
      fr_created_at = uf_created_at u, fr_version = uf_version u, fr_updated_at = uf_updated_at u,
      fr_status = uf_status u, fr_is_outgoing = map_option flag_of (uf_is_outgoing u),
      fr_request_message = uf_request_message u, fr_request_source = uf_request_source u,
      fr_request_source_id = uf_request_source_id u\<rparr>"

text \<open>A conflicting row is replaced in every column unless it is newer.\<close>

definition newer_row :: "('r \<Rightarrow> int) \<Rightarrow> 'r \<Rightarrow> 'r \<Rightarrow> 'r" where
  "newer_row ver new old = (if ver new \<ge> ver old then new else old)"

definition upsert_friend :: "upsert_friend_input \<Rightarrow> side_tables \<Rightarrow> side_tables" where
  "upsert_friend u s =
     s\<lparr>sd_friends := upsert_on fr_user_id (newer_row fr_version (friend_of u)) (friend_of u) (sd_friends s)\<rparr>"

definition delete_friend :: "u64 \<Rightarrow> side_tables \<Rightarrow> side_tables" where
  "delete_friend i s =
     s\<lparr>sd_friends := delete_where (\<lambda>r. fr_user_id r = as_i64 i) (sd_friends s),
       sd_users := update_where (\<lambda>r. pr_user_id r = as_i64 i) (\<lambda>r. r\<lparr>pr_username := Some ''''\<rparr>) (sd_users s)\<rparr>"

record stored_friend =
  sf_user_id :: u64
  sf_username :: "string option"
  sf_nickname :: "string option"
  sf_alias :: "string option"
  sf_avatar :: string
  sf_tags :: "string option"
  sf_is_pinned :: bool
  sf_created_at :: int
  sf_version :: int
  sf_updated_at :: int
  sf_status :: int
  sf_is_outgoing :: "bool option"
  sf_request_message :: "string option"
  sf_request_source :: "string option"
  sf_request_source_id :: "string option"
  sf_avatar_local_path :: string

text \<open>The friend joined with its profile; \<open>i64 as i16\<close> keeps the low bits.\<close>

definition wrap_i16 :: "int \<Rightarrow> int" where
  "wrap_i16 x = (x + 2 ^ 15) mod 2 ^ 16 - 2 ^ 15"

definition stored_friend_of :: "side_tables \<Rightarrow> friend_row \<Rightarrow> stored_friend" where
  "stored_friend_of s f =
     (let u = find (\<lambda>r. pr_user_id r = fr_user_id f) (sd_users s)
      in \<lparr>sf_user_id = as_u64 (fr_user_id f), sf_username = Option.bind u pr_username,
          sf_nickname = Option.bind u pr_nickname, sf_alias = Option.bind u pr_alias,
          sf_avatar = (case u of None \<Rightarrow> '''' | Some r \<Rightarrow> pr_avatar r), sf_tags = fr_tags f,
          sf_is_pinned = (fr_is_pinned f \<noteq> 0), sf_created_at = fr_created_at f, sf_version = fr_version f,
          sf_updated_at = fr_updated_at f, sf_status = wrap_i16 (fr_status f),
          sf_is_outgoing = map_option (\<lambda>v. v \<noteq> 0) (fr_is_outgoing f),
          sf_request_message = fr_request_message f, sf_request_source = fr_request_source f,
          sf_request_source_id = fr_request_source_id f,
          sf_avatar_local_path = (case u of None \<Rightarrow> '''' | Some r \<Rightarrow> pr_avatar_local_path r)\<rparr>)"

definition list_friends :: "nat \<Rightarrow> nat \<Rightarrow> side_tables \<Rightarrow> stored_friend list" where
  "list_friends limit offset s =
     map (stored_friend_of s) (take limit (drop offset
       (sort_key (\<lambda>f. (- fr_is_pinned f, - fr_version f, - fr_user_id f))
          (filter (\<lambda>f. fr_status f = 1) (sd_friends s)))))"

definition list_friend_requests :: "bool \<Rightarrow> int list \<Rightarrow> nat \<Rightarrow> nat \<Rightarrow> side_tables \<Rightarrow> stored_friend list" where
  "list_friend_requests outgoing statuses limit offset s =
     (let wanted = (if statuses = [] then [0, 3, 4, 5] else statuses)
      in map (stored_friend_of s) (take limit (drop offset
           (sort_key (\<lambda>f. (- fr_updated_at f, - fr_user_id f))
              (filter (\<lambda>f. fr_status f \<in> set wanted \<and> fr_is_outgoing f = Some (flag_of outgoing)) (sd_friends s))))))"

subsection \<open>Blocked users\<close>

record upsert_blacklist_input =
  ub_user_id :: u64
  ub_created_at :: int
  ub_updated_at :: int

definition upsert_blacklist_entry :: "upsert_blacklist_input \<Rightarrow> side_tables \<Rightarrow> side_tables" where
  "upsert_blacklist_entry u s =
     (let new = \<lparr>bl_user_id = as_i64 (ub_user_id u), bl_created_at = ub_created_at u, bl_updated_at = ub_updated_at u\<rparr>
      in s\<lparr>sd_blocked := upsert_on bl_user_id (\<lambda>_. new) new (sd_blocked s)\<rparr>)"

definition delete_blacklist_entry :: "u64 \<Rightarrow> side_tables \<Rightarrow> side_tables" where
  "delete_blacklist_entry i s = s\<lparr>sd_blocked := delete_where (\<lambda>r. bl_user_id r = as_i64 i) (sd_blocked s)\<rparr>"

definition list_blacklist_entries :: "nat \<Rightarrow> nat \<Rightarrow> side_tables \<Rightarrow> (u64 \<times> int \<times> int) list" where
  "list_blacklist_entries limit offset s =
     map (\<lambda>r. (as_u64 (bl_user_id r), bl_created_at r, bl_updated_at r))
       (take limit (drop offset (sort_key (\<lambda>r. (- bl_updated_at r, - bl_user_id r)) (sd_blocked s))))"

subsection \<open>Groups and their members\<close>

record upsert_group_input =
  ug_group_id :: u64
  ug_name :: "string option"
  ug_avatar :: string
  ug_owner_id :: "u64 option"
  ug_is_dismissed :: bool
  ug_member_count :: "int option"
  ug_created_at :: int
  ug_version :: int
  ug_updated_at :: int

definition inserted_group :: "upsert_group_input \<Rightarrow> group_entry" where
  "inserted_group u =
     \<lparr>ge_group_id = as_i64 (ug_group_id u), ge_name = ug_name u, ge_avatar = ug_avatar u,
      ge_owner_id = map_option as_i64 (ug_owner_id u), ge_is_dismissed = flag_of (ug_is_dismissed u),
      ge_created_at = ug_created_at u, ge_version = ug_version u, ge_updated_at = ug_updated_at u,
      ge_member_count = (case ug_member_count u of None \<Rightarrow> 0 | Some n \<Rightarrow> n)\<rparr>"

definition merged_group :: "upsert_group_input \<Rightarrow> group_entry \<Rightarrow> group_entry" where
  "merged_group u g =
     (if ug_version u \<ge> ge_version g
      then (inserted_group u)\<lparr>ge_member_count := (case ug_member_count u of None \<Rightarrow> ge_member_count g | Some n \<Rightarrow> n)\<rparr>
      else g)"

definition upsert_group :: "upsert_group_input \<Rightarrow> side_tables \<Rightarrow> side_tables" where
  "upsert_group u s = s\<lparr>sd_groups := upsert_on ge_group_id (merged_group u) (inserted_group u) (sd_groups s)\<rparr>"

record stored_group =
  sg_group_id :: u64
  sg_name :: "string option"
  sg_avatar :: string
  sg_owner_id :: "u64 option"
  sg_is_dismissed :: bool
  sg_created_at :: int
  sg_version :: int
  sg_updated_at :: int

definition stored_group_of :: "group_entry \<Rightarrow> stored_group" where
  "stored_group_of g =
     \<lparr>sg_group_id = as_u64 (ge_group_id g), sg_name = ge_name g, sg_avatar = ge_avatar g,
      sg_owner_id = map_option as_u64 (ge_owner_id g), sg_is_dismissed = (ge_is_dismissed g \<noteq> 0),
      sg_created_at = ge_created_at g, sg_version = ge_version g, sg_updated_at = ge_updated_at g\<rparr>"

definition get_group_by_id :: "u64 \<Rightarrow> side_tables \<Rightarrow> stored_group option" where
  "get_group_by_id i s = map_option stored_group_of (find (\<lambda>g. ge_group_id g = as_i64 i) (sd_groups s))"

definition list_groups :: "nat \<Rightarrow> nat \<Rightarrow> side_tables \<Rightarrow> stored_group list" where
  "list_groups limit offset s =
     map stored_group_of (take limit (drop offset
       (sort_key (\<lambda>g. (- ge_version g, - ge_group_id g)) (sd_groups s))))"

record upsert_group_member_input =
  um_group_id :: u64
  um_user_id :: u64
  um_role :: int
  um_status :: int
  um_alias :: "string option"
  um_is_muted :: bool
  um_joined_at :: int
  um_version :: int
  um_updated_at :: int

definition member_of :: "upsert_group_member_input \<Rightarrow> member_entry" where
  "member_of u =
     \<lparr>me_group_id = as_i64 (um_group_id u), me_user_id = as_i64 (um_user_id u), me_role = um_role u,
      me_status = um_status u, me_alias = um_alias u, me_is_muted = flag_of (um_is_muted u),
      me_joined_at = um_joined_at u, me_version = um_version u, me_updated_at = um_updated_at u\<rparr>"

definition member_key :: "member_entry \<Rightarrow> int \<times> int" where
  "member_key m = (me_group_id m, me_user_id m)"

definition upsert_group_member :: "upsert_group_member_input \<Rightarrow> side_tables \<Rightarrow> side_tables" where
  "upsert_group_member u s =
     s\<lparr>sd_members := upsert_on member_key (newer_row me_version (member_of u)) (member_of u) (sd_members s)\<rparr>"

definition delete_group_member :: "u64 \<Rightarrow> u64 \<Rightarrow> side_tables \<Rightarrow> side_tables" where
  "delete_group_member g i s =
     s\<lparr>sd_members := delete_where (\<lambda>m. me_group_id m = as_i64 g \<and> me_user_id m = as_i64 i) (sd_members s)\<rparr>"

text \<open>SQL's \<open>TRIM\<close> removes spaces only; \<open>non_blank\<close> removes all white space.\<close>

definition sql_trim :: "string \<Rightarrow> string" where
  "sql_trim t = rev (dropWhile (\<lambda>c. c = CHR '' '') (rev (dropWhile (\<lambda>c. c = CHR '' '') t)))"

definition nullif_blank :: "string option \<Rightarrow> string option" where
  "nullif_blank v = (case v of None \<Rightarrow> None | Some t \<Rightarrow> if sql_trim t = '''' then None else Some (sql_trim t))"

definition non_blank :: "string option \<Rightarrow> string option" where
  "non_blank v = (case v of None \<Rightarrow> None | Some t \<Rightarrow> if trim t = '''' then None else Some (trim t))"

definition resolve_group_member_display_name ::
  "string option \<Rightarrow> string option \<Rightarrow> string option \<Rightarrow> string option \<Rightarrow> u64 \<Rightarrow> string" where
  "resolve_group_member_display_name group_alias user_alias nickname username i =
     (case first_some [non_blank group_alias, non_blank user_alias, non_blank nickname, non_blank username] of
        Some t \<Rightarrow> t
      | None \<Rightarrow> show_u64 i)"

record stored_group_member =
  sm2_group_id :: u64
  sm2_user_id :: u64
  sm2_role :: int
  sm2_status :: int
  sm2_alias :: "string option"
  sm2_username :: "string option"
  sm2_nickname :: "string option"
  sm2_user_alias :: "string option"
  sm2_display_name :: string
  sm2_avatar :: string
  sm2_user_type :: int
  sm2_is_muted :: bool
  sm2_joined_at :: int
  sm2_version :: int
  sm2_updated_at :: int

definition stored_group_member_of :: "side_tables \<Rightarrow> member_entry \<Rightarrow> stored_group_member" where
  "stored_group_member_of s m =
     (let u = find (\<lambda>r. pr_user_id r = me_user_id m \<and> pr_is_deleted r = 0) (sd_users s);
          alias = nullif_blank (me_alias m);
          username = nullif_blank (Option.bind u pr_username);
          nickname = nullif_blank (Option.bind u pr_nickname);
          user_alias = nullif_blank (Option.bind u pr_alias)
      in \<lparr>sm2_group_id = as_u64 (me_group_id m), sm2_user_id = as_u64 (me_user_id m), sm2_role = me_role m,
          sm2_status = me_status m, sm2_alias = alias, sm2_username = username, sm2_nickname = nickname,
          sm2_user_alias = user_alias,
          sm2_display_name = resolve_group_member_display_name alias user_alias nickname username (as_u64 (me_user_id m)),
          sm2_avatar = (case u of None \<Rightarrow> '''' | Some r \<Rightarrow> pr_avatar r),
          sm2_user_type = (case u of None \<Rightarrow> 0 | Some r \<Rightarrow> pr_user_type r),
          sm2_is_muted = (me_is_muted m \<noteq> 0), sm2_joined_at = me_joined_at m, sm2_version = me_version m,
          sm2_updated_at = me_updated_at m\<rparr>)"

definition list_group_members :: "u64 \<Rightarrow> nat \<Rightarrow> nat \<Rightarrow> side_tables \<Rightarrow> stored_group_member list" where
  "list_group_members g limit offset s =
     map (stored_group_member_of s) (take limit (drop offset
       (sort_key (\<lambda>m. (- me_version m, - me_user_id m))
          (filter (\<lambda>m. me_group_id m = as_i64 g \<and> me_status m = 0) (sd_members s)))))"

subsection \<open>Members of a conversation\<close>

record upsert_channel_member_input =
  ucm_channel_id :: u64
  ucm_channel_type :: int
  ucm_member_uid :: u64
  ucm_member_name :: string
  ucm_member_remark :: string
  ucm_member_avatar :: string
  ucm_member_invite_uid :: u64
  ucm_role :: int
  ucm_status :: int
  ucm_is_deleted :: bool
  ucm_robot :: int
  ucm_version :: int
  ucm_created_at :: int
  ucm_updated_at :: int
  ucm_extra :: string
  ucm_forbidden_expiration_time :: int
  ucm_member_avatar_cache_key :: string

definition channel_member_of :: "upsert_channel_member_input \<Rightarrow> channel_member_row" where
  "channel_member_of u =
     \<lparr>cb_channel_id = as_i64 (ucm_channel_id u), cb_channel_type = ucm_channel_type u,
      cb_member_uid = as_i64 (ucm_member_uid u), cb_member_name = ucm_member_name u,
      cb_member_remark = ucm_member_remark u, cb_member_avatar = ucm_member_avatar u,
      cb_member_invite_uid = as_i64 (ucm_member_invite_uid u), cb_role = ucm_role u, cb_status = ucm_status u,
      cb_is_deleted = flag_of (ucm_is_deleted u), cb_robot = ucm_robot u, cb_version = ucm_version u,
      cb_created_at = ucm_created_at u, cb_updated_at = ucm_updated_at u, cb_extra = ucm_extra u,
      cb_forbidden_expiration_time = ucm_forbidden_expiration_time u,
      cb_member_avatar_cache_key = ucm_member_avatar_cache_key u\<rparr>"

definition channel_member_key :: "channel_member_row \<Rightarrow> int \<times> int \<times> int" where
  "channel_member_key r = (cb_channel_id r, cb_channel_type r, cb_member_uid r)"

definition upsert_channel_member :: "upsert_channel_member_input \<Rightarrow> side_tables \<Rightarrow> side_tables" where
  "upsert_channel_member u s =
     s\<lparr>sd_channel_members := upsert_on channel_member_key (\<lambda>_. channel_member_of u) (channel_member_of u)
         (sd_channel_members s)\<rparr>"

definition delete_channel_member :: "u64 \<Rightarrow> int \<Rightarrow> u64 \<Rightarrow> side_tables \<Rightarrow> side_tables" where
  "delete_channel_member cid ct i s =
     s\<lparr>sd_channel_members := delete_where (\<lambda>r. channel_member_key r = (as_i64 cid, ct, as_i64 i)) (sd_channel_members s)\<rparr>"

definition list_channel_members :: "u64 \<Rightarrow> int \<Rightarrow> nat \<Rightarrow> nat \<Rightarrow> side_tables \<Rightarrow> channel_member_row list" where
  "list_channel_members cid ct limit offset s =
     take limit (drop offset (sort_key (\<lambda>r. (- cb_updated_at r, - cb_member_uid r))
       (filter (\<lambda>r. cb_channel_id r = as_i64 cid \<and> cb_channel_type r = ct) (sd_channel_members s))))"

subsection \<open>Reactions, mentions and reminders\<close>

record reaction_input =
  ur_channel_id :: u64
  ur_channel_type :: int
  ur_uid :: u64
  ur_name :: string
  ur_emoji :: string
  ur_message_id :: u64
  ur_seq :: int
  ur_is_deleted :: bool
  ur_created_at :: int

definition reaction_key :: "reaction_row \<Rightarrow> int \<times> int \<times> string" where
  "reaction_key r = (rx_message_id r, rx_uid r, rx_emoji r)"

definition reaction_of :: "int \<Rightarrow> reaction_input \<Rightarrow> reaction_row" where
  "reaction_of i u =
     \<lparr>rx_id = i, rx_channel_id = as_i64 (ur_channel_id u), rx_channel_type = ur_channel_type u,
      rx_uid = as_i64 (ur_uid u), rx_name = ur_name u, rx_emoji = ur_emoji u,
      rx_message_id = as_i64 (ur_message_id u), rx_seq = ur_seq u, rx_is_deleted = flag_of (ur_is_deleted u),
      rx_created_at = ur_created_at u\<rparr>"

text \<open>An insert draws a row id; an update keeps the row's.\<close>

definition upsert_message_reaction :: "reaction_input \<Rightarrow> side_tables \<Rightarrow> side_tables" where
  "upsert_message_reaction u s =
     (let new = reaction_of (sd_next_reaction s) u;
          known = (\<exists>r \<in> set (sd_reactions s). reaction_key r = reaction_key new)
      in s\<lparr>sd_reactions := upsert_on reaction_key (\<lambda>r. reaction_of (rx_id r) u) new (sd_reactions s),
           sd_next_reaction := (if known then sd_next_reaction s else sd_next_reaction s + 1)\<rparr>)"

definition list_message_reactions :: "u64 \<Rightarrow> nat \<Rightarrow> nat \<Rightarrow> side_tables \<Rightarrow> reaction_row list" where
  "list_message_reactions mid limit offset s =
     take limit (drop offset (sort_key (\<lambda>r. (- rx_seq r, - rx_id r))
       (filter (\<lambda>r. rx_message_id r = as_i64 mid) (sd_reactions s))))"

record mention_input =
  umn_message_id :: u64
  umn_channel_id :: u64
  umn_channel_type :: int
  umn_mentioned_user_id :: u64
  umn_sender_id :: u64
  umn_is_mention_all :: bool
  umn_created_at :: int

definition mention_key :: "mention_row \<Rightarrow> int \<times> int" where
  "mention_key r = (mn_message_id r, mn_mentioned_user_id r)"

definition mention_of :: "mention_input \<Rightarrow> mention_row" where
  "mention_of u =
     \<lparr>mn_message_id = as_i64 (umn_message_id u), mn_channel_id = as_i64 (umn_channel_id u),
      mn_channel_type = umn_channel_type u, mn_mentioned_user_id = as_i64 (umn_mentioned_user_id u),
      mn_sender_id = as_i64 (umn_sender_id u), mn_is_mention_all = flag_of (umn_is_mention_all u),
      mn_created_at = umn_created_at u, mn_is_read = 0\<rparr>"

text \<open>\<open>INSERT OR IGNORE\<close>.\<close>

definition record_mention :: "mention_input \<Rightarrow> side_tables \<Rightarrow> side_tables" where
  "record_mention u s =
     s\<lparr>sd_mentions := upsert_on mention_key (\<lambda>r. r) (mention_of u) (sd_mentions s)\<rparr>"

definition unread_mention :: "u64 \<Rightarrow> int \<Rightarrow> u64 \<Rightarrow> mention_row \<Rightarrow> bool" where
  "unread_mention cid ct i r \<longleftrightarrow>
     mn_channel_id r = as_i64 cid \<and> mn_channel_type r = ct \<and> mn_mentioned_user_id r = as_i64 i \<and> mn_is_read r = 0"

definition get_unread_mention_count :: "u64 \<Rightarrow> int \<Rightarrow> u64 \<Rightarrow> side_tables \<Rightarrow> nat" where
  "get_unread_mention_count cid ct i s = length (filter (unread_mention cid ct i) (sd_mentions s))"

definition list_unread_mention_message_ids :: "u64 \<Rightarrow> int \<Rightarrow> u64 \<Rightarrow> nat \<Rightarrow> side_tables \<Rightarrow> u64 list" where
  "list_unread_mention_message_ids cid ct i limit s =
     take limit (map (\<lambda>r. as_u64 (mn_message_id r))
       (sort_key (\<lambda>r. - mn_created_at r) (filter (unread_mention cid ct i) (sd_mentions s))))"

definition read_mention :: "mention_row \<Rightarrow> mention_row" where
  "read_mention r = r\<lparr>mn_is_read := 1\<rparr>"

definition mark_mention_read :: "u64 \<Rightarrow> u64 \<Rightarrow> side_tables \<Rightarrow> side_tables" where
  "mark_mention_read mid i s =
     s\<lparr>sd_mentions := update_where (\<lambda>r. mention_key r = (as_i64 mid, as_i64 i)) read_mention (sd_mentions s)\<rparr>"

definition mark_all_mentions_read :: "u64 \<Rightarrow> int \<Rightarrow> u64 \<Rightarrow> side_tables \<Rightarrow> side_tables" where
  "mark_all_mentions_read cid ct i s =
     s\<lparr>sd_mentions := update_where (unread_mention cid ct i) read_mention (sd_mentions s)\<rparr>"

text \<open>\<open>GROUP BY channel_id, channel_type\<close>, whose groups come out in key order.\<close>

definition get_all_unread_mention_counts :: "u64 \<Rightarrow> side_tables \<Rightarrow> (u64 \<times> int \<times> nat) list" where
  "get_all_unread_mention_counts i s =
     (let rows = filter (\<lambda>r. mn_mentioned_user_id r = as_i64 i \<and> mn_is_read r = 0) (sd_mentions s)
      in map (\<lambda>(c, t). (as_u64 c, t, length (filter (\<lambda>r. mn_channel_id r = c \<and> mn_channel_type r = t) rows)))
           (sort (remdups (map (\<lambda>r. (mn_channel_id r, mn_channel_type r)) rows))))"

record reminder_input =
  urm_reminder_id :: u64
  urm_message_id :: u64
  urm_pts :: int
  urm_channel_id :: u64
  urm_channel_type :: int
  urm_uid :: u64
  urm_type :: int
  urm_text :: string
  urm_data :: string
  urm_is_locate :: bool
  urm_version :: int
  urm_done :: bool
  urm_need_upload :: bool
  urm_publisher :: "u64 option"

definition reminder_of :: "int \<Rightarrow> reminder_input \<Rightarrow> reminder_row" where
  "reminder_of i u =
     \<lparr>rm_id = i, rm_reminder_id = as_i64 (urm_reminder_id u), rm_message_id = as_i64 (urm_message_id u),
      rm_pts = urm_pts u, rm_channel_id = as_i64 (urm_channel_id u), rm_channel_type = urm_channel_type u,
      rm_uid = as_i64 (urm_uid u), rm_type = urm_type u, rm_text = urm_text u, rm_data = urm_data u,
      rm_is_locate = flag_of (urm_is_locate u), rm_version = urm_version u, rm_done = flag_of (urm_done u),
      rm_need_upload = flag_of (urm_need_upload u), rm_publisher = map_option as_i64 (urm_publisher u)\<rparr>"

definition upsert_reminder :: "reminder_input \<Rightarrow> side_tables \<Rightarrow> side_tables" where
  "upsert_reminder u s =
     (let new = reminder_of (sd_next_reminder s) u;
          known = (\<exists>r \<in> set (sd_reminders s). rm_reminder_id r = rm_reminder_id new)
      in s\<lparr>sd_reminders := upsert_on rm_reminder_id (\<lambda>r. reminder_of (rm_id r) u) new (sd_reminders s),
           sd_next_reminder := (if known then sd_next_reminder s else sd_next_reminder s + 1)\<rparr>)"

definition list_pending_reminders :: "u64 \<Rightarrow> nat \<Rightarrow> nat \<Rightarrow> side_tables \<Rightarrow> reminder_row list" where
  "list_pending_reminders i limit offset s =
     take limit (drop offset (sort_key (\<lambda>r. (- rm_version r, - rm_id r))
       (filter (\<lambda>r. rm_uid r = as_i64 i \<and> rm_done r = 0) (sd_reminders s))))"

definition mark_reminder_done :: "u64 \<Rightarrow> bool \<Rightarrow> side_tables \<Rightarrow> side_tables" where
  "mark_reminder_done i flag s =
     s\<lparr>sd_reminders := update_where (\<lambda>r. rm_reminder_id r = as_i64 i) (\<lambda>r. r\<lparr>rm_done := flag_of flag\<rparr>) (sd_reminders s)\<rparr>"

subsection \<open>The directory of the titles\<close>

definition directory_of :: "side_tables \<Rightarrow> directory" where
  "directory_of s =
     \<lparr>dir_users = map (\<lambda>r. \<lparr>us_user_id = pr_user_id r, us_username = pr_username r, us_nickname = pr_nickname r,
        us_alias = pr_alias r\<rparr>) (sd_users s),
      dir_groups = map (\<lambda>g. \<lparr>g_group_id = ge_group_id g, g_name = ge_name g\<rparr>) (sd_groups s),
      dir_members = map (\<lambda>m. \<lparr>gm_group_id = me_group_id m, gm_user_id = me_user_id m, gm_alias = me_alias m,
        gm_role = me_role m, gm_status = me_status m, gm_joined_at = me_joined_at m\<rparr>) (sd_members s)\<rparr>"

subsection \<open>Tables whose newest row wins\<close>

lemma newer_row_commute:
  assumes "ver a = ver b \<Longrightarrow> a = b"
  shows "newer_row ver a (newer_row ver b r) = newer_row ver b (newer_row ver a r)"
    and "newer_row ver a b = newer_row ver b a"
  using assms by (auto simp: newer_row_def)

locale newest_wins =
  fixes put :: "'i \<Rightarrow> 's \<Rightarrow> 's" and look :: "'k \<Rightarrow> 's \<Rightarrow> 'r option"
    and key :: "'i \<Rightarrow> 'k" and row :: "'i \<Rightarrow> 'r" and ver :: "'r \<Rightarrow> int"
  assumes look_put: "look k (put i s) =
    (if k = key i then Some (case look k s of None \<Rightarrow> row i | Some old \<Rightarrow> newer_row ver (row i) old) else look k s)"
begin

lemma look_fold:
  "look k (fold put us s) =
   fold (\<lambda>i acc. if k = key i then Some (case acc of None \<Rightarrow> row i | Some old \<Rightarrow> newer_row ver (row i) old) else acc) us (look k s)"
  by (induction us arbitrary: s) (auto simp: look_put)

lemma order_irrelevant:
  assumes "\<forall>i \<in> set us. \<forall>j \<in> set us. key i = key j \<and> ver (row i) = ver (row j) \<longrightarrow> row i = row j"
    and "mset us = mset vs"
  shows "look k (fold put us s) = look k (fold put vs s)"
  unfolding look_fold
proof (rule arg_cong [where f = "\<lambda>f. f (look k s)"], rule fold_multiset_equiv [OF _ assms(2)], rule ext)
  fix i j acc
  assume "i \<in> set us" and "j \<in> set us"
  then have "k = key i \<Longrightarrow> k = key j \<Longrightarrow> ver (row i) = ver (row j) \<Longrightarrow> row i = row j"
    using assms(1) by metis
  then show "((\<lambda>acc. if k = key i then Some (case acc of None \<Rightarrow> row i | Some old \<Rightarrow> newer_row ver (row i) old) else acc) \<circ>
      (\<lambda>acc. if k = key j then Some (case acc of None \<Rightarrow> row j | Some old \<Rightarrow> newer_row ver (row j) old) else acc)) acc =
    ((\<lambda>acc. if k = key j then Some (case acc of None \<Rightarrow> row j | Some old \<Rightarrow> newer_row ver (row j) old) else acc) \<circ>
      (\<lambda>acc. if k = key i then Some (case acc of None \<Rightarrow> row i | Some old \<Rightarrow> newer_row ver (row i) old) else acc)) acc"
    using newer_row_commute [of ver "row i" "row j"] by (cases acc) auto
qed

lemma never_older:
  assumes "look k (fold put us s) = Some r"
  shows "(\<forall>i \<in> set us. key i = k \<longrightarrow> ver (row i) \<le> ver r) \<and> (\<forall>old. look k s = Some old \<longrightarrow> ver old \<le> ver r)"
  using assms
proof (induction us arbitrary: s)
  case (Cons i us)
  have "\<exists>q. look k (put i s) = Some q \<and> ver (row i) \<le> ver q" if "key i = k"
    using that by (auto simp: look_put newer_row_def split: option.splits)
  moreover have "\<exists>q. look k (put i s) = Some q \<and> ver old \<le> ver q" if "look k s = Some old" for old
    using that by (auto simp: look_put newer_row_def)
  ultimately show ?case
    using Cons.IH [of "put i s"] Cons.prems by fastforce
qed simp

end

definition find_friend :: "int \<Rightarrow> side_tables \<Rightarrow> friend_row option" where
  "find_friend k s = find (\<lambda>r. fr_user_id r = k) (sd_friends s)"

definition find_member :: "int \<times> int \<Rightarrow> side_tables \<Rightarrow> member_entry option" where
  "find_member k s = find (\<lambda>r. member_key r = k) (sd_members s)"

interpretation friends: newest_wins upsert_friend find_friend "\<lambda>u. as_i64 (uf_user_id u)" friend_of fr_version
proof unfold_locales
  fix k u and s :: side_tables
  have "find (\<lambda>r. fr_user_id r = k) (upsert_on fr_user_id (newer_row fr_version (friend_of u)) (friend_of u) (sd_friends s)) =
      (if k = fr_user_id (friend_of u) then Some (case find (\<lambda>r. fr_user_id r = k) (sd_friends s) of None \<Rightarrow> friend_of u
         | Some old \<Rightarrow> newer_row fr_version (friend_of u) old) else find (\<lambda>r. fr_user_id r = k) (sd_friends s))"
    by (rule find_upsert_keyed) (simp add: newer_row_def)
  then show "find_friend k (upsert_friend u s) =
      (if k = as_i64 (uf_user_id u) then Some (case find_friend k s of None \<Rightarrow> friend_of u
         | Some old \<Rightarrow> newer_row fr_version (friend_of u) old) else find_friend k s)"
    by (simp add: find_friend_def upsert_friend_def friend_of_def)
qed

interpretation members: newest_wins upsert_group_member find_member
  "\<lambda>u. (as_i64 (um_group_id u), as_i64 (um_user_id u))" member_of me_version
proof unfold_locales
  fix k u and s :: side_tables
  have "find (\<lambda>r. member_key r = k) (upsert_on member_key (newer_row me_version (member_of u)) (member_of u) (sd_members s)) =
      (if k = member_key (member_of u) then Some (case find (\<lambda>r. member_key r = k) (sd_members s) of None \<Rightarrow> member_of u
         | Some old \<Rightarrow> newer_row me_version (member_of u) old) else find (\<lambda>r. member_key r = k) (sd_members s))"
    by (rule find_upsert_keyed) (simp add: newer_row_def)
  then show "find_member k (upsert_group_member u s) =
      (if k = (as_i64 (um_group_id u), as_i64 (um_user_id u)) then Some (case find_member k s of None \<Rightarrow> member_of u
         | Some old \<Rightarrow> newer_row me_version (member_of u) old) else find_member k s)"
    by (simp add: find_member_def upsert_group_member_def member_of_def member_key_def)
qed

text \<open>C13. Updates of friends converge: whatever order the updates of a set of (friend, version) pairs arrive
  in, the stored row of every friend is the same, and it is never older than an update received or
  than the row it replaced.\<close>

theorem friend_updates_converge:
  assumes "\<forall>u \<in> set us. \<forall>v \<in> set us. uf_user_id u = uf_user_id v \<and> uf_version u = uf_version v \<longrightarrow> u = v"
    and "mset us = mset vs"
  shows "find_friend k (fold upsert_friend us s) = find_friend k (fold upsert_friend vs s) \<and>
    (\<forall>r. find_friend k (fold upsert_friend us s) = Some r \<longrightarrow>
       (\<forall>u \<in> set us. as_i64 (uf_user_id u) = k \<longrightarrow> uf_version u \<le> fr_version r) \<and>
       (\<forall>old. find_friend k s = Some old \<longrightarrow> fr_version old \<le> fr_version r))"
proof -
  have "\<forall>u \<in> set us. \<forall>v \<in> set us. as_i64 (uf_user_id u) = as_i64 (uf_user_id v) \<and>
      fr_version (friend_of u) = fr_version (friend_of v) \<longrightarrow> friend_of u = friend_of v"
    using assms(1) by (auto simp: friend_of_def)
  from friends.order_irrelevant [OF this assms(2)] friends.never_older [of k us s]
  show ?thesis by (simp add: friend_of_def)
qed

subsection \<open>Types of the columns\<close>

text \<open>A table has one row per key, and its flags are 0 or 1.\<close>

definition is_flag :: "int \<Rightarrow> bool" where "is_flag v \<longleftrightarrow> v = 0 \<or> v = 1"

definition friend_typed :: "friend_row \<Rightarrow> bool" where
  "friend_typed f \<longleftrightarrow> is_flag (fr_is_pinned f) \<and> (case fr_is_outgoing f of None \<Rightarrow> True | Some v \<Rightarrow> is_flag v)"

definition reminder_typed :: "reminder_row \<Rightarrow> bool" where
  "reminder_typed r \<longleftrightarrow> is_flag (rm_is_locate r) \<and> is_flag (rm_done r) \<and> is_flag (rm_need_upload r)"

definition mention_typed :: "mention_row \<Rightarrow> bool" where
  "mention_typed r \<longleftrightarrow> is_flag (mn_is_mention_all r) \<and> is_flag (mn_is_read r)"

definition table_ok :: "('r \<Rightarrow> 'k) \<Rightarrow> ('r \<Rightarrow> bool) \<Rightarrow> 'r list \<Rightarrow> bool" where
  "table_ok key typed rs \<longleftrightarrow> distinct (map key rs) \<and> list_all typed rs"

definition tables_ok :: "side_tables \<Rightarrow> bool" where
  "tables_ok s \<longleftrightarrow>
     table_ok pr_user_id (\<lambda>r. is_flag (pr_is_deleted r)) (sd_users s) \<and>
     table_ok fr_user_id friend_typed (sd_friends s) \<and>
     table_ok bl_user_id (\<lambda>_. True) (sd_blocked s) \<and>
     table_ok ge_group_id (\<lambda>g. is_flag (ge_is_dismissed g)) (sd_groups s) \<and>
     table_ok member_key (\<lambda>m. is_flag (me_is_muted m)) (sd_members s) \<and>
     table_ok channel_member_key (\<lambda>r. is_flag (cb_is_deleted r)) (sd_channel_members s) \<and>
     table_ok reaction_key (\<lambda>r. is_flag (rx_is_deleted r)) (sd_reactions s) \<and>
     table_ok mention_key mention_typed (sd_mentions s) \<and>
     table_ok rm_reminder_id reminder_typed (sd_reminders s)"

lemma is_flag_of [simp]: "is_flag (flag_of b)" "is_flag 0" "is_flag 1"
  by (auto simp: is_flag_def flag_of_def)

lemma table_ok_nil [simp]: "table_ok key typed []"
  by (simp add: table_ok_def)

lemma table_ok_upsert:
  assumes "table_ok key typed rs" and "typed new"
    and "\<And>r. key r = key new \<Longrightarrow> key (upd r) = key new"
    and "\<And>r. typed r \<Longrightarrow> key r = key new \<Longrightarrow> typed (upd r)"
  shows "table_ok key typed (upsert_on key upd new rs)"
  using assms by (auto simp: table_ok_def distinct_upsert_keyed) (auto simp: upsert_on_def list_all_iff set_update_where)

lemma table_ok_delete: "table_ok key typed rs \<Longrightarrow> table_ok key typed (delete_where P rs)"
  by (auto simp: table_ok_def distinct_delete_where list_all_iff)

lemma table_ok_update:
  "table_ok key typed rs \<Longrightarrow> (\<And>r. P r \<Longrightarrow> key (f r) = key r) \<Longrightarrow> (\<And>r. typed r \<Longrightarrow> P r \<Longrightarrow> typed (f r)) \<Longrightarrow>
    table_ok key typed (update_where P f rs)"
  by (auto simp: table_ok_def map_update_where_on list_all_iff set_update_where)

lemma tables_ok_empty: "tables_ok empty_side"
  by (simp add: tables_ok_def empty_side_def)

lemma tables_ok_upsert_user: "tables_ok s \<Longrightarrow> tables_ok (upsert_user u s)"
  by (auto simp: tables_ok_def upsert_user_def merged_user_def inserted_user_def intro!: table_ok_upsert)

lemma tables_ok_upsert_users: "tables_ok s \<Longrightarrow> tables_ok (fold upsert_user us s)"
  by (induction us arbitrary: s) (auto simp: tables_ok_upsert_user)

lemma tables_ok_upsert_friend: "tables_ok s \<Longrightarrow> tables_ok (upsert_friend u s)"
  by (auto simp: tables_ok_def upsert_friend_def newer_row_def friend_of_def friend_typed_def
      intro!: table_ok_upsert split: option.splits)

lemma tables_ok_delete_friend: "tables_ok s \<Longrightarrow> tables_ok (delete_friend i s)"
  by (auto simp: tables_ok_def delete_friend_def intro!: table_ok_delete table_ok_update)

lemma tables_ok_block: "tables_ok s \<Longrightarrow> tables_ok (upsert_blacklist_entry u s)"
  by (auto simp: tables_ok_def upsert_blacklist_entry_def Let_def intro!: table_ok_upsert)

lemma tables_ok_unblock: "tables_ok s \<Longrightarrow> tables_ok (delete_blacklist_entry i s)"
  by (auto simp: tables_ok_def delete_blacklist_entry_def intro!: table_ok_delete)

lemma tables_ok_upsert_group: "tables_ok s \<Longrightarrow> tables_ok (upsert_group u s)"
  by (auto simp: tables_ok_def upsert_group_def merged_group_def inserted_group_def intro!: table_ok_upsert)

lemma tables_ok_upsert_member: "tables_ok s \<Longrightarrow> tables_ok (upsert_group_member u s)"
  by (auto simp: tables_ok_def upsert_group_member_def newer_row_def member_of_def intro!: table_ok_upsert)

lemma tables_ok_delete_member: "tables_ok s \<Longrightarrow> tables_ok (delete_group_member g i s)"
  by (auto simp: tables_ok_def delete_group_member_def intro!: table_ok_delete)

lemma tables_ok_upsert_channel_member: "tables_ok s \<Longrightarrow> tables_ok (upsert_channel_member u s)"
  by (auto simp: tables_ok_def upsert_channel_member_def channel_member_of_def intro!: table_ok_upsert)

lemma tables_ok_delete_channel_member: "tables_ok s \<Longrightarrow> tables_ok (delete_channel_member c t i s)"
  by (auto simp: tables_ok_def delete_channel_member_def intro!: table_ok_delete)

lemma tables_ok_reaction: "tables_ok s \<Longrightarrow> tables_ok (upsert_message_reaction u s)"
  by (auto simp: tables_ok_def upsert_message_reaction_def Let_def reaction_of_def reaction_key_def intro!: table_ok_upsert)

lemma tables_ok_mention: "tables_ok s \<Longrightarrow> tables_ok (record_mention u s)"
  by (auto simp: tables_ok_def record_mention_def mention_of_def mention_typed_def intro!: table_ok_upsert)

lemma tables_ok_mention_read: "tables_ok s \<Longrightarrow> tables_ok (mark_mention_read m i s)"
  by (auto simp: tables_ok_def mark_mention_read_def mention_typed_def read_mention_def mention_key_def intro!: table_ok_update)

lemma tables_ok_reminder: "tables_ok s \<Longrightarrow> tables_ok (upsert_reminder u s)"
  by (auto simp: tables_ok_def upsert_reminder_def Let_def reminder_of_def reminder_typed_def intro!: table_ok_upsert)

lemma tables_ok_reminder_done: "tables_ok s \<Longrightarrow> tables_ok (mark_reminder_done i b s)"
  by (auto simp: tables_ok_def mark_reminder_done_def reminder_typed_def intro!: table_ok_update)

lemma tables_ok_forget_message: "tables_ok s \<Longrightarrow> tables_ok (forget_message i s)"
  by (auto simp: tables_ok_def forget_message_def intro!: table_ok_delete)

lemma tables_ok_forget_channel: "tables_ok s \<Longrightarrow> tables_ok (forget_channel c s)"
  by (auto simp: tables_ok_def forget_channel_def intro!: table_ok_delete)

lemmas tables_ok_ops = tables_ok_upsert_user tables_ok_upsert_users tables_ok_upsert_friend tables_ok_delete_friend tables_ok_block
  tables_ok_unblock tables_ok_upsert_group tables_ok_upsert_member tables_ok_delete_member
  tables_ok_upsert_channel_member tables_ok_delete_channel_member tables_ok_reaction tables_ok_mention
  tables_ok_mention_read tables_ok_reminder tables_ok_reminder_done tables_ok_forget_message tables_ok_forget_channel

text \<open>A member shown in a group always has a name: its alias in the group, the alias the user gave, the
  nickname, the user name or its number.\<close>

lemma display_name_not_blank: "resolve_group_member_display_name a b c d i \<noteq> ''''"
proof -
  have "first_some xs = Some t \<Longrightarrow> list_all (\<lambda>x. x \<noteq> Some []) xs \<Longrightarrow> t \<noteq> []" for xs and t :: string
    by (induction xs rule: first_some.induct) auto
  moreover have "non_blank v \<noteq> Some []" for v
    by (auto simp: non_blank_def split: option.splits if_splits)
  moreover have "show_u64 i \<noteq> []"
    by (simp add: show_u64_def)
  ultimately show ?thesis
    by (auto simp: resolve_group_member_display_name_def split: option.splits)
qed

theorem friend_updates_converge_witness:
  "let a = \<lparr>uf_user_id = 7, uf_tags = None, uf_is_pinned = False, uf_created_at = 1, uf_version = 5, uf_updated_at = 1,
        uf_status = 0, uf_is_outgoing = Some True, uf_request_message = None, uf_request_source = None,
        uf_request_source_id = None\<rparr>;
       b = a\<lparr>uf_version := 8, uf_status := 1\<rparr>
   in find_friend 7 (fold upsert_friend [a, b] empty_side) = find_friend 7 (fold upsert_friend [b, a] empty_side) \<and>
      (\<exists>r. find_friend 7 (fold upsert_friend [a, b] empty_side) = Some r \<and> fr_status r = 1)"
proof -
  define a where "a = \<lparr>uf_user_id = 7, uf_tags = None, uf_is_pinned = False, uf_created_at = 1, uf_version = 5, uf_updated_at = 1,
        uf_status = 0, uf_is_outgoing = Some True, uf_request_message = None, uf_request_source = None,
        uf_request_source_id = None\<rparr>"
  define b where "b = a\<lparr>uf_version := 8, uf_status := 1\<rparr>"
  have "find_friend 7 (fold upsert_friend [a, b] empty_side) = find_friend 7 (fold upsert_friend [b, a] empty_side)"
    using friend_updates_converge [of "[a, b]" "[b, a]" 7 empty_side] by (simp add: a_def b_def)
  moreover have "\<exists>r. find_friend 7 (fold upsert_friend [a, b] empty_side) = Some r \<and> fr_status r = 1"
    by (simp add: a_def b_def upsert_friend_def find_friend_def upsert_on_def update_where_def newer_row_def friend_of_def
        empty_side_def as_i64_def)
  ultimately show ?thesis by (simp add: a_def [symmetric] b_def [symmetric] Let_def)
qed

end
