(* ===== verification/Timeline_Sync.thy ===== *)
theory Timeline_Sync
  imports Outbox_Store Channel_Store Receive_Pipeline Error_Model Session_State
begin

text \<open>
  Catching up one conversation (\<open>lib.rs\<close>): the difference of a conversation, page by page, with
  mutations that arrive before their target; the jump when the server asks for a resync; and the
  anti-entropy scan that looks for conversations left behind.

  The outside answers through \<open>env k\<close>, the answers given to the \<open>k\<close>-th call since the start: what the
  server replies, whether a key can be written. \<open>w_asked\<close> lists the requests sent. The functions of
  the protocol crate and the projection of a commit to a sync item are the record \<open>codec\<close>; what
  \<open>apply_sync_entities\<close> does with a batch is the argument \<open>appl\<close>.
\<close>

subsection \<open>Data\<close>

record server_commit =
  cm_event_id :: "u64 option"
  cm_pts :: u64
  cm_server_msg_id :: u64
  cm_local_message_id :: "u64 option"
  cm_channel_id :: u64
  cm_channel_type :: u8
  cm_message_type :: string
  cm_content :: json
  cm_server_timestamp :: int
  cm_sender_id :: u64
  cm_event_schema_version :: "u32 option"
  cm_canonical_event :: "string option"

text \<open>A canonical event, with the fields read here: a mutation names its target and its author.\<close>

datatype canonical_event = NewMessageEvent string | RevokeEvent u64 u64 | ReactionEvent u64 u64

record pending_mutation =
  pm_channel_id :: u64
  pm_channel_type :: int
  pm_target :: u64
  pm_event_id :: u64
  pm_pts :: u64
  pm_canonical_event :: string

datatype sync_request =
    GetDifference u64 int u64
  | GetChannelPts u64 int
  | GetHistory u64 nat
  | BatchGetPts "(u64 \<times> int) list"
  | SyncEntities string "string option" u64
  | SessionReadyCall

record sync_world =
  w_db :: message_db
  w_kv :: "string \<Rightarrow> string option"
  w_pending :: "pending_mutation list"
  w_asked :: "sync_request list"
  w_calls :: nat

type_synonym ('p, 'ev) timeline_state = "(sync_world, 'p, 'ev) sync_apply_state"

text \<open>The answer to a request: a reply, a rejection with its code and text, or an error of the
  transport or of the decoding.\<close>

datatype 'a rpc_answer = Reply 'a | Rejected int string | Request_Failed sdk_error

record difference_page =
  dp_commits :: "server_commit list"
  dp_has_more :: bool

record sync_answers =
  sa_difference :: "difference_page rpc_answer"
  sa_current_pts :: "u64 rpc_answer"
  sa_history :: "history_item list rpc_answer"
  sa_batch_pts :: "((u64 \<times> int) \<times> u64) list rpc_answer"
  sa_kv_fault :: "string option"
  sa_clock :: int
  sa_commit_ok :: bool

record 'p codec =
  co_codes :: protocol_codes
  co_schema_v1 :: u32
  co_resolve :: "server_commit \<Rightarrow> canonical_event option"
  co_encode :: "canonical_event \<Rightarrow> string result"
  co_decode :: "string \<Rightarrow> canonical_event result"
  co_item :: "server_commit \<Rightarrow> string \<times> 'p sync_entity_item"
  co_history :: "history_item \<Rightarrow> int \<Rightarrow> upsert_input"
  co_uid :: string
  co_current_uid :: "string option"
  co_directory :: directory

type_synonym ('p, 'ev) applier = "message_db \<Rightarrow> 'p sync_batch \<Rightarrow> message_db \<times> (sdk_error + 'ev list)"

subsection \<open>The world\<close>

definition on_world :: "(sync_world \<Rightarrow> sync_world) \<Rightarrow> ('p, 'ev) timeline_state \<Rightarrow> ('p, 'ev) timeline_state" where
  "on_world f st = st\<lparr>world := f (world st)\<rparr>"

definition answers_to :: "(nat \<Rightarrow> sync_answers) \<Rightarrow> ('p, 'ev) timeline_state \<Rightarrow> sync_answers" where
  "answers_to env st = env (w_calls (world st))"

definition ask :: "sync_request \<Rightarrow> ('p, 'ev) timeline_state \<Rightarrow> ('p, 'ev) timeline_state" where
  "ask req = on_world (\<lambda>w. w\<lparr>w_asked := w_asked w @ [req], w_calls := w_calls w + 1\<rparr>)"

definition rpc_result :: "protocol_codes \<Rightarrow> string \<Rightarrow> 'a rpc_answer \<Rightarrow> 'a result" where
  "rpc_result pc op_name ans =
     (case ans of
        Reply x \<Rightarrow> Inr x
      | Rejected c m \<Rightarrow> Inl (sync_rpc_rejection pc op_name c m)
      | Request_Failed e \<Rightarrow> Inl e)"

definition kv_put :: "(nat \<Rightarrow> sync_answers) \<Rightarrow> string \<Rightarrow> string \<Rightarrow> ('p, 'ev) timeline_state \<Rightarrow>
    ('p, 'ev) timeline_state \<times> unit result" where
  "kv_put env key v st =
     (case sa_kv_fault (answers_to env st) of
        Some e \<Rightarrow> (on_world (\<lambda>w. w\<lparr>w_calls := w_calls w + 1\<rparr>) st, Inl (Storage (''sled kv put: '' @ e)))
      | None \<Rightarrow> (on_world (\<lambda>w. w\<lparr>w_kv := (w_kv w)(key := Some v), w_calls := w_calls w + 1\<rparr>) st, Inr ()))"

subsection \<open>Cursors\<close>

definition resume_channel_pts_key :: "u64 \<Rightarrow> int \<Rightarrow> string" where
  "resume_channel_pts_key cid ct = ''__resume_pts__:'' @ show_int ct @ '':'' @ show_u64 cid"

definition load_resume_channel_pts :: "u64 \<Rightarrow> int \<Rightarrow> ('p, 'ev) timeline_state \<Rightarrow> u64 option" where
  "load_resume_channel_pts cid ct st =
     (case w_kv (world st) (resume_channel_pts_key cid ct) of
        None \<Rightarrow> None
      | Some text \<Rightarrow> map_option word_of_nat (parse_u64 (trim text)))"

definition save_resume_channel_pts ::
  "(nat \<Rightarrow> sync_answers) \<Rightarrow> u64 \<Rightarrow> int \<Rightarrow> u64 \<Rightarrow> ('p, 'ev) timeline_state \<Rightarrow> ('p, 'ev) timeline_state \<times> unit result" where
  "save_resume_channel_pts env cid ct pts = kv_put env (resume_channel_pts_key cid ct) (show_u64 pts)"

subsection \<open>Requests\<close>

definition wire_channel_type :: "int \<Rightarrow> int" where
  "wire_channel_type ct = (if 0 \<le> ct \<and> ct < 256 then ct else 1)"

definition difference_op :: "u64 \<Rightarrow> int \<Rightarrow> u64 \<Rightarrow> string" where
  "difference_op cid ct last_pts =
     ''get_difference channel_id='' @ show_u64 cid @ '' channel_type='' @ show_int ct @ '' last_pts='' @ show_u64 last_pts"

definition get_difference ::
  "'p codec \<Rightarrow> (nat \<Rightarrow> sync_answers) \<Rightarrow> u64 \<Rightarrow> int \<Rightarrow> u64 \<Rightarrow> ('p, 'ev) timeline_state \<Rightarrow>
   ('p, 'ev) timeline_state \<times> difference_page result" where
  "get_difference co env cid ct last_pts st =
     (ask (GetDifference cid (wire_channel_type ct) last_pts) st,
      rpc_result (co_codes co) (difference_op cid ct last_pts)
        (sa_difference (answers_to env st)))"

definition get_channel_pts ::
  "'p codec \<Rightarrow> (nat \<Rightarrow> sync_answers) \<Rightarrow> u64 \<Rightarrow> int \<Rightarrow> ('p, 'ev) timeline_state \<Rightarrow>
   ('p, 'ev) timeline_state \<times> u64 result" where
  "get_channel_pts co env cid ct st =
     (ask (GetChannelPts cid (wire_channel_type ct)) st,
      rpc_result (co_codes co) (''get_channel_pts channel_id='' @ show_u64 cid @ '' channel_type='' @ show_int ct)
        (sa_current_pts (answers_to env st)))"

text \<open>\<open>rpc_call_typed\<close>: the codes of the authentication domain become an authentication error.\<close>

definition typed_result :: "'a rpc_answer \<Rightarrow> 'a result" where
  "typed_result ans =
     (case ans of
        Reply x \<Rightarrow> Inr x
      | Rejected c m \<Rightarrow>
          (let n = word_of_int c :: u32
           in if 10000 \<le> n \<and> n < 10100 then Inl (Auth (''['' @ show_int c @ ''] '' @ m)) else Inl (Server n m))
      | Request_Failed e \<Rightarrow> Inl e)"

definition batch_get_channel_pts ::
  "(nat \<Rightarrow> sync_answers) \<Rightarrow> (u64 \<times> int) list \<Rightarrow> ('p, 'ev) timeline_state \<Rightarrow>
   ('p, 'ev) timeline_state \<times> ((u64 \<times> int) \<times> u64) list result" where
  "batch_get_channel_pts env chans st =
     (ask (BatchGetPts (map (\<lambda>(cid, ct). (cid, wire_channel_type ct)) chans)) st,
      typed_result (sa_batch_pts (answers_to env st)))"

subsection \<open>Applying items\<close>

definition on_db :: "('p, 'ev) applier \<Rightarrow> sync_world \<Rightarrow> 'p sync_batch \<Rightarrow> sync_world \<times> (sdk_error + 'ev list)" where
  "on_db appl w b = (case appl (w_db w) b of (db, r) \<Rightarrow> (w\<lparr>w_db := db\<rparr>, r))"

text \<open>\<open>enqueue_and_apply_sync_items\<close>; its drain always ends, so the second branch is not reached.\<close>

definition apply_items ::
  "('p, 'ev) applier \<Rightarrow> string \<Rightarrow> string option \<Rightarrow> 'p sync_entity_item list \<Rightarrow> ('p, 'ev) timeline_state \<Rightarrow>
   ('p, 'ev) timeline_state \<times> nat result" where
  "apply_items appl et sc its st =
     (case enqueue_and_apply_sync_items (on_db appl) (\<lambda>w _. w) st et sc its of
        Some (st1, r) \<Rightarrow> (st1, r)
      | None \<Rightarrow> (st, Inl ActorClosed))"

subsection \<open>Mutations that come before their target\<close>

definition channel_scope :: "u64 \<Rightarrow> int \<Rightarrow> string option" where
  "channel_scope cid ct = Some (show_int ct @ '':'' @ show_u64 cid)"

definition commit_type :: "server_commit \<Rightarrow> int" where
  "commit_type c = uint (cm_channel_type c)"

definition pending_key :: "pending_mutation \<Rightarrow> int \<times> u64 \<times> u64 \<times> u64" where
  "pending_key m = (pm_channel_type m, pm_channel_id m, pm_target m, pm_event_id m)"

fun target_of :: "canonical_event \<Rightarrow> u64 option" where
  "target_of (NewMessageEvent _) = None"
| "target_of (RevokeEvent t _) = Some t"
| "target_of (ReactionEvent t _) = Some t"

fun author_of :: "canonical_event \<Rightarrow> u64" where
  "author_of (NewMessageEvent _) = 0"
| "author_of (RevokeEvent _ u) = u"
| "author_of (ReactionEvent _ u) = u"

definition put_pending :: "(nat \<Rightarrow> sync_answers) \<Rightarrow> pending_mutation \<Rightarrow> ('p, 'ev) timeline_state \<Rightarrow>
    ('p, 'ev) timeline_state \<times> unit result" where
  "put_pending env m st =
     (case sa_kv_fault (answers_to env st) of
        Some f \<Rightarrow> (on_world (\<lambda>w. w\<lparr>w_calls := w_calls w + 1\<rparr>) st,
                   Inl (Storage (''put pending timeline mutation: '' @ f)))
      | None \<Rightarrow> (on_world (\<lambda>w. w\<lparr>w_pending := upsert_on pending_key (\<lambda>_. m) m (w_pending w),
                              w_calls := w_calls w + 1\<rparr>) st, Inr ()))"

definition delete_pending :: "(nat \<Rightarrow> sync_answers) \<Rightarrow> pending_mutation \<Rightarrow> ('p, 'ev) timeline_state \<Rightarrow>
    ('p, 'ev) timeline_state \<times> unit result" where
  "delete_pending env m st =
     (case sa_kv_fault (answers_to env st) of
        Some f \<Rightarrow> (on_world (\<lambda>w. w\<lparr>w_calls := w_calls w + 1\<rparr>) st,
                   Inl (Storage (''delete pending timeline mutation: '' @ f)))
      | None \<Rightarrow> (on_world (\<lambda>w. w\<lparr>w_pending := filter (\<lambda>x. pending_key x \<noteq> pending_key m) (w_pending w),
                              w_calls := w_calls w + 1\<rparr>) st, Inr ()))"

text \<open>A record without an event is corrupt and dropped by the scan.\<close>

definition for_target :: "u64 \<Rightarrow> int \<Rightarrow> u64 \<Rightarrow> pending_mutation \<Rightarrow> bool" where
  "for_target cid ct target m \<longleftrightarrow> pm_channel_id m = cid \<and> pm_channel_type m = ct \<and> pm_target m = target"

definition list_pending :: "u64 \<Rightarrow> int \<Rightarrow> u64 \<Rightarrow> ('p, 'ev) timeline_state \<Rightarrow>
    ('p, 'ev) timeline_state \<times> pending_mutation list" where
  "list_pending cid ct target st =
     (on_world (\<lambda>w. w\<lparr>w_pending := filter (\<lambda>m. \<not> (for_target cid ct target m \<and> pm_canonical_event m = '''')) (w_pending w)\<rparr>) st,
      sort_key pm_pts (sort_key pm_event_id
        (filter (\<lambda>m. for_target cid ct target m \<and> pm_canonical_event m \<noteq> '''') (w_pending (world st)))))"

definition defer_if_target_missing ::
  "'p codec \<Rightarrow> (nat \<Rightarrow> sync_answers) \<Rightarrow> server_commit \<Rightarrow> ('p, 'ev) timeline_state \<Rightarrow>
   ('p, 'ev) timeline_state \<times> bool result" where
  "defer_if_target_missing co env c st =
     (case co_resolve co c of
        None \<Rightarrow> (st, Inr False)
      | Some ev \<Rightarrow>
          (case (target_of ev, cm_event_id c) of
             (None, _) \<Rightarrow> (st, Inr False)
           | (Some target, eid) \<Rightarrow>
               if get_message_id_by_server_message_id (cm_channel_id c) (commit_type c) target (w_db (world st)) \<noteq> None
               then (st, Inr False)
               else (case eid of
                       None \<Rightarrow> (st, Inr False)
                     | Some e \<Rightarrow>
                         (case co_encode co ev of
                            Inl err \<Rightarrow> (st, Inl err)
                          | Inr b \<Rightarrow>
                              (case put_pending env
                                      \<lparr>pm_channel_id = cm_channel_id c, pm_channel_type = commit_type c,
                                       pm_target = target, pm_event_id = e, pm_pts = cm_pts c,
                                       pm_canonical_event = b\<rparr> st of
                                 (st1, Inl err) \<Rightarrow> (st1, Inl err)
                               | (st1, Inr _) \<Rightarrow> (st1, Inr True))))))"

definition pending_commit :: "'p codec \<Rightarrow> u64 \<Rightarrow> int \<Rightarrow> canonical_event \<Rightarrow> pending_mutation \<Rightarrow> server_commit" where
  "pending_commit co cid ct ev m =
     \<lparr>cm_event_id = Some (pm_event_id m), cm_pts = pm_pts m, cm_server_msg_id = pm_event_id m,
      cm_local_message_id = None, cm_channel_id = cid, cm_channel_type = word_of_int (wire_channel_type ct),
      cm_message_type = '''', cm_content = JNull, cm_server_timestamp = 0, cm_sender_id = author_of ev,
      cm_event_schema_version = Some (co_schema_v1 co), cm_canonical_event = Some (pm_canonical_event m)\<rparr>"

fun replay_mutations ::
  "'p codec \<Rightarrow> ('p, 'ev) applier \<Rightarrow> (nat \<Rightarrow> sync_answers) \<Rightarrow> u64 \<Rightarrow> int \<Rightarrow> pending_mutation list \<Rightarrow> nat \<Rightarrow>
   ('p, 'ev) timeline_state \<Rightarrow> ('p, 'ev) timeline_state \<times> nat result" where
  "replay_mutations co appl env cid ct [] n st = (st, Inr n)"
| "replay_mutations co appl env cid ct (m # ms) n st =
     (case co_decode co (pm_canonical_event m) of
        Inl e \<Rightarrow> (st, Inl e)
      | Inr ev \<Rightarrow>
          (case co_item co (pending_commit co cid ct ev m) of (et, item) \<Rightarrow>
             (case apply_items appl et (channel_scope cid ct) [item] st of
                (st1, Inl e) \<Rightarrow> (st1, Inl e)
              | (st1, Inr k) \<Rightarrow>
                  (case delete_pending env m st1 of
                     (st2, Inl e) \<Rightarrow> (st2, Inl e)
                   | (st2, Inr _) \<Rightarrow> replay_mutations co appl env cid ct ms (n + k) st2))))"

definition replay_pending ::
  "'p codec \<Rightarrow> ('p, 'ev) applier \<Rightarrow> (nat \<Rightarrow> sync_answers) \<Rightarrow> u64 \<Rightarrow> int \<Rightarrow> u64 \<Rightarrow>
   ('p, 'ev) timeline_state \<Rightarrow> ('p, 'ev) timeline_state \<times> nat result" where
  "replay_pending co appl env cid ct target st =
     (case list_pending cid ct target st of (st1, ms) \<Rightarrow> replay_mutations co appl env cid ct ms 0 st1)"

subsection \<open>Recovering from the history\<close>

fun collect_ids :: "upsert_result result list \<Rightarrow> u64 list result" where
  "collect_ids [] = Inr []"
| "collect_ids (Inl e # _) = Inl e"
| "collect_ids (Inr r # rs) = (case collect_ids rs of Inl e \<Rightarrow> Inl e | Inr is \<Rightarrow> Inr (r_message_id r # is))"

definition normalized_type :: "int \<Rightarrow> int" where
  "normalized_type ct = (if ct = 0 then 1 else ct)"

definition store_history_items ::
  "'p codec \<Rightarrow> sync_answers \<Rightarrow> history_item list \<Rightarrow> int \<Rightarrow> message_db \<Rightarrow> message_db \<times> u64 list result" where
  "store_history_items co an its ct db =
     (case batch_upsert_remote_messages (sa_clock an) (sa_clock an) (sa_commit_ok an) (co_uid co)
             (map (\<lambda>i. co_history co i ct) its) db of
        (db1, rs) \<Rightarrow> (db1, collect_ids rs))"

fun refresh_previews ::
  "'p codec \<Rightarrow> int \<Rightarrow> int \<Rightarrow> (history_item \<times> u64) list \<Rightarrow> message_db \<Rightarrow> message_db" where
  "refresh_previews co now ct [] db = db"
| "refresh_previews co now ct ((i, mid) # rest) db =
     refresh_previews co now ct rest
       (update_channel_last_message now (co_uid co) (co_current_uid co) (co_directory co) (h_channel_id i) ct
          (h_content i) (if int (h_timestamp i) \<le> i64_max then int (h_timestamp i) else i64_max) mid
          (Some (h_sender_id i)) False db)"

definition hydrate_channel ::
  "'p codec \<Rightarrow> (nat \<Rightarrow> sync_answers) \<Rightarrow> u64 \<Rightarrow> int \<Rightarrow> nat \<Rightarrow> ('p, 'ev) timeline_state \<Rightarrow>
   ('p, 'ev) timeline_state \<times> nat result" where
  "hydrate_channel co env cid ct limit st =
     (let an = answers_to env st; st1 = ask (GetHistory cid limit) st
      in case typed_result (sa_history an) of
           Inl e \<Rightarrow> (st1, Inl e)
         | Inr [] \<Rightarrow> (st1, Inr 0)
         | Inr its \<Rightarrow>
             (case store_history_items co an its (normalized_type ct) (w_db (world st1)) of
                (db1, Inl e) \<Rightarrow> (on_world (\<lambda>w. w\<lparr>w_db := db1\<rparr>) st1, Inl e)
              | (db1, Inr ids) \<Rightarrow>
                  (on_world (\<lambda>w. w\<lparr>w_db := refresh_previews co (sa_clock an) (normalized_type ct) (zip its ids) db1\<rparr>) st1,
                   Inr (length its))))"

subsection \<open>The difference of a conversation\<close>

fun apply_commits ::
  "'p codec \<Rightarrow> ('p, 'ev) applier \<Rightarrow> (nat \<Rightarrow> sync_answers) \<Rightarrow> string option \<Rightarrow> server_commit list \<Rightarrow> nat \<Rightarrow>
   ('p, 'ev) timeline_state \<Rightarrow> ('p, 'ev) timeline_state \<times> nat result" where
  "apply_commits co appl env sp [] tot st = (st, Inr tot)"
| "apply_commits co appl env sp (c # cs) tot st =
     (case defer_if_target_missing co env c st of
        (st1, Inl e) \<Rightarrow> (st1, Inl e)
      | (st1, Inr True) \<Rightarrow> apply_commits co appl env sp cs tot st1
      | (st1, Inr False) \<Rightarrow>
          (case co_item co c of (et, item) \<Rightarrow>
             (case apply_items appl et sp [item] st1 of
                (st2, Inl e) \<Rightarrow> (st2, Inl e)
              | (st2, Inr k) \<Rightarrow>
                  if et = ''message'' \<and> \<not> deleted item
                  then (case replay_pending co appl env (cm_channel_id c) (commit_type c) (cm_server_msg_id c) st2 of
                          (st3, Inl e) \<Rightarrow> (st3, Inl e)
                        | (st3, Inr k2) \<Rightarrow> apply_commits co appl env sp cs (tot + k + k2) st3)
                  else apply_commits co appl env sp cs (tot + k) st2)))"

definition highest_pts :: "server_commit list \<Rightarrow> u64" where
  "highest_pts cs = (case cs of [] \<Rightarrow> 0 | c # rest \<Rightarrow> fold max (map cm_pts rest) (cm_pts c))"

text \<open>The jump: the cursor goes to the server's current position before the last hundred messages are
  fetched, and a failure to fetch them is not an error.\<close>

definition channel_resync ::
  "'p codec \<Rightarrow> (nat \<Rightarrow> sync_answers) \<Rightarrow> u64 \<Rightarrow> int \<Rightarrow> nat \<Rightarrow> ('p, 'ev) timeline_state \<Rightarrow>
   ('p, 'ev) timeline_state \<times> nat result" where
  "channel_resync co env cid ct tot st =
     (case get_channel_pts co env cid ct st of
        (st1, Inl e) \<Rightarrow> (st1, Inl e)
      | (st1, Inr pts) \<Rightarrow>
          (case save_resume_channel_pts env cid ct pts st1 of
             (st2, Inl e) \<Rightarrow> (st2, Inl e)
           | (st2, Inr _) \<Rightarrow>
               (case hydrate_channel co env cid ct 100 st2 of
                  (st3, r) \<Rightarrow> (st3, Inr (tot + (case r of Inr n \<Rightarrow> n | Inl _ \<Rightarrow> 0))))))"

datatype paging = Caught_Up nat | Left "nat result"

definition too_many_pages :: "u64 \<Rightarrow> int \<Rightarrow> sdk_error" where
  "too_many_pages cid ct =
     InvalidState (''resume_channel_difference exceeded max paging iterations: channel_id='' @ show_u64 cid @
       '' channel_type='' @ show_int ct)"

text \<open>The loop; the first argument counts the pages it may still fetch.\<close>

fun difference_pages ::
  "'p codec \<Rightarrow> ('p, 'ev) applier \<Rightarrow> (nat \<Rightarrow> sync_answers) \<Rightarrow> u64 \<Rightarrow> int \<Rightarrow> nat \<Rightarrow> u64 \<Rightarrow> nat \<Rightarrow>
   ('p, 'ev) timeline_state \<Rightarrow> ('p, 'ev) timeline_state \<times> paging" where
  "difference_pages co appl env cid ct 0 last_pts tot st = (st, Left (Inl (too_many_pages cid ct)))"
| "difference_pages co appl env cid ct (Suc n) last_pts tot st =
     (case get_difference co env cid ct last_pts st of
        (st1, Inl e) \<Rightarrow>
          if classify_resume_error (co_codes co) e = ChannelResyncRequired
          then (case channel_resync co env cid ct tot st1 of (st2, r) \<Rightarrow> (st2, Left r))
          else (st1, Left (Inl e))
      | (st1, Inr page) \<Rightarrow>
          if dp_commits page = [] then (st1, Caught_Up tot)
          else
            (case apply_commits co appl env (channel_scope cid ct) (dp_commits page) tot st1 of
               (st2, Inl e) \<Rightarrow> (st2, Left (Inl e))
             | (st2, Inr total2) \<Rightarrow>
                 if highest_pts (dp_commits page) \<le> last_pts then (st2, Caught_Up total2)
                 else
                   (case save_resume_channel_pts env cid ct (highest_pts (dp_commits page)) st2 of
                      (st3, Inl e) \<Rightarrow> (st3, Left (Inl e))
                    | (st3, Inr _) \<Rightarrow>
                        if dp_has_more page
                        then difference_pages co appl env cid ct n (highest_pts (dp_commits page)) total2 st3
                        else (st3, Caught_Up total2))))"

definition reconcile_channel_unread ::
  "'p codec \<Rightarrow> int \<Rightarrow> u64 \<Rightarrow> int \<Rightarrow> message_db \<Rightarrow> message_db" where
  "reconcile_channel_unread co now cid ct db =
     (case get_channel_by_id now (co_uid co) (co_directory co) cid db of
        (db1, None) \<Rightarrow> db1
      | (db1, Some v) \<Rightarrow>
          (case find_channel_extra (as_i64 cid) ct db1 of
             None \<Rightarrow> db1
           | Some e \<Rightarrow>
               (let top = max_message_pts cid ct db1; exact = count_materialized_unread (co_uid co) cid ct db1
                in if top = 0 \<or> as_u64 (ce_keep_pts e) < top \<or> sc_unread_count v = exact then db1
                   else upsert_channel now
                          \<lparr>uc_channel_id = sc_channel_id v, uc_channel_type = sc_channel_type v,
                           uc_channel_name = sc_channel_name v, uc_channel_remark = sc_channel_remark v,
                           uc_avatar = sc_avatar v, uc_unread_count = exact, uc_top = sc_top v, uc_mute = sc_mute v,
                           uc_last_msg_timestamp = sc_last_msg_timestamp v,
                           uc_last_local_message_id = sc_last_local_message_id v,
                           uc_last_msg_content = sc_last_msg_content v, uc_version = sc_version v,
                           uc_peer_user_id = sc_peer_user_id v\<rparr> db1)))"

definition start_pts :: "u64 \<Rightarrow> int \<Rightarrow> ('p, 'ev) timeline_state \<Rightarrow> u64" where
  "start_pts cid ct st =
     (let top = max_message_pts cid ct (w_db (world st))
      in case load_resume_channel_pts cid ct st of None \<Rightarrow> top | Some c \<Rightarrow> max top c)"

definition resume_channel_difference ::
  "'p codec \<Rightarrow> ('p, 'ev) applier \<Rightarrow> (nat \<Rightarrow> sync_answers) \<Rightarrow> u64 \<Rightarrow> int \<Rightarrow> ('p, 'ev) timeline_state \<Rightarrow>
   ('p, 'ev) timeline_state \<times> nat result" where
  "resume_channel_difference co appl env cid ct st =
     (case difference_pages co appl env cid ct 64 (start_pts cid ct st) 0 st of
        (st1, Left r) \<Rightarrow> (st1, r)
      | (st1, Caught_Up tot) \<Rightarrow>
          (on_world (\<lambda>w. w\<lparr>w_db := reconcile_channel_unread co (sa_clock (answers_to env st1)) cid ct (w_db w)\<rparr>) st1,
           Inr tot))"

subsection \<open>The anti-entropy scan\<close>

record observation =
  ob_key :: "u64 \<times> int"
  ob_local_pts :: u64
  ob_server_pts :: "u64 option"

record entropy_plan =
  ep_repair :: "(u64 \<times> int) list"
  ep_consumed :: nat
  ep_last_consumed :: "(u64 \<times> int) option"
  ep_stale_found :: nat
  ep_deferred :: nat
  ep_unknown :: nat

definition empty_plan :: entropy_plan where
  "empty_plan = \<lparr>ep_repair = [], ep_consumed = 0, ep_last_consumed = None, ep_stale_found = 0, ep_deferred = 0,
     ep_unknown = 0\<rparr>"

fun plan_page :: "nat \<Rightarrow> observation list \<Rightarrow> entropy_plan \<Rightarrow> entropy_plan" where
  "plan_page budget [] p = p"
| "plan_page budget (ob # obs) p =
     (let seen = p\<lparr>ep_consumed := ep_consumed p + 1, ep_last_consumed := Some (ob_key ob)\<rparr>
      in case ob_server_pts ob of
           None \<Rightarrow> plan_page budget obs (seen\<lparr>ep_unknown := ep_unknown p + 1\<rparr>)
         | Some s \<Rightarrow>
             if s \<le> ob_local_pts ob then plan_page budget obs seen
             else if budget \<le> length (ep_repair p)
             then p\<lparr>ep_stale_found := ep_stale_found p + 1, ep_deferred := ep_deferred p + 1\<rparr>
             else plan_page budget obs
                    (seen\<lparr>ep_stale_found := ep_stale_found p + 1, ep_repair := ep_repair p @ [ob_key ob]\<rparr>))"

definition plan_anti_entropy_page :: "observation list \<Rightarrow> nat \<Rightarrow> entropy_plan" where
  "plan_anti_entropy_page obs budget = plan_page budget obs empty_plan"

record entropy_page =
  pg_scanned :: nat
  pg_stale_found :: nat
  pg_repaired :: nat
  pg_messages_applied :: nat
  pg_deferred :: nat
  pg_unknown :: nat
  pg_cycle_completed :: bool

definition idle_page :: entropy_page where
  "idle_page = \<lparr>pg_scanned = 0, pg_stale_found = 0, pg_repaired = 0, pg_messages_applied = 0, pg_deferred = 0,
     pg_unknown = 0, pg_cycle_completed = False\<rparr>"

definition is_converged :: "entropy_page \<Rightarrow> bool" where
  "is_converged p \<longleftrightarrow> pg_cycle_completed p \<and> pg_deferred p = 0"

definition anti_entropy_cursor_key :: string where
  "anti_entropy_cursor_key = ''__anti_entropy__:channel_cursor:v1''"

definition load_anti_entropy_cursor :: "('p, 'ev) timeline_state \<Rightarrow> u64 \<times> int" where
  "load_anti_entropy_cursor st =
     (case w_kv (world st) anti_entropy_cursor_key of
        None \<Rightarrow> (0, -1)
      | Some text \<Rightarrow>
          (case split_once (CHR '':'') text of
             None \<Rightarrow> (0, -1)
           | Some (a, b) \<Rightarrow>
               (case parse_u64 a of Some n \<Rightarrow> word_of_nat n | None \<Rightarrow> 0,
                case parse_i32 b of Some i \<Rightarrow> i | None \<Rightarrow> -1)))"

definition save_anti_entropy_cursor ::
  "(nat \<Rightarrow> sync_answers) \<Rightarrow> u64 \<times> int \<Rightarrow> ('p, 'ev) timeline_state \<Rightarrow> ('p, 'ev) timeline_state \<times> unit result" where
  "save_anti_entropy_cursor env k = kv_put env anti_entropy_cursor_key (show_u64 (fst k) @ '':'' @ show_int (snd k))"

definition local_pts_of :: "('p, 'ev) timeline_state \<Rightarrow> u64 \<times> int \<Rightarrow> u64" where
  "local_pts_of st k =
     max (case load_resume_channel_pts (fst k) (snd k) st of Some c \<Rightarrow> c | None \<Rightarrow> 0)
       (max_message_pts (fst k) (snd k) (w_db (world st)))"

text \<open>The reply becomes a hash map, so the last row of a key counts.\<close>

definition observe :: "((u64 \<times> int) \<times> u64) list \<Rightarrow> ('p, 'ev) timeline_state \<Rightarrow> (u64 \<times> int) list \<Rightarrow> observation list" where
  "observe remote st chans =
     map (\<lambda>k. \<lparr>ob_key = k, ob_local_pts = local_pts_of st k, ob_server_pts = map_of (rev remote) k\<rparr>) chans"

fun repair_channels ::
  "'p codec \<Rightarrow> ('p, 'ev) applier \<Rightarrow> (nat \<Rightarrow> sync_answers) \<Rightarrow> (u64 \<times> int) list \<Rightarrow> nat \<Rightarrow>
   ('p, 'ev) timeline_state \<Rightarrow> ('p, 'ev) timeline_state \<times> nat result" where
  "repair_channels co appl env [] n st = (st, Inr n)"
| "repair_channels co appl env (k # ks) n st =
     (case resume_channel_difference co appl env (fst k) (snd k) st of
        (st1, Inl e) \<Rightarrow> (st1, Inl e)
      | (st1, Inr m) \<Rightarrow> repair_channels co appl env ks (n + m) st1)"

definition ENTROPY_PAGE_SIZE :: nat where "ENTROPY_PAGE_SIZE = 25"
definition DIFFERENCE_BUDGET :: nat where "DIFFERENCE_BUDGET = 1"

text \<open>Where the scan goes on: \<open>None\<close> when nothing is written.\<close>

definition next_cursor :: "entropy_plan \<Rightarrow> (u64 \<times> int) list \<Rightarrow> (u64 \<times> int) option" where
  "next_cursor plan chans =
     (if ep_deferred plan > 0 then ep_last_consumed plan
      else if length chans < ENTROPY_PAGE_SIZE then Some (0, -1)
      else Some (last chans))"

definition scan_page ::
  "'p codec \<Rightarrow> ('p, 'ev) applier \<Rightarrow> (nat \<Rightarrow> sync_answers) \<Rightarrow> bool \<Rightarrow> (u64 \<times> int) list \<Rightarrow>
   ('p, 'ev) timeline_state \<Rightarrow> ('p, 'ev) timeline_state \<times> entropy_page result" where
  "scan_page co appl env cycle chans st =
     (case batch_get_channel_pts env chans st of
        (st1, Inl e) \<Rightarrow> (st1, Inl e)
      | (st1, Inr remote) \<Rightarrow>
          (let plan = plan_anti_entropy_page (observe remote st1 chans) DIFFERENCE_BUDGET
           in case repair_channels co appl env (ep_repair plan) 0 st1 of
                (st2, Inl e) \<Rightarrow> (st2, Inl e)
              | (st2, Inr applied) \<Rightarrow>
                  (case (case next_cursor plan chans of
                           None \<Rightarrow> (st2, Inr ())
                         | Some k \<Rightarrow> save_anti_entropy_cursor env k st2) of
                     (st3, Inl e) \<Rightarrow> (st3, Inl e)
                   | (st3, Inr _) \<Rightarrow>
                       (st3, Inr \<lparr>pg_scanned = ep_consumed plan, pg_stale_found = ep_stale_found plan,
                          pg_repaired = length (ep_repair plan), pg_messages_applied = applied,
                          pg_deferred = ep_deferred plan, pg_unknown = ep_unknown plan,
                          pg_cycle_completed = cycle \<or> ep_deferred plan = 0 \<and> length chans < ENTROPY_PAGE_SIZE\<rparr>))))"

definition run_anti_entropy_once ::
  "'p codec \<Rightarrow> ('p, 'ev) applier \<Rightarrow> (nat \<Rightarrow> sync_answers) \<Rightarrow> session_state \<Rightarrow> bool \<Rightarrow>
   ('p, 'ev) timeline_state \<Rightarrow> ('p, 'ev) timeline_state \<times> entropy_page result" where
  "run_anti_entropy_once co appl env session bootstrapped st =
     (if session \<noteq> Authenticated \<or> \<not> bootstrapped then (st, Inr idle_page)
      else
        let (cid, ct) = load_anti_entropy_cursor st;
            first = list_channel_identifiers_after cid ct ENTROPY_PAGE_SIZE (w_db (world st));
            wraps = (first = [] \<and> cid \<noteq> 0)
        in case (if wraps then save_anti_entropy_cursor env (0, -1) st else (st, Inr ())) of
             (st1, Inl e) \<Rightarrow> (st1, Inl e)
           | (st1, Inr _) \<Rightarrow>
               (let chans = (if wraps then list_channel_identifiers_after 0 (-1) ENTROPY_PAGE_SIZE (w_db (world st1)) else first)
                in if chans = [] then (st1, Inr (idle_page\<lparr>pg_cycle_completed := True\<rparr>))
                   else scan_page co appl env wraps chans st1))"

subsection \<open>What the steps leave alone\<close>

lemma on_world_simps [simp]: "world (on_world f st) = f (world st)" "pipeline (on_world f st) = pipeline st"
  by (simp_all add: on_world_def)

lemma ask_simps [simp]:
  "w_asked (world (ask req st)) = w_asked (world st) @ [req]" "w_db (world (ask req st)) = w_db (world st)"
  "w_kv (world (ask req st)) = w_kv (world st)" "w_calls (world (ask req st)) = w_calls (world st) + 1"
  by (simp_all add: ask_def)

text \<open>A view of the world that looks neither at the database, nor at the parked mutations, nor at the count
  of calls is not changed by applying items.\<close>

locale observer =
  fixes view :: "sync_world \<Rightarrow> 'v"
  assumes view_db: "view (w\<lparr>w_db := d\<rparr>) = view w"
    and view_pending: "view (w\<lparr>w_pending := ps\<rparr>) = view w"
    and view_calls: "view (w\<lparr>w_calls := n\<rparr>) = view w"
begin

lemma batches: "apply_batches (on_db appl) bs w p evs n = (w', p', r) \<Longrightarrow> view w' = view w"
proof (induction bs arbitrary: w p evs n)
  case (Cons b bs)
  obtain db x where "appl (w_db w) b = (db, x)" by fastforce
  then show ?case using Cons by (cases x) (auto simp: on_db_def view_db)
qed simp

lemma items: "apply_items appl et sp its st = (st', r) \<Longrightarrow> view (world st') = view (world st)"
  by (auto simp: apply_items_def enqueue_and_apply_sync_items_def drain_batches_eq Let_def
      dest!: batches split: prod.splits sum.splits)

lemma parked:
  "put_pending env m st = (st1, q) \<Longrightarrow> view (world st1) = view (world st)"
  "delete_pending env m st = (st1, q) \<Longrightarrow> view (world st1) = view (world st)"
  "list_pending cid ct t st = (st2, ms) \<Longrightarrow> view (world st2) = view (world st)"
  by (auto simp: put_pending_def delete_pending_def list_pending_def view_pending view_calls
      split: option.splits)

lemma deferral: "defer_if_target_missing co env c st = (st', r) \<Longrightarrow> view (world st') = view (world st)"
  by (auto simp: defer_if_target_missing_def dest: parked split: option.splits sum.splits prod.splits if_splits)

lemma replay_each:
  "replay_mutations co appl env cid ct ms n st = (st', r) \<Longrightarrow> view (world st') = view (world st)"
proof (induction ms arbitrary: n st)
  case (Cons m ms)
  show ?case
    using Cons.prems Cons.IH by (auto dest!: parked(2) items split: sum.splits prod.splits)
qed simp

lemma replay: "replay_pending co appl env cid ct t st = (st', r) \<Longrightarrow> view (world st') = view (world st)"
  by (auto simp: replay_pending_def dest!: replay_each parked(3) split: prod.splits)

lemma commits:
  "apply_commits co appl env sp cs n st = (st', r) \<Longrightarrow> view (world st') = view (world st)"
proof (induction cs arbitrary: n st)
  case (Cons c cs)
  obtain st1 d where d: "defer_if_target_missing co env c st = (st1, d)" by fastforce
  obtain et item where it: "co_item co c = (et, item)" by fastforce
  obtain st2 k where ap: "apply_items appl et sp [item] st1 = (st2, k)" by fastforce
  obtain st3 k2 where rp: "replay_pending co appl env (cm_channel_id c) (commit_type c) (cm_server_msg_id c) st2 = (st3, k2)"
    by fastforce
  note f = deferral [OF d] items [OF ap] replay [OF rp]
  show ?case
    using Cons.prems Cons.IH f by (auto simp: d it ap rp split: sum.splits bool.splits if_splits)
qed simp

end

interpretation asked: observer w_asked
  by unfold_locales simp_all

interpretation stored: observer w_kv
  by unfold_locales simp_all

lemma save_frame:
  "save_resume_channel_pts env cid ct p st = (st', r) \<Longrightarrow> w_asked (world st') = w_asked (world st)"
  by (auto simp: save_resume_channel_pts_def kv_put_def split: option.splits)

subsection \<open>The requests of a run\<close>

definition asked_after :: "('p, 'ev) timeline_state \<Rightarrow> ('p, 'ev) timeline_state \<Rightarrow> sync_request list" where
  "asked_after st st' = drop (length (w_asked (world st))) (w_asked (world st'))"

fun difference_points :: "sync_request list \<Rightarrow> u64 list" where
  "difference_points [] = []"
| "difference_points (GetDifference _ _ p # rs) = p # difference_points rs"
| "difference_points (_ # rs) = difference_points rs"

lemma channel_resync_asks:
  assumes "channel_resync co env cid ct tot st = (st', r)"
  shows "\<exists>rs. w_asked (world st') = w_asked (world st) @ rs \<and> difference_points rs = []"
proof -
  have hyd: "hydrate_channel co env cid ct 100 s = (s', q) \<Longrightarrow> w_asked (world s') = w_asked (world s) @ [GetHistory cid 100]" for s s' q
    by (auto simp: hydrate_channel_def Let_def split: sum.splits list.splits prod.splits)
  show ?thesis
    using assms
    by (auto simp: channel_resync_def get_channel_pts_def dest!: save_frame hyd split: sum.splits prod.splits)
qed

lemma difference_pages_asks:
  "difference_pages co appl env cid ct n p tot st = (st', r) \<Longrightarrow>
    \<exists>rs. w_asked (world st') = w_asked (world st) @ rs \<and> sorted_wrt (<) (difference_points rs) \<and>
      length (difference_points rs) \<le> n \<and> (\<forall>q \<in> set (difference_points rs). p \<le> q)"
proof (induction n arbitrary: p tot st)
  case (Suc n)
  let ?d = "GetDifference cid (wire_channel_type ct) p"
  obtain g where g: "get_difference co env cid ct p st = (ask ?d st, g)" by (simp add: get_difference_def)
  show ?case
  proof (cases g)
    case (Inl e)
    obtain st2 q where rs: "channel_resync co env cid ct tot (ask ?d st) = (st2, q)" by fastforce
    from channel_resync_asks [OF this] obtain rs where "w_asked (world st2) = w_asked (world st) @ ?d # rs" "difference_points rs = []"
      by auto
    then show ?thesis using Suc.prems g Inl rs
      by (auto split: if_splits intro: exI [of _ "?d # rs"] exI [of _ "[?d]"])
  next
    case (Inr page)
    obtain st2 q where ap: "apply_commits co appl env (channel_scope cid ct) (dp_commits page) tot (ask ?d st) = (st2, q)"
      by fastforce
    let ?h = "highest_pts (dp_commits page)"
    obtain st3 q3 where sv: "save_resume_channel_pts env cid ct ?h st2 = (st3, q3)" by fastforce
    have a2: "w_asked (world st2) = w_asked (world st) @ [?d]" using asked.commits [OF ap] by simp
    have a3: "w_asked (world st3) = w_asked (world st) @ [?d]"
      using save_frame [OF sv] a2 by simp
    have one: ?thesis if "st' = st2 \<or> st' = st3 \<or> st' = ask ?d st"
      using that a2 a3 by (auto intro!: exI [of _ "[?d]"])
    show ?thesis
    proof (cases "\<exists>t2. q = Inr t2 \<and> \<not> ?h \<le> p \<and> q3 = Inr () \<and> dp_has_more page \<and> dp_commits page \<noteq> []")
      case True
      then obtain t2 where t2: "q = Inr t2" "\<not> ?h \<le> p" "q3 = Inr ()" "dp_has_more page" "dp_commits page \<noteq> []" by blast
      then have "difference_pages co appl env cid ct n ?h t2 st3 = (st', r)"
        using Suc.prems by (simp add: g Inr ap sv)
      from Suc.IH [OF this] obtain rs where rs: "w_asked (world st') = w_asked (world st3) @ rs"
        "sorted_wrt (<) (difference_points rs)" "length (difference_points rs) \<le> n" "\<forall>q \<in> set (difference_points rs). ?h \<le> q"
        by blast
      have "p < q" if "q \<in> set (difference_points rs)" for q
        using rs(4) that t2(2) by fastforce
      then show ?thesis using rs a3 by (auto intro!: exI [of _ "?d # rs"] less_imp_le)
    next
      case False
      then show ?thesis using Suc.prems one
        by (auto simp: g Inr ap sv split: if_splits sum.splits)
    qed
  qed
qed simp

text \<open>C19. Catching up a conversation ends: whatever the server answers, a run asks for at most sixty-four
  pages, each strictly later than the one before, and the first not before the highest position
  stored for the conversation.\<close>

theorem catch_up_is_bounded:
  "let points = difference_points (asked_after st (fst (resume_channel_difference co appl env cid ct st)))
   in sorted_wrt (<) points \<and> length points \<le> 64 \<and> list_all (\<lambda>p. start_pts cid ct st \<le> p) points"
proof -
  obtain st1 q where d: "difference_pages co appl env cid ct 64 (start_pts cid ct st) 0 st = (st1, q)" by fastforce
  from difference_pages_asks [OF d] obtain rs where rs: "w_asked (world st1) = w_asked (world st) @ rs"
    "sorted_wrt (<) (difference_points rs)" "length (difference_points rs) \<le> 64"
    "\<forall>p \<in> set (difference_points rs). start_pts cid ct st \<le> p" by blast
  have "w_asked (world (fst (resume_channel_difference co appl env cid ct st))) = w_asked (world st1)"
    by (cases q) (auto simp: resume_channel_difference_def d)
  then show ?thesis using rs by (simp add: asked_after_def Let_def list_all_iff)
qed

subsection \<open>Positions that are skipped\<close>

lemma load_saved:
  assumes "save_resume_channel_pts env cid ct p st = (st', Inr ())"
  shows "load_resume_channel_pts cid ct st' = Some p" and "w_db (world st') = w_db (world st)"
    and "w_calls (world st') = w_calls (world st) + 1"
  using assms
  by (auto simp: save_resume_channel_pts_def kv_put_def load_resume_channel_pts_def show_u64_def trim_show_nat
      parse_u64_show_u64 [unfolded show_u64_def] split: option.splits)

lemma last_pts_in_op: "contains ''last_pts'' (to_ascii_lowercase (difference_op cid ct p @ m))"
proof -
  have lower: "to_ascii_lowercase ''last_pts'' = ''last_pts''" by code_simp
  have "difference_op cid ct p @ m =
    (''get_difference channel_id='' @ show_u64 cid @ '' channel_type='' @ show_int ct @ '' '') @ ''last_pts'' @ (''='' @ show_u64 p @ m)"
    by (simp add: difference_op_def)
  then show ?thesis by (simp only: to_ascii_lowercase_append lower contains_mid)
qed

text \<open>The words that make a rejection something else than a request for a channel resync.\<close>

definition other_resync_words :: "string list" where
  "other_resync_words = [''code=20901'', ''syncentityresyncrequired'', ''entity scoped resync required'',
     ''code=20902'', ''syncfullrebuildrequired'', ''full rebuild required'']"

lemma rejection_means_resync:
  assumes "sync_rpc_rejection pc (difference_op cid ct p) c m = Auth text"
    and "\<not> contains_any other_resync_words (to_ascii_lowercase text)"
  shows "classify_resume_error pc (Auth text) = ChannelResyncRequired"
proof -
  obtain tail where "text = difference_op cid ct p @ tail"
    using assms(1) by (auto simp: sync_rpc_rejection_def Let_def split: if_splits)
  then have "contains ''last_pts'' (to_ascii_lowercase text)" using last_pts_in_op by simp
  then show ?thesis
    using assms(2) by (simp add: classify_resume_message_def Let_def other_resync_words_def)
qed


lemma fold_max_acc: "(a :: int) \<le> b \<Longrightarrow> a \<le> fold max xs b"
  by (induction xs arbitrary: b) (auto simp: le_max_iff_disj)

lemma fold_max_ge: "x \<in> set (a # xs) \<Longrightarrow> x \<le> fold max xs (a :: int)"
  by (induction xs arbitrary: a) (auto simp: fold_max_acc le_max_iff_disj)

lemma fold_max_mem: "fold max xs (a :: int) \<in> set (a # xs)"
  by (induction xs arbitrary: a) (auto simp: max_def)

lemma max_message_pts_ge:
  assumes "r \<in> set (messages db)" and "in_channel cid ct r"
    and "\<forall>x \<in> set (messages db). 0 \<le> m_pts x \<and> m_pts x < 2 ^ 63"
  shows "as_u64 (m_pts r) \<le> max_message_pts cid ct db"
proof -
  obtain a rs where f: "filter (in_channel cid ct) (messages db) = a # rs"
    using assms(1,2) by (cases "filter (in_channel cid ct) (messages db)") (auto simp: filter_empty_conv)
  have r: "r \<in> set (a # rs)" using assms(1,2) f [symmetric] by simp
  let ?top = "fold max (map m_pts rs) (m_pts a)"
  have le: "m_pts r \<le> ?top" using fold_max_ge [of "m_pts r" "m_pts a" "map m_pts rs"] r by auto
  obtain x where "x \<in> set (a # rs)" "?top = m_pts x" using fold_max_mem [of "map m_pts rs" "m_pts a"] by auto
  moreover have "set (a # rs) \<subseteq> set (messages db)" using f by (metis filter_is_subset)
  ultimately have "0 \<le> ?top" "?top < 2 ^ 63" using assms(3) by auto
  moreover have "0 \<le> m_pts r" using assms(1,3) by blast
  ultimately show ?thesis
    using le by (simp add: max_message_pts_def f as_u64_def word_le_def uint_word_of_int)
qed

definition stale_ob :: "observation \<Rightarrow> bool" where
  "stale_ob ob \<longleftrightarrow> (case ob_server_pts ob of None \<Rightarrow> False | Some s \<Rightarrow> ob_local_pts ob < s)"

lemma plan_page_repairs:
  "k \<in> set (ep_repair (plan_page b obs p)) \<Longrightarrow>
    k \<in> set (ep_repair p) \<or> (\<exists>ob \<in> set obs. ob_key ob = k \<and> stale_ob ob)"
proof (induction obs arbitrary: p)
  case (Cons ob obs)
  show ?case
    using Cons.prems Cons.IH
    by (fastforce simp: Let_def stale_ob_def split: option.splits if_splits)
qed simp

text \<open>A message that has been stored hides the gap below it. Once a pushed message (or one fetched as
  history) stands in the table, a catch-up asks only for positions from there on, and the
  anti-entropy scan takes the conversation for complete as long as the server is not further; what
  was missed before that message is asked for by neither.\<close>

theorem stored_message_hides_gap:
  assumes "r \<in> set (messages (w_db (world st)))" and "in_channel cid ct r"
    and "\<forall>x \<in> set (messages (w_db (world st))). 0 \<le> m_pts x \<and> m_pts x < 2 ^ 63"
    and "resume_channel_difference co appl env cid ct st = (st', q)"
    and "map_of (rev remote) (cid, ct) = Some s" and "s \<le> as_u64 (m_pts r)"
  shows "(\<forall>p \<in> set (difference_points (asked_after st st')). as_u64 (m_pts r) \<le> p) \<and>
    (cid, ct) \<notin> set (ep_repair (plan_anti_entropy_page (observe remote st chans) budget))"
proof -
  note top = max_message_pts_ge [OF assms(1-3)]
  have "as_u64 (m_pts r) \<le> start_pts cid ct st"
    using top by (auto simp: start_pts_def Let_def le_max_iff_disj split: option.split)
  moreover have "\<forall>p \<in> set (difference_points (asked_after st st')). start_pts cid ct st \<le> p"
  proof -
    obtain st1 x where d: "difference_pages co appl env cid ct 64 (start_pts cid ct st) 0 st = (st1, x)" by fastforce
    have "w_asked (world st') = w_asked (world st1)"
      using assms(4) by (cases x) (auto simp: resume_channel_difference_def d)
    then show ?thesis using difference_pages_asks [OF d] by (auto simp: asked_after_def)
  qed
  ultimately have 1: "\<forall>p \<in> set (difference_points (asked_after st st')). as_u64 (m_pts r) \<le> p"
    by (meson order_trans)
  have "s \<le> local_pts_of st (cid, ct)"
    using top assms(6) by (simp add: local_pts_of_def le_max_iff_disj order_trans)
  then have "\<not> stale_ob ob" if "ob \<in> set (observe remote st chans)" "ob_key ob = (cid, ct)" for ob
    using that assms(5) by (auto simp: observe_def stale_ob_def)
  then show ?thesis
    using 1 plan_page_repairs [of "(cid, ct)" budget "observe remote st chans" empty_plan]
    by (auto simp: plan_anti_entropy_page_def empty_plan_def)
qed

subsection \<open>The anti-entropy plan\<close>

definition plan_of :: "observation list \<Rightarrow> entropy_plan" where
  "plan_of obs = \<lparr>ep_repair = map ob_key (filter stale_ob obs), ep_consumed = length obs,
     ep_last_consumed = (if obs = [] then None else Some (ob_key (last obs))),
     ep_stale_found = length (filter stale_ob obs), ep_deferred = 0,
     ep_unknown = length (filter (\<lambda>ob. ob_server_pts ob = None) obs)\<rparr>"

lemma plan_page_run:
  "length (filter stale_ob done) \<le> budget \<Longrightarrow>
   \<exists>n \<le> length obs. length (filter stale_ob (done @ take n obs)) \<le> budget \<and>
     (let p = plan_page budget obs (plan_of done); q = plan_of (done @ take n obs)
      in if n = length obs then p = q
         else stale_ob (obs ! n) \<and> length (filter stale_ob (done @ take n obs)) = budget \<and>
              p = q\<lparr>ep_stale_found := ep_stale_found q + 1, ep_deferred := 1\<rparr>)"
proof (induction obs arbitrary: "done")
  case (Cons ob obs)
  have step: "plan_page budget (ob # obs) (plan_of done) = plan_page budget obs (plan_of (done @ [ob]))"
    if "\<not> (stale_ob ob \<and> length (filter stale_ob done) = budget)"
    using that Cons.prems
    by (cases "ob_server_pts ob") (auto simp: plan_of_def Let_def stale_ob_def [of ob] not_le)
  show ?case
  proof (cases "stale_ob ob \<and> length (filter stale_ob done) = budget")
    case True
    then show ?thesis
      by (intro exI [of _ 0]) (auto simp: plan_of_def Let_def stale_ob_def [of ob] split: option.splits)
  next
    case False
    then have "length (filter stale_ob (done @ [ob])) \<le> budget" using Cons.prems by auto
    from Cons.IH [OF this] obtain n where n: "n \<le> length obs"
      "length (filter stale_ob ((done @ [ob]) @ take n obs)) \<le> budget"
      "let p = plan_page budget obs (plan_of (done @ [ob])); q = plan_of ((done @ [ob]) @ take n obs)
        in if n = length obs then p = q
           else stale_ob (obs ! n) \<and> length (filter stale_ob ((done @ [ob]) @ take n obs)) = budget \<and>
                p = q\<lparr>ep_stale_found := ep_stale_found q + 1, ep_deferred := 1\<rparr>" by blast
    then show ?thesis
      by (intro exI [of _ "Suc n"])
        (simp add: Let_def step [OF False] del: plan_page.simps filter_append split: if_splits)
  qed
qed (simp add: Let_def)

text \<open>The plan of an anti-entropy page: it takes a prefix of the page, repairs exactly the stale
  conversations of the prefix, at most as many as the budget allows, counts the conversations the
  server does not know without stopping at them, and remembers where it stopped; when nothing is
  deferred the prefix is the whole page, otherwise the next conversation is stale and the budget is
  used up.\<close>

theorem plan_repairs_stale_prefix:
  "let p = plan_anti_entropy_page obs budget; n = ep_consumed p; seen = take n obs
   in n \<le> length obs \<and> ep_repair p = map ob_key (filter stale_ob seen) \<and> length (ep_repair p) \<le> budget \<and>
      ep_unknown p = length (filter (\<lambda>ob. ob_server_pts ob = None) seen) \<and>
      ep_last_consumed p = (if seen = [] then None else Some (ob_key (last seen))) \<and>
      (if ep_deferred p = 0 then n = length obs
       else ep_deferred p = 1 \<and> n < length obs \<and> stale_ob (obs ! n) \<and> length (ep_repair p) = budget)"
proof -
  obtain n where n: "n \<le> length obs" "length (filter stale_ob (take n obs)) \<le> budget"
    "let p = plan_page budget obs (plan_of []); q = plan_of (take n obs)
      in if n = length obs then p = q
         else stale_ob (obs ! n) \<and> length (filter stale_ob (take n obs)) = budget \<and>
              p = q\<lparr>ep_stale_found := ep_stale_found q + 1, ep_deferred := 1\<rparr>"
    using plan_page_run [of "[]" budget obs] unfolding append_Nil by auto
  have pl: "plan_anti_entropy_page obs budget = plan_page budget obs (plan_of [])"
    by (simp add: plan_anti_entropy_page_def empty_plan_def plan_of_def)
  show ?thesis
    unfolding pl using n by (auto simp: Let_def plan_of_def [of "take _ _"] plan_of_def [of obs] split: if_splits)
qed

lemma plan_progress:
  assumes "obs \<noteq> []" and "0 < budget" and "plan_anti_entropy_page obs budget = p"
  shows "ep_last_consumed p \<in> Some ` ob_key ` set obs"
proof -
  obtain n where n: "n \<le> length obs" 
    "let p = plan_page budget obs (plan_of []); q = plan_of (take n obs)
      in if n = length obs then p = q
         else stale_ob (obs ! n) \<and> length (filter stale_ob (take n obs)) = budget \<and>
              p = q\<lparr>ep_stale_found := ep_stale_found q + 1, ep_deferred := 1\<rparr>"
    using plan_page_run [of "[]" budget obs] unfolding append_Nil by auto
  have e: "empty_plan = plan_of []" by (simp add: empty_plan_def plan_of_def)
  have "ep_last_consumed p = ep_last_consumed (plan_of (take n obs))"
    using n(2) assms(3) e by (auto simp: Let_def plan_anti_entropy_page_def split: if_splits)
  moreover have "take n obs \<noteq> []"
  proof
    assume "take n obs = []"
    then show False using n assms(1,2) by (auto simp: Let_def split: if_splits)
  qed
  moreover from this have "last (take n obs) \<in> set obs" by (metis in_set_takeD last_in_set)
  ultimately show ?thesis by (simp add: plan_of_def)
qed

lemma parse_i32_show_int:
  assumes "- (2 ^ 31) \<le> i" and "i < 2 ^ 31"
  shows "parse_i32 (show_int i) = Some i"
proof (cases "i < 0")
  case True
  then have s: "show_int i = CHR ''-'' # show_nat (nat (- i))" by (simp add: show_int_def)
  have "list_all is_ascii_digit (show_nat (nat (- i)))" by (rule show_nat_digits)
  then show ?thesis
    using True assms by (simp add: s parse_i32_def parse_signed_def Let_def)
next
  case False
  then have s: "show_int i = show_nat (nat i)" by (simp add: show_int_def)
  obtain c r where cr: "show_nat (nat i) = c # r" using show_nat_not_Nil by (cases "show_nat (nat i)") blast+
  have "is_ascii_digit c" by (rule show_nat_hd [OF cr])
  then have ns: "c \<noteq> CHR ''+''" "c \<noteq> CHR ''-''" using is_ascii_digit_not_sign by blast+
  have d: "list_all is_ascii_digit (c # r)" "digits_val (c # r) = nat i"
    using show_nat_digits [of "nat i"] by (simp_all add: cr [symmetric])
  have neg: "(case c # r of CHR ''-'' # _ \<Rightarrow> True | _ \<Rightarrow> False) = False"
    using ns(2) by (auto split: char.splits bool.splits)
  have body: "(case c # r of CHR ''-'' # t \<Rightarrow> t | CHR ''+'' # t \<Rightarrow> t | _ \<Rightarrow> c # r) = c # r"
    using ns by (auto split: char.splits bool.splits)
  show ?thesis
    using False assms d unfolding s cr parse_i32_def parse_signed_def neg body Let_def by simp
qed

text \<open>Order of the scan: by signed id, then by type.\<close>

definition before :: "u64 \<times> int \<Rightarrow> u64 \<times> int \<Rightarrow> bool" where
  "before a b \<longleftrightarrow> as_i64 (fst a) < as_i64 (fst b) \<or> as_i64 (fst a) = as_i64 (fst b) \<and> snd a < snd b"

lemma load_saved_cursor:
  assumes "save_anti_entropy_cursor env k st = (st', Inr ())" and "- (2 ^ 31) \<le> snd k" and "snd k < 2 ^ 31"
  shows "load_anti_entropy_cursor st' = k"
proof -
  have "CHR '':'' \<notin> set (show_u64 (fst k))"
    using digits_set [of "CHR '':''"] by (auto simp: show_u64_def is_ascii_digit_def)
  then have "split_once (CHR '':'') (show_u64 (fst k) @ '':'' @ show_int (snd k)) = Some (show_u64 (fst k), show_int (snd k))"
    using split_once_append [of "CHR '':''" "show_u64 (fst k)" "show_int (snd k)"] by simp
  then show ?thesis
    using assms(1) parse_i32_show_int [OF assms(2,3)]
    by (auto simp: save_anti_entropy_cursor_def kv_put_def load_anti_entropy_cursor_def parse_u64_show_u64
        split: option.splits)
qed

definition typed_channels :: "message_db \<Rightarrow> bool" where
  "typed_channels db \<longleftrightarrow> (\<forall>c \<in> set (channels db). - (2 ^ 63) \<le> ch_channel_id c \<and> ch_channel_id c < 2 ^ 63 \<and>
     - (2 ^ 31) \<le> ch_channel_type c \<and> ch_channel_type c < 2 ^ 31)"

lemma listed_after:
  assumes "k \<in> set (list_channel_identifiers_after cid ct n db)" and "typed_channels db"
  shows "before (cid, ct) k \<and> - (2 ^ 31) \<le> snd k \<and> snd k < 2 ^ 31"
  using assms
  by (auto simp: list_channel_identifiers_after_def typed_channels_def before_def as_i64_as_u64 channel_key_def
      less_prod_def dest!: in_set_takeD) (metis as_u64_as_i64)

text \<open>C23. The anti-entropy scan cannot get stuck: every pass that succeeds has completed a round over all
  conversations or has moved its cursor strictly forward, whatever positions the server reports, the
  conversations it does not know included.\<close>

theorem anti_entropy_makes_progress:
  assumes "run_anti_entropy_once co appl env Authenticated True st = (st', Inr page)"
    and "typed_channels (w_db (world st))"
  shows "pg_cycle_completed page \<or> before (load_anti_entropy_cursor st) (load_anti_entropy_cursor st')"
proof (cases "pg_cycle_completed page")
  case False
  obtain cid ct where cur: "load_anti_entropy_cursor st = (cid, ct)" by fastforce
  let ?chans = "list_channel_identifiers_after cid ct ENTROPY_PAGE_SIZE (w_db (world st))"
  have ne: "?chans \<noteq> []" and scan: "scan_page co appl env False ?chans st = (st', Inr page)"
    using assms(1) False
    by (auto simp: run_anti_entropy_once_def cur Let_def scan_page_def split: if_splits sum.splits prod.splits option.splits)
  obtain s1 remote where b: "batch_get_channel_pts env ?chans st = (s1, Inr remote)"
    using scan by (auto simp: scan_page_def split: prod.splits sum.splits)
  let ?plan = "plan_anti_entropy_page (observe remote s1 ?chans) DIFFERENCE_BUDGET"
  have "ep_last_consumed ?plan \<in> Some ` ob_key ` set (observe remote s1 ?chans)"
    by (rule plan_progress) (use ne in \<open>simp_all add: observe_def DIFFERENCE_BUDGET_def\<close>)
  then obtain k where k: "ep_last_consumed ?plan = Some k" "k \<in> set ?chans"
    by (auto simp: observe_def)
  have lst: "last ?chans \<in> set ?chans" using ne by simp
  obtain j where j: "next_cursor ?plan ?chans = Some j" "j \<in> set ?chans"
    using that [of k] that [of "last ?chans"] k lst scan False
    by (auto simp: next_cursor_def scan_page_def b Let_def split: sum.splits prod.splits option.splits if_splits)
  obtain s2 where "save_anti_entropy_cursor env j s2 = (st', Inr ())"
    using scan by (auto simp: scan_page_def b Let_def j split: sum.splits prod.splits)
  from load_saved_cursor [OF this] have "load_anti_entropy_cursor st' = j"
    using listed_after [OF j(2) assms(2)] by blast
  then show ?thesis using listed_after [OF j(2) assms(2)] cur by simp
qed simp

subsection \<open>Examples\<close>

definition example_codec :: "unit codec" where
  "example_codec = \<lparr>co_codes = example_codes, co_schema_v1 = 1, co_resolve = \<lambda>_. None,
     co_encode = \<lambda>_. Inr ''e'', co_decode = \<lambda>b. Inr (NewMessageEvent b),
     co_item = \<lambda>c. (''message'', \<lparr>entity_id = show_u64 (cm_server_msg_id c), item_version = cm_pts c, deleted = False,
       payload = Some ()\<rparr>),
     co_history = \<lambda>i ct. to_upsert_input (from_history_item (\<lambda>_. '''') i ct (\<lambda>_. 0)) 2 None, co_uid = ''4'',
     co_current_uid = Some ''4'', co_directory = \<lparr>dir_users = [], dir_groups = [], dir_members = []\<rparr>\<rparr>"

definition quiet_answers :: sync_answers where
  "quiet_answers = \<lparr>sa_difference = Reply \<lparr>dp_commits = [], dp_has_more = False\<rparr>, sa_current_pts = Reply 90,
     sa_history = Request_Failed NotConnected, sa_batch_pts = Reply [((7, 1), 5)], sa_kv_fault = None, sa_clock = 1,
     sa_commit_ok = True\<rparr>"

definition busy_answers :: sync_answers where
  "busy_answers = quiet_answers\<lparr>sa_difference := Rejected 8 ''busy''\<rparr>"

definition state_of :: "message_db \<Rightarrow> (unit, unit) timeline_state" where
  "state_of db = \<lparr>world = \<lparr>w_db = db, w_kv = \<lambda>_. None, w_pending = [], w_asked = [], w_calls = 0\<rparr>,
     pipeline = default_pipeline, last_sync_queued = 0, last_sync_dropped_duplicates = 0, last_sync_entity_events = []\<rparr>"

lemma start_empty: "start_pts 7 1 (state_of empty_db) = 0"
  by (simp add: start_pts_def state_of_def empty_db_def max_message_pts_def load_resume_channel_pts_def)


lemma example_row: "messages example_db = [remote_row 1 1785148272000 (example_input 9 5 ''hello'')]"
  by (simp add: example_db_def upsert_one_def empty_db_def insert_message_def example_input_def
      to_upsert_input_def from_push_def apply_remote_revoke_flag_def)

theorem stored_message_hides_gap_witness:
  "list_all (\<lambda>p. 5 \<le> p) (difference_points (asked_after (state_of example_db)
     (fst (resume_channel_difference example_codec (\<lambda>db b. (db, Inr [])) (\<lambda>_. quiet_answers) 7 1 (state_of example_db))))) \<and>
   (7, 1) \<notin> set (ep_repair (plan_anti_entropy_page (observe [((7, 1), 5)] (state_of example_db) [(7, 1)]) 1))"
proof -
  let ?run = "resume_channel_difference example_codec (\<lambda>db b. (db, Inr [])) (\<lambda>_. quiet_answers) 7 1 (state_of example_db)"
  let ?r = "remote_row 1 1785148272000 (example_input 9 5 ''hello'')"
  have r: "?r \<in> set (messages (w_db (world (state_of example_db))))" "in_channel 7 1 ?r" "m_pts ?r = 5"
    by (simp_all add: state_of_def example_row in_channel_def example_input_def to_upsert_input_def from_push_def as_i64_def
        remote_row_def)
  obtain st' q where run: "?run = (st', q)" by fastforce
  have rows: "\<forall>x \<in> set (messages (w_db (world (state_of example_db)))). 0 \<le> m_pts x \<and> m_pts x < 2 ^ 63"
    using r(3) by (simp add: state_of_def example_row)
  show ?thesis
    using stored_message_hides_gap [OF r(1,2) rows run, of "[((7, 1), 5)]" 5 "[(7, 1)]" 1] r(3) run
    by (simp add: list_all_iff as_u64_def)
qed

definition two_channels_db :: message_db where
  "two_channels_db = empty_db\<lparr>channels := map (\<lambda>cid. inserted_channel 1 \<lparr>uc_channel_id = cid, uc_channel_type = 1,
     uc_channel_name = '''', uc_channel_remark = '''', uc_avatar = '''', uc_unread_count = 0, uc_top = 0, uc_mute = 0,
     uc_last_msg_timestamp = 0, uc_last_local_message_id = 0, uc_last_msg_content = '''', uc_version = 0,
     uc_peer_user_id = None\<rparr>) [7, 9]\<rparr>"

definition ahead_answers :: sync_answers where
  "ahead_answers = quiet_answers\<lparr>sa_batch_pts := Reply [((7, 1), 5), ((9, 1), 5)]\<rparr>"

lemma difference_quiet:
  assumes "sa_difference (answers_to env st) = Reply \<lparr>dp_commits = [], dp_has_more = False\<rparr>"
  shows "\<exists>db. resume_channel_difference co appl env cid ct st =
    (on_world (\<lambda>w. w\<lparr>w_db := db\<rparr>) (ask (GetDifference cid (wire_channel_type ct) (start_pts cid ct st)) st), Inr 0)"
proof -
  let ?s = "ask (GetDifference cid (wire_channel_type ct) (start_pts cid ct st)) st"
  have n: "(64 :: nat) = Suc 63" by simp
  have "difference_pages co appl env cid ct 64 (start_pts cid ct st) 0 st = (?s, Caught_Up 0)"
    unfolding n difference_pages.simps using assms by (simp add: get_difference_def rpc_result_def)
  then show ?thesis
    by (auto simp: resume_channel_difference_def on_world_def)
qed

lemma two_channels_listed:
  "list_channel_identifiers_after 0 (-1) ENTROPY_PAGE_SIZE two_channels_db = [(7, 1), (9, 1)]"
  by (simp add: list_channel_identifiers_after_def two_channels_db_def ENTROPY_PAGE_SIZE_def inserted_channel_def
      channel_key_def less_prod_def as_i64_def as_u64_def)

theorem anti_entropy_makes_progress_witness:
  "\<exists>st' page. run_anti_entropy_once example_codec (\<lambda>db b. (db, Inr [])) (\<lambda>_. ahead_answers) Authenticated True
      (state_of two_channels_db) = (st', Inr page) \<and> \<not> pg_cycle_completed page \<and>
    before (load_anti_entropy_cursor (state_of two_channels_db)) (load_anti_entropy_cursor st')"
proof -
  let ?st = "state_of two_channels_db"
  let ?chans = "[(7, 1), (9, 1)] :: (u64 \<times> int) list"
  obtain s1 where b: "batch_get_channel_pts (\<lambda>_. ahead_answers) ?chans ?st = (s1, Inr [((7, 1), 5), ((9, 1), 5)])"
    and w1: "w_kv (world s1) = (\<lambda>_. None)" "w_db (world s1) = two_channels_db"
    by (simp add: batch_get_channel_pts_def state_of_def answers_to_def ahead_answers_def typed_result_def)
  let ?s2 = "\<lambda>db. on_world (\<lambda>w. w\<lparr>w_db := db\<rparr>) (ask (GetDifference 7 (wire_channel_type 1) (start_pts 7 1 s1)) s1)"
  have nothing: "local_pts_of s1 key = 0" for key
    unfolding local_pts_of_def load_resume_channel_pts_def max_message_pts_def w1
    by (simp add: two_channels_db_def empty_db_def)
  then have ahead: "\<not> 5 \<le> local_pts_of s1 key" for key
    by simp
  have plan: "plan_anti_entropy_page (observe [((7, 1), 5), ((9, 1), 5)] s1 ?chans) DIFFERENCE_BUDGET =
    \<lparr>ep_repair = [(7, 1)], ep_consumed = 1, ep_last_consumed = Some (7, 1), ep_stale_found = 2, ep_deferred = 1,
     ep_unknown = 0\<rparr>"
    by (simp add: ahead plan_anti_entropy_page_def observe_def DIFFERENCE_BUDGET_def empty_plan_def Let_def)
  obtain db where r: "resume_channel_difference example_codec (\<lambda>db b. (db, Inr [])) (\<lambda>_. ahead_answers) 7 1 s1 =
    (on_world (\<lambda>w. w\<lparr>w_db := db\<rparr>) (ask (GetDifference 7 (wire_channel_type 1) (start_pts 7 1 s1)) s1), Inr 0)"
    using difference_quiet [of "\<lambda>_. ahead_answers" s1 example_codec "\<lambda>db b. (db, Inr [])" 7 1]
    by (auto simp: answers_to_def ahead_answers_def quiet_answers_def)
  have cur: "load_anti_entropy_cursor ?st = (0, -1)" by (simp add: load_anti_entropy_cursor_def state_of_def)
  have rep: "repair_channels example_codec (\<lambda>db b. (db, Inr [])) (\<lambda>_. ahead_answers) [(7, 1)] 0 s1 = (?s2 db, Inr 0)"
    by (simp add: r)
  have saved: "save_anti_entropy_cursor (\<lambda>_. ahead_answers) (7, 1) s =
      (on_world (\<lambda>w. w\<lparr>w_kv := (w_kv w)(anti_entropy_cursor_key \<mapsto> show_u64 7 @ '':'' @ show_int 1), w_calls := w_calls w + 1\<rparr>) s, Inr ())" for s
    by (simp add: save_anti_entropy_cursor_def kv_put_def answers_to_def ahead_answers_def quiet_answers_def)
  have page: "\<exists>st' page. scan_page example_codec (\<lambda>db b. (db, Inr [])) (\<lambda>_. ahead_answers) False ?chans ?st = (st', Inr page) \<and>
      \<not> pg_cycle_completed page"
    by (simp add: scan_page_def b plan r saved next_cursor_def ENTROPY_PAGE_SIZE_def Let_def)
  have listed: "list_channel_identifiers_after 0 (-1) ENTROPY_PAGE_SIZE (w_db (world ?st)) = ?chans"
    by (simp add: two_channels_listed state_of_def)
  have "\<exists>st' page. run_anti_entropy_once example_codec (\<lambda>db b. (db, Inr [])) (\<lambda>_. ahead_answers) Authenticated True ?st
      = (st', Inr page) \<and> \<not> pg_cycle_completed page"
    using page by (simp add: run_anti_entropy_once_def cur listed)
  moreover have "typed_channels (w_db (world ?st))"
    by (simp add: typed_channels_def state_of_def two_channels_db_def inserted_channel_def as_i64_def)
  ultimately show ?thesis using anti_entropy_makes_progress by blast
qed

interpretation scan_cursor: observer "\<lambda>w. w_kv w anti_entropy_cursor_key"
  by unfold_locales simp_all

lemma cursor_keys_differ: "resume_channel_pts_key cid ct \<noteq> anti_entropy_cursor_key"
  by (simp add: resume_channel_pts_key_def anti_entropy_cursor_key_def)

lemma save_pts_keeps_scan:
  "save_resume_channel_pts env cid ct p st = (st', r) \<Longrightarrow>
    w_kv (world st') anti_entropy_cursor_key = w_kv (world st) anti_entropy_cursor_key"
  using cursor_keys_differ [symmetric] by (auto simp: save_resume_channel_pts_def kv_put_def split: option.splits)

lemma resync_keeps_scan:
  assumes "channel_resync co env cid ct tot st = (st', r)"
  shows "w_kv (world st') anti_entropy_cursor_key = w_kv (world st) anti_entropy_cursor_key"
proof -
  have hyd: "hydrate_channel co env cid ct 100 s = (s', q) \<Longrightarrow> w_kv (world s') = w_kv (world s)" for s s' q
    by (auto simp: hydrate_channel_def Let_def split: sum.splits list.splits prod.splits)
  show ?thesis
    using assms by (auto simp: channel_resync_def get_channel_pts_def dest!: save_pts_keeps_scan hyd split: sum.splits prod.splits)
qed

lemma difference_keeps_scan:
  "difference_pages co appl env cid ct n p tot st = (st', r) \<Longrightarrow>
    w_kv (world st') anti_entropy_cursor_key = w_kv (world st) anti_entropy_cursor_key"
proof (induction n arbitrary: p tot st)
  case (Suc n)
  let ?d = "GetDifference cid (wire_channel_type ct) p"
  obtain g where g: "get_difference co env cid ct p st = (ask ?d st, g)" by (simp add: get_difference_def)
  show ?case
  proof (cases g)
    case (Inl e)
    then show ?thesis using Suc.prems g by (auto dest!: resync_keeps_scan split: if_splits prod.splits)
  next
    case (Inr page)
    obtain st2 q where ap: "apply_commits co appl env (channel_scope cid ct) (dp_commits page) tot (ask ?d st) = (st2, q)"
      by fastforce
    obtain st3 q3 where sv: "save_resume_channel_pts env cid ct (highest_pts (dp_commits page)) st2 = (st3, q3)" by fastforce
    show ?thesis
      using Suc.prems Suc.IH scan_cursor.commits [OF ap] save_pts_keeps_scan [OF sv]
      by (auto simp: g Inr ap sv split: if_splits sum.splits)
  qed
qed simp

lemma resume_keeps_scan:
  assumes "resume_channel_difference co appl env cid ct st = (st', r)"
  shows "load_anti_entropy_cursor st' = load_anti_entropy_cursor st"
  using assms
  by (auto simp: resume_channel_difference_def load_anti_entropy_cursor_def dest!: difference_keeps_scan
      split: prod.splits paging.splits)

text \<open>A conversation that cannot be repaired stops the scan: when the difference of the first
  conversation found behind fails, the pass ends with that failure and leaves its cursor where it was,
  so the next pass starts with the same conversation and no conversation after it is compared.\<close>

theorem failing_channel_stops_scan:
  assumes "load_anti_entropy_cursor st = (cid, ct)"
    and "list_channel_identifiers_after cid ct ENTROPY_PAGE_SIZE (w_db (world st)) = chans" and "chans \<noteq> []"
    and "batch_get_channel_pts env chans st = (st1, Inr remote)"
    and "ep_repair (plan_anti_entropy_page (observe remote st1 chans) DIFFERENCE_BUDGET) = k # ks"
    and "resume_channel_difference co appl env (fst k) (snd k) st1 = (st2, Inl e)"
  shows "run_anti_entropy_once co appl env Authenticated True st = (st2, Inl e) \<and>
    load_anti_entropy_cursor st2 = (cid, ct)"
proof -
  have "w_kv (world st1) = w_kv (world st)"
    using assms(4) by (auto simp: batch_get_channel_pts_def)
  then have "load_anti_entropy_cursor st1 = (cid, ct)"
    using assms(1) by (simp add: load_anti_entropy_cursor_def)
  then have "load_anti_entropy_cursor st2 = (cid, ct)"
    using resume_keeps_scan [OF assms(6)] by simp
  moreover have "run_anti_entropy_once co appl env Authenticated True st = (st2, Inl e)"
    using assms by (simp add: run_anti_entropy_once_def scan_page_def Let_def)
  ultimately show ?thesis by simp
qed

definition failing_answers :: sync_answers where
  "failing_answers = ahead_answers\<lparr>sa_difference := Request_Failed NotConnected\<rparr>"

theorem failing_channel_stops_scan_witness:
  "\<exists>st2. run_anti_entropy_once example_codec (\<lambda>db b. (db, Inr [])) (\<lambda>_. failing_answers) Authenticated True
      (state_of two_channels_db) = (st2, Inl NotConnected) \<and> load_anti_entropy_cursor st2 = (0, -1)"
proof -
  let ?st = "state_of two_channels_db"
  let ?chans = "[(7, 1), (9, 1)] :: (u64 \<times> int) list"
  obtain s1 where b: "batch_get_channel_pts (\<lambda>_. failing_answers) ?chans ?st = (s1, Inr [((7, 1), 5), ((9, 1), 5)])"
    and w1: "w_kv (world s1) = (\<lambda>_. None)" "w_db (world s1) = two_channels_db"
    by (simp add: batch_get_channel_pts_def state_of_def answers_to_def failing_answers_def ahead_answers_def typed_result_def)
  have nothing: "local_pts_of s1 key = 0" for key
    unfolding local_pts_of_def load_resume_channel_pts_def max_message_pts_def w1
    by (simp add: two_channels_db_def empty_db_def)
  then have behind: "\<not> 5 \<le> local_pts_of s1 key" for key by simp
  have plan: "ep_repair (plan_anti_entropy_page (observe [((7, 1), 5), ((9, 1), 5)] s1 ?chans) DIFFERENCE_BUDGET) = [(7, 1)]"
    by (simp add: behind plan_anti_entropy_page_def observe_def DIFFERENCE_BUDGET_def empty_plan_def Let_def)
  have cur: "load_anti_entropy_cursor ?st = (0, -1)" by (simp add: load_anti_entropy_cursor_def state_of_def)
  have listed: "list_channel_identifiers_after 0 (-1) ENTROPY_PAGE_SIZE (w_db (world ?st)) = ?chans"
    by (simp add: two_channels_listed state_of_def)
  have n: "(64 :: nat) = Suc 63" by simp
  have "difference_pages example_codec (\<lambda>db b. (db, Inr [])) (\<lambda>_. failing_answers) 7 1 64 (start_pts 7 1 s1) 0 s1 =
      (ask (GetDifference 7 (wire_channel_type 1) (start_pts 7 1 s1)) s1, Left (Inl NotConnected))"
    unfolding n difference_pages.simps
    by (simp add: get_difference_def rpc_result_def answers_to_def failing_answers_def)
  then have "\<exists>s2. resume_channel_difference example_codec (\<lambda>db b. (db, Inr [])) (\<lambda>_. failing_answers) (fst (7 :: u64, 1 :: int)) (snd (7 :: u64, 1 :: int)) s1
      = (s2, Inl NotConnected)"
    by (simp add: resume_channel_difference_def)
  then obtain s2 where r: "resume_channel_difference example_codec (\<lambda>db b. (db, Inr [])) (\<lambda>_. failing_answers) (fst (7 :: u64, 1 :: int)) (snd (7 :: u64, 1 :: int)) s1
      = (s2, Inl NotConnected)" by blast
  show ?thesis
    using failing_channel_stops_scan [OF cur listed _ b plan r] by blast
qed

end
