(* ===== verification/Entity_Apply.thy ===== *)
theory Entity_Apply
  imports Directory_Store Receive_Pipeline
begin

text \<open>
  Applying a batch of sync items to the account database: \<open>apply_sync_entities\<close> of \<open>lib.rs\<close>, one
  definition per entity family, in the order of the match. The payload types of the protocol crate
  and their decoders are the record \<open>payload_codecs\<close>; a payload that does not decode is the default one,
  all of whose fields are absent. The clock is read when the batch starts (\<open>ae_now\<close>) and by the
  statements (\<open>ae_clock\<close>). Background work the batch starts, caching an avatar or fetching a
  thumbnail, is a list of jobs. An error stops the batch: what earlier items wrote stays, their
  events are lost.
\<close>

subsection \<open>Payloads\<close>

record friend_meta =
  fm_created_at :: "int option"
  fm_updated_at :: "int option"
  fm_version :: "int option"

record embedded_user =
  eu_username :: "string option"
  eu_nickname :: "string option"
  eu_name :: "string option"
  eu_alias :: "string option"
  eu_avatar :: "string option"
  eu_user_type :: "int option"
  eu_type_field :: "int option"
  eu_updated_at :: "int option"
  eu_version :: "int option"

record friend_payload =
  fp_user_id :: "u64 option"
  fp_uid :: "u64 option"
  fp_friend :: "friend_meta option"
  fp_user :: "embedded_user option"
  fp_status :: "int option"
  fp_tags :: "string option"
  fp_is_pinned :: "bool option"
  fp_pinned :: "bool option"
  fp_created_at :: "int option"
  fp_updated_at :: "int option"
  fp_version :: "int option"
  fp_is_outgoing :: "bool option"
  fp_request_message :: "string option"
  fp_request_source :: "string option"
  fp_request_source_id :: "string option"

record group_payload =
  gp_group_id :: "u64 option"
  gp_name :: "string option"
  gp_avatar :: "string option"
  gp_avatar_url :: "string option"
  gp_owner_id :: "u64 option"
  gp_member_count :: "int option"
  gp_created_at :: "int option"
  gp_updated_at :: "int option"

record group_member_payload =
  mp_group_id :: "u64 option"
  mp_user_id :: "u64 option"
  mp_uid :: "u64 option"
  mp_role :: "int option"
  mp_status :: "int option"
  mp_alias :: "string option"
  mp_is_muted :: "bool option"
  mp_joined_at :: "int option"
  mp_updated_at :: "int option"
  mp_version :: "int option"

record channel_payload =
  cp_channel_id :: "u64 option"
  cp_channel_type :: "int option"
  cp_type_field :: "int option"
  cp_channel_name :: "string option"
  cp_name :: "string option"
  cp_avatar :: "string option"
  cp_unread_count :: "int option"
  cp_top :: "int option"
  cp_mute :: "int option"
  cp_last_msg_timestamp :: "int option"
  cp_last_msg_content :: "string option"
  cp_peer_user_id :: "u64 option"

record channel_member_payload =
  hp_channel_id :: "u64 option"
  hp_channel_type :: "int option"
  hp_type_field :: "int option"
  hp_member_uid :: "u64 option"
  hp_user_id :: "u64 option"
  hp_uid :: "u64 option"
  hp_member_name :: "string option"
  hp_name :: "string option"
  hp_member_remark :: "string option"
  hp_remark :: "string option"
  hp_member_avatar :: "string option"
  hp_avatar :: "string option"
  hp_member_invite_uid :: "u64 option"
  hp_inviter_uid :: "u64 option"
  hp_role :: "int option"
  hp_status :: "int option"
  hp_is_deleted :: "bool option"
  hp_robot :: "int option"
  hp_version :: "int option"
  hp_created_at :: "int option"
  hp_updated_at :: "int option"
  hp_extra :: "string option"
  hp_forbidden_expiration_time :: "int option"
  hp_member_avatar_cache_key :: "string option"

record channel_extra_payload =
  xp_channel_id :: "u64 option"
  xp_channel_type :: "int option"
  xp_type_field :: "int option"
  xp_browse_to :: "u64 option"
  xp_keep_pts :: "u64 option"
  xp_keep_offset_y :: "int option"
  xp_draft :: "string option"
  xp_draft_updated_at :: "u64 option"

record message_payload =
  sp_server_message_id :: "u64 option"
  sp_message_id :: "u64 option"
  sp_id :: "u64 option"
  sp_local_message_id :: "u64 option"
  sp_channel_id :: "u64 option"
  sp_channel_type :: "int option"
  sp_type_field :: "int option"
  sp_conversation_type :: "int option"
  sp_timestamp :: "int option"
  sp_created_at :: "int option"
  sp_send_time :: "int option"
  sp_from_uid :: "u64 option"
  sp_sender_id :: "u64 option"
  sp_from :: "u64 option"
  sp_uid :: "u64 option"
  sp_message_type :: "int option"
  sp_content :: "string option"
  sp_text :: "string option"
  sp_body :: "string option"
  sp_status :: "int option"
  sp_pts :: "int option"
  sp_setting :: "int option"
  sp_order_seq :: "int option"
  sp_searchable_word :: "string option"
  sp_extra :: "string option"

record status_payload =
  tp_message_id :: "u64 option"
  tp_server_message_id :: "u64 option"
  tp_id :: "u64 option"
  tp_channel_id :: "u64 option"
  tp_channel_type :: "int option"
  tp_type_field :: "int option"
  tp_conversation_type :: "int option"
  tp_status :: "int option"

record read_cursor_payload =
  rp_channel_id :: "u64 option"
  rp_channel_type :: "int option"
  rp_type_field :: "int option"
  rp_reader_id :: "u64 option"
  rp_last_read_pts :: "u64 option"

record payload_codecs =
  pd_friend :: "json \<Rightarrow> friend_payload option"
  pd_group :: "json \<Rightarrow> group_payload option"
  pd_group_member :: "json \<Rightarrow> group_member_payload option"
  pd_channel :: "json \<Rightarrow> channel_payload option"
  pd_channel_member :: "json \<Rightarrow> channel_member_payload option"
  pd_channel_extra :: "json \<Rightarrow> channel_extra_payload option"
  pd_message :: "json \<Rightarrow> message_payload option"
  pd_status :: "json \<Rightarrow> status_payload option"
  pd_read_cursor :: "json \<Rightarrow> read_cursor_payload option"
  pd_print :: "json \<Rightarrow> string"
  pd_parse :: "string \<Rightarrow> json option"
  pd_role :: "int \<Rightarrow> int"
  pd_text_type :: int
  pd_image_type :: int
  pd_video_type :: int

definition no_friend :: friend_payload where
  "no_friend = \<lparr>fp_user_id = None, fp_uid = None, fp_friend = None, fp_user = None, fp_status = None, fp_tags = None,
     fp_is_pinned = None, fp_pinned = None, fp_created_at = None, fp_updated_at = None, fp_version = None,
     fp_is_outgoing = None, fp_request_message = None, fp_request_source = None, fp_request_source_id = None\<rparr>"

definition no_meta :: friend_meta where
  "no_meta = \<lparr>fm_created_at = None, fm_updated_at = None, fm_version = None\<rparr>"

definition no_embedded :: embedded_user where
  "no_embedded = \<lparr>eu_username = None, eu_nickname = None, eu_name = None, eu_alias = None, eu_avatar = None,
     eu_user_type = None, eu_type_field = None, eu_updated_at = None, eu_version = None\<rparr>"

definition no_group :: group_payload where
  "no_group = \<lparr>gp_group_id = None, gp_name = None, gp_avatar = None, gp_avatar_url = None, gp_owner_id = None,
     gp_member_count = None, gp_created_at = None, gp_updated_at = None\<rparr>"

definition no_group_member :: group_member_payload where
  "no_group_member = \<lparr>mp_group_id = None, mp_user_id = None, mp_uid = None, mp_role = None, mp_status = None,
     mp_alias = None, mp_is_muted = None, mp_joined_at = None, mp_updated_at = None, mp_version = None\<rparr>"

definition no_channel :: channel_payload where
  "no_channel = \<lparr>cp_channel_id = None, cp_channel_type = None, cp_type_field = None, cp_channel_name = None,
     cp_name = None, cp_avatar = None, cp_unread_count = None, cp_top = None, cp_mute = None,
     cp_last_msg_timestamp = None, cp_last_msg_content = None, cp_peer_user_id = None\<rparr>"

definition no_channel_member :: channel_member_payload where
  "no_channel_member = \<lparr>hp_channel_id = None, hp_channel_type = None, hp_type_field = None, hp_member_uid = None,
     hp_user_id = None, hp_uid = None, hp_member_name = None, hp_name = None, hp_member_remark = None,
     hp_remark = None, hp_member_avatar = None, hp_avatar = None, hp_member_invite_uid = None,
     hp_inviter_uid = None, hp_role = None, hp_status = None, hp_is_deleted = None, hp_robot = None,
     hp_version = None, hp_created_at = None, hp_updated_at = None, hp_extra = None,
     hp_forbidden_expiration_time = None, hp_member_avatar_cache_key = None\<rparr>"

definition no_channel_extra :: channel_extra_payload where
  "no_channel_extra = \<lparr>xp_channel_id = None, xp_channel_type = None, xp_type_field = None, xp_browse_to = None,
     xp_keep_pts = None, xp_keep_offset_y = None, xp_draft = None, xp_draft_updated_at = None\<rparr>"

definition no_message :: message_payload where
  "no_message = \<lparr>sp_server_message_id = None, sp_message_id = None, sp_id = None, sp_local_message_id = None,
     sp_channel_id = None, sp_channel_type = None, sp_type_field = None, sp_conversation_type = None,
     sp_timestamp = None, sp_created_at = None, sp_send_time = None, sp_from_uid = None, sp_sender_id = None,
     sp_from = None, sp_uid = None, sp_message_type = None, sp_content = None, sp_text = None, sp_body = None,
     sp_status = None, sp_pts = None, sp_setting = None, sp_order_seq = None, sp_searchable_word = None,
     sp_extra = None\<rparr>"

definition no_status :: status_payload where
  "no_status = \<lparr>tp_message_id = None, tp_server_message_id = None, tp_id = None, tp_channel_id = None,
     tp_channel_type = None, tp_type_field = None, tp_conversation_type = None, tp_status = None\<rparr>"

definition no_read_cursor :: read_cursor_payload where
  "no_read_cursor = \<lparr>rp_channel_id = None, rp_channel_type = None, rp_type_field = None, rp_reader_id = None,
     rp_last_read_pts = None\<rparr>"

subsection \<open>Events, jobs and the state of a batch\<close>

datatype entity_event =
    SyncEntityChanged string string bool
  | TimelineUpdated u64 int u64 string
  | SendStatusChanged u64 int u64
  | PeerReadPtsAdvanced u64 int u64 u64

datatype apply_job = CacheAvatar u64 string | DownloadThumbnail u64 u64 int int string

record apply_env =
  ae_codecs :: payload_codecs
  ae_uid :: string
  ae_now :: int
  ae_clock :: int
  ae_commit :: "string option"

record apply_state =
  as_db :: message_db
  as_events :: "entity_event list"
  as_jobs :: "apply_job list"

type_synonym json_item = "json sync_entity_item"

definition on_side :: "(side_tables \<Rightarrow> side_tables) \<Rightarrow> apply_state \<Rightarrow> apply_state" where
  "on_side f st = st\<lparr>as_db := (as_db st)\<lparr>side := f (side (as_db st))\<rparr>\<rparr>"

definition set_db :: "message_db \<Rightarrow> apply_state \<Rightarrow> apply_state" where
  "set_db db st = st\<lparr>as_db := db\<rparr>"

definition emit :: "entity_event list \<Rightarrow> apply_state \<Rightarrow> apply_state" where
  "emit evs st = st\<lparr>as_events := as_events st @ evs\<rparr>"

definition start_job :: "apply_job list \<Rightarrow> apply_state \<Rightarrow> apply_state" where
  "start_job js st = st\<lparr>as_jobs := as_jobs st @ js\<rparr>"

definition changed :: "string \<Rightarrow> json_item \<Rightarrow> bool \<Rightarrow> entity_event" where
  "changed kind item gone = SyncEntityChanged kind (entity_id item) gone"

text \<open>The payload of an item; the first value that is present, or the default.\<close>

definition payload_of :: "json_item \<Rightarrow> json" where
  "payload_of item = (case payload item of Some p \<Rightarrow> p | None \<Rightarrow> JObj [])"

definition decoded :: "(json \<Rightarrow> 'a option) \<Rightarrow> 'a \<Rightarrow> json_item \<Rightarrow> 'a" where
  "decoded dec dflt item = (case dec (payload_of item) of Some x \<Rightarrow> x | None \<Rightarrow> dflt)"

definition pick :: "'a option list \<Rightarrow> 'a \<Rightarrow> 'a" where
  "pick xs d = (case first_some xs of Some x \<Rightarrow> x | None \<Rightarrow> d)"

definition id_of :: "json_item \<Rightarrow> u64 option" where
  "id_of item = map_option word_of_nat (parse_entity_id_u64 (entity_id item))"

definition first_id :: "json_item \<Rightarrow> u64 option" where
  "first_id item = map_option (\<lambda>v. word_of_nat (fst v)) (parse_two_ids (entity_id item))"

definition second_id :: "json_item \<Rightarrow> u64 option" where
  "second_id item = map_option (\<lambda>v. word_of_nat (snd v)) (parse_two_ids (entity_id item))"

definition u64_field :: "json \<Rightarrow> string list \<Rightarrow> u64 option" where
  "u64_field p keys = map_option word_of_int (json_get_u64 p keys)"

definition scope_type :: "string option \<Rightarrow> int option" where
  "scope_type sp = map_option fst (parse_channel_scope sp)"

definition scope_id :: "string option \<Rightarrow> u64 option" where
  "scope_id sp = map_option (\<lambda>v. word_of_nat (snd v)) (parse_channel_scope sp)"

definition one_if_zero :: "int \<Rightarrow> int" where "one_if_zero v = (if v = 0 then 1 else v)"

definition as_i32 :: "int \<Rightarrow> int option" where
  "as_i32 v = (if - (2 ^ 31) \<le> v \<and> v < 2 ^ 31 then Some v else None)"

definition item_version_i64 :: "json_item \<Rightarrow> int" where
  "item_version_i64 item = as_i64 (item_version item)"

subsection \<open>Running the items of a batch\<close>

text \<open>\<open>for item in items\<close>: a step that fails ends the batch with what it has written.\<close>

type_synonym item_step = "json_item \<Rightarrow> apply_state \<Rightarrow> apply_state \<times> unit result"

fun for_items :: "item_step \<Rightarrow> json_item list \<Rightarrow> apply_state \<Rightarrow> apply_state \<times> unit result" where
  "for_items step [] st = (st, Inr ())"
| "for_items step (item # rest) st =
     (case step item st of
        (st', Inr _) \<Rightarrow> for_items step rest st'
      | (st', Inl e) \<Rightarrow> (st', Inl e))"

definition infallible :: "(json_item \<Rightarrow> apply_state \<Rightarrow> apply_state) \<Rightarrow> item_step" where
  "infallible f item st = (f item st, Inr ())"

subsection \<open>People\<close>

definition friend_target :: "friend_payload \<Rightarrow> json_item \<Rightarrow> u64" where
  "friend_target f item = pick [fp_user_id f, fp_uid f, id_of item] 0"

definition friend_input :: "apply_env \<Rightarrow> friend_payload \<Rightarrow> json_item \<Rightarrow> upsert_friend_input" where
  "friend_input env f item =
     (let meta = pick [fp_friend f] no_meta; v = item_version_i64 item
      in \<lparr>uf_user_id = friend_target f item, uf_tags = fp_tags f,
          uf_is_pinned = pick [fp_is_pinned f, fp_pinned f] False,
          uf_created_at = pick [fp_created_at f, fm_created_at meta] (ae_now env),
          uf_version = v,
          uf_updated_at = pick [fp_updated_at f, fm_updated_at meta, fm_version meta, fp_version f] v,
          uf_status = pick [fp_status f] 1, uf_is_outgoing = fp_is_outgoing f,
          uf_request_message = fp_request_message f, uf_request_source = fp_request_source f,
          uf_request_source_id = fp_request_source_id f\<rparr>)"

definition embedded_profile :: "embedded_user \<Rightarrow> u64 \<Rightarrow> int \<Rightarrow> upsert_user_input" where
  "embedded_profile u uid v =
     \<lparr>uu_user_id = uid, uu_username = eu_username u,
      uu_nickname = first_some [eu_nickname u, eu_name u], uu_alias = eu_alias u,
      uu_avatar = pick [eu_avatar u] '''', uu_user_type = pick [eu_user_type u, eu_type_field u] 0,
      uu_is_deleted = False, uu_channel_id = '''', uu_version = v,
      uu_updated_at = pick [eu_updated_at u, eu_version u] v\<rparr>"

definition has_embedded_user :: "embedded_user \<Rightarrow> bool" where
  "has_embedded_user u \<longleftrightarrow>
     eu_username u \<noteq> None \<or> eu_nickname u \<noteq> None \<or> eu_name u \<noteq> None \<or> eu_alias u \<noteq> None \<or> eu_avatar u \<noteq> None"

definition apply_friend :: "apply_env \<Rightarrow> json_item \<Rightarrow> apply_state \<Rightarrow> apply_state" where
  "apply_friend env item st =
     (let f = decoded (pd_friend (ae_codecs env)) no_friend item;
          uid = friend_target f item;
          u = pick [fp_user f] no_embedded
      in if uid = 0 then st
         else if deleted item
         then emit [changed ''friend'' item True] (on_side (delete_friend uid) st)
         else
           let st1 = on_side (upsert_friend (friend_input env f item)) st;
               st2 = (if has_embedded_user u
                      then start_job (case eu_avatar u of Some url \<Rightarrow> [CacheAvatar uid url] | None \<Rightarrow> [])
                             (on_side (upsert_user (embedded_profile u uid (item_version_i64 item))) st1)
                      else st1)
           in emit [changed ''friend'' item False] st2)"

definition apply_block :: "apply_env \<Rightarrow> string \<Rightarrow> json_item \<Rightarrow> apply_state \<Rightarrow> apply_state" where
  "apply_block env kind item st =
     (let p = payload_of item;
          event = (if kind = ''user_mute'' then ''user_mute'' else ''blacklist'');
          uid = pick [u64_field p [''blocked_user_id'', ''user_id'', ''uid''], id_of item] 0
      in if uid = 0 then st
         else if deleted item then emit [changed event item True] (on_side (delete_blacklist_entry uid) st)
         else emit [changed event item False] (on_side (upsert_blacklist_entry
                \<lparr>ub_user_id = uid, ub_created_at = pick [json_get_i64 p [''created_at'']] (ae_now env),
                 ub_updated_at = pick [json_get_i64 p [''updated_at'', ''version'']] (item_version_i64 item)\<rparr>) st))"

definition json_str :: "apply_env \<Rightarrow> json \<Rightarrow> string list \<Rightarrow> string option" where
  "json_str env = json_get_string (pd_print (ae_codecs env))"

definition user_target :: "json_item \<Rightarrow> u64" where
  "user_target item = pick [u64_field (payload_of item) [''user_id'', ''uid''], id_of item] 0"

definition user_input :: "apply_env \<Rightarrow> json_item \<Rightarrow> upsert_user_input" where
  "user_input env item =
     (let p = payload_of item; v = item_version_i64 item
      in \<lparr>uu_user_id = user_target item, uu_username = json_str env p [''username''],
          uu_nickname = json_str env p [''nickname'', ''name''], uu_alias = json_str env p [''alias''],
          uu_avatar = pick [json_str env p [''avatar'']] '''',
          uu_user_type = pick [json_get_i32 p [''user_type'', ''type'']] 0,
          uu_is_deleted = (deleted item \<or> pick [json_get_bool p [''is_deleted'']] False),
          uu_channel_id = pick [json_str env p [''channel_id'']] '''', uu_version = v,
          uu_updated_at = pick [json_get_i64 p [''updated_at'', ''version'']] v\<rparr>)"

text \<open>The whole page of users is one transaction.\<close>

definition apply_users :: "apply_env \<Rightarrow> json_item list \<Rightarrow> apply_state \<Rightarrow> apply_state \<times> unit result" where
  "apply_users env its st =
     (let kept = filter (\<lambda>item. user_target item \<noteq> 0) its;
          st1 = emit (map (\<lambda>item. changed ''user'' item (deleted item)) kept) st;
          (db, res) = batch_upsert_users (ae_commit env) (map (user_input env) kept) (as_db st1)
      in (set_db db st1, res))"

subsection \<open>Groups\<close>

definition apply_group :: "apply_env \<Rightarrow> json_item \<Rightarrow> apply_state \<Rightarrow> apply_state" where
  "apply_group env item st =
     (let p = payload_of item; g = decoded (pd_group (ae_codecs env)) no_group item;
          gid = pick [gp_group_id g, u64_field p [''group_id''], id_of item] 0;
          v = item_version_i64 item
      in if gid = 0 then st
         else emit [changed ''group'' item (deleted item)] (on_side (upsert_group
           \<lparr>ug_group_id = gid, ug_name = first_some [gp_name g, json_str env p [''name'', ''group_name'']],
            ug_avatar = pick [gp_avatar g, gp_avatar_url g, json_str env p [''avatar'', ''avatar_url'']] '''',
            ug_owner_id = first_some [gp_owner_id g, u64_field p [''owner_id'', ''owner'']],
            ug_is_dismissed = (deleted item \<or> pick [json_get_bool p [''is_dismissed'']] False),
            ug_member_count = first_some [gp_member_count g, json_get_i64 p [''member_count'']],
            ug_created_at = pick [gp_created_at g, json_get_i64 p [''created_at'']] (ae_now env),
            ug_version = v,
            ug_updated_at = pick [gp_updated_at g, json_get_i64 p [''updated_at'', ''version'']] v\<rparr>) st))"

definition apply_group_member :: "apply_env \<Rightarrow> string option \<Rightarrow> json_item \<Rightarrow> apply_state \<Rightarrow> apply_state" where
  "apply_group_member env sp item st =
     (let m = decoded (pd_group_member (ae_codecs env)) no_group_member item;
          gid = pick [mp_group_id m, map_option word_of_nat (resolve_group_id_from_scope sp), first_id item] 0;
          uid = pick [mp_user_id m, mp_uid m, second_id item] 0;
          v = item_version_i64 item
      in if gid = 0 \<or> uid = 0 then st
         else if deleted item then emit [changed ''group_member'' item True] (on_side (delete_group_member gid uid) st)
         else emit [changed ''group_member'' item False] (on_side (upsert_group_member
           \<lparr>um_group_id = gid, um_user_id = uid, um_role = pd_role (ae_codecs env) (pick [mp_role m] 0),
            um_status = pick [mp_status m] 0, um_alias = mp_alias m, um_is_muted = pick [mp_is_muted m] False,
            um_joined_at = pick [mp_joined_at m] (ae_now env), um_version = v,
            um_updated_at = pick [mp_updated_at m, mp_version m] v\<rparr>) st))"

subsection \<open>Conversations\<close>

text \<open>\<open>resolve_channel_last_message_fields\<close> and \<open>resolve_channel_unread_count\<close>.\<close>

definition resolve_channel_last_message_fields ::
  "stored_channel option \<Rightarrow> int option \<Rightarrow> string option \<Rightarrow> int \<times> string \<times> u64" where
  "resolve_channel_last_message_fields existing ts content =
     (case existing of
        Some c \<Rightarrow>
          if sc_last_local_message_id c > 0 \<or> sc_last_msg_timestamp c > 0
          then (sc_last_msg_timestamp c, sc_last_msg_content c, sc_last_local_message_id c)
          else (pick [ts] 0, pick [content] '''', 0)
      | None \<Rightarrow> (pick [ts] 0, pick [content] '''', 0))"

definition resolve_channel_unread_count :: "int option \<Rightarrow> int option \<Rightarrow> int" where
  "resolve_channel_unread_count existing synced = max (pick [existing, synced] 0) 0"

definition synced_unread :: "stored_channel option \<Rightarrow> int option \<Rightarrow> int \<Rightarrow> int" where
  "synced_unread existing synced materialized =
     (case existing of
        Some c \<Rightarrow>
          if synced = Some 0 \<and> materialized = 0 then 0
          else resolve_channel_unread_count (Some (sc_unread_count c)) synced
      | None \<Rightarrow> resolve_channel_unread_count None synced)"

definition channel_target :: "channel_payload \<Rightarrow> json_item \<Rightarrow> u64" where
  "channel_target c item = pick [cp_channel_id c, u64_field (payload_of item) [''channel_id''], id_of item] 0"

definition channel_kind :: "channel_payload \<Rightarrow> json_item \<Rightarrow> int option" where
  "channel_kind c item =
     first_some [Option.bind (first_some [cp_channel_type c, cp_type_field c]) as_i32,
                 parse_protocol_channel_type (payload_of item) [''channel_type'', ''type'']]"

definition channel_input ::
  "apply_env \<Rightarrow> channel_payload \<Rightarrow> json_item \<Rightarrow> int \<Rightarrow> stored_channel option \<Rightarrow> int \<Rightarrow> upsert_channel_input" where
  "channel_input env c item ct existing materialized =
     (let p = payload_of item;
          (ts, content, last) = resolve_channel_last_message_fields existing (cp_last_msg_timestamp c) (cp_last_msg_content c)
      in \<lparr>uc_channel_id = channel_target c item, uc_channel_type = ct,
          uc_channel_name = pick [cp_channel_name c, cp_name c, json_str env p [''channel_name'', ''name'']] '''',
          uc_channel_remark = pick [json_str env p [''channel_remark'']] '''',
          uc_avatar = pick [cp_avatar c, json_str env p [''avatar'']] '''',
          uc_unread_count = synced_unread existing (cp_unread_count c) materialized,
          uc_top = pick [cp_top c, map_option sc_top existing] 0,
          uc_mute = pick [cp_mute c, map_option sc_mute existing] 0,
          uc_last_msg_timestamp = ts, uc_last_local_message_id = last, uc_last_msg_content = content,
          uc_version = item_version_i64 item,
          uc_peer_user_id = first_some [cp_peer_user_id c, u64_field p [''peer_user_id'']]\<rparr>)"

definition apply_channel :: "apply_env \<Rightarrow> json_item \<Rightarrow> apply_state \<Rightarrow> apply_state" where
  "apply_channel env item st =
     (let c = decoded (pd_channel (ae_codecs env)) no_channel item;
          cid = channel_target c item
      in if cid = 0 then st
         else case channel_kind c item of
                None \<Rightarrow> st
              | Some ct \<Rightarrow>
                  (let db = as_db st;
                       (db1, existing) = get_channel_by_id (ae_clock env) (ae_uid env) (directory_of (side db)) cid db;
                       n = count_materialized_unread (ae_uid env) cid ct db1
                   in emit [changed ''channel'' item (deleted item)]
                        (set_db (upsert_channel (ae_clock env) (channel_input env c item ct existing n) db1) st)))"

definition member_input ::
  "apply_env \<Rightarrow> channel_member_payload \<Rightarrow> json_item \<Rightarrow> u64 \<Rightarrow> int \<Rightarrow> u64 \<Rightarrow> upsert_channel_member_input" where
  "member_input env h item cid ct uid =
     \<lparr>ucm_channel_id = cid, ucm_channel_type = ct, ucm_member_uid = uid,
      ucm_member_name = pick [hp_member_name h, hp_name h] '''',
      ucm_member_remark = pick [hp_member_remark h, hp_remark h] '''',
      ucm_member_avatar = pick [hp_member_avatar h, hp_avatar h] '''',
      ucm_member_invite_uid = pick [hp_member_invite_uid h, hp_inviter_uid h] 0,
      ucm_role = pick [hp_role h] 0, ucm_status = pick [hp_status h] 0,
      ucm_is_deleted = pick [hp_is_deleted h] False, ucm_robot = pick [hp_robot h] 0,
      ucm_version = pick [hp_version h] (item_version_i64 item),
      ucm_created_at = pick [hp_created_at h] (ae_now env), ucm_updated_at = pick [hp_updated_at h] (ae_now env),
      ucm_extra = pick [hp_extra h] '''',
      ucm_forbidden_expiration_time = pick [hp_forbidden_expiration_time h] 0,
      ucm_member_avatar_cache_key = pick [hp_member_avatar_cache_key h] ''''\<rparr>"

definition trimmed :: "string option \<Rightarrow> string option" where
  "trimmed x = (case x of None \<Rightarrow> None | Some s \<Rightarrow> if trim s = '''' then None else Some (trim s))"

definition inferred_profile :: "channel_member_payload \<Rightarrow> json_item \<Rightarrow> u64 \<Rightarrow> upsert_user_input" where
  "inferred_profile h item uid =
     (let name = trimmed (first_some [hp_member_name h, hp_name h]); v = item_version_i64 item
      in \<lparr>uu_user_id = uid, uu_username = name, uu_nickname = name,
          uu_alias = trimmed (first_some [hp_member_remark h, hp_remark h]),
          uu_avatar = pick [hp_member_avatar h, hp_avatar h] '''', uu_user_type = 0, uu_is_deleted = False,
          uu_channel_id = '''', uu_version = v, uu_updated_at = pick [hp_updated_at h, hp_version h] v\<rparr>)"

definition apply_channel_member :: "apply_env \<Rightarrow> json_item \<Rightarrow> apply_state \<Rightarrow> apply_state" where
  "apply_channel_member env item st =
     (let h = decoded (pd_channel_member (ae_codecs env)) no_channel_member item;
          cid = pick [hp_channel_id h, first_id item] 0;
          uid = pick [hp_member_uid h, hp_user_id h, hp_uid h, second_id item] 0
      in if cid = 0 \<or> uid = 0 then st
         else case first_some [hp_channel_type h, hp_type_field h] of
                None \<Rightarrow> st
              | Some raw \<Rightarrow>
                  (let ct = one_if_zero raw in
                   if deleted item
                   then emit [changed ''channel_member'' item True] (on_side (delete_channel_member cid ct uid) st)
                   else
                     let st1 = on_side (upsert_channel_member (member_input env h item cid ct uid)) st;
                         u = inferred_profile h item uid;
                         st2 = (if uu_username u \<noteq> None \<or> uu_alias u \<noteq> None \<or> uu_avatar u \<noteq> ''''
                                then start_job [CacheAvatar uid (uu_avatar u)] (on_side (upsert_user u) st1)
                                else st1)
                     in emit [changed ''channel_member'' item False] st2))"

definition channel_extra_input ::
  "string option \<Rightarrow> channel_extra_payload \<Rightarrow> json_item \<Rightarrow> upsert_channel_extra_input" where
  "channel_extra_input sp x item =
     \<lparr>ue_channel_id = pick [xp_channel_id x, scope_id sp, id_of item] 0,
      ue_channel_type = one_if_zero (pick [Option.bind (first_some [xp_channel_type x, xp_type_field x]) as_i32,
                                           scope_type sp] 1),
      ue_browse_to = pick [xp_browse_to x] 0, ue_keep_pts = pick [xp_keep_pts x] 0,
      ue_keep_offset_y = pick [xp_keep_offset_y x] 0, ue_draft = pick [xp_draft x] '''',
      ue_draft_updated_at = pick [xp_draft_updated_at x] 0\<rparr>"

definition apply_channel_extra :: "apply_env \<Rightarrow> string option \<Rightarrow> json_item \<Rightarrow> apply_state \<Rightarrow> apply_state" where
  "apply_channel_extra env sp item st =
     (let u = channel_extra_input sp (decoded (pd_channel_extra (ae_codecs env)) no_channel_extra item) item
      in if ue_channel_id u = 0 then st
         else emit [changed ''channel_extra'' item (deleted item)]
                (set_db (upsert_channel_extra (ae_clock env) u (as_db st)) st))"

definition apply_channel_unread :: "json_item \<Rightarrow> apply_state \<Rightarrow> apply_state" where
  "apply_channel_unread item st = emit [changed ''channel_unread'' item (deleted item)] st"

text \<open>A cursor of this account moves its own reading position; a cursor of anybody else is the peer's.\<close>

definition apply_read_cursor :: "apply_env \<Rightarrow> string option \<Rightarrow> json_item \<Rightarrow> apply_state \<Rightarrow> apply_state" where
  "apply_read_cursor env sp item st =
     (let r = decoded (pd_read_cursor (ae_codecs env)) no_read_cursor item;
          me = (case parse_u64 (ae_uid env) of Some n \<Rightarrow> word_of_nat n | None \<Rightarrow> 0);
          cid = pick [rp_channel_id r, scope_id sp] 0;
          ct = one_if_zero (pick [rp_channel_type r, rp_type_field r, scope_type sp] 1);
          reader = pick [rp_reader_id r] me;
          pts = pick [rp_last_read_pts r] 0
      in if cid = 0 then st
         else emit [changed ''channel_read_cursor'' item (deleted item)]
           (if reader = me \<and> pts > 0
            then set_db (fst (project_channel_read_cursor (ae_commit env) (ae_clock env) (ae_uid env) cid ct pts (as_db st))) st
            else if pts > 0
            then emit [PeerReadPtsAdvanced cid ct reader pts] (set_db (save_peer_read_pts cid ct pts (as_db st)) st)
            else st))"

subsection \<open>Messages\<close>

text \<open>\<open>extract_mime_type_from_json\<close>: the content first, then the extra; each nested before flat.\<close>

definition mime_of :: "json option \<Rightarrow> string option" where
  "mime_of j =
     (case Option.bind (Option.bind j (\<lambda>v. json_get v ''mime_type'')) as_str_json of
        Some s \<Rightarrow> if s = '''' then None else Some s
      | None \<Rightarrow> None)"

definition extract_mime_type :: "(string \<Rightarrow> json option) \<Rightarrow> string \<Rightarrow> string \<Rightarrow> string option" where
  "extract_mime_type parse content extra =
     first_some (List.concat (map (\<lambda>src.
       if src = '''' then []
       else case parse src of
              None \<Rightarrow> []
            | Some v \<Rightarrow> [mime_of (json_get v ''metadata''), mime_of (Some v)]) [content, extra]))"

definition timeline_reason_for_message :: "bool \<Rightarrow> string" where
  "timeline_reason_for_message realtime = (if realtime then ''realtime_message'' else ''sync_entity'')"

definition message_server_id :: "message_payload \<Rightarrow> json_item \<Rightarrow> u64" where
  "message_server_id s item = pick [sp_server_message_id s, sp_message_id s, sp_id s, id_of item] 0"

definition message_channel :: "message_payload \<Rightarrow> string option \<Rightarrow> u64 \<times> int" where
  "message_channel s sp =
     (pick [sp_channel_id s, scope_id sp] 0,
      one_if_zero (pick [sp_channel_type s, sp_type_field s, sp_conversation_type s, scope_type sp] 1))"

definition message_author :: "message_payload \<Rightarrow> u64" where
  "message_author s = pick [sp_from_uid s, sp_sender_id s, sp_from s, sp_uid s] 0"

definition message_text :: "message_payload \<Rightarrow> string" where
  "message_text s = pick [sp_content s, sp_text s, sp_body s] ''''"

definition message_time :: "apply_env \<Rightarrow> message_payload \<Rightarrow> int" where
  "message_time env s = pick [sp_timestamp s, sp_created_at s, sp_send_time s] (ae_now env)"

definition message_kind :: "apply_env \<Rightarrow> message_payload \<Rightarrow> int" where
  "message_kind env s = pick [sp_message_type s] (pd_text_type (ae_codecs env))"

definition message_pts :: "message_payload \<Rightarrow> json_item \<Rightarrow> int" where
  "message_pts s item = pick [sp_pts s] (item_version_i64 item)"

definition message_input ::
  "apply_env \<Rightarrow> message_payload \<Rightarrow> string option \<Rightarrow> json_item \<Rightarrow> upsert_input" where
  "message_input env s sp item =
     (let (cid, ct) = message_channel s sp;
          c = from_sync_entity (message_server_id s item) (pick [sp_local_message_id s] 0) cid ct
                (message_author s) (message_kind env s) (message_text s) (pick [sp_extra s] '''')
                (message_pts s item) (message_time env s);
          mime = extract_mime_type (pd_parse (ae_codecs env)) (c_content c) (c_extra c)
      in (to_upsert_input c (pick [sp_status s] 2) mime)
           \<lparr>u_setting := pick [sp_setting s] 0,
            u_order_seq := pick [sp_order_seq s] (item_version_i64 item),
            u_searchable_word := pick [sp_searchable_word s] ''''\<rparr>)"

definition apply_revoked_message ::
  "apply_env \<Rightarrow> message_payload \<Rightarrow> json_item \<Rightarrow> apply_state \<Rightarrow> apply_state" where
  "apply_revoked_message env s item st =
     (let revoker = Option.bind (pd_parse (ae_codecs env) (message_text s)) (\<lambda>v. u64_field v [''revoked_by'', ''revoker'']);
          (db, found) = set_message_revoke_by_server_message_id (ae_clock env) (message_server_id s item) True revoker (as_db st)
      in emit ((case found of
                  Some m \<Rightarrow> [TimelineUpdated (sm_channel_id m) (sm_channel_type m) (sm_message_id m) ''sync_entity_deleted'']
                | None \<Rightarrow> []) @ [changed ''message'' item True])
           (set_db db st))"

text \<open>A message at or before the reading position is already read.\<close>

definition after_read_cursor :: "u64 \<Rightarrow> int \<Rightarrow> int \<Rightarrow> message_db \<Rightarrow> bool" where
  "after_read_cursor cid ct pts db \<longleftrightarrow>
     (case find_channel_extra (as_i64 cid) ct db of
        Some e \<Rightarrow> (if pts < 0 then 0 else as_u64 pts) > as_u64 (ce_keep_pts e)
      | None \<Rightarrow> True)"

definition written_by_me :: "apply_env \<Rightarrow> message_payload \<Rightarrow> bool" where
  "written_by_me env s \<longleftrightarrow> map_option word_of_nat (parse_u64 (ae_uid env)) = Some (message_author s)"

definition message_events ::
  "apply_env \<Rightarrow> bool \<Rightarrow> message_payload \<Rightarrow> string option \<Rightarrow> json_item \<Rightarrow> upsert_result \<Rightarrow> entity_event list" where
  "message_events env live s sp item r =
     (let (cid, ct) = message_channel s sp
      in (if r_inserted_new r
          then [changed ''message'' item False,
                TimelineUpdated cid ct (r_message_id r) (timeline_reason_for_message live)]
          else if pick [sp_local_message_id s] 0 > 0 \<or> written_by_me env s
          then [SendStatusChanged (r_message_id r) (pick [sp_status s] 2) (message_server_id s item)]
          else []))"

definition thumbnail_job ::
  "apply_env \<Rightarrow> message_payload \<Rightarrow> string option \<Rightarrow> u64 \<Rightarrow> apply_job list" where
  "thumbnail_job env s sp mid =
     (let (cid, ct) = message_channel s sp; ty = message_kind env s
      in if (ty = pd_image_type (ae_codecs env) \<or> ty = pd_video_type (ae_codecs env)) \<and> \<not> written_by_me env s
         then [DownloadThumbnail mid cid ct (message_time env s) (pick [sp_extra s] '''')]
         else [])"

definition apply_message ::
  "apply_env \<Rightarrow> bool \<Rightarrow> string option \<Rightarrow> json_item \<Rightarrow> apply_state \<Rightarrow> apply_state \<times> unit result" where
  "apply_message env live sp item st =
     (let s = decoded (pd_message (ae_codecs env)) no_message item;
          (cid, ct) = message_channel s sp
      in if message_server_id s item = 0 then (st, Inr ())
         else if deleted item then (apply_revoked_message env s item st, Inr ())
         else if cid = 0 then (st, Inr ())
         else case upsert_remote_message_with_result (ae_clock env) (ae_uid env) (message_input env s sp item) (as_db st) of
                (db, Inl e) \<Rightarrow> (set_db db st, Inl e)
              | (db, Inr r) \<Rightarrow>
                  (let bump = (live \<and> \<not> written_by_me env s \<and> r_inserted_new r \<and>
                               after_read_cursor cid ct (message_pts s item) db);
                       db2 = update_channel_last_message (ae_clock env) (ae_uid env) (Some (ae_uid env))
                               (directory_of (side db)) cid ct (message_text s) (message_time env s)
                               (r_message_id r) (Some (message_author s)) bump db
                   in (emit (message_events env live s sp item r)
                         (start_job (thumbnail_job env s sp (r_message_id r)) (set_db db2 st)), Inr ())))"

text \<open>What the families that hang on a message read first: the number the payload or the item names,
  the conversation, and the local id of that message, when the conversation is known and has it.\<close>

definition raw_message_id :: "json_item \<Rightarrow> u64" where
  "raw_message_id item = pick [u64_field (payload_of item) [''message_id'', ''server_message_id'', ''id''], id_of item] 0"

definition item_channel :: "string option \<Rightarrow> json_item \<Rightarrow> u64 \<times> int" where
  "item_channel sp item =
     (pick [u64_field (payload_of item) [''channel_id''], scope_id sp] 0,
      pick [parse_protocol_channel_type (payload_of item) [''channel_type'', ''type'', ''conversation_type''],
            scope_type sp] 1)"

definition local_or_raw :: "u64 \<Rightarrow> int \<Rightarrow> u64 \<Rightarrow> message_db \<Rightarrow> u64" where
  "local_or_raw cid ct raw db =
     (if cid > 0 then pick [get_message_id_by_server_message_id cid ct raw db] raw else raw)"

definition has_key :: "json \<Rightarrow> string list \<Rightarrow> bool" where
  "has_key p keys \<longleftrightarrow> list_ex (\<lambda>k. json_get p k \<noteq> None) keys"

definition extra_revoke :: "apply_env \<Rightarrow> json \<Rightarrow> u64 \<Rightarrow> message_db \<Rightarrow> message_db" where
  "extra_revoke env p mid db =
     (if has_key p [''revoke'', ''is_revoked'']
      then set_message_revoke (ae_clock env) mid (pick [json_get_bool p [''revoke'', ''is_revoked'']] False)
             (u64_field p [''revoker'', ''revoked_by'']) db
      else db)"

definition extra_edit :: "apply_env \<Rightarrow> json \<Rightarrow> u64 \<Rightarrow> message_db \<Rightarrow> message_db \<times> unit result" where
  "extra_edit env p mid db =
     (case json_str env p [''content_edit'', ''edited_content''] of
        Some content \<Rightarrow>
          edit_message (ae_clock env) mid content
            (pick [json_get_i32 p [''edited_at'']] (wrap_i32 (trunc_div (ae_now env) 1000))) db
      | None \<Rightarrow> (db, Inr ()))"

definition extra_pin :: "apply_env \<Rightarrow> json \<Rightarrow> u64 \<Rightarrow> message_db \<Rightarrow> message_db \<times> unit result" where
  "extra_pin env p mid db =
     (if has_key p [''is_pinned'', ''pinned'']
      then set_message_pinned (ae_clock env) mid (pick [json_get_bool p [''is_pinned'', ''pinned'']] False) db
      else (db, Inr ()))"

definition apply_message_extra ::
  "apply_env \<Rightarrow> string option \<Rightarrow> json_item \<Rightarrow> apply_state \<Rightarrow> apply_state \<times> unit result" where
  "apply_message_extra env sp item st =
     (let p = payload_of item; raw = raw_message_id item; (cid, ct) = item_channel sp item;
          mid = local_or_raw cid ct raw (as_db st)
      in if raw = 0 then (st, Inr ())
         else case extra_edit env p mid (extra_revoke env p mid (as_db st)) of
                (db, Inl e) \<Rightarrow> (set_db db st, Inl e)
              | (db, Inr _) \<Rightarrow>
                  (case extra_pin env p mid db of
                     (db2, Inl e) \<Rightarrow> (set_db db2 st, Inl e)
                   | (db2, Inr _) \<Rightarrow>
                       (emit ([changed ''message_extra'' item (deleted item)] @
                              (if cid > 0 then [TimelineUpdated cid ct mid ''message_extra_sync''] else []))
                          (set_db db2 st), Inr ())))"

definition apply_reaction :: "apply_env \<Rightarrow> string option \<Rightarrow> json_item \<Rightarrow> apply_state \<Rightarrow> apply_state" where
  "apply_reaction env sp item st =
     (let p = payload_of item; raw = raw_message_id item; (cid, ct) = item_channel sp item;
          mid = (if raw > 0 then local_or_raw cid ct raw (as_db st) else raw);
          uid = pick [u64_field p [''uid'', ''user_id'', ''sender_id'']] 0;
          emoji = pick [json_str env p [''emoji'']] ''''
      in if mid = 0 \<or> cid = 0 \<or> uid = 0 \<or> emoji = '''' then st
         else emit [changed ''message_reaction'' item (deleted item), TimelineUpdated cid ct mid ''reaction_sync'']
           (on_side (upsert_message_reaction
             \<lparr>ur_channel_id = cid, ur_channel_type = ct, ur_uid = uid,
              ur_name = pick [json_str env p [''name'', ''nickname'']] '''', ur_emoji = emoji, ur_message_id = mid,
              ur_seq = pick [json_get_i64 p [''seq'', ''version'']] (item_version_i64 item),
              ur_is_deleted = (deleted item \<or> pick [json_get_bool p [''deleted'', ''is_deleted'']] False),
              ur_created_at = pick [json_get_i64 p [''created_at'']] (ae_now env)\<rparr>) st))"

definition apply_mention :: "apply_env \<Rightarrow> string option \<Rightarrow> json_item \<Rightarrow> apply_state \<Rightarrow> apply_state" where
  "apply_mention env sp item st =
     (let p = payload_of item; mid = raw_message_id item; (cid, ct) = item_channel sp item;
          uid = pick [u64_field p [''mentioned_user_id'', ''uid'', ''user_id'']] 0
      in if mid = 0 \<or> cid = 0 \<or> uid = 0 then st
         else
           let st1 = on_side (record_mention
                 \<lparr>umn_message_id = mid, umn_channel_id = cid, umn_channel_type = ct, umn_mentioned_user_id = uid,
                  umn_sender_id = pick [u64_field p [''sender_id'', ''from_uid'', ''from'', ''operator_id'']] 0,
                  umn_is_mention_all = pick [json_get_bool p [''is_mention_all'']] False,
                  umn_created_at = pick [json_get_i64 p [''created_at'']] (ae_now env)\<rparr>) st;
               st2 = (if pick [json_get_bool p [''is_read'']] False then on_side (mark_mention_read mid uid) st1 else st1)
           in emit [changed ''mention'' item (deleted item), TimelineUpdated cid ct mid ''mention_sync''] st2)"

definition apply_reminder :: "apply_env \<Rightarrow> string option \<Rightarrow> json_item \<Rightarrow> apply_state \<Rightarrow> apply_state" where
  "apply_reminder env sp item st =
     (let p = payload_of item; v = item_version_i64 item; (cid, ct) = item_channel sp item;
          rid = pick [u64_field p [''reminder_id'', ''id''], id_of item] 0
      in if rid = 0 then st
         else
           let st1 = on_side (upsert_reminder
                 \<lparr>urm_reminder_id = rid, urm_message_id = pick [u64_field p [''message_id'', ''server_message_id'']] 0,
                  urm_pts = pick [json_get_i64 p [''pts'', ''version'']] v, urm_channel_id = cid, urm_channel_type = ct,
                  urm_uid = pick [u64_field p [''uid'', ''user_id'']] 0,
                  urm_type = pick [json_get_i32 p [''type'', ''reminder_type'']] 0,
                  urm_text = pick [json_str env p [''text'']] '''', urm_data = pick [json_str env p [''data'']] '''',
                  urm_is_locate = pick [json_get_bool p [''is_locate'']] False,
                  urm_version = pick [json_get_i64 p [''version'']] v,
                  urm_done = (deleted item \<or> pick [json_get_bool p [''done'']] False),
                  urm_need_upload = pick [json_get_bool p [''need_upload'']] False,
                  urm_publisher = u64_field p [''publisher'']\<rparr>) st;
               st2 = (if deleted item then on_side (mark_reminder_done rid True) st1 else st1)
           in emit [changed ''reminder'' item (deleted item)] st2)"

definition apply_message_status :: "apply_env \<Rightarrow> string option \<Rightarrow> json_item \<Rightarrow> apply_state \<Rightarrow> apply_state" where
  "apply_message_status env sp item st =
     (let t = decoded (pd_status (ae_codecs env)) no_status item;
          raw = pick [tp_message_id t, tp_server_message_id t, tp_id t, id_of item] 0;
          ct = one_if_zero (pick [tp_channel_type t, tp_type_field t, tp_conversation_type t, scope_type sp] 1);
          cid = pick [tp_channel_id t, scope_id sp] 0;
          mid = local_or_raw cid ct raw (as_db st)
      in if raw = 0 then st
         else emit [changed ''message_status'' item (deleted item)]
           (case tp_status t of
              Some v \<Rightarrow> emit [SendStatusChanged mid v raw]
                          (set_db (fst (update_message_status (ae_clock env) mid v (as_db st))) st)
            | None \<Rightarrow> st))"

subsection \<open>The match on the family\<close>

definition family_step :: "apply_env \<Rightarrow> bool \<Rightarrow> string \<Rightarrow> string option \<Rightarrow> item_step" where
  "family_step env live kind sp =
     (if kind = ''friend'' then infallible (apply_friend env)
      else if kind \<in> {''user_block'', ''blacklist'', ''user_mute''} then infallible (apply_block env kind)
      else if kind = ''group'' then infallible (apply_group env)
      else if kind = ''group_member'' then infallible (apply_group_member env sp)
      else if kind = ''channel'' then infallible (apply_channel env)
      else if kind = ''channel_member'' then infallible (apply_channel_member env)
      else if kind \<in> {''channel_extra'', ''channel_ext''} then infallible (apply_channel_extra env sp)
      else if kind \<in> {''channel_unread'', ''channel_unread_count''} then infallible apply_channel_unread
      else if kind = ''message'' then apply_message env live sp
      else if kind \<in> {''message_extra'', ''message_ext''} then apply_message_extra env sp
      else if kind \<in> {''message_reaction'', ''reaction''} then infallible (apply_reaction env sp)
      else if kind \<in> {''mention'', ''message_mention''} then infallible (apply_mention env sp)
      else if kind \<in> {''reminder'', ''message_reminder''} then infallible (apply_reminder env sp)
      else if kind \<in> {''message_status'', ''message_read_status''} then infallible (apply_message_status env sp)
      else if kind = ''channel_read_cursor'' then infallible (apply_read_cursor env sp)
      else infallible (\<lambda>_ st. st))"

definition run_family ::
  "apply_env \<Rightarrow> bool \<Rightarrow> string \<Rightarrow> string option \<Rightarrow> json_item list \<Rightarrow> apply_state \<Rightarrow> apply_state \<times> unit result" where
  "run_family env live kind sp its st =
     (if kind = ''user'' then apply_users env its st else for_items (family_step env live kind sp) its st)"

text \<open>\<open>apply_sync_entities\<close>: the database, the jobs started, and the events, which an error loses. The
  account of the statements is the user signed in.\<close>

definition apply_sync_entities ::
  "apply_env \<Rightarrow> string option \<Rightarrow> bool \<Rightarrow> string \<Rightarrow> string option \<Rightarrow> json_item list \<Rightarrow> message_db \<Rightarrow>
   message_db \<times> apply_job list \<times> entity_event list result" where
  "apply_sync_entities env current_uid live kind sp its db =
     (case current_uid of
        None \<Rightarrow> (db, [], Inl (InvalidState ''current user is not set; login/authenticate required''))
      | Some uid \<Rightarrow>
          (case run_family (env\<lparr>ae_uid := uid\<rparr>) live kind sp its \<lparr>as_db = db, as_events = [], as_jobs = []\<rparr> of
             (st, Inl e) \<Rightarrow> (as_db st, as_jobs st, Inl e)
           | (st, Inr _) \<Rightarrow> (as_db st, as_jobs st, Inr (as_events st))))"

subsection \<open>What leaves the side tables alone\<close>

lemma side_update_row [simp]: "side (update_row now u i db) = side db"
  by (simp add: update_row_def apply_remote_revoke_flag_def Let_def split: option.splits)

lemma side_insert_message [simp]: "side (insert_message r db) = side db"
  by (simp add: insert_message_def)

lemma side_revoke_flag [simp]: "side (apply_remote_revoke_flag now i u db) = side db"
  by (simp add: apply_remote_revoke_flag_def Let_def split: option.splits)

lemma side_upsert_remote [simp]: "side (fst (upsert_remote_message_with_result now uid u db)) = side db"
  by (simp add: upsert_remote_message_with_result_def upsert_one_def Let_def split: option.splits)

lemma side_revoke [simp]:
  "side (fst (set_message_revoke_by_server_message_id now sid b rv db)) = side db"
  "side (set_message_revoke now mid b rv db) = side db"
  by (simp_all add: set_message_revoke_by_server_message_id_def set_message_revoke_def Let_def split: option.splits)

lemma side_edits [simp]:
  "side (fst (edit_message now mid c e db)) = side db"
  "side (fst (set_message_pinned now mid b db)) = side db"
  "side (fst (update_message_status now mid v db)) = side db"
  by (simp_all add: edit_message_def set_message_pinned_def update_message_status_def update_existing_def
      update_message_def Let_def split: option.splits)

lemma side_set_unread [simp]: "side (set_unread now cid n db) = side db"
  by (simp add: set_unread_def)

lemma side_get_channel [simp]: "side (fst (get_channel_by_id now uid dir cid db)) = side db"
  by (simp add: get_channel_by_id_def resolve_channel_unread_on_read_def Let_def case_prod_beta split: option.splits)

lemma side_channel_ops [simp]:
  "side (upsert_channel now u db) = side db"
  "side (upsert_channel_extra now x db) = side db"
  "side (save_peer_read_pts cid ct pts db) = side db"
  by (simp_all add: upsert_channel_def upsert_channel_extra_def save_peer_read_pts_def Let_def)

lemma side_last_message [simp]:
  "side (update_channel_last_message now uid cu dir cid ct content ts mid from b db) = side db"
  by (simp add: update_channel_last_message_def Let_def case_prod_beta)

lemma side_project [simp]: "side (fst (project_channel_read_cursor commit now uid cid ct pos db)) = side db"
  by (simp add: project_channel_read_cursor_def in_tx_def Let_def split: option.splits)

subsection \<open>The batch state\<close>

lemma as_db_helpers [simp]:
  "as_db (on_side f st) = (as_db st)\<lparr>side := f (side (as_db st))\<rparr>"
  "as_db (set_db db st) = db" "as_db (emit evs st) = as_db st" "as_db (start_job js st) = as_db st"
  "as_events (on_side f st) = as_events st" "as_events (set_db db st) = as_events st"
  "as_events (emit evs st) = as_events st @ evs" "as_events (start_job js st) = as_events st"
  "as_jobs (on_side f st) = as_jobs st" "as_jobs (set_db db st) = as_jobs st"
  "as_jobs (emit evs st) = as_jobs st" "as_jobs (start_job js st) = as_jobs st @ js"
  by (simp_all add: on_side_def set_db_def emit_def start_job_def)

subsection \<open>Every family keeps the tables typed\<close>

text \<open>An item step that keeps a property of the database; the loop and the batch keep it too.\<close>

locale item_invariant =
  fixes I :: "message_db \<Rightarrow> bool" and step :: item_step
  assumes step_keeps: "I (as_db st) \<Longrightarrow> I (as_db (fst (step item st)))"
begin

lemma loop_keeps: "I (as_db st) \<Longrightarrow> I (as_db (fst (for_items step its st)))"
proof (induction its arbitrary: st)
  case (Cons item rest)
  then show ?case
    using step_keeps [of st item] by (cases "step item st") (auto split: sum.splits)
qed simp

end

abbreviation typed_db :: "message_db \<Rightarrow> bool" where "typed_db db \<equiv> tables_ok (side db)"

lemma typed_friend: "typed_db (as_db st) \<Longrightarrow> typed_db (as_db (apply_friend env item st))"
  by (simp add: apply_friend_def Let_def tables_ok_ops)

lemma typed_block: "typed_db (as_db st) \<Longrightarrow> typed_db (as_db (apply_block env kind item st))"
  by (simp add: apply_block_def Let_def tables_ok_ops)

lemma typed_users: "typed_db (as_db st) \<Longrightarrow> typed_db (as_db (fst (apply_users env its st)))"
  by (simp add: apply_users_def Let_def case_prod_beta batch_upsert_users_def in_tx_def tables_ok_ops split: option.splits)

lemma typed_group: "typed_db (as_db st) \<Longrightarrow> typed_db (as_db (apply_group env item st))"
  by (simp add: apply_group_def Let_def tables_ok_ops)

lemma typed_group_member: "typed_db (as_db st) \<Longrightarrow> typed_db (as_db (apply_group_member env sp item st))"
  by (simp add: apply_group_member_def Let_def tables_ok_ops)

lemma typed_channel: "typed_db (as_db st) \<Longrightarrow> typed_db (as_db (apply_channel env item st))"
  by (simp add: apply_channel_def Let_def case_prod_beta split: option.splits)

lemma typed_channel_member: "typed_db (as_db st) \<Longrightarrow> typed_db (as_db (apply_channel_member env item st))"
  by (simp add: apply_channel_member_def Let_def tables_ok_ops split: option.splits)

lemma typed_channel_extra: "typed_db (as_db st) \<Longrightarrow> typed_db (as_db (apply_channel_extra env sp item st))"
  by (simp add: apply_channel_extra_def Let_def)

lemma typed_read_cursor: "typed_db (as_db st) \<Longrightarrow> typed_db (as_db (apply_read_cursor env sp item st))"
  by (simp add: apply_read_cursor_def Let_def)

lemma typed_revoked: "typed_db (as_db st) \<Longrightarrow> typed_db (as_db (apply_revoked_message env s item st))"
  by (simp add: apply_revoked_message_def Let_def case_prod_beta)

lemma typed_upserted:
  "upsert_remote_message_with_result now uid u db = (db', r) \<Longrightarrow> typed_db db \<Longrightarrow> typed_db db'"
  using side_upsert_remote [of now uid u db] by simp

lemma typed_message: "typed_db (as_db st) \<Longrightarrow> typed_db (as_db (fst (apply_message env live sp item st)))"
  by (auto simp: apply_message_def Let_def case_prod_beta typed_revoked split: sum.splits dest: typed_upserted)

lemma side_extra_steps [simp]:
  "side (fst (extra_edit env p mid db)) = side db"
  "side (fst (extra_pin env p mid db)) = side db"
  "side (extra_revoke env p mid db) = side db"
  by (simp_all add: extra_edit_def extra_pin_def extra_revoke_def split: option.splits)

lemma typed_message_extra: "typed_db (as_db st) \<Longrightarrow> typed_db (as_db (fst (apply_message_extra env sp item st)))"
  by (simp add: apply_message_extra_def Let_def case_prod_beta split: sum.splits)

lemma typed_reaction: "typed_db (as_db st) \<Longrightarrow> typed_db (as_db (apply_reaction env sp item st))"
  by (simp add: apply_reaction_def Let_def case_prod_beta tables_ok_ops)

lemma typed_mention: "typed_db (as_db st) \<Longrightarrow> typed_db (as_db (apply_mention env sp item st))"
  by (simp add: apply_mention_def Let_def case_prod_beta tables_ok_ops)

lemma typed_reminder: "typed_db (as_db st) \<Longrightarrow> typed_db (as_db (apply_reminder env sp item st))"
  by (simp add: apply_reminder_def Let_def case_prod_beta tables_ok_ops)

lemma typed_message_status: "typed_db (as_db st) \<Longrightarrow> typed_db (as_db (apply_message_status env sp item st))"
  by (simp add: apply_message_status_def Let_def case_prod_beta split: option.splits)

lemmas typed_families = typed_friend typed_block typed_group typed_group_member typed_channel typed_channel_member
  typed_channel_extra typed_read_cursor typed_message typed_message_extra typed_reaction typed_mention typed_reminder
  typed_message_status

lemma typed_step: "typed_db (as_db st) \<Longrightarrow> typed_db (as_db (fst (family_step env live kind sp item st)))"
  unfolding family_step_def infallible_def apply_channel_unread_def
  by (simp add: typed_families)

interpretation typed: item_invariant typed_db "family_step env live kind sp" for env live kind sp
  by unfold_locales (rule typed_step)


text \<open>Decoders that find nothing, for the examples: every field comes from the item itself.\<close>

definition plain_codecs :: payload_codecs where
  "plain_codecs = \<lparr>pd_friend = (\<lambda>_. None), pd_group = (\<lambda>_. None), pd_group_member = (\<lambda>_. None),
     pd_channel = (\<lambda>_. None), pd_channel_member = (\<lambda>_. None), pd_channel_extra = (\<lambda>_. None),
     pd_message = (\<lambda>_. None), pd_status = (\<lambda>_. None), pd_read_cursor = (\<lambda>_. None),
     pd_print = (\<lambda>_. []), pd_parse = (\<lambda>_. None), pd_role = id, pd_text_type = 0, pd_image_type = 2,
     pd_video_type = 3\<rparr>"

definition plain_env :: apply_env where
  "plain_env = \<lparr>ae_codecs = plain_codecs, ae_uid = ''1'', ae_now = 50, ae_clock = 60, ae_commit = None\<rparr>"

definition plain_item :: "string \<Rightarrow> u64 \<Rightarrow> bool \<Rightarrow> json_item" where
  "plain_item i v gone = \<lparr>entity_id = i, item_version = v, deleted = gone, payload = None\<rparr>"

lemma id_of_7 [simp]: "parse_entity_id_u64 ''7'' = Some 7"
proof -
  have "parse_u64 (show_nat 7) = Some 7"
    unfolding parse_u64_def by (rule parse_unsigned_show) simp
  moreover have "show_nat 7 = ''7''"
    by code_simp
  ultimately show ?thesis
    by (simp add: parse_entity_id_u64_def)
qed


subsection \<open>Batches from the receive pipeline\<close>

text \<open>\<open>enqueue_and_apply_sync_items\<close> with this handler: its world is the database and the jobs started.
  A call gives the time, whether it is live, the family, the scope and the items.\<close>

type_synonym entity_world = "message_db \<times> apply_job list"
type_synonym entity_pipeline = "(entity_world, json, entity_event) sync_apply_state"

definition apply_batch ::
  "apply_env \<Rightarrow> string option \<Rightarrow> bool \<Rightarrow> entity_world \<Rightarrow> json sync_batch \<Rightarrow> entity_world \<times> entity_event list result" where
  "apply_batch env cu live w b =
     (case apply_sync_entities env cu live (entity_type b) (scope b) (items b) (fst w) of
        (db, js, r) \<Rightarrow> ((db, snd w @ js), r))"

record receive_call =
  rc_time :: int
  rc_live :: bool
  rc_family :: string
  rc_scope :: "string option"
  rc_items :: "json_item list"

definition receive_one ::
  "apply_env \<Rightarrow> string option \<Rightarrow> receive_call \<Rightarrow> entity_pipeline \<Rightarrow> (entity_pipeline \<times> nat result) option" where
  "receive_one env cu c st =
     enqueue_and_apply_sync_items (apply_batch (env\<lparr>ae_now := rc_time c, ae_clock := rc_time c\<rparr>) cu (rc_live c))
       (\<lambda>w _. w) st (rc_family c) (rc_scope c) (rc_items c)"

fun receive_calls ::
  "apply_env \<Rightarrow> string option \<Rightarrow> receive_call list \<Rightarrow> entity_pipeline \<Rightarrow> (entity_pipeline \<times> nat result list) option" where
  "receive_calls env cu [] st = Some (st, [])"
| "receive_calls env cu (c # cs) st =
     Option.bind (receive_one env cu c st) (\<lambda>(st', r).
       Option.bind (receive_calls env cu cs st') (\<lambda>(st'', rs). Some (st'', r # rs)))"

subsection \<open>An edit of a message that is not here\<close>

definition edits_unknown_message :: "apply_env \<Rightarrow> string option \<Rightarrow> json_item \<Rightarrow> message_db \<Rightarrow> bool" where
  "edits_unknown_message env sp item db \<longleftrightarrow>
     raw_message_id item \<noteq> 0 \<and> json_str env (payload_of item) [''content_edit'', ''edited_content''] \<noteq> None \<and>
     find (by_id (local_or_raw (fst (item_channel sp item)) (snd (item_channel sp item)) (raw_message_id item) db))
       (messages db) = None"

lemma edits_unknown_env [simp]:
  "edits_unknown_message (env\<lparr>ae_now := t, ae_clock := t\<rparr>) sp item db = edits_unknown_message env sp item db"
  "edits_unknown_message (env\<lparr>ae_uid := u\<rparr>) sp item db = edits_unknown_message env sp item db"
  by (simp_all add: edits_unknown_message_def json_str_def)

lemma edit_of_unknown_fails:
  assumes "edits_unknown_message env sp item (as_db st)"
  shows "\<exists>e. apply_message_extra env sp item st = (st, Inl e)"
proof -
  let ?mid = "local_or_raw (fst (item_channel sp item)) (snd (item_channel sp item)) (raw_message_id item) (as_db st)"
  have gone: "find (by_id ?mid) (messages (as_db st)) = None" and "raw_message_id item \<noteq> 0"
    using assms by (simp_all add: edits_unknown_message_def)
  then have "extra_revoke env (payload_of item) ?mid (as_db st) = as_db st"
    by (simp add: extra_revoke_def set_message_revoke_def)
  moreover have "\<exists>e. extra_edit env (payload_of item) ?mid (as_db st) = (as_db st, Inl e)"
    using assms gone by (auto simp: edits_unknown_message_def extra_edit_def edit_message_def)
  ultimately show ?thesis
    using \<open>raw_message_id item \<noteq> 0\<close> by (auto simp: apply_message_extra_def Let_def case_prod_beta set_db_def)
qed

text \<open>A batch that starts with such an edit does nothing and fails.\<close>

definition stuck_batch :: "apply_env \<Rightarrow> json sync_batch \<Rightarrow> message_db \<Rightarrow> bool" where
  "stuck_batch env b db \<longleftrightarrow> entity_type b \<in> {''message_extra'', ''message_ext''} \<and>
     (case items b of [] \<Rightarrow> False | item # _ \<Rightarrow> edits_unknown_message env (scope b) item db)"

lemma stuck_batch_fails:
  assumes "stuck_batch env b (fst w)"
  shows "\<exists>e. apply_batch (env\<lparr>ae_now := t, ae_clock := t\<rparr>) (Some uid) live w b = (w, Inl e)"
proof -
  obtain item rest where its: "items b = item # rest" and kind: "entity_type b \<in> {''message_extra'', ''message_ext''}"
    and bad: "edits_unknown_message env (scope b) item (fst w)"
    using assms by (auto simp: stuck_batch_def split: list.splits)
  define e1 where "e1 = env\<lparr>ae_now := t, ae_clock := t, ae_uid := uid\<rparr>"
  define st0 where "st0 = \<lparr>as_db = fst w, as_events = [], as_jobs = [] :: apply_job list\<rparr>"
  have "edits_unknown_message e1 (scope b) item (as_db st0)"
    using bad by (simp add: e1_def st0_def edits_unknown_message_def json_str_def)
  then obtain e where "apply_message_extra e1 (scope b) item st0 = (st0, Inl e)"
    using edit_of_unknown_fails by blast
  moreover have "family_step e1 live (entity_type b) (scope b) = apply_message_extra e1 (scope b)"
    using kind by (auto simp: family_step_def)
  moreover have "entity_type b \<noteq> ''user''"
    using kind by auto
  ultimately have "run_family e1 live (entity_type b) (scope b) (items b) st0 = (st0, Inl e)"
    by (simp add: run_family_def its)
  then show ?thesis
    by (simp add: apply_batch_def apply_sync_entities_def e1_def st0_def)
qed

lemma accept_items_queue: "accept_items et sc its p = (p', acc, d) \<Longrightarrow> queue p' = queue p"
  by (induction its arbitrary: p p' acc d) (auto simp: Let_def split: if_splits prod.splits)

lemma enqueue_queue: "enqueue p et sc its = (p', stats) \<Longrightarrow> \<exists>more. queue p' = queue p @ more"
  by (auto simp: enqueue_def dest: accept_items_queue split: prod.splits if_splits)

lemma stuck_pipeline_stays:
  assumes "queue (pipeline st) = [b]" and "stuck_batch env b (fst (world st))"
  shows "\<exists>st' e. receive_one env (Some uid) c st = Some (st', Inl e) \<and> world st' = world st \<and> queue (pipeline st') = [b]"
proof -
  obtain p1 stats where q: "enqueue (pipeline st) (rc_family c) (rc_scope c) (rc_items c) = (p1, stats)"
    by (metis surj_pair)
  obtain more where "queue p1 = b # more"
    using enqueue_queue [OF q] assms(1) by auto
  then show ?thesis
    using stuck_batch_fails [OF assms(2), of "rc_time c" uid "rc_live c"]
    by (auto simp: receive_one_def enqueue_and_apply_sync_items_def q drain_batches_eq Let_def requeue_front_def)
qed


lemma stuck_pipeline_forever:
  assumes "queue (pipeline st) = [b]" and "stuck_batch env b (fst (world st))"
  shows "\<exists>st' rs. receive_calls env (Some uid) cs st = Some (st', rs) \<and> world st' = world st \<and>
    queue (pipeline st') = [b] \<and> length rs = length cs \<and> list_all (\<lambda>r. \<exists>e. r = Inl e) rs"
  using assms
proof (induction cs arbitrary: st)
  case (Cons c cs)
  obtain st1 e where one: "receive_one env (Some uid) c st = Some (st1, Inl e)" "world st1 = world st"
    "queue (pipeline st1) = [b]"
    using stuck_pipeline_stays [OF Cons.prems] by blast
  then have "stuck_batch env b (fst (world st1))" using Cons.prems by simp
  with Cons.IH [of st1] one show ?case by auto
qed simp

text \<open>C35. One edit of a message this device does not have stops everything that is received: it arrives
  in an idle pipeline, its batch fails and goes back to the front of the queue, and from then on every
  call, of whatever family and whatever the items are (new messages included), fails on that same batch and
  changes nothing in the database, however many calls follow. (A revocation of an unknown message, by
  contrast, is applied as a no-op.)\<close>

theorem unknown_edit_stops_everything:
  assumes "queue (pipeline st) = []" and "rc_family first \<in> {''message_extra'', ''message_ext''}"
    and "rc_items first = [item]" and "dedupe_key (rc_family first) (rc_scope first) item \<notin> recent_keys (pipeline st)"
    and "edits_unknown_message env (rc_scope first) item (fst (world st))"
  shows "\<exists>st' rs. receive_calls env (Some uid) (first # later) st = Some (st', rs) \<and> world st' = world st \<and>
    length rs = Suc (length later) \<and> list_all (\<lambda>r. \<exists>e. r = Inl e) rs"
proof -
  define b where "b = \<lparr>entity_type = rc_family first, scope = rc_scope first, items = [item]\<rparr>"
  have stuck: "stuck_batch env b (fst (world st))"
    using assms(2,5) by (simp add: stuck_batch_def b_def)
  obtain p1 stats where q: "enqueue (pipeline st) (rc_family first) (rc_scope first) (rc_items first) = (p1, stats)"
    by (metis surj_pair)
  have "queue p1 = [b]"
    using q assms(1,3,4) by (auto simp: enqueue_def b_def Let_def)
  then obtain st1 e where "receive_one env (Some uid) first st = Some (st1, Inl e)" "world st1 = world st"
    "queue (pipeline st1) = [b]"
    using stuck_batch_fails [OF stuck, of "rc_time first" uid "rc_live first"]
    by (auto simp: receive_one_def enqueue_and_apply_sync_items_def q drain_batches_eq Let_def requeue_front_def)
  with stuck_pipeline_forever [of st1 b env uid later] stuck show ?thesis by auto
qed

definition unknown_edit_item :: json_item where
  "unknown_edit_item = \<lparr>entity_id = ''7'', item_version = 3, deleted = False,
     payload = Some (JObj [(''content_edit'', JStr ''hello'')])\<rparr>"

definition idle_receiver :: entity_pipeline where
  "idle_receiver = \<lparr>world = (empty_db, []), pipeline = default_pipeline, last_sync_queued = 0,
     last_sync_dropped_duplicates = 0, last_sync_entity_events = []\<rparr>"

theorem unknown_edit_stops_everything_witness:
  "\<exists>st' rs. receive_calls plain_env (Some ''1'')
     [\<lparr>rc_time = 1, rc_live = True, rc_family = ''message_extra'', rc_scope = None, rc_items = [unknown_edit_item]\<rparr>,
      \<lparr>rc_time = 2, rc_live = True, rc_family = ''user'', rc_scope = None, rc_items = [plain_item ''7'' 9 False]\<rparr>]
     idle_receiver = Some (st', rs) \<and> world st' = (empty_db, []) \<and> list_all (\<lambda>r. \<exists>e. r = Inl e) rs"
proof -
  have "edits_unknown_message plain_env None unknown_edit_item empty_db"
    by (simp add: edits_unknown_message_def unknown_edit_item_def raw_message_id_def payload_of_def u64_field_def pick_def
        id_of_def json_str_def empty_db_def)
  then have "\<exists>st' rs. receive_calls plain_env (Some ''1'')
     (\<lparr>rc_time = 1, rc_live = True, rc_family = ''message_extra'', rc_scope = None, rc_items = [unknown_edit_item]\<rparr> #
      [\<lparr>rc_time = 2, rc_live = True, rc_family = ''user'', rc_scope = None, rc_items = [plain_item ''7'' 9 False]\<rparr>])
     idle_receiver = Some (st', rs) \<and> world st' = world idle_receiver \<and>
       length rs = Suc (length [\<lparr>rc_time = 2, rc_live = True, rc_family = ''user'', rc_scope = None,
         rc_items = [plain_item ''7'' 9 False]\<rparr>]) \<and> list_all (\<lambda>r. \<exists>e. r = Inl e) rs"
    by (intro unknown_edit_stops_everything [where item = unknown_edit_item])
      (simp_all add: idle_receiver_def default_pipeline_def new_pipeline_def)
  then show ?thesis by (auto simp: idle_receiver_def)
qed

subsection \<open>A single item\<close>

lemma one_item:
  "kind \<noteq> ''user'' \<Longrightarrow> fst (apply_sync_entities env (Some uid) live kind sp [item] db) =
     as_db (fst (family_step (env\<lparr>ae_uid := uid\<rparr>) live kind sp item \<lparr>as_db = db, as_events = [], as_jobs = []\<rparr>))"
  by (auto simp: apply_sync_entities_def run_family_def split: prod.splits sum.splits)

subsection \<open>Friends and conversation titles\<close>

lemma find_user_directory:
  "find_user (directory_of s) i =
     map_option (\<lambda>r. \<lparr>us_user_id = pr_user_id r, us_username = pr_username r, us_nickname = pr_nickname r, us_alias = pr_alias r\<rparr>)
       (find (\<lambda>r. pr_user_id r = i) (sd_users s))"
proof -
  have "find P (map f xs) = map_option f (find (P \<circ> f) xs)" for P and f :: "profile_row \<Rightarrow> user_row" and xs
    by (induction xs) auto
  then show ?thesis by (simp add: find_user_def directory_of_def o_def)
qed

lemma find_upserted_user:
  "find (\<lambda>r. pr_user_id r = as_i64 (uu_user_id u)) (sd_users (upsert_user u s)) =
     Some (case find (\<lambda>r. pr_user_id r = as_i64 (uu_user_id u)) (sd_users s) of
             Some r \<Rightarrow> merged_user u r | None \<Rightarrow> inserted_user u)"
proof -
  have "pr_user_id (inserted_user u) = as_i64 (uu_user_id u)" "pr_user_id (merged_user u r) = pr_user_id r" for r
    by (simp_all add: inserted_user_def merged_user_def)
  then show ?thesis
    by (auto simp: upsert_user_def find_upsert_keyed split: option.split)
qed

lemma users_after_upsert_friend [simp]: "sd_users (upsert_friend u s) = sd_users s"
  by (simp add: upsert_friend_def)

lemma pick_cons [simp]: "pick (Some x # xs) d = x" "pick (None # xs) d = pick xs d" "pick [] d = d"
  by (simp_all add: pick_def)

text \<open>A friend item that carries the friend's profile names the conversation with that friend at once:
  unless a newer profile is stored, the title of every direct conversation with the friend is the nickname
  of the item when the item sets no alias, and the alias when it does. The item need not come with a
  profile of its own family.\<close>

theorem friend_item_names_conversation:
  assumes "pd_friend (ae_codecs env) (payload_of item) = Some f" and "fp_user f = Some u"
    and "eu_nickname u = Some name" and "name \<noteq> ''''"
    and "friend_target f item \<noteq> 0" and "\<not> deleted item"
    and "\<forall>r \<in> set (sd_users (side db)). pr_user_id r = as_i64 (friend_target f item) \<longrightarrow> pr_version r \<le> item_version_i64 item"
    and "peer_of c = Some (as_i64 (friend_target f item))"
  shows "direct_title (directory_of (side (fst (apply_sync_entities env (Some me) live ''friend'' sp [item] db)))) c =
    (case eu_alias u of Some a \<Rightarrow> if a = '''' then name else a | None \<Rightarrow> name)"
proof -
  let ?uid = "friend_target f item"
  let ?in = "embedded_profile u ?uid (item_version_i64 item)"
  let ?s1 = "upsert_friend (friend_input (env\<lparr>ae_uid := me\<rparr>) f item) (side db)"
  have side': "side (fst (apply_sync_entities env (Some me) live ''friend'' sp [item] db)) = upsert_user ?in ?s1"
    using assms(1-6) by (simp add: one_item family_step_def infallible_def apply_friend_def decoded_def Let_def
        has_embedded_user_def)
  have "find (\<lambda>r. pr_user_id r = as_i64 ?uid) (sd_users (upsert_user ?in ?s1)) =
      Some (case find (\<lambda>r. pr_user_id r = as_i64 ?uid) (sd_users (side db)) of
             Some r \<Rightarrow> merged_user ?in r | None \<Rightarrow> inserted_user ?in)"
    using find_upserted_user [of ?in ?s1] by (simp add: embedded_profile_def)
  moreover have "pr_version r \<le> item_version_i64 item"
    if "find (\<lambda>r. pr_user_id r = as_i64 ?uid) (sd_users (side db)) = Some r" for r
    using assms(7) that by (metis (mono_tags, lifting) find_Some_iff nth_mem)
  ultimately obtain r where found: "find (\<lambda>r. pr_user_id r = as_i64 ?uid) (sd_users (upsert_user ?in ?s1)) = Some r"
    and "pr_nickname r = Some name" "pr_alias r = eu_alias u"
    using assms(3) by (auto simp: inserted_user_def merged_user_def embedded_profile_def split: option.splits)
  moreover have "nullif_empty (Some x) = (if x = '''' then None else Some x)" for x
    by (cases x) auto
  ultimately show ?thesis
    using assms(4,8) by (simp add: side' direct_title_def find_user_directory user_display_name_def split: option.splits)
qed

subsection \<open>Reading position\<close>

lemma read_position_upsert_extra:
  "read_position (ue_channel_id u) (ue_channel_type u) (upsert_channel_extra now u db) = ue_keep_pts u"
proof -
  define f where "f = (\<lambda>e. e\<lparr>ce_browse_to := as_i64 (ue_browse_to u), ce_keep_pts := as_i64 (ue_keep_pts u),
      ce_keep_offset_y := ue_keep_offset_y u, ce_draft := ue_draft u, ce_version := now,
      ce_draft_updated_at := as_i64 (ue_draft_updated_at u)\<rparr> :: channel_extra_row)"
  define new where "new = f (blank_channel_extra (as_i64 (ue_channel_id u)) (ue_channel_type u))"
  have key: "extra_key new = (as_i64 (ue_channel_id u), ue_channel_type u)" and pos: "ce_keep_pts new = as_i64 (ue_keep_pts u)"
    by (simp_all add: extra_key_def blank_channel_extra_def new_def f_def)
  have "find (\<lambda>e. extra_key e = extra_key new) (upsert_on extra_key f new (channel_extras db)) =
     Some (case find (\<lambda>e. extra_key e = extra_key new) (channel_extras db) of None \<Rightarrow> new | Some old \<Rightarrow> f old)"
    using find_upsert_keyed [of extra_key new f "extra_key new" "channel_extras db"] by (simp add: f_def extra_key_def)
  then have "\<exists>e. find (\<lambda>e. extra_key e = extra_key new) (upsert_on extra_key f new (channel_extras db)) = Some e \<and>
      ce_keep_pts e = as_i64 (ue_keep_pts u)"
    using pos by (auto simp: f_def split: option.split)
  then show ?thesis
    by (auto simp: read_position_def find_channel_extra_key upsert_channel_extra_def Let_def f_def [symmetric]
        new_def [symmetric] key)
qed

text \<open>A draft synced from another device rewinds the reading position of this one. A channel-extra item
  is written over the whole row, and a field it does not carry is written as 0: after any such item
  without \<open>keep_pts\<close> (or with a payload that does not decode) the reading position is 0, however far this
  device had read.\<close>

theorem channel_extra_rewinds_reading:
  assumes "ue_channel_id (channel_extra_input sp (decoded (pd_channel_extra (ae_codecs env)) no_channel_extra item) item) \<noteq> 0"
  shows "let x = decoded (pd_channel_extra (ae_codecs env)) no_channel_extra item; u = channel_extra_input sp x item
    in read_position (ue_channel_id u) (ue_channel_type u)
        (fst (apply_sync_entities env (Some me) live ''channel_extra'' sp [item] db)) = pick [xp_keep_pts x] 0"
proof -
  define x where "x = decoded (pd_channel_extra (ae_codecs env)) no_channel_extra item"
  define u where "u = channel_extra_input sp x item"
  have "fst (apply_sync_entities env (Some me) live ''channel_extra'' sp [item] db) = upsert_channel_extra (ae_clock env) u db"
    using assms by (simp add: one_item family_step_def infallible_def apply_channel_extra_def x_def u_def Let_def)
  moreover have "ue_keep_pts u = pick [xp_keep_pts x] 0"
    by (simp add: u_def channel_extra_input_def)
  ultimately have "read_position (ue_channel_id u) (ue_channel_type u)
      (fst (apply_sync_entities env (Some me) live ''channel_extra'' sp [item] db)) = pick [xp_keep_pts x] 0"
    by (simp add: read_position_upsert_extra)
  then show ?thesis unfolding Let_def u_def x_def .
qed

lemma key_in_upsert:
  assumes "\<And>r. key r = key new \<Longrightarrow> key (upd r) = key new"
  shows "key new \<in> key ` set (upsert_on key upd new rs)"
proof -
  obtain x where "find (\<lambda>r. key r = key new) (upsert_on key upd new rs) = Some x"
    using find_upsert_keyed [of key new upd "key new" rs] assms by auto
  then show ?thesis by (metis (mono_tags, lifting) find_Some_iff image_eqI nth_mem)
qed

lemma blocked_after_upsert: "as_i64 (ub_user_id u) \<in> bl_user_id ` set (sd_blocked (upsert_blacklist_entry u s))"
  using key_in_upsert [of bl_user_id "\<lparr>bl_user_id = as_i64 (ub_user_id u), bl_created_at = ub_created_at u,
    bl_updated_at = ub_updated_at u\<rparr>" "\<lambda>_. \<lparr>bl_user_id = as_i64 (ub_user_id u), bl_created_at = ub_created_at u,
    bl_updated_at = ub_updated_at u\<rparr>" "sd_blocked s"]
  by (simp add: upsert_blacklist_entry_def Let_def)

lemma not_blocked_after_delete: "as_i64 i \<notin> bl_user_id ` set (sd_blocked (delete_blacklist_entry i s))"
  by (auto simp: delete_blacklist_entry_def)

text \<open>Muting a user blocks them: both families write the same table. After a mute item the user is in
  the blacklist, and after its tombstone they are not, even if they had been blocked.\<close>

theorem mute_is_a_block:
  assumes "pick [u64_field (payload_of item) [''blocked_user_id'', ''user_id'', ''uid''], id_of item] 0 = uid" and "uid \<noteq> 0"
  shows "(as_i64 uid \<in> bl_user_id ` set (sd_blocked (side
      (fst (apply_sync_entities env (Some me) live ''user_mute'' sp [item] db))))) = (\<not> deleted item)"
proof -
  have "side (fst (apply_sync_entities env (Some me) live ''user_mute'' sp [item] db)) =
      (if deleted item then delete_blacklist_entry uid (side db)
       else upsert_blacklist_entry \<lparr>ub_user_id = uid, ub_created_at = pick [json_get_i64 (payload_of item) [''created_at'']] (ae_now env),
         ub_updated_at = pick [json_get_i64 (payload_of item) [''updated_at'', ''version'']] (item_version_i64 item)\<rparr> (side db))"
    using assms by (simp add: one_item family_step_def infallible_def apply_block_def Let_def del: json_get_i64.simps)
  then show ?thesis
    using blocked_after_upsert [of "\<lparr>ub_user_id = uid, ub_created_at = pick [json_get_i64 (payload_of item) [''created_at'']] (ae_now env),
         ub_updated_at = pick [json_get_i64 (payload_of item) [''updated_at'', ''version'']] (item_version_i64 item)\<rparr>" "side db"]
      not_blocked_after_delete [of uid "side db"]
    by (simp del: json_get_i64.simps)
qed

subsection \<open>A conversation deleted on the server\<close>

definition shown :: "u64 \<Rightarrow> message_db \<Rightarrow> bool" where
  "shown cid db \<longleftrightarrow> list_ex (\<lambda>c. ch_channel_id c = as_i64 cid \<and> ch_is_deleted c = 0) (channels db)"

definition not_hidden :: "u64 \<Rightarrow> message_db \<Rightarrow> bool" where
  "not_hidden cid db \<longleftrightarrow> list_all (\<lambda>c. ch_channel_id c = as_i64 cid \<longrightarrow> ch_is_deleted c = 0) (channels db)"

lemma not_hidden_set_unread: "not_hidden cid db \<Longrightarrow> not_hidden cid (set_unread now i n db)"
  by (auto simp: not_hidden_def set_unread_def list_all_iff set_update_where)

lemma not_hidden_get: "not_hidden cid db \<Longrightarrow> not_hidden cid (fst (get_channel_by_id now uid dir i db))"
  by (simp add: get_channel_by_id_def resolve_channel_unread_on_read_def Let_def case_prod_beta not_hidden_set_unread
      split: option.splits)

lemma shown_upsert: "not_hidden (uc_channel_id u) db \<Longrightarrow> shown (uc_channel_id u) (upsert_channel now u db)"
proof -
  assume ok: "not_hidden (uc_channel_id u) db"
  let ?k = "as_i64 (uc_channel_id u)"
  have keys: "ch_channel_id (inserted_channel now u) = ?k" "ch_channel_id c = ?k \<Longrightarrow> ch_channel_id (merged_channel now u c) = ?k"
    and alive: "ch_is_deleted (inserted_channel now u) = 0"
    "ch_is_deleted c = 0 \<Longrightarrow> ch_is_deleted (merged_channel now u c) = 0" for c
    by (simp_all add: merged_channel_def inserted_channel_def)
  have "find (\<lambda>c. ch_channel_id c = ?k) (channels (upsert_channel now u db)) =
      Some (case find (\<lambda>c. ch_channel_id c = ?k) (channels db) of None \<Rightarrow> inserted_channel now u | Some c \<Rightarrow> merged_channel now u c)"
    using find_upsert_keyed [of ch_channel_id "inserted_channel now u" "merged_channel now u" ?k "channels db"] keys
    by (simp add: upsert_channel_def)
  moreover have "ch_is_deleted c = 0" if "find (\<lambda>c. ch_channel_id c = ?k) (channels db) = Some c" for c
    using ok that by (auto simp: not_hidden_def list_all_iff find_Some_iff)
  ultimately obtain c where "find (\<lambda>c. ch_channel_id c = ?k) (channels (upsert_channel now u db)) = Some c" "ch_is_deleted c = 0"
    using alive by (auto split: option.splits)
  then show ?thesis
    by (auto simp: shown_def list_ex_iff find_Some_iff)
qed

text \<open>A conversation deleted on the server stays in the list. The family writes the row of a deleted item
  like that of any other, as visible, while the event it reports says that the conversation is gone: a
  conversation this device never had even appears with its tombstone.\<close>

theorem deleted_channel_stays_listed:
  assumes "pd_channel (ae_codecs env) (payload_of item) = Some c" and "channel_target c item = cid" and "cid \<noteq> 0"
    and "channel_kind c item = Some ct" and "deleted item" and "not_hidden cid db"
  shows "shown cid (fst (apply_sync_entities env (Some me) live ''channel'' sp [item] db)) \<and>
    snd (snd (apply_sync_entities env (Some me) live ''channel'' sp [item] db)) =
      Inr [SyncEntityChanged ''channel'' (entity_id item) True]"
proof -
  have "shown cid (upsert_channel now (channel_input env' c item ct ex n) db')" if "not_hidden cid db'" for now env' ex n db'
    using shown_upsert [of "channel_input env' c item ct ex n" db' now] that assms(2)
    by (simp add: channel_input_def case_prod_beta Let_def)
  then show ?thesis
    using assms not_hidden_get [OF assms(6)]
    by (simp add: apply_sync_entities_def run_family_def family_step_def infallible_def apply_channel_def decoded_def
        case_prod_beta Let_def changed_def)
qed

subsection \<open>A message delivered twice\<close>

lemma messages_kept [simp]:
  "messages (set_unread now i n db) = messages db"
  "messages (fst (get_channel_by_id now uid dir cid db)) = messages db"
  "messages (upsert_channel now x db) = messages db"
  by (simp_all add: set_unread_def get_channel_by_id_def resolve_channel_unread_on_read_def Let_def case_prod_beta
      upsert_channel_def split: option.splits)

lemma messages_last_message [simp]:
  "messages (update_channel_last_message now uid cu dir cid ct content ts mid from b db) = messages db"
  by (simp add: update_channel_last_message_def Let_def case_prod_beta)

lemma ids_update_row: "m_id ` set (messages (update_row now u i db)) = m_id ` set (messages db)"
proof -
  have "map m_id (update_where (\<lambda>r. m_id r = i) (updated_row now u) (messages db)) = map m_id (messages db)"
    by (rule map_update_where) (simp add: updated_row_def Let_def case_prod_beta)
  then show ?thesis
    by (simp add: update_row_def apply_remote_revoke_flag_def flip: set_map)
qed

lemma known_message_adds_nothing:
  assumes "list_ex (by_server_id (u_server_message_id u)) (messages db)" and "u_server_message_id u \<noteq> 0"
  shows "\<exists>r. snd (upsert_remote_message_with_result now uid u db) = Inr r \<and> \<not> r_inserted_new r \<and>
    m_id ` set (messages (fst (upsert_remote_message_with_result now uid u db))) \<subseteq> m_id ` set (messages db)"
proof -
  obtain r where "find (by_server_id (u_server_message_id u)) (messages db) = Some r"
    using assms(1) by (metis find_None_iff list_ex_iff not_None_eq)
  then show ?thesis
    using assms(2) by (auto simp: upsert_remote_message_with_result_def upsert_one_def Let_def ids_update_row
        set_delete_where split: option.splits)
qed

text \<open>A message the database already has is not announced again. Applying its item another time, live or
  from a repair, adds no row to the messages and reports neither a new message nor a change of the
  timeline: at most the send status of the message, and that only for a message of this account or one
  that names a local id.\<close>

theorem known_message_is_not_announced:
  assumes "pd_message (ae_codecs env) (payload_of item) = Some s" and "message_server_id s item \<noteq> 0" and "\<not> deleted item"
    and "fst (message_channel s sp) \<noteq> 0"
    and "list_ex (by_server_id (message_server_id s item)) (messages db)"
  shows "case apply_sync_entities env (Some me) live ''message'' sp [item] db of (db', jobs, r) \<Rightarrow>
    m_id ` set (messages db') \<subseteq> m_id ` set (messages db) \<and>
    (\<exists>mid. r = Inr (if pick [sp_local_message_id s] 0 > 0 \<or> parse_u64 me = Some (unat (message_author s))
                    then [SendStatusChanged mid (pick [sp_status s] 2) (message_server_id s item)] else []))"
proof -
  define e where "e = env\<lparr>ae_uid := me\<rparr>"
  have sid: "u_server_message_id (message_input e s sp item) = message_server_id s item"
    by (simp add: message_input_def case_prod_beta Let_def to_upsert_input_def from_sync_entity_def)
  obtain db1 r where up: "upsert_remote_message_with_result (ae_clock e) me (message_input e s sp item) db = (db1, Inr r)"
    and r: "\<not> r_inserted_new r" "m_id ` set (messages db1) \<subseteq> m_id ` set (messages db)"
    using known_message_adds_nothing [of "message_input e s sp item" db "ae_clock e" me] assms(2,5)
    by (metis sid prod.collapse)
  have mine: "written_by_me e s \<longleftrightarrow> parse_u64 me = Some (unat (message_author s))"
  proof -
    have "n < 2 ^ 64" if "parse_u64 me = Some n" for n
      using that by (simp add: parse_u64_def parse_unsigned_bound)
    then have "(word_of_nat n = message_author s) = (n = unat (message_author s))" if "parse_u64 me = Some n" for n
      using that by (simp add: word_unat_eq_iff unsigned_of_nat take_bit_nat_eq_self)
    then show ?thesis by (auto simp: written_by_me_def e_def)
  qed
  show ?thesis
    using assms(1-4) up r mine
    by (auto simp: apply_sync_entities_def run_family_def family_step_def apply_message_def decoded_def case_prod_beta
        Let_def message_events_def e_def)
qed

subsection \<open>Examples\<close>

definition friend_codecs :: payload_codecs where
  "friend_codecs = plain_codecs\<lparr>pd_friend := (\<lambda>_. Some (no_friend\<lparr>fp_user := Some (no_embedded\<lparr>eu_nickname := Some ''bo''\<rparr>)\<rparr>)),
     pd_channel := (\<lambda>_. Some (no_channel\<lparr>cp_channel_type := Some 2\<rparr>)),
     pd_message := (\<lambda>_. Some (no_message\<lparr>sp_channel_id := Some 4, sp_channel_type := Some 1\<rparr>))\<rparr>"

definition friend_env :: apply_env where "friend_env = plain_env\<lparr>ae_codecs := friend_codecs\<rparr>"

definition direct_row :: channel_row where
  "direct_row = inserted_channel 0
     \<lparr>uc_channel_id = 4, uc_channel_type = 1, uc_channel_name = ''7'', uc_channel_remark = [], uc_avatar = [],
      uc_unread_count = 0, uc_top = 0, uc_mute = 0, uc_last_msg_timestamp = 0, uc_last_local_message_id = 0,
      uc_last_msg_content = [], uc_version = 0, uc_peer_user_id = Some 7\<rparr>"

theorem friend_item_names_conversation_witness:
  "direct_title (directory_of (side (fst (apply_sync_entities friend_env (Some ''1'') False ''friend'' None
     [plain_item ''7'' 3 False] empty_db)))) direct_row = ''bo''"
  by (subst friend_item_names_conversation [where f = "no_friend\<lparr>fp_user := Some (no_embedded\<lparr>eu_nickname := Some ''bo''\<rparr>)\<rparr>"
        and u = "no_embedded\<lparr>eu_nickname := Some ''bo''\<rparr>" and name = "''bo''"])
    (simp_all add: friend_env_def friend_codecs_def no_friend_def no_embedded_def friend_target_def id_of_def plain_item_def
      empty_db_def empty_side_def direct_row_def inserted_channel_def peer_of_def)

theorem channel_extra_rewinds_reading_witness:
  "read_position 7 1 (upsert_channel_extra 0 \<lparr>ue_channel_id = 7, ue_channel_type = 1, ue_browse_to = 9, ue_keep_pts = 9,
       ue_keep_offset_y = 0, ue_draft = [], ue_draft_updated_at = 0\<rparr> empty_db) = 9 \<and>
   read_position 7 1 (fst (apply_sync_entities plain_env (Some ''1'') False ''channel_extra'' None [plain_item ''7'' 3 False]
     (upsert_channel_extra 0 \<lparr>ue_channel_id = 7, ue_channel_type = 1, ue_browse_to = 9, ue_keep_pts = 9,
       ue_keep_offset_y = 0, ue_draft = [], ue_draft_updated_at = 0\<rparr> empty_db))) = 0"
proof
  show "read_position 7 1 (upsert_channel_extra 0 \<lparr>ue_channel_id = 7, ue_channel_type = 1, ue_browse_to = 9, ue_keep_pts = 9,
       ue_keep_offset_y = 0, ue_draft = [], ue_draft_updated_at = 0\<rparr> empty_db) = 9"
    using read_position_upsert_extra [of "\<lparr>ue_channel_id = 7, ue_channel_type = 1, ue_browse_to = 9, ue_keep_pts = 9,
       ue_keep_offset_y = 0, ue_draft = [], ue_draft_updated_at = 0\<rparr>"] by simp
next
  let ?db = "upsert_channel_extra 0 \<lparr>ue_channel_id = 7, ue_channel_type = 1, ue_browse_to = 9, ue_keep_pts = 9,
       ue_keep_offset_y = 0, ue_draft = [], ue_draft_updated_at = 0\<rparr> empty_db"
  have "ue_channel_id (channel_extra_input None (decoded (pd_channel_extra (ae_codecs plain_env)) no_channel_extra
      (plain_item ''7'' 3 False)) (plain_item ''7'' 3 False)) \<noteq> 0"
    by (simp add: channel_extra_input_def decoded_def plain_env_def plain_codecs_def no_channel_extra_def scope_id_def
        parse_channel_scope_def id_of_def plain_item_def)
  from channel_extra_rewinds_reading [OF this, of "''1''" False ?db]
  show "read_position 7 1 (fst (apply_sync_entities plain_env (Some ''1'') False ''channel_extra'' None [plain_item ''7'' 3 False] ?db)) = 0"
    by (simp add: channel_extra_input_def decoded_def plain_env_def plain_codecs_def no_channel_extra_def scope_id_def
        scope_type_def parse_channel_scope_def id_of_def plain_item_def Let_def one_if_zero_def)
qed

theorem mute_is_a_block_witness:
  "7 \<in> bl_user_id ` set (sd_blocked (side
      (fst (apply_sync_entities plain_env (Some ''1'') False ''user_mute'' None [plain_item ''7'' 3 False] empty_db))))"
  using mute_is_a_block [of "plain_item ''7'' 3 False" 7 plain_env "''1''" False None empty_db]
  by (simp add: u64_field_def payload_of_def plain_item_def id_of_def as_i64_def)

theorem deleted_channel_stays_listed_witness:
  "shown 7 (fst (apply_sync_entities friend_env (Some ''1'') False ''channel'' None [plain_item ''7'' 3 True] empty_db))"
  using deleted_channel_stays_listed [of friend_env "plain_item ''7'' 3 True" "no_channel\<lparr>cp_channel_type := Some 2\<rparr>" 7 2
      empty_db "''1''" False None]
  by (simp add: friend_env_def friend_codecs_def channel_target_def no_channel_def u64_field_def payload_of_def plain_item_def
      id_of_def channel_kind_def as_i32_def not_hidden_def empty_db_def)

definition known_db :: message_db where
  "known_db = insert_message (remote_row 1 0 (example_input 7 3 ''hello'')) empty_db"

theorem known_message_is_not_announced_witness:
  "case apply_sync_entities friend_env (Some ''1'') True ''message'' None [plain_item ''7'' 3 False] known_db of
     (db', jobs, r) \<Rightarrow> m_id ` set (messages db') \<subseteq> {1} \<and> r = Inr []"
proof -
  let ?s = "no_message\<lparr>sp_channel_id := Some 4, sp_channel_type := Some 1\<rparr>"
  have one: "parse_u64 ''1'' = Some 1"
  proof -
    have "parse_u64 (show_nat 1) = Some 1" unfolding parse_u64_def by (rule parse_unsigned_show) simp
    moreover have "show_nat 1 = ''1''" by code_simp
    ultimately show ?thesis by simp
  qed
  have facts: "message_server_id ?s (plain_item ''7'' 3 False) = 7" "message_author ?s = 0" "sp_local_message_id ?s = None"
    "fst (message_channel ?s None) = 4" "pd_message (ae_codecs friend_env) p = Some ?s" "\<not> deleted (plain_item ''7'' 3 False)" for p
    by (simp_all add: no_message_def message_server_id_def plain_item_def id_of_def message_author_def message_channel_def
        friend_env_def friend_codecs_def)
  have known: "list_ex (by_server_id 7) (messages known_db)" "m_id ` set (messages known_db) = {1}"
    by (simp_all add: known_db_def insert_message_def remote_row_def example_input_def to_upsert_input_def from_push_def
        by_server_id_def empty_db_def Let_def)
  show ?thesis
    using known_message_is_not_announced [of friend_env "plain_item ''7'' 3 False" ?s None known_db "''1''" True]
    by (simp add: facts known one case_prod_beta)
qed

end
