(* ===== verification/Entity_Sync.thy ===== *)
theory Entity_Sync
  imports Timeline_Sync Directory_Store Sync_Coordinator
begin

text \<open>
  The entity families of \<open>lib.rs\<close>: \<open>sync_entities\<close>, which pages through a family from its saved cursor and
  applies what it fetched, and the runs made of it: \<open>sync_channel\<close>, \<open>sync_all_channels\<close>, the resume run
  \<open>execute_resume_sync\<close> with its failure handling, and the bootstrap run \<open>execute_bootstrap_sync\<close>. The
  state is that of \<open>Timeline_Sync\<close>; a request is numbered by the calls made before it, and the server
  answers a page from that number, the family, the scope and the version asked for. A scope is
  assumed free of characters that the debug format escapes.
\<close>

subsection \<open>The setting\<close>

record 'p entities_page =
  pg_items :: "'p sync_entity_item list"
  pg_next_version :: u64
  pg_has_more :: bool
  pg_min_version :: "u64 option"

record 'p entity_server =
  es_pages :: "nat \<Rightarrow> string \<Rightarrow> string option \<Rightarrow> u64 \<Rightarrow> 'p entities_page rpc_answer"
  es_ready :: "nat \<Rightarrow> bool rpc_answer"
  es_flag_fault :: "nat \<Rightarrow> sdk_error option"

record ('p, 'ev) sync_setup =
  su_codec :: "'p codec"
  su_apply :: "('p, 'ev) applier"
  su_env :: "nat \<Rightarrow> sync_answers"
  su_server :: "'p entity_server"
  su_payload :: "resume_failure_class \<Rightarrow> string \<Rightarrow> int \<Rightarrow> string"

definition calls :: "('p, 'ev) timeline_state \<Rightarrow> nat" where "calls st = w_calls (world st)"

subsection \<open>Keys\<close>

definition sync_version_key :: "string \<Rightarrow> string option \<Rightarrow> string" where
  "sync_version_key et sp = ''__sync_version__:'' @ et @ '':'' @ (case sp of None \<Rightarrow> ''*'' | Some s \<Rightarrow> s)"

definition resume_repair_channel_key :: "u64 \<Rightarrow> int \<Rightarrow> string" where
  "resume_repair_channel_key cid ct = ''__resume_repair__:channel:'' @ show_int ct @ '':'' @ show_u64 cid"

definition resume_repair_entity_key :: "string \<Rightarrow> string" where
  "resume_repair_entity_key et = ''__resume_repair__:entity:'' @ et"

definition resume_repair_full_rebuild_key :: string where
  "resume_repair_full_rebuild_key = ''__resume_repair__:full_rebuild''"

definition load_sync_since_version :: "string \<Rightarrow> string option \<Rightarrow> ('p, 'ev) timeline_state \<Rightarrow> u64 option" where
  "load_sync_since_version et sp st =
     (case w_kv (world st) (sync_version_key et sp) of
        None \<Rightarrow> None
      | Some text \<Rightarrow> map_option word_of_nat (parse_u64 (trim text)))"

definition save_sync_next_version ::
  "('p, 'ev) sync_setup \<Rightarrow> string \<Rightarrow> string option \<Rightarrow> u64 \<Rightarrow> ('p, 'ev) timeline_state \<Rightarrow>
   ('p, 'ev) timeline_state \<times> unit result" where
  "save_sync_next_version su et sp v = kv_put (su_env su) (sync_version_key et sp) (show_u64 v)"

definition kv_delete ::
  "('p, 'ev) sync_setup \<Rightarrow> string \<Rightarrow> ('p, 'ev) timeline_state \<Rightarrow> ('p, 'ev) timeline_state \<times> unit result" where
  "kv_delete su key st =
     (case sa_kv_fault (answers_to (su_env su) st) of
        Some e \<Rightarrow> (on_world (\<lambda>w. w\<lparr>w_calls := w_calls w + 1\<rparr>) st, Inl (Storage (''sled kv delete: '' @ e)))
      | None \<Rightarrow> (on_world (\<lambda>w. w\<lparr>w_kv := (w_kv w)(key := None), w_calls := w_calls w + 1\<rparr>) st, Inr ()))"

definition clear_resume_repair_key :: "('p, 'ev) sync_setup \<Rightarrow> string \<Rightarrow> ('p, 'ev) timeline_state \<Rightarrow> ('p, 'ev) timeline_state" where
  "clear_resume_repair_key su key st = fst (kv_delete su key st)"

definition should_persist_sync_cursor :: "string \<Rightarrow> string option \<Rightarrow> bool" where
  "should_persist_sync_cursor et sp \<longleftrightarrow> sp = None \<or> et \<notin> {''user'', ''group'', ''channel''}"

subsection \<open>One family\<close>

definition show_scope :: "string option \<Rightarrow> string" where
  "show_scope sp = (case sp of None \<Rightarrow> ''None'' | Some s \<Rightarrow> ''Some('' @ [CHR 0x22] @ s @ [CHR 0x22] @ '')'')"

definition entities_op :: "string \<Rightarrow> string option \<Rightarrow> u64 \<Rightarrow> string" where
  "entities_op et sp since =
     ''sync_entities entity_type='' @ et @ '' scope='' @ show_scope sp @ '' since_version='' @ show_u64 since"

definition paging_exceeded :: sdk_error where
  "paging_exceeded = InvalidState ''sync_entities exceeded max paging iterations''"

definition paging_stalled :: "string \<Rightarrow> string option \<Rightarrow> u64 \<Rightarrow> u64 \<Rightarrow> sdk_error" where
  "paging_stalled et sp since next_version =
     InvalidState (''sync_entities paging stalled: entity_type='' @ et @ '' scope='' @ show_scope sp @
       '' since='' @ show_u64 since @ '' next='' @ show_u64 next_version)"

definition too_old :: "'p entities_page \<Rightarrow> u64 \<Rightarrow> bool" where
  "too_old page since \<longleftrightarrow> (case pg_min_version page of Some m \<Rightarrow> since < m \<and> since > 0 | None \<Rightarrow> False)"

text \<open>The loop over the pages; the first number counts the pages it may still fetch. A restart from
  version 0, at most one, uses up a page too.\<close>

fun entity_pages ::
  "('p, 'ev) sync_setup \<Rightarrow> string \<Rightarrow> string option \<Rightarrow> nat \<Rightarrow> bool \<Rightarrow> u64 \<Rightarrow> nat \<Rightarrow> nat \<Rightarrow> ('p, 'ev) timeline_state \<Rightarrow>
   ('p, 'ev) timeline_state \<times> (u64 \<times> nat \<times> nat) result" where
  "entity_pages su et sp 0 restarted since queued dropped st = (st, Inl paging_exceeded)"
| "entity_pages su et sp (Suc n) restarted since queued dropped st =
     (let st1 = ask (SyncEntities et sp since) st
      in case rpc_result (co_codes (su_codec su)) (entities_op et sp since) (es_pages (su_server su) (calls st) et sp since) of
           Inl e \<Rightarrow> (st1, Inl e)
         | Inr page \<Rightarrow>
             if too_old page since \<and> \<not> restarted then entity_pages su et sp n True 0 0 0 st1
             else
               (case enqueue (pipeline st1) et sp (pg_items page) of
                  (p, stats) \<Rightarrow>
                    (let st2 = st1\<lparr>pipeline := p\<rparr>;
                         queued2 = queued + queued_items stats; dropped2 = dropped + dropped_duplicates stats
                     in if \<not> pg_has_more page then (st2, Inr (pg_next_version page, queued2, dropped2))
                        else if pg_next_version page \<le> since
                        then (st2, Inl (paging_stalled et sp since (pg_next_version page)))
                        else entity_pages su et sp n restarted (pg_next_version page) queued2 dropped2 st2)))"

definition MAX_PAGES :: nat where "MAX_PAGES = 64"

text \<open>What is in the pipeline is applied, in order; a batch that fails goes back and ends the run.\<close>

definition apply_pending ::
  "('p, 'ev) sync_setup \<Rightarrow> ('p, 'ev) timeline_state \<Rightarrow> ('p, 'ev) timeline_state \<times> (nat \<times> 'ev list) result" where
  "apply_pending su st =
     (case drain_batches (pipeline st) of
        None \<Rightarrow> (st, Inl ActorClosed)
      | Some (bs, p) \<Rightarrow>
          (case apply_batches (on_db (su_apply su)) bs (world st) p [] 0 of
             (w, p2, r) \<Rightarrow> (st\<lparr>world := w, pipeline := p2\<rparr>, r)))"

definition start_version :: "string \<Rightarrow> string option \<Rightarrow> ('p, 'ev) timeline_state \<Rightarrow> u64" where
  "start_version et sp st =
     (if should_persist_sync_cursor et sp
      then (case load_sync_since_version et sp st of Some v \<Rightarrow> v | None \<Rightarrow> 0) else 0)"

definition sync_entities ::
  "('p, 'ev) sync_setup \<Rightarrow> string \<Rightarrow> string option \<Rightarrow> ('p, 'ev) timeline_state \<Rightarrow> ('p, 'ev) timeline_state \<times> nat result" where
  "sync_entities su et sp st =
     (let st0 = st\<lparr>last_sync_entity_events := []\<rparr>
      in case entity_pages su et sp MAX_PAGES False (start_version et sp st0) 0 0 st0 of
           (st1, Inl e) \<Rightarrow> (st1, Inl e)
         | (st1, Inr (next_version, queued, dropped)) \<Rightarrow>
             (case apply_pending su st1 of
                (st2, Inl e) \<Rightarrow> (st2, Inl e)
              | (st2, Inr (applied, evs)) \<Rightarrow>
                  (case (if should_persist_sync_cursor et sp then save_sync_next_version su et sp next_version st2
                         else (st2, Inr ())) of
                     (st3, Inl e) \<Rightarrow> (st3, Inl e)
                   | (st3, Inr _) \<Rightarrow>
                       (let st4 = st3\<lparr>last_sync_queued := queued, last_sync_dropped_duplicates := dropped,
                                     last_sync_entity_events := evs\<rparr>
                        in (if sp = None then clear_resume_repair_key su (resume_repair_entity_key et) st4 else st4,
                            Inr applied)))))"

text \<open>A family the server does not know is skipped.\<close>

definition sync_if_supported ::
  "('p, 'ev) sync_setup \<Rightarrow> string \<Rightarrow> string option \<Rightarrow> ('p, 'ev) timeline_state \<Rightarrow> ('p, 'ev) timeline_state \<times> nat result" where
  "sync_if_supported su et sp st =
     (case sync_entities su et sp st of
        (st1, Inl e) \<Rightarrow> (st1, if is_unsupported_entity_error e then Inr 0 else Inl e)
      | r \<Rightarrow> r)"

definition send_session_ready ::
  "('p, 'ev) sync_setup \<Rightarrow> ('p, 'ev) timeline_state \<Rightarrow> ('p, 'ev) timeline_state \<times> unit result" where
  "send_session_ready su st =
     (ask SessionReadyCall st,
      case rpc_result (co_codes (su_codec su)) ''session_ready'' (es_ready (su_server su) (calls st)) of
        Inl e \<Rightarrow> Inl e
      | Inr ok \<Rightarrow> (if ok then Inr () else Inl (InvalidState ''session_ready rejected by server'')))"

subsection \<open>Runs over several families\<close>

text \<open>\<open>?\<close>: the next step runs if the one before succeeded, and the counts add up.\<close>

definition and_then ::
  "('s \<Rightarrow> 's \<times> nat result) \<Rightarrow> ('s \<Rightarrow> 's \<times> nat result) \<Rightarrow> 's \<Rightarrow> 's \<times> nat result" where
  "and_then f g st =
     (case f st of
        (st1, Inl e) \<Rightarrow> (st1, Inl e)
      | (st1, Inr n) \<Rightarrow> (case g st1 of (st2, Inl e) \<Rightarrow> (st2, Inl e) | (st2, Inr m) \<Rightarrow> (st2, Inr (n + m))))"

definition sync_channel ::
  "('p, 'ev) sync_setup \<Rightarrow> u64 \<Rightarrow> int \<Rightarrow> ('p, 'ev) timeline_state \<Rightarrow> ('p, 'ev) timeline_state \<times> nat result" where
  "sync_channel su cid ct st =
     (case and_then (sync_entities su ''channel'' (channel_scope cid ct))
            (and_then (sync_if_supported su ''channel_read_cursor'' (channel_scope cid ct))
              (and_then (resume_channel_difference (su_codec su) (su_apply su) (su_env su) cid ct)
                (if ct = 2 then sync_if_supported su ''group_member'' (Some (show_u64 cid)) else (\<lambda>s. (s, Inr 0))))) st of
        (st1, Inl e) \<Rightarrow> (st1, Inl e)
      | (st1, Inr n) \<Rightarrow> (clear_resume_repair_key su (resume_repair_channel_key cid ct) st1, Inr n))"

fun sync_members_of ::
  "('p, 'ev) sync_setup \<Rightarrow> stored_group list \<Rightarrow> ('p, 'ev) timeline_state \<Rightarrow> ('p, 'ev) timeline_state \<times> nat result" where
  "sync_members_of su [] st = (st, Inr 0)"
| "sync_members_of su (g # gs) st =
     and_then (sync_if_supported su ''group_member'' (Some (show_u64 (sg_group_id g)))) (sync_members_of su gs) st"

definition GROUP_PAGE_SIZE :: nat where "GROUP_PAGE_SIZE = 500"

partial_function (option) sync_all_members ::
  "('p, 'ev) sync_setup \<Rightarrow> nat \<Rightarrow> nat \<Rightarrow> ('p, 'ev) timeline_state \<Rightarrow> (('p, 'ev) timeline_state \<times> nat result) option" where
  "sync_all_members su offset acc st =
     (let groups = list_groups GROUP_PAGE_SIZE offset (side (w_db (world st)))
      in if groups = [] then Some (st, Inr acc)
         else case sync_members_of su groups st of
                (st1, Inl e) \<Rightarrow> Some (st1, Inl e)
              | (st1, Inr n) \<Rightarrow>
                  if length groups < GROUP_PAGE_SIZE then Some (st1, Inr (acc + n))
                  else sync_all_members su (offset + GROUP_PAGE_SIZE) (acc + n) st1)"

definition sync_all_channels ::
  "('p, 'ev) sync_setup \<Rightarrow> ('p, 'ev) timeline_state \<Rightarrow> (('p, 'ev) timeline_state \<times> nat result) option" where
  "sync_all_channels su st =
     (case and_then (sync_entities su ''friend'' None)
            (and_then (sync_entities su ''group'' None)
              (and_then (sync_entities su ''channel'' None)
                (and_then (sync_entities su ''user'' None) (sync_if_supported su ''channel_read_cursor'' None)))) st of
        (st1, Inl e) \<Rightarrow> Some (st1, Inl e)
      | (st1, Inr n) \<Rightarrow> sync_all_members su 0 n st1)"

subsection \<open>Failures of a resume run\<close>

datatype 'ev resume_event =
    ResumeSyncStarted
  | ResumeSyncFailed resume_failure_class escalation_scope u32 string
  | ResumeSyncEscalated resume_failure_class escalation_scope string "string option" "u64 option" "int option"
  | ResumeSyncChannelFailed u64 int resume_failure_class escalation_scope u32 string
  | ResumeSyncCompleted nat nat nat nat
  | SyncChannelApplied u64 int nat
  | SyncEntitiesApplied string "string option" nat nat nat
  | FromItems 'ev

record resume_stats =
  st_entity_types :: nat
  st_scanned :: nat
  st_applied :: nat
  st_failures :: nat

record ('p, 'ev) resume_state =
  rs_sync :: "('p, 'ev) timeline_state"
  rs_session :: session_state
  rs_bootstrapped :: bool
  rs_stored_flag :: bool
  rs_last_resume :: "(u64 \<times> int) option"
  rs_epoch :: u64
  rs_run_id :: u64
  rs_convergence_run :: "resume_stats option"
  rs_coordinator :: sync_coordinator
  rs_events :: "'ev resume_event list"

definition tell :: "'ev resume_event list \<Rightarrow> ('p, 'ev) resume_state \<Rightarrow> ('p, 'ev) resume_state" where
  "tell evs s = s\<lparr>rs_events := rs_events s @ evs\<rparr>"

definition on_sync ::
  "(('p, 'ev) timeline_state \<Rightarrow> ('p, 'ev) timeline_state \<times> 'a) \<Rightarrow> ('p, 'ev) resume_state \<Rightarrow> ('p, 'ev) resume_state \<times> 'a" where
  "on_sync f s = (case f (rs_sync s) of (st, r) \<Rightarrow> (s\<lparr>rs_sync := st\<rparr>, r))"

definition clock_of :: "('p, 'ev) sync_setup \<Rightarrow> ('p, 'ev) resume_state \<Rightarrow> int" where
  "clock_of su s = sa_clock (answers_to (su_env su) (rs_sync s))"

definition put_marker ::
  "('p, 'ev) sync_setup \<Rightarrow> string \<Rightarrow> resume_failure_class \<Rightarrow> string \<Rightarrow> ('p, 'ev) resume_state \<Rightarrow>
   ('p, 'ev) resume_state \<times> unit result" where
  "put_marker su key cls reason s = on_sync (kv_put (su_env su) key (su_payload su cls reason (clock_of su s))) s"

text \<open>\<open>set_bootstrap_completed\<close>, with the file of the account store it may fail to write.\<close>

definition store_flag ::
  "('p, 'ev) sync_setup \<Rightarrow> bool \<Rightarrow> ('p, 'ev) resume_state \<Rightarrow> ('p, 'ev) resume_state \<times> unit result" where
  "store_flag su v s =
     (case co_current_uid (su_codec su) of
        None \<Rightarrow> (s, Inr ())
      | Some _ \<Rightarrow>
          (case es_flag_fault (su_server su) (calls (rs_sync s)) of
             Some e \<Rightarrow> (s, Inl e)
           | None \<Rightarrow> (s\<lparr>rs_stored_flag := v\<rparr>, Inr ())))"

definition execute_channel_scoped_resync ::
  "('p, 'ev) sync_setup \<Rightarrow> u64 \<Rightarrow> int \<Rightarrow> resume_failure_class \<Rightarrow> string \<Rightarrow> ('p, 'ev) resume_state \<Rightarrow>
   ('p, 'ev) resume_state \<times> unit result" where
  "execute_channel_scoped_resync su cid ct cls reason s =
     (case put_marker su (resume_repair_channel_key cid ct) cls reason s of
        (s1, Inl e) \<Rightarrow> (s1, Inl e)
      | (s1, Inr _) \<Rightarrow>
          (case on_sync (sync_channel su cid ct) s1 of
             (s2, Inl e) \<Rightarrow> (s2, Inl e)
           | (s2, Inr n) \<Rightarrow>
               (case on_sync (kv_delete su (resume_repair_channel_key cid ct)) s2 of
                  (s3, Inl e) \<Rightarrow> (s3, Inl e)
                | (s3, Inr _) \<Rightarrow> (tell [SyncChannelApplied cid ct n] s3, Inr ()))))"

definition queue_last_sync_events :: "string \<Rightarrow> nat \<Rightarrow> ('p, 'ev) resume_state \<Rightarrow> ('p, 'ev) resume_state" where
  "queue_last_sync_events et applied s =
     (let st = rs_sync s
      in tell (map FromItems (last_sync_entity_events st) @
               [SyncEntitiesApplied et None (last_sync_queued st) applied (last_sync_dropped_duplicates st)]) s)"

definition queue_sync_summary_event :: "string \<Rightarrow> nat \<Rightarrow> ('p, 'ev) resume_state \<Rightarrow> ('p, 'ev) resume_state" where
  "queue_sync_summary_event et applied s =
     (let st = rs_sync s
      in tell [SyncEntitiesApplied et None (last_sync_queued st) applied (last_sync_dropped_duplicates st)] s)"

definition execute_entity_scoped_resync ::
  "('p, 'ev) sync_setup \<Rightarrow> string \<Rightarrow> resume_failure_class \<Rightarrow> string \<Rightarrow> ('p, 'ev) resume_state \<Rightarrow>
   ('p, 'ev) resume_state \<times> unit result" where
  "execute_entity_scoped_resync su et cls reason s =
     (case put_marker su (resume_repair_entity_key et) cls reason s of
        (s1, Inl e) \<Rightarrow> (s1, Inl e)
      | (s1, Inr _) \<Rightarrow>
          (case on_sync (sync_entities su et None) s1 of
             (s2, Inl e) \<Rightarrow> (s2, Inl e)
           | (s2, Inr n) \<Rightarrow>
               (case on_sync (kv_delete su (resume_repair_entity_key et)) s2 of
                  (s3, Inl e) \<Rightarrow> (s3, Inl e)
                | (s3, Inr _) \<Rightarrow> (queue_last_sync_events et n s3, Inr ()))))"

definition execute_full_rebuild_required ::
  "('p, 'ev) sync_setup \<Rightarrow> resume_failure_class \<Rightarrow> string \<Rightarrow> ('p, 'ev) resume_state \<Rightarrow>
   ('p, 'ev) resume_state \<times> unit result" where
  "execute_full_rebuild_required su cls reason s =
     (case put_marker su resume_repair_full_rebuild_key cls reason s of
        (s1, Inl e) \<Rightarrow> (s1, Inl e)
      | (s1, Inr _) \<Rightarrow> store_flag su False (s1\<lparr>rs_bootstrapped := False\<rparr>))"

datatype handling = GoOn | Abort

definition target_names :: "resume_failure_target \<Rightarrow> string option \<times> u64 option \<times> int option" where
  "target_names t = (case t of Global \<Rightarrow> (None, None, None) | EntityType et \<Rightarrow> (Some et, None, None)
     | Channel cid ct \<Rightarrow> (None, Some cid, Some ct))"

definition report_failure ::
  "protocol_codes \<Rightarrow> resume_failure_target \<Rightarrow> sdk_error \<Rightarrow> ('p, 'ev) resume_state \<Rightarrow> ('p, 'ev) resume_state" where
  "report_failure pc target err s =
     (let cls = classify_resume_error pc err; sp = resume_escalation_scope cls target; m = error_text err;
          (et, cid, ct) = target_names target
      in tell ((case target of Channel c t \<Rightarrow> [ResumeSyncChannelFailed c t cls sp (class_sdk_code cls) m] | _ \<Rightarrow> []) @
               [ResumeSyncEscalated cls sp m et cid ct]) s)"

definition handle_resume_failure ::
  "('p, 'ev) sync_setup \<Rightarrow> resume_failure_target \<Rightarrow> sdk_error \<Rightarrow> ('p, 'ev) resume_state \<Rightarrow>
   ('p, 'ev) resume_state \<times> handling" where
  "handle_resume_failure su target err s =
     (let pc = co_codes (su_codec su); cls = classify_resume_error pc err; sp = resume_escalation_scope cls target;
          m = error_text err; s1 = report_failure pc target err s;
          failed = (\<lambda>t. ResumeSyncFailed cls sp (class_sdk_code cls) t)
      in case sp of
           ChannelScopedResync \<Rightarrow>
             (case target of
                Channel cid ct \<Rightarrow>
                  (case execute_channel_scoped_resync su cid ct cls m s1 of
                     (s2, Inl e) \<Rightarrow> (tell [failed (error_text e)] s2, GoOn)
                   | (s2, Inr _) \<Rightarrow> (s2, GoOn))
              | _ \<Rightarrow> (s1, GoOn))
         | EntityScopedResync \<Rightarrow>
             (case target of
                EntityType et \<Rightarrow>
                  (case execute_entity_scoped_resync su et cls m s1 of
                     (s2, Inr _) \<Rightarrow> (s2, GoOn)
                   | (s2, Inl e) \<Rightarrow> (tell [failed (error_text e)] s2, Abort))
              | _ \<Rightarrow> (tell [failed m] s1, Abort))
         | Retry \<Rightarrow> (tell [failed m] s1, Abort)
         | FullRebuild \<Rightarrow>
             (case execute_full_rebuild_required su cls m s1 of
                (s2, Inl e) \<Rightarrow> (tell [failed (error_text e)] s2, Abort)
              | (s2, Inr _) \<Rightarrow> (tell [failed m] s2, Abort)))"

subsection \<open>The resume run\<close>

definition RESUME_ORDER :: "string list" where
  "RESUME_ORDER = [''friend'', ''group'', ''channel'', ''user'', ''channel_read_cursor'']"

fun resume_families ::
  "('p, 'ev) sync_setup \<Rightarrow> string list \<Rightarrow> nat \<Rightarrow> ('p, 'ev) resume_state \<Rightarrow> ('p, 'ev) resume_state \<times> nat result" where
  "resume_families su [] n s = (s, Inr n)"
| "resume_families su (et # ets) n s =
     (case on_sync (sync_entities su et None) s of
        (s1, Inr applied) \<Rightarrow> resume_families su ets (n + 1) (queue_sync_summary_event et applied s1)
      | (s1, Inl e) \<Rightarrow>
          if is_unsupported_entity_error e then resume_families su ets n s1
          else (case handle_resume_failure su (EntityType et) e s1 of
                  (s2, Abort) \<Rightarrow> (s2, Inl e)
                | (s2, GoOn) \<Rightarrow> resume_families su ets n s2))"

definition recently_resumed :: "('p, 'ev) sync_setup \<Rightarrow> ('p, 'ev) resume_state \<Rightarrow> bool" where
  "recently_resumed su s \<longleftrightarrow>
     (case rs_last_resume s of
        Some (epoch, since) \<Rightarrow> epoch = rs_epoch s \<and> clock_of su s - since < 30000
      | None \<Rightarrow> False)"

definition execute_resume_sync ::
  "('p, 'ev) sync_setup \<Rightarrow> ('p, 'ev) resume_state \<Rightarrow> ('p, 'ev) resume_state \<times> unit result" where
  "execute_resume_sync su s =
     (if rs_session s \<noteq> Authenticated then
        let err = InvalidState ''run_resume_sync requires authenticated state''
        in (fst (handle_resume_failure su Global err s), Inl err)
      else if \<not> rs_bootstrapped s then (s, Inr ())
      else if recently_resumed su s then (s, Inr ())
      else
        case on_sync (send_session_ready su) (tell [ResumeSyncStarted] (s\<lparr>rs_run_id := rs_run_id s + 1\<rparr>)) of
          (s1, Inl e) \<Rightarrow> (fst (handle_resume_failure su Global e s1), Inl e)
        | (s1, Inr _) \<Rightarrow>
            (case resume_families su RESUME_ORDER 0 s1 of
               (s2, Inl e) \<Rightarrow> (s2, Inl e)
             | (s2, Inr n) \<Rightarrow>
                 (s2\<lparr>rs_convergence_run := Some \<lparr>st_entity_types = n, st_scanned = 0, st_applied = 0, st_failures = 0\<rparr>,
                     rs_coordinator := schedule_convergence (rs_coordinator s2) (clock_of su s2) 5000\<rparr>, Inr ())))"

text \<open>One tick of the background convergence, when no command is waiting and no conversation is opened
  meanwhile. \<open>repair_tick\<close> of the actor loop.\<close>

definition convergence_tick :: "('p, 'ev) sync_setup \<Rightarrow> ('p, 'ev) resume_state \<Rightarrow> ('p, 'ev) resume_state" where
  "convergence_tick su s =
     (if rs_session s = Authenticated \<and> rs_convergence_run s \<noteq> None \<and>
         convergence_retry_ready (rs_coordinator s) (clock_of su s)
      then case on_sync (run_anti_entropy_once (su_codec su) (su_apply su) (su_env su) (rs_session s) (rs_bootstrapped s)) s of
             (s1, Inl e) \<Rightarrow> s1\<lparr>rs_coordinator := fst (backoff_convergence (rs_coordinator s1) (clock_of su s1))\<rparr>
           | (s1, Inr page) \<Rightarrow>
               if is_converged page
               then (case rs_convergence_run s1 of
                       Some v \<Rightarrow>
                         tell [ResumeSyncCompleted (st_entity_types v) (st_scanned v) (st_applied v) (st_failures v)]
                           (s1\<lparr>rs_convergence_run := None,
                               rs_coordinator := set_convergence (rs_coordinator s1) Converged (clock_of su s1)\<rparr>)
                     | None \<Rightarrow> s1)
               else s1\<lparr>rs_coordinator := set_convergence (rs_coordinator s1)
                         (if pg_stale_found page > 0 then Repairing else Scanning) (clock_of su s1)\<rparr>
      else s)"

subsection \<open>The bootstrap run\<close>

definition full_rebuild_required :: "('p, 'ev) resume_state \<Rightarrow> bool" where
  "full_rebuild_required s \<longleftrightarrow> w_kv (world (rs_sync s)) resume_repair_full_rebuild_key \<noteq> None"

definition BOOTSTRAP_ENTITY_ORDER :: "string list" where
  "BOOTSTRAP_ENTITY_ORDER = [''friend'', ''group'', ''channel'', ''user'', ''channel_read_cursor'', ''user_block'']"

fun bootstrap_families ::
  "('p, 'ev) sync_setup \<Rightarrow> string list \<Rightarrow> ('p, 'ev) resume_state \<Rightarrow> ('p, 'ev) resume_state \<times> unit result" where
  "bootstrap_families su [] s = (s, Inr ())"
| "bootstrap_families su (et # ets) s =
     (case on_sync (sync_entities su et None) s of
        (s1, Inr n) \<Rightarrow> bootstrap_families su ets (queue_sync_summary_event et n s1)
      | (s1, Inl e) \<Rightarrow>
          if is_unsupported_entity_error e then bootstrap_families su ets (queue_sync_summary_event et 0 s1)
          else (s1, Inl e))"

definition is_system_channel :: "stored_channel \<Rightarrow> bool" where
  "is_system_channel c \<longleftrightarrow> sc_channel_type c \<in> {0, 1} \<and>
     (sc_channel_name c = ''1'' \<or> sc_channel_remark c = ''1'' \<or> sc_channel_name c = ''__system_1__'')"

fun store_system_history ::
  "'p codec \<Rightarrow> int \<Rightarrow> int \<Rightarrow> history_item list \<Rightarrow> message_db \<Rightarrow> message_db \<times> unit result" where
  "store_system_history co now ct [] db = (db, Inr ())"
| "store_system_history co now ct (i # is) db =
     (case upsert_remote_message_with_result now (co_uid co) (co_history co i ct) db of
        (db1, Inl e) \<Rightarrow> (db1, Inl e)
      | (db1, Inr r) \<Rightarrow> store_system_history co now ct is (refresh_previews co now ct [(i, r_message_id r)] db1))"

fun hydrate_systems ::
  "('p, 'ev) sync_setup \<Rightarrow> stored_channel list \<Rightarrow> ('p, 'ev) timeline_state \<Rightarrow> ('p, 'ev) timeline_state \<times> unit result" where
  "hydrate_systems su [] st = (st, Inr ())"
| "hydrate_systems su (c # cs) st =
     (let cid = sc_channel_id c; ct = normalized_type (sc_channel_type c)
      in if \<not> is_system_channel c \<or> list_messages cid ct 1 0 (w_db (world st)) \<noteq> [] then hydrate_systems su cs st
         else
           let an = answers_to (su_env su) st; st1 = ask (GetHistory cid 20) st
           in case typed_result (sa_history an) of
                Inl e \<Rightarrow> (st1, Inl e)
              | Inr its \<Rightarrow>
                  (case store_system_history (su_codec su) (sa_clock an) ct its (w_db (world st1)) of
                     (db, Inl e) \<Rightarrow> (on_world (\<lambda>w. w\<lparr>w_db := db\<rparr>) st1, Inl e)
                   | (db, Inr _) \<Rightarrow> hydrate_systems su cs (on_world (\<lambda>w. w\<lparr>w_db := db\<rparr>) st1)))"

definition hydrate_system_channels ::
  "('p, 'ev) sync_setup \<Rightarrow> ('p, 'ev) timeline_state \<Rightarrow> ('p, 'ev) timeline_state \<times> unit result" where
  "hydrate_system_channels su st =
     (case list_channels (sa_clock (answers_to (su_env su) st)) (co_uid (su_codec su)) (co_directory (su_codec su)) 200 0
             (w_db (world st)) of
        (db, cs) \<Rightarrow> hydrate_systems su cs (on_world (\<lambda>w. w\<lparr>w_db := db\<rparr>) st))"

text \<open>From the families on: the part a first login and a rebuild share.\<close>

definition bootstrap_all ::
  "('p, 'ev) sync_setup \<Rightarrow> ('p, 'ev) resume_state \<Rightarrow> ('p, 'ev) resume_state \<times> unit result" where
  "bootstrap_all su s =
     (case bootstrap_families su BOOTSTRAP_ENTITY_ORDER s of
        (s1, Inl e) \<Rightarrow> (s1, Inl e)
      | (s1, Inr _) \<Rightarrow>
          (case store_flag su True (s1\<lparr>rs_bootstrapped := True\<rparr>) of
             (s2, Inl e) \<Rightarrow> (s2, Inl e)
           | (s2, Inr _) \<Rightarrow>
               (let s3 = s2\<lparr>rs_sync := clear_resume_repair_key su resume_repair_full_rebuild_key (rs_sync s2)\<rparr>
                in case on_sync (send_session_ready su) s3 of
                     (s4, Inl e) \<Rightarrow> (s4, Inl e)
                   | (s4, Inr _) \<Rightarrow> on_sync (hydrate_system_channels su) s4)))"

definition execute_bootstrap_sync ::
  "('p, 'ev) sync_setup \<Rightarrow> ('p, 'ev) resume_state \<Rightarrow> ('p, 'ev) resume_state \<times> unit result" where
  "execute_bootstrap_sync su s =
     (if rs_session s \<noteq> Authenticated
      then (s, Inl (InvalidState ''run_bootstrap_sync requires authenticated state''))
      else if rs_bootstrapped s \<and> \<not> full_rebuild_required s then
        (case execute_resume_sync su s of
           (s1, Inr _) \<Rightarrow> (s1, Inr ())
         | (s1, Inl e) \<Rightarrow> if full_rebuild_required s1 then bootstrap_all su s1 else (s1, Inl e))
      else bootstrap_all su s)"

subsection \<open>What a family run leaves alone\<close>

lemma entity_pages_frame:
  "entity_pages su et sp n restarted since q d st = (st', r) \<Longrightarrow>
     w_kv (world st') = w_kv (world st) \<and> w_db (world st') = w_db (world st) \<and>
     (\<exists>rs. w_asked (world st') = w_asked (world st) @ rs \<and> length rs \<le> n)"
proof (induction n arbitrary: restarted since q d st)
  case (Suc n)
  let ?a = "ask (SyncEntities et sp since) st"
  have start: "w_kv (world ?a) = w_kv (world st)" "w_db (world ?a) = w_db (world st)"
    "w_asked (world ?a) = w_asked (world st) @ [SyncEntities et sp since]"
    by (simp_all add: ask_def on_world_def)
  show ?case
  proof (cases "rpc_result (co_codes (su_codec su)) (entities_op et sp since) (es_pages (su_server su) (calls st) et sp since)")
    case (Inl e)
    then show ?thesis using Suc.prems start by (auto intro: exI [of _ "[SyncEntities et sp since]"])
  next
    case (Inr page)
    obtain p stats where en: "enqueue (pipeline ?a) et sp (pg_items page) = (p, stats)" by fastforce
    have later: "w_kv (world st') = w_kv (world st) \<and> w_db (world st') = w_db (world st) \<and>
        (\<exists>rs. w_asked (world st') = w_asked (world st) @ rs \<and> length rs \<le> Suc n)"
      if "w_kv (world st') = w_kv (world b) \<and> w_db (world st') = w_db (world b) \<and>
        (\<exists>rs. w_asked (world st') = w_asked (world b) @ rs \<and> length rs \<le> n)" and "world b = world ?a" for b
      using that start by auto
    show ?thesis
      using Suc.prems Inr en start Suc.IH [THEN later]
      by (auto simp: Let_def split: if_splits intro: exI [of _ "[SyncEntities et sp since]"])
  qed
qed simp

lemma first_page_asked:
  "entity_pages su et sp (Suc n) restarted since q d st = (st', r) \<Longrightarrow>
     \<exists>rs. w_asked (world st') = w_asked (world st) @ SyncEntities et sp since # rs"
proof -
  assume run: "entity_pages su et sp (Suc n) restarted since q d st = (st', r)"
  let ?a = "ask (SyncEntities et sp since) st"
  have start: "w_asked (world ?a) = w_asked (world st) @ [SyncEntities et sp since]"
    by (simp add: ask_def on_world_def)
  show ?thesis
    using run start
    by (auto simp: Let_def split: sum.splits if_splits prod.splits dest!: entity_pages_frame)
qed

lemma pending_frame:
  "apply_pending su st = (st', r) \<Longrightarrow> w_kv (world st') = w_kv (world st) \<and> w_asked (world st') = w_asked (world st)"
  by (auto simp: apply_pending_def dest: stored.batches asked.batches split: option.splits prod.splits)

lemma applied_means_empty:
  "apply_batches appl bs w p evs n = (w', p', Inr x) \<Longrightarrow> p' = p"
  by (induction bs arbitrary: w evs n) (auto split: sum.splits prod.splits)

lemma applied_count:
  "apply_batches appl bs w p evs n = (w', p', Inr (k, evs')) \<Longrightarrow> k = n + sum_list (map (\<lambda>b. length (items b)) bs)"
  by (induction bs arbitrary: w evs n) (fastforce split: sum.splits prod.splits)+

lemma pending_all_applied:
  "apply_pending su st = (st', Inr (n, evs)) \<Longrightarrow>
     queue (pipeline st') = [] \<and> n = sum_list (map (\<lambda>b. length (items b)) (queue (pipeline st)))"
  by (auto simp: apply_pending_def drain_batches_eq dest: applied_means_empty applied_count split: prod.splits)

lemma kv_frames:
  "w_asked (world (fst (kv_put env key v st))) = w_asked (world st)"
  "w_asked (world (fst (kv_delete su key st))) = w_asked (world st)"
  "w_db (world (fst (kv_put env key v st))) = w_db (world st)"
  "w_db (world (fst (kv_delete su key st))) = w_db (world st)"
  "pipeline (fst (kv_put env key v st)) = pipeline st"
  "pipeline (fst (kv_delete su key st)) = pipeline st"
  by (simp_all add: kv_put_def kv_delete_def on_world_def split: option.splits)

lemma kv_put_outcome:
  "kv_put env key v st = (st', r) \<Longrightarrow>
     w_kv (world st') = (case r of Inr _ \<Rightarrow> (w_kv (world st))(key := Some v) | Inl _ \<Rightarrow> w_kv (world st))"
  by (auto simp: kv_put_def on_world_def split: option.splits)

lemma kv_delete_elsewhere:
  "k \<noteq> key \<Longrightarrow> w_kv (world (fst (kv_delete su key st))) k = w_kv (world st) k"
  by (simp add: kv_delete_def on_world_def split: option.splits)

lemma version_keys_differ [simp]:
  "sync_version_key et sp \<noteq> resume_repair_entity_key f" "sync_version_key et sp \<noteq> resume_repair_full_rebuild_key"
  "sync_version_key et sp \<noteq> resume_repair_channel_key cid ct"
  by (simp_all add: sync_version_key_def resume_repair_entity_key_def resume_repair_full_rebuild_key_def
      resume_repair_channel_key_def)

lemma sync_entities_cases:
  assumes "sync_entities su et sp st = (st', r)"
  obtains (pages) e where "entity_pages su et sp MAX_PAGES False (start_version et sp st) 0 0
      (st\<lparr>last_sync_entity_events := []\<rparr>) = (st', Inl e)" "r = Inl e"
  | (batch) st1 v q d e where "entity_pages su et sp MAX_PAGES False (start_version et sp st) 0 0
      (st\<lparr>last_sync_entity_events := []\<rparr>) = (st1, Inr (v, q, d))" "apply_pending su st1 = (st', Inl e)" "r = Inl e"
  | (cursor) st1 v q d st2 n evs e where "entity_pages su et sp MAX_PAGES False (start_version et sp st) 0 0
      (st\<lparr>last_sync_entity_events := []\<rparr>) = (st1, Inr (v, q, d))" "apply_pending su st1 = (st2, Inr (n, evs))"
      "should_persist_sync_cursor et sp" "save_sync_next_version su et sp v st2 = (st', Inl e)" "r = Inl e"
  | (finished) st1 v q d st2 n evs st3 where "entity_pages su et sp MAX_PAGES False (start_version et sp st) 0 0
      (st\<lparr>last_sync_entity_events := []\<rparr>) = (st1, Inr (v, q, d))" "apply_pending su st1 = (st2, Inr (n, evs))"
      "(if should_persist_sync_cursor et sp then save_sync_next_version su et sp v st2 else (st2, Inr ())) = (st3, Inr ())"
      "st' = (let st4 = st3\<lparr>last_sync_queued := q, last_sync_dropped_duplicates := d, last_sync_entity_events := evs\<rparr>
              in if sp = None then clear_resume_repair_key su (resume_repair_entity_key et) st4 else st4)" "r = Inr n"
proof -
  have start: "start_version et sp (st\<lparr>last_sync_entity_events := []\<rparr>) = start_version et sp st"
    by (simp add: start_version_def load_sync_since_version_def)
  show thesis
    using assms that
    by (auto simp: sync_entities_def start Let_def split: sum.splits prod.splits if_splits)
qed

lemma saved_version:
  "save_sync_next_version su et sp v st = (st', Inr ()) \<Longrightarrow> load_sync_since_version et sp st' = Some v"
  by (auto simp: save_sync_next_version_def load_sync_since_version_def parse_u64_show_u64 [unfolded show_u64_def]
      show_u64_def dest!: kv_put_outcome)

lemma load_version_cong:
  "w_kv (world a) (sync_version_key et sp) = w_kv (world b) (sync_version_key et sp) \<Longrightarrow>
    load_sync_since_version et sp a = load_sync_since_version et sp b"
  by (simp add: load_sync_since_version_def)


subsection \<open>A family of more than 64 pages\<close>

text \<open>A server that holds at least \<open>limit\<close> versions of a family, \<open>step\<close> of them to a page.\<close>

definition holds_more :: "'p entity_server \<Rightarrow> string \<Rightarrow> string option \<Rightarrow> u64 \<Rightarrow> u64 \<Rightarrow> bool" where
  "holds_more srv et sp step limit \<longleftrightarrow>
     (\<forall>k v. unat v + unat step \<le> unat limit \<longrightarrow>
        (\<exists>its. es_pages srv k et sp v =
           Reply \<lparr>pg_items = its, pg_next_version = v + step, pg_has_more = True, pg_min_version = None\<rparr>))"

lemma all_pages_used:
  assumes "holds_more (su_server su) et sp step limit" and "0 < step"
  shows "unat since + n * unat step \<le> unat limit \<Longrightarrow>
    \<exists>st'. entity_pages su et sp n False since q d st = (st', Inl paging_exceeded)"
proof (induction n arbitrary: since q d st)
  case (Suc n)
  have room: "unat since + unat step \<le> unat limit" using Suc.prems by simp
  obtain its where page: "es_pages (su_server su) (calls st) et sp since =
      Reply \<lparr>pg_items = its, pg_next_version = since + step, pg_has_more = True, pg_min_version = None\<rparr>"
    using assms(1) room by (auto simp: holds_more_def)
  have lim: "unat limit < 2 ^ 64" using unsigned_less [of limit] by simp
  have sum: "unat (since + step) = unat since + unat step"
    using room lim by (simp add: unat_word_ariths)
  moreover have "0 < unat step" using assms(2) by (simp add: word_less_nat_alt)
  ultimately have "\<not> since + step \<le> since" by (simp add: word_le_nat_alt)
  moreover have "unat (since + step) + n * unat step \<le> unat limit" using Suc.prems sum by simp
  ultimately show ?case
    using Suc.IH [of "since + step"] page
    by (auto simp: rpc_result_def too_old_def Let_def split: prod.split)
qed simp

text \<open>The same family, asked for again and again.\<close>

fun sync_repeatedly ::
  "('p, 'ev) sync_setup \<Rightarrow> string \<Rightarrow> string option \<Rightarrow> nat \<Rightarrow> ('p, 'ev) timeline_state \<Rightarrow>
   ('p, 'ev) timeline_state \<times> nat result list" where
  "sync_repeatedly su et sp 0 st = (st, [])"
| "sync_repeatedly su et sp (Suc n) st =
     (case sync_entities su et sp st of (st1, r) \<Rightarrow>
        (case sync_repeatedly su et sp n st1 of (st2, rs) \<Rightarrow> (st2, r # rs)))"

lemma large_family_fails:
  assumes "holds_more (su_server su) et sp step limit" and "0 < step"
    and "unat (start_version et sp st) + MAX_PAGES * unat step \<le> unat limit"
  shows "\<exists>st'. sync_entities su et sp st = (st', Inl paging_exceeded) \<and> w_kv (world st') = w_kv (world st) \<and>
    w_db (world st') = w_db (world st)"
proof -
  let ?st0 = "st\<lparr>last_sync_entity_events := []\<rparr>"
  obtain st' where run: "entity_pages su et sp MAX_PAGES False (start_version et sp st) 0 0 ?st0 = (st', Inl paging_exceeded)"
    using all_pages_used [OF assms(1,2,3)] by blast
  have "start_version et sp ?st0 = start_version et sp st"
    by (simp add: start_version_def load_sync_since_version_def)
  then show ?thesis
    using run entity_pages_frame [OF run] by (simp add: sync_entities_def Let_def)
qed

text \<open>C37. A family of more than 64 pages is never synced. As long as the server holds 64 pages beyond the saved
  cursor, every run, however many there are, fetches the same 64 pages, fails without applying any of them,
  and leaves the cursor where it was: nothing after that point is ever asked for.\<close>

theorem large_family_never_syncs:
  assumes "holds_more (su_server su) et sp step limit" and "0 < step"
    and "unat (start_version et sp st) + MAX_PAGES * unat step \<le> unat limit"
  shows "case sync_repeatedly su et sp n st of
    (st', rs) \<Rightarrow> rs = replicate n (Inl paging_exceeded) \<and> w_db (world st') = w_db (world st) \<and>
      start_version et sp st' = start_version et sp st"
  using assms(3)
proof (induction n arbitrary: st)
  case (Suc n)
  obtain st1 where one: "sync_entities su et sp st = (st1, Inl paging_exceeded)" "w_kv (world st1) = w_kv (world st)"
    "w_db (world st1) = w_db (world st)"
    using large_family_fails [OF assms(1,2) Suc.prems] by blast
  have same: "start_version et sp st1 = start_version et sp st"
    by (simp add: start_version_def load_sync_since_version_def one)
  show ?case
    using Suc.IH [of st1] Suc.prems one same by (auto split: prod.splits)
qed simp

text \<open>The resume run takes that failure in silence. The words of the error make it a matter for a
  conversation resync, which means nothing for a family: the run goes on, writes no repair marker,
  reports no \<open>ResumeSyncFailed\<close>, and ends as a success that only lacks the family in its count.\<close>

theorem paging_overflow_passes_unnoticed:
  assumes "holds_more (su_server su) et None step limit" and "0 < step"
    and "unat (start_version et None (rs_sync s)) + MAX_PAGES * unat step \<le> unat limit"
  shows "\<exists>s'. resume_families su [et] n s = (s', Inr n) \<and> w_kv (world (rs_sync s')) = w_kv (world (rs_sync s)) \<and>
    w_db (world (rs_sync s')) = w_db (world (rs_sync s)) \<and>
    rs_events s' = rs_events s @ [ResumeSyncEscalated ChannelResyncRequired ChannelScopedResync
      (error_text paging_exceeded) (Some et) None None]"
proof -
  obtain st1 where one: "sync_entities su et None (rs_sync s) = (st1, Inl paging_exceeded)"
    "w_kv (world st1) = w_kv (world (rs_sync s))" "w_db (world st1) = w_db (world (rs_sync s))"
    using large_family_fails [OF assms] by blast
  have cls: "classify_resume_error pc paging_exceeded = ChannelResyncRequired" for pc
  proof -
    have "contains_any [''session_ready rejected'', ''requires authenticated'']
        (to_ascii_lowercase ''sync_entities exceeded max paging iterations'') = False"
      "contains_any [''paging stalled'', ''since_version'', ''entity resync'']
        (to_ascii_lowercase ''sync_entities exceeded max paging iterations'') = False"
      "contains_any [''max paging iterations'', ''last_pts'', ''gap'', ''channel resync'']
        (to_ascii_lowercase ''sync_entities exceeded max paging iterations'') = True"
      by code_simp+
    then show ?thesis by (simp add: paging_exceeded_def Let_def del: contains_any_Cons)
  qed
  have "\<not> is_unsupported_entity_error paging_exceeded"
    by (simp add: paging_exceeded_def)
  then show ?thesis
    using one by (simp add: on_sync_def handle_resume_failure_def cls report_failure_def target_names_def Let_def tell_def)
qed

subsection \<open>The request log of a run\<close>

definition log_of :: "('p, 'ev) resume_state \<Rightarrow> sync_request list" where
  "log_of s = w_asked (world (rs_sync s))"

definition longer :: "sync_request list \<Rightarrow> sync_request list \<Rightarrow> bool" where
  "longer xs ys \<longleftrightarrow> (\<exists>rs. ys = xs @ rs)"

lemma longer_refl [simp]: "longer xs xs" and longer_snoc [simp]: "longer xs (xs @ rs)"
  by (simp_all add: longer_def)

lemma longer_trans [trans]: "longer xs ys \<Longrightarrow> longer ys zs \<Longrightarrow> longer xs zs"
  by (auto simp: longer_def)

lemma sync_entities_log:
  assumes "sync_entities su et sp st = (st', r)"
  shows "longer (w_asked (world st) @ [SyncEntities et sp (start_version et sp st)]) (w_asked (world st'))"
proof -
  have first: "longer (w_asked (world st) @ [SyncEntities et sp (start_version et sp st)]) (w_asked (world st1))"
    if "entity_pages su et sp MAX_PAGES False (start_version et sp st) 0 0 (st\<lparr>last_sync_entity_events := []\<rparr>) = (st1, x)" for st1 x
    using first_page_asked [of su et sp 63 False _ 0 0 "st\<lparr>last_sync_entity_events := []\<rparr>"] that
    by (auto simp: longer_def MAX_PAGES_def simp del: entity_pages.simps)
  show ?thesis
    using assms
  proof (cases rule: sync_entities_cases)
    case (pages e)
    then show ?thesis using first by blast
  next
    case (batch st1 v q d e)
    then show ?thesis using first [of st1] pending_frame by metis
  next
    case (cursor st1 v q d st2 n evs e)
    have "w_asked (world st') = w_asked (world st2)"
      using cursor(4) kv_frames(1) [of "su_env su" "sync_version_key et sp" "show_u64 v" st2]
      by (simp add: save_sync_next_version_def)
    then show ?thesis using cursor(1,2) first [of st1] pending_frame by metis
  next
    case (finished st1 v q d st2 n evs st3)
    have "w_asked (world st3) = w_asked (world st2)"
      using finished(3) kv_frames(1) [of "su_env su" "sync_version_key et sp" "show_u64 v" st2]
      by (auto simp: save_sync_next_version_def split: if_splits)
    moreover have "w_asked (world st') = w_asked (world st3)"
      using finished(4) kv_frames(2) [of su "resume_repair_entity_key et"
          "st3\<lparr>last_sync_queued := q, last_sync_dropped_duplicates := d, last_sync_entity_events := evs\<rparr>"]
      by (auto simp: clear_resume_repair_key_def Let_def)
    ultimately show ?thesis using finished(1,2) first [of st1] pending_frame by metis
  qed
qed

lemma on_sync_log: "on_sync f s = (s', r) \<Longrightarrow> \<exists>st'. f (rs_sync s) = (st', r) \<and> s' = s\<lparr>rs_sync := st'\<rparr>"
  by (auto simp: on_sync_def split: prod.splits)

lemma on_sync_entities_log:
  "on_sync (sync_entities su et sp) s = (s', r) \<Longrightarrow>
     longer (log_of s @ [SyncEntities et sp (start_version et sp (rs_sync s))]) (log_of s')"
  by (auto simp: log_of_def dest!: on_sync_log sync_entities_log)

lemma log_tell [simp]: "log_of (tell evs s) = log_of s" "rs_sync (tell evs s) = rs_sync s"
  by (simp_all add: log_of_def tell_def)

lemma log_summary [simp]:
  "log_of (queue_sync_summary_event et n s) = log_of s" "log_of (queue_last_sync_events et n s) = log_of s"
  by (simp_all add: queue_sync_summary_event_def queue_last_sync_events_def Let_def)

lemma log_report [simp]: "log_of (report_failure pc t e s) = log_of s"
  by (simp add: report_failure_def Let_def case_prod_beta)

lemma log_marker: "put_marker su key cls m s = (s', r) \<Longrightarrow> log_of s' = log_of s"
  using kv_frames(1) [of "su_env su" key _ "rs_sync s"]
  by (auto simp: put_marker_def log_of_def dest!: on_sync_log) (metis fst_conv)

lemma log_delete: "on_sync (kv_delete su key) s = (s', r) \<Longrightarrow> log_of s' = log_of s"
  using kv_frames(2) [of su key "rs_sync s"] by (auto simp: log_of_def dest!: on_sync_log)

lemma log_flag: "store_flag su v s = (s', r) \<Longrightarrow> log_of s' = log_of s"
  by (auto simp: store_flag_def log_of_def split: option.splits)

lemma longer_prefix: "longer (xs @ zs) ys \<Longrightarrow> longer xs ys"
  by (auto simp: longer_def)

lemma entity_resync_log:
  "execute_entity_scoped_resync su et cls m s = (s', r) \<Longrightarrow> longer (log_of s) (log_of s')"
  by (auto simp: execute_entity_scoped_resync_def split: prod.splits sum.splits
      dest!: log_marker log_delete on_sync_entities_log longer_prefix)

lemma rebuild_log: "execute_full_rebuild_required su cls m s = (s', r) \<Longrightarrow> log_of s' = log_of s"
  by (auto simp: execute_full_rebuild_required_def log_of_def split: prod.splits sum.splits
      dest!: log_marker [unfolded log_of_def] log_flag [unfolded log_of_def])

lemma failure_log:
  assumes "handle_resume_failure su t e s = (s', h)" and "\<forall>cid ct. t \<noteq> Channel cid ct"
  shows "longer (log_of s) (log_of s')"
  using assms
  by (auto simp: handle_resume_failure_def Let_def dest!: entity_resync_log rebuild_log
      split: escalation_scope.splits resume_failure_target.splits prod.splits sum.splits)

lemma ready_log: "on_sync (send_session_ready su) s = (s', r) \<Longrightarrow> log_of s' = log_of s @ [SessionReadyCall]"
  by (auto simp: send_session_ready_def log_of_def ask_def on_world_def dest!: on_sync_log)

lemma resume_families_log: "resume_families su ets n s = (s', r) \<Longrightarrow> longer (log_of s) (log_of s')"
proof (induction ets arbitrary: n s)
  case (Cons et ets)
  obtain s1 x where one: "on_sync (sync_entities su et None) s = (s1, x)" by fastforce
  have l1: "longer (log_of s) (log_of s1)" using on_sync_entities_log [OF one] longer_prefix by blast
  show ?case
  proof (cases x)
    case (Inr k)
    then show ?thesis using Cons one longer_trans [OF l1] by fastforce
  next
    case (Inl e)
    obtain s2 h where hd: "handle_resume_failure su (EntityType et) e s1 = (s2, h)" by fastforce
    have "longer (log_of s) (log_of s2)" using longer_trans [OF l1] failure_log [OF hd] by simp
    then show ?thesis
      using Cons.prems Cons.IH one Inl hd l1 longer_trans
      by (auto split: if_splits handling.splits)
  qed
qed simp

subsection \<open>What no run changes\<close>

lemma keeps_last_resume [simp]:
  "rs_last_resume (tell evs s) = rs_last_resume s"
  "rs_last_resume (fst (on_sync f s)) = rs_last_resume s"
  "rs_last_resume (queue_sync_summary_event et n s) = rs_last_resume s"
  "rs_last_resume (queue_last_sync_events et n s) = rs_last_resume s"
  "rs_last_resume (report_failure pc t e s) = rs_last_resume s"
  "rs_last_resume (fst (store_flag su v s)) = rs_last_resume s"
  "rs_last_resume (fst (put_marker su key cls m s)) = rs_last_resume s"
  by (simp_all add: tell_def on_sync_def queue_sync_summary_event_def queue_last_sync_events_def report_failure_def
      store_flag_def put_marker_def Let_def case_prod_beta split: option.splits)

lemma fst_eqD: "f x = (a, b) \<Longrightarrow> g (fst (f x)) = c \<Longrightarrow> g a = c"
  by simp

lemma resync_keeps_last [simp]:
  "rs_last_resume (fst (execute_channel_scoped_resync su cid ct cls m s)) = rs_last_resume s"
  "rs_last_resume (fst (execute_entity_scoped_resync su et cls m s)) = rs_last_resume s"
  "rs_last_resume (fst (execute_full_rebuild_required su cls m s)) = rs_last_resume s"
  unfolding execute_channel_scoped_resync_def execute_entity_scoped_resync_def execute_full_rebuild_required_def
  by (auto split: prod.splits sum.splits dest!: arg_cong [where f = "\<lambda>p. rs_last_resume (fst p)"])

lemma failure_keeps_last [simp]: "rs_last_resume (fst (handle_resume_failure su t e s)) = rs_last_resume s"
  unfolding handle_resume_failure_def Let_def
  by (auto split: prod.splits sum.splits escalation_scope.splits resume_failure_target.splits
      dest!: arg_cong [where f = "\<lambda>p. rs_last_resume (fst p)"])

lemma families_keep_last: "rs_last_resume (fst (resume_families su ets n s)) = rs_last_resume s"
proof (induction ets arbitrary: n s)
  case (Cons et ets)
  show ?case
    by (auto simp: Cons.IH split: prod.splits sum.splits handling.splits
        dest!: arg_cong [where f = "\<lambda>p. rs_last_resume (fst p)"])
qed simp

text \<open>A resume run is never skipped as a repetition. The run that follows a successful one on the same
  connection within 30 seconds is meant to be skipped, but no operation ever records that a run succeeded: from a
  session without such a record, every resume run of an authenticated, bootstrapped session goes to the server,
  starting with its ready call, and leaves no record either.\<close>

theorem resume_is_never_debounced:
  assumes "rs_last_resume s = None" and "rs_session s = Authenticated" and "rs_bootstrapped s"
  shows "case execute_resume_sync su s of
    (s', r) \<Rightarrow> rs_last_resume s' = None \<and> longer (log_of s @ [SessionReadyCall]) (log_of s')"
proof -
  let ?s0 = "tell [ResumeSyncStarted] (s\<lparr>rs_run_id := rs_run_id s + 1\<rparr>)"
  obtain s1 x where ready: "on_sync (send_session_ready su) ?s0 = (s1, x)" by fastforce
  have l1: "log_of s1 = log_of s @ [SessionReadyCall]"
    using ready_log [OF ready] by (simp add: log_of_def tell_def)
  have "rs_last_resume (fst (on_sync (send_session_ready su) ?s0)) = None"
    using assms(1) by simp
  then have k1: "rs_last_resume s1 = None" using ready by simp
  have go: "\<not> recently_resumed su s" using assms(1) by (simp add: recently_resumed_def)
  show ?thesis
  proof (cases x)
    case (Inl e)
    obtain s2 h where hd: "handle_resume_failure su Global e s1 = (s2, h)" by fastforce
    have "rs_last_resume s2 = None" using failure_keeps_last [of su Global e s1] hd k1 by simp
    moreover have "longer (log_of s1) (log_of s2)" using failure_log [OF hd] by simp
    ultimately show ?thesis
      using assms(2,3) go ready Inl hd l1 by (simp add: execute_resume_sync_def)
  next
    case (Inr u)
    obtain s2 y where fam: "resume_families su RESUME_ORDER 0 s1 = (s2, y)" by fastforce
    have "rs_last_resume s2 = None" using families_keep_last [of su RESUME_ORDER 0 s1] fam k1 by simp
    moreover have "longer (log_of s1) (log_of s2)" using resume_families_log [OF fam] .
    ultimately show ?thesis
      using assms(2,3) go ready Inr fam l1
      by (cases y) (simp_all add: execute_resume_sync_def log_of_def)
  qed
qed

subsection \<open>A rebuild\<close>

lemma bootstrap_families_log: "bootstrap_families su ets s = (s', r) \<Longrightarrow> longer (log_of s) (log_of s')"
proof (induction ets arbitrary: s)
  case (Cons et ets)
  obtain s1 x where one: "on_sync (sync_entities su et None) s = (s1, x)" by fastforce
  have l1: "longer (log_of s) (log_of s1)" using on_sync_entities_log [OF one] longer_prefix by blast
  show ?case
    using Cons.prems Cons.IH one l1 longer_trans [OF l1]
    by (auto split: sum.splits if_splits) (metis log_summary(1))+
qed simp

lemma hydrate_systems_log: "hydrate_systems su cs st = (st', r) \<Longrightarrow> longer (w_asked (world st)) (w_asked (world st'))"
proof (induction cs arbitrary: st)
  case (Cons c cs)
  have a: "w_asked (world (on_world (\<lambda>w. w\<lparr>w_db := d\<rparr>) (ask q st))) = w_asked (world st) @ [q]" for d q
    by (simp add: ask_def on_world_def)
  have b: "w_asked (world (ask q st)) = w_asked (world st) @ [q]" for q
    by (simp add: ask_def on_world_def)
  show ?case
    using Cons.prems Cons.IH
    by (auto simp: Let_def a b split: if_splits sum.splits prod.splits dest: longer_prefix)
      (metis a longer_prefix)
qed simp

lemma hydrate_log: "on_sync (hydrate_system_channels su) s = (s', r) \<Longrightarrow> longer (log_of s) (log_of s')"
  by (auto simp: hydrate_system_channels_def log_of_def on_world_def split: prod.splits
      dest!: on_sync_log hydrate_systems_log)

lemma clear_log: "log_of (s\<lparr>rs_sync := clear_resume_repair_key su key (rs_sync s)\<rparr>) = log_of s"
  by (simp add: log_of_def clear_resume_repair_key_def kv_frames)

lemma full_rebuild_marks:
  assumes "execute_full_rebuild_required su cls m s = (s', Inr ())"
  shows "full_rebuild_required s'" and "rs_session s' = rs_session s"
    and "start_version et None (rs_sync s') = start_version et None (rs_sync s)"
proof -
  obtain s1 where mark: "put_marker su resume_repair_full_rebuild_key cls m s = (s1, Inr ())"
    and flag: "store_flag su False (s1\<lparr>rs_bootstrapped := False\<rparr>) = (s', Inr ())"
    using assms by (auto simp: execute_full_rebuild_required_def split: prod.splits sum.splits)
  have sync: "rs_sync s' = rs_sync s1" "rs_session s' = rs_session s1"
    using flag by (auto simp: store_flag_def split: option.splits)
  obtain st1 where st1: "kv_put (su_env su) resume_repair_full_rebuild_key (su_payload su cls m (clock_of su s)) (rs_sync s) = (st1, Inr ())"
    and s1: "s1 = s\<lparr>rs_sync := st1\<rparr>"
    using mark by (auto simp: put_marker_def dest!: on_sync_log)
  have kv: "w_kv (world st1) = (w_kv (world (rs_sync s)))(resume_repair_full_rebuild_key := Some (su_payload su cls m (clock_of su s)))"
    using kv_put_outcome [OF st1] by simp
  show "full_rebuild_required s'" by (simp add: full_rebuild_required_def sync s1 kv)
  show "rs_session s' = rs_session s" by (simp add: sync s1)
  show "start_version et None (rs_sync s') = start_version et None (rs_sync s)"
    by (simp add: start_version_def load_sync_since_version_def sync s1 kv)
qed

lemma bootstrap_all_log:
  "bootstrap_all su s = (s', r) \<Longrightarrow>
     longer (log_of s @ [SyncEntities ''friend'' None (start_version ''friend'' None (rs_sync s))]) (log_of s')"
proof -
  assume run: "bootstrap_all su s = (s', r)"
  let ?first = "log_of s @ [SyncEntities ''friend'' None (start_version ''friend'' None (rs_sync s))]"
  obtain s1 x where fam: "bootstrap_families su BOOTSTRAP_ENTITY_ORDER s = (s1, x)" by fastforce
  obtain sa y where one: "on_sync (sync_entities su ''friend'' None) s = (sa, y)" by fastforce
  have la: "longer ?first (log_of sa)" using on_sync_entities_log [OF one] .
  define rest where "rest = [''group'', ''channel'', ''user'', ''channel_read_cursor'', ''user_block'']"
  have "BOOTSTRAP_ENTITY_ORDER = ''friend'' # rest" by (simp add: BOOTSTRAP_ENTITY_ORDER_def rest_def)
  then have "bootstrap_families su (''friend'' # rest) s = (s1, x)"
    using fam by simp
  then have "s1 = sa \<or> (\<exists>n. bootstrap_families su rest (queue_sync_summary_event ''friend'' n sa) = (s1, x))"
    using one by (cases y) (auto split: if_splits)
  then have "longer (log_of sa) (log_of s1)"
    using bootstrap_families_log by fastforce
  then have l1: "longer ?first (log_of s1)" using longer_trans [OF la] by blast
  show ?thesis
  proof (cases x)
    case (Inl e)
    then show ?thesis using run fam l1 by (simp add: bootstrap_all_def)
  next
    case (Inr u)
    obtain s2 z where flag: "store_flag su True (s1\<lparr>rs_bootstrapped := True\<rparr>) = (s2, z)" by fastforce
    have l2: "log_of s2 = log_of s1" using log_flag [OF flag] by (simp add: log_of_def)
    let ?s3 = "s2\<lparr>rs_sync := clear_resume_repair_key su resume_repair_full_rebuild_key (rs_sync s2)\<rparr>"
    obtain s4 w where ready: "on_sync (send_session_ready su) ?s3 = (s4, w)" by fastforce
    have l4: "log_of s4 = log_of s1 @ [SessionReadyCall]"
      using ready_log [OF ready] l2 by (simp add: clear_log)
    obtain s5 v where hyd: "on_sync (hydrate_system_channels su) s4 = (s5, v)" by fastforce
    have l5: "longer (log_of s1) (log_of s5)"
      using hydrate_log [OF hyd] l4 by (metis longer_prefix)
    have g4: "longer ?first (log_of s4)" using longer_trans [OF l1] l4 by simp
    have g5: "longer ?first (log_of s5)" using longer_trans [OF l1 l5] .
    show ?thesis
      using run fam Inr flag ready hyd l1 l2 g4 g5
      by (cases z; cases w) (simp_all add: bootstrap_all_def Let_def)
  qed
qed

text \<open>A full rebuild does not start over. Declaring that one is required drops the bootstrap flag and writes
  a marker, but keeps the cursor of every family; the bootstrap run that follows asks for each family from that
  old cursor, as an ordinary resume would, and never for what came before it.\<close>

theorem rebuild_starts_at_old_cursors:
  assumes "execute_full_rebuild_required su cls m s = (s1, Inr ())" and "rs_session s = Authenticated"
  shows "start_version et None (rs_sync s1) = start_version et None (rs_sync s) \<and>
    longer (log_of s1 @ [SyncEntities ''friend'' None (start_version ''friend'' None (rs_sync s))])
      (log_of (fst (execute_bootstrap_sync su s1)))"
proof -
  obtain s2 r where run: "bootstrap_all su s1 = (s2, r)" by fastforce
  have "execute_bootstrap_sync su s1 = (s2, r)"
    using full_rebuild_marks(1,2) [OF assms(1)] assms(2) run by (simp add: execute_bootstrap_sync_def)
  then show ?thesis
    using bootstrap_all_log [OF run] full_rebuild_marks(3) [OF assms(1)] by simp
qed

subsection \<open>When the background scan declares itself done\<close>

lemma plan_all_fresh:
  "list_all (\<lambda>ob. case ob_server_pts ob of Some v \<Rightarrow> v \<le> ob_local_pts ob | None \<Rightarrow> True) obs \<Longrightarrow>
     ep_repair (plan_page b obs p) = ep_repair p \<and> ep_deferred (plan_page b obs p) = ep_deferred p"
  by (induction obs arbitrary: p) (auto simp: Let_def split: option.splits)

text \<open>A scan that begins where an earlier one was interrupted is declared complete at the end of the list,
  without having looked at the beginning. The cursor survives the session; a first tick that finds the
  conversations after it up to date reports \<open>ResumeSyncCompleted\<close> and ends the convergence, although its only
  request named none of the conversations at or before the cursor.\<close>

theorem convergence_declared_on_a_tail:
  assumes "rs_session s = Authenticated" and "rs_bootstrapped s" and "rs_convergence_run s = Some v"
    and "convergence_retry_ready (rs_coordinator s) (clock_of su s)"
    and "load_anti_entropy_cursor (rs_sync s) = (c, ct)"
    and "tail = list_channel_identifiers_after c ct ENTROPY_PAGE_SIZE (w_db (world (rs_sync s)))"
    and "tail \<noteq> []" and "length tail < ENTROPY_PAGE_SIZE"
    and "typed_result (sa_batch_pts (answers_to (su_env su) (rs_sync s))) = Inr remote"
    and "list_all (\<lambda>k. case map_of (rev remote) k of Some p \<Rightarrow> p \<le> local_pts_of (rs_sync s) k | None \<Rightarrow> True) tail"
    and "sa_kv_fault (su_env su (calls (rs_sync s) + 1)) = None"
    and "typed_channels (w_db (world (rs_sync s)))"
  shows "let s' = convergence_tick su s in rs_convergence_run s' = None \<and>
    conv (snapshot (rs_coordinator s')) = Converged \<and>
    rs_events s' = rs_events s @ [ResumeSyncCompleted (st_entity_types v) (st_scanned v) (st_applied v) (st_failures v)] \<and>
    log_of s' = log_of s @ [BatchGetPts (map (\<lambda>(i, t). (i, wire_channel_type t)) tail)] \<and>
    list_all (before (c, ct)) tail"
proof -
  let ?st = "rs_sync s"
  let ?s1 = "ask (BatchGetPts (map (\<lambda>(i, t). (i, wire_channel_type t)) tail)) ?st"
  have b: "batch_get_channel_pts (su_env su) tail ?st = (?s1, Inr remote)"
    using assms(9) by (simp add: batch_get_channel_pts_def)
  have loc: "local_pts_of ?s1 k = local_pts_of ?st k" for k
    by (simp add: local_pts_of_def load_resume_channel_pts_def ask_def on_world_def)
  let ?plan = "plan_anti_entropy_page (observe remote ?s1 tail) DIFFERENCE_BUDGET"
  have fresh: "list_all (\<lambda>ob. case ob_server_pts ob of Some v \<Rightarrow> v \<le> ob_local_pts ob | None \<Rightarrow> True) (observe remote ?s1 tail)"
    using assms(10) by (auto simp: observe_def list_all_iff loc split: option.splits)
  have plan: "ep_repair ?plan = []" "ep_deferred ?plan = 0"
    using plan_all_fresh [OF fresh] by (simp_all add: plan_anti_entropy_page_def empty_plan_def)
  have nxt: "next_cursor ?plan tail = Some (0, -1)"
    using plan assms(8) by (simp add: next_cursor_def)
  obtain st3 where sv: "save_anti_entropy_cursor (su_env su) (0, -1) ?s1 = (st3, Inr ())"
    and asked: "w_asked (world st3) = w_asked (world ?s1)"
    using assms(11) by (simp add: save_anti_entropy_cursor_def kv_put_def answers_to_def ask_def on_world_def calls_def)
  obtain page where run: "run_anti_entropy_once (su_codec su) (su_apply su) (su_env su) Authenticated True ?st = (st3, Inr page)"
    and done': "is_converged page"
    using assms(5-8) b plan nxt sv
    by (simp add: run_anti_entropy_once_def Let_def scan_page_def is_converged_def)
  have after: "list_all (before (c, ct)) tail"
    using listed_after [OF _ assms(12), of _ c ct] assms(6) by (auto simp: list_all_iff)
  show ?thesis
    using assms(1-4) run done' after asked
    by (simp add: convergence_tick_def on_sync_def tell_def log_of_def set_convergence_def Let_def ask_def on_world_def)
qed

subsection \<open>Runs of the examples\<close>

definition endless_server :: "unit entity_server" where
  "endless_server = \<lparr>es_pages = (\<lambda>k et sp v. Reply \<lparr>pg_items = [], pg_next_version = v + 1, pg_has_more = True, pg_min_version = None\<rparr>),
     es_ready = (\<lambda>_. Reply True), es_flag_fault = (\<lambda>_. None)\<rparr>"

definition example_setup :: "sync_answers \<Rightarrow> (unit, unit) sync_setup" where
  "example_setup an = \<lparr>su_codec = example_codec, su_apply = (\<lambda>db b. (db, Inr [])), su_env = (\<lambda>_. an),
     su_server = endless_server, su_payload = (\<lambda>_ _ _. ''repair'')\<rparr>"

definition resume_of :: "(unit, unit) timeline_state \<Rightarrow> (unit, unit) resume_state" where
  "resume_of st = \<lparr>rs_sync = st, rs_session = Authenticated, rs_bootstrapped = True, rs_stored_flag = True,
     rs_last_resume = None, rs_epoch = 1, rs_run_id = 0,
     rs_convergence_run = Some \<lparr>st_entity_types = 5, st_scanned = 0, st_applied = 0, st_failures = 0\<rparr>,
     rs_coordinator = new_coordinator, rs_events = []\<rparr>"

lemma example_parts [simp]:
  "su_codec (example_setup an) = example_codec" "su_env (example_setup an) = (\<lambda>_. an)"
  "su_server (example_setup an) = endless_server" "su_payload (example_setup an) = (\<lambda>_ _ _. ''repair'')"
  "es_flag_fault endless_server = (\<lambda>_. None)" "co_current_uid example_codec = Some ''4''"
  by (simp_all add: example_setup_def endless_server_def example_codec_def)

lemma endless: "holds_more endless_server et sp 1 100"
  by (simp add: holds_more_def endless_server_def)

lemma starts_at_zero: "start_version et sp (state_of db) = 0"
  by (simp add: start_version_def load_sync_since_version_def state_of_def)

theorem large_family_never_syncs_witness:
  "snd (sync_repeatedly (example_setup quiet_answers) ''user'' None 3 (state_of empty_db)) =
     replicate 3 (Inl paging_exceeded)"
  using large_family_never_syncs [of "example_setup quiet_answers" "''user''" None 1 100 "state_of empty_db" 3]
  by (auto simp: endless starts_at_zero MAX_PAGES_def case_prod_beta)

theorem paging_overflow_passes_unnoticed_witness:
  "\<exists>s'. resume_families (example_setup quiet_answers) [''user''] 3 (resume_of (state_of empty_db)) = (s', Inr 3) \<and>
     rs_events s' = [ResumeSyncEscalated ChannelResyncRequired ChannelScopedResync (error_text paging_exceeded) (Some ''user'') None None]"
  using paging_overflow_passes_unnoticed [of "example_setup quiet_answers" "''user''" 1 100 "resume_of (state_of empty_db)" 3]
  by (auto simp: endless starts_at_zero MAX_PAGES_def resume_of_def)

theorem resume_is_never_debounced_witness:
  "rs_last_resume (fst (execute_resume_sync (example_setup quiet_answers) (resume_of (state_of empty_db)))) = None"
  using resume_is_never_debounced [of "resume_of (state_of empty_db)" "example_setup quiet_answers"]
  by (simp add: resume_of_def case_prod_beta)

text \<open>A client whose friends are known up to version 9.\<close>

definition known_friends :: "(unit, unit) timeline_state" where
  "known_friends = fst (save_sync_next_version (example_setup quiet_answers) ''friend'' None 9 (state_of empty_db))"

lemma known_friends_version: "start_version ''friend'' None known_friends = 9"
proof -
  have "save_sync_next_version (example_setup quiet_answers) ''friend'' None 9 (state_of empty_db) = (known_friends, Inr ())"
    by (simp add: known_friends_def save_sync_next_version_def kv_put_def quiet_answers_def answers_to_def)
  from saved_version [OF this] show ?thesis
    by (simp add: start_version_def should_persist_sync_cursor_def)
qed

theorem rebuild_starts_at_old_cursors_witness:
  "\<exists>s1. execute_full_rebuild_required (example_setup quiet_answers) FullRebuildRequired ''gone'' (resume_of known_friends) = (s1, Inr ()) \<and>
    start_version ''friend'' None (rs_sync s1) = 9 \<and>
    longer (log_of s1 @ [SyncEntities ''friend'' None 9]) (log_of (fst (execute_bootstrap_sync (example_setup quiet_answers) s1)))"
proof -
  obtain s1 where run: "execute_full_rebuild_required (example_setup quiet_answers) FullRebuildRequired ''gone'' (resume_of known_friends) = (s1, Inr ())"
    by (auto simp: execute_full_rebuild_required_def put_marker_def on_sync_def kv_put_def quiet_answers_def
        answers_to_def store_flag_def)
  have sess: "rs_session (resume_of known_friends) = Authenticated" "rs_sync (resume_of known_friends) = known_friends"
    by (simp_all add: resume_of_def)
  show ?thesis
    using run rebuild_starts_at_old_cursors [OF run sess(1), of "''friend''"] by (auto simp: sess known_friends_version)
qed

text \<open>Two conversations; the scan stands at the first, which is behind the server, and the second is not.\<close>

definition tail_answers :: sync_answers where
  "tail_answers = quiet_answers\<lparr>sa_batch_pts := Reply [((7, 1), 5), ((9, 1), 0)]\<rparr>"

definition interrupted_scan :: "(unit, unit) timeline_state" where
  "interrupted_scan = fst (save_anti_entropy_cursor (\<lambda>_. tail_answers) (7, 1) (state_of two_channels_db))"

theorem convergence_declared_on_a_tail_witness:
  "let s' = convergence_tick (example_setup tail_answers) (resume_of interrupted_scan)
   in rs_events s' = [ResumeSyncCompleted 5 0 0 0] \<and> log_of s' = log_of (resume_of interrupted_scan) @ [BatchGetPts [(9, 1)]]"
proof -
  have saved: "save_anti_entropy_cursor (\<lambda>_. tail_answers) (7, 1) (state_of two_channels_db) = (interrupted_scan, Inr ())"
    by (simp add: interrupted_scan_def save_anti_entropy_cursor_def kv_put_def answers_to_def tail_answers_def quiet_answers_def)
  have cur: "load_anti_entropy_cursor interrupted_scan = (7, 1)"
    using load_saved_cursor [OF saved] by simp
  have db: "w_db (world interrupted_scan) = two_channels_db"
    by (simp add: interrupted_scan_def save_anti_entropy_cursor_def kv_frames state_of_def)
  have tail: "list_channel_identifiers_after 7 1 ENTROPY_PAGE_SIZE two_channels_db = [(9, 1)]"
    by (simp add: list_channel_identifiers_after_def two_channels_db_def ENTROPY_PAGE_SIZE_def inserted_channel_def
        channel_key_def less_prod_def as_i64_def as_u64_def)
  have typed: "typed_channels two_channels_db"
    by (simp add: typed_channels_def two_channels_db_def inserted_channel_def as_i64_def)
  have ready: "convergence_retry_ready new_coordinator t" for t
    by (simp add: convergence_retry_ready_def new_coordinator_def)
  have parts: "rs_session (resume_of st) = Authenticated" "rs_bootstrapped (resume_of st)" "rs_sync (resume_of st) = st"
    "rs_convergence_run (resume_of st) = Some \<lparr>st_entity_types = 5, st_scanned = 0, st_applied = 0, st_failures = 0\<rparr>"
    "rs_coordinator (resume_of st) = new_coordinator" "rs_events (resume_of st) = []" for st
    by (simp_all add: resume_of_def)
  have ans: "typed_result (sa_batch_pts tail_answers) = Inr [((7, 1), 5), ((9, 1), 0)]" "sa_kv_fault tail_answers = None"
    "length [(9 :: u64, 1 :: int)] < ENTROPY_PAGE_SIZE"
    by (simp_all add: tail_answers_def quiet_answers_def typed_result_def ENTROPY_PAGE_SIZE_def)
  show ?thesis
    using convergence_declared_on_a_tail [of "resume_of interrupted_scan" "\<lparr>st_entity_types = 5, st_scanned = 0, st_applied = 0, st_failures = 0\<rparr>"
        "example_setup tail_answers" 7 1 "[(9, 1)]" "[((7, 1), 5), ((9, 1), 0)]"] ans(3)
    by (simp add: cur db tail typed ready parts ans answers_to_def wire_channel_type_def Let_def)
qed

end
