(* ===== verification/Inbound_Frames.thy ===== *)
theory Inbound_Frames
  imports Entity_Apply Entity_Sync
begin

text \<open>
  What comes from the server unasked: \<open>handle_inbound_frame\<close> of \<open>lib.rs\<close> with the frames it buffers before
  the login and replays after it, and the conversions of pushes, canonical events and commits to sync
  items. Frames and payloads are byte strings; the codecs of the protocol crate and of
  \<open>serde_json\<close> are the record \<open>frame_codecs\<close>. The skipping of messages for load tests is left out.
\<close>

subsection \<open>Requests\<close>

record push_request =
  ps_server_message_id :: u64
  ps_local_message_id :: u64
  ps_channel_id :: u64
  ps_channel_type :: u8
  ps_from_uid :: u64
  ps_message_type :: u32
  ps_message_seq :: u32
  ps_timestamp :: u32
  ps_payload :: string
  ps_topic :: string
  ps_stream_no :: string
  ps_stream_seq :: u32
  ps_stream_flag :: u8
  ps_msg_key :: string
  ps_expire :: u32
  ps_need_receipt :: bool
  ps_deleted :: bool

record send_request =
  sq_local_message_id :: u64
  sq_channel_id :: u64
  sq_from_uid :: u64
  sq_message_type :: u32
  sq_payload :: string
  sq_topic :: string
  sq_stream_no :: string
  sq_expire :: u32
  sq_need_receipt :: bool

record publish_request =
  pb_channel_id :: u64
  pb_topic :: "string option"
  pb_payload :: string
  pb_publisher :: "string option"
  pb_server_message_id :: "u64 option"
  pb_timestamp :: u64

record stream_fields =
  sx_topic :: "string option"
  sx_stream_no :: "string option"
  sx_stream_seq :: "int option"
  sx_stream_flag :: "int option"
  sx_msg_key :: "string option"
  sx_expire :: "int option"

definition no_stream :: stream_fields where
  "no_stream = \<lparr>sx_topic = None, sx_stream_no = None, sx_stream_seq = None, sx_stream_flag = None, sx_msg_key = None,
     sx_expire = None\<rparr>"

text \<open>A canonical event with its payload already in the legacy JSON form.\<close>

datatype timeline_event =
    New_Message u32 json
  | Revoke_Message u64 u64 int
  | Change_Reaction u64 u64 string bool

record presence_status =
  pz_user_id :: u64
  pz_is_online :: bool
  pz_last_seen_at :: int
  pz_device_count :: int
  pz_version :: u64

record frame_codecs =
  fc_send :: "string \<Rightarrow> string + send_request"
  fc_push :: "string \<Rightarrow> string + push_request"
  fc_batch :: "string \<Rightarrow> string + push_request list"
  fc_publish :: "string \<Rightarrow> string + publish_request"
  fc_envelope :: "string \<Rightarrow> json option"
  fc_parse :: "string \<Rightarrow> json option"
  fc_print :: "json \<Rightarrow> string"
  fc_event :: "string \<Rightarrow> string + timeline_event"
  fc_invalidation :: "string \<Rightarrow> (u32 \<times> (string \<times> string option) list) option"
  fc_invalidation_schema :: u32
  fc_presence :: "string \<Rightarrow> presence_status option"
  fc_message_json :: "message_payload \<Rightarrow> stream_fields \<Rightarrow> json"
  fc_type_numbers :: "string \<Rightarrow> int"
  fc_resolve :: "server_commit \<Rightarrow> timeline_event option"
  fc_timeline_topic :: string
  fc_invalidation_topic :: string

subsection \<open>Content\<close>

text \<open>UTF-8, as \<open>std::str::from_utf8\<close> accepts it.\<close>

definition tail_byte :: "nat \<Rightarrow> bool" where "tail_byte b \<longleftrightarrow> 128 \<le> b \<and> b \<le> 191"

fun utf8_bytes :: "nat list \<Rightarrow> bool" where
  "utf8_bytes [] = True"
| "utf8_bytes (a # r) =
     (if a < 128 then utf8_bytes r
      else if 194 \<le> a \<and> a \<le> 223 then (case r of b # s \<Rightarrow> tail_byte b \<and> utf8_bytes s | _ \<Rightarrow> False)
      else if 224 \<le> a \<and> a \<le> 239 then
        (case r of b # c # s \<Rightarrow> (if a = 224 then 160 else 128) \<le> b \<and> b \<le> (if a = 237 then 159 else 191) \<and> tail_byte c \<and> utf8_bytes s
         | _ \<Rightarrow> False)
      else if 240 \<le> a \<and> a \<le> 244 then
        (case r of b # c # d # s \<Rightarrow> (if a = 240 then 144 else 128) \<le> b \<and> b \<le> (if a = 244 then 143 else 191) \<and> tail_byte c \<and>
             tail_byte d \<and> utf8_bytes s
         | _ \<Rightarrow> False)
      else False)"

definition is_binary :: "string \<Rightarrow> bool" where
  "is_binary s \<longleftrightarrow> \<not> utf8_bytes (map of_char s) \<or>
     list_ex (\<lambda>c. (of_char c :: nat) < 32 \<and> (of_char c :: nat) \<notin> {9, 10, 13}) s"

definition legacy_markers :: "string list" where
  "legacy_markers = [''metadata'', ''reply_to_message_id'', ''mentioned_user_ids'', ''message_source'']"

definition decode_legacy_message_envelope :: "(string \<Rightarrow> json option) \<Rightarrow> string \<Rightarrow> json option" where
  "decode_legacy_message_envelope parse text =
     (let t = trim text
      in if take 1 t \<noteq> ''{'' then None
         else case parse t of
                Some (JObj kvs) \<Rightarrow>
                  (case Option.bind (json_get (JObj kvs) ''content'') as_str_json of
                     None \<Rightarrow> None
                   | Some _ \<Rightarrow> if has_key (JObj kvs) legacy_markers then Some (JObj kvs) else None)
              | _ \<Rightarrow> None)"

text \<open>The arm for an object. The lists of keys are alternatives, not paths.\<close>

definition object_content :: "(json \<Rightarrow> string) \<Rightarrow> json \<Rightarrow> string \<times> string option" where
  "object_content print v =
     (pick [json_get_string print v [''content''], json_get_string print v [''text''], json_get_string print v [''body''],
            json_get_string print v [''content'', ''text''], json_get_string print v [''content'', ''body'']] '''',
      Some (print v))"

definition normalized_message_content_and_extra ::
  "(json \<Rightarrow> string) \<Rightarrow> (string \<Rightarrow> json option) \<Rightarrow> json \<Rightarrow> string \<times> string option" where
  "normalized_message_content_and_extra print parse v =
     (case v of
        JNull \<Rightarrow> ('''', None)
      | JStr text \<Rightarrow>
          (case decode_legacy_message_envelope parse text of
             Some e \<Rightarrow> object_content print e
           | None \<Rightarrow> (text, None))
      | JObj _ \<Rightarrow> object_content print v
      | JArr _ \<Rightarrow> ('''', Some (print v))
      | _ \<Rightarrow> (print v, None))"

text \<open>Bytes that are neither an envelope nor JSON are text, unless they look binary.\<close>

definition payload_bytes_to_message_content_and_extra :: "frame_codecs \<Rightarrow> string \<Rightarrow> string \<times> string option" where
  "payload_bytes_to_message_content_and_extra fc p =
     (if p = '''' then ('''', None)
      else case first_some [fc_envelope fc p, fc_parse fc p] of
             Some v \<Rightarrow> normalized_message_content_and_extra (fc_print fc) (fc_parse fc) v
           | None \<Rightarrow> if is_binary p then ('''', None) else (p, None))"

text \<open>What the client does to the text of its own message before it is stored: an envelope typed as text is
  unwrapped, and the metadata it lacks comes from \<open>extra\<close>.\<close>

definition normalize_new_message :: "(json \<Rightarrow> string) \<Rightarrow> (string \<Rightarrow> json option) \<Rightarrow> string \<Rightarrow> string \<Rightarrow> string \<Rightarrow>
    string \<times> string \<times> string" where
  "normalize_new_message print parse content searchable extra =
     (case decode_legacy_message_envelope parse content of
        None \<Rightarrow> (content, searchable, extra)
      | Some e \<Rightarrow>
          (let shown = pick [Option.bind (json_get e ''content'') as_str_json] '''';
               full = (case (e, json_get e ''metadata'', parse extra) of
                         (JObj kvs, None, Some m) \<Rightarrow> if m = JNull then e else JObj (kvs @ [(''metadata'', m)])
                       | _ \<Rightarrow> e)
           in (shown, shown, print full)))"

subsection \<open>Items\<close>

definition build_message_sync_item ::
  "frame_codecs \<Rightarrow> u64 \<Rightarrow> u64 \<Rightarrow> u64 \<Rightarrow> int \<Rightarrow> int \<Rightarrow> u64 \<Rightarrow> int \<Rightarrow> string \<Rightarrow> string option \<Rightarrow> int \<Rightarrow> int \<Rightarrow> int \<Rightarrow> int \<Rightarrow>
   stream_fields \<Rightarrow> json_item" where
  "build_message_sync_item fc sid lid cid ct ts from ty content extra status pts setting order_seq sx =
     \<lparr>entity_id = show_u64 sid, item_version = word_of_int (max pts 0), deleted = False,
      payload = Some (fc_message_json fc
        \<lparr>sp_server_message_id = Some sid, sp_message_id = Some sid, sp_id = Some sid, sp_local_message_id = Some lid,
         sp_channel_id = Some cid, sp_channel_type = Some ct, sp_type_field = Some ct, sp_conversation_type = Some ct,
         sp_timestamp = Some ts, sp_created_at = Some ts, sp_send_time = Some ts, sp_from_uid = Some from,
         sp_sender_id = Some from, sp_from = Some from, sp_uid = Some from, sp_message_type = Some ty,
         sp_content = Some content, sp_text = None, sp_body = None, sp_status = Some status, sp_pts = Some pts,
         sp_setting = Some setting, sp_order_seq = Some order_seq, sp_searchable_word = None, sp_extra = extra\<rparr> sx)\<rparr>"

definition sat_u64_i64 :: "u64 \<Rightarrow> int" where
  "sat_u64_i64 v = (if uint v < 2 ^ 63 then uint v else 2 ^ 63 - 1)"

definition wire_i32 :: "u32 \<Rightarrow> int" where
  "wire_i32 v = (if uint v < 2 ^ 31 then uint v else 0)"

definition sync_item_from_canonical_difference_event ::
  "frame_codecs \<Rightarrow> server_commit \<Rightarrow> timeline_event \<Rightarrow> string \<times> json_item" where
  "sync_item_from_canonical_difference_event fc c ev =
     (case ev of
        New_Message ty legacy \<Rightarrow>
          (let (content, extra) = normalized_message_content_and_extra (fc_print fc) (fc_parse fc) legacy
           in (''message'', build_message_sync_item fc (cm_server_msg_id c) (pick [cm_local_message_id c] 0) (cm_channel_id c)
                 (commit_type c) (cm_server_timestamp c) (cm_sender_id c) (wire_i32 ty) content extra 2
                 (sat_u64_i64 (cm_pts c)) 0 (sat_u64_i64 (cm_pts c)) no_stream))
      | Revoke_Message target who revoked_at \<Rightarrow>
          (''message_extra'', \<lparr>entity_id = show_u64 (cm_server_msg_id c), item_version = cm_pts c, deleted = False,
             payload = Some (JObj [(''message_id'', JInt (uint target)), (''revoke'', JBool True), (''revoked_by'', JInt (uint who)),
               (''revoked_at'', JInt revoked_at), (''channel_id'', JInt (uint (cm_channel_id c))),
               (''channel_type'', JInt (commit_type c))])\<rparr>)
      | Change_Reaction target actor emoji gone \<Rightarrow>
          (''message_reaction'', \<lparr>entity_id = show_u64 target @ '':'' @ show_u64 actor @ '':'' @ emoji, item_version = cm_pts c,
             deleted = False,
             payload = Some (JObj [(''message_id'', JInt (uint target)), (''uid'', JInt (uint actor)), (''emoji'', JStr emoji),
               (''deleted'', JBool gone), (''channel_id'', JInt (uint (cm_channel_id c))),
               (''channel_type'', JInt (commit_type c))])\<rparr>))"

text \<open>\<open>normalized_message_type_from_str\<close>; the number of a kind comes from the protocol crate.\<close>

definition message_kind_name :: "string \<Rightarrow> string" where
  "message_kind_name s =
     (let t = to_ascii_lowercase (trim s)
      in if t \<in> {''image'', ''file'', ''voice'', ''video'', ''system'', ''location'', ''sticker'', ''forward''} then t
         else if t = ''audio'' then ''file''
         else if t \<in> {''contact_card'', ''contactcard'', ''card''} then ''contact_card''
         else if t \<in> {''link'', ''url''} then ''link''
         else ''text'')"

definition normalized_message_type_from_str :: "frame_codecs \<Rightarrow> string \<Rightarrow> int" where
  "normalized_message_type_from_str fc s = fc_type_numbers fc (message_kind_name s)"

definition or_insert :: "string \<Rightarrow> json \<Rightarrow> json \<Rightarrow> json" where
  "or_insert k v j =
     (case j of JObj kvs \<Rightarrow> if map_of kvs k = None then JObj (kvs @ [(k, v)]) else j | _ \<Rightarrow> j)"

definition with_channel :: "server_commit \<Rightarrow> json \<Rightarrow> json" where
  "with_channel c j =
     or_insert ''channel_type'' (JInt (commit_type c)) (or_insert ''channel_id'' (JInt (uint (cm_channel_id c))) j)"

definition reaction_entity_id :: "server_commit \<Rightarrow> json \<Rightarrow> string" where
  "reaction_entity_id c j =
     (case j of
        JObj _ \<Rightarrow>
          (let mid = pick [Option.bind (json_get j ''message_id'') as_u64_json] (uint (cm_server_msg_id c));
               uid = pick [Option.bind (json_get j ''uid'') as_u64_json] 0;
               emoji = pick [Option.bind (json_get j ''emoji'') as_str_json] ''''
           in if uid > 0 \<and> emoji \<noteq> ''''
              then show_u64 (word_of_int mid) @ '':'' @ show_u64 (word_of_int uid) @ '':'' @ emoji
              else show_u64 (cm_server_msg_id c))
      | _ \<Rightarrow> show_u64 (cm_server_msg_id c))"

definition sync_item_from_legacy_difference_commit :: "frame_codecs \<Rightarrow> server_commit \<Rightarrow> string \<times> json_item" where
  "sync_item_from_legacy_difference_commit fc c =
     (if cm_message_type c \<in> {''message.revoke'', ''message_extra'', ''message_ext''} then
        (''message_extra'', \<lparr>entity_id = show_u64 (cm_server_msg_id c), item_version = cm_pts c, deleted = False,
           payload = Some (or_insert ''message_id'' (JInt (uint (cm_server_msg_id c))) (with_channel c (cm_content c)))\<rparr>)
      else if cm_message_type c \<in> {''message_reaction'', ''reaction'', ''message.reaction''} then
        (let j = with_channel c (cm_content c)
         in (''message_reaction'', \<lparr>entity_id = reaction_entity_id c j, item_version = cm_pts c, deleted = False,
               payload = Some j\<rparr>))
      else
        (let (content, extra) = normalized_message_content_and_extra (fc_print fc) (fc_parse fc) (cm_content c)
         in (''message'', build_message_sync_item fc (cm_server_msg_id c) (pick [cm_local_message_id c] 0) (cm_channel_id c)
               (commit_type c) (cm_server_timestamp c) (cm_sender_id c)
               (normalized_message_type_from_str fc (cm_message_type c)) content extra 2
               (sat_u64_i64 (cm_pts c)) 0 (sat_u64_i64 (cm_pts c)) no_stream)))"

text \<open>\<open>fc_resolve\<close> is the event of a commit whose canonical form is the one to use.\<close>

definition sync_item_from_difference_commit :: "frame_codecs \<Rightarrow> server_commit \<Rightarrow> string \<times> json_item" where
  "sync_item_from_difference_commit fc c =
     (case fc_resolve fc c of
        Some ev \<Rightarrow> sync_item_from_canonical_difference_event fc c ev
      | None \<Rightarrow> sync_item_from_legacy_difference_commit fc c)"

definition push_message_to_sync_item :: "frame_codecs \<Rightarrow> push_request \<Rightarrow> json_item" where
  "push_message_to_sync_item fc p =
     (let (content, extra) = payload_bytes_to_message_content_and_extra fc (ps_payload p);
          seq = uint (ps_message_seq p);
          c = from_push (ps_server_message_id p) (ps_local_message_id p) (ps_channel_id p) (uint (ps_channel_type p))
                (ps_from_uid p) (wire_i32 (ps_message_type p)) content (pick [extra] '''') seq (uint (ps_timestamp p));
          sx = \<lparr>sx_topic = Some (ps_topic p), sx_stream_no = Some (ps_stream_no p), sx_stream_seq = Some (uint (ps_stream_seq p)),
                sx_stream_flag = Some (uint (ps_stream_flag p)), sx_msg_key = Some (ps_msg_key p),
                sx_expire = Some (uint (ps_expire p))\<rparr>
      in (build_message_sync_item fc (c_server_message_id c) (c_local_message_id c) (c_channel_id c) (c_channel_type c)
            (c_sent_at_ms c) (c_from_uid c) (c_message_type c) (c_content c)
            (if c_extra c = '''' then None else Some (c_extra c)) 2 seq (if ps_need_receipt p then 1 else 0) seq sx)
           \<lparr>deleted := ps_deleted p\<rparr>)"

definition send_message_to_sync_item :: "frame_codecs \<Rightarrow> int \<Rightarrow> send_request \<Rightarrow> u8 \<Rightarrow> json_item option" where
  "send_message_to_sync_item fc now q ct =
     (if sq_local_message_id q = 0 then None
      else
        let (content, extra) = payload_bytes_to_message_content_and_extra fc (sq_payload q)
        in Some (build_message_sync_item fc (sq_local_message_id q) (sq_local_message_id q) (sq_channel_id q) (uint ct) now
             (sq_from_uid q) (wire_i32 (sq_message_type q)) content extra 2 0 (if sq_need_receipt q then 1 else 0) 0
             \<lparr>sx_topic = Some (sq_topic q), sx_stream_no = Some (sq_stream_no q), sx_stream_seq = Some 0,
              sx_stream_flag = Some 0, sx_msg_key = Some '''', sx_expire = Some (uint (sq_expire q))\<rparr>))"

subsection \<open>Notifications\<close>

fun json_path :: "json \<Rightarrow> string list \<Rightarrow> json option" where
  "json_path v [] = Some v"
| "json_path v (k # ks) = Option.bind (json_get v k) (\<lambda>x. json_path x ks)"

definition json_field_u64 :: "json \<Rightarrow> string list \<Rightarrow> u64 option" where
  "json_field_u64 v path =
     Option.bind (json_path v path) (\<lambda>x. first_some
       [map_option word_of_int (as_u64_json x),
        Option.bind (as_i64_json x) (\<lambda>n. if n \<ge> 0 then Some (word_of_int n) else None),
        Option.bind (as_str_json x) (\<lambda>s. map_option word_of_nat (parse_u64 s))])"

definition json_field_string :: "json \<Rightarrow> string list \<Rightarrow> string option" where
  "json_field_string v path = Option.bind (json_path v path) as_str_json"

definition read_cursor_notifications :: "string list" where
  "read_cursor_notifications =
     [''self_read_pts_updated'', ''peer_read_pts_updated'', ''user_read_pts'', ''channel_read_cursor_updated'']"

definition push_message_to_status_sync_item :: "frame_codecs \<Rightarrow> push_request \<Rightarrow> json_item option" where
  "push_message_to_status_sync_item fc p =
     (case fc_parse fc (ps_payload p) of
        None \<Rightarrow> None
      | Some v \<Rightarrow>
          (case json_field_string v [''metadata'', ''notification_type''] of
             None \<Rightarrow> None
           | Some kind \<Rightarrow>
               if kind \<notin> set read_cursor_notifications then None
               else
                 let field = (\<lambda>k d. pick [json_field_u64 v [''metadata'', k]] d);
                     cid = field ''channel_id'' 0; pts = field ''read_pts'' 0; ct = field ''channel_type'' 1;
                     reader = field ''reader_id'' 0;
                     updated = field ''updated_at'' (ucast (ps_timestamp p) * 1000);
                     version = max (max (max (ucast (ps_message_seq p)) updated) pts) 1;
                     ct32 = wrap_i32 (uint ct)
                 in if cid = 0 \<or> pts = 0 then None
                    else Some \<lparr>entity_id = show_u64 cid @ '':'' @ show_u64 reader, item_version = version, deleted = False,
                      payload = Some (JObj [(''channel_id'', JInt (uint cid)), (''channel_type'', JInt ct32), (''type'', JInt ct32),
                        (''reader_id'', JInt (uint reader)), (''last_read_pts'', JInt (uint pts)),
                        (''updated_at'', JInt (sat_u64_i64 updated))])\<rparr>))"

definition friend_topics :: "string list" where
  "friend_topics = [''friend.request.received'', ''friend.request.sent'', ''friend.request.status_changed'']"

definition push_message_to_friend_event :: "frame_codecs \<Rightarrow> push_request \<Rightarrow> u64 option" where
  "push_message_to_friend_event fc p =
     (if ps_topic p \<notin> set friend_topics then None
      else
        let v = pick [fc_parse fc (ps_payload p)] JNull
        in Some (pick [json_field_u64 v [''aggregate_id''], json_field_u64 v [''requester_id''],
                       json_field_u64 v [''from_user_id'']] (ps_from_uid p)))"

definition push_message_to_delivery_receipt :: "frame_codecs \<Rightarrow> push_request \<Rightarrow> (u64 \<times> int \<times> u64 \<times> u64) option" where
  "push_message_to_delivery_receipt fc p =
     (case fc_parse fc (ps_payload p) of
        None \<Rightarrow> None
      | Some v \<Rightarrow>
          if json_field_string v [''metadata'', ''notification_type''] = Some ''message_receipt_updated'' \<and>
             json_field_string v [''receipt_type''] = Some ''delivered''
          then (let sid = pick [json_field_u64 v [''server_message_id'']] 0
                in if sid = 0 then None
                   else Some (pick [json_field_u64 v [''metadata'', ''channel_id'']] 0,
                              wrap_i32 (uint (pick [json_field_u64 v [''metadata'', ''channel_type'']] 1)), sid,
                              pick [json_field_u64 v [''delivered_at'']] 0))
          else None)"

text \<open>The families an invalidation names, each pull once. The hash map gives no order; here it is that of
  the first mention.\<close>

definition invalidation_families :: "string list" where
  "invalidation_families = [''friend'', ''user'', ''group'', ''group_member'', ''channel'', ''channel_read_cursor'']"

definition entity_invalidation_pull_keys :: "frame_codecs \<Rightarrow> push_request \<Rightarrow> (string \<times> string option) list option" where
  "entity_invalidation_pull_keys fc p =
     (if ps_topic p \<noteq> fc_invalidation_topic fc then None
      else case fc_invalidation fc (ps_payload p) of
             None \<Rightarrow> Some []
           | Some (schema, its) \<Rightarrow>
               if schema \<noteq> fc_invalidation_schema fc then Some []
               else Some (rev (remdups (rev (filter (\<lambda>(et, _). et \<in> set invalidation_families) its)))))"

subsection \<open>The receiver\<close>

datatype frame_kind = SendFrame | PushFrame | PushBatchFrame | PublishFrame | OtherFrame

datatype 'ev inbound_event =
    FromPull 'ev
  | PulledFamily string "string option" nat nat nat
  | FriendChanged u64
  | RoomMessage publish_request
  | MessageDelivered u64 int u64 u64 u64

record 'ev inbound_state =
  ib_sync :: "(json, 'ev) timeline_state"
  ib_uid :: "string option"
  ib_buffer :: "(u8 \<times> string) list"
  ib_rooms :: "u64 \<Rightarrow> u64 list option"
  ib_presence :: "u64 \<Rightarrow> presence_status option"
  ib_events :: "'ev inbound_event list"

record 'ev inbound_setup =
  is_setup :: "(json, 'ev) sync_setup"
  is_live :: "(json, 'ev) applier"
  is_codecs :: frame_codecs
  is_kind :: "u8 \<Rightarrow> frame_kind"

text \<open>What the pushes of a frame leave to be done at its end.\<close>

record collected =
  cl_messages :: "json_item list"
  cl_cursors :: "json_item list"
  cl_receipts :: "(u64 \<times> int \<times> u64 \<times> u64) list"
  cl_direct :: nat

definition nothing_collected :: collected where
  "nothing_collected = \<lparr>cl_messages = [], cl_cursors = [], cl_receipts = [], cl_direct = 0\<rparr>"

definition announce :: "'ev inbound_event list \<Rightarrow> 'ev inbound_state \<Rightarrow> 'ev inbound_state" where
  "announce evs s = s\<lparr>ib_events := ib_events s @ evs\<rparr>"

definition in_sync :: "((json, 'ev) timeline_state \<Rightarrow> (json, 'ev) timeline_state \<times> 'a) \<Rightarrow> 'ev inbound_state \<Rightarrow>
    'ev inbound_state \<times> 'a" where
  "in_sync f s = (case f (ib_sync s) of (st, r) \<Rightarrow> (s\<lparr>ib_sync := st\<rparr>, r))"

fun pull_families ::
  "'ev inbound_setup \<Rightarrow> (string \<times> string option) list \<Rightarrow> nat \<Rightarrow> 'ev inbound_state \<Rightarrow> 'ev inbound_state \<times> nat result" where
  "pull_families ib [] n s = (s, Inr n)"
| "pull_families ib ((et, sp) # rest) n s =
     (case in_sync (sync_entities (is_setup ib) et sp) s of
        (s1, Inl e) \<Rightarrow> (s1, Inl e)
      | (s1, Inr k) \<Rightarrow>
          (let st = ib_sync s1
           in pull_families ib rest (n + k)
                (announce (map FromPull (last_sync_entity_events st) @
                       [PulledFamily et sp (last_sync_queued st) k (last_sync_dropped_duplicates st)]) s1)))"

definition apply_entity_invalidation_push ::
  "'ev inbound_setup \<Rightarrow> push_request \<Rightarrow> 'ev inbound_state \<Rightarrow> 'ev inbound_state \<times> nat option result" where
  "apply_entity_invalidation_push ib p s =
     (case entity_invalidation_pull_keys (is_codecs ib) p of
        None \<Rightarrow> (s, Inr None)
      | Some pulls \<Rightarrow>
          (case pull_families ib pulls 0 s of (s1, Inl e) \<Rightarrow> (s1, Inl e) | (s1, Inr n) \<Rightarrow> (s1, Inr (Some n))))"

definition push_commit :: "'ev inbound_setup \<Rightarrow> push_request \<Rightarrow> server_commit" where
  "push_commit ib p =
     \<lparr>cm_event_id = Some (ps_server_message_id p), cm_pts = ucast (ps_message_seq p),
      cm_server_msg_id = ps_server_message_id p, cm_local_message_id = None, cm_channel_id = ps_channel_id p,
      cm_channel_type = ps_channel_type p, cm_message_type = '''', cm_content = JNull,
      cm_server_timestamp = uint (ps_timestamp p) * 1000, cm_sender_id = ps_from_uid p,
      cm_event_schema_version = Some (co_schema_v1 (su_codec (is_setup ib))), cm_canonical_event = Some (ps_payload p)\<rparr>"

definition apply_canonical_timeline_push ::
  "'ev inbound_setup \<Rightarrow> push_request \<Rightarrow> 'ev inbound_state \<Rightarrow> 'ev inbound_state \<times> nat option result" where
  "apply_canonical_timeline_push ib p s =
     (let su = is_setup ib; fc = is_codecs ib; c = push_commit ib p; ct = uint (ps_channel_type p)
      in if ps_topic p \<noteq> fc_timeline_topic fc then (s, Inr None)
         else case fc_event fc (ps_payload p) of
                Inl m \<Rightarrow> (s, Inl (Serialization (''decode canonical timeline push: '' @ m)))
              | Inr ev \<Rightarrow>
                  (case in_sync (defer_if_target_missing (su_codec su) (su_env su) c) s of
                     (s1, Inl e) \<Rightarrow> (s1, Inl e)
                   | (s1, Inr True) \<Rightarrow> (s1, Inr (Some 0))
                   | (s1, Inr False) \<Rightarrow>
                       (case sync_item_from_canonical_difference_event fc c ev of (et, item) \<Rightarrow>
                          (case in_sync (apply_items (is_live ib) et (channel_scope (ps_channel_id p) ct) [item]) s1 of
                             (s2, Inl e) \<Rightarrow> (s2, Inl e)
                           | (s2, Inr n) \<Rightarrow>
                               if et = ''message'' \<and> \<not> deleted item
                               then (case in_sync (replay_pending (su_codec su) (is_live ib) (su_env su) (ps_channel_id p) ct
                                            (ps_server_message_id p)) s2 of
                                       (s3, Inl e) \<Rightarrow> (s3, Inl e)
                                     | (s3, Inr m) \<Rightarrow> (s3, Inr (Some (n + m))))
                               else (s2, Inr (Some n))))))"

text \<open>One push: the first of the readings that fits.\<close>

definition take_push ::
  "'ev inbound_setup \<Rightarrow> push_request \<Rightarrow> collected \<Rightarrow> 'ev inbound_state \<Rightarrow> 'ev inbound_state \<times> collected result" where
  "take_push ib p cl s =
     (let fc = is_codecs ib in
      case apply_entity_invalidation_push ib p s of
        (s1, Inl e) \<Rightarrow> (s1, Inl e)
      | (s1, Inr (Some n)) \<Rightarrow> (s1, Inr (cl\<lparr>cl_direct := cl_direct cl + n\<rparr>))
      | (s1, Inr None) \<Rightarrow>
          (case apply_canonical_timeline_push ib p s1 of
             (s2, Inl e) \<Rightarrow> (s2, Inl e)
           | (s2, Inr (Some n)) \<Rightarrow> (s2, Inr (cl\<lparr>cl_direct := cl_direct cl + n\<rparr>))
           | (s2, Inr None) \<Rightarrow>
               (case push_message_to_friend_event fc p of
                  Some peer \<Rightarrow> (announce [FriendChanged peer] s2, Inr cl)
                | None \<Rightarrow>
                    (case push_message_to_status_sync_item fc p of
                       Some item \<Rightarrow> (s2, Inr (cl\<lparr>cl_cursors := cl_cursors cl @ [item]\<rparr>))
                     | None \<Rightarrow>
                         (case push_message_to_delivery_receipt fc p of
                            Some r \<Rightarrow> (s2, Inr (cl\<lparr>cl_receipts := cl_receipts cl @ [r]\<rparr>))
                          | None \<Rightarrow> (s2, Inr (cl\<lparr>cl_messages := cl_messages cl @ [push_message_to_sync_item fc p]\<rparr>)))))))"

fun take_pushes ::
  "'ev inbound_setup \<Rightarrow> push_request list \<Rightarrow> collected \<Rightarrow> 'ev inbound_state \<Rightarrow> 'ev inbound_state \<times> collected result" where
  "take_pushes ib [] cl s = (s, Inr cl)"
| "take_pushes ib (p # ps) cl s =
     (case take_push ib p cl s of (s1, Inl e) \<Rightarrow> (s1, Inl e) | (s1, Inr cl1) \<Rightarrow> take_pushes ib ps cl1 s1)"

subsection \<open>Rooms\<close>

text \<open>A status only replaces one of a lower version.\<close>

definition update_presence :: "presence_status \<Rightarrow> (u64 \<Rightarrow> presence_status option) \<Rightarrow> u64 \<Rightarrow> presence_status option" where
  "update_presence v m =
     (case m (pz_user_id v) of
        Some old \<Rightarrow> if pz_version old \<ge> pz_version v then m else m(pz_user_id v \<mapsto> v)
      | None \<Rightarrow> m(pz_user_id v \<mapsto> v))"

text \<open>The state, and whether the frame is over.\<close>

definition room_publish :: "frame_codecs \<Rightarrow> publish_request \<Rightarrow> 'ev inbound_state \<Rightarrow> 'ev inbound_state \<times> bool" where
  "room_publish fc q s =
     (if pb_topic q = Some ''presence_changed''
      then (announce [RoomMessage q]
              (case fc_presence fc (pb_payload q) of
                 Some v \<Rightarrow> s\<lparr>ib_presence := update_presence v (ib_presence s)\<rparr> | None \<Rightarrow> s), False)
      else case room_message_is_duplicate (ib_rooms s) (pb_channel_id q) (pb_server_message_id q) of
             (rooms, dup) \<Rightarrow>
               (let s1 = s\<lparr>ib_rooms := rooms\<rparr> in if dup then (s1, True) else (announce [RoomMessage q] s1, False)))"

subsection \<open>The handler\<close>

definition PRELOGIN_LIMIT :: nat where "PRELOGIN_LIMIT = 256"

definition buffer_frame :: "u8 \<Rightarrow> string \<Rightarrow> (u8 \<times> string) list \<Rightarrow> (u8 \<times> string) list" where
  "buffer_frame b d fs = (if length fs \<ge> PRELOGIN_LIMIT then tl fs else fs) @ [(b, d)]"

definition deliver_receipts ::
  "'ev inbound_setup \<Rightarrow> (u64 \<times> int \<times> u64 \<times> u64) list \<Rightarrow> 'ev inbound_state \<Rightarrow> 'ev inbound_state" where
  "deliver_receipts ib rs s =
     fold (\<lambda>(cid, ct, sid, at_ms) s.
       (let w = world (ib_sync s); now = sa_clock (answers_to (su_env (is_setup ib)) (ib_sync s))
        in case mark_message_delivered now sid at_ms (w_db w) of
             (db, found) \<Rightarrow>
               (let s1 = s\<lparr>ib_sync := (ib_sync s)\<lparr>world := w\<lparr>w_db := db\<rparr>\<rparr>\<rparr>
                in case found of
                     Some mid \<Rightarrow> announce [MessageDelivered cid ct mid sid at_ms] s1
                   | None \<Rightarrow> s1))) rs s"

definition apply_if_any ::
  "'ev inbound_setup \<Rightarrow> string \<Rightarrow> json_item list \<Rightarrow> 'ev inbound_state \<Rightarrow> 'ev inbound_state \<times> nat result" where
  "apply_if_any ib et its s =
     (if its = [] then (s, Inr 0) else in_sync (apply_items (is_live ib) et None its) s)"

definition finish_frame ::
  "'ev inbound_setup \<Rightarrow> collected \<Rightarrow> 'ev inbound_state \<Rightarrow> 'ev inbound_state \<times> nat result" where
  "finish_frame ib cl s =
     (case and_then (apply_if_any ib ''message'' (cl_messages cl)) (apply_if_any ib ''channel_read_cursor'' (cl_cursors cl)) s of
        (s1, Inl e) \<Rightarrow> (s1, Inl e)
      | (s1, Inr n) \<Rightarrow> (deliver_receipts ib (cl_receipts cl) s1, Inr (cl_direct cl + n)))"

definition decode_failed :: "string \<Rightarrow> string \<Rightarrow> sdk_error" where
  "decode_failed what m = Serialization (''decode '' @ what @ '': '' @ m)"

definition send_channel_type :: "'ev inbound_setup \<Rightarrow> u64 \<Rightarrow> 'ev inbound_state \<Rightarrow> 'ev inbound_state \<times> u8" where
  "send_channel_type ib cid s =
     (let w = world (ib_sync s); co = su_codec (is_setup ib)
      in case get_channel_by_id (sa_clock (answers_to (su_env (is_setup ib)) (ib_sync s))) (co_uid co)
                (directory_of (side (w_db w))) cid (w_db w) of
           (db, found) \<Rightarrow>
             (s\<lparr>ib_sync := (ib_sync s)\<lparr>world := w\<lparr>w_db := db\<rparr>\<rparr>\<rparr>,
              case found of Some c \<Rightarrow> word_of_int (sc_channel_type c) | None \<Rightarrow> 1))"

definition after_pushes ::
  "'ev inbound_setup \<Rightarrow> push_request list \<Rightarrow> 'ev inbound_state \<Rightarrow> 'ev inbound_state \<times> nat result" where
  "after_pushes ib ps s =
     (case take_pushes ib ps nothing_collected s of
        (s1, Inl e) \<Rightarrow> (s1, Inl e)
      | (s1, Inr cl) \<Rightarrow> finish_frame ib cl s1)"

definition handle_inbound_frame ::
  "'ev inbound_setup \<Rightarrow> u8 \<Rightarrow> string \<Rightarrow> 'ev inbound_state \<Rightarrow> 'ev inbound_state \<times> nat result" where
  "handle_inbound_frame ib b d s =
     (let fc = is_codecs ib; kind = is_kind ib b
      in if ib_uid s = None then
           ((if kind = OtherFrame then s else s\<lparr>ib_buffer := buffer_frame b d (ib_buffer s)\<rparr>), Inr 0)
         else case kind of
           SendFrame \<Rightarrow>
             (case fc_send fc d of
                Inl m \<Rightarrow> (s, Inl (decode_failed ''send message request'' m))
              | Inr q \<Rightarrow>
                  (case send_channel_type ib (sq_channel_id q) s of (s1, ct) \<Rightarrow>
                     finish_frame ib (nothing_collected\<lparr>cl_messages :=
                       (case send_message_to_sync_item fc (sa_clock (answers_to (su_env (is_setup ib)) (ib_sync s1))) q ct of
                          Some item \<Rightarrow> [item] | None \<Rightarrow> [])\<rparr>) s1))
         | PushFrame \<Rightarrow>
             (case fc_push fc d of
                Inl m \<Rightarrow> (s, Inl (decode_failed ''push message'' m))
              | Inr p \<Rightarrow> after_pushes ib [p] s)
         | PushBatchFrame \<Rightarrow>
             (case fc_batch fc d of
                Inl m \<Rightarrow> (s, Inl (decode_failed ''push batch'' m))
              | Inr ps \<Rightarrow> after_pushes ib ps s)
         | PublishFrame \<Rightarrow>
             (case fc_publish fc d of
                Inl m \<Rightarrow> (s, Inl (decode_failed ''publish request'' m))
              | Inr q \<Rightarrow>
                  (case (fc_push fc (pb_payload q), fc_batch fc (pb_payload q)) of
                     (Inr p, _) \<Rightarrow> after_pushes ib [p] s
                   | (Inl _, Inr ps) \<Rightarrow> after_pushes ib ps s
                   | (Inl _, Inl _) \<Rightarrow>
                       (case room_publish fc q s of
                          (s1, over) \<Rightarrow> if over then (s1, Inr 0) else finish_frame ib nothing_collected s1)))
         | OtherFrame \<Rightarrow> (s, Inr 0))"

fun replay_frames ::
  "'ev inbound_setup \<Rightarrow> (u8 \<times> string) list \<Rightarrow> nat \<Rightarrow> 'ev inbound_state \<Rightarrow> 'ev inbound_state \<times> nat result" where
  "replay_frames ib [] n s = (s, Inr n)"
| "replay_frames ib ((b, d) # fs) n s =
     (case handle_inbound_frame ib b d s of
        (s1, Inl e) \<Rightarrow> (s1, Inl e)
      | (s1, Inr k) \<Rightarrow> replay_frames ib fs (n + k) s1)"

definition replay_prelogin_inbound_frames ::
  "'ev inbound_setup \<Rightarrow> 'ev inbound_state \<Rightarrow> 'ev inbound_state \<times> nat result" where
  "replay_prelogin_inbound_frames ib s =
     (if ib_uid s = None \<or> ib_buffer s = [] then (s, Inr 0)
      else replay_frames ib (ib_buffer s) 0 (s\<lparr>ib_buffer := []\<rparr>))"

text \<open>\<open>Command::InboundFrame\<close>: what the host is told once the frame is handled, besides the events above.\<close>

definition inbound_frame ::
  "'ev inbound_setup \<Rightarrow> u8 \<Rightarrow> string \<Rightarrow> 'ev inbound_state \<Rightarrow> 'ev inbound_state \<times> 'ev list" where
  "inbound_frame ib b d s =
     (case handle_inbound_frame ib b d s of
        (s1, Inr n) \<Rightarrow> (s1, if n > 0 then last_sync_entity_events (ib_sync s1) else [])
      | (s1, Inl _) \<Rightarrow> (s1, []))"

subsection \<open>Frames before the login\<close>

definition bufferable :: "'ev inbound_setup \<Rightarrow> u8 \<times> string \<Rightarrow> bool" where
  "bufferable ib f \<longleftrightarrow> is_kind ib (fst f) \<noteq> OtherFrame"

fun receive_frames :: "'ev inbound_setup \<Rightarrow> (u8 \<times> string) list \<Rightarrow> 'ev inbound_state \<Rightarrow> 'ev inbound_state" where
  "receive_frames ib [] s = s"
| "receive_frames ib ((b, d) # fs) s = receive_frames ib fs (fst (handle_inbound_frame ib b d s))"

lemma buffer_last:
  "buffer_frame b d (drop (length fs - PRELOGIN_LIMIT) fs) =
     drop (length (fs @ [(b, d)]) - PRELOGIN_LIMIT) (fs @ [(b, d)])"
proof (cases "PRELOGIN_LIMIT \<le> length fs")
  case True
  then have "tl (drop (length fs - PRELOGIN_LIMIT) fs) = drop (Suc (length fs) - PRELOGIN_LIMIT) fs"
    by (simp add: Suc_diff_le drop_Suc tl_drop)
  moreover have "Suc 0 - PRELOGIN_LIMIT = 0" by (simp add: PRELOGIN_LIMIT_def)
  ultimately show ?thesis using True by (simp add: buffer_frame_def)
qed (simp add: buffer_frame_def)

lemma handle_without_uid:
  "ib_uid s = None \<Longrightarrow> handle_inbound_frame ib b d s =
     ((if bufferable ib (b, d) then s\<lparr>ib_buffer := buffer_frame b d (ib_buffer s)\<rparr> else s), Inr 0)"
  by (simp add: handle_inbound_frame_def bufferable_def)

lemma receive_without_uid:
  "ib_uid s = None \<Longrightarrow> ib_buffer s = drop (length gs - PRELOGIN_LIMIT) gs \<Longrightarrow>
     receive_frames ib fs s =
       s\<lparr>ib_buffer := (let all = gs @ filter (bufferable ib) fs in drop (length all - PRELOGIN_LIMIT) all)\<rparr>"
proof (induction fs arbitrary: s gs)
  case Nil then show ?case by simp
next
  case (Cons f fs)
  obtain b d where f: "f = (b, d)" by fastforce
  show ?case
  proof (cases "bufferable ib (b, d)")
    case True
    have "buffer_frame b d (ib_buffer s) = drop (length (gs @ [(b, d)]) - PRELOGIN_LIMIT) (gs @ [(b, d)])"
      using Cons.prems(2) buffer_last by metis
    then show ?thesis
      using Cons.IH [of "s\<lparr>ib_buffer := buffer_frame b d (ib_buffer s)\<rparr>" "gs @ [(b, d)]"] Cons.prems True
      by (simp add: f handle_without_uid Let_def)
  next
    case False
    then show ?thesis using Cons by (simp add: f handle_without_uid)
  qed
qed


lemma replay_frames_append:
  "replay_frames ib (fs @ gs) n s =
     (case replay_frames ib fs n s of (s1, Inl e) \<Rightarrow> (s1, Inl e) | (s1, Inr k) \<Rightarrow> replay_frames ib gs k s1)"
  by (induction ib fs n s rule: replay_frames.induct) (auto split: prod.splits sum.splits)

text \<open>The replay ends at the first frame that fails, and the frames after it are gone. The buffer has been
  taken before the loop: the result does not depend on the later frames, which no second replay finds.\<close>

theorem replay_stops_at_first_failure:
  assumes "ib_uid s \<noteq> None" and "ib_buffer s = fs @ (b, d) # rest"
    and "replay_frames ib fs 0 (s\<lparr>ib_buffer := []\<rparr>) = (s1, Inr k)"
    and "handle_inbound_frame ib b d s1 = (s2, Inl e)"
  shows "replay_prelogin_inbound_frames ib s = (s2, Inl e) \<and>
    replay_prelogin_inbound_frames ib (s\<lparr>ib_buffer := fs @ [(b, d)]\<rparr>) = (s2, Inl e)"
  using assms by (simp add: replay_prelogin_inbound_frames_def replay_frames_append)

subsection \<open>Batches\<close>

definition plain_push :: "frame_codecs \<Rightarrow> push_request \<Rightarrow> bool" where
  "plain_push fc p \<longleftrightarrow> ps_topic p \<notin> {fc_invalidation_topic fc, fc_timeline_topic fc} \<union> set friend_topics"

lemma take_plain:
  assumes "plain_push (is_codecs ib) p"
  shows "take_push ib p cl s =
    (case push_message_to_status_sync_item (is_codecs ib) p of
       Some item \<Rightarrow> (s, Inr (cl\<lparr>cl_cursors := cl_cursors cl @ [item]\<rparr>))
     | None \<Rightarrow>
         (case push_message_to_delivery_receipt (is_codecs ib) p of
            Some r \<Rightarrow> (s, Inr (cl\<lparr>cl_receipts := cl_receipts cl @ [r]\<rparr>))
          | None \<Rightarrow> (s, Inr (cl\<lparr>cl_messages := cl_messages cl @ [push_message_to_sync_item (is_codecs ib) p]\<rparr>))))"
  using assms
  by (simp add: take_push_def plain_push_def apply_entity_invalidation_push_def entity_invalidation_pull_keys_def
      apply_canonical_timeline_push_def push_message_to_friend_event_def Let_def)

lemma take_plain_only_collects:
  "plain_push (is_codecs ib) p \<Longrightarrow> \<exists>cl'. take_push ib p cl s = (s, Inr cl')"
  by (auto simp: take_plain split: option.splits)

lemma take_pushes_plain:
  "list_all (plain_push (is_codecs ib)) ps \<Longrightarrow> \<exists>cl'. take_pushes ib (ps @ qs) cl s = take_pushes ib qs cl' s"
proof (induction ps arbitrary: cl)
  case (Cons p ps)
  then obtain cl1 where "take_push ib p cl s = (s, Inr cl1)" using take_plain_only_collects by fastforce
  then show ?case using Cons by simp
qed auto

lemma take_push_failed_pull:
  "apply_entity_invalidation_push ib p s = (s1, Inl e) \<Longrightarrow> take_push ib p cl s = (s1, Inl e)"
  by (simp add: take_push_def Let_def)

text \<open>C36. In a batch, the messages wait until every push has been read, and a failure throws them away. When an
  invalidation in the batch cannot be pulled, the frame ends as a batch of that push alone would: none of the
  messages before or after it is stored or even queued, and nothing is said of them.\<close>

theorem failed_pull_loses_batch:
  assumes "ib_uid s \<noteq> None" and "is_kind ib b = PushBatchFrame"
    and "fc_batch (is_codecs ib) d = Inr (ps @ p # qs)" and "fc_batch (is_codecs ib) d' = Inr [p]"
    and "list_all (plain_push (is_codecs ib)) ps"
    and "apply_entity_invalidation_push ib p s = (s1, Inl e)"
  shows "handle_inbound_frame ib b d s = (s1, Inl e) \<and> handle_inbound_frame ib b d' s = (s1, Inl e) \<and>
    inbound_frame ib b d s = (s1, [])"
proof -
  obtain cl where "take_pushes ib (ps @ p # qs) nothing_collected s = take_pushes ib (p # qs) cl s"
    using take_pushes_plain [OF assms(5)] by blast
  then have "after_pushes ib (ps @ p # qs) s = (s1, Inl e)" "after_pushes ib [p] s = (s1, Inl e)"
    using take_push_failed_pull [OF assms(6)] by (simp_all add: after_pushes_def)
  then show ?thesis using assms by (simp add: handle_inbound_frame_def inbound_frame_def Let_def)
qed

lemma evict_keys_subset: "fst (evict_keys l ks os) \<subseteq> ks"
  by (induction l ks os rule: evict_keys.induct) auto

lemma enqueue_fresh:
  assumes "queue p = []" and "dedupe_key et sp item \<notin> recent_keys p"
  obtains p' where "enqueue p et sp [item] = (p', \<lparr>queued_items = 1, dropped_duplicates = 0\<rparr>)"
    and "queue p' = [\<lparr>entity_type = et, scope = sp, items = [item]\<rparr>]"
    and "recent_keys p' \<subseteq> insert (dedupe_key et sp item) (recent_keys p)"
proof -
  obtain ks os where e: "evict_keys (recent_key_limit p) (insert (dedupe_key et sp item) (recent_keys p))
      (recent_key_order p @ [dedupe_key et sp item]) = (ks, os)" by fastforce
  then have "ks \<subseteq> insert (dedupe_key et sp item) (recent_keys p)"
    using evict_keys_subset by (metis fst_conv)
  moreover have "enqueue p et sp [item] =
      (p\<lparr>recent_keys := ks, recent_key_order := os, queue := [\<lparr>entity_type = et, scope = sp, items = [item]\<rparr>]\<rparr>,
       \<lparr>queued_items = 1, dropped_duplicates = 0\<rparr>)"
    using assms e by (simp add: enqueue_def remember_key_def Let_def)
  ultimately show ?thesis using that by simp
qed

lemma apply_fresh:
  assumes "queue (pipeline st) = []" and "dedupe_key et sp item \<notin> recent_keys (pipeline st)"
    and "appl (w_db (world st)) \<lparr>entity_type = et, scope = sp, items = [item]\<rparr> = (db, Inr ev)"
  obtains st' where "apply_items appl et sp [item] st = (st', Inr 1)" and "world st' = (world st)\<lparr>w_db := db\<rparr>"
    and "last_sync_entity_events st' = ev" and "queue (pipeline st') = []"
    and "recent_keys (pipeline st') \<subseteq> insert (dedupe_key et sp item) (recent_keys (pipeline st))"
proof -
  obtain p' where p': "enqueue (pipeline st) et sp [item] = (p', \<lparr>queued_items = 1, dropped_duplicates = 0\<rparr>)"
    "queue p' = [\<lparr>entity_type = et, scope = sp, items = [item]\<rparr>]"
    "recent_keys p' \<subseteq> insert (dedupe_key et sp item) (recent_keys (pipeline st))"
    using enqueue_fresh [OF assms(1,2)] by blast
  then have "apply_items appl et sp [item] st = (st\<lparr>last_sync_entity_events := ev, last_sync_queued := 1,
      last_sync_dropped_duplicates := 0, world := (world st)\<lparr>w_db := db\<rparr>, pipeline := p'\<lparr>queue := []\<rparr>\<rparr>, Inr 1)"
    using assms(3) by (simp add: apply_items_def enqueue_and_apply_sync_items_def drain_batches_eq on_db_def)
  from that [OF this] show ?thesis using p' by simp
qed

text \<open>One frame, one announcement. A batch with a message and a read cursor stores both, but the host hears
  only what the read cursor changed: each apply begins by clearing the list the events of the frame are read
  from, and nothing has taken the message's events before the second apply does.\<close>

theorem batch_announces_only_its_last_apply:
  assumes "ib_uid s \<noteq> None" and "is_kind ib b = PushBatchFrame" and "fc_batch (is_codecs ib) d = Inr [p, q]"
    and "plain_push (is_codecs ib) p" and "push_message_to_status_sync_item (is_codecs ib) p = None"
    and "push_message_to_delivery_receipt (is_codecs ib) p = None"
    and "plain_push (is_codecs ib) q" and "push_message_to_status_sync_item (is_codecs ib) q = Some c"
    and "m = push_message_to_sync_item (is_codecs ib) p" and "pl = pipeline (ib_sync s)" and "queue pl = []"
    and "{dedupe_key ''message'' None m, dedupe_key ''channel_read_cursor'' None c} \<inter> recent_keys pl = {}"
    and "is_live ib (w_db (world (ib_sync s))) \<lparr>entity_type = ''message'', scope = None, items = [m]\<rparr> = (db1, Inr ev1)"
    and "is_live ib db1 \<lparr>entity_type = ''channel_read_cursor'', scope = None, items = [c]\<rparr> = (db2, Inr ev2)"
  shows "\<exists>s'. inbound_frame ib b d s = (s', ev2) \<and> w_db (world (ib_sync s')) = db2 \<and> ib_events s' = ib_events s"
proof -
  obtain st1 where one: "apply_items (is_live ib) ''message'' None [m] (ib_sync s) = (st1, Inr 1)"
      "world st1 = (world (ib_sync s))\<lparr>w_db := db1\<rparr>" "queue (pipeline st1) = []"
      "recent_keys (pipeline st1) \<subseteq> insert (dedupe_key ''message'' None m) (recent_keys pl)"
    using apply_fresh [of "ib_sync s" "''message''" None m "is_live ib" db1 ev1] assms(10-13) by auto
  have "dedupe_key ''message'' None m \<noteq> dedupe_key ''channel_read_cursor'' None c" by (simp add: dedupe_key_def)
  then have "dedupe_key ''channel_read_cursor'' None c \<notin> recent_keys (pipeline st1)"
    using one(4) assms(12) by auto
  then obtain st2 where two: "apply_items (is_live ib) ''channel_read_cursor'' None [c] st1 = (st2, Inr 1)"
      "world st2 = (world st1)\<lparr>w_db := db2\<rparr>" "last_sync_entity_events st2 = ev2"
    using apply_fresh [of st1 "''channel_read_cursor''" None c "is_live ib" db2 ev2] one(2,3) assms(14) by auto
  have "take_pushes ib [p, q] nothing_collected s = (s, Inr (nothing_collected\<lparr>cl_messages := [m], cl_cursors := [c]\<rparr>))"
    using assms(4-9) by (simp add: take_plain nothing_collected_def)
  then have "after_pushes ib [p, q] s = (s\<lparr>ib_sync := st2\<rparr>, Inr 2)"
    using one two by (simp add: after_pushes_def finish_frame_def apply_if_any_def in_sync_def nothing_collected_def
        deliver_receipts_def and_then_def)
  then show ?thesis using assms(1-3) two(2,3) by (auto simp: inbound_frame_def handle_inbound_frame_def Let_def)
qed

subsection \<open>Runs of the examples\<close>

definition example_push :: "string \<Rightarrow> string \<Rightarrow> push_request" where
  "example_push topic body =
     \<lparr>ps_server_message_id = 9, ps_local_message_id = 0, ps_channel_id = 7, ps_channel_type = 1, ps_from_uid = 5,
      ps_message_type = 0, ps_message_seq = 3, ps_timestamp = 1785148272, ps_payload = body, ps_topic = topic,
      ps_stream_no = '''', ps_stream_seq = 0, ps_stream_flag = 0, ps_msg_key = '''', ps_expire = 0, ps_need_receipt = False,
      ps_deleted = False\<rparr>"

definition text_push :: push_request where "text_push = example_push '''' ''hello''"
definition cursor_push :: push_request where "cursor_push = example_push '''' ''cursor''"
definition hint_push :: push_request where "hint_push = example_push ''hints'' ''batch''"

definition cursor_json :: json where
  "cursor_json = JObj [(''metadata'', JObj [(''notification_type'', JStr ''user_read_pts''), (''channel_id'', JInt 7),
     (''read_pts'', JInt 2)])]"

definition frame_examples :: frame_codecs where
  "frame_examples =
     \<lparr>fc_send = (\<lambda>_. Inl ''short''), fc_push = (\<lambda>_. Inl ''short''),
      fc_batch = (\<lambda>d. if d = ''mixed'' then Inr [text_push, cursor_push]
        else if d = ''hinted'' then Inr [text_push, hint_push] else Inr [hint_push]),
      fc_publish = (\<lambda>_. Inl ''short''), fc_envelope = (\<lambda>_. None),
      fc_parse = (\<lambda>s. if s = ''cursor'' then Some cursor_json else None), fc_print = (\<lambda>_. ''''),
      fc_event = (\<lambda>_. Inl ''short''), fc_invalidation = (\<lambda>_. Some (1, [(''user'', None)])), fc_invalidation_schema = 1,
      fc_presence = (\<lambda>_. None), fc_message_json = (\<lambda>_ _. JNull), fc_type_numbers = (\<lambda>_. 0), fc_resolve = (\<lambda>_. None),
      fc_timeline_topic = ''timeline'', fc_invalidation_topic = ''hints''\<rparr>"

definition json_codec :: "json codec" where
  "json_codec = \<lparr>co_codes = example_codes, co_schema_v1 = 1, co_resolve = \<lambda>_. None,
     co_encode = \<lambda>_. Inr ''e'', co_decode = \<lambda>b. Inr (NewMessageEvent b),
     co_item = sync_item_from_difference_commit frame_examples,
     co_history = \<lambda>i ct. to_upsert_input (from_history_item (\<lambda>_. '''') i ct (\<lambda>_. 0)) 2 None, co_uid = ''4'',
     co_current_uid = Some ''4'', co_directory = \<lparr>dir_users = [], dir_groups = [], dir_members = []\<rparr>\<rparr>"

definition naming_families :: "(json, string) applier" where
  "naming_families db b = (db, Inr [entity_type b])"

definition receiver :: "string inbound_setup" where
  "receiver =
     \<lparr>is_setup = \<lparr>su_codec = json_codec, su_apply = naming_families, su_env = (\<lambda>_. quiet_answers),
        su_server = \<lparr>es_pages = (\<lambda>_ _ _ _. Request_Failed NotConnected), es_ready = (\<lambda>_. Reply True), es_flag_fault = (\<lambda>_. None)\<rparr>,
        su_payload = (\<lambda>_ _ _. ''repair'')\<rparr>,
      is_live = naming_families, is_codecs = frame_examples,
      is_kind = (\<lambda>b. if b = 5 then PushFrame else if b = 7 then PushBatchFrame else OtherFrame)\<rparr>"

definition listening :: "string option \<Rightarrow> (u8 \<times> string) list \<Rightarrow> string inbound_state" where
  "listening who waiting =
     \<lparr>ib_sync = \<lparr>world = \<lparr>w_db = empty_db, w_kv = \<lambda>_. None, w_pending = [], w_asked = [], w_calls = 0\<rparr>,
        pipeline = default_pipeline, last_sync_queued = 0, last_sync_dropped_duplicates = 0, last_sync_entity_events = []\<rparr>,
      ib_uid = who, ib_buffer = waiting, ib_rooms = (\<lambda>_. None), ib_presence = (\<lambda>_. None), ib_events = []\<rparr>"

lemma listening_parts [simp]:
  "ib_uid (listening who waiting) = who" "ib_buffer (listening who waiting) = waiting"
  "ib_events (listening who waiting) = []" "pipeline (ib_sync (listening who waiting)) = default_pipeline"
  "(listening who waiting)\<lparr>ib_uid := v\<rparr> = listening v waiting"
  "(listening who waiting)\<lparr>ib_buffer := w\<rparr> = listening who w"
  "is_codecs receiver = frame_examples" "is_live receiver = naming_families"
  "is_kind receiver 5 = PushFrame" "is_kind receiver 7 = PushBatchFrame"
  by (simp_all add: listening_def receiver_def)

lemma frame_parts [simp]:
  "fc_batch frame_examples ''mixed'' = Inr [text_push, cursor_push]"
  "fc_batch frame_examples ''hinted'' = Inr [text_push, hint_push]"
  "fc_batch frame_examples ''hint'' = Inr [hint_push]"
  "fc_push frame_examples d = Inl ''short''"
  by (simp_all add: frame_examples_def)


lemma short_frame_fails:
  "handle_inbound_frame receiver 5 d (listening (Some u) w) = (listening (Some u) w, Inl (decode_failed ''push message'' ''short''))"
  by (simp add: handle_inbound_frame_def)

theorem replay_stops_at_first_failure_witness:
  "replay_prelogin_inbound_frames receiver (listening (Some ''4'') [(5, ''x''), (7, ''mixed'')]) =
     (listening (Some ''4'') [], Inl (decode_failed ''push message'' ''short''))"
  using replay_stops_at_first_failure [of "listening (Some ''4'') [(5, ''x''), (7, ''mixed'')]" "[]" 5 "''x''" "[(7, ''mixed'')]" receiver
      "listening (Some ''4'') []" 0, OF _ _ _ short_frame_fails]
  by simp

lemma plain_examples: "plain_push frame_examples text_push" "plain_push frame_examples cursor_push"
  by (simp_all add: plain_push_def frame_examples_def text_push_def cursor_push_def example_push_def friend_topics_def)

lemma unreachable_family:
  assumes "es_pages (su_server su) (calls st) et sp (start_version et sp st) = Request_Failed e"
  shows "\<exists>s1. sync_entities su et sp st = (s1, Inl e) \<and> w_db (world s1) = w_db (world st) \<and> pipeline s1 = pipeline st"
proof -
  let ?st = "st\<lparr>last_sync_entity_events := []\<rparr>"
  obtain n where n: "MAX_PAGES = Suc n" by (metis MAX_PAGES_def gr0_implies_Suc zero_less_numeral)
  have "start_version et sp ?st = start_version et sp st" "calls ?st = calls st"
    by (simp_all add: start_version_def load_sync_since_version_def calls_def)
  then have "entity_pages su et sp MAX_PAGES False (start_version et sp ?st) 0 0 ?st =
      (ask (SyncEntities et sp (start_version et sp st)) ?st, Inl e)"
    unfolding n using assms by (simp add: rpc_result_def Let_def)
  then show ?thesis by (simp add: sync_entities_def ask_def on_world_def Let_def)
qed

lemma hint_pull_fails:
  "\<exists>s1. apply_entity_invalidation_push receiver hint_push (listening (Some ''4'') []) = (s1, Inl NotConnected) \<and>
     w_db (world (ib_sync s1)) = empty_db \<and> queue (pipeline (ib_sync s1)) = []"
proof -
  let ?s = "listening (Some ''4'') []"
  have keys: "entity_invalidation_pull_keys frame_examples hint_push = Some [(''user'', None)]"
    by (simp add: entity_invalidation_pull_keys_def frame_examples_def hint_push_def example_push_def invalidation_families_def)
  obtain s1 where "sync_entities (is_setup receiver) ''user'' None (ib_sync ?s) = (s1, Inl NotConnected)"
      "w_db (world s1) = empty_db" "pipeline s1 = default_pipeline"
    using unreachable_family [of "is_setup receiver" "ib_sync ?s" "''user''" None NotConnected]
    by (auto simp: receiver_def listening_def)
  then show ?thesis
    by (simp add: apply_entity_invalidation_push_def keys in_sync_def default_pipeline_def new_pipeline_def)
qed

theorem failed_pull_loses_batch_witness:
  "\<exists>s1. inbound_frame receiver 7 ''hinted'' (listening (Some ''4'') []) = (s1, []) \<and>
     handle_inbound_frame receiver 7 ''hinted'' (listening (Some ''4'') []) = (s1, Inl NotConnected) \<and>
     w_db (world (ib_sync s1)) = empty_db \<and> queue (pipeline (ib_sync s1)) = []"
proof -
  obtain s1 where s1: "apply_entity_invalidation_push receiver hint_push (listening (Some ''4'') []) = (s1, Inl NotConnected)"
      "w_db (world (ib_sync s1)) = empty_db" "queue (pipeline (ib_sync s1)) = []"
    using hint_pull_fails by blast
  show ?thesis
    using failed_pull_loses_batch [of "listening (Some ''4'') []" receiver 7 "''hinted''" "[text_push]" hint_push "[]" "''hint''" s1 NotConnected] s1
    by (simp add: plain_examples)
qed

lemma cursor_item: "\<exists>c. push_message_to_status_sync_item frame_examples cursor_push = Some c"
  by (simp add: push_message_to_status_sync_item_def frame_examples_def cursor_push_def example_push_def cursor_json_def
      json_field_string_def json_field_u64_def read_cursor_notifications_def pick_def Let_def)

lemma text_is_a_message:
  "push_message_to_status_sync_item frame_examples text_push = None"
  "push_message_to_delivery_receipt frame_examples text_push = None"
  by (simp_all add: push_message_to_status_sync_item_def push_message_to_delivery_receipt_def frame_examples_def text_push_def
      example_push_def)

theorem batch_announces_only_its_last_apply_witness:
  "snd (inbound_frame receiver 7 ''mixed'' (listening (Some ''4'') [])) = [''channel_read_cursor'']"
proof -
  obtain c where c: "push_message_to_status_sync_item frame_examples cursor_push = Some c" using cursor_item by blast
  have pl: "queue default_pipeline = []" "recent_keys default_pipeline = {}"
    by (simp_all add: default_pipeline_def new_pipeline_def)
  show ?thesis
    using batch_announces_only_its_last_apply [of "listening (Some ''4'') []" receiver 7 "''mixed''" text_push cursor_push c
        "push_message_to_sync_item frame_examples text_push" "default_pipeline" _ "[''message'']" _ "[''channel_read_cursor'']"]
    by (auto simp: plain_examples text_is_a_message c pl naming_families_def)
qed

end
