(* ===== verification/Timeline_Cache.thy ===== *)
theory Timeline_Cache
  imports Message_Store "HOL-Library.Sublist"
begin

text \<open>
  The in-memory cache of conversation pages in \<open>lib.rs\<close>: \<open>query_timeline_snapshot\<close> and what it keeps, its
  budgets, and the events that invalidate it. Byte counts stay far below \<open>2 ^ 64\<close>, so their saturating
  sums are plain sums. The generation is compared before and after a read that nothing can interrupt.
\<close>

subsection \<open>Policy and state\<close>

type_synonym u16 = "16 word"

record cache_config =
  cf_per_channel_budget_bytes :: u32
  cf_global_budget_bytes :: u32
  cf_min_messages :: u16
  cf_max_messages :: u16

datatype cache_policy = CacheDisabled | CacheEnabled cache_config

definition default_cache_config :: cache_config where
  "default_cache_config = \<lparr>cf_per_channel_budget_bytes = 64 * 1024, cf_global_budget_bytes = 8 * 1024 * 1024,
     cf_min_messages = 10, cf_max_messages = 200\<rparr>"

type_synonym cache_key = "u64 \<times> int"

record cached_page =
  cg_messages :: "stored_message list"
  cg_estimated_bytes :: nat
  cg_has_more_before :: bool

record timeline_cache =
  tc_policy :: cache_policy
  tc_pages :: "cache_key \<Rightarrow> cached_page option"
  tc_generation :: "cache_key \<Rightarrow> u64 option"
  tc_lru :: "cache_key list"
  tc_total_bytes :: nat
  tc_hits :: u64
  tc_misses :: u64

record timeline_snapshot =
  tn_messages :: "stored_message list"
  tn_newest_message_id :: "u64 option"
  tn_oldest_message_id :: "u64 option"
  tn_has_more_before :: bool
  tn_from_cache :: bool

definition sat_succ :: "u64 \<Rightarrow> u64" where "sat_succ v = (if v = - 1 then v else v + 1)"

definition estimate_message_bytes :: "stored_message \<Rightarrow> nat" where
  "estimate_message_bytes m = 96 + length (sm_content m) + length (sm_extra m)"

definition cap_of :: "nat \<Rightarrow> nat" where "cap_of limit = max limit 1"

subsection \<open>Operations\<close>

definition touch_cache_lru :: "cache_key \<Rightarrow> timeline_cache \<Rightarrow> timeline_cache" where
  "touch_cache_lru k c = c\<lparr>tc_lru := remove1 k (tc_lru c) @ [k]\<rparr>"

definition page_bytes :: "timeline_cache \<Rightarrow> cache_key \<Rightarrow> nat" where
  "page_bytes c k = (case tc_pages c k of Some p \<Rightarrow> cg_estimated_bytes p | None \<Rightarrow> 0)"

definition evict_channel_cache :: "cache_key \<Rightarrow> timeline_cache \<Rightarrow> timeline_cache" where
  "evict_channel_cache k c =
     c\<lparr>tc_total_bytes := tc_total_bytes c - page_bytes c k, tc_pages := (tc_pages c)(k := None),
       tc_lru := remove1 k (tc_lru c)\<rparr>"

text \<open>The least recently used pages go while the total is over the budget.\<close>

fun drop_oldest :: "nat \<Rightarrow> cache_key list \<Rightarrow> timeline_cache \<Rightarrow> timeline_cache" where
  "drop_oldest budget [] c = c\<lparr>tc_lru := []\<rparr>"
| "drop_oldest budget (k # ks) c =
     (if tc_total_bytes c \<le> budget then c\<lparr>tc_lru := k # ks\<rparr>
      else drop_oldest budget ks
             (c\<lparr>tc_total_bytes := tc_total_bytes c - page_bytes c k, tc_pages := (tc_pages c)(k := None)\<rparr>))"

definition enforce_global_cache_budget :: "timeline_cache \<Rightarrow> timeline_cache" where
  "enforce_global_cache_budget c =
     (case tc_policy c of
        CacheDisabled \<Rightarrow> c
      | CacheEnabled cfg \<Rightarrow> drop_oldest (unat (cf_global_budget_bytes cfg)) (tc_lru c) c)"

definition generation_of :: "timeline_cache \<Rightarrow> cache_key \<Rightarrow> u64" where
  "generation_of c k = (case tc_generation c k of Some g \<Rightarrow> g | None \<Rightarrow> 0)"

definition invalidate_channel_cache :: "cache_key \<Rightarrow> timeline_cache \<Rightarrow> timeline_cache" where
  "invalidate_channel_cache k c =
     evict_channel_cache k (c\<lparr>tc_generation := (tc_generation c)(k \<mapsto> sat_succ (generation_of c k))\<rparr>)"

text \<open>The conversations the events name as updated, in order.\<close>

definition invalidate_cache_for_events :: "cache_key list \<Rightarrow> timeline_cache \<Rightarrow> timeline_cache" where
  "invalidate_cache_for_events ks c = fold invalidate_channel_cache ks c"

text \<open>The deque of \<open>store_channel_cache\<close>, its back first. A message goes in at the back, and the back goes
  out again while there are too many messages or too many bytes, down to the minimum.\<close>

fun shed :: "nat \<Rightarrow> nat \<Rightarrow> nat \<Rightarrow> stored_message list \<Rightarrow> nat \<Rightarrow> stored_message list \<times> nat" where
  "shed lo hi budget [] n = ([], n)"
| "shed lo hi budget (m # ms) n =
     (if lo < length (m # ms) \<and> (hi < length (m # ms) \<or> budget < n)
      then shed lo hi budget ms (n - estimate_message_bytes m)
      else (m # ms, n))"

fun fill :: "nat \<Rightarrow> nat \<Rightarrow> nat \<Rightarrow> stored_message list \<Rightarrow> stored_message list \<Rightarrow> nat \<Rightarrow> stored_message list \<times> nat" where
  "fill lo hi budget [] dq n = (dq, n)"
| "fill lo hi budget (m # ms) dq n =
     (case shed lo hi budget (m # dq) (n + estimate_message_bytes m) of (dq', n') \<Rightarrow> fill lo hi budget ms dq' n')"

definition at_least_one :: "u16 \<Rightarrow> nat" where "at_least_one v = max (unat v) 1"

definition kept_messages :: "cache_config \<Rightarrow> stored_message list \<Rightarrow> stored_message list \<times> nat" where
  "kept_messages cfg ms =
     (let hi = at_least_one (cf_max_messages cfg);
          lo = at_least_one (min (cf_min_messages cfg) (cf_max_messages cfg))
      in case fill lo hi (unat (cf_per_channel_budget_bytes cfg)) (take hi ms) [] 0 of (dq, n) \<Rightarrow> (rev dq, n))"

definition store_channel_cache :: "cache_key \<Rightarrow> stored_message list \<Rightarrow> bool \<Rightarrow> timeline_cache \<Rightarrow> timeline_cache" where
  "store_channel_cache k ms earlier c =
     (case tc_policy c of
        CacheDisabled \<Rightarrow> c
      | CacheEnabled cfg \<Rightarrow>
          (if ms = [] then invalidate_channel_cache k c
           else
             case kept_messages cfg ms of (kept, n) \<Rightarrow>
               (let c1 = evict_channel_cache k c;
                    c2 = c1\<lparr>tc_total_bytes := tc_total_bytes c1 + n,
                            tc_pages := (tc_pages c1)(k \<mapsto> \<lparr>cg_messages = kept, cg_estimated_bytes = n, cg_has_more_before = earlier\<rparr>)\<rparr>
                in enforce_global_cache_budget (touch_cache_lru k c2))))"

definition snapshot_of :: "stored_message list \<Rightarrow> bool \<Rightarrow> bool \<Rightarrow> timeline_snapshot" where
  "snapshot_of ms earlier cached =
     \<lparr>tn_messages = ms, tn_newest_message_id = (case ms of [] \<Rightarrow> None | m # _ \<Rightarrow> Some (sm_message_id m)),
      tn_oldest_message_id = (if ms = [] then None else Some (sm_message_id (last ms))),
      tn_has_more_before = earlier, tn_from_cache = cached\<rparr>"

definition snapshot_from_cache :: "cache_key \<Rightarrow> nat \<Rightarrow> nat \<Rightarrow> timeline_cache \<Rightarrow> (timeline_cache \<times> timeline_snapshot) option" where
  "snapshot_from_cache k limit offset c =
     (if offset \<noteq> 0 \<or> tc_policy c = CacheDisabled then None
      else case tc_pages c k of
             None \<Rightarrow> None
           | Some p \<Rightarrow>
               (let ms = take (cap_of limit) (cg_messages p)
                in if ms = [] then None
                   else Some ((touch_cache_lru k c)\<lparr>tc_hits := sat_succ (tc_hits c)\<rparr>,
                              snapshot_of ms (cg_has_more_before p \<or> length ms < length (cg_messages p)) True)))"

definition query_timeline_snapshot ::
  "u64 \<Rightarrow> int \<Rightarrow> nat \<Rightarrow> nat \<Rightarrow> message_db \<Rightarrow> timeline_cache \<Rightarrow> timeline_cache \<times> timeline_snapshot" where
  "query_timeline_snapshot cid ct limit offset db c =
     (case snapshot_from_cache (cid, ct) limit offset c of
        Some (c', s) \<Rightarrow> (c', s)
      | None \<Rightarrow>
          (let c1 = c\<lparr>tc_misses := sat_succ (tc_misses c)\<rparr>;
               before = generation_of c1 (cid, ct);
               cap = cap_of limit;
               rows = list_messages cid ct (cap + 1) offset db;
               earlier = cap < length rows;
               page = take cap rows;
               after = generation_of c1 (cid, ct)
           in (if offset = 0 \<and> before = after then store_channel_cache (cid, ct) page earlier c1 else c1,
               snapshot_of page earlier False)))"

definition set_message_cache_policy :: "cache_policy \<Rightarrow> timeline_cache \<Rightarrow> timeline_cache" where
  "set_message_cache_policy p c =
     \<lparr>tc_policy = p, tc_pages = (\<lambda>_. None), tc_generation = (\<lambda>_. None), tc_lru = [], tc_total_bytes = 0, tc_hits = 0,
      tc_misses = 0\<rparr>"

text \<open>The part of \<open>reset_session_scoped_state\<close> that concerns the cache.\<close>

definition reset_cache :: "timeline_cache \<Rightarrow> timeline_cache" where
  "reset_cache c = c\<lparr>tc_pages := (\<lambda>_. None), tc_generation := (\<lambda>_. None), tc_lru := [], tc_total_bytes := 0,
     tc_hits := 0, tc_misses := 0\<rparr>"

subsection \<open>Every sequence of operations\<close>

datatype cache_op =
    ReadPage u64 int nat nat message_db
  | EventsApplied "cache_key list"
  | SetPolicy cache_policy
  | SessionReset

fun run_cache_op :: "cache_op \<Rightarrow> timeline_cache \<Rightarrow> timeline_cache" where
  "run_cache_op (ReadPage cid ct limit offset db) c = fst (query_timeline_snapshot cid ct limit offset db c)"
| "run_cache_op (EventsApplied ks) c = invalidate_cache_for_events ks c"
| "run_cache_op (SetPolicy p) c = set_message_cache_policy p c"
| "run_cache_op SessionReset c = reset_cache c"

definition bytes_of :: "stored_message list \<Rightarrow> nat" where
  "bytes_of ms = sum_list (map estimate_message_bytes ms)"

definition page_ok :: "cached_page \<Rightarrow> bool" where
  "page_ok p \<longleftrightarrow> cg_messages p \<noteq> [] \<and> cg_estimated_bytes p = bytes_of (cg_messages p)"

text \<open>The least-recently-used list names each page once, and the total is the sum over the pages.\<close>

definition accounted :: "cache_key list \<Rightarrow> timeline_cache \<Rightarrow> bool" where
  "accounted ks c \<longleftrightarrow> distinct ks \<and> set ks = dom (tc_pages c) \<and> tc_total_bytes c = sum_list (map (page_bytes c) ks) \<and>
     (\<forall>p \<in> ran (tc_pages c). page_ok p)"

definition within_policy :: "timeline_cache \<Rightarrow> bool" where
  "within_policy c \<longleftrightarrow>
     (case tc_policy c of
        CacheDisabled \<Rightarrow> tc_pages c = Map.empty
      | CacheEnabled cfg \<Rightarrow> tc_total_bytes c \<le> unat (cf_global_budget_bytes cfg) \<and>
          (\<forall>p \<in> ran (tc_pages c). length (cg_messages p) \<le> at_least_one (cf_max_messages cfg)))"

definition cache_ok :: "timeline_cache \<Rightarrow> bool" where
  "cache_ok c \<longleftrightarrow> accounted (tc_lru c) c \<and> within_policy c"

lemma page_bytes_upd [simp]:
  "page_bytes (c\<lparr>tc_lru := l\<rparr>) = page_bytes c" "page_bytes (c\<lparr>tc_hits := h\<rparr>) = page_bytes c"
  "page_bytes (c\<lparr>tc_misses := h\<rparr>) = page_bytes c" "page_bytes (c\<lparr>tc_generation := g\<rparr>) = page_bytes c"
  by (simp_all add: page_bytes_def fun_eq_iff)

lemma accounted_remove:
  assumes "accounted ks c"
  shows "accounted (remove1 k ks) (c\<lparr>tc_total_bytes := tc_total_bytes c - page_bytes c k, tc_pages := (tc_pages c)(k := None),
     tc_lru := l\<rparr>)"
proof -
  let ?c = "c\<lparr>tc_total_bytes := tc_total_bytes c - page_bytes c k, tc_pages := (tc_pages c)(k := None), tc_lru := l\<rparr>"
  have d: "distinct ks" "set ks = dom (tc_pages c)" using assms by (auto simp: accounted_def)
  have same: "map (page_bytes ?c) (remove1 k ks) = map (page_bytes c) (remove1 k ks)"
    using d(1) by (auto simp: page_bytes_def)
  have "sum_list (map (page_bytes c) (remove1 k ks)) = sum_list (map (page_bytes c) ks) - page_bytes c k"
  proof (cases "k \<in> set ks")
    case True then show ?thesis using sum_list_map_remove1 [of k ks "page_bytes c"] by simp
  next
    case False
    then have "page_bytes c k = 0" using d(2) by (auto simp: page_bytes_def domIff)
    then show ?thesis using False by (simp add: remove1_idem)
  qed
  then have "tc_total_bytes ?c = sum_list (map (page_bytes ?c) (remove1 k ks))"
    unfolding same using assms by (simp add: accounted_def)
  moreover have "\<forall>p \<in> ran (tc_pages ?c). page_ok p" using assms by (auto simp: accounted_def ran_def)
  ultimately show ?thesis using d by (auto simp: accounted_def)
qed

lemma accounted_lru [simp]: "accounted ks (c\<lparr>tc_lru := l\<rparr>) = accounted ks c"
  by (simp add: accounted_def)

lemma accounted_counts [simp]:
  "accounted ks (c\<lparr>tc_hits := h\<rparr>) = accounted ks c" "accounted ks (c\<lparr>tc_misses := h\<rparr>) = accounted ks c"
  "accounted ks (c\<lparr>tc_generation := g\<rparr>) = accounted ks c"
  by (simp_all add: accounted_def)

lemma evict_ok: "cache_ok c \<Longrightarrow> cache_ok (evict_channel_cache k c)"
  using accounted_remove [of "tc_lru c" c k "remove1 k (tc_lru c)"]
  by (auto simp: cache_ok_def evict_channel_cache_def within_policy_def ran_def split: cache_policy.splits)

lemma cache_ok_upd [simp]:
  "cache_ok (c\<lparr>tc_generation := g\<rparr>) = cache_ok c" "cache_ok (c\<lparr>tc_hits := h\<rparr>) = cache_ok c"
  "cache_ok (c\<lparr>tc_misses := h\<rparr>) = cache_ok c"
  by (auto simp: cache_ok_def within_policy_def split: cache_policy.splits)

lemma ran_less: "ran (m(k := None)) \<subseteq> ran m"
  by (auto simp: ran_def)

lemma invalidate_ok: "cache_ok c \<Longrightarrow> cache_ok (invalidate_channel_cache k c)"
  by (simp add: invalidate_channel_cache_def evict_ok)

lemma touch_accounted:
  "accounted ks c \<Longrightarrow> k \<in> set ks \<Longrightarrow> accounted (remove1 k ks @ [k]) c"
  using sum_list_map_remove1 [of k ks "page_bytes c"] by (auto simp: accounted_def)

lemma drop_oldest_spec:
  assumes "accounted ks c"
  shows "accounted (tc_lru (drop_oldest b ks c)) (drop_oldest b ks c) \<and> tc_total_bytes (drop_oldest b ks c) \<le> b \<and>
    tc_policy (drop_oldest b ks c) = tc_policy c \<and> ran (tc_pages (drop_oldest b ks c)) \<subseteq> ran (tc_pages c)"
  using assms
proof (induction b ks c rule: drop_oldest.induct)
  case (1 b c) then show ?case by (simp add: accounted_def page_bytes_def)
next
  case (2 b k ks c)
  show ?case
  proof (cases "tc_total_bytes c \<le> b")
    case True then show ?thesis using 2(2) by simp
  next
    case False
    have "accounted ks (c\<lparr>tc_total_bytes := tc_total_bytes c - page_bytes c k, tc_pages := (tc_pages c)(k := None)\<rparr>)"
      using accounted_remove [OF 2(2), of k "tc_lru c"] by simp
    from 2(1) [OF False this] False show ?thesis
      using ran_less [of "tc_pages c" k] by (simp del: fun_upd_apply) (meson subset_trans)
  qed
qed

subsection \<open>What a page keeps\<close>

lemma shed_drop: "\<exists>j. fst (shed lo hi b ms n) = drop j ms \<and> min lo (length ms) \<le> length (drop j ms)"
proof (induction lo hi b ms n rule: shed.induct)
  case (2 lo hi b m ms n)
  show ?case
  proof (cases "lo < length (m # ms) \<and> (hi < length (m # ms) \<or> b < n)")
    case True
    then obtain j where "fst (shed lo hi b ms (n - estimate_message_bytes m)) = drop j ms" "min lo (length ms) \<le> length (drop j ms)"
      using 2 by blast
    then show ?thesis using True by (intro exI [of _ "Suc j"]) auto
  next
    case False then show ?thesis by (intro exI [of _ 0]) auto
  qed
qed simp

lemma shed_bytes: "n = bytes_of ms \<Longrightarrow> snd (shed lo hi b ms n) = bytes_of (fst (shed lo hi b ms n))"
  by (induction lo hi b ms n rule: shed.induct) (auto simp: bytes_of_def)

lemma shed_length: "lo \<le> hi \<Longrightarrow> length (fst (shed lo hi b ms n)) \<le> hi"
  by (induction lo hi b ms n rule: shed.induct) auto

lemma fill_bytes: "n = bytes_of dq \<Longrightarrow> snd (fill lo hi b ms dq n) = bytes_of (fst (fill lo hi b ms dq n))"
proof (induction lo hi b ms dq n rule: fill.induct)
  case (2 lo hi b m ms dq n)
  obtain dq' n' where s: "shed lo hi b (m # dq) (n + estimate_message_bytes m) = (dq', n')" by fastforce
  have "n + estimate_message_bytes m = bytes_of (m # dq)" using 2(2) by (simp add: bytes_of_def)
  from shed_bytes [OF this, of lo hi b] have "n' = bytes_of dq'" unfolding s by simp
  then show ?case using 2(1) [OF s [symmetric]] s by (simp del: shed.simps)
qed simp

lemma fill_length: "lo \<le> hi \<Longrightarrow> length dq \<le> hi \<Longrightarrow> length (fst (fill lo hi b ms dq n)) \<le> hi"
proof (induction lo hi b ms dq n rule: fill.induct)
  case (2 lo hi b m ms dq n)
  then show ?case using shed_length [of lo hi b "m # dq" "n + estimate_message_bytes m"] by (auto split: prod.splits)
qed simp

lemma subseq_rev_drop: "subseq (rev (drop j xs)) (rev xs)"
  by (metis append_take_drop_id prefixI prefix_imp_subseq rev_append)

lemma fill_subseq: "subseq (rev (fst (fill lo hi b ms dq n))) (rev dq @ ms)"
proof (induction lo hi b ms dq n rule: fill.induct)
  case (2 lo hi b m ms dq n)
  obtain dq' n' where s: "shed lo hi b (m # dq) (n + estimate_message_bytes m) = (dq', n')" by fastforce
  then obtain j where "dq' = drop j (m # dq)" using shed_drop [of lo hi b "m # dq" "n + estimate_message_bytes m"] by auto
  then have "subseq (rev dq') (rev (m # dq))" using subseq_rev_drop by blast
  then have "subseq (rev dq' @ ms) (rev (m # dq) @ ms)" by (rule list_emb_append_mono) simp
  then show ?case using 2 [OF s [symmetric]] s by (simp del: shed.simps)
qed simp

lemma fill_newest:
  "take lo (rev (fst (fill lo hi b ms dq n))) = take lo (rev dq @ ms)"
proof (induction lo hi b ms dq n rule: fill.induct)
  case (2 lo hi b m ms dq n)
  obtain dq' n' where s: "shed lo hi b (m # dq) (n + estimate_message_bytes m) = (dq', n')" by fastforce
  then obtain j where j: "dq' = drop j (m # dq)" "min lo (length (m # dq)) \<le> length dq'"
    using shed_drop [of lo hi b "m # dq" "n + estimate_message_bytes m"] by auto
  have "rev (m # dq) = rev dq' @ rev (take j (m # dq))" using j(1) by (metis append_take_drop_id rev_append)
  moreover have "take j (m # dq) = []" if "length dq' < lo"
  proof -
    have "length dq' = Suc (length dq) - j" using j(1) by simp
    then have "j = 0" using that j(2) by (auto simp: min_def split: if_splits)
    then show ?thesis by simp
  qed
  ultimately have "take lo (rev dq' @ ms) = take lo (rev (m # dq) @ ms)"
    by (cases "length dq' < lo") (auto simp: take_append)
  then show ?case using 2 [OF s [symmetric]] s by (simp del: shed.simps)
qed simp

lemma at_least_one_mono: "at_least_one (min a b) \<le> at_least_one b"
  by (auto simp: at_least_one_def min_def word_le_nat_alt)

lemma kept_facts:
  assumes "kept_messages cfg ms = (kept, n)"
  shows "n = bytes_of kept" and "subseq kept ms" and "length kept \<le> at_least_one (cf_max_messages cfg)"
    and "take (at_least_one (min (cf_min_messages cfg) (cf_max_messages cfg))) kept =
      take (at_least_one (min (cf_min_messages cfg) (cf_max_messages cfg))) ms"
    and "ms \<noteq> [] \<Longrightarrow> kept \<noteq> []"
proof -
  define hi where "hi = at_least_one (cf_max_messages cfg)"
  define lo where "lo = at_least_one (min (cf_min_messages cfg) (cf_max_messages cfg))"
  define b where "b = unat (cf_per_channel_budget_bytes cfg)"
  have le: "lo \<le> hi" "1 \<le> lo" using at_least_one_mono by (simp_all add: lo_def hi_def at_least_one_def)
  obtain dq where f: "fill lo hi b (take hi ms) [] 0 = (dq, n)" and k: "kept = rev dq"
    using assms by (auto simp: kept_messages_def Let_def hi_def lo_def b_def split: prod.splits)
  show "n = bytes_of kept" using fill_bytes [of 0 "[]" lo hi b "take hi ms"] f k by (simp add: bytes_of_def rev_map [symmetric] sum_list_rev)
  have "subseq kept (take hi ms)" using fill_subseq [of lo hi b "take hi ms" "[]" 0] f k by simp
  then show "subseq kept ms" by (meson prefix_imp_subseq subseq_order.trans take_is_prefix)
  show "length kept \<le> at_least_one (cf_max_messages cfg)"
    using fill_length [OF le(1), of "[]" b "take hi ms" 0] f k by (simp add: hi_def)
  have "take lo kept = take lo ms" using fill_newest [of lo hi b "take hi ms" "[]" 0] f k le(1) by (simp add: min_absorb1)
  then show "take (at_least_one (min (cf_min_messages cfg) (cf_max_messages cfg))) kept =
      take (at_least_one (min (cf_min_messages cfg) (cf_max_messages cfg))) ms" by (simp add: lo_def)
  show "kept \<noteq> []" if "ms \<noteq> []"
    using \<open>take lo kept = take lo ms\<close> le(2) that by (metis One_nat_def not_one_le_zero take_eq_Nil)
qed

lemma store_ok:
  assumes "cache_ok c"
  shows "cache_ok (store_channel_cache k ms earlier c)"
proof (cases "tc_policy c")
  case CacheDisabled then show ?thesis using assms by (simp add: store_channel_cache_def)
next
  case (CacheEnabled cfg)
  show ?thesis
  proof (cases "ms = []")
    case True then show ?thesis using assms CacheEnabled by (simp add: store_channel_cache_def invalidate_ok)
  next
    case False
    obtain kept n where kn: "kept_messages cfg ms = (kept, n)" by fastforce
    note kf = kept_facts [OF kn]
    define c1 where "c1 = evict_channel_cache k c"
    define p where "p = \<lparr>cg_messages = kept, cg_estimated_bytes = n, cg_has_more_before = earlier\<rparr>"
    define c2 where "c2 = c1\<lparr>tc_total_bytes := tc_total_bytes c1 + n, tc_pages := (tc_pages c1)(k \<mapsto> p)\<rparr>"
    have ok1: "cache_ok c1" using assms by (simp add: c1_def evict_ok)
    have out: "k \<notin> set (tc_lru c1)" "remove1 k (tc_lru c1) = tc_lru c1"
      using assms by (auto simp: c1_def evict_channel_cache_def cache_ok_def accounted_def remove1_idem)
    have a1: "accounted (tc_lru c1) c1" "tc_policy c1 = CacheEnabled cfg"
      using ok1 CacheEnabled by (simp_all add: cache_ok_def c1_def evict_channel_cache_def)
    have same: "map (page_bytes c2) (tc_lru c1) = map (page_bytes c1) (tc_lru c1)" "page_bytes c2 k = n"
      using out by (auto simp: page_bytes_def c2_def p_def)
    have pok: "page_ok p" using kf False by (simp add: page_ok_def p_def)
    have rn: "ran (tc_pages c2) \<subseteq> insert p (ran (tc_pages c1))" by (auto simp: c2_def ran_def)
    have "tc_total_bytes c2 = sum_list (map (page_bytes c2) (tc_lru c1 @ [k]))"
    proof -
      have "tc_total_bytes c2 = sum_list (map (page_bytes c1) (tc_lru c1)) + n"
        using a1(1) by (simp add: c2_def accounted_def)
      then show ?thesis unfolding map_append sum_list_append same(1) using same(2) by simp
    qed
    then have a2: "accounted (tc_lru c1 @ [k]) c2"
      using a1(1) out(1) rn pok by (auto simp: accounted_def c2_def)
    let ?d = "drop_oldest (unat (cf_global_budget_bytes cfg)) (tc_lru c1 @ [k]) (c2\<lparr>tc_lru := tc_lru c1 @ [k]\<rparr>)"
    have "accounted (tc_lru ?d) ?d \<and> tc_total_bytes ?d \<le> unat (cf_global_budget_bytes cfg) \<and>
        tc_policy ?d = CacheEnabled cfg \<and> ran (tc_pages ?d) \<subseteq> ran (tc_pages c2)"
      using drop_oldest_spec [of "tc_lru c1 @ [k]" "c2\<lparr>tc_lru := tc_lru c1 @ [k]\<rparr>"] a2 a1(2) by (simp add: c2_def)
    moreover have "length (cg_messages q) \<le> at_least_one (cf_max_messages cfg)" if "q \<in> ran (tc_pages c2)" for q
      using that rn kf(3) ok1 a1(2) by (auto simp: cache_ok_def within_policy_def p_def)
    ultimately have "cache_ok ?d" by (auto simp: cache_ok_def within_policy_def)
    moreover have "store_channel_cache k ms earlier c = ?d"
      using CacheEnabled False kn out(2) a1(2)
      by (simp add: store_channel_cache_def Let_def touch_cache_lru_def enforce_global_cache_budget_def c2_def c1_def p_def)
    ultimately show ?thesis by simp
  qed
qed

lemma hit_ok:
  "cache_ok c \<Longrightarrow> snapshot_from_cache k limit offset c = Some (c', s) \<Longrightarrow> cache_ok c'"
  using touch_accounted [of "tc_lru c" c k]
  by (auto simp: snapshot_from_cache_def Let_def cache_ok_def touch_cache_lru_def within_policy_def accounted_def domIff
      split: if_splits option.splits cache_policy.splits)

lemma query_ok: "cache_ok c \<Longrightarrow> cache_ok (fst (query_timeline_snapshot cid ct limit offset db c))"
  by (auto simp: query_timeline_snapshot_def Let_def store_ok hit_ok split: option.splits prod.splits)

lemma events_ok: "cache_ok c \<Longrightarrow> cache_ok (invalidate_cache_for_events ks c)"
  unfolding invalidate_cache_for_events_def by (induction ks arbitrary: c) (simp_all add: invalidate_ok)

lemma empty_ok:
  "tc_pages c = (\<lambda>_. None) \<Longrightarrow> tc_lru c = [] \<Longrightarrow> tc_total_bytes c = 0 \<Longrightarrow> cache_ok c"
  by (simp add: cache_ok_def accounted_def within_policy_def ran_def split: cache_policy.splits)

lemma op_ok: "cache_ok c \<Longrightarrow> cache_ok (run_cache_op op c)"
  by (cases op) (simp_all add: query_ok events_ok empty_ok set_message_cache_policy_def reset_cache_def)


subsection \<open>What a later read sees\<close>

lemma cap_pos [simp]: "0 < cap_of l" "cap_of l \<noteq> 0"
  by (simp_all add: cap_of_def)

lemma drop_oldest_none: "tc_total_bytes c \<le> b \<Longrightarrow> drop_oldest b ks c = c\<lparr>tc_lru := ks\<rparr>"
  by (cases ks) simp_all

lemma drop_oldest_pages:
  "tc_pages (drop_oldest b ks c) k = Some p \<Longrightarrow> tc_pages c k = Some p"
  by (induction b ks c rule: drop_oldest.induct) (auto split: if_splits)

text \<open>The page a store leaves, if the budget did not take it at once.\<close>

lemma stored_page:
  assumes "tc_policy c = CacheEnabled cfg" and "ms \<noteq> []" and "kept_messages cfg ms = (kept, n)"
  shows "tc_pages (store_channel_cache k ms earlier c) k \<in>
    {None, Some \<lparr>cg_messages = kept, cg_estimated_bytes = n, cg_has_more_before = earlier\<rparr>}"
proof -
  define c1 where "c1 = evict_channel_cache k c"
  define p where "p = \<lparr>cg_messages = kept, cg_estimated_bytes = n, cg_has_more_before = earlier\<rparr>"
  define c2 where "c2 = touch_cache_lru k (c1\<lparr>tc_total_bytes := tc_total_bytes c1 + n, tc_pages := (tc_pages c1)(k \<mapsto> p)\<rparr>)"
  have pol: "tc_policy c2 = CacheEnabled cfg" "tc_pages c2 k = Some p"
    using assms(1) by (simp_all add: c2_def c1_def touch_cache_lru_def evict_channel_cache_def)
  have "store_channel_cache k ms earlier c = drop_oldest (unat (cf_global_budget_bytes cfg)) (tc_lru c2) c2"
    using assms pol(1) by (simp add: store_channel_cache_def enforce_global_cache_budget_def Let_def c2_def c1_def p_def)
  then show ?thesis
    using drop_oldest_pages [of "unat (cf_global_budget_bytes cfg)" "tc_lru c2" c2 k] pol(2)
    by (cases "tc_pages (store_channel_cache k ms earlier c) k") (auto simp: p_def)
qed

lemma stored_page_stays:
  assumes "tc_policy c = CacheEnabled cfg" and "ms \<noteq> []" and "kept_messages cfg ms = (kept, n)"
    and "tc_total_bytes c + n \<le> unat (cf_global_budget_bytes cfg)"
  shows "tc_pages (store_channel_cache k ms earlier c) k =
      Some \<lparr>cg_messages = kept, cg_estimated_bytes = n, cg_has_more_before = earlier\<rparr>"
    and "tc_policy (store_channel_cache k ms earlier c) = CacheEnabled cfg"
  using assms
  by (simp_all add: store_channel_cache_def enforce_global_cache_budget_def touch_cache_lru_def evict_channel_cache_def Let_def
      drop_oldest_none)

lemma store_policy: "tc_policy (store_channel_cache k ms earlier c) = tc_policy c"
proof -
  have "tc_policy (drop_oldest b ks d) = tc_policy d" for b ks d
    by (induction b ks d rule: drop_oldest.induct) simp_all
  then show ?thesis
    by (simp add: store_channel_cache_def enforce_global_cache_budget_def touch_cache_lru_def evict_channel_cache_def
        invalidate_channel_cache_def Let_def split: cache_policy.splits prod.splits)
qed

lemma uncached_query:
  assumes "snapshot_from_cache (cid, ct) limit 0 c = None" and "page = take (cap_of limit) (list_messages cid ct (cap_of limit + 1) 0 db)"
    and "earlier \<longleftrightarrow> cap_of limit < length (list_messages cid ct (cap_of limit + 1) 0 db)"
  shows "query_timeline_snapshot cid ct limit 0 db c =
    (store_channel_cache (cid, ct) page earlier (c\<lparr>tc_misses := sat_succ (tc_misses c)\<rparr>), snapshot_of page earlier False)"
  using assms by (simp add: query_timeline_snapshot_def Let_def)

lemma listing_take:
  "take n (list_messages cid ct m 0 db) = list_messages cid ct (min n m) 0 db"
  by (simp add: list_messages_def take_map min.commute)

lemma cached_query:
  assumes "tc_pages c (cid, ct) = Some p" and "cg_messages p \<noteq> []" and "tc_policy c = CacheEnabled cfg"
  shows "\<exists>c'. query_timeline_snapshot cid ct limit 0 db c =
    (c', snapshot_of (take (cap_of limit) (cg_messages p))
           (cg_has_more_before p \<or> cap_of limit < length (cg_messages p)) True)"
  using assms by (auto simp: query_timeline_snapshot_def snapshot_from_cache_def Let_def min_def)

text \<open>What the cache shows of a page is part of that page, from its newest message on. After a read that went
  to the database, a read from the cache yields only messages of the page read, in the same order, with
  the same newest message and with at least the configured minimal number of messages, as far as the
  page and the new limit have them.\<close>

theorem cached_page_is_part_of_the_read:
  assumes "tc_policy c = CacheEnabled cfg"
    and "query_timeline_snapshot cid ct limit 0 db c = (c1, s1)" and "\<not> tn_from_cache s1"
    and "query_timeline_snapshot cid ct limit2 0 db2 c1 = (c2, s2)" and "tn_from_cache s2"
  shows "tn_messages s1 = list_messages cid ct (cap_of limit) 0 db \<and>
    subseq (tn_messages s2) (tn_messages s1) \<and> tn_newest_message_id s2 = tn_newest_message_id s1 \<and>
    (let lo = min (cap_of limit2) (at_least_one (min (cf_min_messages cfg) (cf_max_messages cfg)))
     in take lo (tn_messages s2) = take lo (tn_messages s1))"
proof -
  define rows where "rows = list_messages cid ct (cap_of limit + 1) 0 db"
  define page where "page = take (cap_of limit) rows"
  define earlier where "earlier \<longleftrightarrow> cap_of limit < length rows"
  let ?c = "c\<lparr>tc_misses := sat_succ (tc_misses c)\<rparr>"
  have miss: "snapshot_from_cache (cid, ct) limit 0 c = None"
    using assms(2,3)
    by (cases "snapshot_from_cache (cid, ct) limit 0 c")
       (auto simp: query_timeline_snapshot_def snapshot_from_cache_def snapshot_of_def Let_def split: if_splits option.splits)
  have q1: "c1 = store_channel_cache (cid, ct) page earlier ?c" "s1 = snapshot_of page earlier False"
    using uncached_query [OF miss page_def [unfolded rows_def] earlier_def [unfolded rows_def]] assms(2) by simp_all
  have whole: "page = list_messages cid ct (cap_of limit) 0 db"
    by (simp add: page_def rows_def listing_take del: take_Suc)
  obtain p where p: "tc_pages c1 (cid, ct) = Some p" "cg_messages p \<noteq> []"
    "s2 = snapshot_of (take (cap_of limit2) (cg_messages p)) (cg_has_more_before p \<or> cap_of limit2 < length (cg_messages p)) True"
    using assms(4,5)
    by (auto simp: query_timeline_snapshot_def snapshot_from_cache_def snapshot_of_def Let_def min_def split: if_splits option.splits)
  have ne: "page \<noteq> []"
  proof
    assume "page = []"
    then have "tc_pages c1 (cid, ct) = None"
      using assms(1) by (simp add: q1 store_channel_cache_def invalidate_channel_cache_def evict_channel_cache_def)
    then show False using p(1) by simp
  qed
  obtain kept n where kn: "kept_messages cfg page = (kept, n)" by fastforce
  have "cg_messages p = kept"
    using stored_page [of ?c cfg page kept n "(cid, ct)" earlier] assms(1) ne kn p(1) q1(1) by auto
  note kf = kept_facts [OF kn, folded this]
  define lo where "lo = at_least_one (min (cf_min_messages cfg) (cf_max_messages cfg))"
  have lo: "take lo (cg_messages p) = take lo page" "1 \<le> lo" using kf(4) by (simp_all add: lo_def at_least_one_def)
  then have "hd (cg_messages p) = hd page"
    using p(2) ne by (metis One_nat_def hd_take less_eq_Suc_le)
  then have newest: "tn_newest_message_id s2 = tn_newest_message_id s1"
    using p ne by (cases page; cases "cg_messages p"; cases "cap_of limit2"; simp add: snapshot_of_def q1)
  have "subseq (tn_messages s2) page"
    using kf(2) p(3) by (simp add: snapshot_of_def) (meson prefix_imp_subseq subseq_order.trans take_is_prefix)
  moreover have "take (min (cap_of limit2) lo) (tn_messages s2) = take (min (cap_of limit2) lo) page"
  proof -
    have "take (min (cap_of limit2) lo) (tn_messages s2) = take (cap_of limit2) (take lo (cg_messages p))"
      by (simp add: p(3) snapshot_of_def min.commute min.left_commute)
    then show ?thesis by (simp add: lo(1) min.commute)
  qed
  ultimately show ?thesis using newest q1 whole by (simp add: snapshot_of_def lo_def Let_def)
qed

text \<open>C32. A page the cache cut short looks like the whole conversation. When everything there is fits the limit of a
  read but not the budget of the page, the same read repeated yields only what was kept, and still says that
  nothing comes before it: the note that there is more is taken when the page is read, not when it is cut.
  What was kept need not be the newest part: in the witness the message in the middle is missing.\<close>

theorem cut_page_hides_history:
  assumes "tc_policy c = CacheEnabled cfg" and "tc_pages c (cid, ct) = None"
    and "rows = list_messages cid ct (cap_of limit + 1) 0 db" and "length rows \<le> cap_of limit"
    and "kept_messages cfg rows = (kept, n)" and "kept \<noteq> rows"
    and "tc_total_bytes c + n \<le> unat (cf_global_budget_bytes cfg)"
  shows "let (c1, s1) = query_timeline_snapshot cid ct limit 0 db c; (c2, s2) = query_timeline_snapshot cid ct limit 0 db c1
    in tn_messages s1 = rows \<and> \<not> tn_has_more_before s1 \<and>
       tn_messages s2 = kept \<and> \<not> tn_has_more_before s2 \<and> length kept < length rows"
proof -
  let ?c = "c\<lparr>tc_misses := sat_succ (tc_misses c)\<rparr>"
  let ?c1 = "store_channel_cache (cid, ct) rows False ?c"
  have kf: "subseq kept rows" "rows \<noteq> [] \<Longrightarrow> kept \<noteq> []" using kept_facts [OF assms(5)] by blast+
  have ne: "rows \<noteq> []" using assms(5,6) by (auto simp: kept_messages_def Let_def)
  have short: "length kept < length rows"
    using kf(1) assms(6) by (metis le_neq_implies_less list_emb_length subseq_same_length)
  have q1: "query_timeline_snapshot cid ct limit 0 db c = (?c1, snapshot_of rows False False)"
    using uncached_query [of cid ct limit c rows db False] assms(2-4) by (simp add: snapshot_from_cache_def)
  have st: "tc_pages ?c1 (cid, ct) = Some \<lparr>cg_messages = kept, cg_estimated_bytes = n, cg_has_more_before = False\<rparr>"
    "tc_policy ?c1 = CacheEnabled cfg"
    using stored_page_stays [of ?c cfg rows kept n "(cid, ct)" False] assms(1,5,7) ne by simp_all
  obtain c2 where q2: "query_timeline_snapshot cid ct limit 0 db ?c1 = (c2, snapshot_of kept False True)"
    using cached_query [OF st(1) _ st(2), of limit db] kf(2) ne short assms(4) by auto
  show ?thesis using q1 q2 short by (simp add: snapshot_of_def)
qed

lemma shed_fits: "ms \<noteq> [] \<Longrightarrow> length ms \<le> hi \<Longrightarrow> n \<le> b \<Longrightarrow> shed lo hi b ms n = (ms, n)"
  by (cases ms) auto

lemma fill_fits:
  "length dq + length ms \<le> hi \<Longrightarrow> n + bytes_of ms \<le> b \<Longrightarrow> fill lo hi b (ms @ rest) dq n = fill lo hi b rest (rev ms @ dq) (n + bytes_of ms)"
proof (induction ms arbitrary: dq n)
  case (Cons m ms)
  have "shed lo hi b (m # dq) (n + estimate_message_bytes m) = (m # dq, n + estimate_message_bytes m)"
    using Cons.prems by (intro shed_fits) (auto simp: bytes_of_def)
  then show ?case using Cons by (simp add: bytes_of_def add.assoc del: shed.simps)
qed (simp add: bytes_of_def)

text \<open>A message too large for what is left of its page goes in at the end and out again at once, and the older
  messages after it still go in: the page has a hole.\<close>

lemma large_message_leaves_hole:
  assumes "Suc (length (xs @ ys)) \<le> unat (cf_max_messages cfg)"
    and "at_least_one (min (cf_min_messages cfg) (cf_max_messages cfg)) \<le> length xs"
    and "bytes_of (xs @ ys) \<le> unat (cf_per_channel_budget_bytes cfg)"
    and "unat (cf_per_channel_budget_bytes cfg) < bytes_of xs + estimate_message_bytes m"
  shows "kept_messages cfg (xs @ m # ys) = (xs @ ys, bytes_of (xs @ ys))"
proof -
  define hi where "hi = at_least_one (cf_max_messages cfg)"
  define lo where "lo = at_least_one (min (cf_min_messages cfg) (cf_max_messages cfg))"
  define b where "b = unat (cf_per_channel_budget_bytes cfg)"
  have len: "Suc (length xs + length ys) \<le> hi" "lo \<le> length xs" "1 \<le> lo"
    using assms(1,2) by (auto simp: hi_def lo_def at_least_one_def)
  have bt: "bytes_of xs + bytes_of ys \<le> b" "b < bytes_of xs + estimate_message_bytes m" "bytes_of (xs @ ys) = bytes_of xs + bytes_of ys"
    using assms(3,4) by (simp_all add: bytes_of_def b_def)
  have ne: "rev xs \<noteq> []" using len by auto
  have one: "fill lo hi b (xs @ m # ys) [] 0 = fill lo hi b (m # ys) (rev xs) (bytes_of xs)"
    using fill_fits [of "[]" xs hi 0 b lo "m # ys"] len bt by simp
  have "shed lo hi b (m # rev xs) (bytes_of xs + estimate_message_bytes m) = shed lo hi b (rev xs) (bytes_of xs)"
    using len bt by simp
  also have "\<dots> = (rev xs, bytes_of xs)" using shed_fits [OF ne] len bt by simp
  finally have "fill lo hi b (xs @ m # ys) [] 0 = fill lo hi b ys (rev xs) (bytes_of xs)"
    using one by (simp del: shed.simps)
  also have "\<dots> = (rev ys @ rev xs, bytes_of (xs @ ys))"
    using fill_fits [of "rev xs" ys hi "bytes_of xs" b lo "[]"] len bt by simp
  finally show ?thesis
    using len(1) by (simp add: kept_messages_def Let_def hi_def lo_def b_def)
qed

subsection \<open>Runs of the examples\<close>

definition page_row :: "nat \<Rightarrow> string \<Rightarrow> message_row" where
  "page_row i text = remote_row (int i) 1785148272000 (example_input (of_nat i) (int i) text)"

definition page_db :: message_db where
  "page_db = empty_db\<lparr>messages := [page_row 1 ''old'', page_row 2 (replicate 300 CHR ''x''), page_row 3 ''new'']\<rparr>"

definition small_pages :: cache_config where
  "small_pages = \<lparr>cf_per_channel_budget_bytes = 250, cf_global_budget_bytes = 10000, cf_min_messages = 1,
     cf_max_messages = 200\<rparr>"

definition fresh_cache :: timeline_cache where
  "fresh_cache = set_message_cache_policy (CacheEnabled small_pages) (reset_cache
     \<lparr>tc_policy = CacheDisabled, tc_pages = (\<lambda>_. None), tc_generation = (\<lambda>_. None), tc_lru = [], tc_total_bytes = 0,
      tc_hits = 0, tc_misses = 0\<rparr>)"

definition shown_row :: "nat \<Rightarrow> string \<Rightarrow> stored_message" where
  "shown_row i text = stored_message_from_row page_db (page_row i text)"

lemma fresh_parts: "tc_policy fresh_cache = CacheEnabled small_pages" "tc_pages fresh_cache k = None" "tc_total_bytes fresh_cache = 0"
  by (simp_all add: fresh_cache_def set_message_cache_policy_def)

lemma page_row_bytes: "estimate_message_bytes (shown_row i text) = 96 + length text"
  by (simp add: estimate_message_bytes_def shown_row_def stored_message_from_row_def page_row_def remote_row_def example_input_def
      to_upsert_input_def from_push_def Let_def)

lemma page_row_keys:
  "i \<in> {1, 2, 3} \<Longrightarrow> display_key_of (page_row i text) = DisplayKey 0 (int i) (Some (int i)) (int i)"
  "in_channel 7 1 (page_row i text)"
  by (auto simp: display_key_of_def pending_flag_def in_channel_def page_row_def remote_row_def example_input_def
      to_upsert_input_def from_push_def as_i64_def)

lemma page_listing:
  "list_messages 7 1 6 0 page_db = [shown_row 3 ''new''] @ shown_row 2 (replicate 300 CHR ''x'') # [shown_row 1 ''old'']"
  by (simp add: list_messages_def page_db_def [THEN arg_cong [where f = messages]] shown_row_def page_row_keys
      less_eq_display_key_def less_display_key_def)

lemma page_listing':
  "[shown_row 3 ''new''] @ shown_row 2 (replicate 300 CHR ''x'') # [shown_row 1 ''old''] = list_messages 7 1 (cap_of 5 + 1) 0 page_db"
  by (simp add: page_listing cap_of_def)

theorem cut_page_hides_history_witness:
  "let (c1, s1) = query_timeline_snapshot 7 1 5 0 page_db fresh_cache; (c2, s2) = query_timeline_snapshot 7 1 5 0 page_db c1
   in length (tn_messages s1) = 3 \<and> tn_messages s2 = [shown_row 3 ''new'', shown_row 1 ''old''] \<and> \<not> tn_has_more_before s2"
proof -
  have cfg: "unat (cf_per_channel_budget_bytes small_pages) = 250" "unat (cf_global_budget_bytes small_pages) = 10000"
    "at_least_one (min (cf_min_messages small_pages) (cf_max_messages small_pages)) = 1" "unat (cf_max_messages small_pages) = 200"
    by (simp_all add: small_pages_def at_least_one_def)
  have cap: "cap_of 5 = 5" by (simp add: cap_of_def)
  have "kept_messages small_pages ([shown_row 3 ''new''] @ shown_row 2 (replicate 300 CHR ''x'') # [shown_row 1 ''old'']) =
      ([shown_row 3 ''new'', shown_row 1 ''old''], 198)"
    by (subst large_message_leaves_hole) (simp_all add: cfg bytes_of_def page_row_bytes)
  from cut_page_hides_history [OF fresh_parts(1,2) page_listing' _ this]
  show ?thesis by (auto simp: fresh_parts cfg cap Let_def split: prod.splits)
qed

text \<open>Two reads in a row, the second from the cache.\<close>

theorem cached_page_is_part_of_the_read_witness:
  "\<exists>c1 s1 c2 s2. query_timeline_snapshot 7 1 5 0 page_db fresh_cache = (c1, s1) \<and>
     query_timeline_snapshot 7 1 2 0 page_db c1 = (c2, s2) \<and> tn_from_cache s2 \<and>
     subseq (tn_messages s2) (tn_messages s1) \<and> tn_newest_message_id s2 = tn_newest_message_id s1"
proof -
  have cfg: "unat (cf_global_budget_bytes small_pages) = 10000" "unat (cf_per_channel_budget_bytes small_pages) = 250"
    "at_least_one (min (cf_min_messages small_pages) (cf_max_messages small_pages)) = 1" "unat (cf_max_messages small_pages) = 200"
    by (simp_all add: small_pages_def at_least_one_def)
  let ?rows = "[shown_row 3 ''new''] @ shown_row 2 (replicate 300 CHR ''x'') # [shown_row 1 ''old'']"
  let ?kept = "[shown_row 3 ''new'', shown_row 1 ''old'']"
  have kept: "kept_messages small_pages ?rows = (?kept, 198)"
    by (subst large_message_leaves_hole) (simp_all add: cfg bytes_of_def page_row_bytes)
  let ?c = "fresh_cache\<lparr>tc_misses := sat_succ (tc_misses fresh_cache)\<rparr>"
  let ?c1 = "store_channel_cache (7, 1) ?rows False ?c"
  have q1: "query_timeline_snapshot 7 1 5 0 page_db fresh_cache = (?c1, snapshot_of ?rows False False)"
    by (rule uncached_query) (simp_all add: snapshot_from_cache_def fresh_parts page_listing cap_of_def)
  have st: "tc_pages ?c1 (7, 1) = Some \<lparr>cg_messages = ?kept, cg_estimated_bytes = 198, cg_has_more_before = False\<rparr>"
    "tc_policy ?c1 = CacheEnabled small_pages"
    using stored_page_stays [of ?c small_pages ?rows ?kept 198 "(7, 1)" False] kept by (simp_all add: fresh_parts cfg)
  obtain c2 s2 where q2: "query_timeline_snapshot 7 1 2 0 page_db ?c1 = (c2, s2)" "tn_from_cache s2"
    using cached_query [OF st(1) _ st(2), of 2 page_db] by (auto simp: snapshot_of_def)
  have "\<not> tn_from_cache (snapshot_of ?rows False False)" by (simp add: snapshot_of_def)
  from cached_page_is_part_of_the_read [OF fresh_parts(1) q1 this q2] q1 q2 show ?thesis by blast
qed

end
