(* ===== verification/Download_Manager.thy ===== *)
theory Download_Manager
  imports Prelude
begin

text \<open>
  The coordinator of receiver-side downloads (\<open>DownloadManager\<close> of \<open>media_download.rs\<close>): which work is accepted,
  which task may run, and what remains registered. Threads interleave between the calls, so the runtime is
  a sequence of events; a task goes from waiting over holding a background permit to running, and an aborted
  task keeps its permits until its future is dropped. Task numbers are unbounded: fewer than \<open>2 ^ 64\<close> tasks
  are ever spawned.
\<close>

subsection \<open>Keys, tasks and the manager\<close>

datatype media_kind = Payload | Thumbnail

datatype download_priority = Visible | Background

record media_task_key =
  mk_owner_uid :: string
  mk_session_epoch :: u64
  mk_message_id :: u64
  mk_media_kind :: media_kind

datatype download_state =
    Idle
  | Downloading nat "nat option"
  | Paused nat "nat option"
  | Done string
  | Failed nat string

record handle_entry =
  he_task_id :: nat
  he_state :: download_state
  he_paused :: bool

datatype task_phase = Waiting | Admitted | Running

record download_task =
  dt_id :: nat
  dt_key :: media_task_key
  dt_priority :: download_priority
  dt_phase :: task_phase
  dt_aborted :: bool

record download_manager =
  dm_entries :: "(media_task_key \<times> handle_entry) list"
  dm_tasks :: "download_task list"
  dm_next_task_id :: nat
  dm_events :: "(u64 \<times> download_state) list"

definition MAX_ACTIVE_DOWNLOADS :: nat where "MAX_ACTIVE_DOWNLOADS = 3"
definition MAX_BACKGROUND_DOWNLOADS :: nat where "MAX_BACKGROUND_DOWNLOADS = 2"
definition MAX_TRACKED_DOWNLOADS :: nat where "MAX_TRACKED_DOWNLOADS = 512"
definition MAX_BACKGROUND_TRACKED_DOWNLOADS :: nat where "MAX_BACKGROUND_TRACKED_DOWNLOADS = 480"

definition payload_key :: "string \<Rightarrow> u64 \<Rightarrow> u64 \<Rightarrow> media_task_key" where
  "payload_key uid ep mid = \<lparr>mk_owner_uid = uid, mk_session_epoch = ep, mk_message_id = mid, mk_media_kind = Payload\<rparr>"

definition thumbnail_key :: "string \<Rightarrow> u64 \<Rightarrow> u64 \<Rightarrow> media_task_key" where
  "thumbnail_key uid ep mid = \<lparr>mk_owner_uid = uid, mk_session_epoch = ep, mk_message_id = mid, mk_media_kind = Thumbnail\<rparr>"

definition new_manager :: download_manager where
  "new_manager = \<lparr>dm_entries = [], dm_tasks = [], dm_next_task_id = 1, dm_events = []\<rparr>"

subsection \<open>Operations\<close>

definition get_state :: "media_task_key \<Rightarrow> download_manager \<Rightarrow> download_state" where
  "get_state k m = (case map_of (dm_entries m) k of Some e \<Rightarrow> he_state e | None \<Rightarrow> Idle)"

text \<open>A task and its handle appear together: the task is held back until its handle is registered.\<close>

definition spawn :: "media_task_key \<Rightarrow> download_priority \<Rightarrow> download_state \<Rightarrow> download_manager \<Rightarrow> download_manager" where
  "spawn k p st m =
     m\<lparr>dm_entries := (k, \<lparr>he_task_id = dm_next_task_id m, he_state = st, he_paused = False\<rparr>) # dm_entries m,
       dm_tasks := \<lparr>dt_id = dm_next_task_id m, dt_key = k, dt_priority = p, dt_phase = Waiting, dt_aborted = False\<rparr> # dm_tasks m,
       dm_next_task_id := dm_next_task_id m + 1\<rparr>"

definition tracked :: "media_task_key \<Rightarrow> download_manager \<Rightarrow> bool" where
  "tracked k m \<longleftrightarrow> map_of (dm_entries m) k \<noteq> None"

definition submit :: "media_task_key \<Rightarrow> download_priority \<Rightarrow> download_manager \<Rightarrow> download_manager \<times> bool" where
  "submit k p m =
     (if tracked k m \<or> MAX_TRACKED_DOWNLOADS \<le> length (dm_entries m) \<or>
         (p = Background \<and> MAX_BACKGROUND_TRACKED_DOWNLOADS \<le> length (dm_entries m))
      then (m, False)
      else (spawn k p Idle m, True))"

definition report_state :: "media_task_key \<Rightarrow> download_state \<Rightarrow> download_manager \<Rightarrow> download_manager" where
  "report_state k st m = m\<lparr>dm_events := dm_events m @ [(mk_message_id k, st)]\<rparr>"

definition start_with_ticket :: "media_task_key \<Rightarrow> download_manager \<Rightarrow> download_manager \<times> (string + unit)" where
  "start_with_ticket k m =
     (if tracked k m then (m, Inr ())
      else if MAX_TRACKED_DOWNLOADS \<le> length (dm_entries m) then (m, Inl ''receiver download queue is full'')
      else (report_state k (Downloading 0 None) (spawn k Visible (Downloading 0 None) m), Inr ()))"

definition on_entry :: "media_task_key \<Rightarrow> (handle_entry \<Rightarrow> handle_entry) \<Rightarrow> download_manager \<Rightarrow> download_manager" where
  "on_entry k f m = m\<lparr>dm_entries := map (\<lambda>(q, e). (q, if q = k then f e else e)) (dm_entries m)\<rparr>"

definition pause :: "media_task_key \<Rightarrow> download_manager \<Rightarrow> download_manager" where
  "pause k m = on_entry k (\<lambda>e. e\<lparr>he_paused := True\<rparr>) m"

definition resume :: "media_task_key \<Rightarrow> download_manager \<Rightarrow> download_manager" where
  "resume k m = on_entry k (\<lambda>e. e\<lparr>he_paused := False\<rparr>) m"

definition set_state :: "media_task_key \<Rightarrow> download_state \<Rightarrow> download_manager \<Rightarrow> download_manager" where
  "set_state k st m = on_entry k (\<lambda>e. e\<lparr>he_state := st\<rparr>) m"

text \<open>\<open>emit\<close>: the handle of the key, whoever owns it, and the event.\<close>

definition emit_state :: "media_task_key \<Rightarrow> download_state \<Rightarrow> download_manager \<Rightarrow> download_manager" where
  "emit_state k st m = report_state k st (set_state k st m)"

definition abort :: "(download_task \<Rightarrow> bool) \<Rightarrow> download_manager \<Rightarrow> download_manager" where
  "abort P m = m\<lparr>dm_tasks := map (\<lambda>t. if P t then t\<lparr>dt_aborted := True\<rparr> else t) (dm_tasks m)\<rparr>"

definition cancel :: "media_task_key \<Rightarrow> download_manager \<Rightarrow> download_manager" where
  "cancel k m =
     (case map_of (dm_entries m) k of
        None \<Rightarrow> m
      | Some e \<Rightarrow>
          report_state k Idle (abort (\<lambda>t. dt_id t = he_task_id e) (m\<lparr>dm_entries := filter (\<lambda>(q, _). q \<noteq> k) (dm_entries m)\<rparr>)))"

definition cancel_all_scoped :: "download_manager \<Rightarrow> download_manager" where
  "cancel_all_scoped m =
     abort (\<lambda>t. dt_id t \<in> he_task_id ` snd ` set (dm_entries m)) (m\<lparr>dm_entries := []\<rparr>)"

definition remove_if_current :: "media_task_key \<Rightarrow> nat \<Rightarrow> download_manager \<Rightarrow> download_manager" where
  "remove_if_current k i m =
     (if map_option he_task_id (map_of (dm_entries m) k) = Some i
      then m\<lparr>dm_entries := filter (\<lambda>(q, _). q \<noteq> k) (dm_entries m)\<rparr> else m)"

subsection \<open>The runtime\<close>

definition holds_background :: "download_task \<Rightarrow> bool" where
  "holds_background t \<longleftrightarrow> dt_priority t = Background \<and> dt_phase t \<noteq> Waiting"

definition holds_active :: "download_task \<Rightarrow> bool" where
  "holds_active t \<longleftrightarrow> dt_phase t = Running"

definition holders :: "(download_task \<Rightarrow> bool) \<Rightarrow> download_manager \<Rightarrow> nat" where
  "holders P m = length (filter P (dm_tasks m))"

definition to_phase :: "nat \<Rightarrow> task_phase \<Rightarrow> download_manager \<Rightarrow> download_manager" where
  "to_phase i ph m = m\<lparr>dm_tasks := map (\<lambda>t. if dt_id t = i then t\<lparr>dt_phase := ph\<rparr> else t) (dm_tasks m)\<rparr>"

definition may_admit :: "nat \<Rightarrow> download_manager \<Rightarrow> bool" where
  "may_admit i m \<longleftrightarrow>
     list_ex (\<lambda>t. dt_id t = i \<and> dt_priority t = Background \<and> dt_phase t = Waiting) (dm_tasks m) \<and>
     holders holds_background m < MAX_BACKGROUND_DOWNLOADS"

definition ready :: "download_task \<Rightarrow> bool" where
  "ready t \<longleftrightarrow> dt_phase t = (case dt_priority t of Visible \<Rightarrow> Waiting | Background \<Rightarrow> Admitted)"

definition may_run :: "nat \<Rightarrow> download_manager \<Rightarrow> bool" where
  "may_run i m \<longleftrightarrow> list_ex (\<lambda>t. dt_id t = i \<and> ready t) (dm_tasks m) \<and> holders holds_active m < MAX_ACTIVE_DOWNLOADS"

text \<open>The future of a task is gone: its permits are free and \<open>EntryCleanup\<close> drops its handle.\<close>

definition task_gone :: "nat \<Rightarrow> download_manager \<Rightarrow> download_manager" where
  "task_gone i m =
     (case find (\<lambda>t. dt_id t = i) (dm_tasks m) of
        None \<Rightarrow> m
      | Some t \<Rightarrow> remove_if_current (dt_key t) i (m\<lparr>dm_tasks := filter (\<lambda>t. dt_id t \<noteq> i) (dm_tasks m)\<rparr>))"

datatype manager_event =
    SubmitWork media_task_key download_priority
  | StartPayload media_task_key
  | PauseTask media_task_key
  | ResumeTask media_task_key
  | CancelTask media_task_key
  | CancelAll
  | BackgroundPermit nat
  | ActivePermit nat
  | TaskReports media_task_key download_state
  | TaskGone nat

fun manager_step :: "manager_event \<Rightarrow> download_manager \<Rightarrow> download_manager" where
  "manager_step (SubmitWork k p) m = fst (submit k p m)"
| "manager_step (StartPayload k) m = fst (start_with_ticket k m)"
| "manager_step (PauseTask k) m = pause k m"
| "manager_step (ResumeTask k) m = resume k m"
| "manager_step (CancelTask k) m = cancel k m"
| "manager_step CancelAll m = cancel_all_scoped m"
| "manager_step (BackgroundPermit i) m = (if may_admit i m then to_phase i Admitted m else m)"
| "manager_step (ActivePermit i) m = (if may_run i m then to_phase i Running m else m)"
| "manager_step (TaskReports k st) m = emit_state k st m"
| "manager_step (TaskGone i) m = task_gone i m"


subsection \<open>Permits\<close>

text \<open>A counting semaphore over the tasks: which tasks hold a permit, and how many there are. A task that has
  just been spawned holds none, and being aborted does not give one back.\<close>

locale semaphore =
  fixes cap :: nat and holds :: "download_task \<Rightarrow> bool"
  assumes waiting_holds_none: "dt_phase t = Waiting \<Longrightarrow> \<not> holds t"
    and abort_keeps: "holds (t\<lparr>dt_aborted := b\<rparr>) = holds t"
begin

definition within_cap :: "download_manager \<Rightarrow> bool" where
  "within_cap m \<longleftrightarrow> holders holds m \<le> cap"

lemma holders_tasks: "dm_tasks m' = dm_tasks m \<Longrightarrow> holders holds m' = holders holds m"
  by (simp add: holders_def)

lemma spawn_holders: "holders holds (spawn k p st m) = holders holds m"
  by (simp add: holders_def spawn_def waiting_holds_none)

lemma abort_holders: "holders holds (abort P m) = holders holds m"
proof -
  have "filter holds (map (\<lambda>t. if P t then t\<lparr>dt_aborted := True\<rparr> else t) ts) =
      map (\<lambda>t. if P t then t\<lparr>dt_aborted := True\<rparr> else t) (filter holds ts)" for ts
    by (induction ts) (simp_all add: abort_keeps)
  then show ?thesis by (simp add: holders_def abort_def)
qed

lemma gone_holders: "holders holds (m\<lparr>dm_tasks := filter Q (dm_tasks m)\<rparr>) \<le> holders holds m"
proof -
  have "length (filter (\<lambda>t. Q t \<and> holds t) ts) \<le> length (filter holds ts)" for ts
    by (induction ts) simp_all
  then show ?thesis by (simp add: holders_def)
qed

lemma grant_holders:
  assumes "distinct (map dt_id (dm_tasks m))"
  shows "holders holds (to_phase i ph m) \<le> holders holds m + 1"
proof -
  define g where "g = (\<lambda>t::download_task. if dt_id t = i then t\<lparr>dt_phase := ph\<rparr> else t)"
  have same: "map g ts = ts" if "i \<notin> dt_id ` set ts" for ts
    using that by (induction ts) (auto simp: g_def)
  have "length (filter holds (map g ts)) \<le> length (filter holds ts) + 1" if "distinct (map dt_id ts)" for ts
    using that
  proof (induction ts)
    case (Cons t ts)
    show ?case
    proof (cases "dt_id t = i")
      case True
      then have "i \<notin> dt_id ` set ts" using Cons.prems by auto
      then show ?thesis by (simp add: same)
    next
      case False then show ?thesis using Cons by (simp add: g_def)
    qed
  qed simp
  then show ?thesis using assms by (simp add: holders_def to_phase_def g_def)
qed

lemma regrant_holders:
  assumes "\<And>t. t \<in> set (dm_tasks m) \<Longrightarrow> dt_id t = i \<Longrightarrow> holds (t\<lparr>dt_phase := ph\<rparr>) = holds t"
  shows "holders holds (to_phase i ph m) = holders holds m"
proof -
  define g where "g = (\<lambda>t::download_task. if dt_id t = i then t\<lparr>dt_phase := ph\<rparr> else t)"
  have "length (filter holds (map g ts)) = length (filter holds ts)"
    if "\<And>t. t \<in> set ts \<Longrightarrow> dt_id t = i \<Longrightarrow> holds (t\<lparr>dt_phase := ph\<rparr>) = holds t" for ts
    using that by (induction ts) (auto simp: g_def)
  then show ?thesis using assms by (simp add: holders_def to_phase_def g_def)
qed

end

interpretation background: semaphore MAX_BACKGROUND_DOWNLOADS holds_background
  by unfold_locales (simp_all add: holds_background_def)

interpretation active: semaphore MAX_ACTIVE_DOWNLOADS holds_active
  by unfold_locales (simp_all add: holds_active_def)

subsection \<open>The invariant\<close>

text \<open>Task numbers and keys are unique, every handle belongs to a live task of its key and every live task has
  its handle, and the permits and the registry are within their limits.\<close>

definition handles_match :: "download_manager \<Rightarrow> bool" where
  "handles_match m \<longleftrightarrow>
     (\<forall>(k, e) \<in> set (dm_entries m). \<exists>t \<in> set (dm_tasks m). dt_id t = he_task_id e \<and> dt_key t = k \<and> \<not> dt_aborted t) \<and>
     (\<forall>t \<in> set (dm_tasks m). \<not> dt_aborted t \<longrightarrow> (\<exists>e. (dt_key t, e) \<in> set (dm_entries m) \<and> he_task_id e = dt_id t))"

definition registry_ok :: "download_manager \<Rightarrow> bool" where
  "registry_ok m \<longleftrightarrow> distinct (map fst (dm_entries m)) \<and> distinct (map dt_id (dm_tasks m)) \<and>
     (\<forall>t \<in> set (dm_tasks m). dt_id t < dm_next_task_id m) \<and> length (dm_entries m) \<le> MAX_TRACKED_DOWNLOADS \<and>
     handles_match m"

definition slots_ok :: "download_manager \<Rightarrow> bool" where
  "slots_ok m \<longleftrightarrow> holders holds_background m \<le> MAX_BACKGROUND_DOWNLOADS \<and> holders holds_active m \<le> MAX_ACTIVE_DOWNLOADS"

lemma not_tracked: "\<not> tracked k m \<longleftrightarrow> k \<notin> fst ` set (dm_entries m)"
  by (auto simp: tracked_def map_of_eq_None_iff)

lemma spawn_registry:
  assumes "registry_ok m" and "\<not> tracked k m" and "length (dm_entries m) < MAX_TRACKED_DOWNLOADS"
  shows "registry_ok (spawn k p st m)"
  using assms unfolding not_tracked
  by (fastforce simp: registry_ok_def spawn_def handles_match_def image_iff)

lemma report_registry [simp]: "registry_ok (report_state k st m) = registry_ok m"
  by (simp add: registry_ok_def report_state_def handles_match_def)

lemma on_entry_registry:
  assumes "registry_ok m" and "\<And>e. he_task_id (f e) = he_task_id e"
  shows "registry_ok (on_entry k f m)"
proof -
  have "map fst (dm_entries (on_entry k f m)) = map fst (dm_entries m)"
    by (simp add: on_entry_def case_prod_unfold)
  then have "distinct (map fst (dm_entries (on_entry k f m)))" using assms(1) by (simp add: registry_ok_def del: map_map)
  moreover have "handles_match (on_entry k f m)"
    using assms by (fastforce simp: registry_ok_def handles_match_def on_entry_def split: if_splits)
  ultimately show ?thesis using assms(1) by (simp add: registry_ok_def on_entry_def)
qed

lemma handles_match_map:
  assumes "handles_match m" and "dm_entries m' = dm_entries m" and "dm_tasks m' = map g (dm_tasks m)"
    and "\<And>t. dt_id (g t) = dt_id t" "\<And>t. dt_key (g t) = dt_key t" "\<And>t. dt_aborted (g t) = dt_aborted t"
  shows "handles_match m'"
  using assms(1) by (simp add: handles_match_def assms(2-6))

lemma phase_registry: "registry_ok m \<Longrightarrow> registry_ok (to_phase i ph m)"
proof -
  assume r: "registry_ok m"
  have ids: "map dt_id (dm_tasks (to_phase i ph m)) = map dt_id (dm_tasks m)"
    by (auto simp: to_phase_def)
  have "handles_match (to_phase i ph m)"
    by (rule handles_match_map [of m _ "\<lambda>t. if dt_id t = i then t\<lparr>dt_phase := ph\<rparr> else t"])
       (use r in \<open>simp_all add: registry_ok_def to_phase_def\<close>)
  then show ?thesis using r ids by (simp add: registry_ok_def) (auto simp: to_phase_def)
qed

lemma abort_ids: "map dt_id (dm_tasks (abort P m)) = map dt_id (dm_tasks m)"
  by (auto simp: abort_def)

text \<open>Handles leave together with the liveness of exactly their tasks.\<close>

lemma abort_registry:
  assumes "registry_ok m" and "dm_entries m' = filter (\<lambda>(q, _). q \<notin> K) (dm_entries m)"
    and "dm_tasks m' = dm_tasks m" and "dm_next_task_id m' = dm_next_task_id m"
  shows "registry_ok (abort (\<lambda>t. dt_id t \<in> he_task_id ` snd ` {x \<in> set (dm_entries m). fst x \<in> K}) m')"
    (is "registry_ok (abort ?P m')")
proof -
  have d: "distinct (map fst (dm_entries m))" "distinct (map dt_id (dm_tasks m))" using assms(1) by (auto simp: registry_ok_def)
  have hm: "\<And>k e. (k, e) \<in> set (dm_entries m) \<Longrightarrow> \<exists>t \<in> set (dm_tasks m). dt_id t = he_task_id e \<and> dt_key t = k \<and> \<not> dt_aborted t"
    "\<And>t. t \<in> set (dm_tasks m) \<Longrightarrow> \<not> dt_aborted t \<Longrightarrow> \<exists>e. (dt_key t, e) \<in> set (dm_entries m) \<and> he_task_id e = dt_id t"
    using assms(1) by (auto simp: registry_ok_def handles_match_def)
  have uid: "\<And>s t. s \<in> set (dm_tasks m) \<Longrightarrow> t \<in> set (dm_tasks m) \<Longrightarrow> dt_id s = dt_id t \<Longrightarrow> s = t"
    using d(2) by (auto simp: distinct_map inj_on_def)
  have ukey: "\<And>k e q f. (k, e) \<in> set (dm_entries m) \<Longrightarrow> (q, f) \<in> set (dm_entries m) \<Longrightarrow> he_task_id e = he_task_id f \<Longrightarrow> k = q"
    using hm(1) uid by (metis (no_types, lifting))
  have "handles_match (abort ?P m')"
    unfolding handles_match_def
  proof (intro conjI ballI impI; clarify?)
    fix k e assume "(k, e) \<in> set (dm_entries (abort ?P m'))"
    then have e: "(k, e) \<in> set (dm_entries m)" "k \<notin> K" using assms(2) by (auto simp: abort_def)
    then obtain t where t: "t \<in> set (dm_tasks m)" "dt_id t = he_task_id e" "dt_key t = k" "\<not> dt_aborted t" using hm(1) by blast
    have np: "\<not> ?P t" using t(2) e ukey by fastforce
    have "t \<in> set (dm_tasks (abort ?P m'))"
      unfolding abort_def using t(1) np assms(3) by (auto simp del: split_paired_Ex intro!: image_eqI [of _ _ t])
    then show "\<exists>t \<in> set (dm_tasks (abort ?P m')). dt_id t = he_task_id e \<and> dt_key t = k \<and> \<not> dt_aborted t"
      using t by blast
  next
    fix t assume a: "t \<in> set (dm_tasks (abort ?P m'))" "\<not> dt_aborted t"
    then have t: "t \<in> set (dm_tasks m)" "\<not> ?P t" using assms(3) by (auto simp: abort_def split: if_splits)
    then obtain e where e: "(dt_key t, e) \<in> set (dm_entries m)" "he_task_id e = dt_id t" using hm(2) a(2) by blast
    have "dt_key t \<notin> K" using t(2) e by (force simp: image_iff)
    then show "\<exists>e. (dt_key t, e) \<in> set (dm_entries (abort ?P m')) \<and> he_task_id e = dt_id t"
      using e assms(2) by (auto simp: abort_def)
  qed
  moreover have "distinct (map fst (dm_entries m'))" using d(1) assms(2) by (simp add: distinct_map_filter)
  moreover have "length (dm_entries m') \<le> length (dm_entries m)" using assms(2) by simp
  moreover have "\<forall>t \<in> set (dm_tasks (abort ?P m')). dt_id t < dm_next_task_id (abort ?P m')"
    using assms(1,3,4) by (auto simp: registry_ok_def abort_def)
  ultimately show ?thesis using assms(1,3) d(2) abort_ids [of ?P m']
    by (simp add: registry_ok_def) (simp add: abort_def)
qed


lemma cancel_registry: "registry_ok m \<Longrightarrow> registry_ok (cancel k m)"
proof (cases "map_of (dm_entries m) k")
  case None then show "registry_ok m \<Longrightarrow> ?thesis" by (simp add: cancel_def)
next
  case (Some e)
  assume r: "registry_ok m"
  have only: "{x \<in> set (dm_entries m). fst x \<in> {k}} = {(k, e)}"
    using r map_of_SomeD [OF Some] eq_key_imp_eq_value [of "dm_entries m" k] by (auto simp: registry_ok_def)
  have "registry_ok (abort (\<lambda>t. dt_id t \<in> he_task_id ` snd ` {x \<in> set (dm_entries m). fst x \<in> {k}})
      (m\<lparr>dm_entries := filter (\<lambda>(q, _). q \<noteq> k) (dm_entries m)\<rparr>))"
    by (rule abort_registry [OF r]) (simp_all add: case_prod_unfold)
  then show ?thesis unfolding only by (simp add: cancel_def Some)
qed

lemma cancel_all_registry: "registry_ok m \<Longrightarrow> registry_ok (cancel_all_scoped m)"
proof -
  assume r: "registry_ok m"
  have "registry_ok (abort (\<lambda>t. dt_id t \<in> he_task_id ` snd ` {x \<in> set (dm_entries m). fst x \<in> UNIV}) (m\<lparr>dm_entries := []\<rparr>))"
    by (rule abort_registry [OF r]) simp_all
  then show ?thesis by (simp add: cancel_all_scoped_def)
qed

text \<open>A task that ends takes its own handle along, and no other.\<close>

lemma gone_registry: "registry_ok m \<Longrightarrow> registry_ok (task_gone i m)"
proof (cases "find (\<lambda>t. dt_id t = i) (dm_tasks m)")
  case None then show "registry_ok m \<Longrightarrow> ?thesis" by (simp add: task_gone_def)
next
  case (Some t)
  assume r: "registry_ok m"
  have t: "t \<in> set (dm_tasks m)" "dt_id t = i" using Some by (auto simp: find_Some_iff)
  have d: "distinct (map fst (dm_entries m))" "distinct (map dt_id (dm_tasks m))" using r by (auto simp: registry_ok_def)
  have hm: "\<And>k e. (k, e) \<in> set (dm_entries m) \<Longrightarrow> \<exists>t \<in> set (dm_tasks m). dt_id t = he_task_id e \<and> dt_key t = k \<and> \<not> dt_aborted t"
    "\<And>t. t \<in> set (dm_tasks m) \<Longrightarrow> \<not> dt_aborted t \<Longrightarrow> \<exists>e. (dt_key t, e) \<in> set (dm_entries m) \<and> he_task_id e = dt_id t"
    using r by (auto simp: registry_ok_def handles_match_def)
  have uid: "\<And>s. s \<in> set (dm_tasks m) \<Longrightarrow> dt_id s = i \<Longrightarrow> s = t"
    using d(2) t by (auto simp: distinct_map inj_on_def)
  define m' where "m' = task_gone i m"
  have parts: "dm_tasks m' = filter (\<lambda>t. dt_id t \<noteq> i) (dm_tasks m)" "dm_next_task_id m' = dm_next_task_id m"
    by (simp_all add: m'_def task_gone_def Some remove_if_current_def)
  have mine: "(k, e) \<in> set (dm_entries m') \<longleftrightarrow> (k, e) \<in> set (dm_entries m) \<and> he_task_id e \<noteq> i" for k e
  proof -
    have "he_task_id e = i \<Longrightarrow> (k, e) \<in> set (dm_entries m) \<Longrightarrow> k = dt_key t" using hm(1) uid by metis
    moreover have "(dt_key t, e) \<in> set (dm_entries m) \<longleftrightarrow> map_of (dm_entries m) (dt_key t) = Some e"
      using d(1) by simp
    ultimately show ?thesis
      by (cases "map_of (dm_entries m) (dt_key t)") (auto simp: m'_def task_gone_def Some remove_if_current_def dest: map_of_SomeD)
  qed
  have "distinct (map fst (dm_entries m'))" "length (dm_entries m') \<le> length (dm_entries m)"
    using d(1) by (auto simp: m'_def task_gone_def Some remove_if_current_def distinct_map_filter case_prod_unfold)
  moreover have "handles_match m'"
    using hm by (fastforce simp: handles_match_def mine parts)
  moreover have "distinct (map dt_id (dm_tasks m'))" using d(2) by (simp add: parts distinct_map_filter)
  ultimately show "registry_ok (task_gone i m)"
    using r by (simp add: registry_ok_def m'_def [symmetric] parts)
qed

lemma registry_step: "registry_ok m \<Longrightarrow> registry_ok (manager_step e m)"
  by (cases e)
     (auto simp: submit_def start_with_ticket_def pause_def resume_def set_state_def emit_state_def spawn_registry not_le
        on_entry_registry cancel_registry cancel_all_registry phase_registry gone_registry)

lemma tasks_same [simp]:
  "dm_tasks (on_entry k f m) = dm_tasks m" "dm_tasks (report_state k st m) = dm_tasks m"
  "dm_tasks (remove_if_current k i m) = dm_tasks m"
  by (simp_all add: on_entry_def report_state_def remove_if_current_def)

lemma slots_same: "dm_tasks m' = dm_tasks m \<Longrightarrow> slots_ok m' = slots_ok m"
  by (simp add: slots_ok_def holders_def)

lemma slots_spawn [simp]: "slots_ok (spawn k p st m) = slots_ok m"
  by (simp add: slots_ok_def background.spawn_holders active.spawn_holders)

lemma slots_abort [simp]: "slots_ok (abort P m) = slots_ok m"
  by (simp add: slots_ok_def background.abort_holders active.abort_holders)

lemma slots_fewer: "slots_ok m \<Longrightarrow> slots_ok (m\<lparr>dm_tasks := filter Q (dm_tasks m)\<rparr>)"
  using background.gone_holders [of Q m] active.gone_holders [of Q m] by (simp add: slots_ok_def)

lemma slots_admit: "slots_ok m \<Longrightarrow> registry_ok m \<Longrightarrow> may_admit i m \<Longrightarrow> slots_ok (to_phase i Admitted m)"
proof -
  assume a: "slots_ok m" "registry_ok m" "may_admit i m"
  then have "distinct (map dt_id (dm_tasks m))" by (simp add: registry_ok_def)
  moreover from this a(3) have "holders holds_active (to_phase i Admitted m) = holders holds_active m"
    by (intro active.regrant_holders)
       (auto simp: may_admit_def list_ex_iff holds_active_def distinct_map inj_on_def)
  ultimately show ?thesis
    using a background.grant_holders [of m i Admitted] by (auto simp: slots_ok_def may_admit_def)
qed

lemma slots_run: "slots_ok m \<Longrightarrow> registry_ok m \<Longrightarrow> may_run i m \<Longrightarrow> slots_ok (to_phase i Running m)"
proof -
  assume a: "slots_ok m" "registry_ok m" "may_run i m"
  then have d: "distinct (map dt_id (dm_tasks m))" by (simp add: registry_ok_def)
  have "holders holds_background (to_phase i Running m) = holders holds_background m"
  proof (rule background.regrant_holders)
    fix t assume t: "t \<in> set (dm_tasks m)" "dt_id t = i"
    then have "ready t" using a(3) d by (auto simp: may_run_def list_ex_iff distinct_map inj_on_def)
    then show "holds_background (t\<lparr>dt_phase := Running\<rparr>) = holds_background t"
      by (cases "dt_priority t") (simp_all add: ready_def holds_background_def)
  qed
  then show ?thesis using a d active.grant_holders [of m i Running] by (auto simp: slots_ok_def may_run_def)
qed

lemma slots_gone: "slots_ok m \<Longrightarrow> slots_ok (task_gone i m)"
  by (cases "find (\<lambda>t. dt_id t = i) (dm_tasks m)")
     (simp_all add: task_gone_def slots_same [OF tasks_same(3)] slots_fewer)

lemma slots_step: "slots_ok m \<Longrightarrow> registry_ok m \<Longrightarrow> slots_ok (manager_step e m)"
  by (cases e)
     (auto simp: submit_def start_with_ticket_def pause_def resume_def set_state_def emit_state_def cancel_def cancel_all_scoped_def
        slots_same [of "on_entry _ _ _"] slots_same [of "report_state _ _ _"] slots_same [of "dm_entries_update _ _"]
        slots_admit slots_run slots_gone split: option.splits)

lemma reached_ok: "registry_ok (fold manager_step es new_manager) \<and> slots_ok (fold manager_step es new_manager)"
proof (induction es rule: rev_induct)
  case Nil then show ?case
    by (simp add: new_manager_def registry_ok_def handles_match_def slots_ok_def holders_def)
qed (simp add: registry_step slots_step)

text \<open>C14. Whatever the interleaving of requests, permits, cancellations and ends of tasks: at most three downloads run
  and at most two of them, or of those waiting for a slot, are in the background, at most 512 are registered,
  no two live tasks serve the same key, and a handle is registered exactly as long as its own task is live,
  so neither a dead handle nor the end of an old, aborted task blocks or removes newer work.\<close>

theorem downloads_bounded_and_single:
  "let m = fold manager_step es new_manager;
       live = filter (\<lambda>t. \<not> dt_aborted t) (dm_tasks m)
   in length (filter holds_active (dm_tasks m)) \<le> 3 \<and> length (filter holds_background (dm_tasks m)) \<le> 2 \<and>
      length (dm_entries m) \<le> 512 \<and> distinct (map dt_key live) \<and>
      (\<lambda>(k, e). (k, he_task_id e)) ` set (dm_entries m) = (\<lambda>t. (dt_key t, dt_id t)) ` set live"
proof -
  define m where "m = fold manager_step es new_manager"
  have r: "registry_ok m" and s: "slots_ok m" using reached_ok [of es] by (simp_all add: m_def)
  have hm: "\<And>k e. (k, e) \<in> set (dm_entries m) \<Longrightarrow> \<exists>t \<in> set (dm_tasks m). dt_id t = he_task_id e \<and> dt_key t = k \<and> \<not> dt_aborted t"
    "\<And>t. t \<in> set (dm_tasks m) \<Longrightarrow> \<not> dt_aborted t \<Longrightarrow> \<exists>e. (dt_key t, e) \<in> set (dm_entries m) \<and> he_task_id e = dt_id t"
    and d: "distinct (map fst (dm_entries m))" "distinct (map dt_id (dm_tasks m))"
    using r by (auto simp: registry_ok_def handles_match_def)
  have one: "t = u" if "t \<in> set (dm_tasks m)" "u \<in> set (dm_tasks m)" "\<not> dt_aborted t" "\<not> dt_aborted u" "dt_key t = dt_key u" for t u
  proof -
    note tu = that
    obtain e where e: "(dt_key t, e) \<in> set (dm_entries m)" "he_task_id e = dt_id t" using hm(2) [OF tu(1,3)] by blast
    obtain f where f: "(dt_key u, f) \<in> set (dm_entries m)" "he_task_id f = dt_id u" using hm(2) [OF tu(2,4)] by blast
    have "e = f" using eq_key_imp_eq_value [OF d(1) e(1)] f(1) tu(5) by simp
    then have "dt_id t = dt_id u" using e(2) f(2) by simp
    then show ?thesis using tu(1,2) d(2) by (auto simp: distinct_map inj_on_def)
  qed
  have "distinct (map dt_key (filter (\<lambda>t. \<not> dt_aborted t) (dm_tasks m)))"
    using d(2) one by (auto simp: distinct_map inj_on_def)
  moreover have "(\<lambda>(k, e). (k, he_task_id e)) ` set (dm_entries m) =
      (\<lambda>t. (dt_key t, dt_id t)) ` set (filter (\<lambda>t. \<not> dt_aborted t) (dm_tasks m))"
  proof (intro equalityI subsetI; clarsimp)
    fix k e assume "(k, e) \<in> set (dm_entries m)"
    from hm(1) [OF this] show "(k, he_task_id e) \<in> (\<lambda>t. (dt_key t, dt_id t)) ` {t \<in> set (dm_tasks m). \<not> dt_aborted t}" by force
  next
    fix t assume "t \<in> set (dm_tasks m)" "\<not> dt_aborted t"
    from hm(2) [OF this] show "(dt_key t, dt_id t) \<in> (\<lambda>(k, e). (k, he_task_id e)) ` set (dm_entries m)" by force
  qed
  ultimately show ?thesis
    using r s by (simp add: m_def [symmetric] Let_def registry_ok_def slots_ok_def holders_def MAX_ACTIVE_DOWNLOADS_def
        MAX_BACKGROUND_DOWNLOADS_def MAX_TRACKED_DOWNLOADS_def)
qed

text \<open>Background work never takes the last slot: while no visible task runs, a visible task that waits can run.\<close>

theorem visible_work_keeps_a_slot:
  assumes "m = fold manager_step es new_manager"
    and "t \<in> set (dm_tasks m)" and "dt_priority t = Visible" and "dt_phase t = Waiting"
    and "\<And>u. u \<in> set (dm_tasks m) \<Longrightarrow> dt_priority u = Visible \<Longrightarrow> dt_phase u \<noteq> Running"
  shows "may_run (dt_id t) m"
proof -
  have "filter holds_active (dm_tasks m) = filter holds_active (filter holds_background (dm_tasks m))"
  proof -
    have "holds_active u \<longleftrightarrow> holds_background u \<and> holds_active u" if "u \<in> set (dm_tasks m)" for u
      using assms(5) [OF that] by (cases "dt_priority u") (auto simp: holds_active_def holds_background_def)
    then show ?thesis by (simp add: conj_commute cong: filter_cong)
  qed
  then have "holders holds_active m \<le> holders holds_background m"
    unfolding holders_def by (metis length_filter_le filter_filter filter_cong)
  moreover have "holders holds_background m \<le> 2"
    using reached_ok [of es] by (simp add: assms(1) slots_ok_def MAX_BACKGROUND_DOWNLOADS_def)
  ultimately show ?thesis
    using assms(2-4) by (auto simp: may_run_def list_ex_iff ready_def MAX_ACTIVE_DOWNLOADS_def)
qed

subsection \<open>A run\<close>

definition busy_events :: "manager_event list" where
  "busy_events = map (\<lambda>i. SubmitWork (thumbnail_key ''5'' 1 i) Background) [1, 2, 3] @
     [BackgroundPermit 1, BackgroundPermit 2, BackgroundPermit 3, ActivePermit 1, ActivePermit 2, StartPayload (payload_key ''5'' 1 9)]"

text \<open>Three thumbnails are waiting or running and the payload of message 9 still gets its slot.\<close>

theorem visible_work_keeps_a_slot_witness:
  "let m = fold manager_step busy_events new_manager
   in length (dm_tasks m) = 4 \<and> holders holds_background m = 2 \<and> may_run 4 m"
proof -
  let ?t = "\<lparr>dt_id = 4, dt_key = payload_key ''5'' 1 9, dt_priority = Visible, dt_phase = Waiting, dt_aborted = False\<rparr>"
  let ?m = "fold manager_step busy_events new_manager"
  have m: "length (dm_tasks ?m) = 4" "holders holds_background ?m = 2" "?t \<in> set (dm_tasks ?m)"
    "list_all (\<lambda>u. dt_priority u = Visible \<longrightarrow> dt_phase u \<noteq> Running) (dm_tasks ?m)"
    by code_simp+
  from visible_work_keeps_a_slot [OF refl m(3)] m(1,2,4) show ?thesis by (auto simp: Let_def list_all_iff)
qed

end
