(* ===== verification/Media_Names.thy ===== *)
theory Media_Names
  imports Rust_Text
begin

text \<open>
  The names of attachment files (\<open>media_store.rs\<close>): the canonical name of a payload, the sanitised name of a
  download, and how the payload is found again among the other files of its directory. A directory is the
  list of its entries in the order the system yields them; names are valid UTF-8, kept as bytes.
\<close>

subsection \<open>Parts of a name\<close>

text \<open>\<open>Path::file_stem\<close> and \<open>Path::extension\<close>: a dot at the start does not begin an extension.\<close>

definition name_parts :: "string \<Rightarrow> string \<times> string option" where
  "name_parts n = (case rsplit_once CHR ''.'' n of
     Some (b, a) \<Rightarrow> if b = [] then (n, None) else (b, Some a)
   | None \<Rightarrow> (n, None))"

definition file_stem :: "string \<Rightarrow> string" where "file_stem n = fst (name_parts n)"
definition file_extension :: "string \<Rightarrow> string option" where "file_extension n = snd (name_parts n)"

definition with_extension :: "string \<Rightarrow> string \<Rightarrow> string" where
  "with_extension n e = file_stem n @ ''.'' @ e"

definition PAYLOAD_BASENAME :: string where "PAYLOAD_BASENAME = ''payload''"
definition THUMB_FILENAME :: string where "THUMB_FILENAME = ''thumb.webp''"
definition THUMB_PNG_FILENAME :: string where "THUMB_PNG_FILENAME = ''thumb.png''"
definition META_FILENAME :: string where "META_FILENAME = ''meta.json''"

definition mime_table :: "(string \<times> string) list" where
  "mime_table =
     [(''image/jpeg'', ''jpg''), (''image/jpg'', ''jpg''), (''image/png'', ''png''), (''image/gif'', ''gif''),
      (''image/webp'', ''webp''), (''image/heic'', ''heic''), (''image/heif'', ''heif''), (''image/bmp'', ''bmp''),
      (''image/x-bmp'', ''bmp''), (''image/svg+xml'', ''svg''), (''image/tiff'', ''tiff''),
      (''video/mp4'', ''mp4''), (''video/quicktime'', ''mov''), (''video/x-matroska'', ''mkv''), (''video/webm'', ''webm''),
      (''video/x-msvideo'', ''avi''), (''video/3gpp'', ''3gp''),
      (''audio/mpeg'', ''mp3''), (''audio/mp3'', ''mp3''), (''audio/mp4'', ''m4a''), (''audio/x-m4a'', ''m4a''),
      (''audio/aac'', ''aac''), (''audio/ogg'', ''ogg''), (''audio/vorbis'', ''ogg''), (''audio/wav'', ''wav''),
      (''audio/x-wav'', ''wav''), (''audio/flac'', ''flac''), (''audio/opus'', ''opus''), (''audio/amr'', ''amr''),
      (''application/pdf'', ''pdf''), (''application/zip'', ''zip''), (''application/x-rar-compressed'', ''rar''),
      (''application/vnd.rar'', ''rar''), (''application/x-7z-compressed'', ''7z''), (''text/plain'', ''txt'')]"

definition ext_from_mime :: "string \<Rightarrow> string" where
  "ext_from_mime mime = (case map_of mime_table (trim (to_ascii_lowercase mime)) of Some e \<Rightarrow> e | None \<Rightarrow> ''bin'')"

definition payload_filename :: "string \<Rightarrow> string" where
  "payload_filename mime = PAYLOAD_BASENAME @ ''.'' @ ext_from_mime mime"

definition ext_from_original_filename :: "string \<Rightarrow> string option" where
  "ext_from_original_filename n =
     (let e = last (split_on (\<lambda>c. c = CHR ''.'') n)
      in if e = [] \<or> 10 < length e \<or> \<not> list_all is_ascii_alphanumeric e then None else Some e)"

definition payload_filename_with_fallback :: "string \<Rightarrow> string option \<Rightarrow> string" where
  "payload_filename_with_fallback mime original =
     (let e = ext_from_mime mime
      in if e \<noteq> ''bin'' then PAYLOAD_BASENAME @ ''.'' @ e
         else case Option.bind original ext_from_original_filename of
                Some x \<Rightarrow> PAYLOAD_BASENAME @ ''.'' @ to_ascii_lowercase x
              | None \<Rightarrow> PAYLOAD_BASENAME @ ''.bin'')"

subsection \<open>The name of a download\<close>

definition base_name :: "string \<Rightarrow> string" where
  "base_name n = trim (last (split_on (\<lambda>c. c = CHR ''/'' \<or> c = CHR 0x5C) n))"

definition safe_extension_of :: "string \<Rightarrow> string option" where
  "safe_extension_of n =
     (case rsplit_once CHR ''.'' (base_name n) of
        None \<Rightarrow> None
      | Some (_, a) \<Rightarrow>
          (let e = to_ascii_lowercase a
           in if e \<noteq> [] \<and> length e \<le> 8 \<and> list_all is_ascii_alphanumeric e then Some e else None))"

definition ext_from_known_mime :: "string \<Rightarrow> string option" where
  "ext_from_known_mime mime = (if ext_from_mime mime \<noteq> ''bin'' then Some (ext_from_mime mime) else None)"

definition id_char :: "char \<Rightarrow> bool" where
  "id_char c \<longleftrightarrow> is_ascii_alphanumeric c \<or> c = CHR ''-'' \<or> c = CHR ''_''"

fun first_of :: "'a option list \<Rightarrow> 'a \<Rightarrow> 'a" where
  "first_of [] d = d"
| "first_of (Some x # xs) d = x"
| "first_of (None # xs) d = first_of xs d"

definition resolve_downloaded_file_name ::
  "string \<Rightarrow> string \<Rightarrow> string \<Rightarrow> string option \<Rightarrow> string option \<Rightarrow> string" where
  "resolve_downloaded_file_name file_id server_name server_mime message_name message_mime =
     (let kept = take 64 (filter id_char (trim file_id));
          base = (if kept = [] then ''attachment'' else kept);
          ext = first_of [ext_from_known_mime server_mime, safe_extension_of server_name,
                          Option.bind message_mime ext_from_known_mime, Option.bind message_name safe_extension_of] ''bin''
      in base @ ''.'' @ ext)"

subsection \<open>Finding the payload\<close>

record dir_entry =
  de_name :: string
  de_is_file :: bool
  de_size :: nat

text \<open>The text after the last occurrence.\<close>

fun after_last :: "string \<Rightarrow> string \<Rightarrow> string option" where
  "after_last p [] = (if p = [] then Some [] else None)"
| "after_last p (c # cs) =
     (case after_last p cs of
        Some r \<Rightarrow> Some r
      | None \<Rightarrow> if starts_with p (c # cs) then Some (drop (length p) (c # cs)) else None)"

definition ends_with :: "string \<Rightarrow> string \<Rightarrow> bool" where "ends_with p s \<longleftrightarrow> starts_with (rev p) (rev s)"

definition thumbnail_stem :: "string \<Rightarrow> bool" where
  "thumbnail_stem stem \<longleftrightarrow> stem = ''thumb'' \<or> ends_with ''_thumb'' stem \<or>
     (case after_last ''_thumb_v'' stem of Some v \<Rightarrow> v \<noteq> [] \<and> list_all is_ascii_digit v | None \<Rightarrow> False)"

definition candidate :: "dir_entry \<Rightarrow> bool" where
  "candidate e \<longleftrightarrow>
     de_is_file e \<and> file_extension (de_name e) \<noteq> Some ''json'' \<and> de_name e \<noteq> META_FILENAME \<and>
     de_name e \<noteq> ''body.sealed'' \<and> de_name e \<noteq> ''body.sealed.tmp'' \<and>
     \<not> (file_extension (de_name e) \<in> {Some ''part'', Some ''tmp''} \<and> CHR ''.'' \<in> set (file_stem (de_name e))) \<and>
     \<not> thumbnail_stem (file_stem (de_name e))"

definition find_primary_file :: "dir_entry list option \<Rightarrow> string option" where
  "find_primary_file entries =
     (case entries of
        None \<Rightarrow> None
      | Some es \<Rightarrow>
          (let cs = filter candidate es
           in if cs = [] then None
              else let named = filter (\<lambda>e. file_stem (de_name e) = PAYLOAD_BASENAME) cs;
                       pool = (if named \<noteq> [] then named else cs)
                   in Some (de_name (last (sort_key de_size pool)))))"

text \<open>A name found in the canonical directory (\<open>Inl\<close>) or in the old one without the month (\<open>Inr\<close>).\<close>

definition has_name :: "string \<Rightarrow> dir_entry list option \<Rightarrow> bool" where
  "has_name n entries \<longleftrightarrow> (case entries of None \<Rightarrow> False | Some es \<Rightarrow> list_ex (\<lambda>e. de_name e = n) es)"

definition look_in :: "string option \<Rightarrow> dir_entry list option \<Rightarrow> string option" where
  "look_in expected entries =
     (case expected of
        Some n \<Rightarrow> if has_name n entries then Some n else find_primary_file entries
      | None \<Rightarrow> find_primary_file entries)"

definition resolve_attachment_path ::
  "string option \<Rightarrow> dir_entry list option \<Rightarrow> dir_entry list option \<Rightarrow> (string + string) option" where
  "resolve_attachment_path expected canonical legacy =
     (case look_in expected canonical of
        Some n \<Rightarrow> Some (Inl n)
      | None \<Rightarrow> map_option Inr (look_in expected legacy))"

subsection \<open>Names of the files around a payload\<close>

definition part_name :: "string \<Rightarrow> string" where "part_name payload = payload @ ''.part''"

definition decrypted_name :: "string \<Rightarrow> string" where "decrypted_name payload = with_extension payload ''decrypted.part''"

definition sealed_cache_name :: "string \<Rightarrow> string" where
  "sealed_cache_name final_name = (if final_name = THUMB_FILENAME then ''thumb.sealed'' else ''body.sealed'')"

definition thumb_filename_for_url :: "string \<Rightarrow> string" where
  "thumb_filename_for_url url =
     (let path = hd (split_on (\<lambda>c. c = CHR ''?'' \<or> c = CHR ''#'') url);
          ext = to_ascii_lowercase (last (split_on (\<lambda>c. c = CHR ''.'') (last (split_on (\<lambda>c. c = CHR ''/'') path))))
      in if ext = ''png'' then THUMB_PNG_FILENAME else THUMB_FILENAME)"

subsection \<open>Facts about names\<close>

definition plain_ext :: "string \<Rightarrow> bool" where
  "plain_ext e \<longleftrightarrow> e \<noteq> [] \<and> length e \<le> 10 \<and> list_all is_ascii_alphanumeric e"

lemma mime_exts: "list_all (\<lambda>(_, e). plain_ext e \<and> length e \<le> 4 \<and> e \<noteq> ''json'' \<and> e \<noteq> ''bin'') mime_table"
  by code_simp

lemma ext_from_mime_plain: "plain_ext (ext_from_mime mime) \<and> length (ext_from_mime mime) \<le> 4 \<and> ext_from_mime mime \<noteq> ''json''"
proof (cases "map_of mime_table (trim (to_ascii_lowercase mime))")
  case None
  have "plain_ext ''bin''" by code_simp
  then show ?thesis using None by (simp add: ext_from_mime_def)
next
  case (Some e)
  then show ?thesis using mime_exts map_of_SomeD [OF Some] by (auto simp: ext_from_mime_def list_all_iff)
qed

lemma alnum_lower: "is_ascii_alphanumeric c \<Longrightarrow> is_ascii_alphanumeric (ascii_lower c)"
  by (auto simp: is_ascii_alphanumeric_def ascii_lower_def Let_def of_char_of)

lemma plain_lower: "plain_ext e \<Longrightarrow> plain_ext (to_ascii_lowercase e)"
  by (auto simp: plain_ext_def to_ascii_lowercase_def list_all_iff alnum_lower)

lemma alnum_not: "is_ascii_alphanumeric c \<Longrightarrow> c \<noteq> CHR ''.'' \<and> c \<noteq> CHR ''/'' \<and> c \<noteq> CHR 0x5C"
  by (auto simp: is_ascii_alphanumeric_def)

lemma plain_no_dot: "plain_ext e \<Longrightarrow> CHR ''.'' \<notin> set e"
  using alnum_not by (auto simp: plain_ext_def list_all_iff)

lemma payload_name_shape: "\<exists>e. payload_filename_with_fallback mime original = PAYLOAD_BASENAME @ ''.'' @ e \<and> plain_ext e"
proof -
  have "plain_ext ''bin''" by code_simp
  moreover have "Option.bind original ext_from_original_filename = Some x \<Longrightarrow> plain_ext x" for x
    by (cases original) (auto simp: ext_from_original_filename_def plain_ext_def Let_def split: if_splits)
  ultimately show ?thesis
    using ext_from_mime_plain [of mime] plain_lower
    by (auto simp: payload_filename_with_fallback_def Let_def split: option.splits)
qed

lemma name_parts_plain: "CHR ''.'' \<notin> set e \<Longrightarrow> b \<noteq> [] \<Longrightarrow> name_parts (b @ ''.'' @ e) = (b, Some e)"
  using split_once_append [of "CHR ''.''" "rev e" "rev b"]
  by (simp add: name_parts_def rsplit_once_def)

lemma payload_parts:
  "plain_ext e \<Longrightarrow> file_stem (PAYLOAD_BASENAME @ ''.'' @ e) = PAYLOAD_BASENAME"
  "plain_ext e \<Longrightarrow> file_extension (PAYLOAD_BASENAME @ ''.'' @ e) = Some e"
  using name_parts_plain [OF plain_no_dot, of e PAYLOAD_BASENAME]
  by (simp_all add: file_stem_def file_extension_def PAYLOAD_BASENAME_def)


text \<open>A JSON attachment is never found. A file whose MIME type the table does not know and whose original name
  ends in json is stored as payload.json, and the search for the primary file leaves out every name with that
  extension: with nothing else to find, the attachment does not exist for the application.\<close>

theorem json_attachment_is_never_found:
  assumes "ext_from_mime mime = ''bin''" and "ext_from_original_filename original = Some x" and "to_ascii_lowercase x = ''json''"
    and "\<And>d. d \<in> set es \<Longrightarrow> de_name d = payload_filename_with_fallback mime (Some original) \<or> \<not> candidate d"
  shows "payload_filename_with_fallback mime (Some original) = ''payload.json'' \<and>
    resolve_attachment_path None (Some es) None = None"
proof -
  have n: "payload_filename_with_fallback mime (Some original) = ''payload.json''"
    using assms(1-3) by (simp add: payload_filename_with_fallback_def PAYLOAD_BASENAME_def)
  have "file_extension ''payload.json'' = Some ''json''" by code_simp
  then have "\<not> candidate d" if "de_name d = ''payload.json''" for d using that by (simp add: candidate_def)
  then have "filter candidate es = []" using assms(4) n by (fastforce simp: filter_empty_conv)
  then show ?thesis using n by (simp add: resolve_attachment_path_def look_in_def find_primary_file_def)
qed

text \<open>C27. The name under which a download is stored is safe and short, whatever the peer or the server put into the file
  id, the names and the MIME types: ASCII letters, digits, dash, underscore and one dot, not at the start, in
  at most 73 bytes. So it names no other directory and no hidden file.\<close>

theorem download_name_is_safe:
  "let n = resolve_downloaded_file_name fid sn sm mn mm
   in \<exists>b e. n = b @ ''.'' @ e \<and> b \<noteq> [] \<and> e \<noteq> [] \<and> list_all id_char b \<and> list_all is_ascii_alphanumeric e \<and>
      length n \<le> 73 \<and> CHR ''/'' \<notin> set n \<and> CHR 0x5C \<notin> set n"
proof -
  define kept where "kept = take 64 (filter id_char (trim fid))"
  define b where "b = (if kept = [] then ''attachment'' else kept)"
  define e where "e = first_of [ext_from_known_mime sm, safe_extension_of sn, Option.bind mm ext_from_known_mime,
    Option.bind mn safe_extension_of] ''bin''"
  have n: "resolve_downloaded_file_name fid sn sm mn mm = b @ ''.'' @ e"
    by (simp add: resolve_downloaded_file_name_def Let_def b_def e_def kept_def)
  have "list_all id_char ''attachment''" by code_simp
  moreover have "list_all id_char kept" by (auto simp: kept_def list_all_iff dest: in_set_takeD)
  ultimately have b: "list_all id_char b" "b \<noteq> []" "length b \<le> 64" by (simp_all add: b_def kept_def)
  have known: "ext_from_known_mime m = Some x \<Longrightarrow> x \<noteq> [] \<and> length x \<le> 8 \<and> list_all is_ascii_alphanumeric x" for m x
    using ext_from_mime_plain [of m] by (auto simp: ext_from_known_mime_def plain_ext_def split: if_splits)
  have safe: "safe_extension_of m = Some x \<Longrightarrow> x \<noteq> [] \<and> length x \<le> 8 \<and> list_all is_ascii_alphanumeric x" for m x
    by (auto simp: safe_extension_of_def Let_def split: option.splits if_splits)
  have "list_all is_ascii_alphanumeric ''bin''" by code_simp
  then have e: "e \<noteq> []" "length e \<le> 8" "list_all is_ascii_alphanumeric e"
    unfolding e_def using known [of sm] known safe [of sn] safe
    by (cases "ext_from_known_mime sm"; cases "safe_extension_of sn"; cases mm; cases mn;
        cases "ext_from_known_mime (the mm)"; cases "safe_extension_of (the mn)"; auto)+
  have "CHR ''/'' \<notin> set b" "CHR 0x5C \<notin> set b" "CHR ''/'' \<notin> set e" "CHR 0x5C \<notin> set e"
    using b(1) e(3) alnum_not by (auto simp: list_all_iff id_char_def)
  then show ?thesis
    unfolding n Let_def using b e by (intro exI [of _ b] exI [of _ e]) auto
qed

subsection \<open>Examples\<close>

definition file_of :: "string \<Rightarrow> nat \<Rightarrow> dir_entry" where
  "file_of n k = \<lparr>de_name = n, de_is_file = True, de_size = k\<rparr>"


theorem json_attachment_is_never_found_witness:
  "resolve_attachment_path None (Some [file_of ''payload.json'' 10, file_of ''meta.json'' 20]) None = None"
proof -
  have a: "ext_from_mime ''application/json'' = ''bin''" "ext_from_original_filename ''config.json'' = Some ''json''"
    "to_ascii_lowercase ''json'' = ''json''" by code_simp+
  have "payload_filename_with_fallback ''application/json'' (Some ''config.json'') = ''payload.json''" by code_simp
  moreover have "\<not> candidate (file_of ''meta.json'' 20)" by code_simp
  ultimately show ?thesis
    using json_attachment_is_never_found [OF a, of "[file_of ''payload.json'' 10, file_of ''meta.json'' 20]"]
    unfolding file_of_def by force
qed

end
