(* ===== verification/Media_Transfer.thy ===== *)
theory Media_Transfer
  imports Media_Names Download_Manager "HOL-Library.Sublist"
begin

text \<open>
  One receiver-side download (\<open>run_download\<close> of \<open>media_download.rs\<close>) and the decryption of what arrives
  (\<open>attachment_crypto.rs\<close>). The directory of the message maps names to contents. The HTTP answer to a request from
  a given offset, the outcomes of the file operations and the flags other threads set are arguments; the
  ciphers and the encodings are those of external crates. A list of loop inputs that just ends stands for an
  aborted task or a killed process.
\<close>

subsection \<open>Attachment encryption\<close>

record attachment_cipher =
  cr_encode :: "string \<Rightarrow> string"
  cr_decode :: "string \<Rightarrow> string option"
  cr_seal :: "string \<Rightarrow> string \<Rightarrow> string \<Rightarrow> string option"
  cr_open :: "string \<Rightarrow> string \<Rightarrow> string \<Rightarrow> string option"

definition NONCE_LEN :: nat where "NONCE_LEN = 12"
definition TAG_LEN :: nat where "TAG_LEN = 16"
definition CEK_LEN :: nat where "CEK_LEN = 32"
definition MIN_BLOB_LEN :: nat where "MIN_BLOB_LEN = NONCE_LEN + TAG_LEN"

text \<open>The random key and nonce are arguments.\<close>

definition encrypt_attachment ::
  "attachment_cipher \<Rightarrow> string \<Rightarrow> string \<Rightarrow> string \<Rightarrow> string + (string \<times> string)" where
  "encrypt_attachment c cek nonce plaintext =
     (case cr_seal c cek nonce plaintext of
        None \<Rightarrow> Inl ''attachment encrypt failed''
      | Some ct \<Rightarrow> Inr (nonce @ ct, cr_encode c cek))"

definition decrypt_attachment :: "attachment_cipher \<Rightarrow> string \<Rightarrow> string \<Rightarrow> string + string" where
  "decrypt_attachment c blob cek_b64 =
     (if length blob < MIN_BLOB_LEN
      then Inl (''attachment blob too short: '' @ show_nat (length blob) @ '' < '' @ show_nat MIN_BLOB_LEN)
      else case cr_decode c cek_b64 of
             None \<Rightarrow> Inl ''cek is not valid base64url''
           | Some cek \<Rightarrow>
               if length cek \<noteq> CEK_LEN
               then Inl (''cek must be '' @ show_nat CEK_LEN @ '' bytes, got '' @ show_nat (length cek))
               else case cr_open c cek (take NONCE_LEN blob) (drop NONCE_LEN blob) of
                      None \<Rightarrow> Inl ''attachment decrypt/auth failed''
                    | Some p \<Rightarrow> Inr p)"

definition decrypt_downloaded_attachment_bytes ::
  "attachment_cipher \<Rightarrow> int \<Rightarrow> string option \<Rightarrow> string \<Rightarrow> string + string" where
  "decrypt_downloaded_attachment_bytes c version cek blob =
     (if version = 0 then Inr blob
      else if version = 1
      then (case cek of
              Some k \<Rightarrow> if k = [] then Inl ''encryption_version=1 but cek missing'' else decrypt_attachment c blob k
            | None \<Rightarrow> Inl ''encryption_version=1 but cek missing'')
      else Inl (''unsupported encryption_version: '' @ show_int version))"

subsection \<open>The request and the stream\<close>

type_synonym message_dir = "string \<Rightarrow> string option"

record download_ticket =
  ti_url :: string
  ti_encryption_version :: int
  ti_cek :: "string option"

definition legacy_url :: "string \<Rightarrow> download_ticket" where
  "legacy_url url = \<lparr>ti_url = url, ti_encryption_version = 0, ti_cek = None\<rparr>"

datatype http_answer = NoAnswer string | Answer nat "nat option" string

text \<open>What one turn of the loop meets: a cancelled flag, a pause (with the flags seen when it is woken), a chunk (and
  whether progress is due), a chunk of which only a part could be written, a broken stream, its end.\<close>

datatype loop_input =
    CancelSeen
  | PauseSeen bool bool
  | Arrived string bool
  | WriteFails string nat string
  | Broken string
  | StreamEnd

datatype cache_outcome = CacheKept | BlobFails | MarkFails

record transfer_env =
  te_cipher :: attachment_cipher
  te_network_error :: nat
  te_internal_error :: nat
  te_status_text :: "nat \<Rightarrow> string"
  te_mark_text :: "string \<Rightarrow> string \<Rightarrow> string"
  te_path :: string
  te_answer :: "nat \<Rightarrow> http_answer"
  te_stream :: "nat \<Rightarrow> loop_input list"
  te_open_error :: "string option"
  te_sync_error :: "string option"
  te_rename_error :: "string option"
  te_read_error :: "string option"
  te_plain_error :: "string option"
  te_cache :: cache_outcome
  te_flag_set :: bool

record transfer =
  tf_dir :: message_dir
  tf_events :: "download_state list"
  tf_downloaded :: bool

definition append_to :: "string \<Rightarrow> string \<Rightarrow> message_dir \<Rightarrow> message_dir" where
  "append_to n data d = d(n \<mapsto> (case d n of Some b \<Rightarrow> b @ data | None \<Rightarrow> data))"

definition part_of :: "string \<Rightarrow> message_dir \<Rightarrow> string" where
  "part_of payload d = (case d (part_name payload) of Some b \<Rightarrow> b | None \<Rightarrow> [])"

datatype loop_result = StreamDone | TaskStopped

definition failed :: "nat \<Rightarrow> string \<Rightarrow> download_state" where "failed code text = Failed code text"

fun transfer_loop ::
  "transfer_env \<Rightarrow> string \<Rightarrow> nat option \<Rightarrow> loop_input list \<Rightarrow> nat \<Rightarrow> message_dir \<Rightarrow>
   message_dir \<times> download_state list \<times> loop_result" where
  "transfer_loop env n whole [] off d = (d, [], TaskStopped)"
| "transfer_loop env n whole (CancelSeen # is) off d = (d, [], TaskStopped)"
| "transfer_loop env n whole (PauseSeen cancelled still # is) off d =
     (if cancelled then (d, [Paused off whole], TaskStopped)
      else case transfer_loop env n whole is off d of (d', es, r) \<Rightarrow>
             (d', Paused off whole # (if still then es else Downloading off whole # es), r))"
| "transfer_loop env n whole (Arrived data due # is) off d =
     (case transfer_loop env n whole is (off + length data) (append_to n data d) of (d', es, r) \<Rightarrow>
        (d', if due then Downloading (off + length data) whole # es else es, r))"
| "transfer_loop env n whole (WriteFails data k e # is) off d =
     (append_to n (take k data) d, [failed (te_internal_error env) (''write: '' @ e)], TaskStopped)"
| "transfer_loop env n whole (Broken e # is) off d =
     (d, [failed (te_network_error env) (''chunk: '' @ e)], TaskStopped)"
| "transfer_loop env n whole (StreamEnd # is) off d = (d, [], StreamDone)"

subsection \<open>The finished file\<close>

text \<open>The sealed copy next to the file: the old mark is withdrawn, the blob written, the mark set.\<close>

definition write_sealed_cache :: "transfer_env \<Rightarrow> string \<Rightarrow> string \<Rightarrow> string \<Rightarrow> message_dir \<Rightarrow> message_dir" where
  "write_sealed_cache env cache blob cek d =
     (case te_cache env of
        BlobFails \<Rightarrow> d(cache @ ''.json'' := None, cache @ ''.tmp'' := None)
      | MarkFails \<Rightarrow> d(cache @ ''.json'' := None, cache @ ''.tmp'' := None, cache := None)
      | CacheKept \<Rightarrow> d(cache @ ''.tmp'' := None, cache \<mapsto> blob, cache @ ''.json'' \<mapsto> te_mark_text env cek blob))"

definition stopped :: "message_dir \<Rightarrow> download_state list \<Rightarrow> transfer" where
  "stopped d es = \<lparr>tf_dir = d, tf_events = es, tf_downloaded = False\<rparr>"

definition finish_download :: "transfer_env \<Rightarrow> message_dir \<Rightarrow> transfer" where
  "finish_download env d = \<lparr>tf_dir = d, tf_events = [Done (te_path env)], tf_downloaded = te_flag_set env\<rparr>"

definition finalize_plain :: "transfer_env \<Rightarrow> string \<Rightarrow> message_dir \<Rightarrow> transfer" where
  "finalize_plain env payload d =
     (case te_rename_error env of
        Some e \<Rightarrow> stopped d [failed (te_internal_error env) (''rename: '' @ e)]
      | None \<Rightarrow> finish_download env (d(payload := d (part_name payload), part_name payload := None)))"

definition finalize_sealed :: "transfer_env \<Rightarrow> download_ticket \<Rightarrow> string \<Rightarrow> message_dir \<Rightarrow> transfer" where
  "finalize_sealed env ticket payload d =
     (case te_read_error env of
        Some e \<Rightarrow> stopped d [failed (te_internal_error env) (''read part for decrypt: '' @ e)]
      | None \<Rightarrow>
          (let blob = part_of payload d in
           case decrypt_downloaded_attachment_bytes (te_cipher env) (ti_encryption_version ticket) (ti_cek ticket) blob of
             Inl e \<Rightarrow> stopped (d(part_name payload := None)) [failed (te_internal_error env) (''decrypt attachment: '' @ e)]
           | Inr plain \<Rightarrow>
               (case te_plain_error env of
                  Some e \<Rightarrow> stopped (d(decrypted_name payload := None)) [failed (te_internal_error env) (''write decrypted: '' @ e)]
                | None \<Rightarrow>
                    (let d1 = d(decrypted_name payload := None, payload \<mapsto> plain);
                         d2 = (case ti_cek ticket of
                                 Some k \<Rightarrow> write_sealed_cache env (sealed_cache_name payload) blob k d1
                               | None \<Rightarrow> d1)
                     in finish_download env (d2(part_name payload := None))))))"

definition run_download :: "transfer_env \<Rightarrow> download_ticket \<Rightarrow> string \<Rightarrow> message_dir \<Rightarrow> transfer" where
  "run_download env ticket payload d =
     (if d payload \<noteq> None then stopped d [Done (te_path env)]
      else
        let start = length (part_of payload d) in
        case te_answer env start of
          NoAnswer e \<Rightarrow> stopped d [failed (te_network_error env) (''send: '' @ e)]
        | Answer status len body \<Rightarrow>
            (if status < 200 \<or> 300 \<le> status
             then stopped d [failed (te_network_error env) (''status='' @ te_status_text env status @ '' body='' @ body)]
             else
               let ranged = (status = 206);
                   off = (if ranged then start else 0);
                   whole = map_option (\<lambda>l. l + off) len
               in case te_open_error env of
                    Some e \<Rightarrow> stopped d [failed (te_internal_error env) (''open part: '' @ e)]
                  | None \<Rightarrow>
                      (let d1 = (if ranged \<and> 0 < start then d else d(part_name payload \<mapsto> [])) in
                       case transfer_loop env (part_name payload) whole (te_stream env start) off d1 of
                         (d2, es, TaskStopped) \<Rightarrow> stopped d2 (Downloading off whole # es)
                       | (d2, es, StreamDone) \<Rightarrow>
                           (case te_sync_error env of
                              Some e \<Rightarrow> stopped d2 (Downloading off whole # es @
                                [failed (te_internal_error env) (''sync: '' @ e)])
                            | None \<Rightarrow>
                                (let t = (if ti_encryption_version ticket = 0 then finalize_plain env payload d2
                                          else finalize_sealed env ticket payload d2)
                                 in t\<lparr>tf_events := Downloading off whole # es @ tf_events t\<rparr>)))))"

text \<open>Attempt after attempt, each from what the last one left.\<close>

fun attempts :: "transfer_env list \<Rightarrow> download_ticket \<Rightarrow> string \<Rightarrow> message_dir \<Rightarrow> message_dir" where
  "attempts [] ticket payload d = d"
| "attempts (env # envs) ticket payload d = attempts envs ticket payload (tf_dir (run_download env ticket payload d))"

subsection \<open>The sweep of old sealed copies\<close>

text \<open>The entries of one message directory with the age of each file, where the system tells it.\<close>

record sealed_copy =
  sc_dir :: string
  sc_name :: string
  sc_age :: "nat option"

definition expired :: "nat \<Rightarrow> sealed_copy \<Rightarrow> bool" where
  "expired max_age s \<longleftrightarrow> sc_name s \<in> {''body.sealed'', ''thumb.sealed''} \<and>
     (case sc_age s of Some a \<Rightarrow> max_age < a | None \<Rightarrow> False)"

definition prune_sealed_caches :: "nat \<Rightarrow> sealed_copy list \<Rightarrow> sealed_copy list \<times> nat" where
  "prune_sealed_caches max_age cs =
     (let gone = filter (expired max_age) cs
      in (filter (\<lambda>c. \<not> list_ex (\<lambda>g. sc_dir g = sc_dir c \<and> (sc_name c = sc_name g \<or> sc_name c = sc_name g @ ''.json'')) gone) cs,
          length gone))"

subsection \<open>Resuming\<close>

text \<open>The stream carries \<open>rest\<close>: every chunk continues it, and it ends only when all of it has arrived.\<close>

fun carries :: "loop_input list \<Rightarrow> string \<Rightarrow> bool" where
  "carries [] rest \<longleftrightarrow> True"
| "carries (CancelSeen # is) rest \<longleftrightarrow> True"
| "carries (PauseSeen c s # is) rest \<longleftrightarrow> carries is rest"
| "carries (Arrived data due # is) rest \<longleftrightarrow> prefix data rest \<and> carries is (drop (length data) rest)"
| "carries (WriteFails data k e # is) rest \<longleftrightarrow> prefix data rest"
| "carries (Broken e # is) rest \<longleftrightarrow> True"
| "carries (StreamEnd # is) rest \<longleftrightarrow> rest = []"

text \<open>A server that has the file: a partial answer carries what comes after the offset, a full one everything.\<close>

definition serves :: "transfer_env \<Rightarrow> string \<Rightarrow> bool" where
  "serves env blob \<longleftrightarrow>
     (\<forall>s. case te_answer env s of
            NoAnswer e \<Rightarrow> True
          | Answer status len body \<Rightarrow> status < 200 \<or> 300 \<le> status \<or>
              carries (te_stream env s) (if status = 206 then drop s blob else blob))"

definition decoded_blob :: "transfer_env \<Rightarrow> download_ticket \<Rightarrow> string \<Rightarrow> string option" where
  "decoded_blob env ticket blob =
     (case decrypt_downloaded_attachment_bytes (te_cipher env) (ti_encryption_version ticket) (ti_cek ticket) blob of
        Inr p \<Rightarrow> Some p | Inl e \<Rightarrow> None)"

lemma part_differs [simp]: "part_name p \<noteq> p" "p \<noteq> part_name p"
  by (simp_all add: part_name_def)

lemma append_to_simps [simp]:
  "append_to n x d n = Some ((case d n of Some b \<Rightarrow> b | None \<Rightarrow> []) @ x)"
  "m \<noteq> n \<Longrightarrow> append_to n x d m = d m"
  by (auto simp: append_to_def split: option.splits)

lemma loop_others: "m \<noteq> n \<Longrightarrow> fst (transfer_loop env n whole is off d) m = d m"
  by (induction env n whole "is" off d rule: transfer_loop.induct) (auto split: prod.splits)

lemma loop_content:
  assumes "carries is rest" and "d n = Some got" and "transfer_loop env n whole is off d = (d', es, r)"
  shows "\<exists>more. d' n = Some (got @ more) \<and> prefix more rest \<and> (r = StreamDone \<longrightarrow> more = rest)"
  using assms
proof (induction env n whole "is" off d arbitrary: rest got es d' r rule: transfer_loop.induct)
  case (4 env n whole data due "is" off d)
  obtain tail where tail: "rest = data @ tail" using 4(2) by (auto simp: prefix_def)
  obtain d1 es1 r1 where step: "transfer_loop env n whole is (off + length data) (append_to n data d) = (d1, es1, r1)"
    by (cases "transfer_loop env n whole is (off + length data) (append_to n data d)")
  have "carries is tail" "append_to n data d n = Some (got @ data)" using 4(2,3) tail by simp_all
  from 4(1) [OF this step] 4(4) step tail show ?case by auto
next
  case (5 env n whole data k e "is" off d)
  then show ?case using prefix_order.trans [OF take_is_prefix] by auto
qed (auto split: if_splits prod.splits)

lemma decrypt_version_zero: "ti_encryption_version t = 0 \<Longrightarrow> decoded_blob env t b = Some b"
  by (simp add: decoded_blob_def decrypt_downloaded_attachment_bytes_def)

definition cache_names :: "string set" where
  "cache_names = {''body.sealed'', ''thumb.sealed'', ''body.sealed.json'', ''thumb.sealed.json'', ''body.sealed.tmp'', ''thumb.sealed.tmp''}"

lemma payload_not_cached: "payload_filename_with_fallback mime original \<notin> cache_names"
  using payload_name_shape [of mime original] by (auto simp: cache_names_def PAYLOAD_BASENAME_def)

lemma sealed_cache_other: "n \<notin> cache_names \<Longrightarrow> write_sealed_cache env (sealed_cache_name p) b k d n = d n"
  by (auto simp: write_sealed_cache_def sealed_cache_name_def cache_names_def split: cache_outcome.splits)

text \<open>What a directory may hold while the file is being fetched.\<close>

definition fetching :: "(string \<Rightarrow> string option) \<Rightarrow> string \<Rightarrow> string \<Rightarrow> message_dir \<Rightarrow> bool" where
  "fetching dec payload blob d \<longleftrightarrow> prefix (part_of payload d) blob \<and> (d payload = None \<or> d payload = dec blob)"

lemma part_of_upd [simp]:
  "part_of p (d(part_name p := None)) = []" "part_of p (d(part_name p \<mapsto> b)) = b" "part_of p (d(p := x)) = part_of p d"
  by (simp_all add: part_of_def)

lemma finalize_plain_fetching:
  assumes "fetching (decoded_blob env ticket) payload blob d" and "part_of payload d = blob" and "d (part_name payload) \<noteq> None"
    and "ti_encryption_version ticket = 0"
  shows "fetching (decoded_blob env ticket) payload blob (tf_dir (finalize_plain env payload d))"
  using assms
  by (auto simp: finalize_plain_def stopped_def finish_download_def fetching_def decrypt_version_zero part_of_def split: option.splits)

lemma dec_ok: "decrypt_downloaded_attachment_bytes (te_cipher env) (ti_encryption_version ticket) (ti_cek ticket) blob = Inr p \<Longrightarrow>
    decoded_blob env ticket blob = Some p"
  by (simp add: decoded_blob_def)

lemma part_of_less: "part_of p (d(n := None)) = [] \<or> part_of p (d(n := None)) = part_of p d"
  by (simp add: part_of_def)

lemma finalize_sealed_fetching:
  assumes "fetching (decoded_blob env ticket) payload blob d" and "part_of payload d = blob" and "payload \<notin> cache_names"
  shows "fetching (decoded_blob env ticket) payload blob (tf_dir (finalize_sealed env ticket payload d))"
proof (cases "decrypt_downloaded_attachment_bytes (te_cipher env) (ti_encryption_version ticket) (ti_cek ticket) blob")
  case (Inl e)
  then show ?thesis using assms
    by (auto simp: finalize_sealed_def Let_def stopped_def fetching_def split: option.splits)
next
  case (Inr p)
  have less: "fetching (decoded_blob env ticket) payload blob (d(decrypted_name payload := None))"
    using assms(1) part_of_less [of payload d "decrypted_name payload"] by (auto simp: fetching_def)
  show ?thesis
    using assms Inr dec_ok [OF Inr] less
    by (auto simp: finalize_sealed_def Let_def stopped_def finish_download_def fetching_def sealed_cache_other split: option.splits)
qed

lemma fetching_step:
  assumes "fetching (decoded_blob env ticket) payload blob d" and "serves env blob" and "payload \<notin> cache_names"
  shows "fetching (decoded_blob env ticket) payload blob (tf_dir (run_download env ticket payload d))"
proof (cases "d payload = None")
  case False then show ?thesis using assms(1) by (simp add: run_download_def stopped_def)
next
  case True
  define start where "start = length (part_of payload d)"
  show ?thesis
  proof (cases "te_answer env start")
    case (NoAnswer e) then show ?thesis using assms(1) True by (simp add: run_download_def stopped_def start_def)
  next
    case (Answer status len body)
    show ?thesis
    proof (cases "status < 200 \<or> 300 \<le> status \<or> te_open_error env \<noteq> None")
      case True
      then show ?thesis using assms(1) Answer \<open>d payload = None\<close>
        by (auto simp: run_download_def stopped_def start_def Let_def)
    next
      case False
      define off where "off = (if status = 206 then start else 0)"
      define d1 where "d1 = (if status = 206 \<and> 0 < start then d else d(part_name payload \<mapsto> []))"
      obtain d2 es r where loop: "transfer_loop env (part_name payload) (map_option (\<lambda>l. l + off) len) (te_stream env start) off d1 = (d2, es, r)"
        by (cases "transfer_loop env (part_name payload) (map_option (\<lambda>l. l + off) len) (te_stream env start) off d1")
      have pre: "prefix (part_of payload d) blob" using assms(1) by (simp add: fetching_def)
      then have got: "d1 (part_name payload) = Some (take off blob)"
        using False by (auto simp: d1_def off_def start_def part_of_def prefix_def split: option.splits)
      have "carries (te_stream env start) (drop off blob)"
        using assms(2) Answer False by (auto simp: serves_def off_def dest!: spec [of _ start])
      from loop_content [OF this got loop] obtain more where more: "d2 (part_name payload) = Some (take off blob @ more)"
        "prefix more (drop off blob)" "r = StreamDone \<longrightarrow> more = drop off blob" by blast
      have "d2 payload = None" using loop_others [of payload "part_name payload" env _ _ off d1] loop True
        by (metis d1_def fst_conv fun_upd_apply part_differs(2))
      moreover have "prefix (take off blob @ more) blob" using more(2) by (metis append_take_drop_id same_prefix_prefix)
      ultimately have f2: "fetching (decoded_blob env ticket) payload blob d2" using more(1) by (simp add: fetching_def part_of_def)
      have fin: "r = StreamDone \<Longrightarrow> part_of payload d2 = blob" "d2 (part_name payload) \<noteq> None"
        using more by (simp_all add: part_of_def)
      have run: "tf_dir (run_download env ticket payload d) =
          (if r = TaskStopped \<or> te_sync_error env \<noteq> None then d2
           else tf_dir (if ti_encryption_version ticket = 0 then finalize_plain env payload d2 else finalize_sealed env ticket payload d2))"
        using True Answer False loop
        by (simp add: run_download_def Let_def start_def [symmetric] off_def [symmetric] d1_def [symmetric] stopped_def
            split: option.splits loop_result.splits)
      show ?thesis
        using f2 fin finalize_plain_fetching [OF f2] finalize_sealed_fetching [OF f2 _ assms(3)]
        by (cases r) (auto simp: run)
    qed
  qed
qed

text \<open>C7. However a download is interrupted and resumed, the file it ends with is the right one. From an empty
  directory, along any sequence of attempts in which pauses, cancellations, broken connections, failing
  writes and kills strike anywhere, and in which the server answers with the rest or with everything, the half-finished
  file is always a prefix of what the server has, and a finished file is exactly its content, decrypted where the
  attachment is encrypted.\<close>

theorem resumed_download_is_exact:
  assumes "payload = payload_filename_with_fallback mime original"
    and "\<And>env. env \<in> set envs \<Longrightarrow> serves env blob \<and> te_cipher env = cipher"
    and "d' = attempts envs ticket payload Map.empty"
  shows "prefix (part_of payload d') blob \<and>
    (d' payload = None \<or>
     (\<exists>plain. d' payload = Some plain \<and>
        decrypt_downloaded_attachment_bytes cipher (ti_encryption_version ticket) (ti_cek ticket) blob = Inr plain))"
proof -
  define dec where "dec b = (case decrypt_downloaded_attachment_bytes cipher (ti_encryption_version ticket) (ti_cek ticket) b of
    Inr p \<Rightarrow> Some p | Inl e \<Rightarrow> None)" for b
  have cached: "payload \<notin> cache_names" using payload_not_cached assms(1) by simp
  have "fetching dec payload blob (attempts envs ticket payload d)" if "fetching dec payload blob d" for d
    using that assms(2)
  proof (induction envs arbitrary: d)
    case (Cons env envs)
    have "decoded_blob env ticket = dec" using Cons.prems(2) by (simp add: decoded_blob_def dec_def fun_eq_iff)
    then have "fetching dec payload blob (tf_dir (run_download env ticket payload d))"
      using fetching_step [of env ticket payload blob d] Cons.prems cached by simp
    then show ?case using Cons by simp
  qed simp
  moreover have "fetching dec payload blob Map.empty" by (simp add: fetching_def part_of_def)
  ultimately have "fetching dec payload blob d'" using assms(3) by blast
  then show ?thesis by (auto simp: fetching_def dec_def split: sum.splits)
qed

subsection \<open>The attempt that finishes, and the one that never does\<close>

text \<open>Nothing is in the way of an attempt: every file operation succeeds.\<close>

definition undisturbed :: "transfer_env \<Rightarrow> bool" where
  "undisturbed env \<longleftrightarrow> te_open_error env = None \<and> te_sync_error env = None \<and> te_rename_error env = None \<and>
     te_read_error env = None \<and> te_plain_error env = None"

definition chunks :: "(string \<times> bool) list \<Rightarrow> loop_input list" where
  "chunks cs = map (\<lambda>(x, due). Arrived x due) cs @ [StreamEnd]"

lemma chunks_carry: "carries (chunks cs) (concat (map fst cs))"
  by (induction cs) (auto simp: chunks_def)

lemma chunks_end: "\<exists>d' es. transfer_loop env n whole (chunks cs) off d = (d', es, StreamDone)"
proof (induction cs arbitrary: off d)
  case (Cons c cs)
  obtain d' es where "transfer_loop env n whole (chunks cs) (off + length (fst c)) (append_to n (fst c) d) = (d', es, StreamDone)"
    using Cons by blast
  then show ?case by (cases c) (simp add: chunks_def)
qed (simp add: chunks_def)


text \<open>C34. A file that has arrived completely but was not yet renamed can never be finished. The next attempt asks for the
  bytes after the last one, a server answers such a range with an error (416), and the error leaves the
  half-finished file in place: every later attempt meets the same, for good.\<close>

theorem complete_part_never_finishes:
  assumes "d payload = None" and "part_of payload d = blob"
    and "\<And>env. env \<in> set envs \<Longrightarrow> \<exists>len body. te_answer env (length blob) = Answer 416 len body"
  shows "attempts envs ticket payload d = d \<and>
    (\<forall>env \<in> set envs. \<exists>text. tf_events (run_download env ticket payload d) = [Failed (te_network_error env) text])"
proof -
  have one: "run_download env ticket payload d = stopped d [failed (te_network_error env)
      (''status='' @ te_status_text env 416 @ '' body='' @ body)]" if "te_answer env (length blob) = Answer 416 len body" for env len body
    using assms(1,2) that by (simp add: run_download_def Let_def)
  have "attempts envs ticket payload d = d"
    using assms(3)
  proof (induction envs)
    case (Cons env envs)
    obtain len body where a: "te_answer env (length blob) = Answer 416 len body" using Cons.prems by (meson list.set_intros(1))
    show ?case using Cons by (simp add: one [OF a] stopped_def)
  qed simp
  then show ?thesis using assms(3) one by (fastforce simp: stopped_def failed_def)
qed


subsection \<open>Runs of the examples\<close>

text \<open>A toy cipher: the tag is sixteen copies of a mark, and the nonce does not matter.\<close>

definition toy_tag :: string where "toy_tag = replicate TAG_LEN CHR ''t''"

definition toy_cipher :: attachment_cipher where
  "toy_cipher = \<lparr>cr_encode = (\<lambda>k. CHR ''k'' # k), cr_decode = (\<lambda>s. case s of c # k \<Rightarrow> Some k | [] \<Rightarrow> None),
     cr_seal = (\<lambda>k n p. Some (p @ toy_tag)),
     cr_open = (\<lambda>k n ct. if TAG_LEN \<le> length ct \<and> drop (length ct - TAG_LEN) ct = toy_tag
                          then Some (take (length ct - TAG_LEN) ct) else None)\<rparr>"

definition example_transfer :: "(nat \<Rightarrow> http_answer) \<Rightarrow> (nat \<Rightarrow> loop_input list) \<Rightarrow> transfer_env" where
  "example_transfer answer stream =
     \<lparr>te_cipher = toy_cipher, te_network_error = 1, te_internal_error = 2, te_status_text = show_nat, te_mark_text = (\<lambda>k b. k),
      te_path = ''/m/payload.png'', te_answer = answer, te_stream = stream, te_open_error = None, te_sync_error = None,
      te_rename_error = None, te_read_error = None, te_plain_error = None, te_cache = CacheKept, te_flag_set = True\<rparr>"

text \<open>The connection breaks after three bytes, then the rest comes; and the process is killed after the last byte.\<close>

definition broken_then_rest :: "transfer_env list" where
  "broken_then_rest =
     [example_transfer (\<lambda>_. Answer 200 None []) (\<lambda>_. [Arrived ''abc'' False, Broken ''reset'']),
      example_transfer (\<lambda>s. if s = 3 then Answer 206 None [] else NoAnswer []) (\<lambda>_. [PauseSeen False False, Arrived ''def'' True, StreamEnd])]"

definition killed_at_the_end :: transfer_env where
  "killed_at_the_end = example_transfer (\<lambda>_. Answer 200 None []) (\<lambda>_. [Arrived ''abcdef'' False])"

definition past_the_end :: transfer_env where
  "past_the_end = example_transfer (\<lambda>s. if s = 6 then Answer 416 None [] else Answer 206 None []) (\<lambda>_. [])"

lemma png_name: "payload_filename_with_fallback ''image/png'' None = ''payload.png''"
  by code_simp

theorem resumed_download_is_exact_witness:
  "attempts broken_then_rest (legacy_url ''u'') ''payload.png'' Map.empty ''payload.png'' = Some ''abcdef''"
proof -
  have "serves env ''abcdef'' \<and> te_cipher env = toy_cipher" if "env \<in> set broken_then_rest" for env
    using that by (auto simp: broken_then_rest_def serves_def example_transfer_def prefix_def)
  from resumed_download_is_exact [OF png_name [symmetric] this refl, of broken_then_rest "legacy_url ''u''"]
  show ?thesis
    by (auto simp: decrypt_downloaded_attachment_bytes_def legacy_url_def)
       (simp add: broken_then_rest_def example_transfer_def run_download_def part_of_def part_name_def stopped_def append_to_def
          finalize_plain_def finish_download_def)
qed


text \<open>All bytes have arrived, the process dies before the rename: nothing finishes the file any more.\<close>

theorem complete_part_never_finishes_witness:
  "let d = tf_dir (run_download killed_at_the_end (legacy_url ''u'') ''payload.png'' Map.empty)
   in part_of ''payload.png'' d = ''abcdef'' \<and>
      (\<forall>k. attempts (replicate k past_the_end) (legacy_url ''u'') ''payload.png'' d ''payload.png'' = None)"
proof -
  let ?d = "tf_dir (run_download killed_at_the_end (legacy_url ''u'') ''payload.png'' Map.empty)"
  have d: "?d ''payload.png'' = None" "part_of ''payload.png'' ?d = ''abcdef''"
    by (simp_all add: killed_at_the_end_def example_transfer_def run_download_def part_of_def part_name_def stopped_def append_to_def)
  have "\<exists>len body. te_answer env (length ''abcdef'') = Answer 416 len body" if "env \<in> set (replicate k past_the_end)" for env k
    using that by (auto simp: past_the_end_def example_transfer_def)
  then have "attempts (replicate k past_the_end) (legacy_url ''u'') ''payload.png'' ?d = ?d" for k
    using complete_part_never_finishes [OF d, of "replicate k past_the_end" "legacy_url ''u''"] by blast
  then show ?thesis using d by (simp add: Let_def)
qed


end
