(* ===== verification/Repair_Queue.thy ===== *)
theory Repair_Queue
  imports Timeline_Sync Timeline_Cache Outbox_Drain
begin

text \<open>
  Repairing message rows that an older version or a cut-off write has left damaged (\<open>lib.rs\<close>): reading a page
  notices them and queues their keys, a tick of the actor takes a few keys and fetches each message again
  from the server. Answers of the server and the monotonic clock, in milliseconds, are arguments; a request
  that times out has stored nothing.
\<close>

subsection \<open>State\<close>

type_synonym repair_key = "int \<times> u64 \<times> u64"

definition REPAIR_BATCH_LIMIT :: nat where "REPAIR_BATCH_LIMIT = 5"
definition REPAIR_QUEUE_LIMIT :: nat where "REPAIR_QUEUE_LIMIT = 64"
definition REPAIR_BACKOFF_BASE_MS :: nat where "REPAIR_BACKOFF_BASE_MS = 2000"
definition REPAIR_BACKOFF_MAX_SHIFT :: nat where "REPAIR_BACKOFF_MAX_SHIFT = 6"

datatype ui_event =
    TimelineChanged u64 int u64 string
  | Outgoing drain_event

record repairs =
  rq_queue :: "repair_key list"
  rq_seen :: "repair_key set"
  rq_backoff :: "repair_key \<Rightarrow> (nat \<times> nat) option"

record repair_world =
  rw_db :: message_db
  rw_cache :: timeline_cache
  rw_repairs :: repairs
  rw_events :: "ui_event list"
  rw_requests :: nat

definition no_repairs :: repairs where
  "no_repairs = \<lparr>rq_queue = [], rq_seen = {}, rq_backoff = (\<lambda>_. None)\<rparr>"

subsection \<open>Noticing damage\<close>

record media_types =
  mt_parse :: "string \<Rightarrow> json option"
  mt_image :: int
  mt_video :: int

definition needs_repair :: "media_types \<Rightarrow> stored_message \<Rightarrow> bool" where
  "needs_repair mt m \<longleftrightarrow>
     (let sid = (case sm_server_message_id m of Some s \<Rightarrow> s | None \<Rightarrow> 0);
          media = (sm_message_type m = mt_image mt \<or> sm_message_type m = mt_video mt);
          bare = (media \<and> \<not> has_metadata (mt_parse mt) (from_sync_entity 0 0 0 1 0 0 [] (sm_extra m) 0 0));
          unordered = (case sm_pts m of Some p \<Rightarrow> p = 0 | None \<Rightarrow> True);
          misdated = (0 < sm_created_at m \<and> sm_created_at m < 100000000000)
      in sid \<noteq> 0 \<and> (bare \<or> unordered \<or> misdated))"

definition enqueue_projection_repair :: "nat \<Rightarrow> u64 \<Rightarrow> int \<Rightarrow> u64 \<Rightarrow> repairs \<Rightarrow> repairs" where
  "enqueue_projection_repair now cid ct sid q =
     (let key = (ct, cid, sid)
      in if (case rq_backoff q key of Some (n, until) \<Rightarrow> now < until | None \<Rightarrow> False) then q
         else if key \<in> rq_seen q then q
         else if REPAIR_QUEUE_LIMIT \<le> length (rq_queue q) then q
         else q\<lparr>rq_seen := insert key (rq_seen q), rq_queue := rq_queue q @ [key]\<rparr>)"

definition notice_damage :: "media_types \<Rightarrow> nat \<Rightarrow> u64 \<Rightarrow> int \<Rightarrow> stored_message list \<Rightarrow> repairs \<Rightarrow> repairs" where
  "notice_damage mt now cid ct ms q =
     fold (\<lambda>m q. case sm_server_message_id m of
                   Some s \<Rightarrow> if needs_repair mt m then enqueue_projection_repair now cid ct s q else q
                 | None \<Rightarrow> q) ms q"

subsection \<open>Repairing\<close>

record around_page =
  ar_before :: "history_item list"
  ar_anchor :: history_item
  ar_after :: "history_item list"

datatype around_answer = AroundReply "around_page rpc_answer" | AroundTimesOut

record repair_env =
  re_clock :: nat
  re_around :: around_answer
  re_store :: sync_answers

definition fetch_and_store_messages_around ::
  "'p codec \<Rightarrow> sync_answers \<Rightarrow> u64 \<Rightarrow> int \<Rightarrow> around_page rpc_answer \<Rightarrow> message_db \<Rightarrow> message_db \<times> around_page result" where
  "fetch_and_store_messages_around co an cid ct answer db =
     (case typed_result answer of
        Inl e \<Rightarrow> (db, Inl e)
      | Inr page \<Rightarrow>
          (case store_history_items co an (ar_before page @ ar_anchor page # ar_after page) (normalized_type ct) db of
             (db1, Inl e) \<Rightarrow> (db1, Inl e)
           | (db1, Inr ids) \<Rightarrow> (db1, Inr page)))"

definition repair_message_projection ::
  "'p codec \<Rightarrow> sync_answers \<Rightarrow> u64 \<Rightarrow> int \<Rightarrow> u64 \<Rightarrow> around_page rpc_answer \<Rightarrow> message_db \<Rightarrow> message_db \<times> u64 option result" where
  "repair_message_projection co an cid ct sid answer db =
     (case fetch_and_store_messages_around co an cid (normalized_type ct) answer db of
        (db1, Inl e) \<Rightarrow> (db1, Inl e)
      | (db1, Inr page) \<Rightarrow>
          (db1, Inr (if h_message_id (ar_anchor page) \<noteq> sid then None
                     else get_message_id_by_server_message_id cid (normalized_type ct) sid db1)))"

definition note_repair_failure :: "nat \<Rightarrow> repair_key \<Rightarrow> repairs \<Rightarrow> repairs" where
  "note_repair_failure now key q =
     (let n = (case rq_backoff q key of Some (n, _) \<Rightarrow> n | None \<Rightarrow> 0) + 1
      in q\<lparr>rq_backoff := (rq_backoff q)(key \<mapsto> (n, now + REPAIR_BACKOFF_BASE_MS * 2 ^ min n REPAIR_BACKOFF_MAX_SHIFT))\<rparr>)"

definition forget_repair :: "repair_key \<Rightarrow> repairs \<Rightarrow> repairs" where
  "forget_repair key q = q\<lparr>rq_backoff := (rq_backoff q)(key := None)\<rparr>"

definition on_repairs :: "(repairs \<Rightarrow> repairs) \<Rightarrow> ('a) repair_world_scheme \<Rightarrow> ('a) repair_world_scheme" where
  "on_repairs f w = w\<lparr>rw_repairs := f (rw_repairs w)\<rparr>"

definition unsee :: "repair_key \<Rightarrow> repairs \<Rightarrow> repairs" where "unsee key q = q\<lparr>rq_seen := rq_seen q - {key}\<rparr>"

definition repair_one :: "'p codec \<Rightarrow> repair_env \<Rightarrow> repair_key \<Rightarrow> ('a) repair_world_scheme \<Rightarrow> ('a) repair_world_scheme" where
  "repair_one co env key w =
     (case key of (ct, cid, sid) \<Rightarrow>
        (let w1 = on_repairs (unsee key) (w\<lparr>rw_requests := rw_requests w + 1\<rparr>)
         in case re_around env of
              AroundTimesOut \<Rightarrow> on_repairs (note_repair_failure (re_clock env) key) w1
            | AroundReply answer \<Rightarrow>
                (case repair_message_projection co (re_store env) cid ct sid answer (rw_db w1) of
                   (db1, Inl e) \<Rightarrow> on_repairs (note_repair_failure (re_clock env) key) (w1\<lparr>rw_db := db1\<rparr>)
                 | (db1, Inr None) \<Rightarrow> on_repairs (forget_repair key) (w1\<lparr>rw_db := db1\<rparr>)
                 | (db1, Inr (Some mid)) \<Rightarrow>
                     on_repairs (forget_repair key)
                       (w1\<lparr>rw_db := db1, rw_cache := invalidate_channel_cache (cid, ct) (rw_cache w1),
                           rw_events := rw_events w1 @ [TimelineChanged cid ct mid ''message_projection_repaired'']\<rparr>))))"

fun drain_repairs :: "nat \<Rightarrow> 'p codec \<Rightarrow> (nat \<Rightarrow> repair_env) \<Rightarrow> ('a) repair_world_scheme \<Rightarrow> ('a) repair_world_scheme" where
  "drain_repairs 0 co env w = w"
| "drain_repairs (Suc n) co env w =
     (case rq_queue (rw_repairs w) of
        [] \<Rightarrow> w
      | key # rest \<Rightarrow>
          drain_repairs n co env
            (repair_one co (env (rw_requests w)) key (on_repairs (\<lambda>q. q\<lparr>rq_queue := rest\<rparr>) w)))"

definition drain_projection_repairs :: "'p codec \<Rightarrow> (nat \<Rightarrow> repair_env) \<Rightarrow> ('a) repair_world_scheme \<Rightarrow> ('a) repair_world_scheme" where
  "drain_projection_repairs = drain_repairs REPAIR_BATCH_LIMIT"

subsection \<open>The queue\<close>

definition queue_ok :: "repairs \<Rightarrow> bool" where
  "queue_ok q \<longleftrightarrow> distinct (rq_queue q) \<and> set (rq_queue q) = rq_seen q \<and> length (rq_queue q) \<le> REPAIR_QUEUE_LIMIT"

lemma enqueue_queue_ok: "queue_ok q \<Longrightarrow> queue_ok (enqueue_projection_repair now cid ct sid q)"
  by (auto simp: queue_ok_def enqueue_projection_repair_def Let_def)

lemma notice_queue_ok: "queue_ok q \<Longrightarrow> queue_ok (notice_damage mt now cid ct ms q)"
  unfolding notice_damage_def
  by (induction ms arbitrary: q) (auto simp: enqueue_queue_ok split: option.splits)

lemma repairs_queue [simp]:
  "rq_queue (note_repair_failure now k q) = rq_queue q" "rq_seen (note_repair_failure now k q) = rq_seen q"
  "rq_queue (forget_repair k q) = rq_queue q" "rq_seen (forget_repair k q) = rq_seen q"
  "rq_queue (unsee k q) = rq_queue q" "rq_seen (unsee k q) = rq_seen q - {k}"
  by (simp_all add: note_repair_failure_def forget_repair_def unsee_def Let_def)

lemma repair_one_queue:
  "rq_queue (rw_repairs (repair_one co env key w)) = rq_queue (rw_repairs w) \<and>
   rq_seen (rw_repairs (repair_one co env key w)) = rq_seen (rw_repairs w) - {key} \<and>
   rw_requests (repair_one co env key w) = rw_requests w + 1"
  by (cases key)
     (auto simp: repair_one_def on_repairs_def Let_def split: around_answer.splits prod.splits sum.splits option.splits)

lemma pop_queue_ok:
  assumes "queue_ok q" and "rq_queue q = key # rest"
  shows "queue_ok (q\<lparr>rq_queue := rest, rq_seen := rq_seen q - {key}\<rparr>)"
  using assms by (auto simp: queue_ok_def)

text \<open>A tick takes the oldest keys, at most five, asks the server once for each, and leaves the rest in order.\<close>

lemma drain_spec:
  assumes "queue_ok (rw_repairs w)"
  shows "queue_ok (rw_repairs (drain_repairs n co env w)) \<and>
    rq_queue (rw_repairs (drain_repairs n co env w)) = drop n (rq_queue (rw_repairs w)) \<and>
    rw_requests (drain_repairs n co env w) = rw_requests w + min n (length (rq_queue (rw_repairs w)))"
  using assms
proof (induction n arbitrary: w)
  case (Suc n)
  show ?case
  proof (cases "rq_queue (rw_repairs w)")
    case Nil then show ?thesis using Suc.prems by simp
  next
    case (Cons key rest)
    define w1 where "w1 = repair_one co (env (rw_requests w)) key (on_repairs (\<lambda>q. q\<lparr>rq_queue := rest\<rparr>) w)"
    have q1: "rq_queue (rw_repairs w1) = rest" "rq_seen (rw_repairs w1) = rq_seen (rw_repairs w) - {key}"
      "rw_requests w1 = rw_requests w + 1"
      using repair_one_queue [of co "env (rw_requests w)" key "on_repairs (\<lambda>q. q\<lparr>rq_queue := rest\<rparr>) w"]
      by (simp_all add: w1_def on_repairs_def)
    have "queue_ok (rw_repairs w1)" using pop_queue_ok [OF Suc.prems Cons] q1 by (simp add: queue_ok_def)
    from Suc.IH [OF this] show ?thesis using Cons q1 by (simp add: w1_def [symmetric])
  qed
qed simp

datatype repair_op =
    PageRead media_types nat u64 int "stored_message list"
  | RepairTick "nat \<Rightarrow> repair_env"
  | RepairReset

fun repair_step :: "'p codec \<Rightarrow> repair_op \<Rightarrow> repair_world \<Rightarrow> repair_world" where
  "repair_step co (PageRead mt now cid ct ms) w = on_repairs (notice_damage mt now cid ct ms) w"
| "repair_step co (RepairTick env) w = drain_projection_repairs co env w"
| "repair_step co RepairReset w = on_repairs (\<lambda>_. no_repairs) w"


text \<open>A key that failed waits: between four seconds and two minutes and eight seconds, doubling with each failure.\<close>

theorem failed_repair_waits:
  assumes "rq_backoff q key = (if n = 0 then None else Some (n, u))" and "key = (ct, cid, sid)"
  shows "\<exists>wait. 4000 \<le> wait \<and> wait \<le> 128000 \<and> wait = 2000 * 2 ^ min (n + 1) 6 \<and>
    (\<forall>t < now + wait. enqueue_projection_repair t cid ct sid (note_repair_failure now key q) = note_repair_failure now key q)"
proof -
  have n: "note_repair_failure now key q = q\<lparr>rq_backoff := (rq_backoff q)(key \<mapsto> (n + 1, now + 2000 * 2 ^ min (n + 1) 6))\<rparr>"
    using assms(1) by (auto simp: note_repair_failure_def REPAIR_BACKOFF_BASE_MS_def REPAIR_BACKOFF_MAX_SHIFT_def Let_def)
  define wait where "wait = 2000 * (2::nat) ^ min (n + 1) 6"
  have "(2::nat) ^ 1 \<le> 2 ^ min (n + 1) 6" "(2::nat) ^ min (n + 1) 6 \<le> 2 ^ 6"
    by (rule power_increasing; simp)+
  then have "4000 \<le> wait" "wait \<le> 128000" by (simp_all add: wait_def)
  moreover have "rq_backoff (note_repair_failure now key q) key = Some (n + 1, now + wait)"
    by (simp add: n wait_def)
  then have "enqueue_projection_repair t cid ct sid (note_repair_failure now key q) = note_repair_failure now key q"
    if "t < now + wait" for t
    using that by (simp add: enqueue_projection_repair_def assms(2) Let_def)
  ultimately show ?thesis using wait_def by blast
qed

text \<open>A repair that changes nothing is repeated for good. When the server does not have the message, or when its copy
  does not mend the row, the key is forgotten: no back-off and no mark stay, so the next read of the page
  that still finds the row damaged queues it again at once, and a row that is never mended costs a request
  for every read.\<close>

theorem answered_repair_is_forgotten:
  assumes "re_around env = AroundReply (Reply page)"
    and "snd (repair_message_projection co (re_store env) cid ct sid (Reply page) (rw_db w)) = Inr found"
    and "rq_queue (rw_repairs w) = [(ct, cid, sid)]" and "rq_seen (rw_repairs w) = {(ct, cid, sid)}"
    and "needs_repair mt m" and "sm_server_message_id m = Some sid"
  shows "let w1 = drain_projection_repairs co (\<lambda>_. env) w
    in rq_queue (rw_repairs w1) = [] \<and> rq_backoff (rw_repairs w1) (ct, cid, sid) = None \<and>
       rw_requests w1 = rw_requests w + 1 \<and>
       (\<forall>now. rq_queue (notice_damage mt now cid ct [m] (rw_repairs w1)) = [(ct, cid, sid)])"
proof -
  let ?k = "(ct, cid, sid)"
  define v where "v = on_repairs (\<lambda>q. q\<lparr>rq_queue := []\<rparr>) w"
  define w1 where "w1 = repair_one co env ?k v"
  have once: "drain_projection_repairs co (\<lambda>_. env) w = w1"
  proof -
    have "rq_queue (rw_repairs w1) = []" using repair_one_queue [of co env ?k v] by (simp add: w1_def v_def on_repairs_def)
    then have "drain_repairs 4 co (\<lambda>_. env) w1 = w1" by (simp add: eval_nat_numeral)
    then show ?thesis using assms(3) by (simp add: drain_projection_repairs_def REPAIR_BATCH_LIMIT_def eval_nat_numeral w1_def v_def)
  qed
  have parts: "rq_queue (rw_repairs w1) = []" "rq_seen (rw_repairs w1) = {}" "rw_requests w1 = rw_requests w + 1"
    using repair_one_queue [of co env ?k v] assms(4) by (simp_all add: w1_def v_def on_repairs_def)
  have "rq_backoff (rw_repairs w1) ?k = None"
    using assms(1,2)
    by (auto simp: w1_def v_def repair_one_def on_repairs_def forget_repair_def Let_def split: prod.splits option.splits)
  then show ?thesis
    using parts assms(5,6) by (simp add: once Let_def notice_damage_def enqueue_projection_repair_def REPAIR_QUEUE_LIMIT_def)
qed

subsection \<open>Examples\<close>

text \<open>A message whose place in the order the server does not tell, stored and asked for again.\<close>

definition unplaced_item :: history_item where
  "unplaced_item = \<lparr>h_message_id = 9, h_channel_id = 7, h_sender_id = 3, h_message_type = ''text'', h_content = ''hi'', h_metadata = None,
     h_message_seq = None, h_timestamp = 1785148271317, h_revoked = False\<rparr>"

definition unplaced_page :: around_page where
  "unplaced_page = \<lparr>ar_before = [], ar_anchor = unplaced_item, ar_after = []\<rparr>"

definition unplaced_db :: message_db where
  "unplaced_db = fst (store_history_items example_codec quiet_answers [unplaced_item] 1 empty_db)"

definition unplaced_world :: repair_world where
  "unplaced_world = \<lparr>rw_db = unplaced_db, rw_cache = fresh_cache,
     rw_repairs = no_repairs\<lparr>rq_queue := [(1, 7, 9)], rq_seen := {(1, 7, 9)}\<rparr>, rw_events = [], rw_requests = 0\<rparr>"

definition text_only :: media_types where
  "text_only = \<lparr>mt_parse = (\<lambda>_. None), mt_image = 2, mt_video = 3\<rparr>"

lemma unplaced_fields [simp]:
  "u_server_message_id (co_history example_codec unplaced_item 1) = 9" "u_pts (co_history example_codec unplaced_item 1) = 0"
  "u_local_message_id (co_history example_codec unplaced_item 1) = 0" "u_channel_id (co_history example_codec unplaced_item 1) = 7"
  "u_channel_type (co_history example_codec unplaced_item 1) = 1" "u_revoked (co_history example_codec unplaced_item 1) = False"
  by (simp_all add: example_codec_def to_upsert_input_def from_history_item_def unplaced_item_def)

definition unplaced_row :: message_row where
  "unplaced_row = remote_row 1 1 (co_history example_codec unplaced_item 1)"

lemma unplaced_messages: "messages unplaced_db = [unplaced_row]" "extras unplaced_db = []"
  by (simp_all add: unplaced_db_def store_history_items_def batch_upsert_remote_messages_def quiet_answers_def upsert_one_def empty_db_def
      insert_message_def unplaced_row_def
      apply_remote_revoke_flag_def Let_def split: prod.splits)

lemma unplaced_found: "find (by_server_id 9) (messages unplaced_db) = Some unplaced_row"
  by (simp add: unplaced_messages by_server_id_def unplaced_row_def remote_row_def )

definition unplaced_message :: stored_message where
  "unplaced_message = stored_message_from_row unplaced_db unplaced_row"

lemma unplaced_damaged: "needs_repair text_only unplaced_message" "sm_server_message_id unplaced_message = Some 9"
  by (simp_all add: needs_repair_def unplaced_message_def stored_message_from_row_def unplaced_row_def remote_row_def as_u64_def Let_def)

theorem answered_repair_is_forgotten_witness:
  "unplaced_message \<in> set (list_messages 7 1 5 0 unplaced_db) \<and>
   rq_queue (notice_damage text_only 0 7 1 [unplaced_message]
     (rw_repairs (drain_projection_repairs example_codec
        (\<lambda>_. \<lparr>re_clock = 0, re_around = AroundReply (Reply unplaced_page), re_store = quiet_answers\<rparr>) unplaced_world))) = [(1, 7, 9)]"
proof -
  have "\<exists>found. snd (repair_message_projection example_codec quiet_answers 7 1 9 (Reply unplaced_page) (rw_db unplaced_world)) = Inr found"
    using unplaced_found
    by (simp add: repair_message_projection_def fetch_and_store_messages_around_def typed_result_def unplaced_page_def store_history_items_def
        batch_upsert_remote_messages_def quiet_answers_def upsert_one_def Let_def unplaced_world_def normalized_type_def split: prod.splits option.splits)
  then obtain found where f: "snd (repair_message_projection example_codec
      (re_store \<lparr>re_clock = 0, re_around = AroundReply (Reply unplaced_page), re_store = quiet_answers\<rparr>) 7 1 9 (Reply unplaced_page)
      (rw_db unplaced_world)) = Inr found" by auto
  have "in_channel 7 1 unplaced_row"
    by (simp add: in_channel_def unplaced_row_def remote_row_def)
  then have "unplaced_message \<in> set (list_messages 7 1 5 0 unplaced_db)"
    by (simp add: list_messages_def unplaced_messages unplaced_message_def)
  then show ?thesis
    using answered_repair_is_forgotten [OF _ f _ _ unplaced_damaged] by (simp add: unplaced_world_def no_repairs_def Let_def)
qed


end
