(* ===== verification/Message_Commands.thy ===== *)
theory Message_Commands
  imports Repair_Queue Download_Manager
begin

text \<open>
  The commands of the actor loop that read and change messages (\<open>lib.rs\<close>): each checks that a user is logged in and
  bootstrapped, runs one operation of the store, drops the cached page of the conversation and tells the
  host. Reading a page also notices damaged rows and asks for missing thumbnails; the worker that fetches a thumbnail
  reports back here. The clocks, the outcome of a commit, the generator of message ids and the answers to a
  thumbnail's requests are arguments.
\<close>

subsection \<open>State\<close>

record command_state = repair_world +
  cs_uid :: "string option"
  cs_bootstrapped :: bool
  cs_epoch :: u64
  cs_kicks :: nat
  cs_downloads :: download_manager

record command_env =
  ce_now :: int
  ce_clock :: nat
  ce_commit :: commit
  ce_fresh_id :: "u64 result"
  ce_media :: media_types

definition emit_ui :: "ui_event list \<Rightarrow> command_state \<Rightarrow> command_state" where
  "emit_ui es s = s\<lparr>rw_events := rw_events s @ es\<rparr>"

definition drop_page :: "u64 \<times> int \<Rightarrow> command_state \<Rightarrow> command_state" where
  "drop_page k s = s\<lparr>rw_cache := invalidate_channel_cache k (rw_cache s)\<rparr>"

definition kick_drain :: "command_state \<Rightarrow> command_state" where "kick_drain s = s\<lparr>cs_kicks := cs_kicks s + 1\<rparr>"

definition uid_required :: "command_state \<Rightarrow> string result" where
  "uid_required s = current_uid_required (cs_uid s) (cs_bootstrapped s)"

definition sending :: "u64 \<Rightarrow> ui_event" where "sending mid = Outgoing (MessageSendStatusChanged mid 1 None)"

subsection \<open>Commands on one message\<close>

text \<open>The message is looked up before the operation runs; what was found names the page to drop.\<close>

definition on_message ::
  "(message_db \<Rightarrow> message_db \<times> 'r result) \<Rightarrow> u64 \<Rightarrow> (stored_message option \<Rightarrow> ui_event list) \<Rightarrow>
   command_state \<Rightarrow> command_state \<times> 'r result" where
  "on_message op mid evs s =
     (case uid_required s of
        Inl e \<Rightarrow> (s, Inl e)
      | Inr _ \<Rightarrow>
          (let ctx = get_message_by_id mid (rw_db s)
           in case op (rw_db s) of
                (db, Inl e) \<Rightarrow> (s\<lparr>rw_db := db\<rparr>, Inl e)
              | (db, Inr x) \<Rightarrow>
                  (let s1 = (case ctx of
                               Some m \<Rightarrow> drop_page (sm_channel_id m, sm_channel_type m) (s\<lparr>rw_db := db\<rparr>)
                             | None \<Rightarrow> s\<lparr>rw_db := db\<rparr>)
                   in (emit_ui (evs ctx) s1, Inr x))))"

definition timeline_of :: "u64 \<Rightarrow> string \<Rightarrow> stored_message option \<Rightarrow> ui_event list" where
  "timeline_of mid why ctx =
     [TimelineChanged (case ctx of Some m \<Rightarrow> sm_channel_id m | None \<Rightarrow> 0) (case ctx of Some m \<Rightarrow> sm_channel_type m | None \<Rightarrow> 0) mid why]"

definition status_of :: "u64 \<Rightarrow> int \<Rightarrow> u64 option \<Rightarrow> stored_message option \<Rightarrow> ui_event list" where
  "status_of mid status sid ctx = [Outgoing (MessageSendStatusChanged mid status sid)]"

definition cmd_mark_message_sent :: "command_env \<Rightarrow> u64 \<Rightarrow> u64 \<Rightarrow> u32 \<Rightarrow> command_state \<Rightarrow> command_state \<times> unit result" where
  "cmd_mark_message_sent env mid sid sq =
     on_message (mark_message_sent (ce_commit env) (ce_now env) mid sid sq) mid (status_of mid 2 (Some sid))"

definition cmd_update_message_status :: "command_env \<Rightarrow> u64 \<Rightarrow> int \<Rightarrow> command_state \<Rightarrow> command_state \<times> unit result" where
  "cmd_update_message_status env mid status =
     on_message (update_message_status (ce_now env) mid status) mid (status_of mid status None)"

definition cmd_set_message_revoke ::
  "command_env \<Rightarrow> u64 \<Rightarrow> bool \<Rightarrow> u64 option \<Rightarrow> command_state \<Rightarrow> command_state \<times> unit result" where
  "cmd_set_message_revoke env mid revoked revoker =
     on_message (\<lambda>db. (set_message_revoke (ce_now env) mid revoked revoker db, Inr ())) mid (timeline_of mid ''revoke'')"

definition cmd_edit_message :: "command_env \<Rightarrow> u64 \<Rightarrow> string \<Rightarrow> int \<Rightarrow> command_state \<Rightarrow> command_state \<times> unit result" where
  "cmd_edit_message env mid content edited_at =
     on_message (edit_message (ce_now env) mid content edited_at) mid (timeline_of mid ''edit'')"

definition cmd_set_message_pinned :: "command_env \<Rightarrow> u64 \<Rightarrow> bool \<Rightarrow> command_state \<Rightarrow> command_state \<times> unit result" where
  "cmd_set_message_pinned env mid pinned =
     on_message (set_message_pinned (ce_now env) mid pinned) mid (timeline_of mid (if pinned then ''pin'' else ''unpin''))"

definition cmd_delete_message_local ::
  "command_env \<Rightarrow> u64 \<Rightarrow> command_state \<Rightarrow> command_state \<times> stored_message option result" where
  "cmd_delete_message_local env mid s =
     (case uid_required s of
        Inl e \<Rightarrow> (s, Inl e)
      | Inr _ \<Rightarrow>
          (case delete_message_local (ce_commit env) mid (rw_db s) of
             (db, Inl e) \<Rightarrow> (s\<lparr>rw_db := db\<rparr>, Inl e)
           | (db, Inr None) \<Rightarrow> (s\<lparr>rw_db := db\<rparr>, Inr None)
           | (db, Inr (Some m)) \<Rightarrow>
               (emit_ui (timeline_of mid ''delete_local'' (Some m))
                  (drop_page (sm_channel_id m, sm_channel_type m) (s\<lparr>rw_db := db\<rparr>)), Inr (Some m))))"

subsection \<open>Commands that create or finish a message\<close>

definition on_new_message ::
  "command_env \<Rightarrow> u64 option \<Rightarrow> new_message \<Rightarrow> (u64 \<Rightarrow> message_db \<Rightarrow> message_db \<times> u64 result) \<Rightarrow>
   (u64 \<Rightarrow> command_state \<Rightarrow> command_state) \<Rightarrow> command_state \<Rightarrow> command_state \<times> u64 result" where
  "on_new_message env lid input op finish s =
     (case uid_required s of
        Inl e \<Rightarrow> (s, Inl e)
      | Inr _ \<Rightarrow>
          (case (case lid of Some i \<Rightarrow> Inr i | None \<Rightarrow> ce_fresh_id env) of
             Inl e \<Rightarrow> (s, Inl e)
           | Inr i \<Rightarrow>
               (case op i (rw_db s) of
                  (db, Inl e) \<Rightarrow> (s\<lparr>rw_db := db\<rparr>, Inl e)
                | (db, Inr mid) \<Rightarrow>
                    (finish mid (emit_ui [TimelineChanged (n_channel_id input) (n_channel_type input) mid ''local_create'']
                       (drop_page (n_channel_id input, n_channel_type input) (s\<lparr>rw_db := db\<rparr>))), Inr mid))))"

definition cmd_create_local_message_queued ::
  "command_env \<Rightarrow> new_message \<Rightarrow> u64 option \<Rightarrow> string \<Rightarrow> string \<Rightarrow> string option \<Rightarrow> command_state \<Rightarrow> command_state \<times> u64 result" where
  "cmd_create_local_message_queued env input lid cmd_type body route =
     on_new_message env lid input
       (\<lambda>i db. create_local_message_queued (ce_commit env) (ce_now env) input i cmd_type body route db)
       (\<lambda>mid s. kick_drain (emit_ui [sending mid] s))"

definition cmd_create_local_message ::
  "command_env \<Rightarrow> new_message \<Rightarrow> u64 option \<Rightarrow> command_state \<Rightarrow> command_state \<times> u64 result" where
  "cmd_create_local_message env input lid =
     on_new_message env lid input (\<lambda>i db. case create_local_message (ce_now env) input i db of (db', mid) \<Rightarrow> (db', Inr mid))
       (\<lambda>mid. emit_ui [Outgoing (MessageSendStatusChanged mid 0 None)])"

definition cmd_create_local_attachment_placeholder ::
  "command_env \<Rightarrow> new_message \<Rightarrow> u64 option \<Rightarrow> command_state \<Rightarrow> command_state \<times> u64 result" where
  "cmd_create_local_attachment_placeholder env input lid =
     on_new_message env lid input (\<lambda>i db. case create_local_message (ce_now env) input i db of (db', mid) \<Rightarrow> (db', Inr mid))
       (\<lambda>mid s. s)"

definition on_finalized ::
  "(message_db \<Rightarrow> message_db \<times> (u64 \<times> int) result) \<Rightarrow> u64 \<Rightarrow> string \<Rightarrow> (command_state \<Rightarrow> command_state) \<Rightarrow>
   command_state \<Rightarrow> command_state \<times> unit result" where
  "on_finalized op mid why finish s =
     (case uid_required s of
        Inl e \<Rightarrow> (s, Inl e)
      | Inr _ \<Rightarrow>
          (case op (rw_db s) of
             (db, Inl e) \<Rightarrow> (s\<lparr>rw_db := db\<rparr>, Inl e)
           | (db, Inr (cid, ct)) \<Rightarrow>
               (finish (emit_ui [TimelineChanged cid ct mid why] (drop_page (cid, ct) (s\<lparr>rw_db := db\<rparr>))), Inr ())))"

definition cmd_finalize_local_attachment ::
  "command_env \<Rightarrow> u64 \<Rightarrow> string \<Rightarrow> int \<Rightarrow> command_state \<Rightarrow> command_state \<times> unit result" where
  "cmd_finalize_local_attachment env mid content thumb =
     on_finalized (finalize_local_attachment (ce_now env) mid content thumb) mid ''outbound_prep_complete'' (\<lambda>s. s)"

definition cmd_finalize_attachment_and_enqueue ::
  "command_env \<Rightarrow> u64 \<Rightarrow> string \<Rightarrow> int \<Rightarrow> string \<Rightarrow> string \<Rightarrow> command_state \<Rightarrow> command_state \<times> unit result" where
  "cmd_finalize_attachment_and_enqueue env mid content thumb route body =
     on_finalized (finalize_attachment_and_enqueue (ce_commit env) (ce_now env) mid content thumb route body) mid ''local_create''
       (\<lambda>s. kick_drain (emit_ui [sending mid] s))"

subsection \<open>Commands that leave the pages alone\<close>

definition enqueue_command ::
  "command_env \<Rightarrow> string \<Rightarrow> string \<Rightarrow> u64 \<Rightarrow> string \<Rightarrow> string option \<Rightarrow> command_state \<Rightarrow> command_state \<times> u64 result" where
  "enqueue_command env kind label mid body route s =
     (case uid_required s of
        Inl e \<Rightarrow> (s, Inl e)
      | Inr _ \<Rightarrow>
          (case outbox_enqueue (ce_commit env) (ce_now env) mid kind 0 body route (rw_db s) of
             (db, Inl e) \<Rightarrow> (s\<lparr>rw_db := db\<rparr>, Inl e)
           | (db, Inr _) \<Rightarrow>
               (kick_drain (emit_ui [Outgoing (OutboundQueueUpdated label ''enqueue'' (Some mid)), sending mid] (s\<lparr>rw_db := db\<rparr>)),
                Inr mid)))"

definition cmd_enqueue_outbound_message :: "command_env \<Rightarrow> u64 \<Rightarrow> string \<Rightarrow> command_state \<Rightarrow> command_state \<times> u64 result" where
  "cmd_enqueue_outbound_message env mid body = enqueue_command env ''message'' ''normal'' mid body None"

definition cmd_enqueue_outbound_attachment :: "command_env \<Rightarrow> u64 \<Rightarrow> string \<Rightarrow> command_state \<Rightarrow> command_state \<times> u64 result" where
  "cmd_enqueue_outbound_attachment env mid route = enqueue_command env ''attachment'' ''file'' mid [] (Some route)"

definition cmd_ack_outbound :: "u64 list \<Rightarrow> command_state \<Rightarrow> command_state \<times> nat result" where
  "cmd_ack_outbound mids s =
     (case uid_required s of
        Inl e \<Rightarrow> (s, Inl e)
      | Inr _ \<Rightarrow> (s\<lparr>rw_db := fold outbox_drop mids (rw_db s)\<rparr>, Inr (length mids)))"

definition cmd_peek_outbound :: "string \<Rightarrow> nat \<Rightarrow> command_state \<Rightarrow> (u64 \<times> string) list result" where
  "cmd_peek_outbound kind limit s =
     (case uid_required s of
        Inl e \<Rightarrow> Inl e
      | Inr _ \<Rightarrow> Inr (map (\<lambda>p. (pk_message_id p, pk_payload p)) (outbox_peek kind limit i64_max (rw_db s))))"

definition cmd_update_thumb_status :: "command_env \<Rightarrow> u64 \<Rightarrow> int \<Rightarrow> command_state \<Rightarrow> command_state \<times> bool result" where
  "cmd_update_thumb_status env mid thumb s =
     (case uid_required s of
        Inl e \<Rightarrow> (s, Inl e)
      | Inr _ \<Rightarrow> (case update_thumb_status (ce_now env) mid thumb (rw_db s) of (db, ok) \<Rightarrow> (s\<lparr>rw_db := db\<rparr>, Inr ok)))"

definition cmd_update_media_downloaded :: "command_env \<Rightarrow> u64 \<Rightarrow> bool \<Rightarrow> command_state \<Rightarrow> command_state \<times> unit result" where
  "cmd_update_media_downloaded env mid downloaded s =
     (case uid_required s of
        Inl e \<Rightarrow> (s, Inl e)
      | Inr _ \<Rightarrow> (s\<lparr>rw_db := update_media_downloaded (ce_now env) mid downloaded (rw_db s)\<rparr>, Inr ()))"

definition owned_by :: "string \<Rightarrow> u64 \<Rightarrow> command_state \<Rightarrow> bool" where
  "owned_by uid ep s \<longleftrightarrow> cs_uid s = Some uid \<and> cs_epoch s = ep"

definition cmd_update_media_downloaded_scoped ::
  "command_env \<Rightarrow> string \<Rightarrow> u64 \<Rightarrow> u64 \<Rightarrow> bool \<Rightarrow> command_state \<Rightarrow> command_state \<times> unit result" where
  "cmd_update_media_downloaded_scoped env uid ep mid downloaded s =
     (if owned_by uid ep s
      then (s\<lparr>rw_db := update_media_downloaded (ce_now env) mid downloaded (rw_db s)\<rparr>, Inr ())
      else (s, Inl (InvalidState ''receiver media task belongs to a stale session'')))"

subsection \<open>Thumbnails\<close>

definition thumbnail_text :: "json \<Rightarrow> string option" where
  "thumbnail_text j =
     (case Option.bind (json_get j ''thumbnail_url'') as_str_json of Some u \<Rightarrow> if u \<noteq> [] then Some u else None | None \<Rightarrow> None)"

definition extract_thumbnail_url :: "(string \<Rightarrow> json option) \<Rightarrow> string \<Rightarrow> string option" where
  "extract_thumbnail_url parse content =
     (case parse content of
        None \<Rightarrow> None
      | Some j \<Rightarrow>
          (case Option.bind (json_get j ''metadata'') thumbnail_text of Some u \<Rightarrow> Some u | None \<Rightarrow> thumbnail_text j))"

definition read_file_id :: "json \<Rightarrow> int option" where
  "read_file_id j = Option.bind (json_get j ''thumbnail_file_id'')
     (\<lambda>v. first_some [as_u64_json v, Option.bind (as_str_json v) (\<lambda>s. map_option int (parse_u64 s))])"

definition extract_thumbnail_file_id :: "(string \<Rightarrow> json option) \<Rightarrow> string \<Rightarrow> int option" where
  "extract_thumbnail_file_id parse content =
     (case parse content of
        None \<Rightarrow> None
      | Some j \<Rightarrow>
          (case first_some [read_file_id (case json_get j ''metadata'' of Some m \<Rightarrow> m | None \<Rightarrow> j), read_file_id j] of
             Some n \<Rightarrow> if 0 < n then Some n else None
           | None \<Rightarrow> None))"

datatype thumbnail_outcome = ThumbnailReady | ConfirmedAbsent | ThumbnailFailed

record thumbnail_ticket =
  tt_url :: string
  tt_encryption_version :: int
  tt_cek :: "string option"

datatype thumbnail_plan = FetchThumbnail thumbnail_ticket | NoThumbnail | ThumbnailUnknown

definition thumbnail_plan_of :: "(string \<Rightarrow> json option) \<Rightarrow> string \<Rightarrow> u64 \<Rightarrow> int \<Rightarrow> thumbnail_ticket option \<Rightarrow> thumbnail_plan" where
  "thumbnail_plan_of parse content cid ct ticket =
     (let fallback = (case extract_thumbnail_url parse content of
                        Some u \<Rightarrow> if starts_with ''http'' u then Some u else None
                      | None \<Rightarrow> None)
      in case ticket of
           Some t \<Rightarrow> if starts_with ''http'' (tt_url t) then FetchThumbnail t
                     else (case fallback of
                             Some u \<Rightarrow> FetchThumbnail \<lparr>tt_url = u, tt_encryption_version = 0, tt_cek = None\<rparr>
                           | None \<Rightarrow> if server_says_no_thumbnail parse (from_sync_entity 0 0 cid ct 0 0 [] content 0 0)
                                     then NoThumbnail else ThumbnailUnknown)
         | None \<Rightarrow> (case fallback of
                      Some u \<Rightarrow> FetchThumbnail \<lparr>tt_url = u, tt_encryption_version = 0, tt_cek = None\<rparr>
                    | None \<Rightarrow> if server_says_no_thumbnail parse (from_sync_entity 0 0 cid ct 0 0 [] content 0 0)
                              then NoThumbnail else ThumbnailUnknown))"

text \<open>\<open>present\<close>: one of the possible thumbnail files exists; \<open>tries\<close>: whether the n-th download succeeds.\<close>

definition run_auto_download_thumbnail ::
  "(string \<Rightarrow> json option) \<Rightarrow> string \<Rightarrow> u64 \<Rightarrow> int \<Rightarrow> thumbnail_ticket option \<Rightarrow> (string \<Rightarrow> bool) \<Rightarrow> (nat \<Rightarrow> bool) \<Rightarrow>
   thumbnail_outcome option" where
  "run_auto_download_thumbnail parse content cid ct ticket present tries =
     (case thumbnail_plan_of parse content cid ct ticket of
        NoThumbnail \<Rightarrow> Some ConfirmedAbsent
      | ThumbnailUnknown \<Rightarrow> None
      | FetchThumbnail t \<Rightarrow>
          if present (tt_url t) then Some ThumbnailReady
          else if list_ex tries [0, 1, 2] then Some ThumbnailReady else Some ThumbnailFailed)"

text \<open>The worker: a ticket is asked for up to three times when the message names a file.\<close>

definition thumbnail_worker ::
  "(string \<Rightarrow> json option) \<Rightarrow> string \<Rightarrow> u64 \<Rightarrow> int \<Rightarrow> bool \<Rightarrow> (nat \<Rightarrow> thumbnail_ticket option) \<Rightarrow> (string \<Rightarrow> bool) \<Rightarrow> (nat \<Rightarrow> bool) \<Rightarrow>
   thumbnail_outcome option" where
  "thumbnail_worker parse extra cid ct linked tickets present tries =
     (case extract_thumbnail_file_id parse extra of
        None \<Rightarrow> run_auto_download_thumbnail parse extra cid ct None present tries
      | Some f \<Rightarrow>
          if \<not> linked then None
          else (case first_some (map tickets [0, 1, 2]) of
                  None \<Rightarrow> None
                | Some t \<Rightarrow> run_auto_download_thumbnail parse extra cid ct (Some t) present tries))"

definition submit_thumbnail_download :: "u64 \<Rightarrow> download_priority \<Rightarrow> command_state \<Rightarrow> command_state" where
  "submit_thumbnail_download mid prio s =
     (case cs_uid s of
        None \<Rightarrow> s
      | Some uid \<Rightarrow> s\<lparr>cs_downloads := fst (submit (thumbnail_key uid (cs_epoch s) mid) prio (cs_downloads s))\<rparr>)"

fun outcome_status :: "thumbnail_outcome \<Rightarrow> int" where
  "outcome_status ThumbnailReady = 1"
| "outcome_status ConfirmedAbsent = 3"
| "outcome_status ThumbnailFailed = 2"

definition apply_thumbnail_download_outcome ::
  "command_env \<Rightarrow> string \<Rightarrow> u64 \<Rightarrow> u64 \<Rightarrow> u64 \<Rightarrow> int \<Rightarrow> thumbnail_outcome \<Rightarrow> command_state \<Rightarrow> command_state \<times> bool" where
  "apply_thumbnail_download_outcome env uid ep mid cid ct outcome s =
     (if \<not> owned_by uid ep s then (s, False)
      else case update_thumb_status (ce_now env) mid (outcome_status outcome) (rw_db s) of
             (db, applied) \<Rightarrow>
               (if applied \<and> outcome = ThumbnailReady
                then emit_ui [TimelineChanged cid ct mid ''thumbnail_ready''] (s\<lparr>rw_db := db\<rparr>)
                else s\<lparr>rw_db := db\<rparr>, applied))"

text \<open>What the host calls when a bubble becomes visible.\<close>

definition cmd_ensure_message_thumbnail :: "command_env \<Rightarrow> u64 \<Rightarrow> command_state \<Rightarrow> command_state" where
  "cmd_ensure_message_thumbnail env mid s =
     (case get_message_by_id mid (rw_db s) of
        None \<Rightarrow> s
      | Some m \<Rightarrow>
          (let parse = mt_parse (ce_media env);
               says_none = server_says_no_thumbnail parse
                 (from_sync_entity 0 0 (sm_channel_id m) (sm_channel_type m) 0 0 [] (sm_extra m) 0 0)
           in if sm_thumb_status m = 1 \<or> (sm_thumb_status m = 3 \<and> says_none) then s
              else
                let s1 = (if sm_thumb_status m = 3 then s\<lparr>rw_db := fst (update_thumb_status (ce_now env) mid 0 (rw_db s))\<rparr> else s)
                in if extract_thumbnail_file_id parse (sm_extra m) = None \<and> extract_thumbnail_url parse (sm_extra m) = None
                   then (case sm_server_message_id m of
                           Some sid \<Rightarrow> if sid \<noteq> 0
                             then on_repairs (enqueue_projection_repair (ce_clock env) (sm_channel_id m) (sm_channel_type m) sid) s1
                             else s1
                         | None \<Rightarrow> s1)
                   else submit_thumbnail_download mid Visible s1))"

subsection \<open>Reading\<close>

definition cmd_query_timeline_snapshot ::
  "u64 \<Rightarrow> int \<Rightarrow> nat \<Rightarrow> nat \<Rightarrow> command_state \<Rightarrow> command_state \<times> timeline_snapshot result" where
  "cmd_query_timeline_snapshot cid ct limit offset s =
     (case uid_required s of
        Inl e \<Rightarrow> (s, Inl e)
      | Inr _ \<Rightarrow> (case query_timeline_snapshot cid ct limit offset (rw_db s) (rw_cache s) of
                    (c, snap) \<Rightarrow> (s\<lparr>rw_cache := c\<rparr>, Inr snap)))"

definition wants_thumbnail :: "media_types \<Rightarrow> stored_message \<Rightarrow> bool" where
  "wants_thumbnail mt m \<longleftrightarrow> (sm_message_type m = mt_image mt \<or> sm_message_type m = mt_video mt) \<and> sm_thumb_status m = 0"

definition submit_thumbnails :: "media_types \<Rightarrow> stored_message list \<Rightarrow> command_state \<Rightarrow> command_state" where
  "submit_thumbnails mt ms s =
     fold (\<lambda>m s. if wants_thumbnail mt m then submit_thumbnail_download (sm_message_id m) Background s else s) ms s"

definition cmd_list_messages ::
  "command_env \<Rightarrow> u64 \<Rightarrow> int \<Rightarrow> nat \<Rightarrow> nat \<Rightarrow> command_state \<Rightarrow> command_state \<times> stored_message list result" where
  "cmd_list_messages env cid ct limit offset s =
     (case cmd_query_timeline_snapshot cid ct limit offset s of
        (s1, Inl e) \<Rightarrow> (s1, Inl e)
      | (s1, Inr snap) \<Rightarrow>
          (let ms = tn_messages snap
           in (submit_thumbnails (ce_media env) ms
                 (on_repairs (notice_damage (ce_media env) (ce_clock env) cid ct ms) s1), Inr ms)))"

subsection \<open>The loop\<close>

datatype message_command =
    MarkMessageSent u64 u64 u32
  | UpdateMessageStatus u64 int
  | SetMessageRevoke u64 bool "u64 option"
  | EditMessage u64 string int
  | SetMessagePinned u64 bool
  | DeleteMessageLocal u64
  | CreateLocalMessageQueued new_message "u64 option" string string "string option"
  | CreateLocalMessage new_message "u64 option"
  | CreateLocalAttachmentPlaceholder new_message "u64 option"
  | FinalizeLocalAttachment u64 string int
  | FinalizeAttachmentAndEnqueue u64 string int string string
  | EnqueueOutboundMessage u64 string
  | EnqueueOutboundAttachment u64 string
  | AckOutbound "u64 list"
  | UpdateThumbStatus u64 int
  | UpdateMediaDownloaded u64 bool
  | UpdateMediaDownloadedScoped string u64 u64 bool
  | CompleteThumbnailDownload string u64 u64 u64 int thumbnail_outcome
  | EnsureMessageThumbnail u64
  | QueryTimelineSnapshot u64 int nat nat
  | ListMessages u64 int nat nat

fun run_message_command :: "command_env \<Rightarrow> message_command \<Rightarrow> command_state \<Rightarrow> command_state" where
  "run_message_command env (MarkMessageSent mid sid sq) s = fst (cmd_mark_message_sent env mid sid sq s)"
| "run_message_command env (UpdateMessageStatus mid status) s = fst (cmd_update_message_status env mid status s)"
| "run_message_command env (SetMessageRevoke mid revoked revoker) s = fst (cmd_set_message_revoke env mid revoked revoker s)"
| "run_message_command env (EditMessage mid content edited) s = fst (cmd_edit_message env mid content edited s)"
| "run_message_command env (SetMessagePinned mid pinned) s = fst (cmd_set_message_pinned env mid pinned s)"
| "run_message_command env (DeleteMessageLocal mid) s = fst (cmd_delete_message_local env mid s)"
| "run_message_command env (CreateLocalMessageQueued input lid ty body route) s =
     fst (cmd_create_local_message_queued env input lid ty body route s)"
| "run_message_command env (CreateLocalMessage input lid) s = fst (cmd_create_local_message env input lid s)"
| "run_message_command env (CreateLocalAttachmentPlaceholder input lid) s =
     fst (cmd_create_local_attachment_placeholder env input lid s)"
| "run_message_command env (FinalizeLocalAttachment mid content thumb) s = fst (cmd_finalize_local_attachment env mid content thumb s)"
| "run_message_command env (FinalizeAttachmentAndEnqueue mid content thumb route body) s =
     fst (cmd_finalize_attachment_and_enqueue env mid content thumb route body s)"
| "run_message_command env (EnqueueOutboundMessage mid body) s = fst (cmd_enqueue_outbound_message env mid body s)"
| "run_message_command env (EnqueueOutboundAttachment mid route) s = fst (cmd_enqueue_outbound_attachment env mid route s)"
| "run_message_command env (AckOutbound mids) s = fst (cmd_ack_outbound mids s)"
| "run_message_command env (UpdateThumbStatus mid thumb) s = fst (cmd_update_thumb_status env mid thumb s)"
| "run_message_command env (UpdateMediaDownloaded mid downloaded) s = fst (cmd_update_media_downloaded env mid downloaded s)"
| "run_message_command env (UpdateMediaDownloadedScoped uid ep mid downloaded) s =
     fst (cmd_update_media_downloaded_scoped env uid ep mid downloaded s)"
| "run_message_command env (CompleteThumbnailDownload uid ep mid cid ct outcome) s =
     fst (apply_thumbnail_download_outcome env uid ep mid cid ct outcome s)"
| "run_message_command env (EnsureMessageThumbnail mid) s = cmd_ensure_message_thumbnail env mid s"
| "run_message_command env (QueryTimelineSnapshot cid ct limit offset) s = fst (cmd_query_timeline_snapshot cid ct limit offset s)"
| "run_message_command env (ListMessages cid ct limit offset) s = fst (cmd_list_messages env cid ct limit offset s)"


subsection \<open>Which conversations an operation touches\<close>

definition row_key :: "message_row \<Rightarrow> u64 \<times> int" where
  "row_key r = (as_u64 (m_channel_id r), m_channel_type r)"

definition only_touches :: "(u64 \<times> int) set \<Rightarrow> message_db \<Rightarrow> message_db \<Rightarrow> bool" where
  "only_touches K db db' \<longleftrightarrow> (\<forall>cid ct n. (cid, ct) \<notin> K \<longrightarrow> list_messages cid ct n 0 db' = list_messages cid ct n 0 db)"

text \<open>Every row with this id lives in one of the conversations.\<close>

definition at_home :: "u64 \<Rightarrow> (u64 \<times> int) set \<Rightarrow> message_db \<Rightarrow> bool" where
  "at_home mid K db \<longleftrightarrow> (\<forall>r \<in> set (messages db). by_id mid r \<longrightarrow> row_key r \<in> K)"

lemma in_channel_key: "in_channel cid ct r \<Longrightarrow> row_key r = (cid, ct)"
  by (simp add: in_channel_def row_key_def)

lemma only_touches_refl [simp]: "only_touches K db db"
  by (simp add: only_touches_def)

lemma only_touches_trans: "only_touches K a b \<Longrightarrow> only_touches K b c \<Longrightarrow> only_touches K a c"
  by (simp add: only_touches_def)

lemma listing_same:
  assumes "filter (in_channel cid ct) (messages db') = filter (in_channel cid ct) (messages db)"
    and "\<And>r. r \<in> set (messages db) \<Longrightarrow> in_channel cid ct r \<Longrightarrow> extra_of db' (m_id r) = extra_of db (m_id r)"
  shows "list_messages cid ct n 0 db' = list_messages cid ct n 0 db"
proof -
  have "stored_message_from_row db' r = stored_message_from_row db r"
    if "r \<in> set (take n (rev (sort_key display_key_of (filter (in_channel cid ct) (messages db)))))" for r
  proof -
    have "r \<in> set (messages db)" "in_channel cid ct r" using in_set_takeD [OF that] by auto
    from assms(2) [OF this] show ?thesis by (simp add: stored_message_from_row_def)
  qed
  then show ?thesis by (simp add: list_messages_def assms(1))
qed

lemma touches_frame: "messages db' = messages db \<Longrightarrow> extras db' = extras db \<Longrightarrow> only_touches K db db'"
  unfolding only_touches_def by (auto intro!: listing_same simp: extra_of_def)

lemma touches_update:
  assumes "at_home mid K db" and "\<And>r. m_channel_id (f r) = m_channel_id r" and "\<And>r. m_channel_type (f r) = m_channel_type r"
  shows "only_touches K db (update_message mid f db)"
  unfolding only_touches_def
proof (intro allI impI)
  fix cid ct n assume k: "(cid, ct) \<notin> K"
  have "filter (in_channel cid ct) (update_where (by_id mid) f rs) = filter (in_channel cid ct) rs"
    if "\<forall>r \<in> set rs. by_id mid r \<longrightarrow> row_key r \<in> K" for rs
    using that
  proof (induction rs)
    case (Cons r rs)
    have "by_id mid r \<Longrightarrow> \<not> in_channel cid ct r" using Cons.prems k in_channel_key by fastforce
    moreover have "in_channel cid ct (f r) = in_channel cid ct r" using assms(2,3) by (simp add: in_channel_def)
    ultimately show ?case using Cons by (auto simp: update_where_def)
  qed (simp add: update_where_def)
  then show "list_messages cid ct n 0 (update_message mid f db) = list_messages cid ct n 0 db"
    using assms(1) by (intro listing_same) (auto simp: update_message_def at_home_def extra_of_def)
qed

lemma touches_extras:
  assumes "at_home mid K db" and "x_message_id new = as_i64 mid" and "\<And>x. x_message_id (upd x) = x_message_id x"
  shows "only_touches K db (db\<lparr>extras := upsert_on x_message_id upd new (extras db)\<rparr>)"
  unfolding only_touches_def
proof (intro allI impI)
  fix cid ct n assume k: "(cid, ct) \<notin> K"
  have "m_id r \<noteq> as_i64 mid" if "r \<in> set (messages db)" "in_channel cid ct r" for r
    using that assms(1) k in_channel_key by (fastforce simp: at_home_def by_id_def)
  then show "list_messages cid ct n 0 (db\<lparr>extras := upsert_on x_message_id upd new (extras db)\<rparr>) = list_messages cid ct n 0 db"
    using find_upsert_on [where key = x_message_id and upd = upd, OF assms(3)] assms(2)
    by (intro listing_same) (auto simp: extra_of_def)
qed

lemma touches_delete:
  assumes "\<And>r. r \<in> set (messages db) \<Longrightarrow> P r \<Longrightarrow> row_key r \<in> K"
  shows "only_touches K db (db\<lparr>messages := delete_where P (messages db)\<rparr>)"
  unfolding only_touches_def
proof (intro allI impI)
  fix cid ct n assume k: "(cid, ct) \<notin> K"
  have "filter (in_channel cid ct) (delete_where P (messages db)) = filter (in_channel cid ct) (messages db)"
    unfolding delete_where_def filter_filter
    by (rule filter_cong [OF refl]) (use assms k in_channel_key in fastforce)
  then show "list_messages cid ct n 0 (db\<lparr>messages := delete_where P (messages db)\<rparr>) = list_messages cid ct n 0 db"
    by (intro listing_same) (auto simp: extra_of_def)
qed

lemma touches_insert: "row_key r \<in> K \<Longrightarrow> only_touches K db (insert_message r db)"
  unfolding only_touches_def
proof (intro allI impI)
  fix cid ct n assume k: "row_key r \<in> K" "(cid, ct) \<notin> K"
  then have "\<not> in_channel cid ct r" using in_channel_key by fastforce
  then show "list_messages cid ct n 0 (insert_message r db) = list_messages cid ct n 0 db"
    by (intro listing_same) (auto simp: insert_message_def extra_of_def)
qed

lemma at_home_update:
  "at_home mid K db \<Longrightarrow> (\<And>r. m_id (f r) = m_id r) \<Longrightarrow> (\<And>r. m_channel_id (f r) = m_channel_id r) \<Longrightarrow>
   (\<And>r. m_channel_type (f r) = m_channel_type r) \<Longrightarrow> at_home mid K (update_message mid f db)"
  by (auto simp: at_home_def update_message_def set_update_where by_id_def row_key_def)

lemma at_home_extras [simp]: "at_home mid K (db\<lparr>extras := xs\<rparr>) = at_home mid K db"
  by (simp add: at_home_def)

lemma home_of_row:
  assumes "store_inv db" and "find (by_id mid) (messages db) = Some r"
  shows "at_home mid {row_key r} db"
  using assms by_id_unique [OF assms(1)] find_Some_mem [OF assms(2)] by (fastforce simp: at_home_def find_Some_iff)

lemma stored_key [simp]:
  "sm_channel_id (stored_message_from_row db r) = as_u64 (m_channel_id r)"
  "sm_channel_type (stored_message_from_row db r) = m_channel_type r"
  by (simp_all add: stored_message_from_row_def Let_def)

lemma home_of_context:
  assumes "store_inv db"
  shows "at_home mid (case get_message_by_id mid db of Some m \<Rightarrow> {(sm_channel_id m, sm_channel_type m)} | None \<Rightarrow> {}) db"
proof (cases "find (by_id mid) (messages db)")
  case None
  then show ?thesis by (simp add: get_message_by_id_def at_home_def find_None_iff)
next
  case (Some r)
  then show ?thesis using home_of_row [OF assms Some]
    by (simp add: get_message_by_id_def row_key_def)
qed

lemma touches_tx: "only_touches K db (fst body) \<Longrightarrow> only_touches K db (fst (in_tx ctx commit db body))"
  by (auto simp: in_tx_def split: prod.splits sum.splits option.splits)

lemma touches_mono: "only_touches K db db' \<Longrightarrow> K \<subseteq> L \<Longrightarrow> only_touches L db db'"
  by (auto simp: only_touches_def)

lemma channel_kept [simp]:
  "m_channel_id (finalized_row now c t r) = m_channel_id r" "m_channel_type (finalized_row now c t r) = m_channel_type r"
  "m_channel_id (sent_row now sid r) = m_channel_id r" "m_channel_type (sent_row now sid r) = m_channel_type r"
  "m_channel_id (acked_row now sid sq r) = m_channel_id r" "m_channel_type (acked_row now sid sq r) = m_channel_type r"
  "m_channel_id (revoke_row now r) = m_channel_id r" "m_channel_type (revoke_row now r) = m_channel_type r"
  by (simp_all add: finalized_row_def sent_row_def acked_row_def revoke_row_def)

subsection \<open>What each operation touches\<close>

lemma touches_status: "at_home mid K db \<Longrightarrow> only_touches K db (fst (update_message_status now mid status db))"
  by (simp add: update_message_status_def update_existing_def touches_update)

lemma touches_edit: "at_home mid K db \<Longrightarrow> only_touches K db (fst (edit_message now mid content at_ms db))"
proof (cases "find (by_id mid) (messages db)")
  case (Some r)
  assume h: "at_home mid K db"
  let ?f = "\<lambda>q. q\<lparr>m_content := content, m_updated_at := now\<rparr>"
  have home: "at_home mid K (update_message mid ?f db)" by (rule at_home_update [OF h]) simp_all
  have "only_touches K (update_message mid ?f db) (fst (edit_message now mid content at_ms db))"
    unfolding edit_message_def Some option.case Let_def fst_conv
    by (rule touches_extras [OF home]) (simp_all add: new_extra_def)
  then show ?thesis using only_touches_trans touches_update [OF h, of ?f] by simp
qed (simp add: edit_message_def)

lemma touches_pin: "at_home mid K db \<Longrightarrow> only_touches K db (fst (set_message_pinned now mid pinned db))"
  by (auto simp: set_message_pinned_def Let_def touches_extras new_extra_def split: option.splits)

lemma touches_revoke: "at_home mid K db \<Longrightarrow> only_touches K db (set_message_revoke now mid revoked revoker db)"
proof (cases "find (by_id mid) (messages db)")
  case (Some r)
  assume h: "at_home mid K db"
  define db1 where "db1 = db\<lparr>extras := upsert_on x_message_id
    (\<lambda>x. x\<lparr>x_revoke := if revoked then 1 else 0, x_revoker := map_option as_i64 revoker, x_extra_version := now\<rparr>)
    ((new_extra (as_i64 mid) (m_channel_id r) (m_channel_type r))
       \<lparr>x_revoke := if revoked then 1 else 0, x_revoker := map_option as_i64 revoker, x_extra_version := now\<rparr>) (extras db)\<rparr>"
  have one: "only_touches K db db1" unfolding db1_def by (rule touches_extras [OF h]) (simp_all add: new_extra_def)
  have "at_home mid K db1" using h by (simp add: db1_def)
  from touches_update [OF this, of "revoke_row now"]
  have two: "only_touches K db1 (update_message mid (revoke_row now) db1)" by simp
  have "set_message_revoke now mid revoked revoker db = (if revoked then update_message mid (revoke_row now) db1 else db1)"
    using Some by (simp add: set_message_revoke_def Let_def db1_def update_message_def)
  then show ?thesis using one only_touches_trans [OF one two] by simp
qed (simp add: set_message_revoke_def)

lemma touches_forget:
  "at_home mid K db \<Longrightarrow> only_touches K db (db\<lparr>messages := delete_where (by_id mid) (messages db),
     extras := delete_where (\<lambda>x. x_message_id x = as_i64 mid) (extras db), side := t\<rparr>)"
proof -
  assume h: "at_home mid K db"
  let ?xs = "delete_where (\<lambda>x. x_message_id x = as_i64 mid) (extras db)"
  have found: "find (\<lambda>x. x_message_id x = i) (delete_where (\<lambda>x. x_message_id x = as_i64 mid) xs) = find (\<lambda>x. x_message_id x = i) xs"
    if "i \<noteq> as_i64 mid" for i and xs :: "extra_row list"
    using that by (induction xs) (auto simp: delete_where_def)
  have one: "only_touches K db (db\<lparr>extras := ?xs\<rparr>)"
    unfolding only_touches_def
  proof (intro allI impI)
    fix cid ct n assume k: "(cid, ct) \<notin> K"
    have "m_id r \<noteq> as_i64 mid" if "r \<in> set (messages db)" "in_channel cid ct r" for r
      using that h k in_channel_key by (fastforce simp: at_home_def by_id_def)
    then show "list_messages cid ct n 0 (db\<lparr>extras := ?xs\<rparr>) = list_messages cid ct n 0 db"
      using found by (intro listing_same) (auto simp: extra_of_def)
  qed
  have two: "only_touches K (db\<lparr>extras := ?xs\<rparr>) (db\<lparr>extras := ?xs, messages := delete_where (by_id mid) (messages db)\<rparr>)"
    using touches_delete [of "db\<lparr>extras := ?xs\<rparr>" "by_id mid" K] h by (simp add: at_home_def)
  have three: "only_touches K (db\<lparr>extras := ?xs, messages := delete_where (by_id mid) (messages db)\<rparr>)
      (db\<lparr>messages := delete_where (by_id mid) (messages db), extras := ?xs, side := t\<rparr>)"
    by (rule touches_frame) simp_all
  show ?thesis using only_touches_trans [OF only_touches_trans [OF one two] three] .
qed

lemma touches_delete_local: "at_home mid K db \<Longrightarrow> only_touches K db (fst (delete_message_local commit mid db))"
  by (auto simp: delete_message_local_def split: option.splits intro!: touches_tx touches_forget)

lemma touches_mark_sent:
  assumes "at_home mid K db" and "\<And>r. r \<in> set (messages db) \<Longrightarrow> by_server_id sid r \<Longrightarrow> row_key r \<in> K"
  shows "only_touches K db (fst (mark_message_sent commit now mid sid sq db))"
proof -
  have one: "only_touches K db (delete_other_copies sid mid db)"
    unfolding delete_other_copies_def by (rule touches_delete) (use assms(2) in auto)
  have "at_home mid K (delete_other_copies sid mid db)"
    using assms(1) by (auto simp: at_home_def delete_other_copies_def)
  from touches_update [OF this, of "acked_row now sid sq"]
  have "only_touches K (delete_other_copies sid mid db) (update_message mid (acked_row now sid sq) (delete_other_copies sid mid db))"
    by simp
  then show ?thesis unfolding mark_message_sent_def
    by (intro touches_tx) (auto intro: only_touches_trans [OF one])
qed

lemma upsert_outbox_messages:
  "messages (fst (upsert_outbox ctx row db)) = messages db" "extras (fst (upsert_outbox ctx row db)) = extras db"
  "messages (fst (insert_outbox ctx row db)) = messages db" "extras (fst (insert_outbox ctx row db)) = extras db"
  by (simp_all add: upsert_outbox_def insert_outbox_def insert_command_def)

lemma touches_finalize:
  "at_home mid K db \<Longrightarrow> only_touches K db (fst (finalize_local_attachment now mid content thumb db))"
  using touches_update [of mid K db "finalized_row now content thumb"]
  by (auto simp: finalize_local_attachment_def Let_def split: option.splits)

lemma touches_finalize_enqueue:
  assumes "at_home mid K db"
  shows "only_touches K db (fst (finalize_attachment_and_enqueue commit now mid content thumb route body db))"
proof -
  let ?f = "\<lambda>q. (finalized_row now content thumb q)\<lparr>m_status := 1\<rparr>"
  have "only_touches K db (fst (upsert_outbox ctx row (update_message mid ?f db)))" for ctx row
    using only_touches_trans [OF touches_update [OF assms, of ?f]] touches_frame [of _ "update_message mid ?f db"]
    by (simp add: upsert_outbox_messages)
  then have "upsert_outbox ctx row (update_message mid ?f db) = (db', r) \<Longrightarrow> only_touches K db db'" for ctx row db' r
    by (metis fst_conv)
  then show ?thesis unfolding finalize_attachment_and_enqueue_def
    by (intro touches_tx) (auto simp: Let_def split: option.splits prod.splits sum.splits)
qed

lemma touches_create_queued:
  "only_touches {(n_channel_id input, n_channel_type input)} db (fst (create_local_message_queued commit now input lid ty body route db))"
proof -
  let ?K = "{(n_channel_id input, n_channel_type input)}"
  have "row_key (local_row i st input lid now) \<in> ?K" for i st by (simp add: row_key_def local_row_def)
  then have "only_touches ?K db (insert_message (local_row i st input lid now) db)" for i st
    by (rule touches_insert)
  then have one: "only_touches ?K db (insert_message (local_row i st input lid now) db)" for i st .
  have "only_touches ?K db (fst (insert_outbox ctx row (insert_message (local_row i st input lid now) db)))" for ctx row i st
    by (rule only_touches_trans [OF one touches_frame]) (simp_all add: upsert_outbox_messages)
  then have "insert_outbox ctx row (insert_message (local_row i st input lid now) db) = (db', r) \<Longrightarrow> only_touches ?K db db'"
    for ctx row i st db' r by (metis fst_conv)
  then show ?thesis unfolding create_local_message_queued_def
    by (auto simp: Let_def intro!: touches_tx split: prod.splits sum.splits)
qed

lemma touches_create:
  "only_touches {(n_channel_id input, n_channel_type input)} db (fst (create_local_message now input lid db))"
  by (auto simp: create_local_message_def Let_def row_key_def local_row_def intro!: touches_insert)

lemma touches_drops: "only_touches {} db (fold outbox_drop mids db)"
proof (induction mids arbitrary: db)
  case (Cons m ms)
  have "only_touches {} db (outbox_drop m db)" by (rule touches_frame) (simp_all add: outbox_drop_def delete_commands_def)
  then show ?case using Cons only_touches_trans by fastforce
qed simp

subsection \<open>Pages that show what is stored\<close>

text \<open>A page is current when it is a part of what the database lists, from its newest message on.\<close>

definition page_current :: "message_db \<Rightarrow> u64 \<Rightarrow> int \<Rightarrow> stored_message list \<Rightarrow> bool" where
  "page_current db cid ct ms \<longleftrightarrow>
     (\<exists>n. subseq ms (list_messages cid ct n 0 db) \<and> take 1 ms = take 1 (list_messages cid ct n 0 db))"

definition cache_current :: "message_db \<Rightarrow> timeline_cache \<Rightarrow> bool" where
  "cache_current db c \<longleftrightarrow> (\<forall>cid ct p. tc_pages c (cid, ct) = Some p \<longrightarrow> page_current db cid ct (cg_messages p))"

lemma cache_current_drop:
  assumes "cache_current db c" and "only_touches K db db'"
    and "\<And>k p. tc_pages c' k = Some p \<Longrightarrow> tc_pages c k = Some p \<and> k \<notin> K"
  shows "cache_current db' c'"
  using assms unfolding cache_current_def only_touches_def page_current_def by metis

lemma cache_current_pages: "tc_pages c' = tc_pages c \<Longrightarrow> cache_current db c' = cache_current db c"
  by (simp add: cache_current_def)

lemma invalidated_pages: "tc_pages (invalidate_channel_cache k c) = (tc_pages c)(k := None)"
  by (simp add: invalidate_channel_cache_def evict_channel_cache_def)

lemma stored_pages:
  assumes "tc_pages (store_channel_cache k ms earlier c) k' = Some p" and "k' \<noteq> k"
  shows "tc_pages c k' = Some p"
  using assms
  by (auto simp: store_channel_cache_def Let_def enforce_global_cache_budget_def touch_cache_lru_def evict_channel_cache_def
      invalidate_channel_cache_def split: cache_policy.splits if_splits prod.splits dest!: drop_oldest_pages)

lemma store_current:
  assumes "cache_current db c" and "ms = list_messages cid ct n 0 db"
  shows "cache_current db (store_channel_cache (cid, ct) ms earlier c)"
  unfolding cache_current_def
proof (intro allI impI)
  fix cid' ct' p assume p: "tc_pages (store_channel_cache (cid, ct) ms earlier c) (cid', ct') = Some p"
  show "page_current db cid' ct' (cg_messages p)"
  proof (cases "(cid', ct') = (cid, ct) \<and> (\<exists>cfg. tc_policy c = CacheEnabled cfg)")
    case False
    then have "tc_pages c (cid', ct') = Some p"
      using p stored_pages [OF p] by (cases "tc_policy c") (auto simp: store_channel_cache_def)
    then show ?thesis using assms(1) by (auto simp: cache_current_def)
  next
    case True
    then obtain cfg where pol: "tc_policy c = CacheEnabled cfg" and k: "(cid', ct') = (cid, ct)" by auto
    have ne: "ms \<noteq> []" using p pol k by (auto simp: store_channel_cache_def invalidated_pages)
    obtain kept m where kn: "kept_messages cfg ms = (kept, m)" by fastforce
    have kp: "cg_messages p = kept" using stored_page [OF pol ne kn, of "(cid, ct)" earlier] p k by auto
    note kf = kept_facts [OF kn]
    define lo where "lo = at_least_one (min (cf_min_messages cfg) (cf_max_messages cfg))"
    have lo: "take lo kept = take lo ms" "1 \<le> lo" using kf(4) by (simp_all add: lo_def at_least_one_def)
    have "take 1 kept = take 1 (take lo kept)" "take 1 ms = take 1 (take lo ms)" using lo(2) by (simp_all add: min_absorb1)
    then have "take 1 kept = take 1 ms" using lo(1) by simp
    then show ?thesis using kf(2) kp k assms(2) unfolding page_current_def by blast
  qed
qed

lemma query_current:
  assumes "cache_current db c"
  shows "cache_current db (fst (query_timeline_snapshot cid ct limit offset db c))"
proof (cases "snapshot_from_cache (cid, ct) limit offset c")
  case (Some cs)
  then have "tc_pages (fst cs) = tc_pages c"
    by (auto simp: snapshot_from_cache_def touch_cache_lru_def Let_def split: if_splits option.splits)
  moreover have "query_timeline_snapshot cid ct limit offset db c = cs"
    using Some by (cases cs) (simp add: query_timeline_snapshot_def)
  ultimately show ?thesis using assms cache_current_pages [of "fst cs" c db] by simp
next
  case None
  let ?c = "c\<lparr>tc_misses := sat_succ (tc_misses c)\<rparr>"
  have cur: "cache_current db ?c" using assms cache_current_pages [of ?c c] by simp
  have "take (cap_of limit) (list_messages cid ct (cap_of limit + 1) 0 db) = list_messages cid ct (cap_of limit) 0 db"
    by (simp add: listing_take del: take_Suc)
  from store_current [OF cur this] cur None show ?thesis
    by (cases offset) (simp_all add: query_timeline_snapshot_def Let_def)
qed

lemma query_shows_current:
  assumes "cache_current db c"
  shows "page_current db cid ct (tn_messages (snd (query_timeline_snapshot cid ct limit 0 db c)))"
proof (cases "snapshot_from_cache (cid, ct) limit 0 c")
  case (Some cs)
  then obtain p where p: "tc_pages c (cid, ct) = Some p" "tn_messages (snd cs) = take (cap_of limit) (cg_messages p)"
    by (auto simp: snapshot_from_cache_def snapshot_of_def Let_def split: if_splits option.splits)
  then obtain n where n: "subseq (cg_messages p) (list_messages cid ct n 0 db)" "take 1 (cg_messages p) = take 1 (list_messages cid ct n 0 db)"
    using assms unfolding cache_current_def page_current_def by blast
  have "subseq (take (cap_of limit) (cg_messages p)) (list_messages cid ct n 0 db)"
    using n(1) by (meson prefix_imp_subseq subseq_order.trans take_is_prefix)
  moreover have "take 1 (take (cap_of limit) (cg_messages p)) = take 1 (cg_messages p)" by (simp add: cap_of_def min_absorb1)
  ultimately have "page_current db cid ct (tn_messages (snd cs))" using p(2) n(2) unfolding page_current_def by metis
  then show ?thesis using Some by (simp add: query_timeline_snapshot_def split: prod.splits)
next
  case None
  have "page_current db cid ct (list_messages cid ct (cap_of limit) 0 db)" unfolding page_current_def by blast
  then show ?thesis using None
    by (simp add: query_timeline_snapshot_def Let_def snapshot_of_def listing_take del: take_Suc)
qed

subsection \<open>Commands keep the pages current\<close>

definition home_of :: "u64 \<Rightarrow> message_db \<Rightarrow> (u64 \<times> int) set" where
  "home_of mid db = (case get_message_by_id mid db of Some m \<Rightarrow> {(sm_channel_id m, sm_channel_type m)} | None \<Rightarrow> {})"

abbreviation current :: "command_state \<Rightarrow> bool" where
  "current s \<equiv> cache_current (rw_db s) (rw_cache s)"

lemma command_fields [simp]:
  "rw_db (emit_ui es s) = rw_db s" "rw_cache (emit_ui es s) = rw_cache s"
  "rw_db (drop_page k s) = rw_db s" "rw_cache (drop_page k s) = invalidate_channel_cache k (rw_cache s)"
  "rw_db (kick_drain s) = rw_db s" "rw_cache (kick_drain s) = rw_cache s"
  "rw_db (on_repairs f s) = rw_db s" "rw_cache (on_repairs f s) = rw_cache s"
  by (simp_all add: emit_ui_def drop_page_def kick_drain_def on_repairs_def)

lemma on_message_current:
  assumes "current s" and "only_touches (home_of mid (rw_db s)) (rw_db s) (fst (op (rw_db s)))"
    and "\<And>e. snd (op (rw_db s)) = Inl e \<Longrightarrow> only_touches {} (rw_db s) (fst (op (rw_db s)))"
  shows "current (fst (on_message op mid evs s))"
proof (cases "uid_required s")
  case (Inr u)
  obtain db r where op: "op (rw_db s) = (db, r)" by fastforce
  show ?thesis
  proof (cases r)
    case (Inl e)
    then have "only_touches {} (rw_db s) db" using assms(3) op by simp
    then show ?thesis using Inl Inr op cache_current_drop [OF assms(1)] by (simp add: on_message_def Let_def)
  next
    case (Inr x)
    let ?c = "rw_cache (fst (on_message op mid evs s))"
    have "rw_db (fst (on_message op mid evs s)) = db"
      using \<open>uid_required s = Inr u\<close> Inr op by (simp add: on_message_def Let_def split: option.splits)
    moreover have "cache_current db ?c"
      by (rule cache_current_drop [OF assms(1,2) [unfolded op fst_conv]])
         (use \<open>uid_required s = Inr u\<close> Inr op in
           \<open>auto simp: on_message_def Let_def home_of_def invalidated_pages split: option.splits if_splits\<close>)
    ultimately show ?thesis by simp
  qed
qed (simp add: on_message_def assms(1))

lemma on_new_current:
  assumes "current s" and "\<And>i. only_touches {(n_channel_id input, n_channel_type input)} (rw_db s) (fst (op i (rw_db s)))"
    and "\<And>i e. snd (op i (rw_db s)) = Inl e \<Longrightarrow> only_touches {} (rw_db s) (fst (op i (rw_db s)))"
    and "\<And>mid t. rw_db (fin mid t) = rw_db t" and "\<And>mid t. rw_cache (fin mid t) = rw_cache t"
  shows "current (fst (on_new_message env lid input op fin s))"
proof (cases "uid_required s")
  case (Inr u)
  show ?thesis
  proof (cases "case lid of Some i \<Rightarrow> Inr i | None \<Rightarrow> ce_fresh_id env")
    case (Inr i)
    obtain db r where op: "op i (rw_db s) = (db, r)" by fastforce
    show ?thesis
    proof (cases r)
      case (Inl e)
      then have "only_touches {} (rw_db s) db" using assms(3) [of i e] op by simp
      then show ?thesis using Inl Inr \<open>uid_required s = Inr u\<close> op cache_current_drop [OF assms(1)] by (simp add: on_new_message_def)
    next
      case (Inr mid)
      have "only_touches {(n_channel_id input, n_channel_type input)} (rw_db s) db" using assms(2) [of i] op by simp
      then have "cache_current db (invalidate_channel_cache (n_channel_id input, n_channel_type input) (rw_cache s))"
        by (rule cache_current_drop [OF assms(1)]) (auto simp: invalidated_pages split: if_splits)
      then show ?thesis
        using \<open>uid_required s = Inr u\<close> \<open>(case lid of Some i \<Rightarrow> Inr i | None \<Rightarrow> ce_fresh_id env) = Inr i\<close> Inr op assms(4,5)
        by (simp add: on_new_message_def)
    qed
  qed (simp add: on_new_message_def Inr assms(1))
qed (simp add: on_new_message_def assms(1))

lemma tx_refused: "snd (in_tx ctx commit db body) = Inl e \<Longrightarrow> fst (in_tx ctx commit db body) = db"
  by (auto simp: in_tx_def split: prod.splits sum.splits option.splits)

lemma tx_refused_eq: "in_tx ctx commit db body = (db', Inl e) \<Longrightarrow> db' = db"
  using tx_refused [of ctx commit db body e] by simp

lemma at_home_of: "store_inv db \<Longrightarrow> at_home mid (home_of mid db) db"
  using home_of_context by (simp add: home_of_def)

lemma refused_local:
  "snd (update_message_status now mid status db) = Inl e \<Longrightarrow> fst (update_message_status now mid status db) = db"
  "snd (edit_message now mid content at_ms db) = Inl e \<Longrightarrow> fst (edit_message now mid content at_ms db) = db"
  "snd (set_message_pinned now mid pinned db) = Inl e \<Longrightarrow> fst (set_message_pinned now mid pinned db) = db"
  "snd (mark_message_sent commit now mid sid sq db) = Inl e \<Longrightarrow> fst (mark_message_sent commit now mid sid sq db) = db"
  "snd (create_local_message_queued commit now input lid ty body route db) = Inl e \<Longrightarrow>
   fst (create_local_message_queued commit now input lid ty body route db) = db"
  by (auto simp: update_message_status_def update_existing_def edit_message_def set_message_pinned_def mark_message_sent_def
      create_local_message_queued_def Let_def tx_refused split: option.splits if_splits)

lemma found_after_update:
  assumes "find (by_id mid) rs = Some r" and "\<And>q. m_id (f q) = m_id q"
  shows "find (by_id mid) (update_where (by_id mid) f rs) = Some (f r)"
  using assms by (induction rs) (auto simp: update_where_def by_id_def split: if_splits)

lemma not_found_after_update: "find (by_id mid) rs = None \<Longrightarrow> update_where (by_id mid) f rs = rs"
  by (induction rs) (auto simp: update_where_def split: if_splits)

lemma home_of_found: "find (by_id mid) (messages db) = Some r \<Longrightarrow> home_of mid db = {row_key r}"
  by (simp add: home_of_def get_message_by_id_def row_key_def)

lemma finalize_answer:
  "finalize_local_attachment now mid content thumb db = (db', r) \<Longrightarrow>
   (case r of Inr k \<Rightarrow> home_of mid db = {k} | Inl e \<Rightarrow> db' = db)"
proof (cases "find (by_id mid) (messages db)")
  case None
  assume "finalize_local_attachment now mid content thumb db = (db', r)"
  then show ?thesis using None not_found_after_update [OF None]
    by (auto simp: finalize_local_attachment_def update_message_def)
next
  case (Some q)
  assume "finalize_local_attachment now mid content thumb db = (db', r)"
  moreover have "m_id (finalized_row now content thumb x) = m_id x" for x by (simp add: finalized_row_def)
  ultimately show ?thesis
    using found_after_update [OF Some, of "finalized_row now content thumb"] home_of_found [OF Some]
    by (auto simp: finalize_local_attachment_def update_message_def row_key_def)
qed

lemma finalize_enqueue_answer:
  "finalize_attachment_and_enqueue commit now mid content thumb route body db = (db', r) \<Longrightarrow>
   (case r of Inr k \<Rightarrow> home_of mid db = {k} | Inl e \<Rightarrow> db' = db)"
proof (cases r)
  case (Inl e)
  assume "finalize_attachment_and_enqueue commit now mid content thumb route body db = (db', r)"
  then have "db' = db" unfolding finalize_attachment_and_enqueue_def Inl by (rule tx_refused_eq)
  then show ?thesis using Inl by simp
next
  case (Inr k)
  assume "finalize_attachment_and_enqueue commit now mid content thumb route body db = (db', r)"
  then show ?thesis using Inr home_of_found [of mid db]
    by (auto simp: finalize_attachment_and_enqueue_def in_tx_def row_key_def Let_def split: option.splits prod.splits sum.splits if_splits)
qed

lemma on_finalized_current:
  assumes "current s" and "only_touches (home_of mid (rw_db s)) (rw_db s) (fst (op (rw_db s)))"
    and "\<And>db r. op (rw_db s) = (db, r) \<Longrightarrow> (case r of Inr k \<Rightarrow> home_of mid (rw_db s) = {k} | Inl e \<Rightarrow> db = rw_db s)"
    and "\<And>t. rw_db (fin t) = rw_db t" and "\<And>t. rw_cache (fin t) = rw_cache t"
  shows "current (fst (on_finalized op mid why fin s))"
proof (cases "uid_required s")
  case (Inr u)
  obtain db r where op: "op (rw_db s) = (db, r)" by fastforce
  show ?thesis
  proof (cases r)
    case (Inl e) then show ?thesis using Inr op assms(1) assms(3) [OF op] by (simp add: on_finalized_def)
  next
    case (Inr k)
    obtain cid ct where k: "k = (cid, ct)" by fastforce
    have "home_of mid (rw_db s) = {(cid, ct)}" using assms(3) [OF op] Inr k by simp
    then have "only_touches {(cid, ct)} (rw_db s) db" using assms(2) op by simp
    then have "cache_current db (invalidate_channel_cache (cid, ct) (rw_cache s))"
      by (rule cache_current_drop [OF assms(1)]) (auto simp: invalidated_pages split: if_splits)
    then show ?thesis using \<open>uid_required s = Inr u\<close> Inr k op assms(4,5) by (simp add: on_finalized_def)
  qed
qed (simp add: on_finalized_def assms(1))

lemma delete_current:
  assumes "current s" and "store_inv (rw_db s)"
  shows "current (fst (cmd_delete_message_local env mid s))"
proof (cases "uid_required s")
  case (Inr u)
  obtain db r where op: "delete_message_local (ce_commit env) mid (rw_db s) = (db, r)" by fastforce
  have touch: "only_touches (home_of mid (rw_db s)) (rw_db s) db"
    using touches_delete_local [OF at_home_of [OF assms(2)], of mid "ce_commit env"] op by simp
  have ans: "case r of Inr (Some m) \<Rightarrow> home_of mid (rw_db s) = {(sm_channel_id m, sm_channel_type m)} | _ \<Rightarrow> db = rw_db s"
    using op by (auto simp: delete_message_local_def in_tx_def home_of_def split: option.splits)
  show ?thesis
  proof (cases "\<exists>m. r = Inr (Some m)")
    case True
    then obtain m where m: "r = Inr (Some m)" by blast
    then have "only_touches {(sm_channel_id m, sm_channel_type m)} (rw_db s) db" using ans touch by simp
    then have "cache_current db (invalidate_channel_cache (sm_channel_id m, sm_channel_type m) (rw_cache s))"
      by (rule cache_current_drop [OF assms(1)]) (auto simp: invalidated_pages split: if_splits)
    then show ?thesis using Inr m op by (simp add: cmd_delete_message_local_def)
  next
    case False
    then have "db = rw_db s" using ans by (auto split: sum.splits option.splits)
    then show ?thesis using Inr op False assms(1) by (auto simp: cmd_delete_message_local_def split: sum.splits option.splits)
  qed
qed (simp add: cmd_delete_message_local_def assms(1))

lemma submit_frame [simp]:
  "rw_db (submit_thumbnail_download mid prio s) = rw_db s" "rw_cache (submit_thumbnail_download mid prio s) = rw_cache s"
  by (simp_all add: submit_thumbnail_download_def split: option.splits)

lemma submits_frame [simp]:
  "rw_db (submit_thumbnails mt ms s) = rw_db s" "rw_cache (submit_thumbnails mt ms s) = rw_cache s"
  unfolding submit_thumbnails_def by (induction ms arbitrary: s) simp_all

lemma read_current:
  assumes "current s"
  shows "current (fst (cmd_query_timeline_snapshot cid ct limit offset s))"
  using query_current [OF assms, of cid ct limit offset] assms
  by (auto simp: cmd_query_timeline_snapshot_def split: sum.splits prod.splits)

text \<open>The commands that drop every page they touch.\<close>

fun covered :: "message_command \<Rightarrow> command_state \<Rightarrow> bool" where
  "covered (MarkMessageSent mid sid sq) s \<longleftrightarrow>
     (\<forall>r \<in> set (messages (rw_db s)). by_server_id sid r \<longrightarrow> row_key r \<in> home_of mid (rw_db s))"
| "covered (EnqueueOutboundMessage _ _) s \<longleftrightarrow> False"
| "covered (EnqueueOutboundAttachment _ _) s \<longleftrightarrow> False"
| "covered (UpdateThumbStatus _ _) s \<longleftrightarrow> False"
| "covered (UpdateMediaDownloaded _ _) s \<longleftrightarrow> False"
| "covered (UpdateMediaDownloadedScoped _ _ _ _) s \<longleftrightarrow> False"
| "covered (CompleteThumbnailDownload _ _ _ _ _ _) s \<longleftrightarrow> False"
| "covered (EnsureMessageThumbnail mid) s \<longleftrightarrow> (case get_message_by_id mid (rw_db s) of Some m \<Rightarrow> sm_thumb_status m \<noteq> 3 | None \<Rightarrow> True)"
| "covered _ s \<longleftrightarrow> True"

lemma covered_current:
  assumes "store_inv (rw_db s)" and "current s" and "covered cmd s"
  shows "current (run_message_command env cmd s)"
proof (cases cmd)
  case (MarkMessageSent mid sid sq)
  have "only_touches (home_of mid (rw_db s)) (rw_db s) (fst (mark_message_sent (ce_commit env) (ce_now env) mid sid sq (rw_db s)))"
    using assms(3) MarkMessageSent by (intro touches_mark_sent at_home_of [OF assms(1)]) simp
  then show ?thesis unfolding MarkMessageSent run_message_command.simps cmd_mark_message_sent_def
    by (rule on_message_current [OF assms(2)]) (simp add: refused_local)
next
  case (UpdateMessageStatus mid status)
  show ?thesis unfolding UpdateMessageStatus run_message_command.simps cmd_update_message_status_def
    by (rule on_message_current [OF assms(2)], rule touches_status [OF at_home_of [OF assms(1)]]) (simp add: refused_local)
next
  case (SetMessageRevoke mid revoked revoker)
  show ?thesis unfolding SetMessageRevoke run_message_command.simps cmd_set_message_revoke_def
    by (rule on_message_current [OF assms(2)]) (simp_all add: touches_revoke at_home_of [OF assms(1)])
next
  case (EditMessage mid content edited)
  show ?thesis unfolding EditMessage run_message_command.simps cmd_edit_message_def
    by (rule on_message_current [OF assms(2)], rule touches_edit [OF at_home_of [OF assms(1)]]) (simp add: refused_local)
next
  case (SetMessagePinned mid pinned)
  show ?thesis unfolding SetMessagePinned run_message_command.simps cmd_set_message_pinned_def
    by (rule on_message_current [OF assms(2)], rule touches_pin [OF at_home_of [OF assms(1)]]) (simp add: refused_local)
next
  case (DeleteMessageLocal mid) then show ?thesis using delete_current assms by simp
next
  case (CreateLocalMessageQueued input lid ty body route)
  show ?thesis unfolding CreateLocalMessageQueued run_message_command.simps cmd_create_local_message_queued_def
    by (rule on_new_current [OF assms(2)]) (simp_all add: touches_create_queued refused_local)
next
  case (CreateLocalMessage input lid)
  have "only_touches {(n_channel_id input, n_channel_type input)} db
      (fst (case create_local_message (ce_now env) input i db of (db', mid) \<Rightarrow> (db', Inr mid)))" for i db
    using touches_create by (simp add: case_prod_beta)
  then show ?thesis unfolding CreateLocalMessage run_message_command.simps cmd_create_local_message_def
    by (intro on_new_current [OF assms(2)]) (simp_all add: case_prod_beta)
next
  case (CreateLocalAttachmentPlaceholder input lid)
  have "only_touches {(n_channel_id input, n_channel_type input)} db
      (fst (case create_local_message (ce_now env) input i db of (db', mid) \<Rightarrow> (db', Inr mid)))" for i db
    using touches_create by (simp add: case_prod_beta)
  then show ?thesis unfolding CreateLocalAttachmentPlaceholder run_message_command.simps cmd_create_local_attachment_placeholder_def
    by (intro on_new_current [OF assms(2)]) (simp_all add: case_prod_beta)
next
  case (FinalizeLocalAttachment mid content thumb)
  show ?thesis unfolding FinalizeLocalAttachment run_message_command.simps cmd_finalize_local_attachment_def
    by (rule on_finalized_current [OF assms(2)], rule touches_finalize [OF at_home_of [OF assms(1)]])
       (simp_all add: finalize_answer)
next
  case (FinalizeAttachmentAndEnqueue mid content thumb route body)
  show ?thesis unfolding FinalizeAttachmentAndEnqueue run_message_command.simps cmd_finalize_attachment_and_enqueue_def
    by (rule on_finalized_current [OF assms(2)], rule touches_finalize_enqueue [OF at_home_of [OF assms(1)]])
       (simp_all add: finalize_enqueue_answer)
next
  case (AckOutbound mids)
  have "cache_current (fold outbox_drop mids (rw_db s)) (rw_cache s)"
    by (rule cache_current_drop [OF assms(2) touches_drops]) simp
  then show ?thesis using AckOutbound assms(2) by (simp add: cmd_ack_outbound_def split: sum.splits)
next
  case (EnsureMessageThumbnail mid)
  then show ?thesis using assms(2,3)
    by (cases "get_message_by_id mid (rw_db s)")
       (simp_all add: cmd_ensure_message_thumbnail_def Let_def split: option.splits)
next
  case (QueryTimelineSnapshot cid ct limit offset) then show ?thesis using read_current [OF assms(2)] by simp
next
  case (ListMessages cid ct limit offset) then show ?thesis using read_current [OF assms(2), of cid ct limit offset]
    by (auto simp: cmd_list_messages_def Let_def split: prod.splits sum.splits)
qed (use assms(3) in simp_all)

text \<open>C8. Creating, editing, revoking, pinning, acknowledging, finishing and deleting messages never leaves a page that
  shows something else than what is stored. When every cached page is a part of what the
  database lists, from the newest message on, it still is after any of these commands, whether it succeeds or is
  refused, and so is whatever the next read of any conversation shows. A message acknowledged must have the copies
  of its server id in its own conversation.\<close>

theorem commands_never_leave_stale_pages:
  assumes "store_inv (rw_db s)" and "cache_current (rw_db s) (rw_cache s)" and "covered cmd s"
  shows "let s' = run_message_command env cmd s
    in cache_current (rw_db s') (rw_cache s') \<and>
       (\<forall>cid ct limit. page_current (rw_db s') cid ct
          (tn_messages (snd (query_timeline_snapshot cid ct limit 0 (rw_db s') (rw_cache s')))))"
  using covered_current [OF assms] query_shows_current by (simp add: Let_def)

subsection \<open>The pages the other commands leave behind\<close>

lemma has_message_length: "has_message mid db \<longleftrightarrow> find (by_id mid) (messages db) \<noteq> None"
  by (auto simp: has_message_def list_ex_iff find_None_iff)

lemma status_after_update:
  assumes "find (by_id mid) (messages db) = Some r"
  shows "get_message_by_id mid (update_message mid (\<lambda>r. r\<lparr>m_status := v, m_updated_at := now\<rparr>) db) =
      Some (stored_message_from_row db (r\<lparr>m_status := v, m_updated_at := now\<rparr>))"
    and "get_message_by_id mid (update_message mid (\<lambda>r. r\<lparr>m_thumb_status := w, m_updated_at := now\<rparr>) db) =
      Some (stored_message_from_row db (r\<lparr>m_thumb_status := w, m_updated_at := now\<rparr>))"
  using found_after_update [OF assms] assms
  by (simp_all add: get_message_by_id_def update_message_def stored_message_from_row_def extra_of_def)

lemma same_message:
  assumes "messages db' = messages db" and "extras db' = extras db"
  shows "get_message_by_id mid db' = get_message_by_id mid db"
proof -
  have "stored_message_from_row db' = stored_message_from_row db"
    using assms(2) by (simp add: fun_eq_iff stored_message_from_row_def extra_of_def)
  then show ?thesis using assms(1) by (simp add: get_message_by_id_def)
qed

lemma enqueue_found:
  assumes "snd (outbox_enqueue commit now mid ty ch body route db) = Inr ()"
  shows "\<exists>m. get_message_by_id mid (fst (outbox_enqueue commit now mid ty ch body route db)) = Some m \<and> sm_status m = 1"
proof -
  let ?db1 = "update_message mid (\<lambda>r. r\<lparr>m_status := 1, m_updated_at := now\<rparr>) db"
  obtain r where r: "find (by_id mid) (messages db) = Some r"
    using assms by (cases "find (by_id mid) (messages db)")
      (auto simp: outbox_enqueue_def in_tx_def snowflake_of_def)
  have tx: "fst (in_tx ctx commit db body) = fst body" if "snd (in_tx ctx commit db body) = Inr ()" for ctx and body :: "message_db \<times> unit result"
    using that by (auto simp: in_tx_def split: prod.splits sum.splits option.splits)
  have "messages (fst (outbox_enqueue commit now mid ty ch body route db)) = messages ?db1 \<and>
      extras (fst (outbox_enqueue commit now mid ty ch body route db)) = extras ?db1"
    using tx [OF assms [unfolded outbox_enqueue_def]] assms
    by (auto simp: outbox_enqueue_def Let_def upsert_outbox_messages in_tx_def split: if_splits)
  then have "get_message_by_id mid (fst (outbox_enqueue commit now mid ty ch body route db)) = get_message_by_id mid ?db1"
    by (intro same_message) simp_all
  then show ?thesis using status_after_update(1) [OF r, where v = 1 and now = now] by (simp add: stored_message_from_row_def Let_def)
qed

lemma cached_read:
  assumes "tc_pages c (cid, ct) = Some p" and "tc_policy c = CacheEnabled cfg" and "m \<in> set (take (cap_of limit) (cg_messages p))"
  shows "tn_messages (snd (query_timeline_snapshot cid ct limit 0 db c)) = take (cap_of limit) (cg_messages p)"
    and "tc_pages (fst (query_timeline_snapshot cid ct limit 0 db c)) = tc_pages c"
    and "tc_policy (fst (query_timeline_snapshot cid ct limit 0 db c)) = CacheEnabled cfg"
  using assms
  by (auto simp: query_timeline_snapshot_def snapshot_from_cache_def snapshot_of_def touch_cache_lru_def Let_def)

text \<open>Sending a message again announces a status the next read does not show. \<open>EnqueueOutboundMessage\<close> marks the row
  as being sent and tells the host so, but leaves the cached page alone: the host that reads the
  conversation on this event still gets the message with the status it had before.\<close>

theorem retry_shows_the_old_status:
  assumes "uid_required s = Inr uid"
    and "tc_policy (rw_cache s) = CacheEnabled cfg" and "tc_pages (rw_cache s) (cid, ct) = Some p"
    and "m \<in> set (take (cap_of limit) (cg_messages p))" and "sm_message_id m = mid" and "sm_status m \<noteq> 1"
    and "snd (outbox_enqueue (ce_commit env) (ce_now env) mid ''message'' 0 body None (rw_db s)) = Inr ()"
  shows "let (s1, r) = cmd_enqueue_outbound_message env mid body s;
             (s2, shown) = cmd_query_timeline_snapshot cid ct limit 0 s1
    in r = Inr mid \<and> last (rw_events s1) = Outgoing (MessageSendStatusChanged mid 1 None) \<and>
       (\<exists>stored. get_message_by_id mid (rw_db s1) = Some stored \<and> sm_status stored = 1) \<and>
       (\<exists>snap. shown = Inr snap \<and> m \<in> set (tn_messages snap))"
proof -
  obtain db where op: "outbox_enqueue (ce_commit env) (ce_now env) mid ''message'' 0 body None (rw_db s) = (db, Inr ())"
    using assms(7) by (cases "outbox_enqueue (ce_commit env) (ce_now env) mid ''message'' 0 body None (rw_db s)") simp
  define s1 where "s1 = fst (cmd_enqueue_outbound_message env mid body s)"
  have s1: "cmd_enqueue_outbound_message env mid body s = (s1, Inr mid)" "rw_db s1 = db" "rw_cache s1 = rw_cache s"
    "last (rw_events s1) = Outgoing (MessageSendStatusChanged mid 1 None)" "uid_required s1 = Inr uid"
    using assms(1) op
    by (simp_all add: s1_def cmd_enqueue_outbound_message_def enqueue_command_def uid_required_def kick_drain_def emit_ui_def sending_def)
  have "\<exists>stored. get_message_by_id mid (rw_db s1) = Some stored \<and> sm_status stored = 1"
    using enqueue_found [of "ce_commit env" "ce_now env" mid "''message''" 0 body None "rw_db s"] op s1(2) by simp
  moreover have "m \<in> set (tn_messages (snd (query_timeline_snapshot cid ct limit 0 (rw_db s1) (rw_cache s1))))"
    using cached_read(1) [OF assms(3,2,4)] assms(4) s1(3) by simp
  ultimately show ?thesis using s1 by (auto simp: cmd_query_timeline_snapshot_def split: prod.splits)
qed

lemma submit_tracked: "tracked k m \<Longrightarrow> tracked k (fst (submit k' p m))"
  by (auto simp: submit_def spawn_def tracked_def)

lemma submits_tracked:
  assumes "m \<in> set ms" and "wants_thumbnail mt m" and "cs_uid s = Some uid" and "cs_epoch s = ep"
    and "length (dm_entries (cs_downloads s)) + length ms < MAX_BACKGROUND_TRACKED_DOWNLOADS"
  shows "tracked (thumbnail_key uid ep (sm_message_id m)) (cs_downloads (submit_thumbnails mt ms s))"
  using assms
proof (induction ms arbitrary: s)
  case (Cons a ms)
  let ?s = "if wants_thumbnail mt a then submit_thumbnail_download (sm_message_id a) Background s else s"
  have step: "cs_uid ?s = Some uid" "cs_epoch ?s = ep"
    using Cons.prems by (simp_all add: submit_thumbnail_download_def)
  have len: "length (dm_entries (cs_downloads ?s)) \<le> length (dm_entries (cs_downloads s)) + 1"
    using Cons.prems(3) by (simp add: submit_thumbnail_download_def submit_def spawn_def)
  have unfold: "submit_thumbnails mt (a # ms) s = submit_thumbnails mt ms ?s" by (simp add: submit_thumbnails_def)
  have keep: "tracked k (cs_downloads (submit_thumbnails mt xs t))" if "tracked k (cs_downloads t)" for k xs t
    using that unfolding submit_thumbnails_def
    by (induction xs arbitrary: t) (auto simp: submit_thumbnail_download_def submit_tracked split: option.splits)
  show ?case
  proof (cases "a = m")
    case True
    have "tracked (thumbnail_key uid ep (sm_message_id m)) (cs_downloads ?s)"
      using True Cons.prems
      by (auto simp: submit_thumbnail_download_def submit_def spawn_def tracked_def MAX_TRACKED_DOWNLOADS_def MAX_BACKGROUND_TRACKED_DOWNLOADS_def)
    then show ?thesis unfolding unfold by (rule keep)
  next
    case False
    then have "m \<in> set ms" using Cons.prems(1) by simp
    moreover have "length (dm_entries (cs_downloads ?s)) + length ms < MAX_BACKGROUND_TRACKED_DOWNLOADS"
      using len Cons.prems(5) by simp
    ultimately show ?thesis unfolding unfold using Cons.IH Cons.prems(2) step by blast
  qed
qed simp


subsection \<open>Runs of the examples\<close>

text \<open>A picture that could not be sent and has no thumbnail yet, in a conversation that has been read.\<close>

definition photo_row :: message_row where
  "photo_row = local_row 1 3 (example_new\<lparr>n_message_type := 2\<rparr>) 77 100"

definition photo_db :: message_db where
  "photo_db = insert_message photo_row empty_db"

definition photo_message :: stored_message where
  "photo_message = stored_message_from_row photo_db photo_row"

definition photo_state :: command_state where
  "photo_state = \<lparr>rw_db = photo_db, rw_cache = fst (query_timeline_snapshot 7 1 5 0 photo_db fresh_cache), rw_repairs = no_repairs,
     rw_events = [], rw_requests = 0, cs_uid = Some ''3'', cs_bootstrapped = True, cs_epoch = 1, cs_kicks = 0,
     cs_downloads = new_manager\<rparr>"

definition photo_env :: command_env where
  "photo_env = \<lparr>ce_now = 200, ce_clock = 0, ce_commit = None, ce_fresh_id = Inr 5, ce_media = text_only\<rparr>"

lemma photo_row_fields [simp]:
  "m_id photo_row = 1" "m_channel_id photo_row = 7" "m_channel_type photo_row = 1" "m_server_message_id photo_row = None"
  "m_local_message_id photo_row = 77" "m_status photo_row = 3" "m_content photo_row = ''hi''" "m_extra photo_row = ''{}''"
  "m_type photo_row = 2" "m_thumb_status photo_row = 0"
  by (simp_all add: photo_row_def local_row_def example_new_def)

lemma photo_messages [simp]: "messages photo_db = [photo_row]" "extras photo_db = []" "outbox photo_db = []" "next_message_id photo_db = 2"
  by (simp_all add: photo_db_def insert_message_def empty_db_def)

lemma photo_found: "by_id 1 photo_row"
  by (simp add: by_id_def)

lemma photo_message_fields [simp]:
  "sm_message_id photo_message = 1" "sm_status photo_message = 3" "sm_message_type photo_message = 2" "sm_thumb_status photo_message = 0"
  "sm_content photo_message = ''hi''" "sm_extra photo_message = ''{}''"
  by (simp_all add: photo_message_def stored_message_from_row_def Let_def as_u64_def)

lemma photo_listing: "0 < n \<Longrightarrow> list_messages 7 1 n 0 photo_db = [photo_message]"
  by (cases n) (simp_all add: list_messages_def photo_message_def in_channel_def)

lemma photo_cache:
  "tc_pages (rw_cache photo_state) (7, 1) = Some \<lparr>cg_messages = [photo_message], cg_estimated_bytes = 100, cg_has_more_before = False\<rparr>"
  "tc_policy (rw_cache photo_state) = CacheEnabled small_pages"
proof -
  have "kept_messages small_pages [photo_message] = ([photo_message], 100)"
    by (simp add: kept_messages_def small_pages_def at_least_one_def estimate_message_bytes_def Let_def)
  moreover have "query_timeline_snapshot 7 1 5 0 photo_db fresh_cache =
      (store_channel_cache (7, 1) [photo_message] False (fresh_cache\<lparr>tc_misses := sat_succ (tc_misses fresh_cache)\<rparr>),
       snapshot_of [photo_message] False False)"
    by (rule uncached_query) (simp_all add: snapshot_from_cache_def fresh_parts photo_listing cap_of_def)
  ultimately show
    "tc_pages (rw_cache photo_state) (7, 1) = Some \<lparr>cg_messages = [photo_message], cg_estimated_bytes = 100, cg_has_more_before = False\<rparr>"
    "tc_policy (rw_cache photo_state) = CacheEnabled small_pages"
    using stored_page_stays [of "fresh_cache\<lparr>tc_misses := sat_succ (tc_misses fresh_cache)\<rparr>" small_pages "[photo_message]" "[photo_message]" 100 "(7, 1)" False]
    by (simp_all add: photo_state_def fresh_parts small_pages_def)
qed

lemma photo_uid: "uid_required photo_state = Inr ''3''" "rw_db photo_state = photo_db"
  by (simp_all add: uid_required_def current_uid_required_def photo_state_def)

theorem retry_shows_the_old_status_witness:
  "let (s1, r) = cmd_enqueue_outbound_message photo_env 1 ''hi'' photo_state;
       (s2, shown) = cmd_query_timeline_snapshot 7 1 5 0 s1
   in r = Inr 1 \<and> (\<exists>stored. get_message_by_id 1 (rw_db s1) = Some stored \<and> sm_status stored = 1) \<and>
      (\<exists>snap. shown = Inr snap \<and> photo_message \<in> set (tn_messages snap)) \<and> sm_status photo_message = 3"
proof -
  have "snd (outbox_enqueue (ce_commit photo_env) (ce_now photo_env) 1 ''message'' 0 ''hi'' None (rw_db photo_state)) = Inr ()"
    by (simp add: outbox_enqueue_def in_tx_def snowflake_of_def photo_uid photo_found Let_def upsert_outbox_def photo_env_def update_message_def)
  from retry_shows_the_old_status [OF photo_uid(1) photo_cache(2,1) _ _ _ this, of photo_message 5] show ?thesis
    by (auto simp: cap_of_def Let_def split: prod.splits)
qed


theorem commands_never_leave_stale_pages_witness:
  "let s' = run_message_command photo_env (EditMessage 1 ''hello'' 300) photo_state
   in page_current (rw_db s') 7 1 (tn_messages (snd (query_timeline_snapshot 7 1 5 0 (rw_db s') (rw_cache s'))))"
proof -
  have inv: "store_inv (rw_db photo_state)" by (simp add: store_inv_def photo_uid unique_server_ids_def)
  have "cache_current photo_db fresh_cache" by (simp add: cache_current_def fresh_parts)
  from query_current [OF this] have cur: "cache_current (rw_db photo_state) (rw_cache photo_state)" by (simp add: photo_state_def)
  show ?thesis
    using commands_never_leave_stale_pages [OF inv cur, of "EditMessage 1 ''hello'' 300" photo_env]
    by (simp add: Let_def)
qed

end
