(* ===== verification/Spec2Isabelle.thy ===== *)
theory Spec2Isabelle
  imports Prelude Rust_Text Error_Model Session_State Sync_Coordinator Receive_Pipeline
    Chunk_Upload Json_Value Canonical_Inbound Message_Store Outbox_Store Channel_Store Outbox_Drain Account_Store Connection_Actor
    Live_Session Session_Ownership Side_Tables Directory_Store Timeline_Sync Entity_Apply Entity_Sync Inbound_Frames
    Timeline_Cache Download_Manager Media_Names Media_Transfer Repair_Queue Message_Commands
begin

text \<open>
  A verification development for the core of \<open>privchat-sdk\<close>, the client of a messenger
  (\<open>src/crates/privchat-sdk/src\<close>, files below relative to it). One actor (\<open>lib.rs\<close>, \<open>actor_loop\<close> and
  \<open>State\<close>) owns the session. It takes commands from the host, frames from the transport and ticks from
  timers, keeps its data in the local store (\<open>local_store.rs\<close>), and tells the host through events.

  \<^bold>\<open>Parts and theories.\<close>

  \<^item> \<^bold>\<open>Prelude\<close>: lists, maps and words. \<open>Rust_Text\<close>, \<open>Json_Value\<close>: what the code uses of Rust strings and of
    \<open>serde_json\<close>, with the \<open>json_get_\<close> readers and id parsers of \<open>lib.rs\<close>.
  \<^item> \<^bold>\<open>Errors and session\<close>: \<open>Error_Model\<close> (\<open>error_codes.rs\<close>, \<open>Error\<close> and its classifications), \<open>Session_State\<close>
    (\<open>SessionState\<close>, plans, gates, the authentication retry), \<open>Connection_Actor\<close> (connect, authenticate, login,
    reconnect, logout, health check, retry timer and account switch as operations on one actor state),
    \<open>Live_Session\<close> (every sequence of them: an authenticated session hears; its losses), \<open>Session_Ownership\<close>
    (the retry driver, epochs, switching).
  \<^item> \<^bold>\<open>Store\<close>: \<open>Message_Store\<close> (rows of \<open>message\<close> and \<open>message_extra\<close>, upserts, revocation, listing),
    \<open>Outbox_Store\<close> (the queue of commands and local edits), \<open>Side_Tables\<close> and \<open>Directory_Store\<close> (users, friends,
    blocks, groups, members, reactions, mentions, reminders), \<open>Channel_Store\<close> (conversations, previews, unread
    counts), \<open>Account_Store\<close> (credentials, bootstrap mark, account registry). A table is a list of records in the
    order of the row ids; a statement of SQL is an update, delete or upsert on it, a transaction is \<open>in_tx\<close>, whose
    commit may fail.
  \<^item> \<^bold>\<open>Receiving\<close>: \<open>Canonical_Inbound\<close> (\<open>canonical_inbound.rs\<close>), \<open>Receive_Pipeline\<close> (\<open>receive_pipeline.rs\<close>,
    \<open>sync_commit_applier.rs\<close>), \<open>Entity_Apply\<close> (\<open>apply_sync_entities\<close> with every family), \<open>Inbound_Frames\<close>
    (\<open>handle_inbound_frame\<close>, the buffer before the login), \<open>Sync_Coordinator\<close> (\<open>sync_coordinator.rs\<close>),
    \<open>Entity_Sync\<close> (paged sync, cursors, resume, bootstrap), \<open>Timeline_Sync\<close> (difference catch-up, history,
    anti-entropy).
  \<^item> \<^bold>\<open>Sending\<close>: \<open>Outbox_Drain\<close> (\<open>drain_outbound_queues\<close>), \<open>Chunk_Upload\<close> (\<open>resumable_upload.rs\<close>).
  \<^item> \<^bold>\<open>Showing\<close>: \<open>Timeline_Cache\<close> (\<open>query_timeline_snapshot\<close> and its page cache), \<open>Repair_Queue\<close> (damaged rows found by
    a read, mended by a tick), \<open>Message_Commands\<close> (the arms of \<open>actor_loop\<close> that read and change messages, and the
    thumbnails they ask for).
  \<^item> \<^bold>\<open>Media\<close>: \<open>Media_Names\<close> (\<open>media_store.rs\<close>), \<open>Download_Manager\<close> and \<open>Media_Transfer\<close> (\<open>media_download.rs\<close>,
    \<open>attachment_crypto.rs\<close>).

  \<^bold>\<open>How they fit.\<close> \<open>Inbound_Frames\<close>, \<open>Timeline_Sync\<close> and \<open>Entity_Sync\<close> turn what the server sends into items; the
  pipeline drops duplicates; \<open>Entity_Apply\<close> writes them with the operations of the store theories. \<open>Message_Commands\<close> and
  \<open>Outbox_Drain\<close> write to the same tables from the other side. \<open>Connection_Actor\<close> decides when any of this may run.
  Each theory states its data as records and datatypes with the names of the code, one definition per function, and
  an error as a value of \<open>sdk_error\<close>; a Rust \<open>Result\<close> is \<open>sdk_error + 'a\<close>. A function that mutates and may fail returns
  the new state with the result, so that what was written before an error stays visible.

  \<^bold>\<open>What is proved.\<close> Invariants of the tables and of the actor along every sequence of operations (message ids, ghost
  messages, typed directory rows, a hearing session, pages that are current); what a drain, an upload, a download
  or a sync accounts for, with every failure in between; agreement of views (push, history and sync of one message,
  buffered and direct frames, counters and exact counts, orders of arrival); bounds on what is kept and asked
  (cache, repair queue, downloads, catch-up, retries). Theorems of kind \<open>error\<close> show behaviour that falls short of
  what the code or its comments intend.

  \<^bold>\<open>Locales.\<close> The contracts the proofs share, each interpreted on the model: the queue of commands (\<open>Outbox_Store\<close>) and
  of batches (\<open>Receive_Pipeline\<close>), rows that the newest version wins (\<open>Directory_Store\<close>), items that keep an invariant
  of the database (\<open>Entity_Apply\<close>), the gate with its back-off (\<open>Sync_Coordinator\<close>), drivers of the authentication
  retry (\<open>Session_State\<close>, \<open>Live_Session\<close>), what a program of server calls leaves as it was (\<open>Timeline_Sync\<close>) and counting
  semaphores (\<open>Download_Manager\<close>).

  \<^bold>\<open>Bounds and fuel.\<close> Recursion is structural or has a measure. The numbers of pages and rounds are those of the code
  (64 pages of a family, the rounds of a catch-up, 5 repairs in a tick, 3 tries for a thumbnail), so none of them
  is fuel that could run out. Loops over what arrives (frames, chunks, server answers) recurse over the list of
  arrivals; a list that ends early is a task that was killed. Machine integers are words where they wrap or saturate;
  counters that stay far below their width are naturals, which the theory says.

  \<^bold>\<open>Parameters.\<close> Answers of server, transport and disk, clocks, random numbers, ciphers, and the decoders of the
  external crates (\<open>privchat-protocol\<close>, \<open>serde\<close>, \<open>rusqlite\<close>, \<open>sled\<close>, \<open>reqwest\<close>, AES-GCM, base64, SHA-256) are arguments.
  What a theorem needs of them is a hypothesis of it, met by a concrete function in its witness.

  \<^bold>\<open>Not modelled.\<close> The FFI bindings (conversions of generated types), \<open>storage_actor.rs\<close> (one forwarding command for each
  store operation), the examples and tests; \<open>avatar_cache.rs\<close>, directory creation and display names; the preparation of
  an attachment before its upload (\<open>process_outbound_file\<close>) and the records of resumable uploads; the commands of the
  actor loop that only forward to one operation of the store or to one request of the server; refresh tokens and the key of the database; read faults of \<open>sled\<close>; the switch for load tests, tracing and
  timing marks; the preemption of the convergence tick and the interleaving of an aborted task with its last write.
\<close>

end
